(* ===== verification/Prelude.thy ===== *)
theory Prelude
  imports Complex_Main "HOL-Library.AList" "HOL-Library.Char_ord" "HOL-Library.List_Lexorder"
begin

section \<open>Prelude: numbers, strings, dictionaries and results\<close>

text \<open>
  What every component shares: exact rationals for the Python floats of the code, the string
  methods the code calls (on ASCII strings), insertion-ordered dictionaries as association
  lists, error values, and the floor and rounding helpers.  The collections
  \<open>inv_intros\<close> and \<open>num_simps\<close> gather the rules the component proofs share.
\<close>

named_theorems inv_intros
named_theorems num_simps

subsection \<open>Numbers and times\<close>

text \<open>
  A float of the code is an exact rational: rounding of binary floats is not modelled, and the
  tolerances of the code (\<open>1e-9\<close> and the like) are kept as written.  A local date and time
  is its number of microseconds since the midnight of a Monday, so the time of day is that number modulo
  the length of a day.
\<close>

type_synonym num = rat
type_synonym datetime = int

definition day_us :: int where
  "day_us = 24 * 60 * 60 * 1000000"

definition time_of_day :: "datetime \<Rightarrow> int" where
  "time_of_day t = t mod day_us"

definition day_of :: "datetime \<Rightarrow> int" where
  "day_of t = t div day_us"

definition hms :: "int \<Rightarrow> int \<Rightarrow> int \<Rightarrow> int" where
  "hms h m s = ((h * 60 + m) * 60 + s) * 1000000"

lemma time_of_day_bounds: "0 \<le> time_of_day t" "time_of_day t < day_us"
  by (simp_all add: time_of_day_def day_us_def)

lemma day_time_split: "t = day_of t * day_us + time_of_day t"
  by (simp add: day_of_def time_of_day_def)

text \<open>Python's float remainder, and \<open>round\<close> to the nearest integer (ties to even).\<close>

definition py_fmod :: "num \<Rightarrow> num \<Rightarrow> num" where
  "py_fmod x m = x - m * of_int \<lfloor>x / m\<rfloor>"

definition py_round :: "num \<Rightarrow> int" where
  "py_round x = (let f = \<lfloor>x\<rfloor>; d = x - of_int f in
     if d < 1/2 then f else if d > 1/2 then f + 1 else if even f then f else f + 1)"

lemma py_fmod_eq_0_iff: "m > 0 \<Longrightarrow> py_fmod x m = 0 \<longleftrightarrow> (\<exists>k. x = m * of_int k)"
proof
  assume "m > 0" "py_fmod x m = 0"
  then have "x = m * of_int \<lfloor>x / m\<rfloor>" by (simp add: py_fmod_def)
  then show "\<exists>k. x = m * of_int k" by blast
qed (auto simp: py_fmod_def)

lemma py_round_of_int [simp]: "py_round (of_int k) = k"
  by (simp add: py_round_def)

subsection \<open>Lot arithmetic\<close>

text \<open>\<open>is_lots lot v\<close>: the volume is a whole number of board lots.\<close>

definition is_lots :: "int \<Rightarrow> num \<Rightarrow> bool" where
  "is_lots lot v \<longleftrightarrow> v = of_int (\<lfloor>v / of_int lot\<rfloor> * lot)"

lemma is_lots_iff: "lot > 0 \<Longrightarrow> is_lots lot v \<longleftrightarrow> (\<exists>k. v = of_int (k * lot))"
proof
  assume "lot > 0" "\<exists>k. v = of_int (k * lot)"
  then obtain k where "v = of_int (k * lot)" by blast
  with \<open>lot > 0\<close> show "is_lots lot v" by (simp add: is_lots_def)
qed (auto simp: is_lots_def)

lemma is_lots_add: "lot > 0 \<Longrightarrow> is_lots lot a \<Longrightarrow> is_lots lot b \<Longrightarrow> is_lots lot (a + b)"
  unfolding is_lots_iff by (metis distrib_right of_int_add)

lemma is_lots_diff: "lot > 0 \<Longrightarrow> is_lots lot a \<Longrightarrow> is_lots lot b \<Longrightarrow> is_lots lot (a - b)"
  unfolding is_lots_iff by (metis left_diff_distrib of_int_diff)

lemma is_lots_0 [simp]: "lot > 0 \<Longrightarrow> is_lots lot 0"
  by (auto simp: is_lots_iff intro: exI [of _ 0])

lemma is_lots_pos_ge:
  assumes "lot > 0" "is_lots lot v" "v > 0"
  shows "of_int lot \<le> v"
proof -
  from assms obtain k where k: "v = of_int (k * lot)" by (auto simp: is_lots_iff)
  with assms have "0 < k * lot" by linarith
  with assms have "k \<ge> 1" by (simp add: zero_less_mult_iff)
  with assms have "lot \<le> k * lot" by simp
  with k show ?thesis by (metis of_int_le_iff)
qed

lemma floor_lots_le: "lot > 0 \<Longrightarrow> of_int (\<lfloor>v / of_int lot\<rfloor> * lot) \<le> (v :: num)"
proof -
  assume "lot > 0"
  moreover have "of_int \<lfloor>v / of_int lot\<rfloor> \<le> v / (of_int lot :: num)" by linarith
  ultimately have "of_int \<lfloor>v / of_int lot\<rfloor> * of_int lot \<le> v"
    by (metis of_int_0_less_iff pos_le_divide_eq)
  then show ?thesis by simp
qed

lemma floor_lots_gt: "lot > 0 \<Longrightarrow> (v :: num) < of_int (\<lfloor>v / of_int lot\<rfloor> * lot) + of_int lot"
proof -
  assume "lot > 0"
  moreover have "v / (of_int lot :: num) < of_int \<lfloor>v / of_int lot\<rfloor> + 1" by linarith
  ultimately have "v < (of_int \<lfloor>v / of_int lot\<rfloor> + 1) * of_int lot"
    by (metis of_int_0_less_iff pos_divide_less_eq)
  then show ?thesis by (simp add: algebra_simps)
qed

subsection \<open>Strings\<close>

text \<open>The string methods of the code on ASCII strings.\<close>

definition is_digit :: "char \<Rightarrow> bool" where
  "is_digit c \<longleftrightarrow> 48 \<le> (of_char c :: nat) \<and> (of_char c :: nat) \<le> 57"

definition is_lower :: "char \<Rightarrow> bool" where
  "is_lower c \<longleftrightarrow> 97 \<le> (of_char c :: nat) \<and> (of_char c :: nat) \<le> 122"

definition is_upper :: "char \<Rightarrow> bool" where
  "is_upper c \<longleftrightarrow> 65 \<le> (of_char c :: nat) \<and> (of_char c :: nat) \<le> 90"

definition is_alnum :: "char \<Rightarrow> bool" where
  "is_alnum c \<longleftrightarrow> is_digit c \<or> is_lower c \<or> is_upper c"

definition is_space :: "char \<Rightarrow> bool" where
  "is_space c \<longleftrightarrow> (of_char c :: nat) \<in> {9, 10, 11, 12, 13, 28, 29, 30, 31, 32}"

definition to_upper :: "char \<Rightarrow> char" where
  "to_upper c = (if is_lower c then char_of ((of_char c :: nat) - 32) else c)"

definition to_lower :: "char \<Rightarrow> char" where
  "to_lower c = (if is_upper c then char_of ((of_char c :: nat) + 32) else c)"

definition str_upper :: "string \<Rightarrow> string" where
  "str_upper s = map to_upper s"

definition str_lower :: "string \<Rightarrow> string" where
  "str_lower s = map to_lower s"

definition str_strip :: "string \<Rightarrow> string" where
  "str_strip s = rev (dropWhile is_space (rev (dropWhile is_space s)))"

definition str_isdigit :: "string \<Rightarrow> bool" where
  "str_isdigit s \<longleftrightarrow> s \<noteq> [] \<and> list_all is_digit s"

definition starts_with :: "string \<Rightarrow> string \<Rightarrow> bool" where
  "starts_with p s \<longleftrightarrow> take (length p) s = p"

text \<open>\<open>a or b\<close> on strings.\<close>

definition or_text :: "string \<Rightarrow> string \<Rightarrow> string" where
  "or_text s d = (if s \<noteq> [] then s else d)"

text \<open>\<open>s.split(c, 1)\<close> and \<open>s.partition(c)\<close> on a separator of one character.\<close>

definition split_once :: "char \<Rightarrow> string \<Rightarrow> string \<times> string" where
  "split_once c s = (takeWhile (\<lambda>x. x \<noteq> c) s, tl (dropWhile (\<lambda>x. x \<noteq> c) s))"

lemma takeWhile_sep: "c \<notin> set a \<Longrightarrow> takeWhile (\<lambda>x. x \<noteq> c) (a @ c # b) = a"
  by (induction a) auto

lemma split_once_append: "c \<notin> set a \<Longrightarrow> split_once c (a @ c # b) = (a, b)"
  by (induction a) (auto simp: split_once_def)

lemma starts_with_append [simp]: "starts_with p (p @ s)"
  by (simp add: starts_with_def)

lemma str_strip_id: "list_all (\<lambda>c. \<not> is_space c) s \<Longrightarrow> str_strip s = s"
proof -
  assume ns: "list_all (\<lambda>c. \<not> is_space c) s"
  have *: "dropWhile is_space xs = xs" if "list_all (\<lambda>c. \<not> is_space c) xs" for xs
    using that by (cases xs) auto
  from ns have "list_all (\<lambda>c. \<not> is_space c) (rev s)" by (simp add: list_all_iff)
  with ns * show ?thesis by (simp add: str_strip_def)
qed

lemma str_upper_id: "list_all (\<lambda>c. \<not> is_lower c) s \<Longrightarrow> str_upper s = s"
  unfolding str_upper_def by (rule map_idI) (auto simp: list_all_iff to_upper_def)

lemma is_digit_facts:
  assumes "is_digit c"
  shows "\<not> is_space c" "\<not> is_lower c" "\<not> is_upper c" "is_alnum c" "c \<noteq> CHR 0x20"
    "c \<noteq> CHR ''.''" "c \<noteq> CHR ''-''" "c \<noteq> CHR ''_''" "c \<noteq> CHR ''S''" "c \<noteq> CHR ''B''"
  using assms by (auto simp: is_digit_def is_space_def is_lower_def is_upper_def is_alnum_def)

lemma is_upper_facts:
  assumes "is_upper c"
  shows "\<not> is_space c" "\<not> is_lower c" "is_alnum c" "c \<noteq> CHR 0x20"
    "c \<noteq> CHR ''.''" "c \<noteq> CHR ''-''" "c \<noteq> CHR ''_''"
  using assms by (auto simp: is_digit_def is_space_def is_lower_def is_upper_def is_alnum_def)

lemma dot_facts: "\<not> is_space (CHR ''.'')" "\<not> is_lower (CHR ''.'')" "CHR ''.'' \<noteq> CHR 0x20"
  by (simp_all add: is_space_def is_lower_def)

lemma symbol_char_facts:
  assumes "is_digit c \<or> is_upper c \<or> c = CHR ''.''"
  shows "\<not> is_space c" "\<not> is_lower c" "c \<noteq> CHR 0x20"
  using assms is_digit_facts(1,2,5) is_upper_facts(1,2,4) dot_facts by blast+

subsection \<open>Numbers as text\<close>

text \<open>
  The formats of the code's messages: decimal digits, a fixed number of decimals, a percentage, and
  the plain rendering of a float, which is its decimal expansion to 17 places without trailing
  zeros (exponent notation is not modelled).
\<close>

fun nat_digits :: "nat \<Rightarrow> string" where
  "nat_digits n = (if n < 10 then [char_of (48 + n)]
     else nat_digits (n div 10) @ [char_of (48 + n mod 10)])"

declare nat_digits.simps [simp del]

definition int_text :: "int \<Rightarrow> string" where
  "int_text i = (if i < 0 then ''-'' else []) @ nat_digits (nat \<bar>i\<bar>)"

definition fixed_text :: "nat \<Rightarrow> num \<Rightarrow> string" where
  "fixed_text d x = (let s = nat_digits (nat (py_round (\<bar>x\<bar> * 10 ^ d)));
       s' = replicate (Suc d - length s) (CHR ''0'') @ s; k = length s' - d
     in (if x < 0 then ''-'' else []) @ take k s' @ (if d = 0 then [] else ''.'' @ drop k s'))"

definition pct_text :: "nat \<Rightarrow> num \<Rightarrow> string" where
  "pct_text d x = fixed_text d (x * 100) @ ''%''"

definition num_text :: "num \<Rightarrow> string" where
  "num_text x = (let s = rev (dropWhile (\<lambda>c. c = CHR ''0'') (rev (fixed_text 17 x)))
     in if last s = CHR ''.'' then s @ ''0'' else s)"

lemma nat_digits_are_digits: "c \<in> set (nat_digits n) \<Longrightarrow> is_digit c"
proof (induction n rule: nat_digits.induct)
  case (1 n)
  then show ?case
    by (cases "n < 10") (auto simp: nat_digits.simps [of n] is_digit_def)
qed

lemma nat_digits_nonempty [simp]: "nat_digits n \<noteq> []"
  by (simp add: nat_digits.simps [of n])

lemma nat_digits_inj: "nat_digits m = nat_digits n \<Longrightarrow> m = n"
proof (induction m arbitrary: n rule: nat_digits.induct)
  case (1 m)
  have char: "char_of (48 + a) = (char_of (48 + b) :: char) \<Longrightarrow> a = b" if "a < 10" "b < 10" for a b :: nat
  proof -
    assume "char_of (48 + a) = (char_of (48 + b) :: char)"
    then have "of_char (char_of (48 + a) :: char) = (of_char (char_of (48 + b) :: char) :: nat)" by simp
    with that show "a = b" by simp
  qed
  show ?case
  proof (cases "m < 10")
    case True
    with "1.prems" nat_digits_nonempty have "n < 10"
      by (auto simp: nat_digits.simps [of m] nat_digits.simps [of n] append_eq_Cons_conv Cons_eq_append_conv
          split: if_splits)
    with True "1.prems" char show ?thesis by (simp add: nat_digits.simps [of m] nat_digits.simps [of n])
  next
    case False
    with "1.prems" nat_digits_nonempty have n: "\<not> n < 10"
      by (auto simp: nat_digits.simps [of m] nat_digits.simps [of n] append_eq_Cons_conv Cons_eq_append_conv
          split: if_splits)
    with False "1.prems" have "nat_digits (m div 10) = nat_digits (n div 10)"
      "char_of (48 + m mod 10) = (char_of (48 + n mod 10) :: char)"
      by (simp_all add: nat_digits.simps [of m] nat_digits.simps [of n])
    with "1.IH" [OF False] char have "m div 10 = n div 10" "m mod 10 = n mod 10" by simp_all
    then show ?thesis by (metis div_mult_mod_eq)
  qed
qed

subsection \<open>Dictionaries\<close>

text \<open>
  A Python dict keeps insertion order: storing at a present key replaces the value in place,
  storing at a new key appends, which is what \<open>AList.update\<close> does.
\<close>

abbreviation dict_set :: "'k \<Rightarrow> 'v \<Rightarrow> ('k \<times> 'v) list \<Rightarrow> ('k \<times> 'v) list" where
  "dict_set \<equiv> AList.update"

abbreviation dict_del :: "'k \<Rightarrow> ('k \<times> 'v) list \<Rightarrow> ('k \<times> 'v) list" where
  "dict_del \<equiv> AList.delete"

abbreviation dict_vals :: "('k \<times> 'v) list \<Rightarrow> 'v list" where
  "dict_vals d \<equiv> map snd d"

abbreviation dict_ok :: "('k \<times> 'v) list \<Rightarrow> bool" where
  "dict_ok d \<equiv> distinct (map fst d)"

lemmas dict_conv = AList.update_conv' AList.delete_conv'

lemma dict_ok_set [simp]: "dict_ok d \<Longrightarrow> dict_ok (dict_set k v d)"
  by (rule AList.distinct_update)

lemma dict_ok_del [simp]: "dict_ok d \<Longrightarrow> dict_ok (dict_del k d)"
  by (rule AList.distinct_delete)

lemma dict_set_mem: "dict_ok d \<Longrightarrow> (k', v') \<in> set (dict_set k v d) \<longleftrightarrow>
  (if k' = k then v' = v else (k', v') \<in> set d)"
proof -
  assume ok: "dict_ok d"
  then have "(k', v') \<in> set (dict_set k v d) \<longleftrightarrow> map_of (dict_set k v d) k' = Some v'" by simp
  also have "\<dots> \<longleftrightarrow> (if k' = k then v' = v else map_of d k' = Some v')"
    by (auto simp: AList.update_conv')
  finally show ?thesis using ok by simp
qed

lemma dict_del_mem: "(k', v') \<in> set (dict_del k d) \<longleftrightarrow> k' \<noteq> k \<and> (k', v') \<in> set d"
  by (auto simp: AList.delete_eq)

lemma dict_mem_iff: "dict_ok d \<Longrightarrow> (k, v) \<in> set d \<longleftrightarrow> map_of d k = Some v"
  by simp

text \<open>A bounded deque: appending to a full one drops the oldest entries.\<close>

definition deque_append :: "nat \<Rightarrow> 'a \<Rightarrow> 'a list \<Rightarrow> 'a list" where
  "deque_append cap x xs = (let ys = xs @ [x] in drop (length ys - cap) ys)"

lemma deque_append_length: "length xs \<le> cap \<Longrightarrow> length (deque_append cap x xs) \<le> cap"
  by (simp add: deque_append_def Let_def)

subsection \<open>Errors and stateful results\<close>

text \<open>
  A raise is a value: \<open>Inl\<close> of an exception (\<open>PyError\<close> is any other class, by its name).  A stateful operation that may raise returns the
  result and the state reached when it returned or raised.
\<close>

datatype exn =
    ValueError string
  | RuntimeError string
  | IllegalTransition string string string
  | GatewayError string
  | PyError string string

type_synonym ('s, 'a) op = "'s \<Rightarrow> (exn + 'a) \<times> 's"

definition op_bind :: "('s, 'a) op \<Rightarrow> ('a \<Rightarrow> ('s, 'b) op) \<Rightarrow> ('s, 'b) op" where
  "op_bind m f s = (case m s of (Inl e, s') \<Rightarrow> (Inl e, s') | (Inr a, s') \<Rightarrow> f a s')"

definition op_then :: "('s, 'a) op \<Rightarrow> ('s, 'b) op \<Rightarrow> ('s, 'b) op" where
  "op_then m k = op_bind m (\<lambda>_. k)"

definition op_return :: "'a \<Rightarrow> ('s, 'a) op" where
  "op_return a s = (Inr a, s)"

definition op_raise :: "exn \<Rightarrow> ('s, 'a) op" where
  "op_raise e s = (Inl e, s)"

definition op_modify :: "('s \<Rightarrow> 's) \<Rightarrow> ('s, unit) op" where
  "op_modify f s = (Inr (), f s)"

text \<open>\<open>try: m except e: h(e)\<close>.\<close>

definition op_catch :: "('s, 'a) op \<Rightarrow> (exn \<Rightarrow> ('s, 'a) op) \<Rightarrow> ('s, 'a) op" where
  "op_catch m h s = (case m s of (Inl e, s') \<Rightarrow> h e s' | (Inr a, s') \<Rightarrow> (Inr a, s'))"

text \<open>A Python \<open>for\<close> loop of stateful bodies: the first raise leaves the loop.\<close>

fun op_for :: "'x list \<Rightarrow> ('x \<Rightarrow> ('s, unit) op) \<Rightarrow> ('s, unit) op" where
  "op_for [] f s = (Inr (), s)"
| "op_for (x # xs) f s = (case f x s of (Inl e, s') \<Rightarrow> (Inl e, s') | (Inr _, s') \<Rightarrow> op_for xs f s')"

text \<open>
  A property of the state that an operation keeps, whether it returns or raises.  The rules say
  that sequencing, catching and looping keep what their parts keep.
\<close>

definition keeps :: "('s \<Rightarrow> bool) \<Rightarrow> ('s, 'a) op \<Rightarrow> bool" where
  "keeps P m \<longleftrightarrow> (\<forall>s. P s \<longrightarrow> P (snd (m s)))"

lemma keepsI: "(\<And>s. P s \<Longrightarrow> P (snd (m s))) \<Longrightarrow> keeps P m"
  by (simp add: keeps_def)

lemma keepsD: "keeps P m \<Longrightarrow> P s \<Longrightarrow> P (snd (m s))"
  by (simp add: keeps_def)

lemma keeps_bind: "keeps P m \<Longrightarrow> (\<And>a. keeps P (f a)) \<Longrightarrow> keeps P (op_bind m f)"
  unfolding keeps_def op_bind_def by (fastforce split: prod.splits sum.splits)

lemma keeps_then: "keeps P m \<Longrightarrow> keeps P k \<Longrightarrow> keeps P (op_then m k)"
  unfolding op_then_def by (rule keeps_bind)

lemma keeps_catch: "keeps P m \<Longrightarrow> (\<And>e. keeps P (h e)) \<Longrightarrow> keeps P (op_catch m h)"
  unfolding keeps_def op_catch_def by (fastforce split: prod.splits sum.splits)

lemma keeps_return [simp]: "keeps P (op_return a)"
  by (simp add: keeps_def op_return_def)

lemma keeps_raise [simp]: "keeps P (op_raise e)"
  by (simp add: keeps_def op_raise_def)

lemma keeps_modify: "(\<And>s. P s \<Longrightarrow> P (f s)) \<Longrightarrow> keeps P (op_modify f)"
  by (simp add: keeps_def op_modify_def)

lemma keeps_for: "(\<And>x. keeps P (f x)) \<Longrightarrow> keeps P (op_for xs f)"
proof (induction xs)
  case Nil
  then show ?case by (simp add: keeps_def)
next
  case (Cons x xs)
  show ?case
  proof (rule keepsI)
    fix s
    assume "P s"
    then have "P (snd (f x s))" by (rule keepsD [OF Cons.prems])
    with keepsD [OF Cons.IH [OF Cons.prems]] show "P (snd (op_for (x # xs) f s))"
      by (auto split: prod.splits sum.splits)
  qed
qed

lemmas keeps_rules = keeps_bind keeps_then keeps_catch keeps_return keeps_raise keeps_modify keeps_for

subsection \<open>Dictionaries built from rows, and dictionaries of numbers\<close>

text \<open>\<open>d.get(k, 0.0)\<close>, and a dict comprehension.\<close>

definition dget :: "('k \<times> num) list \<Rightarrow> 'k \<Rightarrow> num" where
  "dget d k = (case map_of d k of Some v \<Rightarrow> v | None \<Rightarrow> 0)"

definition dict_of :: "('k \<times> 'v) list \<Rightarrow> ('k \<times> 'v) list" where
  "dict_of rows = fold (\<lambda>(k, v). dict_set k v) rows []"

lemma dget_set: "dget (dict_set k v d) k' = (if k' = k then v else dget d k')"
  by (simp add: dget_def AList.update_conv')

lemma dict_of_ok: "dict_ok (dict_of rows)"
proof -
  have "dict_ok (fold (\<lambda>(k, v). dict_set k v) rows d)" if "dict_ok d" for d
    using that by (induction rows arbitrary: d) auto
  then show ?thesis by (simp add: dict_of_def)
qed

lemma dict_of_keys: "set (map fst (dict_of rows)) = set (map fst rows)"
proof -
  have "set (map fst (fold (\<lambda>(k, v). dict_set k v) rows d)) = set (map fst d) \<union> set (map fst rows)" for d
    by (induction rows arbitrary: d) (simp_all add: split_beta dom_update)
  from this [of "[]"] show ?thesis by (simp add: dict_of_def)
qed

end
