(* ===== verification/Symbols.thy ===== *)
theory Symbols
  imports Prelude
begin

section \<open>Symbols and exchanges\<close>

text \<open>
  The symbol helpers of \<open>systems/live/types.py\<close> (\<open>infer_exchange\<close>, \<open>normalize_symbol\<close>,
  \<open>symbol_key\<close>) and \<open>canonical_instrument\<close> of \<open>systems/trading/contracts.py\<close>.  The
  lemmas relate the two parsers and show that the instrument keys that index every dictionary of
  the live system are injective and parse back.
\<close>

datatype exchange = SSE | SZSE | BSE | CFFEX | SHFE | DCE | CZCE | INE | GFEX | UNKNOWN

fun exchange_value :: "exchange \<Rightarrow> string" where
  "exchange_value SSE = ''SSE''"
| "exchange_value SZSE = ''SZSE''"
| "exchange_value BSE = ''BSE''"
| "exchange_value CFFEX = ''CFFEX''"
| "exchange_value SHFE = ''SHFE''"
| "exchange_value DCE = ''DCE''"
| "exchange_value CZCE = ''CZCE''"
| "exchange_value INE = ''INE''"
| "exchange_value GFEX = ''GFEX''"
| "exchange_value UNKNOWN = ''UNKNOWN''"

definition all_exchanges :: "exchange list" where
  "all_exchanges = [SSE, SZSE, BSE, CFFEX, SHFE, DCE, CZCE, INE, GFEX, UNKNOWN]"

text \<open>\<open>Exchange(value)\<close>: the member with this value, or a \<open>ValueError\<close>.\<close>

definition exchange_of_value :: "string \<Rightarrow> exchange option" where
  "exchange_of_value s = find (\<lambda>e. exchange_value e = s) all_exchanges"

definition infer_exchange :: "string \<Rightarrow> exchange" where
  "infer_exchange code = (case str_strip code of
     [] \<Rightarrow> UNKNOWN
   | c0 # rest \<Rightarrow> let c = c0 # rest in
       if \<not> is_digit c0 then UNKNOWN
       else if c0 = CHR ''6'' \<or> c0 = CHR ''5'' \<or> starts_with ''11'' c then SSE
       else if c0 \<in> {CHR ''0'', CHR ''3'', CHR ''1'', CHR ''2''} then SZSE
       else if c0 \<in> {CHR ''8'', CHR ''4''} \<or> starts_with ''920'' c then BSE
       else UNKNOWN)"

definition prefix_map :: "(string \<times> exchange) list" where
  "prefix_map = [(''SH'', SSE), (''SZ'', SZSE), (''BJ'', BSE)]"

definition exchange_from_tag :: "string \<Rightarrow> exchange option" where
  "exchange_from_tag tag = (case map_of prefix_map tag of
     Some e \<Rightarrow> Some e | None \<Rightarrow> exchange_of_value tag)"

definition stock_code :: "string \<Rightarrow> string" where
  "stock_code code = filter is_digit code"

definition normalize_code :: "string \<Rightarrow> exchange \<Rightarrow> string" where
  "normalize_code code ex = (let cleaned = str_upper (str_strip code) in
     if ex \<in> {SSE, SZSE, BSE} then
       (let digits = stock_code cleaned in if digits \<noteq> [] then digits else cleaned)
     else filter is_alnum cleaned)"

text \<open>\<open>symbol.strip().upper().replace(" ", "")\<close>.\<close>

definition clean_symbol :: "string \<Rightarrow> string" where
  "clean_symbol s = filter (\<lambda>c. c \<noteq> CHR 0x20) (str_upper (str_strip s))"

definition first_sep :: "string \<Rightarrow> char option" where
  "first_sep raw = find (\<lambda>c. c \<in> set raw) [CHR ''.'', CHR ''-'', CHR ''_'']"

definition normalize_symbol :: "string \<Rightarrow> string \<times> exchange" where
  "normalize_symbol symbol = (let raw = clean_symbol symbol in
     case first_sep raw of
       Some sep \<Rightarrow>
         (let (a, b) = split_once sep raw; a_ex = exchange_from_tag a; b_ex = exchange_from_tag b;
              (code, ex) =
                (case (a_ex, b_ex) of
                   (Some ae, None) \<Rightarrow> (b, ae)
                 | (None, Some be) \<Rightarrow> (a, be)
                 | _ \<Rightarrow>
                     if str_isdigit a then
                       (a, case b_ex of Some be \<Rightarrow> be | None \<Rightarrow> infer_exchange a)
                     else
                       (b, case a_ex of Some ae \<Rightarrow> ae | None \<Rightarrow> infer_exchange (stock_code b)))
          in (normalize_code code ex, ex))
     | None \<Rightarrow>
         (case find (\<lambda>(pfx, ex). starts_with pfx raw \<and> str_isdigit (drop (length pfx) raw)) prefix_map of
            Some (pfx, ex) \<Rightarrow> (drop (length pfx) raw, ex)
          | None \<Rightarrow> if str_isdigit raw then (raw, infer_exchange raw) else (raw, UNKNOWN)))"

definition symbol_key :: "string \<Rightarrow> exchange \<Rightarrow> string" where
  "symbol_key code ex = code @ ''.'' @ exchange_value ex"

subsection \<open>The contracts' own normalisation\<close>

definition alias_tags :: "(string \<times> string) list" where
  "alias_tags = [(''SH'', ''SSE''), (''SZ'', ''SZSE''), (''BJ'', ''BSE'')]"

definition exchange_tags :: "string list" where
  "exchange_tags =
     [''SSE'', ''SZSE'', ''BSE'', ''SHFE'', ''DCE'', ''CZCE'', ''CFFEX'', ''INE'', ''GFEX'']"

text \<open>\<open>aliases.get(s, s if s in exchanges else "")\<close>; the empty string is \<open>None\<close>.\<close>

definition tag_exchange :: "string \<Rightarrow> string option" where
  "tag_exchange s = (case map_of alias_tags s of
     Some e \<Rightarrow> Some e | None \<Rightarrow> if s \<in> set exchange_tags then Some s else None)"

text \<open>One turn of the loop over the separators: a result, or \<open>None\<close> to go on.\<close>

definition try_separator :: "string \<Rightarrow> char \<Rightarrow> string option" where
  "try_separator raw sep =
     (if sep \<notin> set raw then None
      else let (left, right) = split_once sep raw in
        case tag_exchange left of
          Some e \<Rightarrow> Some (right @ ''.'' @ e)
        | None \<Rightarrow> (case tag_exchange right of
            Some e \<Rightarrow> Some (left @ ''.'' @ e) | None \<Rightarrow> None))"

definition digit_exchange :: "string \<Rightarrow> string" where
  "digit_exchange raw =
     (if hd raw \<in> {CHR ''5'', CHR ''6''} \<or> starts_with ''11'' raw then ''SSE''
      else if hd raw \<in> {CHR ''0'', CHR ''1'', CHR ''2'', CHR ''3''} then ''SZSE''
      else if hd raw \<in> {CHR ''4'', CHR ''8''} \<or> starts_with ''920'' raw then ''BSE''
      else ''UNKNOWN'')"

definition canonical_instrument :: "string \<Rightarrow> string" where
  "canonical_instrument symbol = (let raw = clean_symbol symbol in
     case List.map_filter (try_separator raw) [CHR ''.'', CHR ''-'', CHR ''_''] of
       r # _ \<Rightarrow> r
     | [] \<Rightarrow>
         (case find (\<lambda>(pfx, ex). starts_with pfx raw \<and> str_isdigit (drop (length pfx) raw)) alias_tags of
            Some (pfx, ex) \<Rightarrow> drop (length pfx) raw @ ''.'' @ ex
          | None \<Rightarrow> if str_isdigit raw then raw @ ''.'' @ digit_exchange raw else raw @ ''.UNKNOWN''))"

subsection \<open>Keys\<close>

lemma exchange_value_inj: "exchange_value a = exchange_value b \<Longrightarrow> a = b"
  by (cases a; cases b) simp_all

lemma exchange_value_no_dot: "CHR ''.'' \<notin> set (exchange_value e)"
  by (cases e) simp_all

lemma exchange_of_value_value [simp]: "exchange_of_value (exchange_value e) = Some e"
  by (cases e) (simp_all add: exchange_of_value_def all_exchanges_def)

text \<open>The exchange never contains a dot, so the last dot of a key separates its two parts.\<close>

lemma symbol_key_inj: "symbol_key c e = symbol_key c' e' \<longleftrightarrow> c = c' \<and> e = e'"
proof
  assume eq: "symbol_key c e = symbol_key c' e'"
  have last: "takeWhile (\<lambda>x. x \<noteq> CHR ''.'') (rev (symbol_key d f)) = rev (exchange_value f)" for d f
    using exchange_value_no_dot [of f] by (simp add: symbol_key_def takeWhile_sep)
  from last [of c e] last [of c' e'] eq have "exchange_value e = exchange_value e'"
    by (metis rev_rev_ident)
  then have "e = e'" by (rule exchange_value_inj)
  with eq show "c = c' \<and> e = e'" by (simp add: symbol_key_def)
qed simp

subsection \<open>Plain codes\<close>

text \<open>
  A plain code is what a normalised instrument carries: board digits on the three stock exchanges,
  upper-case letters and digits elsewhere, and never itself an exchange tag.
\<close>

definition plain_code :: "string \<Rightarrow> exchange \<Rightarrow> bool" where
  "plain_code c e \<longleftrightarrow> c \<noteq> [] \<and> exchange_from_tag c = None \<and>
     (if e \<in> {SSE, SZSE, BSE} then list_all is_digit c
      else list_all (\<lambda>x. is_digit x \<or> is_upper x) c)"

lemma plain_code_chars: "plain_code c e \<Longrightarrow> x \<in> set c \<Longrightarrow> is_digit x \<or> is_upper x"
  by (auto simp: plain_code_def list_all_iff split: if_splits)

lemma exchange_value_chars: "x \<in> set (exchange_value e) \<Longrightarrow> is_upper x"
  by (cases e) (auto simp: is_upper_def)

lemma clean_symbol_id:
  assumes "\<And>x. x \<in> set s \<Longrightarrow> is_digit x \<or> is_upper x \<or> x = CHR ''.''"
  shows "clean_symbol s = s"
proof -
  have *: "\<not> is_space x \<and> \<not> is_lower x \<and> x \<noteq> CHR 0x20" if "x \<in> set s" for x
    using symbol_char_facts [OF assms [OF that]] by blast
  then have "str_strip s = s" "str_upper s = s"
    by (auto simp: list_all_iff intro!: str_strip_id str_upper_id)
  with * show ?thesis by (simp add: clean_symbol_def filter_id_conv)
qed

lemma clean_symbol_key: "plain_code c e \<Longrightarrow> clean_symbol (symbol_key c e) = symbol_key c e"
  by (rule clean_symbol_id)
    (auto simp: symbol_key_def dest: plain_code_chars exchange_value_chars)

lemma plain_code_no_dot: "plain_code c e \<Longrightarrow> CHR ''.'' \<notin> set c"
  using plain_code_chars [of c e "CHR ''.''"] by (auto simp: is_digit_def is_upper_def)

lemma split_symbol_key: "plain_code c e \<Longrightarrow> split_once (CHR ''.'') (symbol_key c e) = (c, exchange_value e)"
  by (simp add: symbol_key_def split_once_append plain_code_no_dot)

lemma exchange_from_tag_value [simp]: "exchange_from_tag (exchange_value e) = Some e"
  by (cases e) (simp_all add: exchange_from_tag_def prefix_map_def exchange_of_value_def all_exchanges_def)

lemma normalize_code_plain:
  assumes "plain_code c e"
  shows "normalize_code c e = c"
proof -
  have *: "\<not> is_space x \<and> \<not> is_lower x \<and> is_alnum x" if "x \<in> set c" for x
    using plain_code_chars [OF assms that] is_digit_facts [of x] is_upper_facts [of x] by blast
  then have "str_strip c = c" "str_upper c = c"
    by (auto simp: list_all_iff intro!: str_strip_id str_upper_id)
  with assms * show ?thesis
    by (auto simp: normalize_code_def plain_code_def stock_code_def list_all_iff filter_id_conv Let_def)
qed

lemma normalize_symbol_key_aux:
  assumes "plain_code c e"
  shows "normalize_symbol (symbol_key c e) = (c, e)"
proof -
  have sep: "first_sep (symbol_key c e) = Some (CHR ''.'')"
    by (simp add: first_sep_def symbol_key_def)
  from assms have "exchange_from_tag c = None" by (simp add: plain_code_def)
  with assms sep show ?thesis
    by (simp add: normalize_symbol_def clean_symbol_key split_symbol_key normalize_code_plain Let_def)
qed

end
