(* ===== verification/Live_Types.thy ===== *)
theory Live_Types
  imports Symbols
begin

section \<open>The normalized objects of the live system\<close>

text \<open>
  The enums and dataclasses of \<open>systems/live/types.py\<close>, with their properties and
  constructors.  An attribute of a class has a prefix of two letters (\<open>rq\<close> for a request,
  \<open>od\<close> for an order, and so on), since record fields are global names.
\<close>

subsection \<open>Enums\<close>

datatype direction = LONG | SHORT | NET

datatype offset = ONone | OOpen | OClose | OCloseToday | OCloseYesterday

datatype order_type = LIMIT | MARKET | FAK | FOK

datatype product = EQUITY | FUND | BOND | INDEX | OPTION | FUTURES

datatype order_status = SUBMITTING | NOTTRADED | PARTTRADED | ALLTRADED | CANCELLED | REJECTED

fun direction_value :: "direction \<Rightarrow> string" where
  "direction_value LONG = ''long''"
| "direction_value SHORT = ''short''"
| "direction_value NET = ''net''"

fun offset_value :: "offset \<Rightarrow> string" where
  "offset_value ONone = ''none''"
| "offset_value OOpen = ''open''"
| "offset_value OClose = ''close''"
| "offset_value OCloseToday = ''close_today''"
| "offset_value OCloseYesterday = ''close_yesterday''"

fun order_type_value :: "order_type \<Rightarrow> string" where
  "order_type_value LIMIT = ''limit''"
| "order_type_value MARKET = ''market''"
| "order_type_value FAK = ''fak''"
| "order_type_value FOK = ''fok''"

fun status_value :: "order_status \<Rightarrow> string" where
  "status_value SUBMITTING = ''submitting''"
| "status_value NOTTRADED = ''nottraded''"
| "status_value PARTTRADED = ''parttraded''"
| "status_value ALLTRADED = ''alltraded''"
| "status_value CANCELLED = ''cancelled''"
| "status_value REJECTED = ''rejected''"

fun status_name :: "order_status \<Rightarrow> string" where
  "status_name SUBMITTING = ''SUBMITTING''"
| "status_name NOTTRADED = ''NOTTRADED''"
| "status_name PARTTRADED = ''PARTTRADED''"
| "status_name ALLTRADED = ''ALLTRADED''"
| "status_name CANCELLED = ''CANCELLED''"
| "status_name REJECTED = ''REJECTED''"

definition active_statuses :: "order_status set" where
  "active_statuses = {SUBMITTING, NOTTRADED, PARTTRADED}"

definition is_active :: "order_status \<Rightarrow> bool" where
  "is_active status \<longleftrightarrow> status \<in> active_statuses"

text \<open>A timestamp is naive, or aware of its offset from UTC (in microseconds).\<close>

datatype stamp = Naive datetime | Aware datetime int

fun local_time :: "stamp \<Rightarrow> datetime" where
  "local_time (Naive t) = t"
| "local_time (Aware t _) = t"

subsection \<open>Dataclasses\<close>

record contract =
  ct_code :: string
  ct_exchange :: exchange
  ct_product :: product
  ct_price_tick :: num
  ct_lot_size :: int
  ct_gateway :: string
  ct_settlement_days :: int

definition contract_key :: "contract \<Rightarrow> string" where
  "contract_key c = symbol_key (ct_code c) (ct_exchange c)"

record order_request =
  rq_code :: string
  rq_exchange :: exchange
  rq_direction :: direction
  rq_volume :: num
  rq_price :: num
  rq_type :: order_type
  rq_offset :: offset
  rq_reference :: string

definition rq_key :: "order_request \<Rightarrow> string" where
  "rq_key r = symbol_key (rq_code r) (rq_exchange r)"

definition rq_is_buy :: "order_request \<Rightarrow> bool" where
  "rq_is_buy r \<longleftrightarrow> rq_direction r = LONG"

definition rq_is_sell :: "order_request \<Rightarrow> bool" where
  "rq_is_sell r \<longleftrightarrow> rq_direction r = SHORT"

definition buy_request :: "string \<Rightarrow> exchange \<Rightarrow> num \<Rightarrow> num \<Rightarrow> order_type \<Rightarrow> string \<Rightarrow> order_request" where
  "buy_request code ex volume price type reference =
     \<lparr>rq_code = code, rq_exchange = ex, rq_direction = LONG, rq_volume = volume, rq_price = price,
      rq_type = type, rq_offset = ONone, rq_reference = reference\<rparr>"

definition sell_request :: "string \<Rightarrow> exchange \<Rightarrow> num \<Rightarrow> num \<Rightarrow> order_type \<Rightarrow> string \<Rightarrow> order_request" where
  "sell_request code ex volume price type reference =
     \<lparr>rq_code = code, rq_exchange = ex, rq_direction = SHORT, rq_volume = volume, rq_price = price,
      rq_type = type, rq_offset = ONone, rq_reference = reference\<rparr>"

record cancel_request =
  cr_order_id :: string
  cr_code :: string
  cr_exchange :: exchange

record order =
  od_id :: string
  od_code :: string
  od_exchange :: exchange
  od_direction :: direction
  od_volume :: num
  od_price :: num
  od_type :: order_type
  od_offset :: offset
  od_traded :: num
  od_status :: order_status
  od_gateway :: string
  od_reference :: string
  od_datetime :: "datetime option"
  od_message :: string

definition od_key :: "order \<Rightarrow> string" where
  "od_key ord = symbol_key (od_code ord) (od_exchange ord)"

definition od_remaining :: "order \<Rightarrow> num" where
  "od_remaining ord = max (od_volume ord - od_traded ord) 0"

definition od_is_active :: "order \<Rightarrow> bool" where
  "od_is_active ord \<longleftrightarrow> is_active (od_status ord)"

definition create_cancel :: "order \<Rightarrow> cancel_request" where
  "create_cancel ord = \<lparr>cr_order_id = od_id ord, cr_code = od_code ord, cr_exchange = od_exchange ord\<rparr>"

text \<open>\<open>OrderRequest.create_order\<close>; the current time is an argument.\<close>

definition create_order :: "order_request \<Rightarrow> string \<Rightarrow> string \<Rightarrow> order_status \<Rightarrow> datetime \<Rightarrow> order" where
  "create_order r order_id gateway status now =
     \<lparr>od_id = order_id, od_code = rq_code r, od_exchange = rq_exchange r,
      od_direction = rq_direction r, od_volume = rq_volume r, od_price = rq_price r,
      od_type = rq_type r, od_offset = rq_offset r, od_traded = 0, od_status = status,
      od_gateway = gateway, od_reference = rq_reference r, od_datetime = Some now,
      od_message = []\<rparr>"

record trade =
  td_id :: string
  td_order_id :: string
  td_code :: string
  td_exchange :: exchange
  td_direction :: direction
  td_volume :: num
  td_price :: num
  td_offset :: offset
  td_gateway :: string

definition td_key :: "trade \<Rightarrow> string" where
  "td_key t = symbol_key (td_code t) (td_exchange t)"

record position =
  ps_code :: string
  ps_exchange :: exchange
  ps_direction :: direction
  ps_volume :: num
  ps_yd_volume :: num
  ps_frozen :: num
  ps_price :: num
  ps_pnl :: num
  ps_gateway :: string
  ps_settlement_days :: int

definition ps_key :: "position \<Rightarrow> string" where
  "ps_key p = symbol_key (ps_code p) (ps_exchange p)"

definition ps_available :: "position \<Rightarrow> num" where
  "ps_available p = max (ps_yd_volume p - ps_frozen p) 0"

text \<open>\<open>Position(code, exchange, direction=LONG)\<close> with the dataclass defaults.\<close>

definition new_position :: "string \<Rightarrow> exchange \<Rightarrow> position" where
  "new_position code ex =
     \<lparr>ps_code = code, ps_exchange = ex, ps_direction = LONG, ps_volume = 0, ps_yd_volume = 0,
      ps_frozen = 0, ps_price = 0, ps_pnl = 0, ps_gateway = [], ps_settlement_days = 1\<rparr>"

record account =
  ac_id :: string
  ac_balance :: num
  ac_frozen :: num
  ac_available :: num
  ac_gateway :: string

record tick =
  tk_code :: string
  tk_exchange :: exchange
  tk_datetime :: "stamp option"
  tk_volume :: num
  tk_turnover :: num
  tk_last_price :: num
  tk_open_price :: num
  tk_limit_up :: num
  tk_limit_down :: num
  tk_bid_price_1 :: num
  tk_ask_price_1 :: num
  tk_gateway :: string
  tk_received_at :: "stamp option"

definition tk_key :: "tick \<Rightarrow> string" where
  "tk_key t = symbol_key (tk_code t) (tk_exchange t)"

record log_event =
  lg_msg :: string
  lg_level :: string
  lg_gateway :: string

subsection \<open>Small facts the components share\<close>

lemma is_active_simps [simp]:
  "is_active SUBMITTING" "is_active NOTTRADED" "is_active PARTTRADED"
  "\<not> is_active ALLTRADED" "\<not> is_active CANCELLED" "\<not> is_active REJECTED"
  by (simp_all add: is_active_def active_statuses_def)

lemma od_remaining_nonneg [simp]: "0 \<le> od_remaining ord"
  by (simp add: od_remaining_def)

lemma ps_available_nonneg [simp]: "0 \<le> ps_available p"
  by (simp add: ps_available_def)

lemma new_position_key [simp]: "ps_key (new_position c e) = symbol_key c e"
  by (simp add: ps_key_def new_position_def)

lemma od_key_cong: "od_code ord = od_code ord' \<Longrightarrow> od_exchange ord = od_exchange ord' \<Longrightarrow> od_key ord = od_key ord'"
  by (simp add: od_key_def)

end
