(* ===== verification/FSM.thy ===== *)
theory FSM
  imports Live_Types
begin

section \<open>The guarded state machines\<close>

text \<open>
  The four machines of \<open>systems/live/fsm\<close>: the order lifecycle, the gateway connection, the
  trading session and the run mode with its kill-switch, each an enum, a transition table and the
  guard of \<open>fsm/base.py\<close> that raises on a transition outside the table.
\<close>

subsection \<open>The guard\<close>

text \<open>The message of the exception keeps the label and the two states; the list of permitted
  states that the code appends to it is left out.\<close>

definition check_transition ::
  "('s \<Rightarrow> 's set) \<Rightarrow> ('s \<Rightarrow> string) \<Rightarrow> 's \<Rightarrow> 's \<Rightarrow> string \<Rightarrow> exn + unit" where
  "check_transition allowed name current target label =
     (if target \<in> allowed current then Inr ()
      else Inl (IllegalTransition label (name current) (name target)))"

lemma check_transition_Inr [simp]:
  "check_transition allowed name c t l = Inr u \<longleftrightarrow> t \<in> allowed c"
  by (simp add: check_transition_def)

subsection \<open>Order lifecycle\<close>

fun order_allowed :: "order_status \<Rightarrow> order_status set" where
  "order_allowed SUBMITTING = {SUBMITTING, NOTTRADED, PARTTRADED, ALLTRADED, CANCELLED, REJECTED}"
| "order_allowed NOTTRADED = {NOTTRADED, PARTTRADED, ALLTRADED, CANCELLED, REJECTED}"
| "order_allowed PARTTRADED = {PARTTRADED, ALLTRADED, CANCELLED, REJECTED}"
| "order_allowed ALLTRADED = {}"
| "order_allowed CANCELLED = {}"
| "order_allowed REJECTED = {}"

definition order_terminal :: "order_status set" where
  "order_terminal = {ALLTRADED, CANCELLED, REJECTED}"

definition is_terminal :: "order_status \<Rightarrow> bool" where
  "is_terminal status \<longleftrightarrow> status \<in> order_terminal"

definition can_transition :: "order_status \<Rightarrow> order_status \<Rightarrow> bool" where
  "can_transition current target \<longleftrightarrow> target \<in> order_allowed current"

definition status_for_fill :: "num \<Rightarrow> num \<Rightarrow> order_status" where
  "status_for_fill volume traded =
     (if traded \<le> 0 then NOTTRADED else if traded \<ge> volume then ALLTRADED else PARTTRADED)"

text \<open>\<open>advance\<close> changes the order in place: the order as it is after the call or the raise.\<close>

definition advance :: "order_status \<Rightarrow> num option \<Rightarrow> string \<Rightarrow> (order, unit) op" where
  "advance target traded message ord =
     (case check_transition order_allowed status_name (od_status ord) target ''order'' of
        Inl e \<Rightarrow> (Inl e, ord)
      | Inr _ \<Rightarrow>
          (case traded of
             Some v \<Rightarrow>
               (if v < od_traded ord - 1/1000000000
                then (Inl (IllegalTransition ''traded volume regressed'' (od_id ord) []), ord)
                else
                  (let ord' = ord\<lparr>od_traded := min v (od_volume ord), od_status := target\<rparr>
                   in (Inr (), if message \<noteq> [] then ord'\<lparr>od_message := message\<rparr> else ord')))
           | None \<Rightarrow>
               (let ord' = ord\<lparr>od_status := target\<rparr>
                in (Inr (), if message \<noteq> [] then ord'\<lparr>od_message := message\<rparr> else ord'))))"

lemma is_terminal_iff: "is_terminal s \<longleftrightarrow> \<not> is_active s"
  by (cases s) (simp_all add: is_terminal_def order_terminal_def)

lemma terminal_stuck: "is_terminal s \<Longrightarrow> \<not> can_transition s t"
  by (cases s) (simp_all add: is_terminal_def order_terminal_def can_transition_def)

lemma active_can_refresh: "is_active s \<Longrightarrow> can_transition s s"
  by (cases s) (simp_all add: can_transition_def)

text \<open>Every transition between two different states climbs; the table allows no way back.\<close>

fun status_rank :: "order_status \<Rightarrow> nat" where
  "status_rank SUBMITTING = 0"
| "status_rank NOTTRADED = 1"
| "status_rank PARTTRADED = 2"
| "status_rank ALLTRADED = 3"
| "status_rank CANCELLED = 3"
| "status_rank REJECTED = 3"

lemma can_transition_rank: "can_transition s t \<Longrightarrow> s = t \<or> status_rank s < status_rank t"
  by (cases s; cases t) (simp_all add: can_transition_def)

subsection \<open>Connection\<close>

datatype connection_state = DISCONNECTED | CONNECTING | CONNECTED | LOGGED_IN | CONN_ERROR

fun connection_value :: "connection_state \<Rightarrow> string" where
  "connection_value DISCONNECTED = ''disconnected''"
| "connection_value CONNECTING = ''connecting''"
| "connection_value CONNECTED = ''connected''"
| "connection_value LOGGED_IN = ''logged_in''"
| "connection_value CONN_ERROR = ''error''"

fun connection_allowed :: "connection_state \<Rightarrow> connection_state set" where
  "connection_allowed DISCONNECTED = {CONNECTING}"
| "connection_allowed CONNECTING = {CONNECTED, CONN_ERROR, DISCONNECTED}"
| "connection_allowed CONNECTED = {LOGGED_IN, CONN_ERROR, DISCONNECTED}"
| "connection_allowed LOGGED_IN = {DISCONNECTED, CONN_ERROR}"
| "connection_allowed CONN_ERROR = {CONNECTING, DISCONNECTED}"

text \<open>\<open>ConnectionMachine.transition\<close>; the machine's state is the connection state.\<close>

definition connection_transition :: "connection_state \<Rightarrow> (connection_state, connection_state) op" where
  "connection_transition target st =
     (case check_transition connection_allowed connection_value st target ''connection'' of
        Inl e \<Rightarrow> (Inl e, st) | Inr _ \<Rightarrow> (Inr target, target))"

definition connection_is_ready :: "connection_state \<Rightarrow> bool" where
  "connection_is_ready st \<longleftrightarrow> st = LOGGED_IN"

lemma disconnect_allowed: "st \<noteq> DISCONNECTED \<Longrightarrow> DISCONNECTED \<in> connection_allowed st"
  by (cases st) simp_all

subsection \<open>Run mode and kill-switch\<close>

datatype run_mode = DRY_RUN | PAPER | SIMULATION | SHADOW | LIVE

fun run_mode_value :: "run_mode \<Rightarrow> string" where
  "run_mode_value DRY_RUN = ''dry_run''"
| "run_mode_value PAPER = ''paper''"
| "run_mode_value SIMULATION = ''simulation''"
| "run_mode_value SHADOW = ''shadow''"
| "run_mode_value LIVE = ''live''"

definition all_modes :: "run_mode list" where
  "all_modes = [DRY_RUN, PAPER, SIMULATION, SHADOW, LIVE]"

definition parse_run_mode :: "string \<Rightarrow> run_mode option" where
  "parse_run_mode s = find (\<lambda>m. run_mode_value m = s) all_modes"

definition uses_real_providers :: "run_mode \<Rightarrow> bool" where
  "uses_real_providers mode \<longleftrightarrow> mode \<in> {SIMULATION, SHADOW, LIVE}"

definition allows_order_routing :: "run_mode \<Rightarrow> bool" where
  "allows_order_routing mode \<longleftrightarrow> mode \<in> {PAPER, SIMULATION, LIVE}"

definition requires_live_market_safety :: "run_mode \<Rightarrow> bool" where
  "requires_live_market_safety mode = uses_real_providers mode"

record runmode =
  rm_mode :: run_mode
  rm_halted :: bool
  rm_halt_reason :: string
  rm_provider_routing_enabled :: bool
  rm_provider_block_reason :: string

definition mode_allowed :: "run_mode \<Rightarrow> run_mode set" where
  "mode_allowed _ = set all_modes"

definition runmode_init :: "string \<Rightarrow> bool \<Rightarrow> string \<Rightarrow> exn + runmode" where
  "runmode_init mode enabled reason =
     (case parse_run_mode mode of
        None \<Rightarrow> Inl (ValueError (''unknown run mode: '' @ mode))
      | Some m \<Rightarrow> Inr \<lparr>rm_mode = m, rm_halted = False, rm_halt_reason = [],
                       rm_provider_routing_enabled = enabled, rm_provider_block_reason = reason\<rparr>)"

definition runmode_set_mode :: "string \<Rightarrow> (runmode, run_mode) op" where
  "runmode_set_mode target rm =
     (case parse_run_mode target of
        None \<Rightarrow> (Inl (ValueError (''unknown run mode: '' @ target)), rm)
      | Some m \<Rightarrow>
          (case check_transition mode_allowed run_mode_value (rm_mode rm) m ''run-mode'' of
             Inl e \<Rightarrow> (Inl e, rm)
           | Inr _ \<Rightarrow> (Inr m, rm\<lparr>rm_mode := m\<rparr>)))"

definition runmode_halt :: "string \<Rightarrow> runmode \<Rightarrow> runmode" where
  "runmode_halt reason rm = rm\<lparr>rm_halted := True,
     rm_halt_reason := (if reason \<noteq> [] then reason
                        else if rm_halt_reason rm \<noteq> [] then rm_halt_reason rm else ''halted'')\<rparr>"

definition runmode_resume :: "runmode \<Rightarrow> runmode" where
  "runmode_resume rm = rm\<lparr>rm_halted := False, rm_halt_reason := []\<rparr>"

definition can_submit_orders :: "runmode \<Rightarrow> bool" where
  "can_submit_orders rm \<longleftrightarrow>
     \<not> rm_halted rm \<and> rm_provider_routing_enabled rm \<and> allows_order_routing (rm_mode rm)"

definition is_dry_run :: "runmode \<Rightarrow> bool" where
  "is_dry_run rm \<longleftrightarrow> rm_mode rm = DRY_RUN"

lemma parse_run_mode_value [simp]: "parse_run_mode (run_mode_value m) = Some m"
  by (cases m) (simp_all add: parse_run_mode_def all_modes_def)

lemma runmode_halt_simps [simp]:
  "rm_halted (runmode_halt r rm)" "rm_mode (runmode_halt r rm) = rm_mode rm"
  "rm_halt_reason (runmode_halt r rm) \<noteq> []"
  by (simp_all add: runmode_halt_def)

lemma halted_cannot_submit: "rm_halted rm \<Longrightarrow> \<not> can_submit_orders rm"
  by (simp add: can_submit_orders_def)

end
