(* ===== verification/Positions.thy ===== *)
theory Positions
  imports Live_Types
begin

section \<open>The position book\<close>

text \<open>
  \<open>systems/live/position.py\<close>: long-only holdings with T+1 sellable shares.  The book holds one
  position per instrument key, the working sell orders that freeze shares, and the settlement days
  announced by contracts.  The lemmas show that every operation keeps the book well formed: a key
  holds its own instrument, the sellable part lies between zero and the volume, and the frozen
  shares cover every working sell order.
\<close>

record book =
  bk_holdings :: "(string \<times> position) list"
  bk_active_sells :: "(string \<times> order) list"
  bk_settlement :: "(string \<times> int) list"

definition empty_book :: book where
  "empty_book = \<lparr>bk_holdings = [], bk_active_sells = [], bk_settlement = []\<rparr>"

definition book_get :: "book \<Rightarrow> string \<Rightarrow> position option" where
  "book_get bk key = map_of (bk_holdings bk) key"

definition all_positions :: "book \<Rightarrow> position list" where
  "all_positions bk = filter (\<lambda>p. ps_volume p > 0) (dict_vals (bk_holdings bk))"

definition book_available :: "book \<Rightarrow> string \<Rightarrow> num" where
  "book_available bk key = (case book_get bk key of Some p \<Rightarrow> ps_available p | None \<Rightarrow> 0)"

definition book_put :: "position \<Rightarrow> book \<Rightarrow> book" where
  "book_put p bk = bk\<lparr>bk_holdings := dict_set (ps_key p) p (bk_holdings bk)\<rparr>"

definition get_or_create :: "string \<Rightarrow> exchange \<Rightarrow> book \<Rightarrow> position \<times> book" where
  "get_or_create code ex bk =
     (case book_get bk (symbol_key code ex) of
        Some p \<Rightarrow> (p, bk)
      | None \<Rightarrow> (let p = new_position code ex in (p, book_put p bk)))"

definition frozen_by :: "book \<Rightarrow> string \<Rightarrow> num" where
  "frozen_by bk key = sum_list (map od_remaining
     (filter (\<lambda>ord. od_key ord = key \<and> od_is_active ord) (dict_vals (bk_active_sells bk))))"

definition recompute_frozen :: "string \<Rightarrow> book \<Rightarrow> book" where
  "recompute_frozen key bk =
     (case book_get bk key of
        None \<Rightarrow> bk
      | Some p \<Rightarrow> bk\<lparr>bk_holdings := dict_set key (p\<lparr>ps_frozen := frozen_by bk key\<rparr>) (bk_holdings bk)\<rparr>)"

text \<open>The fields a broker snapshot overwrites; a zero price or an empty gateway keeps the old one.\<close>

definition apply_snapshot :: "position \<Rightarrow> position \<Rightarrow> position" where
  "apply_snapshot snap p = p\<lparr>ps_volume := ps_volume snap, ps_yd_volume := ps_yd_volume snap,
     ps_price := (if ps_price snap \<noteq> 0 then ps_price snap else ps_price p),
     ps_pnl := ps_pnl snap,
     ps_gateway := (if ps_gateway snap \<noteq> [] then ps_gateway snap else ps_gateway p),
     ps_settlement_days := ps_settlement_days snap\<rparr>"

definition update_position :: "position \<Rightarrow> book \<Rightarrow> book" where
  "update_position snap bk =
     (let (p, bk1) = get_or_create (ps_code snap) (ps_exchange snap) bk;
          p1 = apply_snapshot snap p; key = ps_key p1;
          bk2 = (book_put p1 bk1)\<lparr>bk_settlement :=
                   dict_set key (ps_settlement_days p1) (bk_settlement bk1)\<rparr>;
          bk3 = recompute_frozen key bk2
      in case book_get bk3 key of
           None \<Rightarrow> bk3
         | Some p3 \<Rightarrow> book_put (p3\<lparr>ps_frozen := max (ps_frozen p3) (ps_frozen snap)\<rparr>) bk3)"

definition update_order :: "order \<Rightarrow> book \<Rightarrow> book" where
  "update_order ord bk =
     (if od_direction ord \<noteq> SHORT then bk
      else
        let bk1 = (if od_is_active ord
                   then bk\<lparr>bk_active_sells := dict_set (od_id ord) ord (bk_active_sells bk)\<rparr>
                   else bk\<lparr>bk_active_sells := dict_del (od_id ord) (bk_active_sells bk)\<rparr>);
            bk2 = snd (get_or_create (od_code ord) (od_exchange ord) bk1)
        in recompute_frozen (od_key ord) bk2)"

text \<open>A fill of a position: the arithmetic of \<open>update_trade\<close> on one holding.\<close>

definition fill_position :: "trade \<Rightarrow> int \<Rightarrow> position \<Rightarrow> position" where
  "fill_position t days p =
     (if td_direction t = LONG then
        let new_vol = ps_volume p + td_volume t;
            p1 = (if new_vol > 0
                  then p\<lparr>ps_price := (ps_price p * ps_volume p + td_price t * td_volume t) / new_vol\<rparr>
                  else p);
            p2 = p1\<lparr>ps_volume := new_vol\<rparr>
        in if days \<le> 0 then p2\<lparr>ps_yd_volume := ps_yd_volume p2 + td_volume t\<rparr> else p2
      else
        let p1 = p\<lparr>ps_volume := max (ps_volume p - td_volume t) 0,
                   ps_yd_volume := max (ps_yd_volume p - td_volume t) 0\<rparr>
        in if ps_volume p1 \<le> 1/1000000000 then p1\<lparr>ps_volume := 0, ps_price := 0\<rparr> else p1)"

definition update_trade :: "trade \<Rightarrow> book \<Rightarrow> book" where
  "update_trade t bk =
     (let (p, bk1) = get_or_create (td_code t) (td_exchange t) bk;
          days = (case map_of (bk_settlement bk1) (ps_key p) of
                    Some d \<Rightarrow> d | None \<Rightarrow> ps_settlement_days p)
      in book_put (fill_position t days p) bk1)"

definition set_settlement_days :: "string \<Rightarrow> int \<Rightarrow> book \<Rightarrow> book" where
  "set_settlement_days key days bk =
     (let bk1 = bk\<lparr>bk_settlement := dict_set key (max days 0) (bk_settlement bk)\<rparr>
      in case book_get bk1 key of
           None \<Rightarrow> bk1
         | Some p \<Rightarrow> bk1\<lparr>bk_holdings :=
             dict_set key (p\<lparr>ps_settlement_days := max days 0\<rparr>) (bk_holdings bk1)\<rparr>)"

definition book_roll_new_day :: "book \<Rightarrow> book" where
  "book_roll_new_day bk = bk\<lparr>bk_active_sells := [],
     bk_holdings := map (\<lambda>(k, p). (k, p\<lparr>ps_yd_volume := ps_volume p, ps_frozen := 0\<rparr>)) (bk_holdings bk)\<rparr>"

definition book_seed :: "string \<Rightarrow> num \<Rightarrow> num \<Rightarrow> bool \<Rightarrow> book \<Rightarrow> position \<times> book" where
  "book_seed code volume price sellable bk =
     (let (c, ex) = normalize_symbol code; (p, bk1) = get_or_create c ex bk;
          p1 = p\<lparr>ps_volume := volume, ps_yd_volume := (if sellable then volume else 0), ps_price := price\<rparr>
      in (p1, book_put p1 bk1))"

subsection \<open>Well-formed books\<close>

text \<open>
  The dictionaries have distinct keys, a holding sits under its own key, a working sell order sits
  under its own id, is active, and its instrument has a holding whose frozen shares cover it.
\<close>

definition sells_ok :: "book \<Rightarrow> bool" where
  "sells_ok bk \<longleftrightarrow> dict_ok (bk_active_sells bk) \<and>
     (\<forall>(i, ord) \<in> set (bk_active_sells bk). od_id ord = i \<and> od_direction ord = SHORT \<and>
        od_is_active ord \<and> map_of (bk_holdings bk) (od_key ord) \<noteq> None)"

definition holdings_ok :: "book \<Rightarrow> bool" where
  "holdings_ok bk \<longleftrightarrow> dict_ok (bk_holdings bk) \<and>
     (\<forall>(k, p) \<in> set (bk_holdings bk). ps_key p = k \<and> frozen_by bk k \<le> ps_frozen p)"

definition book_wf :: "book \<Rightarrow> bool" where
  "book_wf bk \<longleftrightarrow> holdings_ok bk \<and> sells_ok bk"

text \<open>The accounting bounds of a holding: the sellable part is between zero and the volume.\<close>

definition position_bounds :: "position \<Rightarrow> bool" where
  "position_bounds p \<longleftrightarrow> 0 \<le> ps_yd_volume p \<and> ps_yd_volume p \<le> ps_volume p \<and>
     ps_volume p \<in> \<int> \<and> ps_yd_volume p \<in> \<int>"

definition book_bounds :: "book \<Rightarrow> bool" where
  "book_bounds bk \<longleftrightarrow> (\<forall>p \<in> set (dict_vals (bk_holdings bk)). position_bounds p)"

lemma book_wf_keys: "book_wf bk \<Longrightarrow> dict_ok (bk_holdings bk)"
  by (simp add: book_wf_def holdings_ok_def)

lemma book_wf_get: "book_wf bk \<Longrightarrow> book_get bk k = Some p \<Longrightarrow> ps_key p = k \<and> frozen_by bk k \<le> ps_frozen p"
  by (auto simp: book_wf_def holdings_ok_def book_get_def dest!: map_of_SomeD)

lemma book_wfI:
  assumes "dict_ok (bk_holdings bk)" "dict_ok (bk_active_sells bk)"
    and "\<And>k p. book_get bk k = Some p \<Longrightarrow> ps_key p = k \<and> frozen_by bk k \<le> ps_frozen p"
    and "\<And>i ord. map_of (bk_active_sells bk) i = Some ord \<Longrightarrow> od_id ord = i \<and> od_direction ord = SHORT \<and>
        od_is_active ord \<and> book_get bk (od_key ord) \<noteq> None"
  shows "book_wf bk"
  using assms by (auto simp: book_wf_def holdings_ok_def sells_ok_def book_get_def)

lemma book_wf_sell:
  "book_wf bk \<Longrightarrow> map_of (bk_active_sells bk) i = Some ord \<Longrightarrow> od_id ord = i \<and> od_direction ord = SHORT \<and>
     od_is_active ord \<and> book_get bk (od_key ord) \<noteq> None"
  by (auto simp: book_wf_def sells_ok_def book_get_def dest!: map_of_SomeD)

lemma book_wf_sells_keys: "book_wf bk \<Longrightarrow> dict_ok (bk_active_sells bk)"
  by (simp add: book_wf_def sells_ok_def)

lemma empty_book_wf [simp]: "book_wf empty_book"
  by (rule book_wfI) (simp_all add: empty_book_def book_get_def)

lemma frozen_by_nonneg [simp]: "0 \<le> frozen_by bk k"
  unfolding frozen_by_def by (rule sum_list_nonneg) auto

lemma frozen_by_cong: "bk_active_sells bk = bk_active_sells bk' \<Longrightarrow> frozen_by bk k = frozen_by bk' k"
  by (simp add: frozen_by_def)

lemma book_get_put [simp]: "book_get (book_put p bk) k = (if k = ps_key p then Some p else book_get bk k)"
  by (simp add: book_get_def book_put_def AList.update_conv')

lemma book_put_fields [simp]:
  "bk_active_sells (book_put p bk) = bk_active_sells bk" "bk_settlement (book_put p bk) = bk_settlement bk"
  by (simp_all add: book_put_def)

lemma frozen_by_put [simp]: "frozen_by (book_put p bk) k = frozen_by bk k"
  by (simp add: frozen_by_def)

lemma frozen_by_no_key: "book_wf bk \<Longrightarrow> book_get bk k = None \<Longrightarrow> frozen_by bk k = 0"
proof -
  assume wf: "book_wf bk" and none: "book_get bk k = None"
  have "od_key ord \<noteq> k" if "ord \<in> set (dict_vals (bk_active_sells bk))" for ord
    using that wf none by (force simp: book_wf_def sells_ok_def book_get_def)
  then have "filter (\<lambda>ord. od_key ord = k \<and> od_is_active ord) (dict_vals (bk_active_sells bk)) = []"
    by (auto simp: filter_empty_conv)
  then show ?thesis by (simp add: frozen_by_def)
qed

lemma book_wf_settlement [simp]: "book_wf (bk\<lparr>bk_settlement := x\<rparr>) = book_wf bk"
  by (simp add: book_wf_def holdings_ok_def sells_ok_def frozen_by_def)

lemma book_put_wf:
  assumes wf: "book_wf bk" and fr: "frozen_by bk (ps_key p) \<le> ps_frozen p"
  shows "book_wf (book_put p bk)"
proof (rule book_wfI)
  show "dict_ok (bk_holdings (book_put p bk))" "dict_ok (bk_active_sells (book_put p bk))"
    using book_wf_keys [OF wf] book_wf_sells_keys [OF wf] by (simp_all add: book_put_def)
next
  fix k q
  assume "book_get (book_put p bk) k = Some q"
  then show "ps_key q = k \<and> frozen_by (book_put p bk) k \<le> ps_frozen q"
    using fr book_wf_get [OF wf] by (auto split: if_splits)
next
  fix i ord
  assume "map_of (bk_active_sells (book_put p bk)) i = Some ord"
  then show "od_id ord = i \<and> od_direction ord = SHORT \<and> od_is_active ord \<and>
      book_get (book_put p bk) (od_key ord) \<noteq> None"
    using book_wf_sell [OF wf] by auto
qed

lemma get_or_create_spec:
  assumes "book_wf bk" "get_or_create code ex bk = (p, bk1)"
  shows "book_wf bk1" "ps_key p = symbol_key code ex" "book_get bk1 (symbol_key code ex) = Some p"
    "frozen_by bk1 (symbol_key code ex) \<le> ps_frozen p"
    "bk_active_sells bk1 = bk_active_sells bk" "bk_settlement bk1 = bk_settlement bk"
    "\<And>k. k \<noteq> symbol_key code ex \<Longrightarrow> book_get bk1 k = book_get bk k"
proof -
  have fr: "ps_frozen (new_position code ex) = 0" by (simp add: new_position_def)
  show "ps_key p = symbol_key code ex" "book_wf bk1"
    "book_get bk1 (symbol_key code ex) = Some p"
    "frozen_by bk1 (symbol_key code ex) \<le> ps_frozen p"
    "bk_active_sells bk1 = bk_active_sells bk" "bk_settlement bk1 = bk_settlement bk"
    "\<And>k. k \<noteq> symbol_key code ex \<Longrightarrow> book_get bk1 k = book_get bk k"
    using assms book_wf_get [OF assms(1)] frozen_by_no_key [OF assms(1)] fr
    by (auto simp: get_or_create_def Let_def split: option.splits intro!: book_put_wf)
qed

lemma recompute_frozen_get:
  "book_get (recompute_frozen key bk) k =
     (if k = key then map_option (\<lambda>p. p\<lparr>ps_frozen := frozen_by bk key\<rparr>) (book_get bk key) else book_get bk k)"
  by (simp add: recompute_frozen_def book_get_def AList.update_conv' split: option.splits)

lemma recompute_frozen_fields [simp]:
  "bk_active_sells (recompute_frozen key bk) = bk_active_sells bk"
  "bk_settlement (recompute_frozen key bk) = bk_settlement bk"
  "frozen_by (recompute_frozen key bk) k = frozen_by bk k"
  by (simp_all add: recompute_frozen_def frozen_by_def split: option.splits)

lemma recompute_frozen_keys: "dict_ok (bk_holdings bk) \<Longrightarrow> dict_ok (bk_holdings (recompute_frozen key bk))"
  by (simp add: recompute_frozen_def split: option.splits)

lemma recompute_frozen_wf: "book_wf bk \<Longrightarrow> book_wf (recompute_frozen key bk)"
proof (rule book_wfI)
  assume wf: "book_wf bk"
  then show "dict_ok (bk_holdings (recompute_frozen key bk))"
    by (simp add: recompute_frozen_keys book_wf_keys)
  show "dict_ok (bk_active_sells (recompute_frozen key bk))"
    using wf by (simp add: book_wf_sells_keys)
  show "ps_key p = k \<and> frozen_by (recompute_frozen key bk) k \<le> ps_frozen p"
    if "book_get (recompute_frozen key bk) k = Some p" for k p
    using that book_wf_get [OF wf] by (auto simp: recompute_frozen_get ps_key_def split: if_splits)
  show "od_id ord = i \<and> od_direction ord = SHORT \<and> od_is_active ord \<and>
      book_get (recompute_frozen key bk) (od_key ord) \<noteq> None"
    if "map_of (bk_active_sells (recompute_frozen key bk)) i = Some ord" for i ord
    using that book_wf_sell [OF wf] by (auto simp: recompute_frozen_get)
qed

subsection \<open>Every operation keeps a well-formed book\<close>

lemma update_trade_wf [inv_intros]:
  assumes wf: "book_wf bk"
  shows "book_wf (update_trade t bk)"
proof -
  obtain p bk1 where g: "get_or_create (td_code t) (td_exchange t) bk = (p, bk1)" by fastforce
  note spec = get_or_create_spec [OF wf g]
  have "ps_key (fill_position t d p) = ps_key p" "ps_frozen (fill_position t d p) = ps_frozen p" for d
    by (simp_all add: fill_position_def ps_key_def Let_def)
  with spec show ?thesis
    by (auto simp: update_trade_def g Let_def intro!: book_put_wf)
qed

lemma update_position_wf [inv_intros]:
  assumes wf: "book_wf bk"
  shows "book_wf (update_position snap bk)"
proof -
  obtain p bk1 where g: "get_or_create (ps_code snap) (ps_exchange snap) bk = (p, bk1)" by fastforce
  note spec = get_or_create_spec [OF wf g]
  define p1 where "p1 = apply_snapshot snap p"
  define bk2 where "bk2 = (book_put p1 bk1)\<lparr>bk_settlement :=
                   dict_set (ps_key p1) (ps_settlement_days p1) (bk_settlement bk1)\<rparr>"
  have key: "ps_key p1 = ps_key p" "ps_frozen p1 = ps_frozen p" by (simp_all add: p1_def apply_snapshot_def ps_key_def)
  have "book_wf (book_put p1 bk1)" using spec key by (intro book_put_wf) simp_all
  then have "book_wf bk2" by (simp add: bk2_def)
  then have wf3: "book_wf (recompute_frozen (ps_key p1) bk2)" by (rule recompute_frozen_wf)
  have "book_get bk2 (ps_key p1) = Some p1"
    by (simp add: bk2_def book_get_def book_put_def AList.update_conv')
  then have get3: "book_get (recompute_frozen (ps_key p1) bk2) (ps_key p1) = Some (p1\<lparr>ps_frozen := frozen_by bk2 (ps_key p1)\<rparr>)"
    by (simp add: recompute_frozen_get)
  have "book_wf (book_put (p1\<lparr>ps_frozen := max (frozen_by bk2 (ps_key p1)) (ps_frozen snap)\<rparr>)
          (recompute_frozen (ps_key p1) bk2))"
    by (rule book_put_wf [OF wf3]) (simp add: ps_key_def)
  with get3 show ?thesis
    by (simp add: update_position_def g Let_def flip: p1_def bk2_def)
qed

lemma set_settlement_days_wf [inv_intros]:
  assumes wf: "book_wf bk"
  shows "book_wf (set_settlement_days key days bk)"
proof (cases "book_get bk key")
  case None
  then show ?thesis using wf by (simp add: set_settlement_days_def Let_def book_get_def)
next
  case (Some p)
  define p' where "p' = p\<lparr>ps_settlement_days := max days 0\<rparr>"
  have "ps_key p' = key" "frozen_by bk key \<le> ps_frozen p'"
    using book_wf_get [OF wf Some] by (simp_all add: p'_def ps_key_def)
  then have "book_wf (book_put p' bk)" using wf by (intro book_put_wf) simp_all
  moreover have "set_settlement_days key days bk =
      (book_put p' bk)\<lparr>bk_settlement := dict_set key (max days 0) (bk_settlement bk)\<rparr>"
    using Some \<open>ps_key p' = key\<close>
    by (simp add: set_settlement_days_def Let_def book_get_def book_put_def flip: p'_def)
  ultimately show ?thesis by simp
qed

lemma map_of_map_vals: "map_of (map (\<lambda>(k, v). (k, f v)) xs) k = map_option f (map_of xs k)"
  by (induction xs) auto

lemma book_roll_get: "book_get (book_roll_new_day bk) k =
    map_option (\<lambda>p. p\<lparr>ps_yd_volume := ps_volume p, ps_frozen := 0\<rparr>) (book_get bk k)"
  by (simp add: book_get_def book_roll_new_day_def map_of_map_vals)

lemma book_roll_new_day_wf [inv_intros]: "book_wf bk \<Longrightarrow> book_wf (book_roll_new_day bk)"
proof (rule book_wfI)
  assume wf: "book_wf bk"
  from book_wf_keys [OF wf] show "dict_ok (bk_holdings (book_roll_new_day bk))"
    by (simp add: book_roll_new_day_def comp_def case_prod_beta)
  show "dict_ok (bk_active_sells (book_roll_new_day bk))" by (simp add: book_roll_new_day_def)
  show "ps_key p = k \<and> frozen_by (book_roll_new_day bk) k \<le> ps_frozen p"
    if "book_get (book_roll_new_day bk) k = Some p" for k p
  proof -
    have "frozen_by (book_roll_new_day bk) k = 0" by (simp add: frozen_by_def book_roll_new_day_def)
    with that book_wf_get [OF wf] show ?thesis by (auto simp: book_roll_get ps_key_def)
  qed
qed (simp add: book_roll_new_day_def)

lemma update_order_wf [inv_intros]:
  assumes wf: "book_wf bk"
  shows "book_wf (update_order ord bk)"
proof (cases "od_direction ord = SHORT")
  case False
  with wf show ?thesis by (simp add: update_order_def)
next
  case True
  define sells where "sells = (if od_is_active ord then dict_set (od_id ord) ord (bk_active_sells bk)
     else dict_del (od_id ord) (bk_active_sells bk))"
  define bk1 where "bk1 = bk\<lparr>bk_active_sells := sells\<rparr>"
  obtain p bk2 where g: "get_or_create (od_code ord) (od_exchange ord) bk1 = (p, bk2)" by fastforce
  have key: "symbol_key (od_code ord) (od_exchange ord) = od_key ord" by (simp add: od_key_def)
  have get2: "book_get bk2 k = (if k = od_key ord then Some p else book_get bk k)" for k
    using g by (auto simp: get_or_create_def key bk1_def book_get_def book_put_def Let_def AList.update_conv'
        split: option.splits)
  have s2: "bk_active_sells bk2 = sells"
    using g by (auto simp: get_or_create_def bk1_def Let_def split: option.splits)
  have keys2: "dict_ok (bk_holdings bk2)"
    using g book_wf_keys [OF wf]
    by (auto simp: get_or_create_def bk1_def book_put_def Let_def split: option.splits)
  have pk: "ps_key p = od_key ord"
    using g book_wf_get [OF wf]
    by (auto simp: get_or_create_def bk1_def key book_get_def Let_def split: option.splits)
  have sells_ok: "dict_ok sells" using book_wf_sells_keys [OF wf] by (simp add: sells_def)
  have other: "frozen_by bk2 k \<le> frozen_by bk k" if "k \<noteq> od_key ord" for k
  proof -
    have upd: "sum_list (map od_remaining (filter (\<lambda>x. od_key x = k \<and> od_is_active x)
        (dict_vals (dict_set i ord xs)))) \<le>
      sum_list (map od_remaining (filter (\<lambda>x. od_key x = k \<and> od_is_active x) (dict_vals xs)))"
      for i and xs :: "(string \<times> order) list"
      using that by (induction xs) auto
    have del: "sum_list (map od_remaining (filter (\<lambda>x. od_key x = k \<and> od_is_active x)
        (dict_vals (dict_del i xs)))) \<le>
      sum_list (map od_remaining (filter (\<lambda>x. od_key x = k \<and> od_is_active x) (dict_vals xs)))"
      for i and xs :: "(string \<times> order) list"
      by (induction xs) (auto simp: add_increasing)
    from upd del show ?thesis by (simp add: frozen_by_def s2 sells_def)
  qed
  have "book_wf (recompute_frozen (od_key ord) bk2)"
  proof (rule book_wfI)
    show "dict_ok (bk_holdings (recompute_frozen (od_key ord) bk2))"
      by (rule recompute_frozen_keys [OF keys2])
    show "dict_ok (bk_active_sells (recompute_frozen (od_key ord) bk2))" by (simp add: s2 sells_ok)
    show "ps_key q = k \<and> frozen_by (recompute_frozen (od_key ord) bk2) k \<le> ps_frozen q"
      if "book_get (recompute_frozen (od_key ord) bk2) k = Some q" for k q
      using that book_wf_get [OF wf] other [of k] pk
      by (fastforce simp: recompute_frozen_get get2 ps_key_def split: if_splits)
    show "od_id x = i \<and> od_direction x = SHORT \<and> od_is_active x \<and>
        book_get (recompute_frozen (od_key ord) bk2) (od_key x) \<noteq> None"
      if "map_of (bk_active_sells (recompute_frozen (od_key ord) bk2)) i = Some x" for i x
      using that book_wf_sell [OF wf] True
      by (auto simp: s2 sells_def recompute_frozen_get get2 dict_conv split: if_splits)
  qed
  with True g show ?thesis
    by (auto simp: update_order_def Let_def bk1_def sells_def)
qed

subsection \<open>Volume bounds\<close>

text \<open>
  On whole share counts every fill keeps the sellable part between zero and the volume.  The counts
  have to be whole: a residue below \<open>1e-9\<close> is cleared from the volume but not from the sellable
  part.
\<close>

lemma Ints_le_tiny: "(v :: num) \<in> \<int> \<Longrightarrow> v \<le> 1/1000000000 \<Longrightarrow> v \<le> 0"
proof -
  assume "v \<in> \<int>" "v \<le> 1/1000000000"
  then obtain k where "v = of_int k" by (auto elim: Ints_cases)
  with \<open>v \<le> 1/1000000000\<close> have "of_int k < (1 :: num)" by simp
  then have "k < 1" by (metis of_int_1 of_int_less_iff)
  with \<open>v = of_int k\<close> show ?thesis by simp
qed

lemma Ints_max: "(a :: num) \<in> \<int> \<Longrightarrow> b \<in> \<int> \<Longrightarrow> max a b \<in> \<int>"
  by (simp add: max_def)

lemma fill_position_bounds:
  assumes "position_bounds p" "td_volume t \<in> \<int>" "0 \<le> td_volume t"
  shows "position_bounds (fill_position t d p)"
proof (cases "td_direction t = LONG")
  case True
  with assms show ?thesis
    by (auto simp: fill_position_def position_bounds_def Let_def)
next
  case False
  from assms have "max (ps_volume p - td_volume t) 0 \<in> \<int>" "max (ps_yd_volume p - td_volume t) 0 \<in> \<int>"
    by (auto simp: position_bounds_def intro!: Ints_max)
  with assms False Ints_le_tiny [of "max (ps_volume p - td_volume t) 0"] show ?thesis
    by (auto simp: fill_position_def position_bounds_def Let_def max_def split: if_splits)
qed

lemma new_position_bounds [simp]: "position_bounds (new_position c e)"
  by (simp add: position_bounds_def new_position_def)

lemma book_bounds_get: "book_bounds bk \<Longrightarrow> book_get bk k = Some p \<Longrightarrow> position_bounds p"
  by (force simp: book_bounds_def book_get_def dest: map_of_SomeD)

lemma book_boundsI: "dict_ok (bk_holdings bk) \<Longrightarrow>
    (\<And>k p. book_get bk k = Some p \<Longrightarrow> position_bounds p) \<Longrightarrow> book_bounds bk"
  by (auto simp: book_bounds_def book_get_def)

lemma book_put_bounds:
  assumes "book_wf bk" "book_bounds bk" "position_bounds p"
  shows "book_bounds (book_put p bk)"
proof (rule book_boundsI)
  show "dict_ok (bk_holdings (book_put p bk))"
    using book_wf_keys [OF assms(1)] by (simp add: book_put_def)
  show "position_bounds q" if "book_get (book_put p bk) k = Some q" for k q
    using that assms(3) book_bounds_get [OF assms(2)] by (auto split: if_splits)
qed

lemma get_or_create_bounds:
  assumes "book_wf bk" "book_bounds bk" "get_or_create c e bk = (p, bk1)"
  shows "position_bounds p \<and> book_bounds bk1"
proof (cases "book_get bk (symbol_key c e)")
  case None
  with assms show ?thesis by (auto simp: get_or_create_def Let_def intro!: book_put_bounds)
next
  case (Some q)
  with assms book_bounds_get show ?thesis by (auto simp: get_or_create_def)
qed

lemma update_trade_bounds [inv_intros]:
  assumes "book_wf bk" "book_bounds bk" "td_volume t \<in> \<int>" "0 \<le> td_volume t"
  shows "book_bounds (update_trade t bk)"
proof -
  obtain p bk1 where g: "get_or_create (td_code t) (td_exchange t) bk = (p, bk1)" by fastforce
  from get_or_create_bounds [OF assms(1,2) g] get_or_create_spec(1) [OF assms(1) g] show ?thesis
    using assms(3,4) by (auto simp: update_trade_def g Let_def intro!: book_put_bounds fill_position_bounds)
qed

lemma book_roll_bounds [inv_intros]: "book_bounds bk \<Longrightarrow> book_bounds (book_roll_new_day bk)"
  by (force simp: book_bounds_def book_roll_new_day_def position_bounds_def)

subsection \<open>What a fill does to the other holdings, and to the sellable shares\<close>

lemma update_trade_get:
  assumes "book_wf bk"
  shows "book_get (update_trade t bk) k =
     (if k = td_key t then
        (let p = (case book_get bk k of Some p \<Rightarrow> p | None \<Rightarrow> new_position (td_code t) (td_exchange t));
             d = (case map_of (bk_settlement bk) k of Some d \<Rightarrow> d | None \<Rightarrow> ps_settlement_days p)
         in Some (fill_position t d p))
      else book_get bk k)"
proof -
  obtain p bk1 where g: "get_or_create (td_code t) (td_exchange t) bk = (p, bk1)" by fastforce
  note spec = get_or_create_spec [OF assms g]
  have p: "p = (case book_get bk (td_key t) of Some p \<Rightarrow> p | None \<Rightarrow> new_position (td_code t) (td_exchange t))"
    using g by (auto simp: get_or_create_def td_key_def Let_def split: option.splits)
  have "ps_key (fill_position t d p) = ps_key p" for d
    by (simp add: fill_position_def ps_key_def Let_def)
  with spec p show ?thesis by (simp add: update_trade_def g Let_def td_key_def)
qed

lemma update_trade_get_Some: "book_wf bk \<Longrightarrow> \<exists>p. book_get (update_trade t bk) (td_key t) = Some p"
  by (simp add: update_trade_get Let_def)

lemma empty_book_views [simp]:
  "book_get empty_book k = None" "frozen_by empty_book k = 0" "book_bounds empty_book"
  by (simp_all add: empty_book_def book_get_def frozen_by_def book_bounds_def)

lemma fill_buy_available:
  "td_direction t = LONG \<Longrightarrow> 0 < d \<Longrightarrow> ps_available (fill_position t d p) = ps_available p"
  by (simp add: fill_position_def ps_available_def Let_def)

end
