(* ===== verification/OMS.thy ===== *)
theory OMS
  imports FSM Positions
begin

section \<open>The order management system\<close>

text \<open>
  \<open>systems/live/oms.py\<close>: the in-process projection of what the gateway reports.  The state is
  the set of orders seen, the working ones among them, the fills, the position book, the last
  account snapshot, contracts, quotes and a bounded log.  \<open>oms_step\<close> gives one handler per kind
  of callback; the lemmas give the invariant of the projection and its view as an order-status
  automaton.
\<close>

record oms =
  om_orders :: "(string \<times> order) list"
  om_active :: "(string \<times> order) list"
  om_trades :: "(string \<times> trade) list"
  om_positions :: book
  om_account :: "account option"
  om_contracts :: "(string \<times> contract) list"
  om_ticks :: "(string \<times> tick) list"
  om_logs :: "log_event list"
  om_log_capacity :: nat

definition oms_init :: "nat \<Rightarrow> oms" where
  "oms_init cap = \<lparr>om_orders = [], om_active = [], om_trades = [], om_positions = empty_book,
     om_account = None, om_contracts = [], om_ticks = [], om_logs = [], om_log_capacity = cap\<rparr>"

definition oms_on_log :: "log_event \<Rightarrow> oms \<Rightarrow> oms" where
  "oms_on_log l s = s\<lparr>om_logs := deque_append (om_log_capacity s) l (om_logs s)\<rparr>"

text \<open>Storing an order: the last five statements of \<open>on_order\<close>.\<close>

definition oms_accept_order :: "order \<Rightarrow> oms \<Rightarrow> oms" where
  "oms_accept_order ord s =
     s\<lparr>om_orders := dict_set (od_id ord) ord (om_orders s),
       om_active := (if od_is_active ord then dict_set (od_id ord) ord (om_active s)
                     else dict_del (od_id ord) (om_active s)),
       om_positions := update_order ord (om_positions s)\<rparr>"

definition illegal_order_log :: "order \<Rightarrow> order \<Rightarrow> log_event" where
  "illegal_order_log prior ord =
     \<lparr>lg_msg = ''ignored illegal order transition '' @ status_name (od_status prior) @ ''->'' @
        status_name (od_status ord) @ '' for '' @ od_id ord,
      lg_level = ''warning'', lg_gateway = od_gateway ord\<rparr>"

definition oms_on_order :: "order \<Rightarrow> oms \<Rightarrow> oms" where
  "oms_on_order ord s =
     (case map_of (om_orders s) (od_id ord) of
        None \<Rightarrow> oms_accept_order ord s
      | Some prior \<Rightarrow>
          if \<not> can_transition (od_status prior) (od_status ord) then
            (if od_status prior \<noteq> od_status ord then oms_on_log (illegal_order_log prior ord) s else s)
          else oms_accept_order ord s)"

definition oms_on_trade :: "trade \<Rightarrow> oms \<Rightarrow> oms" where
  "oms_on_trade t s =
     (if map_of (om_trades s) (td_id t) \<noteq> None then s
      else s\<lparr>om_trades := dict_set (td_id t) t (om_trades s),
             om_positions := update_trade t (om_positions s)\<rparr>)"

definition oms_on_position :: "position \<Rightarrow> oms \<Rightarrow> oms" where
  "oms_on_position p s = s\<lparr>om_positions := update_position p (om_positions s)\<rparr>"

definition oms_on_account :: "account \<Rightarrow> oms \<Rightarrow> oms" where
  "oms_on_account a s = s\<lparr>om_account := Some a\<rparr>"

definition oms_on_contract :: "contract \<Rightarrow> oms \<Rightarrow> oms" where
  "oms_on_contract c s =
     s\<lparr>om_contracts := dict_set (contract_key c) c (om_contracts s),
       om_positions := set_settlement_days (contract_key c) (ct_settlement_days c) (om_positions s)\<rparr>"

definition oms_on_tick :: "tick \<Rightarrow> oms \<Rightarrow> oms" where
  "oms_on_tick t s = s\<lparr>om_ticks := dict_set (tk_key t) t (om_ticks s)\<rparr>"

definition oms_get_order :: "oms \<Rightarrow> string \<Rightarrow> order option" where
  "oms_get_order s i = map_of (om_orders s) i"

definition oms_get_active_orders :: "oms \<Rightarrow> order list" where
  "oms_get_active_orders s = dict_vals (om_active s)"

definition oms_get_trades :: "oms \<Rightarrow> trade list" where
  "oms_get_trades s = dict_vals (om_trades s)"

definition oms_get_position :: "oms \<Rightarrow> string \<Rightarrow> position option" where
  "oms_get_position s key = book_get (om_positions s) key"

definition oms_get_positions :: "oms \<Rightarrow> position list" where
  "oms_get_positions s = all_positions (om_positions s)"

definition oms_available_shares :: "oms \<Rightarrow> string \<Rightarrow> num" where
  "oms_available_shares s key = book_available (om_positions s) key"

definition oms_get_contract :: "oms \<Rightarrow> string \<Rightarrow> contract option" where
  "oms_get_contract s key = map_of (om_contracts s) key"

definition oms_get_tick :: "oms \<Rightarrow> string \<Rightarrow> tick option" where
  "oms_get_tick s key = map_of (om_ticks s) key"

definition oms_buying_power :: "oms \<Rightarrow> num" where
  "oms_buying_power s = (case om_account s of Some a \<Rightarrow> ac_available a | None \<Rightarrow> 0)"

definition oms_roll_new_day :: "oms \<Rightarrow> oms" where
  "oms_roll_new_day s = s\<lparr>om_positions := book_roll_new_day (om_positions s),
     om_active := filter (\<lambda>(i, ord). od_is_active ord) (om_active s)\<rparr>"

subsection \<open>The handlers as one step function\<close>

datatype oms_event =
    EvOrder order
  | EvTrade trade
  | EvPosition position
  | EvAccount account
  | EvContract contract
  | EvTick tick
  | EvLog log_event
  | EvRollDay

fun oms_step :: "oms_event \<Rightarrow> oms \<Rightarrow> oms" where
  "oms_step (EvOrder ord) s = oms_on_order ord s"
| "oms_step (EvTrade t) s = oms_on_trade t s"
| "oms_step (EvPosition p) s = oms_on_position p s"
| "oms_step (EvAccount a) s = oms_on_account a s"
| "oms_step (EvContract c) s = oms_on_contract c s"
| "oms_step (EvTick t) s = oms_on_tick t s"
| "oms_step (EvLog l) s = oms_on_log l s"
| "oms_step EvRollDay s = oms_roll_new_day s"

definition oms_run :: "oms_event list \<Rightarrow> oms \<Rightarrow> oms" where
  "oms_run evs s = fold oms_step evs s"

lemma oms_run_simps [simp]:
  "oms_run [] s = s" "oms_run (e # evs) s = oms_run evs (oms_step e s)"
  "oms_run (evs @ evs') s = oms_run evs' (oms_run evs s)"
  by (simp_all add: oms_run_def)

subsection \<open>The invariant\<close>

declare map_of_eq_Some_iff [simp del]

text \<open>
  Keys are ids, the working orders are exactly the active ones among the orders, the book is well
  formed, and the log never outgrows its capacity.
\<close>

definition orders_ok :: "oms \<Rightarrow> bool" where
  "orders_ok s \<longleftrightarrow> dict_ok (om_orders s) \<and> dict_ok (om_active s) \<and>
     (\<forall>i ord. map_of (om_orders s) i = Some ord \<longrightarrow> od_id ord = i) \<and>
     (\<forall>i ord. map_of (om_active s) i = Some ord \<longleftrightarrow>
        map_of (om_orders s) i = Some ord \<and> od_is_active ord)"

definition oms_inv :: "oms \<Rightarrow> bool" where
  "oms_inv s \<longleftrightarrow> orders_ok s \<and> book_wf (om_positions s) \<and> dict_ok (om_trades s) \<and>
     length (om_logs s) \<le> om_log_capacity s"

lemma oms_init_inv [simp]: "oms_inv (oms_init cap)"
  by (simp add: oms_inv_def orders_ok_def oms_init_def)

lemma oms_on_log_inv [inv_intros]: "oms_inv s \<Longrightarrow> oms_inv (oms_on_log l s)"
  by (simp add: oms_inv_def orders_ok_def oms_on_log_def deque_append_length)

lemma oms_accept_order_inv: "oms_inv s \<Longrightarrow> oms_inv (oms_accept_order ord s)"
  by (cases "od_is_active ord")
    (auto simp: oms_inv_def orders_ok_def oms_accept_order_def dict_conv update_order_wf)

lemma oms_on_order_inv [inv_intros]: "oms_inv s \<Longrightarrow> oms_inv (oms_on_order ord s)"
  by (simp add: oms_on_order_def oms_accept_order_inv oms_on_log_inv split: option.split)

lemma oms_on_trade_inv [inv_intros]: "oms_inv s \<Longrightarrow> oms_inv (oms_on_trade t s)"
  by (auto simp: oms_inv_def orders_ok_def oms_on_trade_def intro: update_trade_wf)

lemma oms_on_position_inv [inv_intros]: "oms_inv s \<Longrightarrow> oms_inv (oms_on_position p s)"
  by (auto simp: oms_inv_def orders_ok_def oms_on_position_def intro: update_position_wf)

lemma oms_on_account_inv [inv_intros]: "oms_inv s \<Longrightarrow> oms_inv (oms_on_account a s)"
  by (simp add: oms_inv_def orders_ok_def oms_on_account_def)

lemma oms_on_contract_inv [inv_intros]: "oms_inv s \<Longrightarrow> oms_inv (oms_on_contract c s)"
  by (auto simp: oms_inv_def orders_ok_def oms_on_contract_def intro: set_settlement_days_wf)

lemma oms_on_tick_inv [inv_intros]: "oms_inv s \<Longrightarrow> oms_inv (oms_on_tick t s)"
  by (simp add: oms_inv_def orders_ok_def oms_on_tick_def)

lemma active_lookup:
  "orders_ok s \<Longrightarrow> map_of (om_active s) i = Some ord \<longleftrightarrow>
     map_of (om_orders s) i = Some ord \<and> od_is_active ord"
  by (simp add: orders_ok_def)

lemma active_values_active: "orders_ok s \<Longrightarrow> (i, ord) \<in> set (om_active s) \<Longrightarrow> od_is_active ord"
  by (metis active_lookup dict_mem_iff orders_ok_def)

lemma oms_roll_new_day_inv [inv_intros]:
  assumes "oms_inv s"
  shows "oms_inv (oms_roll_new_day s)"
proof -
  have "filter (\<lambda>(i, ord). od_is_active ord) (om_active s) = om_active s"
    using active_values_active assms by (auto simp: filter_id_conv oms_inv_def)
  with assms show ?thesis
    by (auto simp: oms_inv_def orders_ok_def oms_roll_new_day_def intro: book_roll_new_day_wf)
qed

lemma oms_step_inv: "oms_inv s \<Longrightarrow> oms_inv (oms_step e s)"
  by (cases e) (simp_all add: inv_intros)

lemma oms_run_inv: "oms_inv s \<Longrightarrow> oms_inv (oms_run evs s)"
  by (induction evs arbitrary: s) (simp_all add: oms_step_inv)

lemma active_order_iff:
  "oms_inv s \<Longrightarrow> ord \<in> set (oms_get_active_orders s) \<longleftrightarrow>
     oms_get_order s (od_id ord) = Some ord \<and> od_is_active ord"
proof
  assume inv: "oms_inv s" and "ord \<in> set (oms_get_active_orders s)"
  then obtain i where "map_of (om_active s) i = Some ord"
    by (auto simp: oms_get_active_orders_def oms_inv_def orders_ok_def map_of_eq_Some_iff)
  with inv have "map_of (om_orders s) i = Some ord \<and> od_is_active ord"
    using active_lookup by (simp add: oms_inv_def)
  with inv show "oms_get_order s (od_id ord) = Some ord \<and> od_is_active ord"
    by (auto simp: oms_inv_def orders_ok_def oms_get_order_def)
next
  assume inv: "oms_inv s" and a: "oms_get_order s (od_id ord) = Some ord \<and> od_is_active ord"
  then have "map_of (om_active s) (od_id ord) = Some ord"
    using active_lookup by (simp add: oms_inv_def oms_get_order_def)
  then show "ord \<in> set (oms_get_active_orders s)"
    by (force simp: oms_get_active_orders_def dest: map_of_SomeD)
qed

subsection \<open>The projection as an order-status automaton\<close>

text \<open>
  The abstract view of the projection: the status of each order id.  Its transition on an order
  report is the guard of the order lifecycle and nothing else; no other event touches it.
\<close>

type_synonym status_view = "string \<Rightarrow> order_status option"

definition status_view_of :: "oms \<Rightarrow> status_view" where
  "status_view_of s i = map_option od_status (map_of (om_orders s) i)"

definition report_status :: "string \<Rightarrow> order_status \<Rightarrow> status_view \<Rightarrow> status_view" where
  "report_status i st v =
     (case v i of None \<Rightarrow> v(i := Some st)
      | Some prior \<Rightarrow> if can_transition prior st then v(i := Some st) else v)"

fun view_step :: "oms_event \<Rightarrow> status_view \<Rightarrow> status_view" where
  "view_step (EvOrder ord) v = report_status (od_id ord) (od_status ord) v"
| "view_step _ v = v"

lemma oms_frames [simp]:
  "om_orders (oms_on_trade t s) = om_orders s" "om_orders (oms_on_position p s) = om_orders s"
  "om_orders (oms_on_account a s) = om_orders s" "om_orders (oms_on_contract c s) = om_orders s"
  "om_orders (oms_on_tick tk s) = om_orders s" "om_orders (oms_on_log l s) = om_orders s"
  "om_orders (oms_roll_new_day s) = om_orders s"
  by (simp_all add: oms_on_trade_def oms_on_position_def oms_on_account_def oms_on_contract_def
      oms_on_tick_def oms_on_log_def oms_roll_new_day_def)

lemma oms_on_order_orders:
  "map_of (om_orders (oms_on_order ord s)) =
     (case map_of (om_orders s) (od_id ord) of
        Some prior \<Rightarrow> if can_transition (od_status prior) (od_status ord)
          then (map_of (om_orders s))(od_id ord \<mapsto> ord) else map_of (om_orders s)
      | None \<Rightarrow> (map_of (om_orders s))(od_id ord \<mapsto> ord))"
  by (simp add: oms_on_order_def oms_accept_order_def AList.update_conv' split: option.split)

lemma oms_on_order_refines:
  "status_view_of (oms_on_order ord s) = report_status (od_id ord) (od_status ord) (status_view_of s)"
  by (rule ext) (simp add: status_view_of_def oms_on_order_orders report_status_def split: option.split)

lemma status_view_cong: "om_orders s = om_orders s' \<Longrightarrow> status_view_of s = status_view_of s'"
  by (simp add: status_view_of_def fun_eq_iff)

lemma oms_step_refines: "status_view_of (oms_step e s) = view_step e (status_view_of s)"
  by (cases e) (simp_all add: oms_on_order_refines, simp_all add: status_view_of_def fun_eq_iff)

lemma oms_orders_terminal:
  assumes "map_of (om_orders s) i = Some ord" "is_terminal (od_status ord)"
  shows "map_of (om_orders (oms_step e s)) i = Some ord"
proof (cases e)
  case (EvOrder rep)
  with assms terminal_stuck [OF assms(2)] show ?thesis
    by (cases "od_id rep = i") (simp_all add: oms_on_order_orders split: option.split)
qed (use assms in simp_all)

subsection \<open>Fills are counted once\<close>

text \<open>The fills that count: the first report of each trade id that is not already known.\<close>

fun new_trades :: "string set \<Rightarrow> trade list \<Rightarrow> trade list" where
  "new_trades seen [] = []"
| "new_trades seen (t # ts) =
     (if td_id t \<in> seen then new_trades seen ts else t # new_trades (insert (td_id t) seen) ts)"

lemma oms_run_trades:
  "om_positions (oms_run (map EvTrade ts) s) =
     fold update_trade (new_trades (dom (map_of (om_trades s))) ts) (om_positions s)"
proof (induction ts arbitrary: s)
  case Nil
  then show ?case by simp
next
  case (Cons t ts)
  show ?case
  proof (cases "map_of (om_trades s) (td_id t)")
    case None
    then have "dom (map_of (om_trades (oms_on_trade t s))) = insert (td_id t) (dom (map_of (om_trades s)))"
      by (simp add: oms_on_trade_def AList.update_conv')
    moreover from None have "td_id t \<notin> dom (map_of (om_trades s))" by (simp add: domIff)
    ultimately show ?thesis using None Cons.IH [of "oms_on_trade t s"]
      by (simp add: oms_on_trade_def)
  next
    case (Some t')
    then have "oms_on_trade t s = s" "td_id t \<in> dom (map_of (om_trades s))"
      by (auto simp: oms_on_trade_def)
    with Cons.IH [of s] show ?thesis by simp
  qed
qed

lemma new_trades_ids: "t \<in> set (new_trades seen ts) \<Longrightarrow> t \<in> set ts \<and> td_id t \<notin> seen"
  by (induction ts arbitrary: seen) (auto split: if_splits)

lemma new_trades_distinct: "distinct (map td_id (new_trades seen ts))"
proof (induction ts arbitrary: seen)
  case (Cons t ts)
  then show ?case using new_trades_ids [of _ "insert (td_id t) seen" ts] by force
qed simp

end
