(* ===== verification/Session.thy ===== *)
theory Session
  imports FSM
begin

section \<open>The trading session clock\<close>

text \<open>
  \<open>systems/live/fsm/session_fsm.py\<close>: the A-share day as eight states, the state at a time of
  day, what may be submitted or cancelled when, and the guarded clock that is polled with the
  current time.  The states are ordered by the course of the day, with \<open>CLOSED\<close> last.
\<close>

datatype session_state =
    PRE_OPEN | CALL_AUCTION_OPEN | CONTINUOUS_AM | LUNCH_BREAK
  | CONTINUOUS_PM | CALL_AUCTION_CLOSE | POST_CLOSE | CLOSED

fun session_value :: "session_state \<Rightarrow> string" where
  "session_value PRE_OPEN = ''pre_open''"
| "session_value CALL_AUCTION_OPEN = ''call_auction_open''"
| "session_value CONTINUOUS_AM = ''continuous_am''"
| "session_value LUNCH_BREAK = ''lunch_break''"
| "session_value CONTINUOUS_PM = ''continuous_pm''"
| "session_value CALL_AUCTION_CLOSE = ''call_auction_close''"
| "session_value POST_CLOSE = ''post_close''"
| "session_value CLOSED = ''closed''"

definition session_windows :: "(int \<times> int \<times> session_state) list" where
  "session_windows =
     [(hms 0 0 0, hms 9 15 0, PRE_OPEN),
      (hms 9 15 0, hms 9 30 0, CALL_AUCTION_OPEN),
      (hms 9 30 0, hms 11 30 0, CONTINUOUS_AM),
      (hms 11 30 0, hms 13 0 0, LUNCH_BREAK),
      (hms 13 0 0, hms 14 57 0, CONTINUOUS_PM),
      (hms 14 57 0, hms 15 0 0, CALL_AUCTION_CLOSE),
      (hms 15 0 0, hms 23 59 59, POST_CLOSE)]"

definition session_order :: "session_state list" where
  "session_order = [PRE_OPEN, CALL_AUCTION_OPEN, CONTINUOUS_AM, LUNCH_BREAK, CONTINUOUS_PM,
     CALL_AUCTION_CLOSE, POST_CLOSE]"

definition session_allowed :: "session_state \<Rightarrow> session_state set" where
  "session_allowed s =
     (if s = CLOSED then {CLOSED, PRE_OPEN}
      else set (dropWhile (\<lambda>x. x \<noteq> s) session_order) \<union> {CLOSED} \<union>
           (if s = POST_CLOSE then {PRE_OPEN} else {}))"

definition session_state_at :: "datetime \<Rightarrow> bool \<Rightarrow> session_state" where
  "session_state_at dt is_trading_day =
     (if \<not> is_trading_day then CLOSED
      else let t = time_of_day dt in
        case find (\<lambda>(start, stop, _). start \<le> t \<and> t < stop) session_windows of
          Some (_, _, state) \<Rightarrow> state
        | None \<Rightarrow> POST_CLOSE)"

definition can_submit :: "session_state \<Rightarrow> bool" where
  "can_submit state \<longleftrightarrow>
     state \<in> {CALL_AUCTION_OPEN, CONTINUOUS_AM, CONTINUOUS_PM, CALL_AUCTION_CLOSE}"

definition can_cancel_at :: "datetime \<Rightarrow> session_state \<Rightarrow> bool" where
  "can_cancel_at dt state =
     (if state \<in> {CONTINUOUS_AM, CONTINUOUS_PM} then True
      else if state = CALL_AUCTION_OPEN then time_of_day dt < hms 9 20 0
      else False)"

text \<open>
  The clock's state is the session state of its last successful poll; the calendar and the
  current time are arguments.
\<close>

type_synonym calendar = "datetime \<Rightarrow> bool"

text \<open>The calendar of a clock that is given none: weekdays.  Day 0 of the time line is a Monday.\<close>

definition weekday_calendar :: calendar where
  "weekday_calendar dt \<longleftrightarrow> day_of dt mod 7 < 5"

definition clock_current_state :: "calendar \<Rightarrow> datetime \<Rightarrow> session_state" where
  "clock_current_state cal now = session_state_at now (cal now)"

definition clock_tick :: "calendar \<Rightarrow> datetime \<Rightarrow> (session_state, session_state) op" where
  "clock_tick cal now st =
     (let target = clock_current_state cal now in
      if target \<noteq> st then
        (case check_transition session_allowed session_value st target ''session'' of
           Inl e \<Rightarrow> (Inl e, st) | Inr _ \<Rightarrow> (Inr target, target))
      else (Inr st, st))"

definition clock_can_submit :: "session_state \<Rightarrow> bool" where
  "clock_can_submit st = can_submit st"

definition clock_can_cancel :: "datetime \<Rightarrow> session_state \<Rightarrow> bool" where
  "clock_can_cancel now st = can_cancel_at now st"

subsection \<open>The order of the day\<close>

fun session_rank :: "session_state \<Rightarrow> nat" where
  "session_rank PRE_OPEN = 0"
| "session_rank CALL_AUCTION_OPEN = 1"
| "session_rank CONTINUOUS_AM = 2"
| "session_rank LUNCH_BREAK = 3"
| "session_rank CONTINUOUS_PM = 4"
| "session_rank CALL_AUCTION_CLOSE = 5"
| "session_rank POST_CLOSE = 6"
| "session_rank CLOSED = 7"

lemma session_rank_inj: "session_rank s = session_rank t \<Longrightarrow> s = t"
  by (cases s; cases t) simp_all

instantiation session_state :: linorder
begin

definition less_eq_session_state :: "session_state \<Rightarrow> session_state \<Rightarrow> bool" where
  "less_eq_session_state s t \<longleftrightarrow> session_rank s \<le> session_rank t"

definition less_session_state :: "session_state \<Rightarrow> session_state \<Rightarrow> bool" where
  "less_session_state s t \<longleftrightarrow> session_rank s < session_rank t"

instance
  by standard
    (auto simp: less_eq_session_state_def less_session_state_def intro: session_rank_inj)

end

lemmas session_order_defs = less_eq_session_state_def less_session_state_def

lemma session_allowed_iff:
  "t \<in> session_allowed s \<longleftrightarrow>
     (if s = CLOSED then t \<in> {CLOSED, PRE_OPEN} else s \<le> t \<or> s = POST_CLOSE \<and> t = PRE_OPEN)"
  by (cases s; cases t) (simp_all add: session_allowed_def session_order_def session_order_defs)

text \<open>The state as a function of the time of day, without the search through the windows.\<close>

lemma session_state_at_cases:
  "session_state_at dt True =
     (let t = time_of_day dt in
      if t < hms 9 15 0 then PRE_OPEN
      else if t < hms 9 30 0 then CALL_AUCTION_OPEN
      else if t < hms 11 30 0 then CONTINUOUS_AM
      else if t < hms 13 0 0 then LUNCH_BREAK
      else if t < hms 14 57 0 then CONTINUOUS_PM
      else if t < hms 15 0 0 then CALL_AUCTION_CLOSE else POST_CLOSE)"
  using time_of_day_bounds [of dt]
  by (auto simp: session_state_at_def session_windows_def hms_def day_us_def Let_def)

lemma session_state_at_closed [simp]: "session_state_at dt False = CLOSED"
  by (simp add: session_state_at_def)

lemma session_state_at_not_closed: "session_state_at dt True \<noteq> CLOSED"
  by (simp add: session_state_at_cases Let_def)

lemma session_state_at_mono:
  assumes "time_of_day t \<le> time_of_day u"
  shows "session_state_at t True \<le> session_state_at u True"
  using assms by (auto simp: session_state_at_cases session_order_defs hms_def Let_def)

lemma same_day_mono: "day_of t = day_of u \<Longrightarrow> t \<le> u \<Longrightarrow> time_of_day t \<le> time_of_day u"
  by (metis add_le_cancel_left day_time_split)

lemma session_pre_open_iff: "session_state_at dt True = PRE_OPEN \<longleftrightarrow> time_of_day dt < hms 9 15 0"
  by (simp add: session_state_at_cases Let_def)

lemma clock_tick_state:
  "snd (clock_tick cal now st) =
     (if clock_current_state cal now = st \<or> clock_current_state cal now \<in> session_allowed st
      then clock_current_state cal now else st)"
  by (auto simp: clock_tick_def check_transition_def Let_def)

lemma clock_tick_returns:
  "(\<exists>s. fst (clock_tick cal now st) = Inr s) \<longleftrightarrow>
     clock_current_state cal now = st \<or> clock_current_state cal now \<in> session_allowed st"
  by (auto simp: clock_tick_def check_transition_def Let_def)

text \<open>Polling at a list of times; a poll that raises leaves the state and goes on.\<close>

fun clock_polls :: "calendar \<Rightarrow> datetime list \<Rightarrow> session_state \<Rightarrow> session_state" where
  "clock_polls cal [] st = st"
| "clock_polls cal (t # ts) st = clock_polls cal ts (snd (clock_tick cal t st))"

end
