(* ===== verification/Risk.thy ===== *)
theory Risk
  imports OMS Session
begin

section \<open>The pre-trade risk gate\<close>

text \<open>
  \<open>systems/live/risk.py\<close>: the limits, the counters of the day, the loss stop, and the fixed
  battery of rules that every order passes before it is routed.  Each rule is a verdict, and
  \<open>first_rejection\<close> returns the first that rejects, as the early returns of the code do.
\<close>

subsection \<open>Verdicts\<close>

record verdict =
  rv_ok :: bool
  rv_rule :: string
  rv_reason :: string

definition passed :: verdict where
  "passed = \<lparr>rv_ok = True, rv_rule = [], rv_reason = []\<rparr>"

definition reject :: "string \<Rightarrow> string \<Rightarrow> verdict" where
  "reject rule reason = \<lparr>rv_ok = False, rv_rule = rule, rv_reason = reason\<rparr>"

text \<open>\<open>if cond: return RiskVerdict.reject(rule, reason)\<close>.\<close>

definition reject_if :: "bool \<Rightarrow> string \<Rightarrow> string \<Rightarrow> verdict" where
  "reject_if cond rule reason = (if cond then reject rule reason else passed)"

fun first_rejection :: "verdict list \<Rightarrow> verdict" where
  "first_rejection [] = passed"
| "first_rejection (v # vs) = (if \<not> rv_ok v then v else first_rejection vs)"

lemma passed_ok [simp]: "rv_ok passed"
  by (simp add: passed_def)

lemma reject_not_ok [simp]: "\<not> rv_ok (reject rule reason)"
  by (simp add: reject_def)

lemma reject_if_ok [simp]: "rv_ok (reject_if c rule reason) \<longleftrightarrow> \<not> c"
  by (simp add: reject_if_def)

lemma first_rejection_ok [simp]: "rv_ok (first_rejection vs) \<longleftrightarrow> (\<forall>v \<in> set vs. rv_ok v)"
  by (induction vs) auto

declare first_rejection.simps [simp del]

subsection \<open>The gate\<close>

record risk_limits =
  rl_max_order_value :: num
  rl_max_order_equity_pct :: num
  rl_max_daily_value :: num
  rl_max_daily_equity_pct :: num
  rl_max_position_pct :: num
  rl_max_total_position_pct :: num
  rl_max_position_count :: int
  rl_price_guard_pct :: num
  rl_max_orders_per_day :: int
  rl_lot_size :: int
  rl_max_quote_age_seconds :: num
  rl_buy_fee_rate :: num
  rl_sell_fee_rate :: num
  rl_min_fee :: num
  rl_max_daily_loss_pct :: num
  rl_max_canary_loss_pct :: num

text \<open>The values the environment overrides; no variable set.\<close>

definition default_limits :: risk_limits where
  "default_limits = \<lparr>rl_max_order_value = 200000, rl_max_order_equity_pct = 0,
     rl_max_daily_value = 2000000, rl_max_daily_equity_pct = 0, rl_max_position_pct = 3/10,
     rl_max_total_position_pct = 0, rl_max_position_count = 0, rl_price_guard_pct = 5/100,
     rl_max_orders_per_day = 1000, rl_lot_size = 100, rl_max_quote_age_seconds = 3,
     rl_buy_fee_rate = 15/100000, rl_sell_fee_rate = 15/100000, rl_min_fee = 5,
     rl_max_daily_loss_pct = 0, rl_max_canary_loss_pct = 0\<rparr>"

record risk_gate =
  rg_limits :: risk_limits
  rg_enforce_session :: bool
  rg_orders_today :: int
  rg_value_today :: num
  rg_seen_refs :: "string set"
  rg_day_start_equity :: num
  rg_canary_start_equity :: num
  rg_loss_halt_rule :: string
  rg_loss_halt_reason :: string

definition risk_gate_init :: "risk_limits \<Rightarrow> bool \<Rightarrow> risk_gate" where
  "risk_gate_init limits enforce = \<lparr>rg_limits = limits, rg_enforce_session = enforce,
     rg_orders_today = 0, rg_value_today = 0, rg_seen_refs = {}, rg_day_start_equity = 0,
     rg_canary_start_equity = 0, rg_loss_halt_rule = [], rg_loss_halt_reason = []\<rparr>"

definition reset_day :: "risk_gate \<Rightarrow> risk_gate" where
  "reset_day g = g\<lparr>rg_orders_today := 0, rg_value_today := 0, rg_seen_refs := {},
     rg_day_start_equity := 0\<rparr>"

text \<open>The saved state of the gate; a key missing from the dictionary is \<open>None\<close>.\<close>

record risk_state =
  rs_orders_today :: "int option"
  rs_value_today :: "num option"
  rs_seen_refs :: "string list option"
  rs_day_start_equity :: "num option"
  rs_canary_start_equity :: "num option"
  rs_loss_halt_rule :: "string option"
  rs_loss_halt_reason :: "string option"

definition risk_snapshot :: "risk_gate \<Rightarrow> risk_state" where
  "risk_snapshot g = \<lparr>rs_orders_today = Some (rg_orders_today g),
     rs_value_today = Some (rg_value_today g),
     rs_seen_refs = Some (sorted_list_of_set (rg_seen_refs g)),
     rs_day_start_equity = Some (rg_day_start_equity g),
     rs_canary_start_equity = Some (rg_canary_start_equity g),
     rs_loss_halt_rule = Some (rg_loss_halt_rule g),
     rs_loss_halt_reason = Some (rg_loss_halt_reason g)\<rparr>"

definition or_keep :: "'a option \<Rightarrow> 'a \<Rightarrow> 'a" where
  "or_keep new old = (case new of Some v \<Rightarrow> v | None \<Rightarrow> old)"

definition risk_restore :: "risk_state option \<Rightarrow> risk_gate \<Rightarrow> risk_gate" where
  "risk_restore state g = (case state of None \<Rightarrow> g | Some s \<Rightarrow>
     g\<lparr>rg_orders_today := or_keep (rs_orders_today s) (rg_orders_today g),
       rg_value_today := or_keep (rs_value_today s) (rg_value_today g),
       rg_seen_refs := or_keep (map_option (\<lambda>refs. set (filter (\<lambda>r. r \<noteq> []) refs)) (rs_seen_refs s))
         (rg_seen_refs g),
       rg_day_start_equity := or_keep (rs_day_start_equity s) (rg_day_start_equity g),
       rg_canary_start_equity := or_keep (rs_canary_start_equity s) (rg_canary_start_equity g),
       rg_loss_halt_rule := or_keep (rs_loss_halt_rule s) (rg_loss_halt_rule g),
       rg_loss_halt_reason := or_keep (rs_loss_halt_reason s) (rg_loss_halt_reason g)\<rparr>)"

definition acknowledge_loss_halt :: "risk_gate \<Rightarrow> risk_gate" where
  "acknowledge_loss_halt g = g\<lparr>rg_loss_halt_rule := [], rg_loss_halt_reason := []\<rparr>"

subsection \<open>Equity and the loss stop\<close>

definition risk_equity :: "oms \<Rightarrow> num" where
  "risk_equity oms = (case om_account oms of
     Some a \<Rightarrow> if ac_balance a > 0 then ac_balance a else oms_buying_power oms
   | None \<Rightarrow> oms_buying_power oms)"

definition latch_loss :: "string \<Rightarrow> string \<Rightarrow> risk_gate \<Rightarrow> verdict \<times> risk_gate" where
  "latch_loss rule reason g =
     (reject rule reason, g\<lparr>rg_loss_halt_rule := rule, rg_loss_halt_reason := reason\<rparr>)"

definition check_equity :: "oms \<Rightarrow> risk_gate \<Rightarrow> verdict \<times> risk_gate" where
  "check_equity oms g =
     (if rg_loss_halt_rule g \<noteq> [] then (reject (rg_loss_halt_rule g) (rg_loss_halt_reason g), g)
      else let lims = rg_limits g; equity = risk_equity oms in
        if equity \<le> 0 then (passed, g)
        else
          let g1 = (if rg_day_start_equity g \<le> 0 then g\<lparr>rg_day_start_equity := equity\<rparr> else g);
              g2 = (if rg_canary_start_equity g1 \<le> 0 then g1\<lparr>rg_canary_start_equity := equity\<rparr> else g1)
          in
          if rl_max_daily_loss_pct lims > 0 \<and>
             equity \<le> rg_day_start_equity g2 * (1 - rl_max_daily_loss_pct lims)
          then latch_loss ''daily_loss''
                 (''equity loss reached '' @ pct_text 2 (1 - equity / rg_day_start_equity g2) @
                  '' >= '' @ pct_text 2 (rl_max_daily_loss_pct lims)) g2
          else if rl_max_canary_loss_pct lims > 0 \<and>
             equity \<le> rg_canary_start_equity g2 * (1 - rl_max_canary_loss_pct lims)
          then latch_loss ''canary_loss''
                 (''canary loss reached '' @ pct_text 2 (1 - equity / rg_canary_start_equity g2) @
                  '' >= '' @ pct_text 2 (rl_max_canary_loss_pct lims)) g2
          else (passed, g2))"

subsection \<open>Caps and reference prices\<close>

definition smallest_cap :: "num list \<Rightarrow> num" where
  "smallest_cap values = (case filter (\<lambda>v. v > 0) values of [] \<Rightarrow> 0 | c # cs \<Rightarrow> foldr min cs c)"

definition effective_order_cap :: "risk_limits \<Rightarrow> num \<Rightarrow> num" where
  "effective_order_cap lims equity =
     smallest_cap [rl_max_order_value lims, equity * rl_max_order_equity_pct lims]"

definition effective_daily_cap :: "risk_limits \<Rightarrow> num \<Rightarrow> num" where
  "effective_daily_cap lims equity =
     smallest_cap [rl_max_daily_value lims, equity * rl_max_daily_equity_pct lims]"

definition ref_price :: "oms \<Rightarrow> order_request \<Rightarrow> num" where
  "ref_price oms req = (case oms_get_tick oms (rq_key req) of
     Some t \<Rightarrow> if tk_last_price t > 0 then tk_last_price t else rq_price req
   | None \<Rightarrow> rq_price req)"

definition position_price :: "oms \<Rightarrow> string \<Rightarrow> num \<Rightarrow> num" where
  "position_price oms key fallback =
     (let price = (if key = [] then 0 else
            case oms_get_tick oms key of Some t \<Rightarrow> tk_last_price t | None \<Rightarrow> 0)
      in if price > 0 then price else fallback)"

definition is_multiple :: "num \<Rightarrow> num \<Rightarrow> num \<Rightarrow> bool" where
  "is_multiple v step tolerance =
     (if step \<le> 0 then True
      else \<bar>v - of_int (py_round (v / step)) * step\<bar> \<le> tolerance)"

subsection \<open>The rules\<close>

definition check_contract_price :: "order_request \<Rightarrow> oms \<Rightarrow> contract option \<Rightarrow> verdict" where
  "check_contract_price req oms contract =
     (let tick_size = (case contract of Some c \<Rightarrow> ct_price_tick c | None \<Rightarrow> 0);
          price = rq_price req;
          (limit_up, limit_down) = (case oms_get_tick oms (rq_key req) of
             Some t \<Rightarrow> (tk_limit_up t, tk_limit_down t) | None \<Rightarrow> (0, 0))
      in first_rejection
        [reject_if (tick_size > 0 \<and> \<not> is_multiple price tick_size (1/1000000000)) ''price_tick''
           (''limit '' @ num_text price @ '' is not aligned to tick '' @ num_text tick_size),
         reject_if (limit_up > 0 \<and> price > limit_up + 1/1000000000) ''price_limit''
           (''limit '' @ num_text price @ '' > limit_up '' @ num_text limit_up),
         reject_if (limit_down > 0 \<and> price < limit_down - 1/1000000000) ''price_limit''
           (''limit '' @ num_text price @ '' < limit_down '' @ num_text limit_down)])"

definition check_concentration :: "risk_limits \<Rightarrow> order_request \<Rightarrow> oms \<Rightarrow> num \<Rightarrow> verdict" where
  "check_concentration lims req oms ref =
     (if rl_max_position_pct lims \<le> 0 \<or> ref \<le> 0 then passed
      else let equity = risk_equity oms in
        if equity \<le> 0 then passed
        else let current = (case oms_get_position oms (rq_key req) of
                   Some p \<Rightarrow> ps_volume p | None \<Rightarrow> 0);
                 resulting_value = (current + rq_volume req) * ref
             in reject_if (resulting_value / equity > rl_max_position_pct lims) ''max_position_pct''
                  (''post-trade '' @ rq_key req @ '' weight '' @ pct_text 1 (resulting_value / equity) @
                   '' > cap '' @ pct_text 1 (rl_max_position_pct lims)))"

text \<open>
  The two loops of \<open>_check_portfolio_limits\<close>: they add up the instruments and the value of
  the holdings and of the working buys, and stop at the first item that has no price.
\<close>

type_synonym exposure = "string set \<times> num"

fun add_holdings :: "oms \<Rightarrow> position list \<Rightarrow> exposure \<Rightarrow> verdict + exposure" where
  "add_holdings oms [] (symbols, held) = Inr (symbols, held)"
| "add_holdings oms (p # ps) (symbols, held) =
     (let volume = max (ps_volume p) 0 in
      if volume \<le> 0 then add_holdings oms ps (symbols, held)
      else let key = ps_key p; price = position_price oms key (ps_price p) in
        if price \<le> 0
        then Inl (reject ''portfolio_valuation'' (''cannot value existing position '' @ key))
        else add_holdings oms ps (insert key symbols, held + volume * price))"

fun add_working_buys :: "oms \<Rightarrow> order list \<Rightarrow> exposure \<Rightarrow> verdict + exposure" where
  "add_working_buys oms [] (symbols, held) = Inr (symbols, held)"
| "add_working_buys oms (ord # ords) (symbols, held) =
     (if od_direction ord \<noteq> LONG then add_working_buys oms ords (symbols, held)
      else let remaining = max (od_remaining ord) 0 in
        if remaining \<le> 0 then add_working_buys oms ords (symbols, held)
        else let key = od_key ord;
                 price = (if od_price ord \<le> 0 then position_price oms key 0 else od_price ord) in
          if price \<le> 0
          then Inl (reject ''portfolio_valuation'' (''cannot value pending buy '' @ key))
          else add_working_buys oms ords (insert key symbols, held + remaining * price))"

definition portfolio_exposure :: "oms \<Rightarrow> verdict + exposure" where
  "portfolio_exposure oms =
     (case add_holdings oms (oms_get_positions oms) ({}, 0) of
        Inl v \<Rightarrow> Inl v
      | Inr e \<Rightarrow> add_working_buys oms (oms_get_active_orders oms) e)"

definition check_portfolio_limits ::
  "risk_limits \<Rightarrow> order_request \<Rightarrow> oms \<Rightarrow> num \<Rightarrow> num \<Rightarrow> verdict" where
  "check_portfolio_limits lims req oms notional equity =
     (if rl_max_total_position_pct lims \<le> 0 \<and> rl_max_position_count lims \<le> 0 then passed
      else if equity \<le> 0
      then reject ''portfolio_equity''
        ''positive account equity is required for portfolio exposure limits''
      else case portfolio_exposure oms of
        Inl v \<Rightarrow> v
      | Inr (symbols, held) \<Rightarrow>
          let n = int (card (insert (rq_key req) symbols)); weight = (held + notional) / equity
          in first_rejection
            [reject_if (rl_max_position_count lims > 0 \<and> n > rl_max_position_count lims)
               ''max_position_count''
               (''post-trade position count '' @ int_text n @ '' > cap '' @ int_text (rl_max_position_count lims)),
             reject_if (rl_max_total_position_pct lims > 0 \<and>
                 weight > rl_max_total_position_pct lims + 1/1000000000000)
               ''max_total_position_pct''
               (''post-trade total exposure '' @ pct_text 1 weight @ '' > cap '' @
                pct_text 1 (rl_max_total_position_pct lims))])"

text \<open>The session as the gate sees it: the clock's state and its current time.\<close>

record session_view =
  sv_state :: session_state
  sv_now :: stamp

definition stamp_diff :: "stamp \<Rightarrow> stamp \<Rightarrow> int" where
  "stamp_diff a b = (case (a, b) of
     (Aware t u, Aware t' u') \<Rightarrow> (t - u) - (t' - u') | _ \<Rightarrow> local_time a - local_time b)"

definition quote_time :: "tick \<Rightarrow> stamp option" where
  "quote_time t = (case tk_received_at t of Some s \<Rightarrow> Some s | None \<Rightarrow> tk_datetime t)"

text \<open>Age in seconds, never negative.\<close>

definition quote_age :: "stamp \<Rightarrow> stamp \<Rightarrow> num" where
  "quote_age now timestamp = max (of_int (stamp_diff now timestamp) / 1000000) 0"

definition check_quote ::
  "risk_limits \<Rightarrow> order_request \<Rightarrow> oms \<Rightarrow> session_view option \<Rightarrow> stamp \<Rightarrow> verdict" where
  "check_quote lims req oms sess wall =
     (case oms_get_tick oms (rq_key req) of
        None \<Rightarrow> reject ''missing_quote'' (rq_key req @ '' fresh quote is required in LIVE mode'')
      | Some t \<Rightarrow>
          if tk_last_price t \<le> 0
          then reject ''missing_quote'' (rq_key req @ '' fresh quote is required in LIVE mode'')
          else case quote_time t of
            None \<Rightarrow> reject ''stale_quote'' (rq_key req @ '' quote timestamp is required'')
          | Some timestamp \<Rightarrow>
              let now = (case sess of Some s \<Rightarrow> sv_now s | None \<Rightarrow> wall);
                  age = quote_age now timestamp; limit = rl_max_quote_age_seconds lims
              in reject_if (limit > 0 \<and> age > limit) ''stale_quote''
                   (rq_key req @ '' quote age '' @ fixed_text 1 age @ ''s > '' @ fixed_text 1 limit @ ''s''))"

definition live_modes :: "run_mode option set" where
  "live_modes = {Some LIVE, Some SIMULATION}"

definition check_product :: "order_request \<Rightarrow> contract option \<Rightarrow> run_mode option \<Rightarrow> verdict" where
  "check_product req contract mode = first_rejection
     [reject_if (mode \<in> live_modes \<and> map_option ct_product contract = Some FUTURES)
        ''unsupported_product'' ''futures external routing is not enabled'',
      reject_if (mode = Some SIMULATION \<and>
          (case contract of Some c \<Rightarrow> ct_product c \<notin> {EQUITY, FUND} | None \<Rightarrow> False))
        ''unsupported_product'' ''simulation routing currently supports A-share equities and funds only'',
      reject_if (mode \<in> live_modes \<and> contract = None)
        ''unknown_contract'' (rq_key req @ '' contract metadata is required in LIVE mode'')]"

definition effective_lot :: "risk_limits \<Rightarrow> contract option \<Rightarrow> int" where
  "effective_lot lims contract =
     (let l = (case contract of Some c \<Rightarrow> ct_lot_size c | None \<Rightarrow> 0)
      in if l \<noteq> 0 then l else rl_lot_size lims)"

definition check_price_guard :: "risk_limits \<Rightarrow> order_request \<Rightarrow> num \<Rightarrow> verdict" where
  "check_price_guard lims req ref =
     reject_if (rq_type req = LIMIT \<and> rq_price req > 0 \<and> ref > 0 \<and> rl_price_guard_pct lims > 0 \<and>
         \<bar>rq_price req - ref\<bar> / ref > rl_price_guard_pct lims) ''price_guard''
       (''limit '' @ num_text (rq_price req) @ '' deviates > '' @ pct_text 1 (rl_price_guard_pct lims) @
        '' from ref '' @ num_text ref)"

definition req_notional :: "oms \<Rightarrow> order_request \<Rightarrow> num" where
  "req_notional oms req =
     rq_volume req * (if rq_price req > 0 then rq_price req else ref_price oms req)"

definition check_side :: "risk_limits \<Rightarrow> order_request \<Rightarrow> oms \<Rightarrow> num \<Rightarrow> verdict" where
  "check_side lims req oms equity =
     (let ref = ref_price oms req; notional = req_notional oms req in
      if rq_direction req = LONG then first_rejection
        [reject_if (notional > oms_buying_power oms + 1/1000000) ''insufficient_cash''
           (''notional '' @ fixed_text 0 notional @ '' > buying power '' @ fixed_text 0 (oms_buying_power oms)),
         check_concentration lims req oms ref,
         check_portfolio_limits lims req oms notional equity]
      else let available = oms_available_shares oms (rq_key req) in
        reject_if (rq_volume req > available + 1/1000000) ''insufficient_position''
          (''sell '' @ num_text (rq_volume req) @ '' > sellable '' @ num_text available @ '' (T+1 / frozen)''))"

text \<open>Every rule after the loss stop, in the order of the code.\<close>

definition order_verdict ::
  "order_request \<Rightarrow> oms \<Rightarrow> session_view option \<Rightarrow> run_mode option \<Rightarrow> stamp \<Rightarrow> risk_gate \<Rightarrow> verdict" where
  "order_verdict req oms sess mode wall g =
     (let lims = rg_limits g; equity = risk_equity oms;
          contract = oms_get_contract oms (rq_key req);
          lot = effective_lot lims contract; ref = ref_price oms req;
          notional = req_notional oms req;
          order_cap = effective_order_cap lims equity; daily_cap = effective_daily_cap lims equity
      in first_rejection
       [reject_if (rg_enforce_session g \<and>
            (case sess of Some s \<Rightarrow> \<not> can_submit (sv_state s) | None \<Rightarrow> False)) ''session''
          (''submission not allowed in '' @
           (case sess of Some s \<Rightarrow> session_value (sv_state s) | None \<Rightarrow> [])),
        reject_if (rq_volume req \<le> 0) ''volume'' ''order volume must be positive'',
        check_product req contract mode,
        (if mode \<in> live_modes then check_quote lims req oms sess wall else passed),
        reject_if (lot > 0 \<and> py_fmod \<bar>rq_volume req\<bar> (of_int lot) \<noteq> 0) ''lot_size''
          (''volume '' @ num_text (rq_volume req) @ '' is not a multiple of '' @ int_text lot),
        reject_if (rq_reference req \<noteq> [] \<and> rq_reference req \<in> rg_seen_refs g) ''duplicate''
          (''duplicate client reference '' @ rq_reference req),
        reject_if (rl_max_orders_per_day lims > 0 \<and> rg_orders_today g + 1 > rl_max_orders_per_day lims)
          ''max_orders_per_day'' (''daily order cap '' @ int_text (rl_max_orders_per_day lims) @ '' reached''),
        (if rq_type req = LIMIT \<and> rq_price req > 0 then check_contract_price req oms contract else passed),
        check_price_guard lims req ref,
        reject_if (order_cap > 0 \<and> notional > order_cap) ''max_order_value''
          (''notional '' @ fixed_text 0 notional @ '' > cap '' @ fixed_text 0 order_cap),
        check_side lims req oms equity,
        reject_if (daily_cap > 0 \<and> rg_value_today g + notional > daily_cap) ''max_daily_value''
          (''daily turnover '' @ fixed_text 0 (rg_value_today g + notional) @ '' > cap '' @
           fixed_text 0 daily_cap)])"

text \<open>What an accepted order adds to the counters.\<close>

definition record_accepted :: "order_request \<Rightarrow> num \<Rightarrow> risk_gate \<Rightarrow> risk_gate" where
  "record_accepted req notional g =
     g\<lparr>rg_orders_today := rg_orders_today g + 1, rg_value_today := rg_value_today g + notional,
       rg_seen_refs := (if rq_reference req \<noteq> [] then insert (rq_reference req) (rg_seen_refs g)
                        else rg_seen_refs g)\<rparr>"

definition risk_check ::
  "order_request \<Rightarrow> oms \<Rightarrow> session_view option \<Rightarrow> run_mode option \<Rightarrow> stamp \<Rightarrow> risk_gate \<Rightarrow>
   verdict \<times> risk_gate" where
  "risk_check req oms sess mode wall g =
     (let (ev, g1) = check_equity oms g in
      if \<not> rv_ok ev then (ev, g1)
      else let v = order_verdict req oms sess mode wall g1 in
        if \<not> rv_ok v then (v, g1)
        else (passed, record_accepted req (req_notional oms req) g1))"

subsection \<open>What the rules guarantee\<close>

lemma check_equity_frame:
  assumes "check_equity oms g = (v, g')"
  shows "rg_limits g' = rg_limits g" "rg_enforce_session g' = rg_enforce_session g"
    "rg_orders_today g' = rg_orders_today g" "rg_value_today g' = rg_value_today g"
    "rg_seen_refs g' = rg_seen_refs g"
  using assms by (auto simp: check_equity_def latch_loss_def Let_def split: if_splits)

lemma check_equity_latched:
  "rg_loss_halt_rule g \<noteq> [] \<Longrightarrow> check_equity oms g = (reject (rg_loss_halt_rule g) (rg_loss_halt_reason g), g)"
  by (simp add: check_equity_def)

text \<open>A rejection by the loss stop latches exactly the rule and the reason it reports.\<close>

lemma check_equity_latches:
  assumes "check_equity oms g = (v, g')" "\<not> rv_ok v"
  shows "rg_loss_halt_rule g' = rv_rule v \<and> rg_loss_halt_reason g' = rv_reason v \<and>
    (rg_loss_halt_rule g = [] \<longrightarrow> rv_rule v \<in> {''daily_loss'', ''canary_loss''})"
  using assms by (auto simp: check_equity_def latch_loss_def reject_def passed_def Let_def split: if_splits)

lemma check_equity_ok_unlatched:
  "check_equity oms g = (v, g') \<Longrightarrow> rv_ok v \<Longrightarrow> rg_loss_halt_rule g = [] \<and> rg_loss_halt_rule g' = []"
  by (auto simp: check_equity_def latch_loss_def reject_def Let_def split: if_splits)

lemma risk_check_accepted:
  assumes "risk_check req oms sess mode wall g = (v, g')" "rv_ok v"
  obtains g1 where "check_equity oms g = (passed, g1)"
    "rv_ok (order_verdict req oms sess mode wall g1)"
    "g' = record_accepted req (req_notional oms req) g1"
proof -
  obtain ev g1 where ce: "check_equity oms g = (ev, g1)" by fastforce
  with assms have "rv_ok ev" "rv_ok (order_verdict req oms sess mode wall g1)"
    "g' = record_accepted req (req_notional oms req) g1"
    by (auto simp: risk_check_def Let_def split: if_splits)
  moreover from \<open>rv_ok ev\<close> ce have "ev = passed"
    by (auto simp: check_equity_def latch_loss_def Let_def split: if_splits)
  ultimately show ?thesis using that ce by blast
qed

lemma risk_check_frame:
  "risk_check req oms sess mode wall g = (v, g') \<Longrightarrow>
     rg_limits g' = rg_limits g \<and> rg_enforce_session g' = rg_enforce_session g"
  by (auto simp: risk_check_def record_accepted_def Let_def split: if_splits prod.splits
      dest: check_equity_frame)

lemma risk_check_rejected:
  assumes "risk_check req oms sess mode wall g = (v, g')" "\<not> rv_ok v"
  shows "rg_orders_today g' = rg_orders_today g" "rg_value_today g' = rg_value_today g"
    "rg_seen_refs g' = rg_seen_refs g"
proof -
  obtain ev g1 where ce: "check_equity oms g = (ev, g1)" by fastforce
  with assms have "g' = g1" by (auto simp: risk_check_def Let_def split: if_splits)
  with check_equity_frame [OF ce]
  show "rg_orders_today g' = rg_orders_today g" "rg_value_today g' = rg_value_today g"
    "rg_seen_refs g' = rg_seen_refs g" by simp_all
qed

lemma foldr_min_le: "foldr min cs c \<le> (c :: num)" "x \<in> set cs \<Longrightarrow> foldr min cs c \<le> x"
  by (induction cs) (auto simp: min_le_iff_disj)

lemma foldr_min_pos: "(0 :: num) < c \<Longrightarrow> (\<And>x. x \<in> set cs \<Longrightarrow> 0 < x) \<Longrightarrow> 0 < foldr min cs c"
  by (induction cs) auto

lemma smallest_cap_le:
  assumes "v \<in> set vs" "0 < v"
  shows "0 < smallest_cap vs" "smallest_cap vs \<le> v"
proof -
  from assms have "v \<in> set (filter (\<lambda>v. v > 0) vs)" by simp
  then obtain c cs where f: "filter (\<lambda>v. v > 0) vs = c # cs" "v = c \<or> v \<in> set cs"
    by (cases "filter (\<lambda>v. v > 0) vs") auto
  have pos: "0 < x" if "x \<in> set (c # cs)" for x
    using that unfolding f(1) [symmetric] by simp
  then have "0 < c" "\<And>x. x \<in> set cs \<Longrightarrow> 0 < x" by simp_all
  with f show "0 < smallest_cap vs" "smallest_cap vs \<le> v"
    by (auto simp: smallest_cap_def foldr_min_pos foldr_min_le)
qed

text \<open>An accepted order respects a cap whenever either of its two sources is switched on.\<close>

lemma under_order_cap:
  assumes "\<not> (effective_order_cap lims e > 0 \<and> n > effective_order_cap lims e)"
  shows "rl_max_order_value lims > 0 \<Longrightarrow> n \<le> rl_max_order_value lims"
    "e * rl_max_order_equity_pct lims > 0 \<Longrightarrow> n \<le> e * rl_max_order_equity_pct lims"
  using assms smallest_cap_le [of "rl_max_order_value lims" "[rl_max_order_value lims, e * rl_max_order_equity_pct lims]"]
    smallest_cap_le [of "e * rl_max_order_equity_pct lims" "[rl_max_order_value lims, e * rl_max_order_equity_pct lims]"]
  by (force simp: effective_order_cap_def)+

lemma under_daily_cap:
  assumes "\<not> (effective_daily_cap lims e > 0 \<and> n > effective_daily_cap lims e)"
  shows "rl_max_daily_value lims > 0 \<Longrightarrow> n \<le> rl_max_daily_value lims"
    "e * rl_max_daily_equity_pct lims > 0 \<Longrightarrow> n \<le> e * rl_max_daily_equity_pct lims"
  using assms smallest_cap_le [of "rl_max_daily_value lims" "[rl_max_daily_value lims, e * rl_max_daily_equity_pct lims]"]
    smallest_cap_le [of "e * rl_max_daily_equity_pct lims" "[rl_max_daily_value lims, e * rl_max_daily_equity_pct lims]"]
  by (force simp: effective_daily_cap_def)+

text \<open>The facts an accepted order carries, read off the list of rules once.\<close>

lemma order_verdict_ok:
  assumes "rv_ok (order_verdict req oms sess mode wall g)"
  shows "rg_enforce_session g \<Longrightarrow> sess = Some s \<Longrightarrow> can_submit (sv_state s)"
    "0 < rq_volume req"
    "rv_ok (check_product req (oms_get_contract oms (rq_key req)) mode)"
    "mode \<in> live_modes \<Longrightarrow> rv_ok (check_quote (rg_limits g) req oms sess wall)"
    "effective_lot (rg_limits g) (oms_get_contract oms (rq_key req)) > 0 \<Longrightarrow>
       py_fmod \<bar>rq_volume req\<bar> (of_int (effective_lot (rg_limits g) (oms_get_contract oms (rq_key req)))) = 0"
    "rq_reference req \<noteq> [] \<Longrightarrow> rq_reference req \<notin> rg_seen_refs g"
    "rl_max_orders_per_day (rg_limits g) > 0 \<Longrightarrow> rg_orders_today g + 1 \<le> rl_max_orders_per_day (rg_limits g)"
    "rv_ok (check_price_guard (rg_limits g) req (ref_price oms req))"
    "\<not> (effective_order_cap (rg_limits g) (risk_equity oms) > 0 \<and>
       req_notional oms req > effective_order_cap (rg_limits g) (risk_equity oms))"
    "rv_ok (check_side (rg_limits g) req oms (risk_equity oms))"
    "\<not> (effective_daily_cap (rg_limits g) (risk_equity oms) > 0 \<and>
       rg_value_today g + req_notional oms req > effective_daily_cap (rg_limits g) (risk_equity oms))"
  using assms unfolding order_verdict_def Let_def
  by (auto simp: not_less)

lemma check_side_ok:
  assumes "rv_ok (check_side lims req oms equity)"
  shows "rq_direction req = LONG \<Longrightarrow> req_notional oms req \<le> oms_buying_power oms + 1/1000000"
    "rq_direction req = LONG \<Longrightarrow> rv_ok (check_concentration lims req oms (ref_price oms req))"
    "rq_direction req = LONG \<Longrightarrow> rv_ok (check_portfolio_limits lims req oms (req_notional oms req) equity)"
    "rq_direction req \<noteq> LONG \<Longrightarrow> rq_volume req \<le> oms_available_shares oms (rq_key req) + 1/1000000"
  using assms by (simp_all add: check_side_def Let_def not_less)

lemma lot_multiple:
  assumes "0 < lot" "0 < v" "py_fmod \<bar>v\<bar> (of_int lot) = 0"
  shows "is_lots lot v"
proof -
  from assms obtain k where "v = of_int lot * of_int k"
    using py_fmod_eq_0_iff [of "of_int lot" v] by auto
  then have "v = of_int (k * lot)" by (simp add: mult.commute)
  with assms(1) show ?thesis using is_lots_iff by blast
qed

subsection \<open>A day of checks\<close>

text \<open>
  A run of the gate over any sequence of attempts, each with the account state, session and mode of
  its moment; the accepted orders are collected with their notional values.
\<close>

type_synonym attempt =
  "order_request \<times> oms \<times> session_view option \<times> run_mode option \<times> stamp"

fun gate_run :: "attempt list \<Rightarrow> risk_gate \<Rightarrow> (order_request \<times> num) list \<times> risk_gate" where
  "gate_run [] g = ([], g)"
| "gate_run ((req, oms, sess, mode, wall) # rest) g =
     (let (v, g1) = risk_check req oms sess mode wall g; (acc, g2) = gate_run rest g1
      in (if rv_ok v then (req, req_notional oms req) # acc else acc, g2))"

definition named_refs :: "(order_request \<times> num) list \<Rightarrow> string list" where
  "named_refs acc = filter (\<lambda>r. r \<noteq> []) (map (rq_reference \<circ> fst) acc)"

lemma gate_run_limits: "gate_run ats g = (acc, g') \<Longrightarrow> rg_limits g' = rg_limits g"
  by (induction ats g arbitrary: acc g' rule: gate_run.induct)
    (auto simp: Let_def split: prod.splits dest: risk_check_frame)

lemma gate_step_accepted:
  assumes "risk_check req oms sess mode wall g = (v, g1)" "rv_ok v"
  shows "rg_orders_today g1 = rg_orders_today g + 1"
    "rg_value_today g1 = rg_value_today g + req_notional oms req"
    "rg_seen_refs g1 = rg_seen_refs g \<union> (if rq_reference req \<noteq> [] then {rq_reference req} else {})"
    "rq_reference req \<noteq> [] \<Longrightarrow> rq_reference req \<notin> rg_seen_refs g"
    "rl_max_orders_per_day (rg_limits g) > 0 \<Longrightarrow> rg_orders_today g1 \<le> rl_max_orders_per_day (rg_limits g)"
    "rl_max_daily_value (rg_limits g) > 0 \<Longrightarrow> rg_value_today g1 \<le> rl_max_daily_value (rg_limits g)"
proof -
  obtain g0 where g0: "check_equity oms g = (passed, g0)"
    "rv_ok (order_verdict req oms sess mode wall g0)"
    "g1 = record_accepted req (req_notional oms req) g0"
    using risk_check_accepted [OF assms] .
  note frame = check_equity_frame [OF g0(1)] and ok = order_verdict_ok [OF g0(2)]
  show "rg_orders_today g1 = rg_orders_today g + 1"
    "rg_value_today g1 = rg_value_today g + req_notional oms req"
    "rg_seen_refs g1 = rg_seen_refs g \<union> (if rq_reference req \<noteq> [] then {rq_reference req} else {})"
    using frame g0(3) by (simp_all add: record_accepted_def)
  show "rq_reference req \<noteq> [] \<Longrightarrow> rq_reference req \<notin> rg_seen_refs g"
    "rl_max_orders_per_day (rg_limits g) > 0 \<Longrightarrow> rg_orders_today g1 \<le> rl_max_orders_per_day (rg_limits g)"
    using frame ok(6,7) g0(3) by (simp_all add: record_accepted_def)
  show "rl_max_daily_value (rg_limits g) > 0 \<Longrightarrow> rg_value_today g1 \<le> rl_max_daily_value (rg_limits g)"
    using frame under_daily_cap(1) [OF ok(11)] g0(3) by (simp add: record_accepted_def)
qed

lemma gate_run_counts:
  assumes "gate_run ats g = (acc, g')"
  shows "rg_orders_today g' = rg_orders_today g + int (length acc) \<and>
    rg_value_today g' = rg_value_today g + sum_list (map snd acc) \<and>
    rg_seen_refs g' = rg_seen_refs g \<union> set (named_refs acc) \<and>
    set (named_refs acc) \<inter> rg_seen_refs g = {} \<and> distinct (named_refs acc)"
  using assms
proof (induction ats g arbitrary: acc g' rule: gate_run.induct)
  case (2 req oms sess mode wall rest g)
  obtain v g1 where rc: "risk_check req oms sess mode wall g = (v, g1)" by fastforce
  obtain acc1 g2 where gr: "gate_run rest g1 = (acc1, g2)" by fastforce
  note ih = "2.IH" [OF rc [symmetric] refl gr]
  from "2.prems" rc gr have res: "g' = g2" "acc = (if rv_ok v then (req, req_notional oms req) # acc1 else acc1)"
    by (simp_all add: Let_def)
  show ?case
  proof (cases "rv_ok v")
    case True
    then show ?thesis using ih gate_step_accepted(1-4) [OF rc True] res by (auto simp: named_refs_def)
  next
    case False
    then show ?thesis using ih risk_check_rejected [OF rc False] res by simp
  qed
qed (simp add: named_refs_def)

lemma gate_run_bounded:
  assumes "gate_run ats g = (acc, g')" "acc \<noteq> []"
  shows "(rl_max_orders_per_day (rg_limits g) > 0 \<longrightarrow> rg_orders_today g' \<le> rl_max_orders_per_day (rg_limits g)) \<and>
    (rl_max_daily_value (rg_limits g) > 0 \<longrightarrow> rg_value_today g' \<le> rl_max_daily_value (rg_limits g))"
  using assms
proof (induction ats g arbitrary: acc g' rule: gate_run.induct)
  case (2 req oms sess mode wall rest g)
  obtain v g1 where rc: "risk_check req oms sess mode wall g = (v, g1)" by fastforce
  obtain acc1 g2 where gr: "gate_run rest g1 = (acc1, g2)" by fastforce
  from "2.prems" rc gr have res: "g' = g2" "acc = (if rv_ok v then (req, req_notional oms req) # acc1 else acc1)"
    by (simp_all add: Let_def)
  have lims: "rg_limits g1 = rg_limits g" using risk_check_frame [OF rc] by simp
  show ?case
  proof (cases "acc1 = []")
    case False
    then show ?thesis using "2.IH" [OF rc [symmetric] refl gr] lims res by simp
  next
    case True
    then have "rv_ok v" using res "2.prems"(2) by (simp split: if_splits)
    moreover have "rg_orders_today g2 = rg_orders_today g1" "rg_value_today g2 = rg_value_today g1"
      using gate_run_counts [OF gr] True by simp_all
    ultimately show ?thesis using gate_step_accepted(5,6) [OF rc] res by simp
  qed
qed simp

text \<open>A latched loss stop lets nothing through.\<close>

lemma gate_run_latched: "rg_loss_halt_rule g \<noteq> [] \<Longrightarrow> gate_run ats g = ([], g)"
proof (induction ats)
  case (Cons a ats)
  obtain req oms sess mode wall where "a = (req, oms, sess, mode, wall)" by (metis surj_pair)
  with Cons check_equity_latched [OF Cons.prems] show ?case by (simp add: risk_check_def Let_def)
qed simp

lemma restore_snapshot:
  assumes "finite (rg_seen_refs g)" "[] \<notin> rg_seen_refs g"
    "rg_limits g0 = rg_limits g" "rg_enforce_session g0 = rg_enforce_session g"
  shows "risk_restore (Some (risk_snapshot g)) g0 = g"
  using assms by (auto simp: risk_restore_def risk_snapshot_def or_keep_def intro!: risk_gate.equality)

end
