(* ===== verification/Ledger.thy ===== *)
theory Ledger
  imports Live_Types
begin

section \<open>Events and the audit ledger\<close>

text \<open>
  \<open>systems/live/events.py\<close> and \<open>systems/live/ledger.py\<close>: the structured event, the event bus
  with its isolated observers, and the append-only ledger with one file of lines per day.  A line
  is the JSON object written to it; writing and reading back a JSON line is taken to be the
  identity, and a time is kept as such where the code stores its ISO text.
\<close>

subsection \<open>JSON values\<close>

datatype json =
    JNull
  | JBool bool
  | JNum num
  | JStr string
  | JTime datetime
  | JArr "json list"
  | JObj "(string \<times> json) list"

text \<open>\<open>d.get(key)\<close>; a missing key and a null are both Python's \<open>None\<close>.\<close>

fun jget :: "string \<Rightarrow> json \<Rightarrow> json" where
  "jget key (JObj kvs) = (case map_of kvs key of Some v \<Rightarrow> v | None \<Rightarrow> JNull)"
| "jget key _ = JNull"

fun is_obj :: "json \<Rightarrow> bool" where
  "is_obj (JObj _) = True"
| "is_obj _ = False"

definition as_obj :: "json \<Rightarrow> json" where
  "as_obj j = (if is_obj j then j else JObj [])"

fun jstr_opt :: "string option \<Rightarrow> json" where
  "jstr_opt None = JNull"
| "jstr_opt (Some s) = JStr s"

subsection \<open>Live events\<close>

record live_event =
  ev_ts :: datetime
  ev_kind :: string
  ev_payload :: json
  ev_command_id :: "string option"
  ev_order_id :: "string option"
  ev_reference :: "string option"
  ev_source :: string

definition make_event ::
  "string \<Rightarrow> json \<Rightarrow> string option \<Rightarrow> string option \<Rightarrow> string option \<Rightarrow> string \<Rightarrow> datetime \<Rightarrow> live_event" where
  "make_event kind payload command_id order_id reference source now =
     \<lparr>ev_ts = (now div 1000000) * 1000000, ev_kind = kind, ev_payload = payload,
      ev_command_id = command_id, ev_order_id = order_id, ev_reference = reference,
      ev_source = source\<rparr>"

definition optional_field :: "string \<Rightarrow> string option \<Rightarrow> (string \<times> json) list" where
  "optional_field key v = (case v of None \<Rightarrow> [] | Some s \<Rightarrow> if s = [] then [] else [(key, JStr s)])"

definition event_to_dict :: "live_event \<Rightarrow> json" where
  "event_to_dict ev = JObj
     ([(''ts'', JTime (ev_ts ev)), (''kind'', JStr (ev_kind ev)), (''payload'', ev_payload ev),
       (''source'', JStr (ev_source ev))] @
      optional_field ''command_id'' (ev_command_id ev) @
      optional_field ''order_id'' (ev_order_id ev) @
      optional_field ''reference'' (ev_reference ev))"

subsection \<open>Encoding the objects\<close>

definition order_json :: "order \<Rightarrow> json" where
  "order_json ord = JObj
     [(''order_id'', JStr (od_id ord)), (''code'', JStr (od_code ord)),
      (''exchange'', JStr (exchange_value (od_exchange ord))),
      (''direction'', JStr (direction_value (od_direction ord))), (''volume'', JNum (od_volume ord)),
      (''price'', JNum (od_price ord)), (''type'', JStr (order_type_value (od_type ord))),
      (''offset'', JStr (offset_value (od_offset ord))), (''traded'', JNum (od_traded ord)),
      (''status'', JStr (status_value (od_status ord))), (''gateway'', JStr (od_gateway ord)),
      (''reference'', JStr (od_reference ord)),
      (''datetime'', case od_datetime ord of Some t \<Rightarrow> JTime t | None \<Rightarrow> JNull),
      (''message'', JStr (od_message ord))]"

definition trade_json :: "trade \<Rightarrow> json" where
  "trade_json t = JObj
     [(''trade_id'', JStr (td_id t)), (''order_id'', JStr (td_order_id t)), (''code'', JStr (td_code t)),
      (''exchange'', JStr (exchange_value (td_exchange t))),
      (''direction'', JStr (direction_value (td_direction t))), (''volume'', JNum (td_volume t)),
      (''price'', JNum (td_price t)), (''offset'', JStr (offset_value (td_offset t))),
      (''gateway'', JStr (td_gateway t))]"

definition position_json :: "position \<Rightarrow> json" where
  "position_json p = JObj
     [(''code'', JStr (ps_code p)), (''exchange'', JStr (exchange_value (ps_exchange p))),
      (''direction'', JStr (direction_value (ps_direction p))), (''volume'', JNum (ps_volume p)),
      (''yd_volume'', JNum (ps_yd_volume p)), (''frozen'', JNum (ps_frozen p)),
      (''price'', JNum (ps_price p)), (''pnl'', JNum (ps_pnl p)), (''gateway'', JStr (ps_gateway p)),
      (''settlement_days'', JNum (of_int (ps_settlement_days p)))]"

definition account_json :: "account \<Rightarrow> json" where
  "account_json a = JObj
     [(''account_id'', JStr (ac_id a)), (''balance'', JNum (ac_balance a)),
      (''frozen'', JNum (ac_frozen a)), (''available'', JNum (ac_available a)),
      (''gateway'', JStr (ac_gateway a))]"

definition contract_json :: "contract \<Rightarrow> json" where
  "contract_json c = JObj
     [(''code'', JStr (ct_code c)), (''exchange'', JStr (exchange_value (ct_exchange c))),
      (''price_tick'', JNum (ct_price_tick c)), (''lot_size'', JNum (of_int (ct_lot_size c))),
      (''gateway'', JStr (ct_gateway c)), (''settlement_days'', JNum (of_int (ct_settlement_days c)))]"

definition stamp_json :: "stamp option \<Rightarrow> json" where
  "stamp_json s = (case s of None \<Rightarrow> JNull | Some st \<Rightarrow> JTime (local_time st))"

definition tick_json :: "tick \<Rightarrow> json" where
  "tick_json t = JObj
     [(''code'', JStr (tk_code t)), (''exchange'', JStr (exchange_value (tk_exchange t))),
      (''datetime'', stamp_json (tk_datetime t)), (''volume'', JNum (tk_volume t)),
      (''turnover'', JNum (tk_turnover t)), (''last_price'', JNum (tk_last_price t)),
      (''open_price'', JNum (tk_open_price t)), (''limit_up'', JNum (tk_limit_up t)),
      (''limit_down'', JNum (tk_limit_down t)), (''bid_price_1'', JNum (tk_bid_price_1 t)),
      (''ask_price_1'', JNum (tk_ask_price_1 t)), (''gateway'', JStr (tk_gateway t)),
      (''received_at'', stamp_json (tk_received_at t))]"

definition log_json :: "log_event \<Rightarrow> json" where
  "log_json l = JObj [(''msg'', JStr (lg_msg l)), (''level'', JStr (lg_level l)), (''gateway'', JStr (lg_gateway l))]"

definition req_json :: "order_request \<Rightarrow> json" where
  "req_json r = JObj
     [(''code'', JStr (rq_code r)), (''exchange'', JStr (exchange_value (rq_exchange r))),
      (''direction'', JStr (direction_value (rq_direction r))), (''volume'', JNum (rq_volume r)),
      (''price'', JNum (rq_price r)), (''type'', JStr (order_type_value (rq_type r))),
      (''offset'', JStr (offset_value (rq_offset r))), (''reference'', JStr (rq_reference r))]"

subsection \<open>The ledger\<close>

text \<open>The day files that exist, each with its lines in the order they were appended.\<close>

record ledger =
  ld_files :: "(int \<times> json list) list"

definition empty_ledger :: ledger where
  "empty_ledger = \<lparr>ld_files = []\<rparr>"

definition ledger_lines :: "ledger \<Rightarrow> int \<Rightarrow> json list" where
  "ledger_lines ld day = (case map_of (ld_files ld) day of Some ls \<Rightarrow> ls | None \<Rightarrow> [])"

definition append_line :: "int \<Rightarrow> json \<Rightarrow> ledger \<Rightarrow> ledger" where
  "append_line day line ld = ld\<lparr>ld_files := dict_set day (ledger_lines ld day @ [line]) (ld_files ld)\<rparr>"

definition event_time :: "json \<Rightarrow> datetime \<Rightarrow> datetime" where
  "event_time raw fallback = (case raw of JTime t \<Rightarrow> t | _ \<Rightarrow> fallback)"

definition append_event :: "live_event \<Rightarrow> datetime \<Rightarrow> ledger \<Rightarrow> ledger" where
  "append_event ev now ld =
     (let data = event_to_dict ev in append_line (day_of (event_time (jget ''ts'' data) now)) data ld)"

definition ledger_record :: "string \<Rightarrow> json \<Rightarrow> datetime \<Rightarrow> ledger \<Rightarrow> ledger" where
  "ledger_record kind payload now ld = append_line (day_of now)
     (JObj [(''ts'', JTime ((now div 1000000) * 1000000)), (''kind'', JStr kind), (''payload'', payload)]) ld"

definition record_event ::
  "string \<Rightarrow> json \<Rightarrow> string option \<Rightarrow> string option \<Rightarrow> string option \<Rightarrow> string \<Rightarrow> datetime \<Rightarrow> ledger \<Rightarrow> ledger" where
  "record_event kind payload command_id order_id reference source now ld =
     append_event (make_event kind payload command_id order_id reference source now) now ld"

definition event_matches ::
  "string option \<Rightarrow> string option \<Rightarrow> string option \<Rightarrow> string option \<Rightarrow> json \<Rightarrow> bool" where
  "event_matches kind command_id order_id reference event =
     (let payload = as_obj (jget ''payload'' event);
          req = as_obj (jget ''req'' payload); request = as_obj (jget ''request'' payload)
      in (case kind of None \<Rightarrow> True | Some k \<Rightarrow> jget ''kind'' event = JStr k) \<and>
         (case command_id of None \<Rightarrow> True | Some c \<Rightarrow>
            JStr c \<in> {jget ''command_id'' event, jget ''command_id'' payload, jget ''id'' payload}) \<and>
         (case order_id of None \<Rightarrow> True | Some i \<Rightarrow>
            JStr i \<in> {jget ''order_id'' event, jget ''order_id'' payload}) \<and>
         (case reference of None \<Rightarrow> True | Some r \<Rightarrow>
            JStr r \<in> {jget ''reference'' event, jget ''reference'' payload,
                      jget ''reference'' req, jget ''reference'' request}))"

definition ledger_days :: "ledger \<Rightarrow> int option \<Rightarrow> int list" where
  "ledger_days ld day = (case day of Some d \<Rightarrow> [d] | None \<Rightarrow> sort (map fst (ld_files ld)))"

definition ledger_events ::
  "ledger \<Rightarrow> string option \<Rightarrow> string option \<Rightarrow> string option \<Rightarrow> string option \<Rightarrow> int option \<Rightarrow>
   nat option \<Rightarrow> json list" where
  "ledger_events ld kind command_id order_id reference day limit =
     (let out = filter (event_matches kind command_id order_id reference)
                  (concat (map (ledger_lines ld) (ledger_days ld day)))
      in case limit of None \<Rightarrow> out
         | Some n \<Rightarrow> if n = 0 then out else drop (length out - n) out)"

text \<open>The ledger is append-only: a day's lines only ever grow at the end.\<close>

lemma ledger_lines_append_line:
  "ledger_lines (append_line day line ld) d = ledger_lines ld d @ (if d = day then [line] else [])"
  by (simp add: ledger_lines_def append_line_def AList.update_conv')

lemma ledger_lines_append_event:
  "ledger_lines (append_event ev now ld) d =
     ledger_lines ld d @ (if d = day_of (ev_ts ev) then [event_to_dict ev] else [])"
  by (simp add: append_event_def ledger_lines_append_line event_to_dict_def event_time_def)

lemma event_to_dict_get [simp]:
  "jget ''kind'' (event_to_dict ev) = JStr (ev_kind ev)"
  "jget ''payload'' (event_to_dict ev) = ev_payload ev"
  "jget ''ts'' (event_to_dict ev) = JTime (ev_ts ev)"
  by (simp_all add: event_to_dict_def)

lemma make_event_day [simp]: "day_of (ev_ts (make_event k p c i r s now)) = day_of now"
proof -
  have "(now div 1000000 * 1000000) div (86400 * 1000000) = (now div 1000000) div (86400 :: int)"
    by (rule div_mult_mult2) simp
  also have "\<dots> = now div (1000000 * 86400)"
    by (rule zdiv_zmult2_eq [symmetric]) simp
  finally have "(now div 1000000 * 1000000) div (86400 * 1000000) = now div (1000000 * 86400)" .
  then show ?thesis by (simp add: make_event_def day_of_def day_us_def)
qed

lemma make_event_fields [simp]:
  "ev_kind (make_event k p c i r s now) = k" "ev_payload (make_event k p c i r s now) = p"
  by (simp_all add: make_event_def)

subsection \<open>The event bus\<close>

text \<open>
  Observers are outside the trading state: a handler is a value of an unspecified type and
  \<open>call\<close> says what calling it does to the observers' own state, raising or not.
\<close>

record 'h event_bus =
  eb_handlers :: "(string option \<times> 'h list) list"
  eb_errors :: "(string \<times> string \<times> string) list"

definition handlers_of :: "'h event_bus \<Rightarrow> string option \<Rightarrow> 'h list" where
  "handlers_of bus key = (case map_of (eb_handlers bus) key of Some hs \<Rightarrow> hs | None \<Rightarrow> [])"

definition bus_key :: "string option \<Rightarrow> string option" where
  "bus_key kind = (if kind = Some ''*'' then None else kind)"

definition bus_subscribe :: "string option \<Rightarrow> 'h \<Rightarrow> 'h event_bus \<Rightarrow> 'h event_bus" where
  "bus_subscribe kind h bus =
     (let key = bus_key kind; hs = handlers_of bus key
      in bus\<lparr>eb_handlers := dict_set key (if h \<in> set hs then hs else hs @ [h]) (eb_handlers bus)\<rparr>)"

definition bus_unsubscribe :: "string option \<Rightarrow> 'h \<Rightarrow> 'h event_bus \<Rightarrow> 'h event_bus" where
  "bus_unsubscribe kind h bus =
     (let key = bus_key kind; hs = remove1 h (handlers_of bus key)
      in if hs = [] then bus\<lparr>eb_handlers := dict_del key (eb_handlers bus)\<rparr>
         else bus\<lparr>eb_handlers := dict_set key hs (eb_handlers bus)\<rparr>)"

definition quoted :: "string \<Rightarrow> string" where
  "quoted s = CHR 0x27 # s @ [CHR 0x27]"

definition exn_name :: "exn \<Rightarrow> string" where
  "exn_name e = (case e of ValueError _ \<Rightarrow> ''ValueError'' | RuntimeError _ \<Rightarrow> ''RuntimeError''
     | IllegalTransition _ _ _ \<Rightarrow> ''IllegalTransition'' | GatewayError _ \<Rightarrow> ''GatewayError''
     | PyError name _ \<Rightarrow> name)"

definition exn_message :: "exn \<Rightarrow> string" where
  "exn_message e = (case e of ValueError m \<Rightarrow> m | RuntimeError m \<Rightarrow> m | GatewayError m \<Rightarrow> m
     | PyError _ m \<Rightarrow> m | IllegalTransition l a b \<Rightarrow> ''illegal '' @ l @ '' transition: '' @ a @ '' -> '' @ b)"

definition exn_text :: "exn \<Rightarrow> string" where
  "exn_text e = exn_name e @ '': '' @ exn_message e"

text \<open>A recorded error: the kind of the event, the error's text, and the event's source.\<close>

type_synonym bus_error = "string \<times> string \<times> string"

text \<open>The optional error handler of the bus, which may raise in its turn.\<close>

definition run_error_handler ::
  "(exn \<Rightarrow> live_event \<Rightarrow> ('s, unit) op) option \<Rightarrow> exn \<Rightarrow> live_event \<Rightarrow> bus_error list \<Rightarrow> 's \<Rightarrow>
   bus_error list \<times> 's" where
  "run_error_handler eh e ev errs s =
     (case eh of None \<Rightarrow> (errs, s)
      | Some f \<Rightarrow>
          (case f e ev s of
             (Inl e', s') \<Rightarrow> (errs @ [(ev_kind ev, ''error_handler:'' @ exn_text e', ev_source ev)], s')
           | (Inr _, s') \<Rightarrow> (errs, s')))"

fun run_handlers ::
  "('h \<Rightarrow> live_event \<Rightarrow> ('s, unit) op) \<Rightarrow> (exn \<Rightarrow> live_event \<Rightarrow> ('s, unit) op) option \<Rightarrow> live_event \<Rightarrow>
   'h list \<Rightarrow> bus_error list \<Rightarrow> 's \<Rightarrow> bus_error list \<times> 's" where
  "run_handlers call eh ev [] errs s = (errs, s)"
| "run_handlers call eh ev (h # hs) errs s =
     (case call h ev s of
        (Inl e, s') \<Rightarrow>
          (let (errs', s'') = run_error_handler eh e ev
                 (errs @ [(ev_kind ev, exn_text e, ev_source ev)]) s'
           in run_handlers call eh ev hs errs' s'')
      | (Inr _, s') \<Rightarrow> run_handlers call eh ev hs errs s')"

definition publish_event ::
  "('h \<Rightarrow> live_event \<Rightarrow> ('s, unit) op) \<Rightarrow> (exn \<Rightarrow> live_event \<Rightarrow> ('s, unit) op) option \<Rightarrow> live_event \<Rightarrow>
   'h event_bus \<Rightarrow> 's \<Rightarrow> 'h event_bus \<times> 's" where
  "publish_event call eh ev bus s =
     (let (errs, s') = run_handlers call eh ev
            (handlers_of bus None @ handlers_of bus (Some (ev_kind ev))) (eb_errors bus) s
      in (bus\<lparr>eb_errors := errs\<rparr>, s'))"

text \<open>
  Every handler is called once, in order, whatever the ones before it raise: with no error handler
  the observers' state is the fold of all calls, and one error is recorded per raise.
\<close>

fun raises_in :: "('h \<Rightarrow> live_event \<Rightarrow> ('s, unit) op) \<Rightarrow> live_event \<Rightarrow> 'h list \<Rightarrow> 's \<Rightarrow> nat" where
  "raises_in call ev [] s = 0"
| "raises_in call ev (h # hs) s =
     (case call h ev s of
        (Inl _, s') \<Rightarrow> Suc (raises_in call ev hs s') | (Inr _, s') \<Rightarrow> raises_in call ev hs s')"

lemma run_handlers_all:
  "snd (run_handlers call None ev hs errs s) = fold (\<lambda>h s. snd (call h ev s)) hs s"
  by (induction hs arbitrary: errs s) (auto simp: run_error_handler_def split: prod.splits sum.splits)

lemma run_handlers_errors:
  "length (fst (run_handlers call None ev hs errs s)) = length errs + raises_in call ev hs s"
  by (induction hs arbitrary: errs s) (auto simp: run_error_handler_def split: prod.splits sum.splits)

lemma run_handlers_errors_extend:
  "take (length errs) (fst (run_handlers call eh ev hs errs s)) = errs"
proof (induction hs arbitrary: errs s)
  case (Cons h hs)
  obtain r s1 where c: "call h ev s = (r, s1)" by fastforce
  show ?case
  proof (cases r)
    case (Inr u)
    with c Cons show ?thesis by simp
  next
    case (Inl e)
    obtain errs' s2 where rh: "run_error_handler eh e ev (errs @ [(ev_kind ev, exn_text e, ev_source ev)]) s1 = (errs', s2)"
      by fastforce
    then have "take (length errs) errs' = errs" "length errs \<le> length errs'"
      by (auto simp: run_error_handler_def split: option.splits prod.splits sum.splits)
    moreover have "take (length errs') (fst (run_handlers call eh ev hs errs' s2)) = errs'" by (rule Cons.IH)
    ultimately have "take (length errs) (fst (run_handlers call eh ev hs errs' s2)) = errs"
      by (metis min.absorb1 take_take)
    with c Inl rh show ?thesis by simp
  qed
qed simp

end
