(* ===== verification/Redaction.thy ===== *)
theory Redaction
  imports Prelude
begin

section \<open>Credential redaction\<close>

text \<open>
  \<open>systems/live/redaction.py\<close> on strings: the values of sensitive environment variables are
  replaced, then every \<open>key = value\<close> pair with a sensitive key.  The process environment is an
  argument; the scanner is the regular expression of the code written out.
\<close>

definition sensitive_markers :: "string list" where
  "sensitive_markers = [''password'', ''passwd'', ''secret'', ''token'', ''software_key'',
     ''api_key'', ''private_key'', ''credential'']"

definition env_sensitive_markers :: "string list" where
  "env_sensitive_markers = sensitive_markers @ [''account'']"

definition redacted_keys :: "string list" where
  "redacted_keys = [''password'', ''passwd'', ''secret'', ''token'', ''software_key'', ''api_key'',
     ''private_key'']"

definition mask :: string where
  "mask = ''********''"

text \<open>\<open>x in s\<close> on strings, and \<open>s.replace(old, new)\<close> for a non-empty \<open>old\<close>.\<close>

fun str_contains :: "string \<Rightarrow> string \<Rightarrow> bool" where
  "str_contains x [] = (x = [])"
| "str_contains x (c # s) = (starts_with x (c # s) \<or> str_contains x s)"

function str_replace :: "string \<Rightarrow> string \<Rightarrow> string \<Rightarrow> string" where
  "str_replace old new s =
     (if old = [] \<or> s = [] then s
      else if starts_with old s then new @ str_replace old new (drop (length old) s)
      else hd s # str_replace old new (tl s))"
  by pat_completeness auto
termination
  by (relation "measure (\<lambda>(old, new, s). length s)") (auto simp: starts_with_def)

declare str_replace.simps [simp del]

definition is_secret_var :: "string \<times> string \<Rightarrow> bool" where
  "is_secret_var = (\<lambda>(key, secret). length secret \<ge> 3 \<and>
     (\<exists>m \<in> set env_sensitive_markers. str_contains (str_upper m) (str_upper key)))"

text \<open>One attempt to match \<open>(key)\\s*[:=]\\s*([^\\s,;]+)\<close> at the start of a text: the key as
  written and the text after the match.\<close>

definition match_pair :: "string \<Rightarrow> (string \<times> string) option" where
  "match_pair s =
     (case find (\<lambda>k. starts_with k (str_lower s)) redacted_keys of
        None \<Rightarrow> None
      | Some k \<Rightarrow>
          (case dropWhile is_space (drop (length k) s) of
             [] \<Rightarrow> None
           | c # r \<Rightarrow>
               if c \<noteq> CHR '':'' \<and> c \<noteq> CHR ''='' then None
               else
                 let v = dropWhile is_space r;
                     ok = (\<lambda>x. \<not> is_space x \<and> x \<noteq> CHR '','' \<and> x \<noteq> CHR '';'')
                 in if takeWhile ok v = [] then None
                    else Some (take (length k) s, dropWhile ok v)))"

lemma match_pair_shorter:
  assumes "match_pair s = Some (k, rest)"
  shows "length rest < length s"
proof -
  let ?ok = "\<lambda>x. \<not> is_space x \<and> x \<noteq> CHR '','' \<and> x \<noteq> CHR '';''"
  from assms obtain key where key: "find (\<lambda>k. starts_with k (str_lower s)) redacted_keys = Some key"
    by (auto simp: match_pair_def split: option.splits)
  show ?thesis
  proof (cases "dropWhile is_space (drop (length key) s)")
    case Nil
    with assms key show ?thesis by (simp add: match_pair_def)
  next
    case (Cons c r)
    with assms key have rest: "rest = dropWhile ?ok (dropWhile is_space r)"
      by (simp add: match_pair_def Let_def split: if_splits)
    have "length rest \<le> length r" unfolding rest
      by (meson length_dropWhile_le le_trans)
    also have "length r < length (c # r)" by simp
    also have "length (c # r) \<le> length s"
      using length_dropWhile_le [of is_space "drop (length key) s"] Cons by simp
    finally show ?thesis .
  qed
qed

function redact_pairs :: "string \<Rightarrow> string" where
  "redact_pairs s =
     (case s of [] \<Rightarrow> []
      | c # r \<Rightarrow>
          (case match_pair s of
             Some (k, rest) \<Rightarrow> k @ ''='' @ mask @ redact_pairs rest
           | None \<Rightarrow> c # redact_pairs r))"
  by pat_completeness auto
termination
  by (relation "measure length") (auto dest: match_pair_shorter)

declare redact_pairs.simps [simp del]

definition redact_secrets :: "(string \<times> string) list \<Rightarrow> string \<Rightarrow> string" where
  "redact_secrets env text =
     redact_pairs (fold (\<lambda>(key, secret) t. str_replace secret mask t) (filter is_secret_var env) text)"

end
