(* ===== verification/Engine.thy ===== *)
theory Engine
  imports Risk Ledger Redaction
begin

section \<open>The live engine\<close>

text \<open>
  \<open>systems/live/engine.py\<close>: the hub that fans the gateway's callbacks into the OMS and the
  audit ledger, owns the safety machines, and exposes the guarded actions.  The state is a record
  over the type \<open>'g\<close> of the gateway's own state; the gateway is a record of stateful
  operations on the engine, since a gateway calls the engine back synchronously.  The clock fields
  hold the time of the call in progress: time passes between operations.
\<close>

subsection \<open>State\<close>

record 'g engine =
  en_trade_name :: string
  en_quote_name :: string
  en_config_mode :: run_mode
  en_oms :: oms
  en_runmode :: runmode
  en_connection :: connection_state
  en_session :: session_state
  en_calendar :: calendar
  en_now :: stamp
  en_wall :: datetime
  en_environ :: "(string \<times> string) list"
  en_risk :: "risk_gate option"
  en_ledger :: ledger
  en_events :: "live_event list"
  en_strategy_symbols :: "string set"
  en_observer_symbols :: "string set"
  en_subscribed_symbols :: "string set"
  en_gw :: 'g

text \<open>
  The broker and quote ports.  \<open>gi_shared\<close> says that one object plays both roles, and
  \<open>gi_both_roles\<close> that it declares both.
\<close>

type_synonym settings = "(string \<times> json) list"

record 'g gateway =
  gi_shared :: bool
  gi_both_roles :: bool
  gi_connect :: "settings \<Rightarrow> ('g engine, unit) op"
  gi_quote_connect :: "settings \<Rightarrow> ('g engine, unit) op"
  gi_close :: "('g engine, unit) op"
  gi_quote_close :: "('g engine, unit) op"
  gi_send_order :: "order_request \<Rightarrow> ('g engine, string) op"
  gi_cancel_order :: "cancel_request \<Rightarrow> ('g engine, unit) op"
  gi_query_account :: "('g engine, unit) op"
  gi_query_position :: "('g engine, unit) op"
  gi_subscribe :: "string \<Rightarrow> ('g engine, unit) op"

definition engine_init ::
  "run_mode \<Rightarrow> string \<Rightarrow> string \<Rightarrow> string \<Rightarrow> stamp \<Rightarrow> datetime \<Rightarrow> calendar option \<Rightarrow>
   (string \<times> string) list \<Rightarrow> risk_gate option \<Rightarrow> ledger \<Rightarrow> 'g \<Rightarrow> exn + 'g engine" where
  "engine_init mode quote_data_kind trade_name quote_name now wall is_trading_day environ risk ld gw =
     (let quote_kind = (if quote_data_kind = [] then ''realtime'' else quote_data_kind);
          route_enabled = (quote_kind = ''realtime'' \<or> mode = PAPER);
          cal = (case is_trading_day of
             Some f \<Rightarrow> f
           | None \<Rightarrow> if requires_live_market_safety mode then (\<lambda>_. False) else weekday_calendar)
      in case runmode_init (run_mode_value mode) route_enabled
             (if route_enabled then [] else ''quote provider is not realtime'') of
           Inl e \<Rightarrow> Inl e
         | Inr rm \<Rightarrow> Inr \<lparr>en_trade_name = trade_name, en_quote_name = quote_name,
             en_config_mode = mode, en_oms = oms_init 500, en_runmode = rm,
             en_connection = DISCONNECTED,
             en_session = clock_current_state cal (local_time now), en_calendar = cal, en_now = now,
             en_wall = wall, en_environ = environ, en_risk = risk, en_ledger = ld, en_events = [],
             en_strategy_symbols = {}, en_observer_symbols = {}, en_subscribed_symbols = {},
             en_gw = gw\<rparr>)"

lemma runmode_init_value [simp]:
  "runmode_init (run_mode_value m) en r = Inr \<lparr>rm_mode = m, rm_halted = False, rm_halt_reason = [],
     rm_provider_routing_enabled = en, rm_provider_block_reason = r\<rparr>"
  by (simp add: runmode_init_def)

lemma engine_init_total:
  "\<exists>en. engine_init mode qk tn qn now wall cal environ risk ld gw = Inr en"
  by (simp add: engine_init_def Let_def del: run_mode_value.simps)

subsection \<open>Publishing and auditing\<close>

text \<open>The observers of the bus hold no trading state: publishing appends to the event history.\<close>

definition publish_at ::
  "string \<Rightarrow> json \<Rightarrow> string option \<Rightarrow> string option \<Rightarrow> string \<Rightarrow> 'g engine \<Rightarrow> live_event \<times> 'g engine" where
  "publish_at kind payload order_id reference source en =
     (let ev = make_event kind payload None order_id reference source (en_wall en)
      in (ev, en\<lparr>en_events := en_events en @ [ev]\<rparr>))"

definition publish :: "string \<Rightarrow> json \<Rightarrow> string \<Rightarrow> 'g engine \<Rightarrow> 'g engine" where
  "publish kind payload source en = snd (publish_at kind payload None None source en)"

definition audit ::
  "string \<Rightarrow> json \<Rightarrow> string option \<Rightarrow> string option \<Rightarrow> string \<Rightarrow> 'g engine \<Rightarrow> 'g engine" where
  "audit kind payload order_id reference source en =
     (let (ev, en') = publish_at kind payload order_id reference source en
      in en'\<lparr>en_ledger := append_event ev (en_wall en') (en_ledger en')\<rparr>)"

definition source_of :: "string \<Rightarrow> 'g engine \<Rightarrow> string" where
  "source_of gateway en = (if gateway \<noteq> [] then gateway
     else if en_trade_name en \<noteq> [] then en_trade_name en else ''live'')"

abbreviation set_oms :: "oms \<Rightarrow> 'g engine \<Rightarrow> 'g engine" where
  "set_oms s en \<equiv> en\<lparr>en_oms := s\<rparr>"

subsection \<open>Callbacks and the kill-switch\<close>

definition on_order :: "order \<Rightarrow> 'g engine \<Rightarrow> 'g engine" where
  "on_order ord en = audit ''order'' (order_json ord) (Some (od_id ord)) (Some (od_reference ord))
     (source_of (od_gateway ord) en) (set_oms (oms_on_order ord (en_oms en)) en)"

definition on_trade :: "trade \<Rightarrow> 'g engine \<Rightarrow> 'g engine" where
  "on_trade t en = audit ''trade'' (trade_json t) (Some (td_order_id t)) None
     (source_of (td_gateway t) en) (set_oms (oms_on_trade t (en_oms en)) en)"

definition on_position :: "position \<Rightarrow> 'g engine \<Rightarrow> 'g engine" where
  "on_position p en = publish ''position'' (position_json p) (source_of (ps_gateway p) en)
     (set_oms (oms_on_position p (en_oms en)) en)"

definition on_contract :: "contract \<Rightarrow> 'g engine \<Rightarrow> 'g engine" where
  "on_contract c en = publish ''contract'' (contract_json c) (source_of (ct_gateway c) en)
     (set_oms (oms_on_contract c (en_oms en)) en)"

definition on_log :: "log_event \<Rightarrow> 'g engine \<Rightarrow> 'g engine" where
  "on_log l en = publish ''log'' (log_json l) (source_of (lg_gateway l) en)
     (set_oms (oms_on_log l (en_oms en)) en)"

text \<open>The tick listeners run after the OMS update; one that raises leaves the loop.\<close>

definition on_tick :: "(tick \<Rightarrow> ('g engine, unit) op) list \<Rightarrow> tick \<Rightarrow> ('g engine, unit) op" where
  "on_tick listeners t en =
     (let t' = (if tk_received_at t = None then t\<lparr>tk_received_at := Some (Naive (en_wall en))\<rparr> else t);
          en1 = publish ''tick'' (tick_json t') (source_of (tk_gateway t') en)
                  (set_oms (oms_on_tick t' (en_oms en)) en)
      in op_for listeners (\<lambda>l. l t') en1)"

definition on_gateway_connected :: "string \<Rightarrow> string \<Rightarrow> string \<Rightarrow> 'g engine \<Rightarrow> 'g engine" where
  "on_gateway_connected gateway channel detail en =
     audit ''gateway_connected''
       (JObj [(''gateway'', JStr gateway), (''channel'', JStr channel), (''detail'', JStr detail)])
       None None (if gateway \<noteq> [] then gateway else en_trade_name en) en"

text \<open>\<open>halt\<close>: the kill-switch, then a best-effort cancel of every working order.\<close>

definition halt_cancel ::
  "(cancel_request \<Rightarrow> ('g engine, unit) op) \<Rightarrow> order \<Rightarrow> ('g engine, unit) op" where
  "halt_cancel cancel ord = op_catch (cancel (create_cancel ord))
     (\<lambda>e. op_modify (audit ''halt_cancel_error''
        (JObj [(''order_id'', JStr (od_id ord)), (''error'', JStr (exn_message e))])
        (Some (od_id ord)) None ''live''))"

definition set_halted :: "string \<Rightarrow> 'g engine \<Rightarrow> 'g engine" where
  "set_halted reason en = en\<lparr>en_runmode := runmode_halt reason (en_runmode en)\<rparr>"

definition halt ::
  "(cancel_request \<Rightarrow> ('g engine, unit) op) \<Rightarrow> string \<Rightarrow> 'g engine \<Rightarrow> 'g engine" where
  "halt cancel reason en =
     (let en1 = audit ''halt'' (JObj [(''reason'', JStr reason)]) None None ''live'' (set_halted reason en)
      in snd (op_for (oms_get_active_orders (en_oms en1)) (halt_cancel cancel) en1))"

definition loss_rules :: "string set" where
  "loss_rules = {''daily_loss'', ''canary_loss''}"

definition risk_halt_reason :: "verdict \<Rightarrow> string" where
  "risk_halt_reason v = ''risk:'' @ rv_rule v @ '':'' @ rv_reason v"

definition on_account ::
  "(cancel_request \<Rightarrow> ('g engine, unit) op) \<Rightarrow> account \<Rightarrow> 'g engine \<Rightarrow> 'g engine" where
  "on_account cancel a en =
     (let en1 = publish ''account'' (account_json a) (source_of (ac_gateway a) en)
                  (set_oms (oms_on_account a (en_oms en)) en)
      in case en_risk en1 of
           None \<Rightarrow> en1
         | Some g \<Rightarrow>
             let (v, g') = check_equity (en_oms en1) g; en2 = en1\<lparr>en_risk := Some g'\<rparr>
             in if \<not> rv_ok v \<and> rv_rule v \<in> loss_rules \<and> \<not> rm_halted (en_runmode en2)
                then halt cancel (risk_halt_reason v) en2
                else en2)"

definition set_connection :: "connection_state \<Rightarrow> ('g engine, connection_state) op" where
  "set_connection target en =
     (case connection_transition target (en_connection en) of
        (r, st) \<Rightarrow> (r, en\<lparr>en_connection := st\<rparr>))"

definition handle_disconnect :: "string \<Rightarrow> 'g engine \<Rightarrow> 'g engine" where
  "handle_disconnect reason en =
     (let en1 = (if en_connection en \<noteq> DISCONNECTED then snd (set_connection DISCONNECTED en) else en)
      in audit ''disconnected'' (JObj [(''reason'', JStr reason)]) None None (en_trade_name en1)
           (set_halted reason en1))"

definition on_gateway_disconnected :: "string \<Rightarrow> string \<Rightarrow> string \<Rightarrow> bool \<Rightarrow> 'g engine \<Rightarrow> 'g engine" where
  "on_gateway_disconnected gateway channel reason do_halt en =
     (let en1 = (if do_halt
            then handle_disconnect (if reason \<noteq> [] then channel @ '':'' @ reason else channel) en else en)
      in audit ''gateway_disconnected''
           (JObj [(''gateway'', JStr gateway), (''channel'', JStr channel), (''reason'', JStr reason),
                  (''halt'', JBool do_halt)])
           None None (if gateway \<noteq> [] then gateway else en_trade_name en1) en1)"

text \<open>The transition to \<open>DISCONNECTED\<close> is in the table from every other state, so it never raises.\<close>

lemma set_connection_disconnect:
  "en_connection en \<noteq> DISCONNECTED \<Longrightarrow>
     set_connection DISCONNECTED en = (Inr DISCONNECTED, en\<lparr>en_connection := DISCONNECTED\<rparr>)"
  by (simp add: set_connection_def connection_transition_def check_transition_def disconnect_allowed)

subsection \<open>Lifecycle\<close>

fun truthy :: "json \<Rightarrow> bool" where
  "truthy JNull = False"
| "truthy (JBool b) = b"
| "truthy (JNum x) = (x \<noteq> 0)"
| "truthy (JStr s) = (s \<noteq> [])"
| "truthy (JTime _) = True"
| "truthy (JArr xs) = (xs \<noteq> [])"
| "truthy (JObj kvs) = (kvs \<noteq> [])"

text \<open>The blocks under \<open>trade\<close> and \<open>quote\<close> are objects.\<close>

fun obj_pairs :: "json \<Rightarrow> settings" where
  "obj_pairs (JObj kvs) = kvs"
| "obj_pairs _ = []"

definition split_gateway_settings :: "settings option \<Rightarrow> settings \<times> settings" where
  "split_gateway_settings setting =
     (let s = (case setting of None \<Rightarrow> [] | Some kvs \<Rightarrow> kvs); get = (\<lambda>k. jget k (JObj s))
      in if map_of s ''trade'' \<noteq> None \<or> map_of s ''quote'' \<noteq> None
         then let trade = (if truthy (get ''trade'') then get ''trade'' else JObj []);
                  quote = (if truthy (get ''quote'') then get ''quote'' else trade)
              in (obj_pairs trade, obj_pairs quote)
         else (s, s))"

definition has_role_block :: "settings option \<Rightarrow> bool" where
  "has_role_block setting = (case setting of None \<Rightarrow> False
     | Some s \<Rightarrow> map_of s ''trade'' \<noteq> None \<or> map_of s ''quote'' \<noteq> None)"

definition connect_gateways :: "'g gateway \<Rightarrow> settings option \<Rightarrow> ('g engine, unit) op" where
  "connect_gateways gi setting =
     (let (trade, quote) = split_gateway_settings setting
      in if gi_shared gi
         then gi_connect gi
                (if gi_both_roles gi \<and> has_role_block setting
                 then [(''trade'', JObj trade), (''quote'', JObj quote)] else trade)
         else op_then (gi_connect gi trade) (gi_quote_connect gi quote))"

definition broker_fields :: "'g engine \<Rightarrow> (string \<times> json) list" where
  "broker_fields en = [(''broker'', JStr (en_trade_name en)), (''trade_broker'', JStr (en_trade_name en)),
     (''quote_provider'', JStr (en_quote_name en))]"

definition audit_self :: "string \<Rightarrow> ('g engine \<Rightarrow> json) \<Rightarrow> 'g engine \<Rightarrow> 'g engine" where
  "audit_self kind payload en = audit kind (payload en) None None (en_trade_name en) en"

definition connect :: "'g gateway \<Rightarrow> settings option \<Rightarrow> ('g engine, unit) op" where
  "connect gi setting =
     op_then (set_connection CONNECTING)
    (op_then (op_catch (connect_gateways gi setting)
        (\<lambda>e. op_then (set_connection CONN_ERROR)
            (op_then (op_modify (audit_self ''connect_error''
               (\<lambda>en. JObj [(''error'', JStr (redact_secrets (en_environ en) (exn_message e)))])))
             (op_raise e))))
    (op_then (set_connection CONNECTED)
    (op_then (set_connection LOGGED_IN)
      (op_modify (audit_self ''connected''
        (\<lambda>en. JObj (broker_fields en @ [(''mode'', JStr (run_mode_value (en_config_mode en)))])))))))"

definition unique_closes :: "'g gateway \<Rightarrow> 'g engine \<Rightarrow> (string \<times> ('g engine, unit) op) list" where
  "unique_closes gi en = (en_trade_name en, gi_close gi) #
     (if gi_shared gi then [] else [(en_quote_name en, gi_quote_close gi)])"

fun try_closes :: "(string \<times> ('g engine, unit) op) list \<Rightarrow> 'g engine \<Rightarrow> string list \<times> 'g engine" where
  "try_closes [] en = ([], en)"
| "try_closes ((name, m) # rest) en =
     (case m en of
        (Inl e, en') \<Rightarrow>
          (let (errs, en'') = try_closes rest en'
           in (redact_secrets (en_environ en') (name @ '': '' @ exn_message e) # errs, en''))
      | (Inr _, en') \<Rightarrow> try_closes rest en')"

definition close :: "'g gateway \<Rightarrow> 'g engine \<Rightarrow> 'g engine" where
  "close gi en =
     (let (errors, en1) = try_closes (unique_closes gi en) en;
          en2 = (if en_connection en1 \<noteq> DISCONNECTED then snd (set_connection DISCONNECTED en1) else en1)
      in audit_self ''closed'' (\<lambda>en. JObj (broker_fields en @
           (if errors = [] then [] else [(''errors'', JArr (map JStr errors))]))) en2)"

subsection \<open>Guarded actions\<close>

definition req_payload :: "string \<Rightarrow> string \<Rightarrow> string \<Rightarrow> order_request \<Rightarrow> json" where
  "req_payload origin rule reason req = JObj [(''origin'', JStr origin), (''rule'', JStr rule),
     (''reason'', JStr reason), (''req'', req_json req)]"

definition block_reason :: "runmode \<Rightarrow> string" where
  "block_reason rm =
     (if rm_halted rm then ''halted:'' @ rm_halt_reason rm
      else if rm_mode rm = SHADOW then ''routing_disabled_in_'' @ run_mode_value (rm_mode rm)
      else if \<not> rm_provider_routing_enabled rm then rm_provider_block_reason rm
      else ''routing_disabled_in_'' @ run_mode_value (rm_mode rm))"

text \<open>The risk check of \<open>submit\<close>: no gate passes every order.\<close>

definition engine_risk_check :: "order_request \<Rightarrow> 'g engine \<Rightarrow> verdict \<times> 'g engine" where
  "engine_risk_check req en =
     (case en_risk en of
        None \<Rightarrow> (passed, en)
      | Some g \<Rightarrow>
          let (v, g') = risk_check req (en_oms en)
                (Some \<lparr>sv_state = en_session en, sv_now = en_now en\<rparr>)
                (Some (rm_mode (en_runmode en))) (Naive (en_wall en)) g
          in (v, en\<lparr>en_risk := Some g'\<rparr>))"

definition route :: "'g gateway \<Rightarrow> order_request \<Rightarrow> string \<Rightarrow> ('g engine, string option) op" where
  "route gi req origin =
     op_bind (gi_send_order gi req)
       (\<lambda>i. op_then (op_modify (audit ''submit''
              (JObj [(''origin'', JStr origin), (''order_id'', JStr i), (''req'', req_json req)])
              (Some i) (Some (rq_reference req)) ''live''))
            (op_return (Some i)))"

definition submit :: "'g gateway \<Rightarrow> order_request \<Rightarrow> string \<Rightarrow> ('g engine, string option) op" where
  "submit gi req origin en =
     (if is_dry_run (en_runmode en)
      then (Inr None, audit ''dry_run_intent'' (JObj [(''origin'', JStr origin), (''req'', req_json req)])
              None (Some (rq_reference req)) ''live'' en)
      else if \<not> can_submit_orders (en_runmode en)
      then (Inr None, audit ''blocked'' (req_payload origin ''run_mode'' (block_reason (en_runmode en)) req)
              None (Some (rq_reference req)) ''live'' en)
      else
        let (v, en1) = engine_risk_check req en
        in if \<not> rv_ok v
           then let en2 = audit ''rejected'' (req_payload origin (rv_rule v) (rv_reason v) req)
                            None (Some (rq_reference req)) ''live'' en1
                in (Inr None, if rv_rule v \<in> loss_rules
                              then halt (gi_cancel_order gi) (rv_reason v) en2 else en2)
           else route gi req origin en1)"

record cancel_result =
  cn_cancelled :: bool
  cn_order_id :: string
  cn_reason :: string
  cn_reference :: string

definition cancel_order :: "'g gateway \<Rightarrow> order \<Rightarrow> bool \<Rightarrow> ('g engine, cancel_result) op" where
  "cancel_order gi ord active_only en =
     (if active_only \<and> \<not> od_is_active ord
      then (Inr \<lparr>cn_cancelled = False, cn_order_id = od_id ord, cn_reason = ''not_active'', cn_reference = []\<rparr>,
            audit ''cancel_skipped'' (JObj [(''order_id'', JStr (od_id ord)), (''reason'', JStr ''not_active''),
                (''status'', JStr (status_value (od_status ord)))])
              (Some (od_id ord)) (Some (od_reference ord)) ''live'' en)
      else op_then (gi_cancel_order gi (create_cancel ord))
          (op_then (op_modify (audit ''cancel'' (JObj [(''order_id'', JStr (od_id ord))])
              (Some (od_id ord)) (Some (od_reference ord)) ''live''))
            (op_return \<lparr>cn_cancelled = True, cn_order_id = od_id ord, cn_reason = [],
               cn_reference = od_reference ord\<rparr>)) en)"

text \<open>\<open>cancel\<close> with an order id.\<close>

definition cancel_by_id :: "'g gateway \<Rightarrow> string \<Rightarrow> bool \<Rightarrow> ('g engine, cancel_result) op" where
  "cancel_by_id gi i active_only en =
     (case oms_get_order (en_oms en) i of
        None \<Rightarrow> (Inr \<lparr>cn_cancelled = False, cn_order_id = i, cn_reason = ''not_found'', cn_reference = []\<rparr>,
                 audit ''cancel_miss'' (JObj [(''order_id'', JStr i)]) (Some i) None ''live'' en)
      | Some ord \<Rightarrow> cancel_order gi ord active_only en)"

definition engine_cancel_request :: "'g gateway \<Rightarrow> cancel_request \<Rightarrow> bool \<Rightarrow> ('g engine, unit) op" where
  "engine_cancel_request gi req force =
     op_then (gi_cancel_order gi req)
       (op_modify (audit ''cancel'' (JObj [(''order_id'', JStr (cr_order_id req)), (''code'', JStr (cr_code req)),
          (''exchange'', JStr (exchange_value (cr_exchange req))), (''force'', JBool force)])
          (Some (cr_order_id req)) None ''live''))"

subsection \<open>Safety controls\<close>

definition risk_verdict_now :: "'g engine \<Rightarrow> verdict \<times> 'g engine" where
  "risk_verdict_now en =
     (case en_risk en of
        None \<Rightarrow> (passed, en)
      | Some g \<Rightarrow> let (v, g') = check_equity (en_oms en) g in (v, en\<lparr>en_risk := Some g'\<rparr>))"

definition engine_resume :: "('g engine, unit) op" where
  "engine_resume en =
     (let (v, en1) = risk_verdict_now (en\<lparr>en_risk := map_option acknowledge_loss_halt (en_risk en)\<rparr>)
      in if \<not> rv_ok v
         then (Inl (ValueError ''loss halt remains active; account equity has not recovered''),
               audit ''resume_blocked'' (JObj [(''rule'', JStr (rv_rule v)), (''reason'', JStr (rv_reason v))])
                 None None ''live'' (set_halted (risk_halt_reason v) en1))
         else (Inr (), audit ''resume'' (JObj []) None None ''live''
                 (en1\<lparr>en_runmode := runmode_resume (en_runmode en1)\<rparr>)))"

definition tick_session :: "('g engine, session_state) op" where
  "tick_session en =
     (case clock_tick (en_calendar en) (local_time (en_now en)) (en_session en) of
        (r, st) \<Rightarrow> (r, en\<lparr>en_session := st\<rparr>))"

end
