(* ===== verification/Reconnect.thy ===== *)
theory Reconnect
  imports Engine
begin

section \<open>Market-data subscriptions and reconnection\<close>

text \<open>
  The rest of \<open>systems/live/engine.py\<close>: classified quote subscriptions, their restoration after
  a reconnect, the reconciliation that follows one, and the engine's snapshot.
\<close>

subsection \<open>Subscriptions\<close>

datatype subscription_kind = StrategySub | ObserverSub

fun kind_text :: "subscription_kind \<Rightarrow> string" where
  "kind_text StrategySub = ''strategy''"
| "kind_text ObserverSub = ''observer''"

definition parse_subscription :: "string \<Rightarrow> subscription_kind option" where
  "parse_subscription s = (let k = str_lower (str_strip s) in
     if k = ''strategy'' then Some StrategySub else if k = ''observer'' then Some ObserverSub else None)"

text \<open>The requested keys, each once, in the order first asked for.\<close>

definition raw_key :: "string \<Rightarrow> string" where
  "raw_key raw = (case normalize_symbol raw of (code, ex) \<Rightarrow> symbol_key code ex)"

fun unique_keys :: "string set \<Rightarrow> string list \<Rightarrow> string list" where
  "unique_keys seen [] = []"
| "unique_keys seen (k # ks) =
     (if k \<in> seen then unique_keys seen ks else k # unique_keys (insert k seen) ks)"

definition requested_keys :: "string list \<Rightarrow> string list" where
  "requested_keys symbols = unique_keys {} (map raw_key symbols)"

record sub_progress =
  sp_added :: "string list"
  sp_already :: "string list"
  sp_failed :: "(string \<times> string) list"

definition classify :: "subscription_kind \<Rightarrow> string \<Rightarrow> 'g engine \<Rightarrow> 'g engine" where
  "classify kind key en =
     (if kind = StrategySub
      then en\<lparr>en_observer_symbols := en_observer_symbols en - {key},
              en_strategy_symbols := insert key (en_strategy_symbols en)\<rparr>
      else en)"

definition add_subscription :: "subscription_kind \<Rightarrow> string \<Rightarrow> 'g engine \<Rightarrow> 'g engine" where
  "add_subscription kind key en =
     (let en1 = en\<lparr>en_subscribed_symbols := insert key (en_subscribed_symbols en)\<rparr>
      in if kind = StrategySub
         then en1\<lparr>en_strategy_symbols := insert key (en_strategy_symbols en1)\<rparr>
         else en1\<lparr>en_observer_symbols := insert key (en_observer_symbols en1)\<rparr>)"

text \<open>One key of the batch.\<close>

definition subscribe_key ::
  "'g gateway \<Rightarrow> subscription_kind \<Rightarrow> string \<Rightarrow> sub_progress \<times> 'g engine \<Rightarrow> sub_progress \<times> 'g engine" where
  "subscribe_key gi kind key st =
     (let (sp, en) = st in
      if key \<in> en_subscribed_symbols en
      then (sp\<lparr>sp_already := sp_already sp @ [key]\<rparr>, classify kind key en)
      else case gi_subscribe gi key en of
        (Inl e, en1) \<Rightarrow>
          (sp\<lparr>sp_failed := sp_failed sp @ [(key, redact_secrets (en_environ en1) (exn_text e))]\<rparr>, en1)
      | (Inr _, en1) \<Rightarrow> (sp\<lparr>sp_added := sp_added sp @ [key]\<rparr>, add_subscription kind key en1))"

definition subscribe_keys ::
  "'g gateway \<Rightarrow> subscription_kind \<Rightarrow> string list \<Rightarrow> 'g engine \<Rightarrow> sub_progress \<times> 'g engine" where
  "subscribe_keys gi kind keys en =
     fold (subscribe_key gi kind) keys (\<lparr>sp_added = [], sp_already = [], sp_failed = []\<rparr>, en)"

definition strings_json :: "string list \<Rightarrow> json" where
  "strings_json xs = JArr (map JStr xs)"

definition failed_json :: "(string \<times> string) list \<Rightarrow> json" where
  "failed_json xs = JArr (map (\<lambda>(sym, err). JObj [(''symbol'', JStr sym), (''error'', JStr err)]) xs)"

definition awaiting_first_tick :: "string list option \<Rightarrow> 'g engine \<Rightarrow> string list" where
  "awaiting_first_tick requested en =
     sort (filter (\<lambda>s. s \<in> en_subscribed_symbols en \<and> map_of (om_ticks (en_oms en)) s = None)
       (case requested of Some r \<Rightarrow> r | None \<Rightarrow> sorted_list_of_set (en_subscribed_symbols en)))"

definition subscription_source :: "'g engine \<Rightarrow> string \<Rightarrow> string" where
  "subscription_source en s = (if s \<in> en_strategy_symbols en then ''strategy'' else ''observer'')"

text \<open>The fields of \<open>subscription_snapshot\<close> that \<open>subscribe_market_data\<close> audits as well.\<close>

definition subscription_fields :: "'g engine \<Rightarrow> (string \<times> json) list" where
  "subscription_fields en =
     (let active = sorted_list_of_set (en_subscribed_symbols en)
      in [(''strategy_symbols'', strings_json (sorted_list_of_set (en_strategy_symbols en))),
          (''observer_symbols'', strings_json (sorted_list_of_set (en_observer_symbols en))),
          (''subscribed_symbols'', strings_json active), (''symbols'', strings_json active),
          (''subscription_sources'', JObj (map (\<lambda>s. (s, JStr (subscription_source en s))) active))])"

definition subscription_snapshot :: "string list option \<Rightarrow> 'g engine \<Rightarrow> json" where
  "subscription_snapshot requested en = JObj (subscription_fields en @
     [(''awaiting_first_tick'', strings_json (awaiting_first_tick requested en))])"

definition subscribe_market_data ::
  "'g gateway \<Rightarrow> string list \<Rightarrow> string \<Rightarrow> ('g engine, sub_progress) op" where
  "subscribe_market_data gi symbols subscription_type en =
     (case parse_subscription subscription_type of
        None \<Rightarrow> (Inl (ValueError (''subscription_type must be '' @ quoted ''strategy'' @ '' or '' @ quoted ''observer'')), en)
      | Some kind \<Rightarrow>
          let requested = requested_keys symbols;
              (sp, en1) = subscribe_keys gi kind requested en
          in (Inr sp, audit ''market_subscription''
               (JObj (subscription_fields en1 @
                  [(''subscription_type'', JStr (kind_text kind)), (''requested'', strings_json requested),
                   (''added'', strings_json (sp_added sp)),
                   (''already_subscribed'', strings_json (sp_already sp)),
                   (''failed'', failed_json (sp_failed sp))]))
               None None (en_quote_name en1) en1))"

subsection \<open>Restoring subscriptions\<close>

text \<open>A strategy symbol that cannot be restored fails the recovery; an observer is only reported.\<close>

definition restore_strategy_symbol :: "'g gateway \<Rightarrow> string \<Rightarrow> ('g engine, unit) op" where
  "restore_strategy_symbol gi symbol = op_catch (gi_subscribe gi symbol)
     (\<lambda>e en. let error = redact_secrets (en_environ en) (exn_text e)
            in (Inl (RuntimeError (''strategy market subscription recovery failed for '' @ symbol @ '': '' @ error)),
                audit ''market_subscription_restore_failed''
                  (JObj [(''subscription_type'', JStr ''strategy''), (''symbol'', JStr symbol),
                     (''error'', JStr error)])
                  None None (en_quote_name en) en))"

fun restore_observers ::
  "'g gateway \<Rightarrow> string list \<Rightarrow> 'g engine \<Rightarrow> (string list \<times> (string \<times> string) list) \<times> 'g engine" where
  "restore_observers gi [] en = (([], []), en)"
| "restore_observers gi (s # ss) en =
     (case gi_subscribe gi s en of
        (Inl e, en1) \<Rightarrow>
          (let err = redact_secrets (en_environ en1) (exn_text e);
               ((ok, bad), en2) = restore_observers gi ss en1 in ((ok, (s, err) # bad), en2))
      | (Inr _, en1) \<Rightarrow> (let ((ok, bad), en2) = restore_observers gi ss en1 in ((s # ok, bad), en2)))"

definition restore_report :: "string list \<Rightarrow> string list \<times> (string \<times> string) list \<Rightarrow> json" where
  "restore_report strategy obs = JObj [(''strategy_restored'', strings_json strategy),
     (''observer_restored'', strings_json (fst obs)), (''observer_failed'', failed_json (snd obs))]"

definition restore_market_data_subscriptions :: "'g gateway \<Rightarrow> ('g engine, json) op" where
  "restore_market_data_subscriptions gi en =
     (let strategy = sorted_list_of_set (en_strategy_symbols en)
      in op_then (op_for strategy (restore_strategy_symbol gi))
           (\<lambda>en1. let (obs, en2) = restore_observers gi (sorted_list_of_set (en_observer_symbols en1)) en1;
                     report = restore_report strategy obs
                 in (Inr report, audit ''market_subscription_restored'' report None None (en_quote_name en2) en2))
           en)"

subsection \<open>Reconciliation after a reconnect\<close>

definition drop_connection :: "'g gateway \<Rightarrow> bool \<Rightarrow> 'g engine \<Rightarrow> 'g engine" where
  "drop_connection gi auto_resume en =
     (if en_connection en \<noteq> DISCONNECTED
      then let en1 = snd (op_catch (op_for (map snd (unique_closes gi en)) (\<lambda>m. m))
             (\<lambda>e. op_modify (audit_self ''reconnect_close_error''
                (\<lambda>en. JObj [(''error'', JStr (exn_message e))]))) en)
           in handle_disconnect ''reconnect'' en1
      else if \<not> auto_resume \<and> \<not> rm_halted (en_runmode en)
      then audit ''halt'' (JObj [(''reason'', JStr ''reconnect'')]) None None ''live'' (set_halted ''reconnect'' en)
      else en)"

text \<open>The end of the reconciliation: only an explicit request resumes, and only with sound equity.\<close>

definition auto_resume_step :: "bool \<Rightarrow> 'g engine \<Rightarrow> 'g engine" where
  "auto_resume_step auto_resume en =
     (if \<not> auto_resume then en
      else let (v, en1) = risk_verdict_now en
           in if rv_ok v then en1\<lparr>en_runmode := runmode_resume (en_runmode en1)\<rparr>
              else set_halted (risk_halt_reason v) en1)"

definition reconcile_report :: "bool \<Rightarrow> json \<Rightarrow> 'g engine \<Rightarrow> json" where
  "reconcile_report auto_resume recovery en = JObj
     [(''buying_power'', JNum (oms_buying_power (en_oms en))), (''auto_resume'', JBool auto_resume),
      (''resumed'', JBool (\<not> rm_halted (en_runmode en))),
      (''active_orders'', JNum (of_nat (length (oms_get_active_orders (en_oms en))))),
      (''positions'', JNum (of_nat (length (oms_get_positions (en_oms en))))),
      (''subscription_recovery'', recovery)]"

definition reconcile_after_reconnect ::
  "'g gateway \<Rightarrow> settings option \<Rightarrow> bool \<Rightarrow> ('g engine, json) op" where
  "reconcile_after_reconnect gi setting auto_resume =
     op_then (op_modify (drop_connection gi auto_resume))
    (op_then (set_connection CONNECTING)
    (op_then (connect_gateways gi setting)
    (op_then (set_connection CONNECTED)
    (op_then (set_connection LOGGED_IN)
    (op_bind (restore_market_data_subscriptions gi)
      (\<lambda>recovery. op_then (gi_query_account gi)
        (op_then (gi_query_position gi)
          (\<lambda>en. let en1 = auto_resume_step auto_resume en;
                    report = reconcile_report auto_resume recovery en1
                in (Inr report, audit_self ''reconciled'' (\<lambda>_. report) en1)))))))))"

definition reconcile_and_resume :: "'g gateway \<Rightarrow> ('g engine, json) op" where
  "reconcile_and_resume gi = reconcile_after_reconnect gi None True"

subsection \<open>The engine's snapshot\<close>

definition limits_json :: "risk_limits \<Rightarrow> json" where
  "limits_json l = JObj
     [(''max_order_value'', JNum (rl_max_order_value l)),
      (''max_order_equity_pct'', JNum (rl_max_order_equity_pct l)),
      (''max_daily_value'', JNum (rl_max_daily_value l)),
      (''max_daily_equity_pct'', JNum (rl_max_daily_equity_pct l)),
      (''max_position_pct'', JNum (rl_max_position_pct l)),
      (''max_total_position_pct'', JNum (rl_max_total_position_pct l)),
      (''max_position_count'', JNum (of_int (rl_max_position_count l))),
      (''price_guard_pct'', JNum (rl_price_guard_pct l)),
      (''max_orders_per_day'', JNum (of_int (rl_max_orders_per_day l))),
      (''lot_size'', JNum (of_int (rl_lot_size l))),
      (''max_quote_age_seconds'', JNum (rl_max_quote_age_seconds l)),
      (''buy_fee_rate'', JNum (rl_buy_fee_rate l)), (''sell_fee_rate'', JNum (rl_sell_fee_rate l)),
      (''min_fee'', JNum (rl_min_fee l)), (''max_daily_loss_pct'', JNum (rl_max_daily_loss_pct l)),
      (''max_canary_loss_pct'', JNum (rl_max_canary_loss_pct l))]"

definition risk_state_json :: "risk_gate \<Rightarrow> json" where
  "risk_state_json g = JObj
     [(''limits'', limits_json (rg_limits g)), (''enforce_session'', JBool (rg_enforce_session g)),
      (''orders_today'', JNum (of_int (rg_orders_today g))), (''value_today'', JNum (rg_value_today g)),
      (''seen_refs'', strings_json (sorted_list_of_set (rg_seen_refs g))),
      (''day_start_equity'', JNum (rg_day_start_equity g)),
      (''canary_start_equity'', JNum (rg_canary_start_equity g)),
      (''loss_halt_rule'', JStr (rg_loss_halt_rule g)),
      (''loss_halt_reason'', JStr (rg_loss_halt_reason g))]"

definition engine_snapshot :: "'g engine \<Rightarrow> json" where
  "engine_snapshot en = JObj
     ([(''mode'', JStr (run_mode_value (rm_mode (en_runmode en)))),
       (''halted'', JBool (rm_halted (en_runmode en))),
       (''halt_reason'', JStr (rm_halt_reason (en_runmode en))),
       (''connection'', JStr (connection_value (en_connection en))),
       (''session'', JStr (session_value (en_session en))),
       (''buying_power'', JNum (oms_buying_power (en_oms en))),
       (''active_orders'', JNum (of_nat (length (oms_get_active_orders (en_oms en))))),
       (''positions'', JNum (of_nat (length (oms_get_positions (en_oms en))))),
       (''contracts'', JNum (of_nat (length (om_contracts (en_oms en))))),
       (''ticks'', JNum (of_nat (length (om_ticks (en_oms en)))))] @
      subscription_fields en @
      [(''awaiting_first_tick'', strings_json (awaiting_first_tick None en)),
       (''risk'', case en_risk en of Some g \<Rightarrow> risk_state_json g | None \<Rightarrow> JNull)])"

end
