(* ===== verification/Gateway_Contract.thy ===== *)
theory Gateway_Contract
  imports Reconnect
begin

section \<open>The gateway contract and what the engine promises under it\<close>

text \<open>
  \<open>systems/live/gateway.py\<close>: a gateway owns its state and acts on the engine through the
  callbacks only.  The locale \<open>gateway_contract\<close> states this for every operation of the port:
  it keeps each property of the engine that the callbacks keep.  Under the contract the lemmas say
  what every guarded action keeps, whatever the gateway does.
\<close>

subsection \<open>Properties the callbacks keep\<close>

definition callback_stable :: "('g engine \<Rightarrow> bool) \<Rightarrow> bool" where
  "callback_stable P \<longleftrightarrow>
     (\<forall>ord en. P en \<longrightarrow> P (on_order ord en)) \<and> (\<forall>t en. P en \<longrightarrow> P (on_trade t en)) \<and>
     (\<forall>p en. P en \<longrightarrow> P (on_position p en)) \<and> (\<forall>c en. P en \<longrightarrow> P (on_contract c en)) \<and>
     (\<forall>l en. P en \<longrightarrow> P (on_log l en)) \<and> (\<forall>t. keeps P (on_tick [] t)) \<and>
     (\<forall>a b c en. P en \<longrightarrow> P (on_gateway_connected a b c en)) \<and>
     (\<forall>a b c d en. P en \<longrightarrow> P (on_gateway_disconnected a b c d en)) \<and>
     (\<forall>cancel a en. (\<forall>r. keeps P (cancel r)) \<longrightarrow> P en \<longrightarrow> P (on_account cancel a en)) \<and>
     (\<forall>en g. P en \<longrightarrow> P (en\<lparr>en_gw := g\<rparr>))"

lemma stable_rules:
  assumes "callback_stable P" "P en"
  shows "P (on_order ord en)" "P (on_trade t en)" "P (on_position p en)" "P (on_contract ct en)"
    "P (on_log l en)" "P (on_gateway_connected a b c en)" "P (on_gateway_disconnected a b c d en)"
    "(\<And>r. keeps P (cancel r)) \<Longrightarrow> P (on_account cancel ac en)" "P (en\<lparr>en_gw := g\<rparr>)"
  using assms by (simp_all add: callback_stable_def)

text \<open>
  The elementary steps a callback is made of; only \<open>submit\<close> writes events of kind
  \<open>submit\<close>.  A property kept by each of them is kept by the
  callbacks, and by the kill-switch.
\<close>

definition callback_safe :: "('g engine \<Rightarrow> bool) \<Rightarrow> bool" where
  "callback_safe P \<longleftrightarrow>
     (\<forall>k p s en. P en \<longrightarrow> P (publish k p s en)) \<and>
     (\<forall>k p i r s en. k \<noteq> ''submit'' \<longrightarrow> P en \<longrightarrow> P (audit k p i r s en)) \<and>
     (\<forall>e en. P en \<longrightarrow> P (set_oms (oms_step e (en_oms en)) en)) \<and>
     (\<forall>r en. P en \<longrightarrow> P (set_halted r en)) \<and>
     (\<forall>st en. P en \<longrightarrow> P (en\<lparr>en_connection := st\<rparr>)) \<and>
     (\<forall>g en. P en \<longrightarrow> en_risk en = Some g \<longrightarrow> P (en\<lparr>en_risk := Some (snd (check_equity (en_oms en) g))\<rparr>)) \<and>
     (\<forall>en g. P en \<longrightarrow> P (en\<lparr>en_gw := g\<rparr>))"

lemma callback_safe_rules:
  assumes "callback_safe P" "P en"
  shows "P (publish k p s en)" "k \<noteq> ''submit'' \<Longrightarrow> P (audit k p i r s en)" "P (set_oms (oms_step e (en_oms en)) en)"
    "P (set_halted reason en)" "P (en\<lparr>en_connection := st\<rparr>)" "P (en\<lparr>en_gw := g\<rparr>)"
    "en_risk en = Some rg \<Longrightarrow> P (en\<lparr>en_risk := Some (snd (check_equity (en_oms en) rg))\<rparr>)"
  using assms by (simp_all add: callback_safe_def)

lemma set_connection_keeps: "callback_safe P \<Longrightarrow> keeps P (set_connection st)"
  by (rule keepsI) (simp add: set_connection_def callback_safe_rules split: prod.splits)

lemma audit_keeps: "callback_safe P \<Longrightarrow> k \<noteq> ''submit'' \<Longrightarrow> keeps P (op_modify (audit k p i r s))"
  by (rule keeps_modify) (simp add: callback_safe_rules(2) [of P])

lemma audit_self_keeps: "callback_safe P \<Longrightarrow> k \<noteq> ''submit'' \<Longrightarrow> keeps P (op_modify (audit_self k p))"
  by (rule keeps_modify) (simp add: audit_self_def callback_safe_rules(2) [of P])

lemma halt_cancel_keeps:
  "callback_safe P \<Longrightarrow> (\<And>r. keeps P (cancel r)) \<Longrightarrow> keeps P (halt_cancel cancel ord)"
  unfolding halt_cancel_def by (intro keeps_catch audit_keeps) simp_all

lemma halt_safe:
  assumes "callback_safe P" "\<And>r. keeps P (cancel r)" "P en"
  shows "P (halt cancel reason en)"
proof -
  note safe = callback_safe_rules [OF assms(1)]
  have "P (audit ''halt'' (JObj [(''reason'', JStr reason)]) None None ''live'' (set_halted reason en))"
    by (rule safe(2) [OF safe(4) [OF assms(3)]]) simp
  then show ?thesis unfolding halt_def Let_def
    by (rule keepsD [OF keeps_for [OF halt_cancel_keeps [OF assms(1,2)]]])
qed

lemma disconnect_safe:
  assumes "callback_safe P" "P en"
  shows "P (if en_connection en \<noteq> DISCONNECTED then snd (set_connection DISCONNECTED en) else en)"
  using keepsD [OF set_connection_keeps [OF assms(1)] assms(2)] assms(2) by simp

lemma handle_disconnect_safe: "callback_safe P \<Longrightarrow> P en \<Longrightarrow> P (handle_disconnect reason en)"
  unfolding handle_disconnect_def Let_def
  by (rule callback_safe_rules(2), assumption, rule callback_safe_rules(4), assumption, rule disconnect_safe)
    simp_all

lemma callback_safe_oms:
  assumes "callback_safe P" "P en"
  shows "P (set_oms (oms_on_order ord (en_oms en)) en)" "P (set_oms (oms_on_trade t (en_oms en)) en)"
    "P (set_oms (oms_on_position p (en_oms en)) en)" "P (set_oms (oms_on_contract c (en_oms en)) en)"
    "P (set_oms (oms_on_log l (en_oms en)) en)" "P (set_oms (oms_on_account a (en_oms en)) en)"
    "P (set_oms (oms_on_tick tk (en_oms en)) en)"
  using callback_safe_rules(3) [OF assms, of "EvOrder ord"] callback_safe_rules(3) [OF assms, of "EvTrade t"]
    callback_safe_rules(3) [OF assms, of "EvPosition p"] callback_safe_rules(3) [OF assms, of "EvContract c"]
    callback_safe_rules(3) [OF assms, of "EvLog l"] callback_safe_rules(3) [OF assms, of "EvAccount a"]
    callback_safe_rules(3) [OF assms, of "EvTick tk"]
  by simp_all

lemma on_account_safe:
  assumes "callback_safe P" "\<And>r. keeps P (cancel r)" "P en"
  shows "P (on_account cancel a en)"
proof -
  let ?en1 = "publish ''account'' (account_json a) (source_of (ac_gateway a) en)
    (set_oms (oms_on_account a (en_oms en)) en)"
  have p1: "P ?en1"
    by (rule callback_safe_rules(1) [OF assms(1)]) (rule callback_safe_oms(6) [OF assms(1,3)])
  show ?thesis
  proof (cases "en_risk ?en1")
    case None
    then show ?thesis using p1 by (simp add: on_account_def Let_def)
  next
    case (Some g)
    then show ?thesis using callback_safe_rules(7) [OF assms(1) p1 Some] halt_safe [OF assms(1,2)]
      by (simp add: on_account_def Let_def case_prod_beta)
  qed
qed

lemma on_tick_safe: "callback_safe P \<Longrightarrow> keeps P (on_tick [] t)"
  by (rule keepsI)
    (simp add: on_tick_def Let_def callback_safe_rules(1) [of P] callback_safe_oms(7) [of P])

lemma on_gateway_disconnected_safe:
  assumes "callback_safe P" "P en"
  shows "P (on_gateway_disconnected a b c d en)"
  using handle_disconnect_safe [OF assms] callback_safe_rules(2) [OF assms(1)] assms(2)
  by (simp add: on_gateway_disconnected_def Let_def)

lemma callback_safe_stable:
  assumes "callback_safe P"
  shows "callback_stable P"
  unfolding callback_stable_def
  by (intro conjI allI impI on_tick_safe [OF assms] on_gateway_disconnected_safe [OF assms])
    (simp_all add: on_order_def on_trade_def on_position_def on_contract_def on_log_def
      on_gateway_connected_def callback_safe_rules [OF assms] callback_safe_oms [OF assms]
      on_account_safe [OF assms])

subsection \<open>Properties the guarded actions keep\<close>

text \<open>On top of the callbacks' steps: the risk check of a submission and the subscription sets.\<close>

definition submit_safe :: "('g engine \<Rightarrow> bool) \<Rightarrow> bool" where
  "submit_safe P \<longleftrightarrow> callback_safe P \<and>
     (\<forall>req en. P en \<longrightarrow> P (snd (engine_risk_check req en))) \<and>
     (\<forall>p i r s en. P en \<longrightarrow> P (audit ''submit'' p i r s en))"

definition subscription_safe :: "('g engine \<Rightarrow> bool) \<Rightarrow> bool" where
  "subscription_safe P \<longleftrightarrow> callback_safe P \<and>
     (\<forall>kind key en. P en \<longrightarrow> key \<in> en_subscribed_symbols en \<longrightarrow> P (classify kind key en)) \<and>
     (\<forall>kind key en. P en \<longrightarrow> key \<notin> en_subscribed_symbols en \<longrightarrow> P (add_subscription kind key en))"

definition action_safe :: "('g engine \<Rightarrow> bool) \<Rightarrow> bool" where
  "action_safe P \<longleftrightarrow> submit_safe P \<and> subscription_safe P"

lemma submit_safe_rules:
  assumes "submit_safe P"
  shows "callback_safe P" "P en \<Longrightarrow> P (snd (engine_risk_check req en))"
    "P en \<Longrightarrow> P (audit ''submit'' p i r s en)"
  using assms by (simp_all add: submit_safe_def)

lemma subscription_safe_rules:
  assumes "subscription_safe P"
  shows "callback_safe P"
    "P en \<Longrightarrow> key \<in> en_subscribed_symbols en \<Longrightarrow> P (classify kind key en)"
    "P en \<Longrightarrow> key \<notin> en_subscribed_symbols en \<Longrightarrow> P (add_subscription kind key en)"
  using assms by (simp_all add: subscription_safe_def)

lemma action_safe_rules:
  assumes "action_safe P"
  shows "submit_safe P" "subscription_safe P" "callback_safe P" "callback_stable P"
  using assms by (auto simp: action_safe_def submit_safe_def intro: callback_safe_stable)

lemma callback_safe_conj: "callback_safe P \<Longrightarrow> callback_safe Q \<Longrightarrow> callback_safe (\<lambda>en. P en \<and> Q en)"
  by (simp add: callback_safe_def)

lemma callback_safe_ex:
  assumes "\<And>x. callback_safe (P x)"
  shows "callback_safe (\<lambda>en. \<exists>x. P x en)"
proof -
  note rules = callback_safe_rules [OF assms]
  show ?thesis unfolding callback_safe_def
    using rules(1) rules(2) rules(3) rules(4) rules(5) rules(6) rules(7)
    by (intro conjI allI impI; elim exE; intro exI; simp)
qed

lemma publish_frames [simp]:
  "en_oms (publish k p src en) = en_oms en" "en_runmode (publish k p src en) = en_runmode en"
  "en_risk (publish k p src en) = en_risk en" "en_gw (publish k p src en) = en_gw en"
  "en_connection (publish k p src en) = en_connection en" "en_ledger (publish k p src en) = en_ledger en"
  "en_subscribed_symbols (publish k p src en) = en_subscribed_symbols en"
  "en_strategy_symbols (publish k p src en) = en_strategy_symbols en"
  "en_observer_symbols (publish k p src en) = en_observer_symbols en"
  "en_session (publish k p src en) = en_session en" "en_wall (publish k p src en) = en_wall en"
  "en_now (publish k p src en) = en_now en"
  by (simp_all add: publish_def publish_at_def Let_def)

lemma audit_frames [simp]:
  "en_oms (audit k p i r src en) = en_oms en" "en_runmode (audit k p i r src en) = en_runmode en"
  "en_risk (audit k p i r src en) = en_risk en" "en_gw (audit k p i r src en) = en_gw en"
  "en_connection (audit k p i r src en) = en_connection en"
  "en_subscribed_symbols (audit k p i r src en) = en_subscribed_symbols en"
  "en_strategy_symbols (audit k p i r src en) = en_strategy_symbols en"
  "en_observer_symbols (audit k p i r src en) = en_observer_symbols en"
  "en_session (audit k p i r src en) = en_session en" "en_wall (audit k p i r src en) = en_wall en"
  "en_now (audit k p i r src en) = en_now en"
  by (simp_all add: audit_def publish_at_def Let_def)

lemma subscribed_safe: "callback_safe (\<lambda>en. en_subscribed_symbols en = S)"
  by (simp add: callback_safe_def set_halted_def)

subsection \<open>The contract\<close>

locale gateway_contract =
  fixes gi :: "'g gateway"
  assumes connect_keeps: "callback_stable P \<Longrightarrow> keeps P (gi_connect gi s)"
    and quote_connect_keeps: "callback_stable P \<Longrightarrow> keeps P (gi_quote_connect gi s)"
    and close_keeps: "callback_stable P \<Longrightarrow> keeps P (gi_close gi)"
    and quote_close_keeps: "callback_stable P \<Longrightarrow> keeps P (gi_quote_close gi)"
    and send_keeps: "callback_stable P \<Longrightarrow> keeps P (gi_send_order gi req)"
    and cancel_keeps: "callback_stable P \<Longrightarrow> keeps P (gi_cancel_order gi cr)"
    and query_account_keeps: "callback_stable P \<Longrightarrow> keeps P (gi_query_account gi)"
    and query_position_keeps: "callback_stable P \<Longrightarrow> keeps P (gi_query_position gi)"
    and subscribe_keeps: "callback_stable P \<Longrightarrow> keeps P (gi_subscribe gi key)"
begin

lemma connect_gateways_keeps: "callback_stable P \<Longrightarrow> keeps P (connect_gateways gi setting)"
  by (auto simp: connect_gateways_def Let_def split: prod.splits
      intro: connect_keeps keeps_then quote_connect_keeps)

lemma engine_connect_keeps:
  assumes "callback_safe P"
  shows "keeps P (connect gi setting)"
  unfolding connect_def
  by (intro keeps_then keeps_catch set_connection_keeps audit_self_keeps keeps_raise
      connect_gateways_keeps callback_safe_stable assms) simp_all

lemma try_closes_keeps:
  "(\<And>m. m \<in> snd ` set ms \<Longrightarrow> keeps P m) \<Longrightarrow> P en \<Longrightarrow> P (snd (try_closes ms en))"
proof (induction ms arbitrary: en)
  case (Cons nm ms)
  obtain name m where nm: "nm = (name, m)" by fastforce
  with Cons.prems have "P (snd (m en))" by (auto intro: keepsD)
  then have "P (snd (try_closes ms (snd (m en))))" by (rule Cons.IH [rotated]) (simp add: Cons.prems(1))
  with nm show ?case by (simp add: Let_def case_prod_beta split: sum.splits)
qed simp

lemma unique_closes_keep: "callback_stable P \<Longrightarrow> m \<in> snd ` set (unique_closes gi en) \<Longrightarrow> keeps P m"
  by (auto simp: unique_closes_def close_keeps quote_close_keeps split: if_splits)

lemma engine_close_keeps:
  assumes "callback_safe P" "P en"
  shows "P (close gi en)"
proof -
  have "P (snd (try_closes (unique_closes gi en) en))"
    by (rule try_closes_keeps [where P = P, OF _ assms(2)])
      (rule unique_closes_keep [OF callback_safe_stable [OF assms(1)]])
  from disconnect_safe [OF assms(1) this] show ?thesis
    by (simp add: close_def audit_self_def Let_def case_prod_beta callback_safe_rules(2) [OF assms(1)])
qed

lemma engine_halt_keeps: "callback_safe P \<Longrightarrow> P en \<Longrightarrow> P (halt (gi_cancel_order gi) reason en)"
  by (rule halt_safe [OF _ cancel_keeps [OF callback_safe_stable]])

lemma route_keeps: "submit_safe P \<Longrightarrow> keeps P (route gi req origin)"
  unfolding route_def
  by (intro keeps_bind keeps_then keeps_return keeps_modify send_keeps callback_safe_stable
      submit_safe_rules(1))
    (simp_all add: submit_safe_rules(3) [of P])

lemma submit_keeps:
  assumes "submit_safe P"
  shows "keeps P (submit gi req origin)"
proof (rule keepsI)
  fix en
  assume p: "P en"
  note safe = submit_safe_rules(1) [OF assms]
  obtain v en1 where rc: "engine_risk_check req en = (v, en1)" by fastforce
  with submit_safe_rules(2) [OF assms p, of req] have p1: "P en1" by simp
  show "P (snd (submit gi req origin en))"
    using callback_safe_rules(2) [OF safe p] callback_safe_rules(2) [OF safe p1]
      engine_halt_keeps [OF safe] keepsD [OF route_keeps [OF assms] p1] rc
    by (simp add: submit_def Let_def)
qed

lemma cancel_order_keeps:
  assumes "callback_safe P"
  shows "keeps P (cancel_order gi ord active_only)"
proof (rule keepsI)
  fix en
  assume p: "P en"
  have "keeps P (op_then (gi_cancel_order gi (create_cancel ord)) (op_then (op_modify (audit ''cancel'' pl i r s)) (op_return x)))"
    for pl i r s and x :: cancel_result
    by (intro keeps_then keeps_return audit_keeps cancel_keeps callback_safe_stable assms)
      simp
  from keepsD [OF this p] callback_safe_rules(2) [OF assms p]
  show "P (snd (cancel_order gi ord active_only en))" by (simp add: cancel_order_def)
qed

lemma cancel_by_id_keeps:
  assumes "callback_safe P"
  shows "keeps P (cancel_by_id gi i active_only)"
  by (rule keepsI) (simp add: cancel_by_id_def callback_safe_rules(2) [OF assms]
      keepsD [OF cancel_order_keeps [OF assms]] split: option.split)

lemma cancel_request_keeps: "callback_safe P \<Longrightarrow> keeps P (engine_cancel_request gi cr force)"
  unfolding engine_cancel_request_def by (intro keeps_then audit_keeps cancel_keeps callback_safe_stable) simp_all

subsection \<open>Subscriptions and reconnection\<close>

lemma subscribe_key_keeps:
  assumes "subscription_safe P" "P (snd st)"
  shows "P (snd (subscribe_key gi kind key st))"
proof -
  let ?en = "snd st"
  have "callback_stable (\<lambda>en. P en \<and> en_subscribed_symbols en = en_subscribed_symbols ?en)"
    by (rule callback_safe_stable [OF callback_safe_conj [OF subscription_safe_rules(1) [OF assms(1)] subscribed_safe]])
  from keepsD [OF subscribe_keeps [OF this], of ?en key] assms(2)
  have "P (snd (gi_subscribe gi key ?en))"
    "en_subscribed_symbols (snd (gi_subscribe gi key ?en)) = en_subscribed_symbols ?en" by simp_all
  with assms show ?thesis
    by (simp add: subscribe_key_def Let_def case_prod_beta subscription_safe_rules split: sum.splits)
qed

lemma subscribe_fold_keeps:
  assumes "subscription_safe P"
  shows "P (snd st) \<Longrightarrow> P (snd (fold (subscribe_key gi kind) keys st))"
proof (induction keys arbitrary: st)
  case (Cons k ks)
  have "P (snd (subscribe_key gi kind k st))" by (rule subscribe_key_keeps [OF assms Cons.prems])
  from Cons.IH [OF this] show ?case by simp
qed simp

lemma subscribe_keys_keeps: "subscription_safe P \<Longrightarrow> P en \<Longrightarrow> P (snd (subscribe_keys gi kind keys en))"
  unfolding subscribe_keys_def by (rule subscribe_fold_keeps) simp_all

lemma subscribe_market_data_keeps:
  assumes "subscription_safe P"
  shows "keeps P (subscribe_market_data gi symbols ty)"
  by (rule keepsI)
    (simp add: subscribe_market_data_def Let_def case_prod_beta subscribe_keys_keeps [OF assms]
      callback_safe_rules(2) [OF subscription_safe_rules(1) [OF assms]] split: option.split)

lemma restore_strategy_keeps:
  assumes "callback_safe P"
  shows "keeps P (restore_strategy_symbol gi s)"
  unfolding restore_strategy_symbol_def
  by (intro keeps_catch subscribe_keeps callback_safe_stable assms keepsI)
    (simp add: Let_def callback_safe_rules(2) [OF assms])

lemma restore_observers_keeps:
  assumes "callback_stable P"
  shows "P en \<Longrightarrow> P (snd (restore_observers gi ss en))"
proof (induction ss arbitrary: en)
  case (Cons s ss)
  have "P (snd (gi_subscribe gi s en))" by (rule keepsD [OF subscribe_keeps [OF assms] Cons.prems])
  from Cons.IH [OF this] show ?case by (simp add: Let_def case_prod_beta split: sum.splits)
qed simp

lemma restore_keeps:
  assumes "callback_safe P"
  shows "keeps P (restore_market_data_subscriptions gi)"
proof (rule keepsI)
  fix en
  assume p: "P en"
  let ?body = "\<lambda>strategy en1.
    let (obs, en2) = restore_observers gi (sorted_list_of_set (en_observer_symbols en1)) en1;
        report = restore_report strategy obs
    in (Inr report, audit ''market_subscription_restored'' report None None (en_quote_name en2) en2)"
  have "keeps P (?body strategy)" for strategy
    by (rule keepsI) (simp add: Let_def case_prod_beta callback_safe_rules(2) [OF assms]
        restore_observers_keeps [OF callback_safe_stable [OF assms]])
  then have "keeps P (op_then (op_for strategy (restore_strategy_symbol gi)) (?body strategy))" for strategy
    by (intro keeps_then keeps_for restore_strategy_keeps assms)
  from keepsD [OF this p] show "P (snd (restore_market_data_subscriptions gi en))"
    by (simp add: restore_market_data_subscriptions_def Let_def)
qed

lemma op_for_id_keeps: "(\<And>m. m \<in> set ms \<Longrightarrow> keeps P m) \<Longrightarrow> keeps P (op_for ms (\<lambda>m. m))"
proof (induction ms)
  case (Cons m ms)
  have "keeps P (op_for ms (\<lambda>m. m))" by (rule Cons.IH) (simp add: Cons.prems)
  moreover have "keeps P m" by (simp add: Cons.prems)
  ultimately show ?case by (auto simp: keeps_def case_prod_beta split: sum.splits)
qed (simp add: keeps_def)

lemma drop_connection_keeps:
  assumes "callback_safe P" "P en"
  shows "P (drop_connection gi auto_resume en)"
proof -
  have "keeps P (op_for (map snd (unique_closes gi en)) (\<lambda>m. m))"
    by (rule op_for_id_keeps) (simp add: unique_closes_keep [OF callback_safe_stable [OF assms(1)]] image_iff)
  then have "keeps P (op_catch (op_for (map snd (unique_closes gi en)) (\<lambda>m. m))
      (\<lambda>e. op_modify (audit_self ''reconnect_close_error'' (pl e))))"
    for pl :: "exn \<Rightarrow> 'g engine \<Rightarrow> json"
    by (intro keeps_catch audit_self_keeps assms) simp_all
  from keepsD [OF this assms(2)] assms(2) show ?thesis
    by (simp add: drop_connection_def Let_def handle_disconnect_safe [OF assms(1)]
        callback_safe_rules [OF assms(1)])
qed

lemma reconcile_keeps:
  assumes "callback_safe P" "\<And>en. P en \<Longrightarrow> P (auto_resume_step auto_resume en)"
  shows "keeps P (reconcile_after_reconnect gi setting auto_resume)"
proof -
  note stable = callback_safe_stable [OF assms(1)]
  have "keeps P (\<lambda>en. let en1 = auto_resume_step auto_resume en;
      report = reconcile_report auto_resume recovery en1
      in (Inr report, audit_self ''reconciled'' (\<lambda>_. report) en1))" for recovery
    by (rule keepsI) (simp add: Let_def audit_self_def callback_safe_rules(2) [OF assms(1)] assms(2))
  then show ?thesis unfolding reconcile_after_reconnect_def
    by (intro keeps_then keeps_bind keeps_modify drop_connection_keeps [OF assms(1)] set_connection_keeps
        connect_gateways_keeps restore_keeps query_account_keeps query_position_keeps stable assms(1))
qed

end

end
