(* ===== verification/Engine_Safety.thy ===== *)
theory Engine_Safety
  imports Gateway_Contract "HOL-Library.Sublist"
begin

section \<open>Safety of the engine over any run\<close>

text \<open>
  The actions on the engine as one step function, and the properties that every run of actions
  keeps under the gateway contract: the invariant, the kill-switch, the loss latch and the
  append-only ledger.
\<close>

subsection \<open>Runs\<close>

datatype engine_action =
    ASubmit order_request string
  | ACancel string bool
  | ACancelRequest cancel_request bool
  | AHalt string
  | AResume
  | AConnect "settings option"
  | AClose
  | AReconcile "settings option" bool
  | ASubscribe "string list" string
  | ATickSession
  | ATime stamp datetime
  | AReport order
  | AFill trade
  | ASnapshot position
  | AAccount account
  | AQuote tick
  | ADropped string string string bool

text \<open>
  \<open>ATime\<close> is the passing of time; the last six are callbacks the gateway makes on its own.
\<close>

fun engine_step :: "'g gateway \<Rightarrow> engine_action \<Rightarrow> 'g engine \<Rightarrow> 'g engine" where
  "engine_step gi (ASubmit req origin) en = snd (submit gi req origin en)"
| "engine_step gi (ACancel i active_only) en = snd (cancel_by_id gi i active_only en)"
| "engine_step gi (ACancelRequest cr force) en = snd (engine_cancel_request gi cr force en)"
| "engine_step gi (AHalt reason) en = halt (gi_cancel_order gi) reason en"
| "engine_step gi AResume en = snd (engine_resume en)"
| "engine_step gi (AConnect s) en = snd (connect gi s en)"
| "engine_step gi AClose en = close gi en"
| "engine_step gi (AReconcile s auto_resume) en = snd (reconcile_after_reconnect gi s auto_resume en)"
| "engine_step gi (ASubscribe symbols ty) en = snd (subscribe_market_data gi symbols ty en)"
| "engine_step gi ATickSession en = snd (tick_session en)"
| "engine_step gi (ATime now wall) en = en\<lparr>en_now := now, en_wall := wall\<rparr>"
| "engine_step gi (AReport ord) en = on_order ord en"
| "engine_step gi (AFill t) en = on_trade t en"
| "engine_step gi (ASnapshot p) en = on_position p en"
| "engine_step gi (AAccount a) en = on_account (gi_cancel_order gi) a en"
| "engine_step gi (AQuote t) en = snd (on_tick [] t en)"
| "engine_step gi (ADropped gw channel reason do_halt) en = on_gateway_disconnected gw channel reason do_halt en"

definition engine_run :: "'g gateway \<Rightarrow> engine_action list \<Rightarrow> 'g engine \<Rightarrow> 'g engine" where
  "engine_run gi acts en = fold (engine_step gi) acts en"

fun may_resume :: "engine_action \<Rightarrow> bool" where
  "may_resume AResume = True"
| "may_resume (AReconcile _ auto_resume) = auto_resume"
| "may_resume _ = False"

text \<open>Besides \<open>action_safe\<close>: the clock and the session state.\<close>

definition run_safe :: "('g engine \<Rightarrow> bool) \<Rightarrow> bool" where
  "run_safe P \<longleftrightarrow> action_safe P \<and> (\<forall>now wall en. P en \<longrightarrow> P (en\<lparr>en_now := now, en_wall := wall\<rparr>)) \<and>
     (\<forall>st en. P en \<longrightarrow> P (en\<lparr>en_session := st\<rparr>))"

context gateway_contract begin

lemma engine_step_keeps:
  assumes "run_safe P" "P en" "may_resume a \<Longrightarrow> P (engine_step gi a en)"
  shows "P (engine_step gi a en)"
proof -
  from assms(1) have act: "action_safe P" by (simp add: run_safe_def)
  note safe = action_safe_rules(3) [OF act] and stable = action_safe_rules(4) [OF act]
  show ?thesis
  proof (cases a)
    case (AReconcile s auto_resume)
    then show ?thesis using assms(2,3) keepsD [OF reconcile_keeps [OF safe, of False s]]
      by (cases auto_resume) (simp_all add: auto_resume_step_def)
  next
    case (AQuote t)
    from stable have "keeps P (on_tick [] t)" by (simp add: callback_stable_def)
    with AQuote assms(2) show ?thesis by (simp add: keepsD)
  next
    case ATickSession
    with assms show ?thesis by (simp add: run_safe_def tick_session_def split: prod.splits)
  next
    case (ATime now wall)
    with assms show ?thesis by (simp add: run_safe_def)
  qed (use assms(2,3) in \<open>simp_all add: stable_rules [OF stable] cancel_keeps [OF stable]
      keepsD [OF submit_keeps [OF action_safe_rules(1) [OF act]]] keepsD [OF cancel_by_id_keeps [OF safe]]
      keepsD [OF cancel_request_keeps [OF safe]] engine_halt_keeps [OF safe]
      keepsD [OF engine_connect_keeps [OF safe]] engine_close_keeps [OF safe]
      keepsD [OF subscribe_market_data_keeps [OF action_safe_rules(2) [OF act]]]\<close>)
qed

lemma engine_run_keeps:
  assumes "run_safe P" "P en" "\<And>a en. a \<in> set acts \<Longrightarrow> may_resume a \<Longrightarrow> P en \<Longrightarrow> P (engine_step gi a en)"
  shows "P (engine_run gi acts en)"
proof -
  have "P (fold (engine_step gi) acts en)"
    using assms(2,3)
  proof (induction acts arbitrary: en)
    case (Cons a acts)
    have "P (engine_step gi a en)" by (rule engine_step_keeps [OF assms(1) Cons.prems(1)]) (simp add: Cons.prems)
    then show ?case by (simp add: Cons.IH Cons.prems(2))
  qed simp
  then show ?thesis by (simp add: engine_run_def)
qed

end

subsection \<open>The invariant of the engine\<close>

text \<open>
  The OMS is well formed, and every subscribed symbol belongs to exactly one of the two classes.
\<close>

definition engine_wf :: "'g engine \<Rightarrow> bool" where
  "engine_wf en \<longleftrightarrow> oms_inv (en_oms en) \<and>
     en_subscribed_symbols en = en_strategy_symbols en \<union> en_observer_symbols en \<and>
     en_strategy_symbols en \<inter> en_observer_symbols en = {}"

definition terminal_order :: "order \<Rightarrow> 'g engine \<Rightarrow> bool" where
  "terminal_order ord en \<longleftrightarrow> is_terminal (od_status ord) \<and> oms_get_order (en_oms en) (od_id ord) = Some ord"

definition engine_halted :: "'g engine \<Rightarrow> bool" where
  "engine_halted en \<longleftrightarrow> rm_halted (en_runmode en)"

definition loss_latched :: "'g engine \<Rightarrow> bool" where
  "loss_latched en \<longleftrightarrow> (case en_risk en of Some g \<Rightarrow> rg_loss_halt_rule g \<noteq> [] | None \<Rightarrow> False)"

definition ledger_extends :: "ledger \<Rightarrow> 'g engine \<Rightarrow> bool" where
  "ledger_extends ld en \<longleftrightarrow> (\<forall>d. prefix (ledger_lines ld d) (ledger_lines (en_ledger en) d))"

lemma engine_risk_check_state:
  "snd (engine_risk_check req en) = en\<lparr>en_risk := en_risk (snd (engine_risk_check req en))\<rparr>"
  by (simp add: engine_risk_check_def Let_def case_prod_beta split: option.split)

lemma engine_risk_check_frames [simp]:
  "en_oms (snd (engine_risk_check req en)) = en_oms en"
  "en_runmode (snd (engine_risk_check req en)) = en_runmode en"
  "en_ledger (snd (engine_risk_check req en)) = en_ledger en"
  "en_gw (snd (engine_risk_check req en)) = en_gw en"
  "en_subscribed_symbols (snd (engine_risk_check req en)) = en_subscribed_symbols en"
  "en_strategy_symbols (snd (engine_risk_check req en)) = en_strategy_symbols en"
  "en_observer_symbols (snd (engine_risk_check req en)) = en_observer_symbols en"
  by (subst engine_risk_check_state, simp)+

lemma subscription_frames [simp]:
  "en_oms (classify k key en) = en_oms en" "en_oms (add_subscription k key en) = en_oms en"
  "en_runmode (classify k key en) = en_runmode en" "en_runmode (add_subscription k key en) = en_runmode en"
  "en_risk (classify k key en) = en_risk en" "en_risk (add_subscription k key en) = en_risk en"
  "en_ledger (classify k key en) = en_ledger en" "en_ledger (add_subscription k key en) = en_ledger en"
  by (simp_all add: classify_def add_subscription_def Let_def)

lemma set_halted_frames [simp]:
  "en_oms (set_halted r en) = en_oms en" "en_runmode (set_halted r en) = runmode_halt r (en_runmode en)"
  "en_risk (set_halted r en) = en_risk en" "en_ledger (set_halted r en) = en_ledger en"
  "en_gw (set_halted r en) = en_gw en"
  "en_subscribed_symbols (set_halted r en) = en_subscribed_symbols en"
  "en_strategy_symbols (set_halted r en) = en_strategy_symbols en"
  "en_observer_symbols (set_halted r en) = en_observer_symbols en"
  by (simp_all add: set_halted_def)

lemmas safe_defs = run_safe_def action_safe_def submit_safe_def subscription_safe_def callback_safe_def

lemma engine_wf_safe: "run_safe engine_wf"
  by (auto simp: safe_defs engine_wf_def oms_step_inv classify_def add_subscription_def Let_def)

lemma terminal_order_safe: "run_safe (terminal_order ord)"
  by (simp add: safe_defs terminal_order_def oms_get_order_def oms_orders_terminal)

lemma engine_halted_safe: "run_safe engine_halted"
  by (simp add: safe_defs engine_halted_def)

lemma loss_latched_check:
  "rg_loss_halt_rule g \<noteq> [] \<Longrightarrow> snd (check_equity oms g) = g \<and> \<not> rv_ok (fst (check_equity oms g))"
  by (simp add: check_equity_latched)

lemma loss_latched_risk_check:
  "loss_latched en \<Longrightarrow> snd (engine_risk_check req en) = en \<and> \<not> rv_ok (fst (engine_risk_check req en))"
  by (auto simp: loss_latched_def engine_risk_check_def risk_check_def check_equity_latched Let_def
      split: option.splits)

lemma loss_latched_safe: "run_safe loss_latched"
  by (auto simp: safe_defs loss_latched_risk_check)
    (auto simp: loss_latched_def loss_latched_check split: option.splits)

lemma ledger_extends_audit: "ledger_extends ld en \<Longrightarrow> ledger_extends ld (audit k p i r s en)"
  by (auto simp: ledger_extends_def audit_def publish_at_def Let_def ledger_lines_append_event)

lemma ledger_extends_safe: "run_safe (ledger_extends ld)"
  by (auto simp: safe_defs ledger_extends_audit) (auto simp: ledger_extends_def)

text \<open>What the resuming actions do beside the safe steps.\<close>

lemma risk_verdict_now_state:
  "snd (risk_verdict_now en) = en\<lparr>en_risk := en_risk (snd (risk_verdict_now en))\<rparr>"
  by (simp add: risk_verdict_now_def Let_def case_prod_beta split: option.split)

definition free_control :: "('g engine \<Rightarrow> bool) \<Rightarrow> bool" where
  "free_control P \<longleftrightarrow> (\<forall>rm rg en. P en \<longrightarrow> P (en\<lparr>en_runmode := rm, en_risk := rg\<rparr>))"

lemma free_control_rules:
  assumes "free_control P" "P en"
  shows "P (en\<lparr>en_runmode := rm\<rparr>)" "P (en\<lparr>en_risk := rg\<rparr>)" "P (snd (risk_verdict_now en))"
proof -
  have *: "P (en\<lparr>en_runmode := x, en_risk := y\<rparr>)" for x y
    using assms by (simp add: free_control_def)
  show "P (en\<lparr>en_runmode := rm\<rparr>)" using * [where x = rm and y = "en_risk en"] by simp
  have risk: "P (en\<lparr>en_risk := y\<rparr>)" for y using * [where x = "en_runmode en"] by simp
  then show "P (en\<lparr>en_risk := rg\<rparr>)" .
  show "P (snd (risk_verdict_now en))" by (subst risk_verdict_now_state) (rule risk)
qed

lemma resume_free:
  assumes "free_control P" "callback_safe P" "P en"
  shows "P (snd (engine_resume en))" "P (auto_resume_step auto_resume en)"
  using free_control_rules(1,3) [OF assms(1)] free_control_rules(2) [OF assms(1,3)]
    callback_safe_rules(2) [OF assms(2)] assms(3)
  by (simp_all add: engine_resume_def auto_resume_step_def set_halted_def Let_def case_prod_beta)

lemma free_instances: "free_control engine_wf" "free_control (terminal_order ord)" "free_control (ledger_extends ld)"
  by (simp_all add: free_control_def engine_wf_def terminal_order_def ledger_extends_def)

lemma auto_resume_latched: "loss_latched en \<Longrightarrow> loss_latched (auto_resume_step auto_resume en)"
  by (auto simp: loss_latched_def auto_resume_step_def risk_verdict_now_def check_equity_latched Let_def
      split: option.splits)

lemma set_connection_frames [simp]:
  "en_runmode (snd (set_connection st en)) = en_runmode en"
  "en_oms (snd (set_connection st en)) = en_oms en"
  "en_risk (snd (set_connection st en)) = en_risk en"
  by (simp_all add: set_connection_def split: prod.split)

lemma handle_disconnect_halts: "rm_halted (en_runmode (handle_disconnect reason en))"
  by (simp add: handle_disconnect_def Let_def)

context gateway_contract begin

lemma run_free:
  assumes "run_safe P" "free_control P" "P en"
  shows "P (engine_run gi acts en)"
proof (rule engine_run_keeps [OF assms(1,3)])
  fix a and en :: "'g engine"
  assume "may_resume a" and p: "P en"
  from assms(1) have safe: "callback_safe P" by (simp add: run_safe_def action_safe_def submit_safe_def)
  from \<open>may_resume a\<close> show "P (engine_step gi a en)"
    by (cases a) (simp_all add: resume_free [OF assms(2) safe] p
        keepsD [OF reconcile_keeps [OF safe]])
qed

lemma run_wf: "engine_wf en \<Longrightarrow> engine_wf (engine_run gi acts en)"
  by (rule run_free [OF engine_wf_safe free_instances(1)])

lemma run_terminal: "terminal_order ord en \<Longrightarrow> terminal_order ord (engine_run gi acts en)"
  by (rule run_free [OF terminal_order_safe free_instances(2)])

lemma run_ledger: "ledger_extends ld en \<Longrightarrow> ledger_extends ld (engine_run gi acts en)"
  by (rule run_free [OF ledger_extends_safe free_instances(3)])

lemma run_halted:
  "engine_halted en \<Longrightarrow> \<forall>a \<in> set acts. \<not> may_resume a \<Longrightarrow> engine_halted (engine_run gi acts en)"
  by (rule engine_run_keeps [OF engine_halted_safe]) auto

lemma run_latched:
  assumes "loss_latched en" "AResume \<notin> set acts"
  shows "loss_latched (engine_run gi acts en)"
proof (rule engine_run_keeps [OF loss_latched_safe assms(1)])
  fix a and en :: "'g engine"
  assume "a \<in> set acts" "may_resume a" and p: "loss_latched en"
  have safe: "callback_safe loss_latched"
    using loss_latched_safe unfolding run_safe_def action_safe_def submit_safe_def by blast
  from \<open>a \<in> set acts\<close> assms(2) have "a \<noteq> AResume" by auto
  with \<open>may_resume a\<close> show "loss_latched (engine_step gi a en)"
    by (cases a) (simp_all add: keepsD [OF reconcile_keeps [OF safe]] auto_resume_latched p)
qed

end

subsection \<open>Submissions\<close>

text \<open>
  Not routed means that the broker's \<open>send_order\<close> plays no part: the outcome is the same
  whatever that operation is.
\<close>

definition with_send :: "'g gateway \<Rightarrow> (order_request \<Rightarrow> ('g engine, string) op) \<Rightarrow> 'g gateway" where
  "with_send gi f = gi\<lparr>gi_send_order := f\<rparr>"

lemma submit_not_routed:
  assumes "is_dry_run (en_runmode en) \<or> \<not> can_submit_orders (en_runmode en) \<or>
    \<not> rv_ok (fst (engine_risk_check req en))"
  shows "fst (submit gi req origin en) = Inr None"
    "submit (with_send gi f) req origin en = submit gi req origin en"
  using assms by (auto simp: submit_def with_send_def Let_def case_prod_beta)

lemma submit_blocked_frame:
  assumes "is_dry_run (en_runmode en) \<or> \<not> can_submit_orders (en_runmode en)"
  shows "en_oms (snd (submit gi req origin en)) = en_oms en"
    "en_risk (snd (submit gi req origin en)) = en_risk en"
    "en_gw (snd (submit gi req origin en)) = en_gw en"
  using assms by (auto simp: submit_def Let_def)

lemma submit_routed:
  assumes "fst (submit gi req origin en) = Inr (Some i)"
  shows "can_submit_orders (en_runmode en)" "rv_ok (fst (engine_risk_check req en))"
    "submit gi req origin en = route gi req origin (snd (engine_risk_check req en))"
proof -
  show c: "can_submit_orders (en_runmode en)" and v: "rv_ok (fst (engine_risk_check req en))"
    using submit_not_routed(1) [of en req gi origin] assms by auto
  from c have "\<not> is_dry_run (en_runmode en)"
    by (auto simp: can_submit_orders_def is_dry_run_def allows_order_routing_def)
  with c v show "submit gi req origin en = route gi req origin (snd (engine_risk_check req en))"
    by (simp add: submit_def Let_def case_prod_beta)
qed

text \<open>What a routed order with a gate has passed.\<close>

lemma submit_routed_verdict:
  assumes "fst (submit gi req origin en) = Inr (Some i)" "en_risk en = Some g"
  obtains g1 where "check_equity (en_oms en) g = (passed, g1)"
    "rv_ok (order_verdict req (en_oms en) (Some \<lparr>sv_state = en_session en, sv_now = en_now en\<rparr>)
       (Some (rm_mode (en_runmode en))) (Naive (en_wall en)) g1)"
proof -
  obtain v g2 where rc: "risk_check req (en_oms en) (Some \<lparr>sv_state = en_session en, sv_now = en_now en\<rparr>)
      (Some (rm_mode (en_runmode en))) (Naive (en_wall en)) g = (v, g2)" by fastforce
  then have "rv_ok v"
    using submit_routed(2) [OF assms(1)] assms(2) by (simp add: engine_risk_check_def Let_def)
  from risk_check_accepted [OF rc this] that show ?thesis by blast
qed

lemma submit_accepts:
  assumes "can_submit_orders (en_runmode en)" "rv_ok (fst (engine_risk_check req en))"
  shows "submit gi req origin en = route gi req origin (snd (engine_risk_check req en))"
proof -
  from assms(1) have "\<not> is_dry_run (en_runmode en)"
    by (auto simp: can_submit_orders_def is_dry_run_def allows_order_routing_def)
  with assms show ?thesis by (simp add: submit_def Let_def case_prod_beta)
qed

text \<open>The counters of the gate after an accepted submission, whatever the gateway reports.\<close>

definition risk_counters :: "'g engine \<Rightarrow> (int \<times> num \<times> string set) option" where
  "risk_counters en = map_option (\<lambda>g. (rg_orders_today g, rg_value_today g, rg_seen_refs g)) (en_risk en)"

lemma risk_counters_safe: "callback_safe (\<lambda>en. risk_counters en = c)"
proof -
  have "rg_orders_today (snd (check_equity oms g)) = rg_orders_today g"
    "rg_value_today (snd (check_equity oms g)) = rg_value_today g"
    "rg_seen_refs (snd (check_equity oms g)) = rg_seen_refs g" for oms g
    using check_equity_frame [of oms g "fst (check_equity oms g)" "snd (check_equity oms g)"] by simp_all
  then show ?thesis by (auto simp: callback_safe_def risk_counters_def)
qed

context gateway_contract begin

lemma submit_counts:
  assumes "fst (submit gi req origin en) = Inr (Some i)" "en_risk en = Some g"
  shows "risk_counters (snd (submit gi req origin en)) =
    Some (rg_orders_today g + 1, rg_value_today g + req_notional (en_oms en) req,
          rg_seen_refs g \<union> (if rq_reference req \<noteq> [] then {rq_reference req} else {}))"
proof -
  let ?en1 = "snd (engine_risk_check req en)"
  obtain v g1 where rc: "risk_check req (en_oms en) (Some \<lparr>sv_state = en_session en, sv_now = en_now en\<rparr>)
      (Some (rm_mode (en_runmode en))) (Naive (en_wall en)) g = (v, g1)" by fastforce
  then have "rv_ok v" "en_risk ?en1 = Some g1"
    using submit_routed(2) [OF assms(1)] assms(2) by (simp_all add: engine_risk_check_def Let_def)
  note step = gate_step_accepted(1-3) [OF rc \<open>rv_ok v\<close>]
  have "keeps (\<lambda>e. risk_counters e = c) (route gi req origin)" for c
    unfolding route_def
    by (intro keeps_bind keeps_then keeps_return keeps_modify send_keeps callback_safe_stable risk_counters_safe)
      (simp add: risk_counters_def)
  from keepsD [OF this] have "risk_counters (snd (route gi req origin ?en1)) = risk_counters ?en1" by blast
  with step \<open>en_risk ?en1 = Some g1\<close> show ?thesis
    by (simp add: submit_routed(3) [OF assms(1)] risk_counters_def)
qed

end

end
