(* ===== verification/Brokers.thy ===== *)
theory Brokers
  imports Engine_Safety
begin

section \<open>The paper and simulated brokers\<close>

text \<open>
  \<open>systems/live/brokers/paper.py\<close> and \<open>brokers/sim.py\<close>: the in-process brokers, with their own
  cash, holdings and orders, calling the engine back as a real gateway would.  \<open>uuid\<close> is the
  stream of hexadecimal identifiers that \<open>uuid4\<close> draws; the fill policy is a parameter, which
  the two brokers instantiate.
\<close>

subsection \<open>State\<close>

record holding =
  hl_code :: string
  hl_exchange :: exchange
  hl_volume :: num
  hl_yd_volume :: num
  hl_price :: num

record fill_decision =
  fd_fill_volume :: num
  fd_fill_price :: num
  fd_reject :: bool
  fd_reason :: string

record paper =
  pb_name :: string
  pb_account_id :: string
  pb_cash :: num
  pb_open_cost :: num
  pb_close_cost :: num
  pb_min_cost :: num
  pb_prices :: "(string \<times> num) list"
  pb_holdings :: "(string \<times> holding) list"
  pb_working :: "(string \<times> order) list"
  pb_orders :: "(string \<times> order) list"
  pb_trades :: "(string \<times> trade) list"
  pb_seq :: nat
  pb_draws :: nat

definition paper_init :: "string \<Rightarrow> num \<Rightarrow> (string \<times> num) list \<Rightarrow> num \<Rightarrow> num \<Rightarrow> num \<Rightarrow> string \<Rightarrow> paper" where
  "paper_init name cash prices open_cost close_cost min_cost account_id =
     \<lparr>pb_name = name, pb_account_id = account_id, pb_cash = cash, pb_open_cost = open_cost,
      pb_close_cost = close_cost, pb_min_cost = min_cost, pb_prices = prices, pb_holdings = [],
      pb_working = [], pb_orders = [], pb_trades = [], pb_seq = 0, pb_draws = 0\<rparr>"

type_synonym uuid_stream = "nat \<Rightarrow> string"
type_synonym fill_policy = "paper \<Rightarrow> order_request \<Rightarrow> fill_decision"

definition new_holding :: "string \<Rightarrow> exchange \<Rightarrow> holding" where
  "new_holding code ex = \<lparr>hl_code = code, hl_exchange = ex, hl_volume = 0, hl_yd_volume = 0, hl_price = 0\<rparr>"

definition set_prices :: "(string \<times> num) list \<Rightarrow> paper \<Rightarrow> paper" where
  "set_prices prices pb = pb\<lparr>pb_prices := fold (\<lambda>(code, px). dict_set (raw_key code) px) prices (pb_prices pb)\<rparr>"

definition paper_seed_position :: "string \<Rightarrow> num \<Rightarrow> num \<Rightarrow> bool \<Rightarrow> paper \<Rightarrow> paper" where
  "paper_seed_position code volume price sellable pb =
     (let (c, ex) = normalize_symbol code
      in pb\<lparr>pb_holdings := dict_set (symbol_key c ex)
           \<lparr>hl_code = c, hl_exchange = ex, hl_volume = volume,
            hl_yd_volume = (if sellable then volume else 0), hl_price = price\<rparr> (pb_holdings pb)\<rparr>)"

subsection \<open>Fill policies\<close>

definition fill_price :: "paper \<Rightarrow> order_request \<Rightarrow> num" where
  "fill_price pb req = (if rq_type req = LIMIT \<and> rq_price req > 0 then rq_price req
     else case map_of (pb_prices pb) (rq_key req) of Some px \<Rightarrow> px | None \<Rightarrow> rq_price req)"

definition paper_decide :: fill_policy where
  "paper_decide pb req =
     \<lparr>fd_fill_volume = rq_volume req, fd_fill_price = fill_price pb req, fd_reject = False, fd_reason = []\<rparr>"

text \<open>Python's \<open>int\<close> of a float truncates towards zero.\<close>

definition py_int :: "num \<Rightarrow> int" where
  "py_int x = (if x < 0 then - \<lfloor>- x\<rfloor> else \<lfloor>x\<rfloor>)"

text \<open>The simulated broker clamps its ratio when it is made.\<close>

definition sim_decide :: "string set \<Rightarrow> num \<Rightarrow> fill_policy" where
  "sim_decide reject_codes ratio pb req =
     (let partial_ratio = max 0 (min 1 ratio) in
      if rq_code req \<in> reject_codes
      then \<lparr>fd_fill_volume = 0, fd_fill_price = 0, fd_reject = True,
            fd_reason = ''code '' @ rq_code req @ '' rejected by sim''\<rparr>
      else if partial_ratio \<ge> 1
      then \<lparr>fd_fill_volume = rq_volume req, fd_fill_price = fill_price pb req, fd_reject = False, fd_reason = []\<rparr>
      else \<lparr>fd_fill_volume = of_int (py_int (rq_volume req * partial_ratio)),
            fd_fill_price = fill_price pb req, fd_reject = False, fd_reason = []\<rparr>)"

subsection \<open>Internals\<close>

definition update_gw :: "('g \<Rightarrow> 'g) \<Rightarrow> 'g engine \<Rightarrow> 'g engine" where
  "update_gw f en = en\<lparr>en_gw := f (en_gw en)\<rparr>"

definition paper_record :: "order \<Rightarrow> paper \<Rightarrow> paper" where
  "paper_record ord pb = pb\<lparr>pb_orders := dict_set (od_id ord) ord (pb_orders pb)\<rparr>"

text \<open>\<open>_advance\<close>: the broker's order is changed, recorded and reported.\<close>

definition paper_advance :: "order \<Rightarrow> order_status \<Rightarrow> string \<Rightarrow> paper engine \<Rightarrow> order \<times> paper engine" where
  "paper_advance ord status message en =
     (let ord1 = ord\<lparr>od_status := status\<rparr>;
          ord2 = (if message \<noteq> [] then ord1\<lparr>od_message := message\<rparr> else ord1)
      in (ord2, on_order ord2 (update_gw (paper_record ord2) en)))"

definition fill_fee :: "paper \<Rightarrow> direction \<Rightarrow> num \<Rightarrow> num" where
  "fill_fee pb dir gross = max (gross * (if dir = LONG then pb_open_cost pb else pb_close_cost pb)) (pb_min_cost pb)"

definition filled_holding :: "direction \<Rightarrow> num \<Rightarrow> num \<Rightarrow> holding \<Rightarrow> holding" where
  "filled_holding dir vol px h =
     (if dir = LONG then
        let new_vol = hl_volume h + vol;
            h1 = (if new_vol > 0 then h\<lparr>hl_price := (hl_price h * hl_volume h + vol * px) / new_vol\<rparr> else h)
        in h1\<lparr>hl_volume := new_vol\<rparr>
      else h\<lparr>hl_volume := max (hl_volume h - vol) 0, hl_yd_volume := max (hl_yd_volume h - vol) 0\<rparr>)"

definition holding_or_new :: "order_request \<Rightarrow> paper \<Rightarrow> holding" where
  "holding_or_new req pb = (case map_of (pb_holdings pb) (rq_key req) of
     Some h \<Rightarrow> h | None \<Rightarrow> new_holding (rq_code req) (rq_exchange req))"

definition apply_fill :: "uuid_stream \<Rightarrow> order_request \<Rightarrow> string \<Rightarrow> fill_decision \<Rightarrow> paper \<Rightarrow> trade \<times> paper" where
  "apply_fill uuid req order_id d pb =
     (let vol = fd_fill_volume d; px = fd_fill_price d; gross = vol * px;
          fee = fill_fee pb (rq_direction req) gross;
          cash = (if rq_direction req = LONG then pb_cash pb - (gross + fee) else pb_cash pb + (gross - fee))
      in (\<lparr>td_id = uuid (pb_draws pb), td_order_id = order_id, td_code = rq_code req,
           td_exchange = rq_exchange req, td_direction = rq_direction req, td_volume = vol,
           td_price = px, td_offset = ONone, td_gateway = pb_name pb\<rparr>,
          pb\<lparr>pb_cash := cash,
             pb_holdings := dict_set (rq_key req)
               (filled_holding (rq_direction req) vol px (holding_or_new req pb)) (pb_holdings pb),
             pb_draws := pb_draws pb + 1\<rparr>))"

definition paper_equity :: "paper \<Rightarrow> num" where
  "paper_equity pb = pb_cash pb + sum_list (map (\<lambda>(k, h). hl_volume h *
     (case map_of (pb_prices pb) k of Some px \<Rightarrow> px | None \<Rightarrow> hl_price h)) (pb_holdings pb))"

definition paper_account :: "paper \<Rightarrow> account" where
  "paper_account pb = \<lparr>ac_id = pb_account_id pb, ac_balance = paper_equity pb, ac_frozen = 0,
     ac_available = pb_cash pb, ac_gateway = pb_name pb\<rparr>"

definition holding_position :: "paper \<Rightarrow> holding \<Rightarrow> position" where
  "holding_position pb h = (new_position (hl_code h) (hl_exchange h))\<lparr>ps_volume := hl_volume h,
     ps_yd_volume := hl_yd_volume h, ps_price := hl_price h, ps_gateway := pb_name pb\<rparr>"

definition emit_log :: "string \<Rightarrow> string \<Rightarrow> paper engine \<Rightarrow> paper engine" where
  "emit_log msg level en = on_log \<lparr>lg_msg = msg, lg_level = level, lg_gateway = pb_name (en_gw en)\<rparr> en"

definition paper_cancel_order :: "cancel_request \<Rightarrow> (paper engine, unit) op" where
  "paper_cancel_order req en =
     (case map_of (pb_working (en_gw en)) (cr_order_id req) of
        None \<Rightarrow> (Inr (), emit_log (''cancel ignored: '' @ cr_order_id req @ '' not working'') ''warning'' en)
      | Some ord \<Rightarrow>
          if \<not> od_is_active ord
          then (Inr (), emit_log (''cancel ignored: '' @ cr_order_id req @ '' not working'') ''warning'' en)
          else let (_, en1) = paper_advance ord CANCELLED ''cancelled by user'' en
               in (Inr (), update_gw (\<lambda>pb. pb\<lparr>pb_working := dict_del (cr_order_id req) (pb_working pb)\<rparr>) en1))"

definition emit_account_snapshot :: "paper engine \<Rightarrow> paper engine" where
  "emit_account_snapshot en = on_account paper_cancel_order (paper_account (en_gw en)) en"

definition emit_position_of :: "holding \<Rightarrow> paper engine \<Rightarrow> paper engine" where
  "emit_position_of h en = on_position (holding_position (en_gw en) h) en"

definition emit_position_snapshot :: "string \<Rightarrow> paper engine \<Rightarrow> paper engine" where
  "emit_position_snapshot key en = (case map_of (pb_holdings (en_gw en)) key of
     Some h \<Rightarrow> emit_position_of h en | None \<Rightarrow> en)"

subsection \<open>The gateway operations\<close>

definition paper_order_id :: "uuid_stream \<Rightarrow> paper \<Rightarrow> string" where
  "paper_order_id uuid pb =
     pb_name pb @ ''-'' @ nat_digits (pb_seq pb) @ ''-'' @ take 6 (uuid (pb_draws pb))"

text \<open>The first part of \<open>send_order\<close>: the new order is recorded and reported.\<close>

definition paper_open :: "uuid_stream \<Rightarrow> order_request \<Rightarrow> paper engine \<Rightarrow> order \<times> paper engine" where
  "paper_open uuid req en =
     (let pb = (en_gw en)\<lparr>pb_seq := pb_seq (en_gw en) + 1\<rparr>;
          ord = create_order req (paper_order_id uuid pb) (pb_name pb) SUBMITTING (en_wall en);
          pb1 = paper_record ord (pb\<lparr>pb_draws := pb_draws pb + 1\<rparr>)
      in (ord, on_order ord (en\<lparr>en_gw := pb1\<rparr>)))"

text \<open>The fill of an accepted order: trade, order, then the authoritative snapshots.\<close>

definition paper_fill ::
  "uuid_stream \<Rightarrow> order_request \<Rightarrow> fill_decision \<Rightarrow> order \<Rightarrow> paper engine \<Rightarrow> order \<times> paper engine" where
  "paper_fill uuid req d ord en =
     (let (t, pb) = apply_fill uuid req (od_id ord) d (en_gw en);
          en1 = on_trade t (en\<lparr>en_gw := pb\<lparr>pb_trades := dict_set (td_id t) t (pb_trades pb)\<rparr>\<rparr>);
          ord1 = ord\<lparr>od_traded := min (od_traded ord + fd_fill_volume d) (od_volume ord)\<rparr>;
          status = (if od_traded ord1 \<ge> od_volume ord1 - 1/1000000000 then ALLTRADED else PARTTRADED);
          (ord2, en2) = paper_advance ord1 status [] en1
      in (ord2, emit_position_snapshot (symbol_key (rq_code req) (rq_exchange req))
                  (emit_account_snapshot en2)))"

definition paper_rest :: "order \<Rightarrow> paper \<Rightarrow> paper" where
  "paper_rest ord pb = pb\<lparr>pb_working := (if od_is_active ord then dict_set (od_id ord) ord (pb_working pb)
     else dict_del (od_id ord) (pb_working pb))\<rparr>"

definition paper_send_order :: "uuid_stream \<Rightarrow> fill_policy \<Rightarrow> order_request \<Rightarrow> (paper engine, string) op" where
  "paper_send_order uuid decide req en =
     (let (ord, en1) = paper_open uuid req en; d = decide (en_gw en1) req
      in if fd_reject d
         then (Inr (od_id ord), snd (paper_advance ord REJECTED (fd_reason d) en1))
         else
           let (ord1, en2) = paper_advance ord NOTTRADED [] en1;
               (ord2, en3) = (if fd_fill_volume d > 0 then paper_fill uuid req d ord1 en2 else (ord1, en2))
           in (Inr (od_id ord), update_gw (paper_rest ord2) en3))"

definition paper_query_account :: "(paper engine, unit) op" where
  "paper_query_account = op_modify emit_account_snapshot"

definition paper_query_position :: "(paper engine, unit) op" where
  "paper_query_position en =
     (Inr (), fold (\<lambda>h en. if hl_volume h > 0 then emit_position_of h en else en)
        (dict_vals (pb_holdings (en_gw en))) en)"

definition paper_query_orders :: "(paper engine, bool) op" where
  "paper_query_orders en = (Inr True, fold on_order (dict_vals (pb_orders (en_gw en))) en)"

definition paper_query_trades :: "(paper engine, bool) op" where
  "paper_query_trades en = (Inr True, fold on_trade (dict_vals (pb_trades (en_gw en))) en)"

definition paper_connect :: "settings \<Rightarrow> (paper engine, unit) op" where
  "paper_connect setting =
     op_then (op_modify (\<lambda>en. emit_log ''paper broker connected'' ''info''
       (case map_of setting ''cash'' of
          Some (JNum c) \<Rightarrow> update_gw (\<lambda>pb. pb\<lparr>pb_cash := c\<rparr>) en | _ \<Rightarrow> en)))
     (op_then paper_query_account paper_query_position)"

definition paper_close :: "(paper engine, unit) op" where
  "paper_close = op_modify (emit_log ''paper broker closed'' ''info'')"

definition paper_roll_new_day :: "paper \<Rightarrow> paper" where
  "paper_roll_new_day pb = pb\<lparr>pb_holdings := map (\<lambda>(k, h). (k, h\<lparr>hl_yd_volume := hl_volume h\<rparr>)) (pb_holdings pb),
     pb_working := []\<rparr>"

text \<open>One broker object plays both roles, declares no role set, and leaves \<open>subscribe\<close> a no-op.\<close>

definition paper_gateway :: "uuid_stream \<Rightarrow> fill_policy \<Rightarrow> paper gateway" where
  "paper_gateway uuid decide = \<lparr>gi_shared = True, gi_both_roles = False,
     gi_connect = paper_connect, gi_quote_connect = paper_connect,
     gi_close = paper_close, gi_quote_close = paper_close,
     gi_send_order = paper_send_order uuid decide, gi_cancel_order = paper_cancel_order,
     gi_query_account = paper_query_account, gi_query_position = paper_query_position,
     gi_subscribe = (\<lambda>_. op_return ())\<rparr>"

subsection \<open>The brokers obey the gateway contract\<close>

lemma update_gw_stable: "callback_stable P \<Longrightarrow> P en \<Longrightarrow> P (update_gw f en)"
  by (simp add: update_gw_def stable_rules(9) [of P])

lemma paper_advance_stable:
  assumes "callback_stable P" "P en"
  shows "P (snd (paper_advance ord status message en))"
  by (simp add: paper_advance_def Let_def stable_rules(1) [OF assms(1)] update_gw_stable [OF assms])

lemma emit_log_stable: "callback_stable P \<Longrightarrow> P en \<Longrightarrow> P (emit_log msg level en)"
  by (simp add: emit_log_def stable_rules(5) [of P])

lemma paper_cancel_stable: "callback_stable P \<Longrightarrow> keeps P (paper_cancel_order cr)"
proof (rule keepsI)
  fix en
  assume P: "callback_stable P" "P en"
  show "P (snd (paper_cancel_order cr en))"
    using paper_advance_stable [OF P] emit_log_stable [OF P] update_gw_stable [OF P(1)]
    by (simp add: paper_cancel_order_def case_prod_beta split: option.split)
qed

lemma emit_account_stable: "callback_stable P \<Longrightarrow> P en \<Longrightarrow> P (emit_account_snapshot en)"
  unfolding emit_account_snapshot_def by (rule stable_rules(8)) (simp_all add: paper_cancel_stable)

lemma emit_position_stable: "callback_stable P \<Longrightarrow> P en \<Longrightarrow> P (emit_position_of h en)"
  unfolding emit_position_of_def by (rule stable_rules(3))

lemma paper_open_stable: "callback_stable P \<Longrightarrow> P en \<Longrightarrow> P (snd (paper_open uuid req en))"
  by (simp add: paper_open_def Let_def stable_rules(1) [of P] stable_rules(9) [of P])

lemma paper_fill_stable:
  assumes "callback_stable P" "P en"
  shows "P (snd (paper_fill uuid req d ord en))"
proof -
  have "P (on_trade t (en\<lparr>en_gw := pb\<rparr>))" for t pb
    by (rule stable_rules(2) [OF assms(1)], rule stable_rules(9) [OF assms])
  then have "P (emit_account_snapshot (snd (paper_advance o2 st m (on_trade t (en\<lparr>en_gw := pb\<rparr>)))))" for o2 st m t pb
    by (intro emit_account_stable [OF assms(1)] paper_advance_stable [OF assms(1)])
  then show ?thesis
    by (simp add: paper_fill_def Let_def case_prod_beta emit_position_snapshot_def
        emit_position_stable [OF assms(1)] split: option.split)
qed

lemma paper_send_stable: "callback_stable P \<Longrightarrow> keeps P (paper_send_order uuid decide req)"
proof (rule keepsI)
  fix en
  assume P: "callback_stable P" "P en"
  note advance = paper_advance_stable [OF P(1)] and op = paper_open_stable [OF P]
    and fill = paper_fill_stable [OF P(1)] and upd = update_gw_stable [OF P(1)]
  show "P (snd (paper_send_order uuid decide req en))"
    by (simp add: paper_send_order_def Let_def case_prod_beta advance op fill upd)
qed

lemma paper_query_account_stable: "callback_stable P \<Longrightarrow> keeps P paper_query_account"
  unfolding paper_query_account_def by (rule keeps_modify) (rule emit_account_stable)

lemma paper_query_position_stable:
  assumes "callback_stable P"
  shows "keeps P paper_query_position"
proof (rule keepsI)
  fix en
  assume "P en"
  then have "P (fold (\<lambda>h en. if hl_volume h > 0 then emit_position_of h en else en) hs en)" for hs
    by (induction hs arbitrary: en) (simp_all add: emit_position_stable [OF assms])
  then show "P (snd (paper_query_position en))" by (simp add: paper_query_position_def)
qed

lemma paper_connect_stable:
  assumes "callback_stable P"
  shows "keeps P (paper_connect s)"
  unfolding paper_connect_def
  by (intro keeps_then keeps_modify paper_query_account_stable paper_query_position_stable assms)
    (simp add: emit_log_stable [OF assms] update_gw_stable [OF assms] split: option.split json.split)

lemma paper_close_stable: "callback_stable P \<Longrightarrow> keeps P paper_close"
  unfolding paper_close_def by (rule keeps_modify) (rule emit_log_stable)

interpretation paper: gateway_contract "paper_gateway uuid decide" for uuid decide
  by unfold_locales
    (simp_all add: paper_gateway_def paper_connect_stable paper_close_stable paper_send_stable
      paper_cancel_stable paper_query_account_stable paper_query_position_stable)

end
