(* ===== verification/Broker_Sync.thy ===== *)
theory Broker_Sync
  imports Brokers
begin

section \<open>The paper broker and the OMS agree\<close>

text \<open>
  At rest the OMS holds exactly the orders of the paper broker, and the broker works exactly the
  active ones.  While \<open>send_order\<close> runs, the order in flight is recorded but not yet working, and
  the callbacks it makes may re-enter the broker through the kill-switch.
\<close>

subsection \<open>The relation\<close>

definition own_id :: "paper \<Rightarrow> string \<Rightarrow> bool" where
  "own_id pb i \<longleftrightarrow> (\<exists>k h. k \<le> pb_seq pb \<and> i = pb_name pb @ ''-'' @ nat_digits k @ ''-'' @ h)"

definition works :: "order option \<Rightarrow> paper \<Rightarrow> bool" where
  "works inflight pb \<longleftrightarrow>
     (\<forall>i ord. inflight = None \<or> od_id (the inflight) \<noteq> i \<longrightarrow>
        (map_of (pb_working pb) i = Some ord \<longleftrightarrow> map_of (pb_orders pb) i = Some ord \<and> od_is_active ord)) \<and>
     (\<forall>ord. inflight = Some ord \<longrightarrow> map_of (pb_orders pb) (od_id ord) = Some ord \<and>
        map_of (pb_working pb) (od_id ord) = None)"

definition synced :: "order option \<Rightarrow> paper engine \<Rightarrow> bool" where
  "synced inflight en \<longleftrightarrow> oms_inv (en_oms en) \<and>
     map_of (om_orders (en_oms en)) = map_of (pb_orders (en_gw en)) \<and>
     works inflight (en_gw en) \<and> (\<forall>i ord. map_of (pb_orders (en_gw en)) i = Some ord \<longrightarrow> own_id (en_gw en) i)"

lemma synced_frame:
  assumes "synced inflight en" "oms_inv (en_oms en) \<Longrightarrow> oms_inv (en_oms en')" "om_orders (en_oms en') = om_orders (en_oms en)"
    "pb_orders (en_gw en') = pb_orders (en_gw en)" "pb_working (en_gw en') = pb_working (en_gw en)"
    "pb_seq (en_gw en') = pb_seq (en_gw en)" "pb_name (en_gw en') = pb_name (en_gw en)"
  shows "synced inflight en'"
  using assms by (simp add: synced_def works_def own_id_def)

lemma synced_inv: "synced inflight en \<Longrightarrow> oms_inv (en_oms en)"
  by (simp add: synced_def)

lemma synced_own: "synced x en \<Longrightarrow> map_of (pb_orders (en_gw en)) i = Some ord \<Longrightarrow> own_id (en_gw en) i"
  by (simp add: synced_def)

lemma own_id_cong: "pb_seq pb' = pb_seq pb \<Longrightarrow> pb_name pb' = pb_name pb \<Longrightarrow> own_id pb' = own_id pb"
  by (simp add: own_id_def fun_eq_iff)

lemma callback_frames [simp]:
  "en_gw (on_order ord en) = en_gw en" "en_oms (on_order ord en) = oms_on_order ord (en_oms en)"
  "en_gw (on_trade t en) = en_gw en" "en_oms (on_trade t en) = oms_on_trade t (en_oms en)"
  "en_gw (on_position p en) = en_gw en" "en_oms (on_position p en) = oms_on_position p (en_oms en)"
  "en_gw (on_log l en) = en_gw en" "en_oms (on_log l en) = oms_on_log l (en_oms en)"
  by (simp_all add: on_order_def on_trade_def on_position_def on_log_def)

lemma update_gw_frames [simp]: "en_gw (update_gw f en) = f (en_gw en)" "en_oms (update_gw f en) = en_oms en"
  by (simp_all add: update_gw_def)

lemma synced_audit: "synced x en \<Longrightarrow> synced x (audit k p i r s en)"
  by (erule synced_frame) simp_all

lemma synced_log: "synced x en \<Longrightarrow> synced x (emit_log m l en)"
  by (erule synced_frame) (simp_all add: emit_log_def inv_intros)

lemma synced_trade: "synced x en \<Longrightarrow> synced x (on_trade t en)"
  by (erule synced_frame) (simp_all add: inv_intros)

lemma synced_position: "synced x en \<Longrightarrow> synced x (emit_position_of h en)"
  by (erule synced_frame) (simp_all add: emit_position_of_def inv_intros)

subsection \<open>A report of a recorded order\<close>

lemma synced_advance:
  assumes s: "synced x en" and o1: "map_of (pb_orders (en_gw en)) (od_id ord) = Some prior"
    and tr: "can_transition (od_status prior) status"
    and adv: "paper_advance ord status message en = (ord', en')"
  shows "od_id ord' = od_id ord" "od_status ord' = status" "od_volume ord' = od_volume ord"
    "od_traded ord' = od_traded ord"
    "oms_inv (en_oms en')" "en_gw en' = paper_record ord' (en_gw en)"
    "map_of (om_orders (en_oms en')) = map_of (pb_orders (en_gw en'))"
proof -
  from adv show f: "od_id ord' = od_id ord" "od_status ord' = status" "od_volume ord' = od_volume ord"
    "od_traded ord' = od_traded ord"
    and gw: "en_gw en' = paper_record ord' (en_gw en)"
    by (auto simp: paper_advance_def Let_def)
  from adv have oms: "en_oms en' = oms_on_order ord' (en_oms en)"
    by (auto simp: paper_advance_def Let_def)
  with s show "oms_inv (en_oms en')" by (simp add: synced_inv inv_intros)
  show "map_of (om_orders (en_oms en')) = map_of (pb_orders (en_gw en'))"
    using s o1 tr f by (simp add: oms gw oms_on_order_orders synced_def paper_record_def AList.update_conv')
qed

lemma paper_record_fields [simp]:
  "pb_working (paper_record ord pb) = pb_working pb" "pb_seq (paper_record ord pb) = pb_seq pb"
  "pb_name (paper_record ord pb) = pb_name pb" "pb_draws (paper_record ord pb) = pb_draws pb"
  "pb_holdings (paper_record ord pb) = pb_holdings pb" "pb_cash (paper_record ord pb) = pb_cash pb"
  "map_of (pb_orders (paper_record ord pb)) = (map_of (pb_orders pb))(od_id ord \<mapsto> ord)"
  by (simp_all add: paper_record_def AList.update_conv')

lemma synced_advance_inflight:
  assumes "synced (Some ord0) en" "can_transition (od_status ord0) status" "od_id ord = od_id ord0"
    "paper_advance ord status message en = (ord', en')"
  shows "synced (Some ord') en'"
proof -
  from assms(1,3) have o1: "map_of (pb_orders (en_gw en)) (od_id ord) = Some ord0"
    by (simp add: synced_def works_def)
  note adv = synced_advance [OF assms(1) o1 assms(2,4)]
  have "own_id (en_gw en') = own_id (en_gw en)" by (rule own_id_cong) (simp_all add: adv)
  with assms(1,3) adv synced_own [OF assms(1) o1] show ?thesis
    by (auto simp: synced_def works_def)
qed

subsection \<open>Cancelling and the kill-switch\<close>

lemma cancel_allowed: "is_active st \<Longrightarrow> can_transition st CANCELLED"
  by (cases st) (simp_all add: can_transition_def)

lemma synced_cancel:
  assumes s: "synced x en"
  shows "synced x (snd (paper_cancel_order cr en))"
proof (cases "map_of (pb_working (en_gw en)) (cr_order_id cr)")
  case None
  then show ?thesis using s by (simp add: paper_cancel_order_def synced_log)
next
  case (Some ord)
  let ?i = "cr_order_id cr"
  from s Some have free: "x = None \<or> od_id (the x) \<noteq> ?i" by (auto simp: synced_def works_def)
  with s Some have o1: "map_of (pb_orders (en_gw en)) ?i = Some ord" and act: "od_is_active ord"
    by (auto simp: synced_def works_def)
  from s o1 have id: "od_id ord = ?i" by (auto simp: synced_def oms_inv_def orders_ok_def)
  obtain ord' en' where adv: "paper_advance ord CANCELLED ''cancelled by user'' en = (ord', en')" by fastforce
  have tr: "can_transition (od_status ord) CANCELLED" using act cancel_allowed by (simp add: od_is_active_def)
  note a = synced_advance [OF s _ tr adv, unfolded id, OF o1]
  have "snd (paper_cancel_order cr en) = update_gw (\<lambda>pb. pb\<lparr>pb_working := dict_del ?i (pb_working pb)\<rparr>) en'"
    using Some act adv by (simp add: paper_cancel_order_def)
  moreover have "own_id ((en_gw en')\<lparr>pb_working := w\<rparr>) = own_id (en_gw en)" for w
    by (rule own_id_cong) (simp_all add: a)
  ultimately show ?thesis using s a free synced_own [OF s o1]
    by (auto simp: synced_def works_def AList.delete_conv' od_is_active_def)
qed

text \<open>What a cancel leaves of the OMS: no new working order, and the cancelled one is gone.\<close>

definition active_ids :: "oms \<Rightarrow> string set" where
  "active_ids s = {i. \<exists>ord. map_of (om_orders s) i = Some ord \<and> od_is_active ord}"

lemma cancel_active_ids:
  assumes s: "synced None en"
  shows "active_ids (en_oms (snd (paper_cancel_order cr en))) = active_ids (en_oms en) - {cr_order_id cr}"
proof (cases "map_of (pb_working (en_gw en)) (cr_order_id cr)")
  case None
  from s have "map_of (om_orders (en_oms en)) = map_of (pb_orders (en_gw en))"
    "\<And>ord. map_of (pb_working (en_gw en)) (cr_order_id cr) = Some ord \<longleftrightarrow>
      map_of (pb_orders (en_gw en)) (cr_order_id cr) = Some ord \<and> od_is_active ord"
    by (simp_all add: synced_def works_def)
  with None have "cr_order_id cr \<notin> active_ids (en_oms en)" by (auto simp: active_ids_def)
  then show ?thesis using None by (simp add: paper_cancel_order_def emit_log_def active_ids_def)
next
  case (Some ord)
  let ?i = "cr_order_id cr"
  from s Some have o1: "map_of (pb_orders (en_gw en)) ?i = Some ord" and act: "od_is_active ord"
    by (auto simp: synced_def works_def)
  from s o1 have id: "od_id ord = ?i" by (auto simp: synced_def oms_inv_def orders_ok_def)
  obtain ord' en' where adv: "paper_advance ord CANCELLED ''cancelled by user'' en = (ord', en')" by fastforce
  have tr: "can_transition (od_status ord) CANCELLED" using act cancel_allowed by (simp add: od_is_active_def)
  note a = synced_advance [OF s _ tr adv, unfolded id, OF o1]
  have e: "snd (paper_cancel_order cr en) = update_gw (\<lambda>pb. pb\<lparr>pb_working := dict_del ?i (pb_working pb)\<rparr>) en'"
    using Some act adv by (simp add: paper_cancel_order_def)
  have "map_of (om_orders (en_oms en')) = (map_of (om_orders (en_oms en)))(?i \<mapsto> ord')"
    using a s by (simp add: synced_def)
  moreover have "\<not> od_is_active ord'" using a by (simp add: od_is_active_def)
  ultimately show ?thesis by (auto simp: e active_ids_def)
qed

lemma paper_cancel_returns: "fst (paper_cancel_order cr en) = Inr ()"
  by (simp add: paper_cancel_order_def case_prod_beta split: option.split)

lemma halt_cancel_paper: "halt_cancel paper_cancel_order ord en = paper_cancel_order (create_cancel ord) en"
  using paper_cancel_returns [of "create_cancel ord" en]
  by (cases "paper_cancel_order (create_cancel ord) en") (simp add: halt_cancel_def op_catch_def)

lemma synced_set_halted: "synced x en \<Longrightarrow> synced x (set_halted r en)"
  by (erule synced_frame) simp_all

lemma synced_keeps_cancel: "keeps (synced x) (halt_cancel paper_cancel_order ord)"
  by (rule keepsI) (simp add: halt_cancel_paper synced_cancel)

lemma synced_halt: "synced x en \<Longrightarrow> synced x (halt paper_cancel_order reason en)"
  unfolding halt_def Let_def
  by (rule keepsD [OF keeps_for [OF synced_keeps_cancel]]) (simp add: synced_audit synced_set_halted)

lemma cancel_loop_active_ids:
  assumes "synced None en"
  shows "active_ids (en_oms (snd (op_for ords (halt_cancel paper_cancel_order) en))) =
    active_ids (en_oms en) - od_id ` set ords"
  using assms
proof (induction ords arbitrary: en)
  case (Cons ord ords)
  obtain u en1 where c: "paper_cancel_order (create_cancel ord) en = (Inr u, en1)"
    using paper_cancel_returns [of "create_cancel ord" en] by (cases "paper_cancel_order (create_cancel ord) en") auto
  have "synced None en1" using synced_cancel [OF Cons.prems, of "create_cancel ord"] c by simp
  from Cons.IH [OF this] cancel_active_ids [OF Cons.prems, of "create_cancel ord"] c show ?case
    by (auto simp: halt_cancel_paper create_cancel_def)
qed simp

lemma active_ids_orders:
  assumes "oms_inv s"
  shows "od_id ` set (oms_get_active_orders s) = active_ids s"
proof -
  have "od_id ord = i" if "map_of (om_orders s) i = Some ord" for i ord
    using that assms by (auto simp: oms_inv_def orders_ok_def)
  then show ?thesis
    by (force simp: active_ids_def active_order_iff [OF assms] oms_get_order_def image_iff)
qed

lemma halt_halts: "rm_halted (en_runmode (halt paper_cancel_order reason en))"
proof -
  let ?en1 = "audit ''halt'' (JObj [(''reason'', JStr reason)]) None None ''live'' (set_halted reason en)"
  have safe: "callback_safe engine_halted"
    using engine_halted_safe unfolding run_safe_def action_safe_def submit_safe_def by blast
  have "keeps engine_halted (op_for ords (halt_cancel paper_cancel_order))" for ords
    by (intro keeps_for halt_cancel_keeps safe paper_cancel_stable callback_safe_stable)
  from keepsD [OF this, of ?en1] show ?thesis by (simp add: halt_def Let_def engine_halted_def)
qed

lemma halt_flattens:
  assumes s: "synced None en"
  shows "oms_get_active_orders (en_oms (halt paper_cancel_order reason en)) = []"
proof -
  let ?en1 = "audit ''halt'' (JObj [(''reason'', JStr reason)]) None None ''live'' (set_halted reason en)"
  have s1: "synced None ?en1" by (simp add: synced_audit synced_set_halted s)
  have "active_ids (en_oms (halt paper_cancel_order reason en)) = {}"
    using cancel_loop_active_ids [OF s1] active_ids_orders [OF synced_inv [OF s]]
    by (simp add: halt_def Let_def)
  moreover have "oms_inv (en_oms (halt paper_cancel_order reason en))"
    by (rule synced_inv [OF synced_halt [OF s]])
  ultimately show ?thesis using active_ids_orders by fastforce
qed

subsection \<open>Sending an order\<close>

lemma synced_risk: "synced x en \<Longrightarrow> synced x (en\<lparr>en_risk := r\<rparr>)"
  by (erule synced_frame) simp_all

lemma synced_publish_account: "synced x en \<Longrightarrow> synced x (publish k p src (set_oms (oms_on_account a (en_oms en)) en))"
  by (erule synced_frame) (simp_all add: inv_intros)

lemma synced_on_account: "synced x en \<Longrightarrow> synced x (on_account paper_cancel_order a en)"
  by (auto simp: on_account_def Let_def case_prod_beta split: option.split
      intro!: synced_halt synced_risk intro: synced_publish_account)

lemma synced_emit_account: "synced x en \<Longrightarrow> synced x (emit_account_snapshot en)"
  unfolding emit_account_snapshot_def by (rule synced_on_account)

lemma synced_emit_position: "synced x en \<Longrightarrow> synced x (emit_position_snapshot key en)"
  by (simp add: emit_position_snapshot_def synced_position split: option.split)

lemma digits_dash:
  assumes "nat_digits k @ ''-'' @ h = nat_digits k' @ ''-'' @ h'"
  shows "k = k'"
proof -
  have no: "CHR ''-'' \<notin> set (nat_digits n)" for n
    using nat_digits_are_digits is_digit_facts(7) by blast
  from assms have "split_once (CHR ''-'') (nat_digits k @ CHR ''-'' # h) = split_once (CHR ''-'') (nat_digits k' @ CHR ''-'' # h')"
    by simp
  then have "nat_digits k = nat_digits k'" by (simp add: split_once_append no)
  then show ?thesis by (rule nat_digits_inj)
qed

lemma fresh_order_id:
  assumes "synced None en"
  shows "map_of (pb_orders (en_gw en))
    (paper_order_id uuid ((en_gw en)\<lparr>pb_seq := pb_seq (en_gw en) + 1\<rparr>)) = None"
proof (rule ccontr)
  let ?i = "paper_order_id uuid ((en_gw en)\<lparr>pb_seq := pb_seq (en_gw en) + 1\<rparr>)"
  assume "map_of (pb_orders (en_gw en)) ?i \<noteq> None"
  then obtain ord where "map_of (pb_orders (en_gw en)) ?i = Some ord" by blast
  from synced_own [OF assms this] obtain k h where k: "k \<le> pb_seq (en_gw en)"
    and i: "?i = pb_name (en_gw en) @ ''-'' @ nat_digits k @ ''-'' @ h" by (auto simp: own_id_def)
  from i have "nat_digits (pb_seq (en_gw en) + 1) @ ''-'' @ take 6 (uuid (pb_draws (en_gw en))) = nat_digits k @ ''-'' @ h"
    by (simp add: paper_order_id_def)
  from digits_dash [OF this] k show False by simp
qed

lemma synced_open:
  assumes s: "synced None en" and op: "paper_open uuid req en = (ord, en')"
  shows "synced (Some ord) en'" "od_status ord = SUBMITTING" "od_traded ord = 0"
    "od_volume ord = rq_volume req" "pb_holdings (en_gw en') = pb_holdings (en_gw en)"
    "pb_prices (en_gw en') = pb_prices (en_gw en)" "pb_name (en_gw en') = pb_name (en_gw en)"
proof -
  let ?pb = "en_gw en"
  from op have ord: "ord = create_order req (paper_order_id uuid (?pb\<lparr>pb_seq := pb_seq ?pb + 1\<rparr>)) (pb_name ?pb) SUBMITTING (en_wall en)"
    and gw: "en_gw en' = paper_record ord (?pb\<lparr>pb_seq := pb_seq ?pb + 1, pb_draws := pb_draws ?pb + 1\<rparr>)"
    and oms: "en_oms en' = oms_on_order ord (en_oms en)"
    by (auto simp: paper_open_def Let_def)
  from ord show "od_status ord = SUBMITTING" "od_traded ord = 0" "od_volume ord = rq_volume req"
    by (simp_all add: create_order_def)
  show "pb_holdings (en_gw en') = pb_holdings ?pb" "pb_prices (en_gw en') = pb_prices ?pb"
    "pb_name (en_gw en') = pb_name ?pb"
    by (simp_all add: gw paper_record_def)
  have id: "od_id ord = paper_order_id uuid (?pb\<lparr>pb_seq := pb_seq ?pb + 1\<rparr>)" by (simp add: ord create_order_def)
  have fresh: "map_of (pb_orders ?pb) (od_id ord) = None" using fresh_order_id [OF s] by (simp add: id)
  have idle: "map_of (pb_working ?pb) (od_id ord) = None"
  proof (rule ccontr)
    assume "map_of (pb_working ?pb) (od_id ord) \<noteq> None"
    with s fresh show False by (auto simp: synced_def works_def)
  qed
  have own: "own_id (en_gw en') i" if "own_id ?pb i" for i
    using that by (auto simp: own_id_def gw intro: le_SucI)
  have "own_id (en_gw en') (od_id ord)"
    by (auto simp: own_id_def gw id paper_order_id_def intro!: exI [of _ "pb_seq ?pb + 1"])
  moreover have "oms_inv (en_oms en')" using s by (simp add: oms synced_inv inv_intros)
  moreover have "map_of (om_orders (en_oms en')) = map_of (pb_orders (en_gw en'))"
    using s fresh by (simp add: oms gw oms_on_order_orders synced_def)
  ultimately show "synced (Some ord) en'"
    using s idle own by (auto simp: synced_def works_def gw)
qed

lemma synced_gw_cash:
  assumes "synced x en" "pb_orders pb = pb_orders (en_gw en)" "pb_working pb = pb_working (en_gw en)"
    "pb_seq pb = pb_seq (en_gw en)" "pb_name pb = pb_name (en_gw en)"
  shows "synced x (en\<lparr>en_gw := pb\<rparr>)"
  by (rule synced_frame [OF assms(1)]) (simp_all add: assms)

lemma apply_fill_fields [simp]:
  "pb_orders (snd (apply_fill uuid req i d pb)) = pb_orders pb"
  "pb_working (snd (apply_fill uuid req i d pb)) = pb_working pb"
  "pb_seq (snd (apply_fill uuid req i d pb)) = pb_seq pb"
  "pb_name (snd (apply_fill uuid req i d pb)) = pb_name pb"
  "pb_trades (snd (apply_fill uuid req i d pb)) = pb_trades pb"
  by (simp_all add: apply_fill_def Let_def)

lemma fill_allowed: "can_transition NOTTRADED (if b then ALLTRADED else PARTTRADED)"
  by (simp add: can_transition_def)

lemma synced_fill:
  assumes s: "synced (Some ord) en" and st: "od_status ord = NOTTRADED"
    and fl: "paper_fill uuid req d ord en = (ord', en')"
  shows "synced (Some ord') en'" "od_id ord' = od_id ord" "od_volume ord' = od_volume ord"
    "od_traded ord' = min (od_traded ord + fd_fill_volume d) (od_volume ord)"
    "od_status ord' = (if od_traded ord' \<ge> od_volume ord' - 1/1000000000 then ALLTRADED else PARTTRADED)"
proof -
  let ?f = "apply_fill uuid req (od_id ord) d (en_gw en)"
  let ?en1 = "on_trade (fst ?f) (en\<lparr>en_gw := (snd ?f)\<lparr>pb_trades := dict_set (td_id (fst ?f)) (fst ?f) (pb_trades (snd ?f))\<rparr>\<rparr>)"
  let ?ord1 = "ord\<lparr>od_traded := min (od_traded ord + fd_fill_volume d) (od_volume ord)\<rparr>"
  let ?st = "if od_traded ?ord1 \<ge> od_volume ?ord1 - 1/1000000000 then ALLTRADED else PARTTRADED"
  obtain ord2 en2 where adv: "paper_advance ?ord1 ?st [] ?en1 = (ord2, en2)" by fastforce
  have s1: "synced (Some ord) ?en1" by (rule synced_trade, rule synced_gw_cash [OF s]) simp_all
  have s2: "synced (Some ord2) en2"
    by (rule synced_advance_inflight [OF s1 _ _ adv]) (simp_all add: st fill_allowed del: if_splits)
  have res: "ord' = ord2" "en' = emit_position_snapshot (symbol_key (rq_code req) (rq_exchange req)) (emit_account_snapshot en2)"
    using fl adv by (simp_all add: paper_fill_def Let_def case_prod_beta)
  show "synced (Some ord') en'" by (simp add: res synced_emit_position synced_emit_account s2)
  have "ord2 = ?ord1\<lparr>od_status := ?st\<rparr>" using adv by (simp add: paper_advance_def Let_def)
  then show "od_id ord' = od_id ord" "od_volume ord' = od_volume ord"
    "od_traded ord' = min (od_traded ord + fd_fill_volume d) (od_volume ord)"
    "od_status ord' = (if od_traded ord' \<ge> od_volume ord' - 1/1000000000 then ALLTRADED else PARTTRADED)"
    by (simp_all add: res)
qed

lemma works_inactive:
  assumes "works (Some ord) pb" "\<not> od_is_active ord"
  shows "works None pb"
proof -
  have "map_of (pb_working pb) i = Some o' \<longleftrightarrow> map_of (pb_orders pb) i = Some o' \<and> od_is_active o'" for i o'
    using assms by (cases "i = od_id ord") (auto simp: works_def)
  then show ?thesis by (simp add: works_def)
qed

lemma synced_inactive: "synced (Some ord) en \<Longrightarrow> \<not> od_is_active ord \<Longrightarrow> synced None en"
  by (auto simp: synced_def intro: works_inactive)

lemma synced_rest:
  assumes "synced (Some ord) en"
  shows "synced None (update_gw (paper_rest ord) en)"
proof -
  have "own_id (paper_rest ord (en_gw en)) = own_id (en_gw en)"
    by (rule own_id_cong) (simp_all add: paper_rest_def)
  with assms show ?thesis
    by (auto simp: synced_def works_def paper_rest_def dict_conv)
qed

text \<open>The outcome of \<open>send_order\<close>: the relation is restored, and the OMS knows the order.\<close>

lemma synced_send:
  assumes s: "synced None en"
    and send: "paper_send_order uuid decide req en = (r, en')"
  obtains ord where "synced None en'" "r = Inr (od_id ord)"
    "oms_get_order (en_oms en') (od_id ord) = Some ord" "od_volume ord = rq_volume req"
    "\<exists>d pb. d = decide pb req \<and> (if fd_reject d then od_status ord = REJECTED
       else if fd_fill_volume d > 0
       then od_traded ord = min (fd_fill_volume d) (rq_volume req) \<and>
            od_status ord = (if od_traded ord \<ge> rq_volume req - 1/1000000000 then ALLTRADED else PARTTRADED)
       else od_status ord = NOTTRADED)"
proof -
  obtain ord0 en1 where op: "paper_open uuid req en = (ord0, en1)" by fastforce
  note ok = synced_open [OF s op]
  let ?d = "decide (en_gw en1) req"
  have known: "oms_get_order (en_oms e) (od_id ord) = Some ord" if "synced (Some ord) e" for ord e
    using that by (simp add: synced_def works_def oms_get_order_def)
  show ?thesis
  proof (cases "fd_reject ?d")
    case True
    obtain ord1 en2 where adv: "paper_advance ord0 REJECTED (fd_reason ?d) en1 = (ord1, en2)" by fastforce
    have s2: "synced (Some ord1) en2"
      by (rule synced_advance_inflight [OF ok(1) _ refl adv]) (simp add: ok can_transition_def)
    have f: "od_status ord1 = REJECTED" "od_id ord1 = od_id ord0" "od_volume ord1 = od_volume ord0"
      using adv by (auto simp: paper_advance_def Let_def)
    have "r = Inr (od_id ord1)" "en' = en2" using send op adv True f by (simp_all add: paper_send_order_def Let_def)
    moreover have "synced None en2" using synced_inactive [OF s2] f by (simp add: od_is_active_def)
    moreover have "\<exists>d pb. d = decide pb req \<and> (if fd_reject d then od_status ord1 = REJECTED
       else if fd_fill_volume d > 0
       then od_traded ord1 = min (fd_fill_volume d) (rq_volume req) \<and>
            od_status ord1 = (if od_traded ord1 \<ge> rq_volume req - 1/1000000000 then ALLTRADED else PARTTRADED)
       else od_status ord1 = NOTTRADED)"
      using True f by (intro exI [of _ ?d] exI [of _ "en_gw en1"]) simp
    ultimately show ?thesis using that [of ord1] known [OF s2] f ok(4) by simp
  next
    case False
    obtain ord1 en2 where adv: "paper_advance ord0 NOTTRADED [] en1 = (ord1, en2)" by fastforce
    have s2: "synced (Some ord1) en2"
      by (rule synced_advance_inflight [OF ok(1) _ refl adv]) (simp add: ok can_transition_def)
    have f: "od_status ord1 = NOTTRADED" "od_id ord1 = od_id ord0" "od_volume ord1 = rq_volume req" "od_traded ord1 = 0"
      using adv ok by (auto simp: paper_advance_def Let_def)
    obtain ord2 en3 where fl: "(if fd_fill_volume ?d > 0 then paper_fill uuid req ?d ord1 en2 else (ord1, en2)) = (ord2, en3)"
      by fastforce
    have s3: "synced (Some ord2) en3 \<and> od_id ord2 = od_id ord0 \<and> od_volume ord2 = rq_volume req \<and>
      (if fd_fill_volume ?d > 0
       then od_traded ord2 = min (fd_fill_volume ?d) (rq_volume req) \<and>
            od_status ord2 = (if od_traded ord2 \<ge> rq_volume req - 1/1000000000 then ALLTRADED else PARTTRADED)
       else od_status ord2 = NOTTRADED)"
    proof (cases "fd_fill_volume ?d > 0")
      case True
      with fl have "paper_fill uuid req ?d ord1 en2 = (ord2, en3)" by simp
      note x = synced_fill [OF s2 f(1) this]
      from x True f show ?thesis by simp
    next
      case False
      with fl f s2 show ?thesis by auto
    qed
    have "r = Inr (od_id ord2)" "en' = update_gw (paper_rest ord2) en3"
      using send op adv False fl s3 by (simp_all add: paper_send_order_def Let_def)
    moreover have "synced None (update_gw (paper_rest ord2) en3)" by (rule synced_rest) (simp add: s3)
    moreover have "\<exists>d pb. d = decide pb req \<and> (if fd_reject d then od_status ord2 = REJECTED
       else if fd_fill_volume d > 0
       then od_traded ord2 = min (fd_fill_volume d) (rq_volume req) \<and>
            od_status ord2 = (if od_traded ord2 \<ge> rq_volume req - 1/1000000000 then ALLTRADED else PARTTRADED)
       else od_status ord2 = NOTTRADED)"
      using False s3 by (intro exI [of _ ?d] exI [of _ "en_gw en1"]) simp
    ultimately show ?thesis using that [of ord2] known [of ord2 en3] s3 by simp
  qed
qed

lemma paper_full_fill:
  assumes s: "synced None en" and v: "0 < rq_volume req"
    and send: "paper_send_order uuid paper_decide req en = (Inr i, en')"
  obtains ord where "synced None en'" "oms_get_order (en_oms en') i = Some ord"
    "od_status ord = ALLTRADED" "od_traded ord = rq_volume req" "od_volume ord = rq_volume req"
  by (rule synced_send [OF s send]) (use v in \<open>auto simp: paper_decide_def intro: that\<close>)

subsection \<open>Sessions with a paper broker\<close>

text \<open>
  The states of an engine wired to a paper or simulated broker, from its construction through any
  mix of guarded actions, reports of the account, and the passing of time.
\<close>

inductive paper_session :: "uuid_stream \<Rightarrow> fill_policy \<Rightarrow> paper engine \<Rightarrow> bool" for uuid decide where
  session_start: "engine_init mode qk tn qn now wall cal environ risk ld
       (paper_init name cash prices oc cc mc acct) = Inr en \<Longrightarrow> paper_session uuid decide en"
| session_submit: "paper_session uuid decide en \<Longrightarrow>
     paper_session uuid decide (snd (submit (paper_gateway uuid decide) req origin en))"
| session_cancel: "paper_session uuid decide en \<Longrightarrow>
     paper_session uuid decide (snd (cancel_by_id (paper_gateway uuid decide) i active_only en))"
| session_halt: "paper_session uuid decide en \<Longrightarrow> paper_session uuid decide (halt paper_cancel_order reason en)"
| session_resume: "paper_session uuid decide en \<Longrightarrow> paper_session uuid decide (snd (engine_resume en))"
| session_account: "paper_session uuid decide en \<Longrightarrow> paper_session uuid decide (on_account paper_cancel_order a en)"
| session_prices: "paper_session uuid decide en \<Longrightarrow> paper_session uuid decide (update_gw (set_prices ps) en)"
| session_time: "paper_session uuid decide en \<Longrightarrow> paper_session uuid decide (en\<lparr>en_now := now, en_wall := wall\<rparr>)"
| session_tick: "paper_session uuid decide en \<Longrightarrow> paper_session uuid decide (snd (tick_session en))"
| session_drop: "paper_session uuid decide en \<Longrightarrow>
     paper_session uuid decide (on_gateway_disconnected a b c d en)"

lemma synced_init:
  assumes "engine_init mode qk tn qn now wall cal environ risk ld
       (paper_init name cash prices oc cc mc acct) = Inr en"
  shows "synced None en"
proof -
  from assms have "en_oms en = oms_init 500" "en_gw en = paper_init name cash prices oc cc mc acct"
    by (auto simp: engine_init_def runmode_init_def Let_def)
  moreover have "om_orders (oms_init 500) = []" by (simp add: oms_init_def)
  ultimately show ?thesis by (simp add: synced_def works_def paper_init_def)
qed

lemma synced_engine_risk_check: "synced x en \<Longrightarrow> synced x (snd (engine_risk_check req en))"
  by (subst engine_risk_check_state) (rule synced_risk)

lemma paper_gateway_sel [simp]:
  "gi_cancel_order (paper_gateway uuid decide) = paper_cancel_order"
  "gi_send_order (paper_gateway uuid decide) = paper_send_order uuid decide"
  by (simp_all add: paper_gateway_def)

lemma synced_route:
  assumes "synced None en"
  shows "synced None (snd (route (paper_gateway uuid decide) req origin en))"
proof -
  obtain r en' where send: "paper_send_order uuid decide req en = (r, en')" by fastforce
  have "synced None en' \<and> (\<exists>i. r = Inr i)"
    by (rule synced_send [OF assms send]) blast
  with send show ?thesis by (simp add: route_def op_bind_def op_then_def op_modify_def op_return_def synced_audit
        split: sum.split)
qed

lemma synced_submit:
  assumes "synced None en"
  shows "synced None (snd (submit (paper_gateway uuid decide) req origin en))"
proof -
  have s1: "synced None (snd (engine_risk_check req en))" by (rule synced_engine_risk_check [OF assms])
  show ?thesis
    using synced_audit [OF assms] synced_audit [OF s1] synced_route [OF s1] synced_halt
    by (simp add: submit_def Let_def case_prod_beta)
qed

lemma synced_cancel_by_id:
  assumes "synced None en"
  shows "synced None (snd (cancel_by_id (paper_gateway uuid decide) i active_only en))"
proof -
  have "synced None (snd (cancel_order (paper_gateway uuid decide) ord active_only en))" for ord
  proof -
    obtain u en1 where c: "paper_cancel_order (create_cancel ord) en = (Inr u, en1)"
      using paper_cancel_returns [of "create_cancel ord" en] by (cases "paper_cancel_order (create_cancel ord) en") auto
    with synced_cancel [OF assms, of "create_cancel ord"] have "synced None en1" by simp
    with c assms show ?thesis
      by (simp add: cancel_order_def op_then_def op_bind_def op_modify_def op_return_def synced_audit)
  qed
  with assms show ?thesis by (simp add: cancel_by_id_def synced_audit split: option.split)
qed

lemma synced_resume: "synced x en \<Longrightarrow> synced x (snd (engine_resume en))"
  by (erule synced_frame)
    (simp_all add: engine_resume_def risk_verdict_now_def Let_def case_prod_beta split: option.split)

lemma synced_disconnected: "synced x en \<Longrightarrow> synced x (on_gateway_disconnected a b c d en)"
  by (erule synced_frame)
    (simp_all add: on_gateway_disconnected_def handle_disconnect_def set_connection_def Let_def split: prod.split)

lemma session_synced: "paper_session uuid decide en \<Longrightarrow> synced None en"
proof (induction rule: paper_session.induct)
  case (session_prices en ps)
  show ?case by (rule synced_frame [OF session_prices.IH]) (simp_all add: set_prices_def)
next
  case (session_time en now wall)
  show ?case by (rule synced_frame [OF session_time.IH]) simp_all
next
  case (session_tick en)
  show ?case by (rule synced_frame [OF session_tick.IH]) (simp_all add: tick_session_def split: prod.split)
qed (simp_all add: synced_init synced_submit synced_cancel_by_id synced_halt synced_resume
    synced_on_account synced_disconnected)

subsection \<open>Money\<close>

text \<open>
  A fill exchanges cash for shares at the fill price and costs the fee: valued at that price, the
  account loses exactly the fee.
\<close>

definition held :: "string \<Rightarrow> paper \<Rightarrow> num" where
  "held key pb = (case map_of (pb_holdings pb) key of Some h \<Rightarrow> hl_volume h | None \<Rightarrow> 0)"

lemma apply_fill_held:
  "held (rq_key req) (snd (apply_fill uuid req i d pb)) =
     (if rq_direction req = LONG then held (rq_key req) pb + fd_fill_volume d
      else max (held (rq_key req) pb - fd_fill_volume d) 0)"
  by (simp add: held_def apply_fill_def Let_def AList.update_conv' filled_holding_def holding_or_new_def
      new_holding_def split: option.split)

lemma apply_fill_cash:
  "pb_cash (snd (apply_fill uuid req i d pb)) = pb_cash pb +
     (if rq_direction req = LONG then - (fd_fill_volume d * fd_fill_price d) else fd_fill_volume d * fd_fill_price d)
     - fill_fee pb (rq_direction req) (fd_fill_volume d * fd_fill_price d)"
  by (simp add: apply_fill_def Let_def)

lemma apply_fill_value:
  assumes "apply_fill uuid req i d pb = (t, pb')"
    "rq_direction req = LONG \<or> fd_fill_volume d \<le> held (rq_key req) pb"
  shows "pb_cash pb' + held (rq_key req) pb' * fd_fill_price d =
    pb_cash pb + held (rq_key req) pb * fd_fill_price d
      - fill_fee pb (rq_direction req) (fd_fill_volume d * fd_fill_price d)"
proof -
  from assms(1) have pb': "pb' = snd (apply_fill uuid req i d pb)" by simp
  show ?thesis using assms(2) unfolding pb' apply_fill_cash apply_fill_held
    by (auto simp: algebra_simps max_def)
qed

end
