(* ===== verification/Examples.thy ===== *)
theory Examples
  imports Broker_Sync
begin

section \<open>A worked engine\<close>

text \<open>
  One concrete engine wired to a paper broker with cash of 100000, in the morning session, and one
  buy of 100 shares at 10.  The theorems that need a concrete state are applied to it.
\<close>

definition demo_uuid :: uuid_stream where
  "demo_uuid n = ''abcdef0''"

definition demo_broker :: paper where
  "demo_broker = paper_init ''paper'' 100000 [] (15/100000) (15/100000) 5 ''acct''"

definition demo_request :: order_request where
  "demo_request = buy_request ''600000'' SSE 100 10 LIMIT ''r1''"

definition demo_oms :: oms where
  "demo_oms = (oms_init 500)\<lparr>om_account := Some \<lparr>ac_id = ''acct'', ac_balance = 100000, ac_frozen = 0,
     ac_available = 100000, ac_gateway = ''paper''\<rparr>\<rparr>"

definition demo_runmode :: runmode where
  "demo_runmode = \<lparr>rm_mode = PAPER, rm_halted = False, rm_halt_reason = [],
     rm_provider_routing_enabled = True, rm_provider_block_reason = []\<rparr>"

definition demo_engine :: "paper engine" where
  "demo_engine = \<lparr>en_trade_name = ''paper'', en_quote_name = ''paper'', en_config_mode = PAPER,
     en_oms = demo_oms, en_runmode = demo_runmode, en_connection = LOGGED_IN,
     en_session = CONTINUOUS_AM, en_calendar = weekday_calendar, en_now = Naive (hms 10 0 0),
     en_wall = hms 10 0 0, en_environ = [], en_risk = Some (risk_gate_init default_limits True),
     en_ledger = empty_ledger, en_events = [], en_strategy_symbols = {}, en_observer_symbols = {},
     en_subscribed_symbols = {}, en_gw = demo_broker\<rparr>"

definition demo_gate :: risk_gate where
  "demo_gate = (risk_gate_init default_limits True)\<lparr>rg_day_start_equity := 100000,
     rg_canary_start_equity := 100000\<rparr>"

lemma demo_oms_views [simp]:
  "risk_equity demo_oms = 100000" "oms_buying_power demo_oms = 100000"
  "oms_get_contract demo_oms k = None" "oms_get_tick demo_oms k = None"
  "oms_get_position demo_oms k = None" "oms_inv demo_oms" "om_orders demo_oms = []"
  by (simp_all add: demo_oms_def risk_equity_def oms_buying_power_def oms_get_contract_def
      oms_get_tick_def oms_init_def oms_get_position_def book_get_def empty_book_def)
    (simp_all add: oms_inv_def orders_ok_def flip: empty_book_def)

lemma demo_request_views [simp]:
  "rq_volume demo_request = 100" "rq_price demo_request = 10" "rq_type demo_request = LIMIT"
  "rq_direction demo_request = LONG" "rq_reference demo_request = ''r1''"
  by (simp_all add: demo_request_def buy_request_def)

lemma demo_engine_views [simp]:
  "en_oms demo_engine = demo_oms" "en_runmode demo_engine = demo_runmode" "en_gw demo_engine = demo_broker"
  "en_risk demo_engine = Some (risk_gate_init default_limits True)"
  by (simp_all add: demo_engine_def)

lemma demo_can_submit: "can_submit_orders (en_runmode demo_engine)"
  by (simp add: demo_runmode_def can_submit_orders_def allows_order_routing_def)

lemma demo_verdict:
  "rv_ok (order_verdict demo_request demo_oms (Some \<lparr>sv_state = CONTINUOUS_AM, sv_now = now\<rparr>)
     (Some PAPER) wall demo_gate)"
  by (simp add: order_verdict_def demo_gate_def risk_gate_init_def default_limits_def can_submit_def
      check_product_def live_modes_def effective_lot_def py_fmod_def check_contract_price_def
      check_price_guard_def ref_price_def req_notional_def check_side_def check_concentration_def
      check_portfolio_limits_def effective_order_cap_def effective_daily_cap_def smallest_cap_def Let_def)

lemma demo_check_equity: "check_equity demo_oms (risk_gate_init default_limits True) = (passed, demo_gate)"
  by (simp add: check_equity_def Let_def risk_gate_init_def default_limits_def demo_gate_def)

lemma demo_risk: "rv_ok (fst (engine_risk_check demo_request demo_engine))"
  by (simp add: engine_risk_check_def demo_engine_def demo_runmode_def risk_check_def demo_check_equity
      demo_verdict Let_def)

lemma demo_one: "nat_digits (Suc 0) = ''1''"
  by code_simp

lemma demo_send: "fst (paper_send_order demo_uuid decide demo_request en) =
    Inr (paper_order_id demo_uuid ((en_gw en)\<lparr>pb_seq := pb_seq (en_gw en) + 1\<rparr>))"
  by (simp add: paper_send_order_def paper_open_def Let_def case_prod_beta create_order_def)

lemma demo_submit:
  "fst (submit (paper_gateway demo_uuid decide) demo_request ''manual'' demo_engine) = Inr (Some ''paper-1-abcdef'')"
proof -
  let ?en1 = "snd (engine_risk_check demo_request demo_engine)"
  have "fst (paper_send_order demo_uuid decide demo_request ?en1) = Inr ''paper-1-abcdef''"
    by (simp add: demo_send paper_order_id_def demo_broker_def paper_init_def demo_uuid_def demo_one)
  then show ?thesis
    by (simp add: submit_accepts [OF demo_can_submit demo_risk] route_def op_bind_def op_then_def
        op_modify_def op_return_def case_prod_beta split: sum.split)
qed

lemma demo_synced: "synced None demo_engine"
  by (simp add: synced_def works_def demo_broker_def paper_init_def)

text \<open>A session from its construction, with a broker that fills half of each order.\<close>

definition demo_start :: "paper engine" where
  "demo_start = (case engine_init PAPER [] ''paper'' ''paper'' (Naive (hms 10 0 0)) (hms 10 0 0) None []
     (Some (risk_gate_init default_limits True)) empty_ledger demo_broker of Inr en \<Rightarrow> en | Inl _ \<Rightarrow> demo_engine)"

lemma demo_start_init:
  "engine_init PAPER [] ''paper'' ''paper'' (Naive (hms 10 0 0)) (hms 10 0 0) None []
     (Some (risk_gate_init default_limits True)) empty_ledger demo_broker = Inr demo_start"
  using engine_init_total unfolding demo_start_def by (metis sum.simps(6))

lemma demo_start_session: "paper_session uuid decide demo_start"
  by (rule session_start [OF demo_start_init [unfolded demo_broker_def]])

definition demo_sim :: fill_policy where
  "demo_sim = sim_decide {} (1/2)"

text \<open>A book with a position, and a purchase.\<close>

definition demo_book :: book where
  "demo_book = book_put ((new_position ''600000'' SSE)\<lparr>ps_volume := 200, ps_yd_volume := 200\<rparr>) empty_book"

definition demo_fill :: trade where
  "demo_fill = \<lparr>td_id = ''t'', td_order_id = ''a'', td_code = ''600000'', td_exchange = SSE,
     td_direction = LONG, td_volume = 100, td_price = 10, td_offset = ONone, td_gateway = ''paper''\<rparr>"

end
