(* ===== verification/Recovery.thy ===== *)
theory Recovery
  imports Broker_Sync
begin

section \<open>Recovery from the ledger\<close>

text \<open>
  \<open>systems/live/recovery.py\<close>: the risk counters and the loss latch rebuilt from the audit ledger,
  the comparison of the ledger's decisions with the OMS, the comparison of the broker's positions
  with the last saved state, and the warnings.  The hash of an account id is a parameter.
\<close>

subsection \<open>Risk counters\<close>

text \<open>\<open>float(x or 0.0)\<close> of a field that holds a number.\<close>

fun jnum :: "json \<Rightarrow> num" where
  "jnum (JNum x) = x"
| "jnum _ = 0"

fun jtext :: "json \<Rightarrow> string" where
  "jtext (JStr s) = s"
| "jtext _ = []"

definition event_req :: "json \<Rightarrow> json" where
  "event_req event = as_obj (jget ''req'' (as_obj (jget ''payload'' event)))"

type_synonym submit_count = "int \<times> num \<times> string set"

definition count_submit :: "json \<Rightarrow> submit_count \<Rightarrow> submit_count" where
  "count_submit event tot = (case tot of (orders, value, refs) \<Rightarrow>
     let req = event_req event; ref = jtext (jget ''reference'' req)
     in (orders + 1, value + jnum (jget ''volume'' req) * jnum (jget ''price'' req),
         if ref \<noteq> [] then insert ref refs else refs))"

definition submit_totals :: "json list \<Rightarrow> submit_count" where
  "submit_totals events = fold count_submit events (0, 0, {})"

text \<open>The marker of a loss halt in its reason, and the last one not yet cleared by a resume.\<close>

definition loss_marker :: "string \<Rightarrow> (string \<times> string) option" where
  "loss_marker reason =
     (if starts_with ''recovered_risk:'' reason then Some (split_once (CHR '':'') (drop 15 reason))
      else if starts_with ''risk:'' reason then Some (split_once (CHR '':'') (drop 5 reason))
      else None)"

definition scan_loss :: "json \<Rightarrow> string \<times> string \<Rightarrow> string \<times> string" where
  "scan_loss event st =
     (let kind = jtext (jget ''kind'' event) in
      if kind = ''resume'' then ([], [])
      else if kind \<noteq> ''halt'' then st
      else case loss_marker (jtext (jget ''reason'' (as_obj (jget ''payload'' event)))) of
        None \<Rightarrow> st | Some rule_reason \<Rightarrow> rule_reason)"

definition recover_risk_state_from_ledger :: "ledger \<Rightarrow> int option \<Rightarrow> risk_state" where
  "recover_risk_state_from_ledger ld day =
     (let (orders, value, refs) = submit_totals (ledger_events ld (Some ''submit'') None None None day None);
          (rule, reason) = fold scan_loss (ledger_events ld None None None None None None) ([], [])
      in \<lparr>rs_orders_today = Some orders, rs_value_today = Some value,
          rs_seen_refs = Some (sorted_list_of_set refs),
          rs_day_start_equity = None, rs_canary_start_equity = None,
          rs_loss_halt_rule = (if rule \<in> loss_rules then Some rule else None),
          rs_loss_halt_reason = (if rule \<in> loss_rules then Some reason else None)\<rparr>)"

text \<open>
  \<open>{**persisted, **ledger}\<close>, the restoration of the gate, and the halt of a recovered loss latch.
\<close>

definition or_else :: "'a option \<Rightarrow> 'a option \<Rightarrow> 'a option" where
  "or_else a b = (case a of Some x \<Rightarrow> Some x | None \<Rightarrow> b)"

definition merge_state :: "risk_state \<Rightarrow> risk_state \<Rightarrow> risk_state" where
  "merge_state persisted led = \<lparr>rs_orders_today = or_else (rs_orders_today led) (rs_orders_today persisted),
     rs_value_today = or_else (rs_value_today led) (rs_value_today persisted),
     rs_seen_refs = or_else (rs_seen_refs led) (rs_seen_refs persisted),
     rs_day_start_equity = or_else (rs_day_start_equity led) (rs_day_start_equity persisted),
     rs_canary_start_equity = or_else (rs_canary_start_equity led) (rs_canary_start_equity persisted),
     rs_loss_halt_rule = or_else (rs_loss_halt_rule led) (rs_loss_halt_rule persisted),
     rs_loss_halt_reason = or_else (rs_loss_halt_reason led) (rs_loss_halt_reason persisted)\<rparr>"

definition recover_risk ::
  "(cancel_request \<Rightarrow> ('g engine, unit) op) \<Rightarrow> risk_state \<Rightarrow> int \<Rightarrow> 'g engine \<Rightarrow> 'g engine" where
  "recover_risk cancel persisted day en =
     (case en_risk en of
        None \<Rightarrow> en
      | Some g \<Rightarrow>
          let g' = risk_restore (Some (merge_state persisted
                     (recover_risk_state_from_ledger (en_ledger en) (Some day)))) g;
              en1 = en\<lparr>en_risk := Some g'\<rparr>
          in if rg_loss_halt_rule g' \<noteq> [] \<and> \<not> rm_halted (en_runmode en1)
             then halt cancel (''recovered_risk:'' @ rg_loss_halt_rule g' @ '':'' @ rg_loss_halt_reason g') en1
             else en1)"

subsection \<open>Ledger against OMS\<close>

record reconciliation =
  rc_ledger_orders :: nat
  rc_broker_orders :: nat
  rc_matched_orders :: nat
  rc_missing_broker_order_ids :: "string list"
  rc_external_broker_order_ids :: "string list"
  rc_ledger_trades :: nat
  rc_broker_trades :: nat
  rc_matched_trades :: nat
  rc_missing_broker_trade_ids :: "string list"
  rc_external_broker_trade_ids :: "string list"
  rc_active_order_ids :: "string list"

definition payload_ids :: "string \<Rightarrow> json list \<Rightarrow> string set" where
  "payload_ids field events =
     set (filter (\<lambda>i. i \<noteq> []) (map (\<lambda>ev. jtext (jget field (as_obj (jget ''payload'' ev)))) events))"

definition reconcile_ledger_with_oms :: "ledger \<Rightarrow> oms \<Rightarrow> int option \<Rightarrow> reconciliation" where
  "reconcile_ledger_with_oms ld s day =
     (let ledger_order_ids = payload_ids ''order_id'' (ledger_events ld (Some ''submit'') None None None day None);
          broker_order_ids = set (map od_id (dict_vals (om_orders s)));
          ledger_trade_ids = payload_ids ''trade_id'' (ledger_events ld (Some ''trade'') None None None day None);
          broker_trade_ids = set (map td_id (dict_vals (om_trades s)))
      in \<lparr>rc_ledger_orders = card ledger_order_ids, rc_broker_orders = card broker_order_ids,
          rc_matched_orders = card (ledger_order_ids \<inter> broker_order_ids),
          rc_missing_broker_order_ids = sorted_list_of_set (ledger_order_ids - broker_order_ids),
          rc_external_broker_order_ids = sorted_list_of_set (broker_order_ids - ledger_order_ids),
          rc_ledger_trades = card ledger_trade_ids, rc_broker_trades = card broker_trade_ids,
          rc_matched_trades = card (ledger_trade_ids \<inter> broker_trade_ids),
          rc_missing_broker_trade_ids = sorted_list_of_set (ledger_trade_ids - broker_trade_ids),
          rc_external_broker_trade_ids = sorted_list_of_set (broker_trade_ids - ledger_trade_ids),
          rc_active_order_ids = map od_id (oms_get_active_orders s)\<rparr>)"

subsection \<open>Positions against the last saved state\<close>

text \<open>
  The saved state, once read: its account's hash or id, and its position rows.  \<open>hash\<close> is
  SHA-256 in hexadecimal.
\<close>

record saved_state =
  ss_account_hash :: string
  ss_account_id :: "string option"
  ss_positions :: "(string \<times> string \<times> num) list"

datatype baseline =
    NoBaseline
  | Unreadable string
  | Saved saved_state

record state_check =
  sc_baseline_available :: bool
  sc_passed :: bool
  sc_error :: string
  sc_account_matches :: "bool option"
  sc_differences :: "(string \<times> num \<times> num) list"

definition saved_account_hash :: "(string \<Rightarrow> string) \<Rightarrow> saved_state \<Rightarrow> string" where
  "saved_account_hash hash st =
     (let h = str_lower (ss_account_hash st);
          h' = (if starts_with ''sha256:'' h then drop 7 h else h)
      in if h' = [] then (case ss_account_id st of Some i \<Rightarrow> if i \<noteq> [] then hash i else [] | None \<Rightarrow> []) else h')"

definition observed_account_hash :: "(string \<Rightarrow> string) \<Rightarrow> oms \<Rightarrow> string" where
  "observed_account_hash hash s = (case om_account s of
     Some a \<Rightarrow> if ac_id a \<noteq> [] then hash (ac_id a) else [] | None \<Rightarrow> [])"

definition expected_positions :: "saved_state \<Rightarrow> (string \<times> num) list" where
  "expected_positions st = dict_of (map (\<lambda>(code, ex, v). (str_strip code @ ''.'' @ str_strip ex, v))
     (filter (\<lambda>(code, ex, v). str_strip code \<noteq> []) (ss_positions st)))"

definition observed_positions :: "oms \<Rightarrow> (string \<times> num) list" where
  "observed_positions s = dict_of (map (\<lambda>p. (ps_key p, ps_volume p))
     (filter (\<lambda>p. ps_volume p \<noteq> 0) (oms_get_positions s)))"

definition position_differences :: "(string \<times> num) list \<Rightarrow> (string \<times> num) list \<Rightarrow> (string \<times> num \<times> num) list" where
  "position_differences want got =
     map (\<lambda>k. (k, dget want k, dget got k))
       (filter (\<lambda>k. \<bar>dget want k - dget got k\<bar> > 1/1000000000)
          (sorted_list_of_set (set (map fst want) \<union> set (map fst got))))"

definition reconcile_previous_runtime_state :: "(string \<Rightarrow> string) \<Rightarrow> baseline \<Rightarrow> oms \<Rightarrow> state_check" where
  "reconcile_previous_runtime_state hash bl s =
     (case bl of
        NoBaseline \<Rightarrow> \<lparr>sc_baseline_available = False, sc_passed = True, sc_error = [],
          sc_account_matches = None, sc_differences = []\<rparr>
      | Unreadable e \<Rightarrow> \<lparr>sc_baseline_available = True, sc_passed = False,
          sc_error = (if e \<noteq> [] then e else ''previous runtime state is unreadable''),
          sc_account_matches = None, sc_differences = []\<rparr>
      | Saved st \<Rightarrow>
          let h = saved_account_hash hash st;
              matches = (if h \<noteq> [] then Some (h = observed_account_hash hash s) else None);
              diffs = position_differences (expected_positions st) (observed_positions s)
          in \<lparr>sc_baseline_available = True, sc_passed = (matches \<noteq> Some False \<and> diffs = []),
              sc_error = [], sc_account_matches = matches, sc_differences = diffs\<rparr>)"

datatype recovery_warning =
    BrokerRefreshFailed
  | LedgerOrdersMissingInBroker "string list"
  | BrokerOrdersMissingInLedger "string list"
  | LedgerTradesMissingInBroker "string list"
  | BrokerTradesMissingInLedger "string list"
  | ActiveOrdersAfterRecovery "string list"
  | PreviousStateUnreadable
  | RuntimeAccountChanged
  | RuntimePositionsChanged "(string \<times> num \<times> num) list"

definition recovery_warnings :: "bool \<Rightarrow> reconciliation \<Rightarrow> state_check \<Rightarrow> recovery_warning list" where
  "recovery_warnings refresh_ok rc sc =
     (if \<not> refresh_ok then [BrokerRefreshFailed] else []) @
     (if rc_missing_broker_order_ids rc \<noteq> [] then [LedgerOrdersMissingInBroker (rc_missing_broker_order_ids rc)] else []) @
     (if rc_external_broker_order_ids rc \<noteq> [] then [BrokerOrdersMissingInLedger (rc_external_broker_order_ids rc)] else []) @
     (if rc_missing_broker_trade_ids rc \<noteq> [] then [LedgerTradesMissingInBroker (rc_missing_broker_trade_ids rc)] else []) @
     (if rc_external_broker_trade_ids rc \<noteq> [] then [BrokerTradesMissingInLedger (rc_external_broker_trade_ids rc)] else []) @
     (if rc_active_order_ids rc \<noteq> [] then [ActiveOrdersAfterRecovery (rc_active_order_ids rc)] else []) @
     (if sc_error sc \<noteq> [] then [PreviousStateUnreadable] else []) @
     (if sc_account_matches sc = Some False then [RuntimeAccountChanged] else []) @
     (if sc_differences sc \<noteq> [] then [RuntimePositionsChanged (sc_differences sc)] else [])"

subsection \<open>What recovery gives back\<close>

text \<open>The submissions of a day as the ledger holds them; only \<open>submit\<close> adds to them.\<close>

definition submit_lines :: "int \<Rightarrow> ledger \<Rightarrow> json list" where
  "submit_lines day ld = ledger_events ld (Some ''submit'') None None None (Some day) None"

lemma submit_lines_eq:
  "submit_lines day ld = filter (\<lambda>ev. jget ''kind'' ev = JStr ''submit'') (ledger_lines ld day)"
  by (simp add: submit_lines_def ledger_events_def ledger_days_def event_matches_def Let_def cong: filter_cong)

lemma submit_lines_audit:
  "submit_lines day (en_ledger (audit k p i r s en)) =
     submit_lines day (en_ledger en) @
     (if k = ''submit'' \<and> day_of (en_wall en) = day
      then [event_to_dict (make_event k p None i r s (en_wall en))] else [])"
  by (simp add: submit_lines_eq audit_def publish_at_def Let_def ledger_lines_append_event)

lemma submit_totals_snoc: "submit_totals (evs @ [ev]) = count_submit ev (submit_totals evs)"
  by (simp add: submit_totals_def)

text \<open>What an audited submission adds.\<close>

lemma count_submit_event:
  "count_submit (event_to_dict (make_event ''submit''
      (JObj [(''origin'', JStr origin), (''order_id'', JStr i), (''req'', req_json req)]) c oid r s now)) (n, v, refs) =
   (n + 1, v + rq_volume req * rq_price req,
    if rq_reference req \<noteq> [] then insert (rq_reference req) refs else refs)"
  by (simp add: count_submit_def event_req_def as_obj_def req_json_def)

text \<open>
  The counters agree with the ledger: the gate holds exactly what recovery would rebuild.
\<close>

definition recoverable :: "int \<Rightarrow> 'g engine \<Rightarrow> bool" where
  "recoverable day en \<longleftrightarrow> day_of (en_wall en) = day \<and>
     risk_counters en = Some (submit_totals (submit_lines day (en_ledger en)))"

lemma check_equity_counters:
  "rg_orders_today (snd (check_equity oms g)) = rg_orders_today g"
  "rg_value_today (snd (check_equity oms g)) = rg_value_today g"
  "rg_seen_refs (snd (check_equity oms g)) = rg_seen_refs g"
  using check_equity_frame [of oms g "fst (check_equity oms g)" "snd (check_equity oms g)"] by simp_all

text \<open>A callback changes neither the day's submissions nor the counters.\<close>

definition steady :: "int \<Rightarrow> json list \<Rightarrow> submit_count \<Rightarrow> 'g engine \<Rightarrow> bool" where
  "steady day lines c en \<longleftrightarrow> day_of (en_wall en) = day \<and> submit_lines day (en_ledger en) = lines \<and>
     risk_counters en = Some c"

lemma recoverable_steady:
  "recoverable day en \<longleftrightarrow> (\<exists>lines. steady day lines (submit_totals lines) en)"
  by (auto simp: recoverable_def steady_def)

lemma steady_safe: "callback_safe (steady day lines c)"
  by (auto simp: callback_safe_def steady_def submit_lines_audit set_halted_def)
    (auto simp: risk_counters_def check_equity_counters)

lemma recoverable_safe: "callback_safe (recoverable day)"
  unfolding recoverable_steady by (rule callback_safe_ex) (rule steady_safe)

text \<open>A priced submission keeps the agreement.\<close>

lemma recoverable_audit_submit:
  assumes "steady day lines c en"
  shows "steady day (lines @ [event_to_dict (make_event ''submit'' p None i r s (en_wall en))]) c
    (audit ''submit'' p i r s en)"
  using assms by (simp add: steady_def submit_lines_audit risk_counters_def)

context gateway_contract begin

lemma submit_recoverable:
  assumes rec: "recoverable day en" and price: "0 < rq_price req"
    and returns: "\<And>en. \<exists>i. fst (gi_send_order gi req en) = Inr i"
  shows "recoverable day (snd (submit gi req origin en))"
proof (cases "is_dry_run (en_runmode en) \<or> \<not> can_submit_orders (en_runmode en)")
  case True
  then show ?thesis using callback_safe_rules(2) [OF recoverable_safe rec] by (auto simp: submit_def)
next
  case False
  from rec obtain lines where st: "steady day lines (submit_totals lines) en" by (auto simp: recoverable_steady)
  then obtain g where g: "en_risk en = Some g" by (auto simp: steady_def risk_counters_def)
  let ?en1 = "snd (engine_risk_check req en)"
  obtain v g' where rc: "risk_check req (en_oms en) (Some \<lparr>sv_state = en_session en, sv_now = en_now en\<rparr>)
      (Some (rm_mode (en_runmode en))) (Naive (en_wall en)) g = (v, g')" by fastforce
  have en1: "?en1 = en\<lparr>en_risk := Some g'\<rparr>" "fst (engine_risk_check req en) = v"
    using rc g by (simp_all add: engine_risk_check_def Let_def)
  show ?thesis
  proof (cases "rv_ok v")
    case False
    have "risk_counters ?en1 = risk_counters en"
      using risk_check_rejected [OF rc False] g by (simp add: risk_counters_def en1)
    with st have "steady day lines (submit_totals lines) ?en1" by (simp add: steady_def en1)
    then have "recoverable day ?en1" by (auto simp: recoverable_steady)
    from callback_safe_rules(2) [OF recoverable_safe this] engine_halt_keeps [OF recoverable_safe]
    show ?thesis using \<open>\<not> (is_dry_run (en_runmode en) \<or> \<not> can_submit_orders (en_runmode en))\<close> False
      by (simp add: submit_def Let_def case_prod_beta en1(2))
  next
    case True
    obtain n amt refs where c: "submit_totals lines = (n, amt, refs)" by (metis surj_pair)
    define c' where "c' = (n + 1, amt + rq_volume req * rq_price req,
      if rq_reference req \<noteq> [] then insert (rq_reference req) refs else refs)"
    from st g c have counts: "rg_orders_today g = n" "rg_value_today g = amt" "rg_seen_refs g = refs"
      by (simp_all add: steady_def risk_counters_def)
    have "req_notional (en_oms en) req = rq_volume req * rq_price req" using price by (simp add: req_notional_def)
    with gate_step_accepted(1-3) [OF rc True] counts have "risk_counters ?en1 = Some c'"
      by (auto simp: risk_counters_def en1 c'_def)
    with st have s1: "steady day lines c' ?en1" by (simp add: steady_def en1)
    obtain i en2 where send: "gi_send_order gi req ?en1 = (Inr i, en2)"
      using returns [of ?en1] by (cases "gi_send_order gi req ?en1") auto
    have s2: "steady day lines c' en2"
      using keepsD [OF send_keeps [OF callback_safe_stable [OF steady_safe]] s1] send by (metis snd_conv)
    let ?payload = "JObj [(''origin'', JStr origin), (''order_id'', JStr i), (''req'', req_json req)]"
    let ?line = "event_to_dict (make_event ''submit'' ?payload None (Some i) (Some (rq_reference req)) ''live'' (en_wall en2))"
    let ?en3 = "audit ''submit'' ?payload (Some i) (Some (rq_reference req)) ''live'' en2"
    have tot: "submit_totals (lines @ [?line]) = c'"
      by (simp add: submit_totals_snoc count_submit_event c c'_def)
    have "steady day (lines @ [?line]) (submit_totals (lines @ [?line])) ?en3"
      unfolding tot by (rule recoverable_audit_submit [OF s2])
    then have "recoverable day ?en3" unfolding recoverable_steady by blast
    then have "recoverable day (snd (route gi req origin ?en1))"
      by (simp add: route_def op_bind_def op_then_def op_modify_def op_return_def send)
    moreover have "can_submit_orders (en_runmode en)" "rv_ok (fst (engine_risk_check req en))"
      using \<open>\<not> (is_dry_run (en_runmode en) \<or> \<not> can_submit_orders (en_runmode en))\<close> True by (simp_all add: en1(2))
    ultimately show ?thesis by (simp add: submit_accepts)
  qed
qed

end

lemma recover_counts:
  assumes "recoverable day en" "en_risk en = Some g"
  shows "rs_orders_today (recover_risk_state_from_ledger (en_ledger en) (Some day)) = Some (rg_orders_today g) \<and>
    rs_value_today (recover_risk_state_from_ledger (en_ledger en) (Some day)) = Some (rg_value_today g) \<and>
    rs_seen_refs (recover_risk_state_from_ledger (en_ledger en) (Some day)) =
      Some (sorted_list_of_set (rg_seen_refs g))"
  using assms
  by (simp add: recoverable_def risk_counters_def recover_risk_state_from_ledger_def Let_def case_prod_beta
      flip: submit_lines_def) (metis fst_conv snd_conv)

subsection \<open>A whole day\<close>

text \<open>
  The actions of one day: submitted orders carry a price, and the clock stays within the day.
\<close>

fun day_action :: "int \<Rightarrow> engine_action \<Rightarrow> bool" where
  "day_action day (ASubmit req _) = (0 < rq_price req)"
| "day_action day (ATime _ wall) = (day_of wall = day)"
| "day_action day _ = True"

lemma recoverable_subscription: "subscription_safe (recoverable day)"
  by (simp add: subscription_safe_def recoverable_safe)
    (simp add: recoverable_def risk_counters_def classify_def add_subscription_def Let_def)

lemma risk_verdict_now_counters: "risk_counters (snd (risk_verdict_now en)) = risk_counters en"
  by (simp add: risk_verdict_now_def risk_counters_def Let_def case_prod_beta check_equity_counters
      split: option.split)

lemma risk_verdict_now_frames [simp]:
  "en_wall (snd (risk_verdict_now en)) = en_wall en" "en_ledger (snd (risk_verdict_now en)) = en_ledger en"
  by (simp_all add: risk_verdict_now_def Let_def case_prod_beta split: option.split)

lemma recoverable_verdict: "recoverable day en \<Longrightarrow> recoverable day (snd (risk_verdict_now en))"
  by (simp add: recoverable_def risk_verdict_now_counters)

lemma recoverable_runmode: "recoverable day (en\<lparr>en_runmode := rm\<rparr>) = recoverable day en"
  by (simp add: recoverable_def risk_counters_def)

lemma recoverable_acknowledge:
  "recoverable day en \<Longrightarrow> recoverable day (en\<lparr>en_risk := map_option acknowledge_loss_halt (en_risk en)\<rparr>)"
  by (auto simp: recoverable_def risk_counters_def acknowledge_loss_halt_def)

lemma recoverable_resume:
  assumes "recoverable day en"
  shows "recoverable day (snd (engine_resume en))" "recoverable day (auto_resume_step auto_resume en)"
  using recoverable_verdict [OF recoverable_acknowledge [OF assms]] recoverable_verdict [OF assms] assms
  by (simp_all add: callback_safe_rules(2) [OF recoverable_safe [of day]] engine_resume_def auto_resume_step_def set_halted_def Let_def case_prod_beta
      recoverable_runmode)

context gateway_contract begin

lemma step_recoverable:
  assumes rec: "recoverable day en" and ok: "day_action day a"
    and returns: "\<And>req en. \<exists>i. fst (gi_send_order gi req en) = Inr i"
  shows "recoverable day (engine_step gi a en)"
proof -
  note safe = recoverable_safe [of day] and stable = callback_safe_stable [OF recoverable_safe [of day]]
  show ?thesis
  proof (cases a)
    case (ASubmit req origin)
    with ok submit_recoverable [OF rec _ returns] show ?thesis by simp
  next
    case (AQuote t)
    have "keeps (recoverable day :: 'g engine \<Rightarrow> bool) (on_tick [] t)" by (rule on_tick_safe [OF safe])
    with AQuote rec show ?thesis by (simp add: keepsD)
  next
    case (AReconcile s auto_resume)
    with rec keepsD [OF reconcile_keeps [OF safe recoverable_resume(2)]] show ?thesis by simp
  next
    case (ATime now wall)
    with rec ok show ?thesis by (simp add: recoverable_def risk_counters_def)
  next
    case ATickSession
    with rec show ?thesis by (simp add: recoverable_def risk_counters_def tick_session_def split: prod.split)
  qed (use rec in \<open>simp_all add: stable_rules [OF stable] cancel_keeps [OF stable] recoverable_resume
      keepsD [OF cancel_by_id_keeps [OF safe]] keepsD [OF cancel_request_keeps [OF safe]]
      engine_halt_keeps [OF safe] keepsD [OF engine_connect_keeps [OF safe]] engine_close_keeps [OF safe]
      keepsD [OF subscribe_market_data_keeps [OF recoverable_subscription]]\<close>)
qed

lemma run_recoverable:
  assumes "recoverable day en" "\<forall>a \<in> set acts. day_action day a"
    and returns: "\<And>req en. \<exists>i. fst (gi_send_order gi req en) = Inr i"
  shows "recoverable day (engine_run gi acts en)"
proof -
  have "recoverable day (fold (engine_step gi) acts en)"
    using assms(1,2)
  proof (induction acts arbitrary: en)
    case (Cons a acts)
    have "recoverable day (engine_step gi a en)"
      by (rule step_recoverable [OF Cons.prems(1) _ returns]) (simp add: Cons.prems(2))
    with Cons show ?case by simp
  qed simp
  then show ?thesis by (simp add: engine_run_def)
qed

end

lemma init_recoverable:
  assumes "engine_init mode qk tn qn now wall cal environ (Some (risk_gate_init limits enforce)) empty_ledger gw = Inr en"
  shows "recoverable (day_of wall) en"
  using assms
  by (auto simp: engine_init_def Let_def recoverable_def risk_counters_def submit_lines_eq submit_totals_def
      risk_gate_init_def ledger_lines_def empty_ledger_def simp del: run_mode_value.simps)

lemma paper_send_returns: "\<exists>i. fst (gi_send_order (paper_gateway uuid decide) req en) = Inr i"
  by (simp add: paper_gateway_def paper_send_order_def Let_def case_prod_beta)

subsection \<open>The loss latch in the ledger\<close>

lemma loss_marker_risk: "loss_marker (''risk:'' @ rule @ '':'' @ reason) = Some (split_once (CHR '':'') (rule @ '':'' @ reason))"
  by (simp add: loss_marker_def starts_with_def)

lemma loss_rule_no_colon: "rule \<in> loss_rules \<Longrightarrow> CHR '':'' \<notin> set rule"
  by (auto simp: loss_rules_def)

lemma loss_marker_roundtrip:
  assumes "rv_rule v \<in> loss_rules"
  shows "loss_marker (risk_halt_reason v) = Some (rv_rule v, rv_reason v)"
proof -
  have "loss_marker (risk_halt_reason v) = Some (split_once (CHR '':'') (rv_rule v @ CHR '':'' # rv_reason v))"
    using loss_marker_risk [of "rv_rule v" "rv_reason v"] by (simp add: risk_halt_reason_def)
  then show ?thesis by (simp add: split_once_append loss_rule_no_colon [OF assms])
qed

text \<open>The reasons that \<open>check_equity\<close> writes carry no marker of their own.\<close>

lemma fresh_loss_unmarked:
  assumes "check_equity oms g = (v, g')" "\<not> rv_ok v" "rg_loss_halt_rule g = []"
  shows "loss_marker (rv_reason v) = None"
  using assms
  by (auto simp: check_equity_def latch_loss_def reject_def passed_def Let_def loss_marker_def starts_with_def
      split: if_splits)

end
