(* ===== verification/Bars.thy ===== *)
theory Bars
  imports Live_Types
begin

section \<open>Bars from ticks\<close>

text \<open>
  \<open>systems/live/bars.py\<close>: ticks with cumulative counters are aggregated into bars of a fixed
  interval, one stream per instrument.  The bars handed to the \<open>on_bar\<close> callback are the first
  component of the result, in the order of the calls; the callback has no access to the aggregator.
\<close>

record bar =
  br_datetime :: datetime
  br_instrument :: string
  br_open :: num
  br_high :: num
  br_low :: num
  br_close :: num
  br_volume :: num
  br_amount :: num

record working_bar =
  wb_start :: datetime
  wb_open :: num
  wb_high :: num
  wb_low :: num
  wb_close :: num
  wb_base_volume :: num
  wb_base_amount :: num
  wb_last_volume :: num
  wb_last_amount :: num

definition new_working :: "datetime \<Rightarrow> num \<Rightarrow> num \<Rightarrow> num \<Rightarrow> working_bar" where
  "new_working start price cum_volume cum_amount =
     \<lparr>wb_start = start, wb_open = price, wb_high = price, wb_low = price, wb_close = price,
      wb_base_volume = cum_volume, wb_base_amount = cum_amount,
      wb_last_volume = cum_volume, wb_last_amount = cum_amount\<rparr>"

record aggregator =
  ba_interval :: int
  ba_working :: "(string \<times> working_bar) list"
  ba_carry :: "(string \<times> num \<times> num) list"

definition day_interval :: int where
  "day_interval = 86400"

definition aggregator_init :: "int \<Rightarrow> exn + aggregator" where
  "aggregator_init interval =
     (if interval \<le> 0 then Inl (ValueError ''interval must be positive seconds (or DAY_INTERVAL)'')
      else Inr \<lparr>ba_interval = interval, ba_working = [], ba_carry = []\<rparr>)"

definition midnight_of :: "datetime \<Rightarrow> datetime" where
  "midnight_of dt = dt - time_of_day dt"

definition window_start :: "int \<Rightarrow> datetime \<Rightarrow> datetime" where
  "window_start interval dt =
     (if interval \<ge> day_interval then midnight_of dt
      else midnight_of dt + (time_of_day dt div 1000000 div interval) * interval * 1000000)"

definition as_bar :: "string \<Rightarrow> working_bar \<Rightarrow> bar" where
  "as_bar key w = \<lparr>br_datetime = wb_start w, br_instrument = key, br_open = wb_open w, br_high = wb_high w,
     br_low = wb_low w, br_close = wb_close w,
     br_volume = max (wb_last_volume w - wb_base_volume w) 0,
     br_amount = max (wb_last_amount w - wb_base_amount w) 0\<rparr>"

definition close_bar :: "string \<Rightarrow> working_bar \<Rightarrow> aggregator \<Rightarrow> bar \<times> aggregator" where
  "close_bar key w ba =
     (as_bar key w, ba\<lparr>ba_carry := dict_set key (wb_last_volume w, wb_last_amount w) (ba_carry ba),
                       ba_working := dict_del key (ba_working ba)\<rparr>)"

text \<open>The first tick of a window opens a bar on the carried counters, when they still run.\<close>

definition open_bar :: "datetime \<Rightarrow> tick \<Rightarrow> aggregator \<Rightarrow> aggregator" where
  "open_bar start t ba =
     (let key = tk_key t; w = new_working start (tk_last_price t) (tk_volume t) (tk_turnover t);
          w' = (case map_of (ba_carry ba) key of
             Some (cv, ca) \<Rightarrow>
               if tk_volume t \<ge> cv
               then w\<lparr>wb_base_volume := cv, wb_base_amount := ca, wb_last_volume := max (tk_volume t) cv,
                     wb_last_amount := max (tk_turnover t) ca\<rparr>
               else w
           | None \<Rightarrow> w)
      in ba\<lparr>ba_working := dict_set key w' (ba_working ba)\<rparr>)"

definition extend_bar :: "tick \<Rightarrow> working_bar \<Rightarrow> working_bar" where
  "extend_bar t w =
     (let w1 = w\<lparr>wb_close := tk_last_price t, wb_high := max (wb_high w) (tk_last_price t),
                 wb_low := min (wb_low w) (tk_last_price t)\<rparr>
      in if tk_volume t \<ge> wb_last_volume w1
         then w1\<lparr>wb_last_volume := tk_volume t, wb_last_amount := tk_turnover t\<rparr>
         else w1\<lparr>wb_base_volume := tk_volume t, wb_last_volume := tk_volume t,
                 wb_base_amount := tk_turnover t, wb_last_amount := tk_turnover t\<rparr>)"

definition agg_on_tick :: "tick \<Rightarrow> aggregator \<Rightarrow> bar list \<times> aggregator" where
  "agg_on_tick t ba =
     (case tk_datetime t of
        None \<Rightarrow> ([], ba)
      | Some stamp \<Rightarrow>
          if tk_last_price t \<le> 0 then ([], ba)
          else
            let key = tk_key t; start = window_start (ba_interval ba) (local_time stamp)
            in case map_of (ba_working ba) key of
                 None \<Rightarrow> ([], open_bar start t ba)
               | Some w \<Rightarrow>
                   if start > wb_start w
                   then let (b, ba1) = close_bar key w ba in ([b], open_bar start t ba1)
                   else ([], ba\<lparr>ba_working := dict_set key (extend_bar t w) (ba_working ba)\<rparr>))"

fun flush_keys :: "string list \<Rightarrow> aggregator \<Rightarrow> bar list \<times> aggregator" where
  "flush_keys [] ba = ([], ba)"
| "flush_keys (key # keys) ba =
     (case map_of (ba_working ba) key of
        None \<Rightarrow> flush_keys keys ba
      | Some w \<Rightarrow> (let (b, ba1) = close_bar key w ba; (bs, ba2) = flush_keys keys ba1 in (b # bs, ba2)))"

definition agg_flush :: "string option \<Rightarrow> aggregator \<Rightarrow> bar list \<times> aggregator" where
  "agg_flush instrument ba = flush_keys
     (case instrument of Some k \<Rightarrow> if k \<noteq> [] then [k] else map fst (ba_working ba)
      | None \<Rightarrow> map fst (ba_working ba)) ba"

definition agg_current :: "string option \<Rightarrow> aggregator \<Rightarrow> bar list" where
  "agg_current instrument ba =
     (let keys = (case instrument of Some k \<Rightarrow> if k \<noteq> [] then [k] else sort (map fst (ba_working ba))
                  | None \<Rightarrow> sort (map fst (ba_working ba)))
      in List.map_filter (\<lambda>k. map_option (as_bar k) (map_of (ba_working ba) k)) keys)"

fun agg_run :: "tick list \<Rightarrow> aggregator \<Rightarrow> bar list \<times> aggregator" where
  "agg_run [] ba = ([], ba)"
| "agg_run (t # ts) ba = (let (bs, ba1) = agg_on_tick t ba; (bs', ba2) = agg_run ts ba1 in (bs @ bs', ba2))"

subsection \<open>Windows\<close>

lemma window_start_bounds:
  assumes "0 < interval" "interval < day_interval"
  shows "window_start interval dt \<le> dt \<and> dt < window_start interval dt + interval * 1000000"
proof -
  let ?s = "time_of_day dt div 1000000"
  have "?s div interval * interval = ?s - ?s mod interval" by (simp add: minus_mod_eq_div_mult)
  then have "?s div interval * interval \<le> ?s" "?s < ?s div interval * interval + interval"
    using pos_mod_sign [OF assms(1), of ?s] pos_mod_bound [OF assms(1), of ?s] by linarith+
  moreover have "?s * 1000000 \<le> time_of_day dt" "time_of_day dt < ?s * 1000000 + 1000000" by simp_all
  ultimately show ?thesis using assms
    by (auto simp: window_start_def midnight_of_def)
qed

subsection \<open>Prices and volumes\<close>

definition bar_ok :: "bar \<Rightarrow> bool" where
  "bar_ok b \<longleftrightarrow> 0 < br_low b \<and> br_low b \<le> br_open b \<and> br_open b \<le> br_high b \<and> br_low b \<le> br_close b \<and>
     br_close b \<le> br_high b \<and> 0 \<le> br_volume b \<and> 0 \<le> br_amount b"

definition working_ok :: "working_bar \<Rightarrow> bool" where
  "working_ok w \<longleftrightarrow> 0 < wb_low w \<and> wb_low w \<le> wb_open w \<and> wb_open w \<le> wb_high w \<and> wb_low w \<le> wb_close w \<and>
     wb_close w \<le> wb_high w"

definition agg_ok :: "aggregator \<Rightarrow> bool" where
  "agg_ok ba \<longleftrightarrow> (\<forall>k w. map_of (ba_working ba) k = Some w \<longrightarrow> working_ok w)"

lemma as_bar_ok: "working_ok w \<Longrightarrow> bar_ok (as_bar k w)"
  by (simp add: working_ok_def bar_ok_def as_bar_def)

lemma open_bar_ok: "agg_ok ba \<Longrightarrow> 0 < tk_last_price t \<Longrightarrow> agg_ok (open_bar start t ba)"
  by (auto simp: agg_ok_def open_bar_def Let_def AList.update_conv' working_ok_def new_working_def
      split: option.splits prod.splits if_splits)

lemma extend_bar_ok: "working_ok w \<Longrightarrow> 0 < tk_last_price t \<Longrightarrow> working_ok (extend_bar t w)"
  by (auto simp: working_ok_def extend_bar_def Let_def max_def min_def)

lemma close_bar_ok: "agg_ok ba \<Longrightarrow> agg_ok (snd (close_bar k w ba))"
  by (auto simp: agg_ok_def close_bar_def AList.delete_conv' split: if_splits)

lemma agg_on_tick_ok:
  assumes "agg_ok ba" "agg_on_tick t ba = (bs, ba')"
  shows "agg_ok ba' \<and> (\<forall>b \<in> set bs. bar_ok b)"
proof -
  have w: "working_ok w" if "map_of (ba_working ba) k = Some w" for k w
    using that assms(1) by (simp add: agg_ok_def)
  have ext: "agg_ok (ba\<lparr>ba_working := dict_set k (extend_bar t w) (ba_working ba)\<rparr>)"
    if "map_of (ba_working ba) k = Some w" "0 < tk_last_price t" for k w
    using assms(1) extend_bar_ok [OF w [OF that(1)] that(2)] by (auto simp: agg_ok_def AList.update_conv')
  show ?thesis
    using assms(2) open_bar_ok [OF assms(1)] open_bar_ok [OF close_bar_ok [OF assms(1)]] as_bar_ok w ext assms(1)
    by (auto simp: agg_on_tick_def close_bar_def Let_def not_le split: option.splits if_splits)
qed

lemma agg_run_ok: "agg_ok ba \<Longrightarrow> agg_run ts ba = (bs, ba') \<Longrightarrow> agg_ok ba' \<and> (\<forall>b \<in> set bs. bar_ok b)"
proof (induction ts arbitrary: ba bs)
  case (Cons t ts)
  obtain b1 ba1 where s: "agg_on_tick t ba = (b1, ba1)" by fastforce
  obtain b2 ba2 where r: "agg_run ts ba1 = (b2, ba2)" by fastforce
  from agg_on_tick_ok [OF Cons.prems(1) s] Cons.IH [of ba1 b2] r s Cons.prems(2) show ?case by auto
qed simp

lemma flush_keys_ok: "agg_ok ba \<Longrightarrow> flush_keys ks ba = (bs, ba') \<Longrightarrow> agg_ok ba' \<and> (\<forall>b \<in> set bs. bar_ok b)"
proof (induction ks arbitrary: ba bs)
  case (Cons k ks)
  show ?case
  proof (cases "map_of (ba_working ba) k")
    case None
    with Cons show ?thesis by simp
  next
    case (Some w)
    with Cons.prems(2) obtain b2 where r: "flush_keys ks (snd (close_bar k w ba)) = (b2, ba')"
      by (auto simp: close_bar_def Let_def split: prod.splits)
    have "working_ok w" using Some Cons.prems(1) by (simp add: agg_ok_def)
    with Cons.IH [OF close_bar_ok [OF Cons.prems(1)] r] Cons.prems(2) Some r show ?thesis
      by (auto simp: close_bar_def Let_def as_bar_ok)
  qed
qed simp

subsection \<open>Conservation of volume\<close>

text \<open>
  One instrument's ticks with running counters.  \<open>tally first done ba\<close>: the closed bars carry
  \<open>done\<close> shares, and with the working bar they account for everything traded since the first tick.
\<close>

definition tally :: "string \<Rightarrow> num \<Rightarrow> num \<Rightarrow> num \<Rightarrow> datetime \<Rightarrow> aggregator \<Rightarrow> bool" where
  "tally key first spent cum start ba \<longleftrightarrow> (\<exists>w. map_of (ba_working ba) key = Some w \<and> wb_last_volume w = cum \<and>
     wb_base_volume w \<le> cum \<and> spent + (cum - wb_base_volume w) = cum - first \<and> wb_start w = start)"

definition live_tick :: "string \<Rightarrow> tick \<Rightarrow> bool" where
  "live_tick key t \<longleftrightarrow> tk_key t = key \<and> tk_datetime t \<noteq> None \<and> 0 < tk_last_price t"

lemma tally_first:
  assumes "live_tick key t" "map_of (ba_working ba) key = None" "map_of (ba_carry ba) key = None"
  shows "\<exists>start ba'. agg_on_tick t ba = ([], ba') \<and> tally key (tk_volume t) 0 (tk_volume t) start ba'"
  using assms
  by (auto simp: live_tick_def agg_on_tick_def tally_def open_bar_def new_working_def AList.update_conv' Let_def)

lemma tally_step:
  assumes "live_tick key t" "tally key first spent cum start ba" "cum \<le> tk_volume t"
    "agg_on_tick t ba = (bs, ba')"
  shows "\<exists>start'. tally key first (spent + sum_list (map br_volume bs)) (tk_volume t) start' ba' \<and>
    start \<le> start' \<and> (bs = [] \<or> (\<exists>b. bs = [b] \<and> br_datetime b = start \<and> start < start'))"
proof -
  from assms(2) obtain w where w: "map_of (ba_working ba) key = Some w" "wb_last_volume w = cum"
    "wb_base_volume w \<le> cum" "spent + (cum - wb_base_volume w) = cum - first" "wb_start w = start"
    by (auto simp: tally_def)
  from assms(1) obtain st where st: "tk_datetime t = Some st" "tk_key t = key" "0 < tk_last_price t"
    by (auto simp: live_tick_def)
  let ?s = "window_start (ba_interval ba) (local_time st)"
  show ?thesis
  proof (cases "?s > start")
    case True
    with assms(3,4) w st have "bs = [as_bar key w]" "ba' = open_bar ?s t (snd (close_bar key w ba))"
      by (auto simp: agg_on_tick_def close_bar_def Let_def)
    with True w st assms(3) show ?thesis
      by (auto simp: tally_def open_bar_def close_bar_def as_bar_def new_working_def AList.update_conv' Let_def)
  next
    case False
    with assms(4) w st have "bs = []"
      "ba' = ba\<lparr>ba_working := dict_set key (extend_bar t w) (ba_working ba)\<rparr>"
      by (auto simp: agg_on_tick_def Let_def)
    with w assms(3) show ?thesis
      by (auto simp: tally_def extend_bar_def AList.update_conv' Let_def)
  qed
qed

lemma tally_run:
  assumes "\<forall>t \<in> set ts. live_tick key t" "tally key first spent cum start ba"
    "sorted (cum # map tk_volume ts)" "agg_run ts ba = (bs, ba')"
  shows "\<exists>start'. tally key first (spent + sum_list (map br_volume bs)) (last (cum # map tk_volume ts)) start' ba' \<and>
    sorted_wrt (<) (map br_datetime bs) \<and> (\<forall>b \<in> set bs. start \<le> br_datetime b \<and> br_datetime b < start') \<and> start \<le> start'"
  using assms
proof (induction ts arbitrary: spent cum start ba bs)
  case (Cons t ts)
  obtain b1 ba1 where s: "agg_on_tick t ba = (b1, ba1)" by fastforce
  obtain b2 where r: "agg_run ts ba1 = (b2, ba')" and bs: "bs = b1 @ b2"
    using Cons.prems(4) s by (auto simp: Let_def split: prod.splits)
  from Cons.prems obtain start1 where s1: "tally key first (spent + sum_list (map br_volume b1)) (tk_volume t) start1 ba1"
    "start \<le> start1" "b1 = [] \<or> (\<exists>b. b1 = [b] \<and> br_datetime b = start \<and> start < start1)"
    using tally_step [OF _ Cons.prems(2) _ s] by auto
  have "sorted (tk_volume t # map tk_volume ts)" using Cons.prems(3) by simp
  from Cons.IH [OF _ s1(1) this r] Cons.prems(1) obtain start2 where
    "tally key first (spent + sum_list (map br_volume b1) + sum_list (map br_volume b2)) (last (tk_volume t # map tk_volume ts)) start2 ba'"
    "sorted_wrt (<) (map br_datetime b2)" "\<forall>b \<in> set b2. start1 \<le> br_datetime b \<and> br_datetime b < start2" "start1 \<le> start2"
    by auto
  with s1(2,3) bs show ?case
    by (intro exI [of _ start2]) (force simp: add.assoc)
qed auto

lemma flush_tally:
  assumes "tally key first spent cum start ba" "key \<noteq> []" "agg_flush (Some key) ba = (bs, ba')"
  shows "spent + sum_list (map br_volume bs) = cum - first \<and> map_of (ba_working ba') key = None"
  using assms by (auto simp: tally_def agg_flush_def close_bar_def as_bar_def AList.delete_conv' Let_def)

end
