(* ===== verification/Contracts.thy ===== *)
theory Contracts
  imports OMS
begin

section \<open>The trading contracts\<close>

text \<open>
  \<open>systems/trading/contracts.py\<close>: the target portfolio, the account snapshot taken from the OMS,
  quotes, instrument metadata and the fee schedule.  An infinite fee is \<open>None\<close>.
\<close>

subsection \<open>Snapshots and targets\<close>

record account_snapshot =
  as_account_id :: string
  as_as_of :: string
  as_balance :: num
  as_available :: num
  as_positions :: "(string \<times> num) list"
  as_sellable :: "(string \<times> num) list"
  as_active_order_deltas :: "(string \<times> num) list"
  as_external_orders :: "string list"

definition add_active :: "order \<Rightarrow> (string \<times> num) list \<Rightarrow> (string \<times> num) list" where
  "add_active ord d = dict_set (od_key ord)
     (dget d (od_key ord) + (if od_direction ord = LONG then 1 else -1) * od_remaining ord) d"

definition snapshot_from_oms :: "oms \<Rightarrow> string \<Rightarrow> exn + account_snapshot" where
  "snapshot_from_oms s as_of =
     (case om_account s of
        None \<Rightarrow> Inl (RuntimeError ''OMS account snapshot is not ready'')
      | Some a \<Rightarrow> Inr
          \<lparr>as_account_id = ac_id a, as_as_of = as_of, as_balance = ac_balance a, as_available = ac_available a,
           as_positions = dict_of (map (\<lambda>p. (ps_key p, ps_volume p))
             (filter (\<lambda>p. ps_volume p \<noteq> 0) (oms_get_positions s))),
           as_sellable = dict_of (map (\<lambda>p. (ps_key p, oms_available_shares s (ps_key p))) (oms_get_positions s)),
           as_active_order_deltas = fold add_active (oms_get_active_orders s) [],
           as_external_orders = []\<rparr>)"

record target_portfolio =
  tp_date :: string
  tp_holdings :: "(string \<times> num) list"
  tp_prices :: "(string \<times> num) list"
  tp_decision_id :: string
  tp_instance_id :: string
  tp_as_of :: string
  tp_valid_until :: string
  tp_config_hash :: string

text \<open>\<open>from_holdings\<close> on rows with an optional code, amount and price.\<close>

fun holdings_from_rows ::
  "(string option \<times> num \<times> num option) list \<Rightarrow> (string \<times> num) list \<times> (string \<times> num) list \<Rightarrow>
   (string \<times> num) list \<times> (string \<times> num) list" where
  "holdings_from_rows [] acc = acc"
| "holdings_from_rows ((code, amount, price) # rows) (hs, ps) =
     (case code of
        None \<Rightarrow> holdings_from_rows rows (hs, ps)
      | Some c \<Rightarrow>
          if amount \<le> 0 then holdings_from_rows rows (hs, ps)
          else holdings_from_rows rows (dict_set c amount hs,
                 case price of Some p \<Rightarrow> dict_set c p ps | None \<Rightarrow> ps))"

definition target_from_holdings ::
  "string \<Rightarrow> (string option \<times> num \<times> num option) list \<Rightarrow> target_portfolio" where
  "target_from_holdings date rows =
     (let (hs, ps) = holdings_from_rows rows ([], [])
      in \<lparr>tp_date = date, tp_holdings = hs, tp_prices = ps, tp_decision_id = [], tp_instance_id = ''legacy'',
          tp_as_of = [], tp_valid_until = [], tp_config_hash = []\<rparr>)"

subsection \<open>Quotes and instruments\<close>

record tradable_quote =
  tq_instrument :: string
  tq_as_of :: string
  tq_last :: num
  tq_open :: num
  tq_bid :: num
  tq_ask :: num
  tq_limit_up :: num
  tq_limit_down :: num
  tq_suspended :: bool
  tq_stale :: bool
  tq_price_source :: string

definition check_quote_record :: "tradable_quote \<Rightarrow> exn + tradable_quote" where
  "check_quote_record q =
     (if str_strip (tq_instrument q) = [] \<or> tq_as_of q = []
      then Inl (ValueError ''tradable quote instrument and as_of are required'')
      else if tq_price_source q \<noteq> ''raw''
      then Inl (ValueError ''tradable quotes must use unadjusted raw prices'')
      else Inr q)"

definition executable_price :: "tradable_quote \<Rightarrow> num" where
  "executable_price q = (if tq_open q \<noteq> 0 then tq_open q else tq_last q)"

record instrument_metadata =
  im_instrument :: string
  im_asset_type :: string
  im_lot_size :: int
  im_price_tick :: num
  im_settlement_days :: int
  im_long_only :: bool

definition check_metadata :: "instrument_metadata \<Rightarrow> exn + instrument_metadata" where
  "check_metadata i =
     (if str_strip (im_instrument i) = [] then Inl (ValueError ''instrument metadata requires an instrument'')
      else if im_lot_size i \<le> 0 then Inl (ValueError ''instrument lot_size must be positive'')
      else if im_price_tick i \<le> 0 then Inl (ValueError ''instrument price_tick must be positive'')
      else if im_settlement_days i < 0 then Inl (ValueError ''instrument settlement_days must not be negative'')
      else Inr i)"

subsection \<open>Bars, signals and weights\<close>

datatype price_adjustment = ADJ_NONE | ADJ_FORWARD | ADJ_BACKWARD

record completed_bar =
  cb_datetime :: string
  cb_instrument :: string
  cb_open :: num
  cb_high :: num
  cb_low :: num
  cb_close :: num
  cb_volume :: num
  cb_amount :: num
  cb_frequency :: string
  cb_adjustment :: price_adjustment
  cb_data_version :: string
  cb_complete :: bool

text \<open>
  \<open>__post_init__\<close>: a daily bar keeps only its session date.  \<open>is_iso\<close> says which texts
  \<open>datetime.fromisoformat\<close> accepts.
\<close>

definition check_bar :: "(string \<Rightarrow> bool) \<Rightarrow> completed_bar \<Rightarrow> exn + completed_bar" where
  "check_bar is_iso b =
     (if str_strip (cb_instrument b) = [] then Inl (ValueError ''completed bar instrument is required'')
      else if cb_datetime b = [] then Inl (ValueError ''completed bar datetime is required'')
      else if \<not> cb_complete b then Inl (ValueError ''strategy input bars must be complete'')
      else if min (min (cb_open b) (cb_high b)) (min (cb_low b) (cb_close b)) \<le> 0
      then Inl (ValueError ''completed bar prices must be positive'')
      else if str_lower (cb_frequency b) = ''day'' then
        (let session = take 10 (cb_datetime b) in
         if is_iso session then Inr (b\<lparr>cb_datetime := session\<rparr>)
         else Inl (ValueError ''daily completed bar datetime must contain an ISO date''))
      else Inr b)"

datatype signal_kind = CROSS_SECTIONAL_SELECTION | INSTRUMENT_TIMING | MARKET_TIMING

datatype signal_payload =
    CrossSectional "(string \<times> num) list" "(string \<times> int) list"
  | Timing "(string \<times> num) list" "(string \<times> string) list"

fun payload_scores :: "signal_payload \<Rightarrow> (string \<times> num) list" where
  "payload_scores (CrossSectional scores _) = scores"
| "payload_scores (Timing scores _) = scores"

fun payload_states :: "signal_payload \<Rightarrow> (string \<times> string) list" where
  "payload_states (CrossSectional _ _) = []"
| "payload_states (Timing _ states) = states"

record signal_envelope =
  sg_kind :: signal_kind
  sg_source_instance_id :: string
  sg_as_of :: string
  sg_payload :: signal_payload

definition check_envelope :: "signal_envelope \<Rightarrow> exn + signal_envelope" where
  "check_envelope e =
     (if str_strip (sg_source_instance_id e) = [] then Inl (ValueError ''source_instance_id is required'')
      else if str_strip (sg_as_of e) = [] then Inl (ValueError ''as_of is required'')
      else case (sg_kind e, sg_payload e) of
          (CROSS_SECTIONAL_SELECTION, Timing _ _) \<Rightarrow>
            Inl (PyError ''TypeError'' ''cross-sectional envelope requires CrossSectionalSignal'')
        | (CROSS_SECTIONAL_SELECTION, CrossSectional _ _) \<Rightarrow> Inr e
        | (_, CrossSectional _ _) \<Rightarrow> Inl (PyError ''TypeError'' ''timing envelope requires TimingSignal'')
        | _ \<Rightarrow> Inr e)"

record portfolio_inputs =
  pf_selection :: "signal_envelope option"
  pf_instrument_timing :: "signal_envelope list"
  pf_market_timing :: "signal_envelope list"

definition check_inputs :: "portfolio_inputs \<Rightarrow> exn + portfolio_inputs" where
  "check_inputs i =
     (if (case pf_selection i of Some e \<Rightarrow> sg_kind e \<noteq> CROSS_SECTIONAL_SELECTION | None \<Rightarrow> False)
      then Inl (ValueError ''selection must use CROSS_SECTIONAL_SELECTION'')
      else if list_ex (\<lambda>e. sg_kind e \<noteq> INSTRUMENT_TIMING) (pf_instrument_timing i)
      then Inl (ValueError ''instrument_timing contains a non-instrument timing signal'')
      else if list_ex (\<lambda>e. sg_kind e \<noteq> MARKET_TIMING) (pf_market_timing i)
      then Inl (ValueError ''market_timing contains a non-market timing signal'')
      else Inr i)"

record target_weights =
  tw_as_of :: string
  tw_weights :: "(string \<times> num) list"
  tw_scores :: "(string \<times> num) list"
  tw_policy_id :: string
  tw_policy_version :: string

record operator_context =
  oc_operator_id :: string
  oc_request_id :: string
  oc_reason :: string
  oc_auth_source :: string

definition check_operator :: "operator_context \<Rightarrow> exn + operator_context" where
  "check_operator c = (if oc_operator_id c = [] \<or> oc_request_id c = []
     then Inl (ValueError ''operator_id and request_id are required'') else Inr c)"

subsection \<open>Execution plans\<close>

datatype execution_phase =
    PHASE_PLANNED | SELLING | WAITING_SELL_REPORTS | REFRESHING_ACCOUNT | BUYING | FINAL_RECONCILE
  | COMPLETED | PAUSED | FAILED

record plan_issue =
  pi_rule :: string
  pi_reason :: string
  pi_instrument :: string

record execution_child =
  ec_reference :: string
  ec_instrument :: string
  ec_side :: string
  ec_volume :: num
  ec_price :: num
  ec_child_index :: int

record child_plan =
  xp_plan_id :: string
  xp_decision_id :: string
  xp_instance_id :: string
  xp_config_hash :: string
  xp_phase :: execution_phase
  xp_children :: "execution_child list"
  xp_issues :: "plan_issue list"

definition child_plan_ok :: "child_plan \<Rightarrow> bool" where
  "child_plan_ok p \<longleftrightarrow> xp_issues p = []"

subsection \<open>Fees\<close>

record fee_schedule =
  fs_buy_rate :: num
  fs_sell_rate :: num
  fs_min_fee :: num
  fs_max_order_value :: num

definition check_fees :: "fee_schedule \<Rightarrow> exn + fee_schedule" where
  "check_fees f =
     (if min (min (fs_buy_rate f) (fs_sell_rate f)) (min (fs_min_fee f) (fs_max_order_value f)) < 0
      then Inl (ValueError ''fee rates, minimum fee and order cap must not be negative'') else Inr f)"

text \<open>The fee of a notional that is split into children of at most \<open>child_cap\<close>.\<close>

definition split_fee :: "fee_schedule \<Rightarrow> num \<Rightarrow> num \<Rightarrow> num \<Rightarrow> num" where
  "split_fee f rate child_cap v =
     (let full_children = \<lfloor>v / child_cap\<rfloor>; remaining = v - of_int full_children * child_cap;
          total = of_int full_children * max (child_cap * rate) (fs_min_fee f)
      in if remaining > 1/1000000000 then total + max (remaining * rate) (fs_min_fee f) else total)"

definition schedule_fee :: "fee_schedule \<Rightarrow> num \<Rightarrow> num \<Rightarrow> num \<Rightarrow> num option" where
  "schedule_fee f notional rate lot_notional =
     (let v = max notional 0 in
      if v \<le> 0 then Some 0
      else if fs_max_order_value f \<le> 0 then Some (max (v * rate) (fs_min_fee f))
      else
        let one_lot = max lot_notional 0 in
        if one_lot > 0
        then let lots_per_child = \<lfloor>fs_max_order_value f / one_lot\<rfloor>
             in if lots_per_child \<le> 0 then None
                else Some (split_fee f rate (of_int lots_per_child * one_lot) v)
        else Some (split_fee f rate (fs_max_order_value f) v))"

definition buy_fee :: "fee_schedule \<Rightarrow> num \<Rightarrow> num \<Rightarrow> num option" where
  "buy_fee f notional lot_notional = schedule_fee f notional (fs_buy_rate f) lot_notional"

definition sell_fee :: "fee_schedule \<Rightarrow> num \<Rightarrow> num \<Rightarrow> num option" where
  "sell_fee f notional lot_notional = schedule_fee f notional (fs_sell_rate f) lot_notional"

definition fees_ok :: "fee_schedule \<Rightarrow> bool" where
  "fees_ok f \<longleftrightarrow> 0 \<le> fs_buy_rate f \<and> 0 \<le> fs_sell_rate f \<and> 0 \<le> fs_min_fee f \<and> 0 \<le> fs_max_order_value f"

lemma check_fees_ok: "check_fees f = Inr f' \<Longrightarrow> f' = f \<and> fees_ok f"
  by (auto simp: check_fees_def fees_ok_def min_def split: if_splits)

lemma floor_div_parts:
  assumes "0 < c" "0 \<le> (v :: num)"
  shows "0 \<le> \<lfloor>v / c\<rfloor>" "0 \<le> v - of_int \<lfloor>v / c\<rfloor> * c" "v - of_int \<lfloor>v / c\<rfloor> * c < c"
proof -
  show "0 \<le> \<lfloor>v / c\<rfloor>" using assms by simp
  have "of_int \<lfloor>v / c\<rfloor> \<le> v / c" "v / c < of_int \<lfloor>v / c\<rfloor> + 1" by linarith+
  then have "of_int \<lfloor>v / c\<rfloor> * c \<le> v" "v < (of_int \<lfloor>v / c\<rfloor> + 1) * c"
    using assms(1) pos_le_divide_eq [of c _ v] pos_divide_less_eq [of c v] by blast+
  then show "0 \<le> v - of_int \<lfloor>v / c\<rfloor> * c" "v - of_int \<lfloor>v / c\<rfloor> * c < c"
    unfolding distrib_right by linarith+
qed

text \<open>Splitting never costs less than the proportional fee, but for the ignored residue.\<close>

lemma split_fee_covers:
  assumes "0 < c" "0 \<le> v" "0 \<le> rate" "0 \<le> fs_min_fee f"
  shows "v * rate - rate / 1000000000 \<le> split_fee f rate c v"
proof -
  let ?n = "of_int \<lfloor>v / c\<rfloor> :: num"
  let ?r = "v - ?n * c"
  note parts = floor_div_parts [OF assms(1,2)]
  have n: "0 \<le> ?n" using parts(1) by simp
  have "?n * (c * rate) \<le> ?n * max (c * rate) (fs_min_fee f)" by (rule mult_left_mono [OF _ n]) simp
  moreover have "v * rate = ?n * (c * rate) + ?r * rate" by (simp add: algebra_simps)
  moreover have "?r * rate \<le> 1/1000000000 * rate" if "\<not> ?r > 1/1000000000"
    by (rule mult_right_mono) (use that assms(3) in auto)
  moreover have "?r * rate \<le> max (?r * rate) (fs_min_fee f)" by simp
  ultimately show ?thesis using assms(3) by (auto simp: split_fee_def Let_def)
qed

lemma schedule_fee_covers:
  assumes "0 \<le> rate" "0 \<le> fs_min_fee f" "schedule_fee f notional rate lot = Some fee"
  shows "notional * rate - rate / 1000000000 \<le> fee"
proof (cases "notional \<le> 0")
  case True
  with assms have "fee = 0" "notional * rate \<le> 0" by (simp_all add: schedule_fee_def mult_nonpos_nonneg)
  with assms(1) show ?thesis by (simp add: add_increasing2)
next
  case False
  then have v: "max notional 0 = notional" "0 < notional" by simp_all
  have lots: "0 < of_int \<lfloor>x\<rfloor> * y" if "\<not> \<lfloor>x :: num\<rfloor> \<le> 0" "0 < (y :: num)" for x y
    using that by simp
  have base: "notional * rate - rate / 1000000000 \<le> max (notional * rate) (fs_min_fee f)"
    using assms(1) by (simp add: max_def)
  show ?thesis using assms v split_fee_covers [of _ notional rate f] base lots
    by (auto simp: schedule_fee_def Let_def split: if_splits)
qed

subsection \<open>Dictionaries of numbers\<close>

lemma add_active_get:
  "dget (add_active ord d) k =
     dget d k + (if od_key ord = k then (if od_direction ord = LONG then 1 else -1) * od_remaining ord else 0)"
  by (simp add: add_active_def dget_set)

text \<open>The working delta of an instrument is the signed sum of its orders' remaining volumes.\<close>

lemma active_delta:
  "dget (fold add_active ords d) k = dget d k + sum_list (map (\<lambda>ord. (if od_direction ord = LONG then 1 else -1) *
     od_remaining ord) (filter (\<lambda>ord. od_key ord = k) ords))"
  by (induction ords arbitrary: d) (simp_all add: add_active_get)

end
