(* ===== verification/Lots.thy ===== *)
theory Lots
  imports Prelude
begin

section \<open>Board lots and child orders\<close>

text \<open>
  \<open>_floor_lot\<close> and \<open>_chunks\<close>, which \<open>systems/live/planner.py\<close> and
  \<open>systems/trading/planning.py\<close> share: rounding a volume down to whole lots, and cutting a volume
  into child orders under a value cap.  The loop is a recursion whose remaining volume falls by at
  least one share a turn.
\<close>

definition floor_lot :: "num \<Rightarrow> int \<Rightarrow> num" where
  "floor_lot v lot = (if lot > 0 then of_int (\<lfloor>v / of_int lot\<rfloor> * lot) else of_int \<lfloor>max v 0\<rfloor>)"

text \<open>A lot size of zero or less means single shares.\<close>

definition lot_unit :: "int \<Rightarrow> int" where
  "lot_unit lot = (if lot > 0 then lot else 1)"

lemma lot_unit_pos [simp]: "0 < lot_unit lot" "1 \<le> lot_unit lot"
  by (simp_all add: lot_unit_def)

lemma lot_unit_max: "max lot 1 = lot_unit lot"
  by (auto simp: lot_unit_def)

lemma floor_lot_unit: "0 \<le> v \<Longrightarrow> floor_lot v lot = of_int (\<lfloor>v / of_int (lot_unit lot)\<rfloor> * lot_unit lot)"
  by (simp add: floor_lot_def lot_unit_def)

lemma floor_lot_Ints: "floor_lot v lot \<in> \<int>"
  by (simp add: floor_lot_def)

lemma floor_lot_le: "0 \<le> v \<Longrightarrow> floor_lot v lot \<le> v"
  using floor_lots_le [OF lot_unit_pos(1)] by (simp add: floor_lot_unit)

lemma floor_lot_gt: "0 \<le> v \<Longrightarrow> v < floor_lot v lot + of_int (lot_unit lot)"
  using floor_lots_gt [OF lot_unit_pos(1)] by (simp add: floor_lot_unit)

lemma floor_lot_nonneg: "0 \<le> v \<Longrightarrow> 0 \<le> floor_lot v lot"
  by (auto simp: floor_lot_def)

lemma floor_lot_pos_arg:
  assumes "0 < floor_lot v lot"
  shows "0 \<le> v"
proof (cases "0 < lot")
  case True
  with assms have "(0 :: num) < of_int (\<lfloor>v / of_int lot\<rfloor> * lot)" by (simp add: floor_lot_def)
  then have "0 < \<lfloor>v / of_int lot\<rfloor> * lot" unfolding of_int_0_less_iff .
  with True have "0 < \<lfloor>v / of_int lot\<rfloor>" by (simp add: zero_less_mult_iff)
  then have "0 \<le> v / of_int lot" by linarith
  moreover have "(0 :: num) < of_int lot" using True by simp
  ultimately show ?thesis by (simp add: zero_le_divide_iff)
qed (use assms in \<open>auto simp: floor_lot_def max_def split: if_splits\<close>)

lemma floor_lot_whole: "0 \<le> v \<Longrightarrow> is_lots (lot_unit lot) (floor_lot v lot)"
  by (auto simp: floor_lot_unit is_lots_iff)

lemma floor_lot_id: "0 \<le> v \<Longrightarrow> is_lots (lot_unit lot) v \<Longrightarrow> floor_lot v lot = v"
  by (simp add: floor_lot_unit is_lots_def)

lemma floor_lot_pos_ge: "0 \<le> v \<Longrightarrow> 0 < floor_lot v lot \<Longrightarrow> of_int (lot_unit lot) \<le> floor_lot v lot"
  using is_lots_pos_ge [OF lot_unit_pos(1) floor_lot_whole] by blast

lemma floor_lot_zero_iff: "0 \<le> v \<Longrightarrow> floor_lot v lot \<le> 0 \<longleftrightarrow> v < of_int (lot_unit lot)"
  using floor_lot_gt [of v lot] floor_lot_le [of v lot] floor_lot_pos_ge [of v lot] by linarith

subsection \<open>The loop\<close>

lemma positive_Int_ge_1: "(x :: num) \<in> \<int> \<Longrightarrow> 0 < x \<Longrightarrow> 1 \<le> x"
  by (metis Ints_cases int_one_le_iff_zero_less of_int_0_less_iff of_int_1_le_iff)

lemma loop_decreases: "1 \<le> (c :: num) \<Longrightarrow> \<lceil>r - c\<rceil> < \<lceil>r\<rceil>"
  by linarith

function chunk_loop :: "num \<Rightarrow> int \<Rightarrow> num \<Rightarrow> num list" where
  "chunk_loop cap lot remaining =
     (if remaining \<le> 0 then []
      else let child = floor_lot (min remaining cap) lot
           in if child \<le> 0 then [] else child # chunk_loop cap lot (remaining - child))"
  by pat_completeness auto
termination
  by (relation "measure (\<lambda>(cap, lot, remaining). nat \<lceil>remaining\<rceil>)")
    (auto simp: not_le intro!: loop_decreases positive_Int_ge_1 floor_lot_Ints)

declare chunk_loop.simps [simp del]

text \<open>The positive caps among the order value and the share of equity, and the chunks under them.\<close>

definition value_caps :: "num \<Rightarrow> num \<Rightarrow> num \<Rightarrow> num list" where
  "value_caps max_order_value max_order_equity_pct equity =
     filter (\<lambda>v. v > 0) [max_order_value, max_order_equity_pct * max equity 0]"

definition chunk_volumes :: "num list \<Rightarrow> num \<Rightarrow> num \<Rightarrow> int \<Rightarrow> num list" where
  "chunk_volumes caps volume price lot =
     (if caps = [] \<or> price \<le> 0 then [volume]
      else let cap = floor_lot (Min (set caps) / price) lot
           in if cap \<le> 0 then [] else chunk_loop cap lot volume)"

text \<open>Every child is a positive whole number of lots under the cap, and the children add up.\<close>

lemma chunk_loop_children:
  "c \<in> set (chunk_loop cap lot r) \<Longrightarrow> 0 < c \<and> c \<le> cap \<and> is_lots (lot_unit lot) c"
proof (induction cap lot r rule: chunk_loop.induct)
  case (1 cap lot r)
  let ?x = "floor_lot (min r cap) lot"
  show ?case
  proof (cases "0 < r \<and> 0 < ?x")
    case False
    with 1 show ?thesis by (subst (asm) (2) chunk_loop.simps) (auto simp: Let_def split: if_splits)
  next
    case True
    then have "0 \<le> min r cap" using floor_lot_pos_arg by blast
    with True have "?x \<le> cap" "is_lots (lot_unit lot) ?x"
      using floor_lot_le [of "min r cap" lot] floor_lot_whole [of "min r cap" lot] by simp_all
    with 1 True show ?thesis by (subst (asm) (2) chunk_loop.simps) (auto simp: Let_def)
  qed
qed

lemma chunk_loop_sum:
  assumes "is_lots (lot_unit lot) cap" "0 < cap"
  shows "is_lots (lot_unit lot) r \<Longrightarrow> 0 \<le> r \<Longrightarrow> sum_list (chunk_loop cap lot r) = r"
  using assms
proof (induction cap lot r rule: chunk_loop.induct)
  case (1 cap lot r)
  show ?case
  proof (cases "r = 0")
    case False
    let ?x = "floor_lot (min r cap) lot"
    have x: "?x = min r cap" using 1 by (intro floor_lot_id) (auto simp: min_def)
    with 1 False have pos: "0 < ?x" "0 < r" by auto
    have "is_lots (lot_unit lot) (r - ?x)" "0 \<le> r - ?x"
      using 1 x by (auto simp: min_def is_lots_diff)
    with 1 pos show ?thesis by (subst chunk_loop.simps) (simp add: Let_def)
  qed (simp add: chunk_loop.simps)
qed

lemma chunk_volumes_sum:
  assumes "is_lots (lot_unit lot) volume" "0 < volume"
  shows "sum_list (chunk_volumes caps volume price lot) \<in> {0, volume}"
    and "sum_list (chunk_volumes caps volume price lot) = 0 \<longleftrightarrow> chunk_volumes caps volume price lot = []"
proof -
  let ?cap = "floor_lot (Min (set caps) / price) lot"
  have whole: "is_lots (lot_unit lot) ?cap" if "0 < ?cap"
    by (rule floor_lot_whole [OF floor_lot_pos_arg [OF that]])
  from assms show "sum_list (chunk_volumes caps volume price lot) \<in> {0, volume}"
    by (auto simp: chunk_volumes_def Let_def chunk_loop_sum whole)
  from assms show "sum_list (chunk_volumes caps volume price lot) = 0 \<longleftrightarrow> chunk_volumes caps volume price lot = []"
    by (auto simp: chunk_volumes_def Let_def chunk_loop_sum whole) (use chunk_loop_sum whole in fastforce)
qed

lemma chunk_volumes_children:
  assumes "c \<in> set (chunk_volumes caps volume price lot)" "0 < volume" "is_lots (lot_unit lot) volume"
  shows "0 < c" "is_lots (lot_unit lot) c" "price > 0 \<Longrightarrow> x \<in> set caps \<Longrightarrow> 0 \<le> x \<Longrightarrow> c * price \<le> x"
proof -
  show "0 < c" "is_lots (lot_unit lot) c"
    using assms by (auto simp: chunk_volumes_def Let_def dest: chunk_loop_children split: if_splits)
  assume p: "price > 0" "x \<in> set caps" "0 \<le> x"
  then have c: "c \<le> floor_lot (Min (set caps) / price) lot" "0 < floor_lot (Min (set caps) / price) lot"
    using assms by (auto simp: chunk_volumes_def Let_def dest: chunk_loop_children split: if_splits)
  from floor_lot_pos_arg [OF c(2)] have "c \<le> Min (set caps) / price" using floor_lot_le c(1) order_trans by blast
  then have "c * price \<le> Min (set caps)" using p(1) by (simp add: pos_le_divide_eq)
  moreover have "Min (set caps) \<le> x" using p(2) by simp
  ultimately show "c * price \<le> x" by simp
qed

end
