(* ===== verification/Planner.thy ===== *)
theory Planner
  imports Contracts Lots Ledger "HOL-Library.Product_Lexorder" "HOL-Library.Multiset"
begin

section \<open>The live execution planner\<close>

text \<open>
  \<open>systems/live/planner.py\<close>: the difference between a complete target book and the account
  (positions plus working orders), as board-lot orders under the value caps.  Ids are hashes of
  JSON text; the hash is the parameter \<open>stable_id\<close>.  The lemmas bound what the orders of an
  instrument add up to, and give their shape, their order and their references.
\<close>

record planner =
  pl_lot_size :: int
  pl_max_order_value :: num
  pl_max_order_equity_pct :: num

definition planner_init :: "int \<Rightarrow> num \<Rightarrow> num \<Rightarrow> planner" where
  "planner_init lot_size max_order_value max_order_equity_pct =
     \<lparr>pl_lot_size = max lot_size 0, pl_max_order_value = max max_order_value 0,
      pl_max_order_equity_pct = max max_order_equity_pct 0\<rparr>"

record execution_plan =
  ep_plan_id :: string
  ep_decision_id :: string
  ep_instance_id :: string
  ep_requests :: "order_request list"
  ep_issues :: "plan_issue list"

definition plan_ok :: "execution_plan \<Rightarrow> bool" where
  "plan_ok p \<longleftrightarrow> ep_issues p = []"

definition price_for :: "target_portfolio \<Rightarrow> string \<Rightarrow> string \<Rightarrow> oms \<Rightarrow> num" where
  "price_for t raw_symbol key s =
     (if dget (tp_prices t) raw_symbol > 0 then dget (tp_prices t) raw_symbol
      else if dget (tp_prices t) key > 0 then dget (tp_prices t) key
      else case oms_get_tick s key of Some tk \<Rightarrow> tk_last_price tk | None \<Rightarrow> 0)"

definition lot_for :: "planner \<Rightarrow> string \<Rightarrow> oms \<Rightarrow> int" where
  "lot_for pl key s = (case oms_get_contract s key of
     Some c \<Rightarrow> if ct_lot_size c \<noteq> 0 then ct_lot_size c else pl_lot_size pl
   | None \<Rightarrow> pl_lot_size pl)"

text \<open>What the plan knows of an instrument: code, exchange, price and lot size.\<close>

type_synonym key_meta = "string \<times> exchange \<times> num \<times> int"

definition want_row ::
  "planner \<Rightarrow> target_portfolio \<Rightarrow> oms \<Rightarrow> string \<times> num \<Rightarrow>
   (string \<times> num) list \<times> (string \<times> key_meta) list \<Rightarrow> (string \<times> num) list \<times> (string \<times> key_meta) list" where
  "want_row pl t s row st = (case row of (raw_symbol, shares) \<Rightarrow> case st of (wanted, meta) \<Rightarrow>
     let (code, ex) = normalize_symbol raw_symbol; key = symbol_key code ex
     in (dict_set key (max shares 0) wanted,
         dict_set key (code, ex, price_for t raw_symbol key s, lot_for pl key s) meta))"

definition held_row ::
  "planner \<Rightarrow> target_portfolio \<Rightarrow> oms \<Rightarrow> position \<Rightarrow> (string \<times> key_meta) list \<Rightarrow> (string \<times> key_meta) list" where
  "held_row pl t s p meta =
     (if map_of meta (ps_key p) \<noteq> None then meta
      else dict_set (ps_key p) (ps_code p, ps_exchange p, price_for t (ps_key p) (ps_key p) s,
             lot_for pl (ps_key p) s) meta)"

definition plan_chunks :: "planner \<Rightarrow> num \<Rightarrow> num \<Rightarrow> int \<Rightarrow> num \<Rightarrow> num list" where
  "plan_chunks pl volume price lot equity =
     chunk_volumes (value_caps (pl_max_order_value pl) (pl_max_order_equity_pct pl) equity) volume price lot"

definition child_reference :: "string \<Rightarrow> string \<Rightarrow> string \<Rightarrow> nat \<Rightarrow> string" where
  "child_reference prefix key side i = prefix @ key @ '':'' @ side @ '':'' @ nat_digits i"

definition reference_prefix :: "target_portfolio \<Rightarrow> string \<Rightarrow> string" where
  "reference_prefix t decision_id = or_text (tp_instance_id t) ''legacy'' @ '':'' @
     or_text (tp_config_hash t) ''-'' @ '':'' @ decision_id @ '':''"

text \<open>A sell is limited by the sellable shares.\<close>

definition limit_sell :: "num \<Rightarrow> num \<Rightarrow> num" where
  "limit_sell delta sellable = (if delta < 0 then - (min \<bar>delta\<bar> sellable) else delta)"

text \<open>One turn of the planning loop: the orders and the issues of one instrument.\<close>

definition plan_key ::
  "planner \<Rightarrow> string \<Rightarrow> num \<Rightarrow> num \<Rightarrow> num \<Rightarrow> num \<Rightarrow> string \<Rightarrow> key_meta \<Rightarrow> order_request list \<times> plan_issue list" where
  "plan_key pl prefix equity wanted effective sellable key m = (case m of (code, ex, price, lot) \<Rightarrow>
     let delta = wanted - effective in
     if \<bar>delta\<bar> < of_int (max lot 1) then ([], [])
     else if price \<le> 0 \<and> delta > 0 then
       ([], [\<lparr>pi_rule = ''missing_price'', pi_reason = ''positive live/reference price is required'',
              pi_instrument = key\<rparr>])
     else
       let delta' = limit_sell delta sellable; volume = floor_lot \<bar>delta'\<bar> lot in
       if volume \<le> 0 then ([], [])
       else
         (map (\<lambda>(i, child).
            (if delta' > 0
             then buy_request code ex child price LIMIT (child_reference prefix key ''B'' i)
             else sell_request code ex child price LIMIT (child_reference prefix key ''S'' i)))
            (enumerate 0 (plan_chunks pl volume price lot equity)), []))"

definition plan_keys ::
  "(string \<times> num) list \<Rightarrow> account_snapshot \<Rightarrow> string list" where
  "plan_keys wanted snap = sort (remdups (map fst wanted @ map fst (as_positions snap)))"

definition plan_step ::
  "planner \<Rightarrow> string \<Rightarrow> account_snapshot \<Rightarrow> (string \<times> num) list \<Rightarrow> (string \<times> key_meta) list \<Rightarrow> string \<Rightarrow>
   exn + (order_request list \<times> plan_issue list)" where
  "plan_step pl prefix snap wanted meta key = (case map_of meta key of
     None \<Rightarrow> Inl (PyError ''KeyError'' key)
   | Some m \<Rightarrow> Inr (plan_key pl prefix (as_balance snap) (dget wanted key)
       (dget (as_positions snap) key + dget (as_active_order_deltas snap) key) (dget (as_sellable snap) key) key m))"

fun plan_all :: "(string \<Rightarrow> exn + (order_request list \<times> plan_issue list)) \<Rightarrow> string list \<Rightarrow>
  exn + (order_request list \<times> plan_issue list)" where
  "plan_all step [] = Inr ([], [])"
| "plan_all step (key # keys) = (case step key of
     Inl e \<Rightarrow> Inl e
   | Inr (reqs, issues) \<Rightarrow> (case plan_all step keys of
       Inl e \<Rightarrow> Inl e | Inr (reqs', issues') \<Rightarrow> Inr (reqs @ reqs', issues @ issues')))"

definition plan_order :: "order_request \<Rightarrow> bool \<times> string \<times> string" where
  "plan_order r = (rq_direction r \<noteq> SHORT, rq_key r, rq_reference r)"

definition decision_id_of :: "(json list \<Rightarrow> string) \<Rightarrow> target_portfolio \<Rightarrow> string" where
  "decision_id_of stable_id t = or_text (tp_decision_id t)
     (stable_id [JStr (tp_instance_id t), JStr (tp_config_hash t), JStr (tp_date t),
        JObj (map (\<lambda>(k, v). (k, JNum v)) (tp_holdings t))])"

definition plan_tables ::
  "planner \<Rightarrow> target_portfolio \<Rightarrow> oms \<Rightarrow> (string \<times> num) list \<times> (string \<times> key_meta) list" where
  "plan_tables pl t s = (case fold (want_row pl t s) (tp_holdings t) ([], []) of
     (wanted, meta) \<Rightarrow> (wanted, fold (held_row pl t s) (oms_get_positions s) meta))"

definition plan_execution ::
  "(json list \<Rightarrow> string) \<Rightarrow> planner \<Rightarrow> target_portfolio \<Rightarrow> oms \<Rightarrow> exn + execution_plan" where
  "plan_execution stable_id pl t s =
     (let decision_id = decision_id_of stable_id t in
      case snapshot_from_oms s (tp_as_of t) of
        Inl e \<Rightarrow> Inl e
      | Inr snap \<Rightarrow> (case plan_tables pl t s of (wanted, meta) \<Rightarrow>
          case plan_all (plan_step pl (reference_prefix t decision_id) snap wanted meta) (plan_keys wanted snap) of
            Inl e \<Rightarrow> Inl e
          | Inr (reqs, issues) \<Rightarrow> Inr
              \<lparr>ep_plan_id = stable_id [JStr ''plan'', JStr decision_id], ep_decision_id = decision_id,
               ep_instance_id = or_text (tp_instance_id t) ''legacy'',
               ep_requests = sort_key plan_order reqs, ep_issues = issues\<rparr>))"

subsection \<open>Totals of a list of orders\<close>

definition signed_volume :: "order_request \<Rightarrow> num" where
  "signed_volume r = (if rq_direction r = LONG then rq_volume r else - rq_volume r)"

definition net_volume :: "string \<Rightarrow> order_request list \<Rightarrow> num" where
  "net_volume key reqs = sum_list (map signed_volume (filter (\<lambda>r. rq_key r = key) reqs))"

lemma net_volume_append: "net_volume key (a @ b) = net_volume key a + net_volume key b"
  by (simp add: net_volume_def)

lemma net_volume_sort: "net_volume key (sort_key f reqs) = net_volume key reqs"
proof -
  have eq: "mset (filter P (sort_key f reqs)) = mset (filter P reqs)" for P by simp
  have "mset (map signed_volume (filter (\<lambda>r. rq_key r = key) (sort_key f reqs))) =
      mset (map signed_volume (filter (\<lambda>r. rq_key r = key) reqs))"
    unfolding mset_map eq ..
  then show ?thesis unfolding net_volume_def by (metis sum_mset_sum_list)
qed

lemma net_volume_other: "(\<And>r. r \<in> set reqs \<Longrightarrow> rq_key r \<noteq> key) \<Longrightarrow> net_volume key reqs = 0"
proof -
  assume "\<And>r. r \<in> set reqs \<Longrightarrow> rq_key r \<noteq> key"
  then have "filter (\<lambda>r. rq_key r = key) reqs = []" by (simp add: filter_empty_conv)
  then show ?thesis by (simp add: net_volume_def)
qed

subsection \<open>The orders of one instrument\<close>

text \<open>An instrument's entry names the instrument itself.\<close>

definition meta_ok :: "string \<Rightarrow> key_meta \<Rightarrow> bool" where
  "meta_ok key m \<longleftrightarrow> (case m of (code, ex, price, lot) \<Rightarrow> symbol_key code ex = key)"

definition meta_lot :: "key_meta \<Rightarrow> int" where
  "meta_lot m = (case m of (code, ex, price, lot) \<Rightarrow> lot)"

definition meta_price :: "key_meta \<Rightarrow> num" where
  "meta_price m = (case m of (code, ex, price, lot) \<Rightarrow> price)"

lemma limit_sell_abs: "0 \<le> sellable \<Longrightarrow>
  \<bar>limit_sell delta sellable\<bar> = (if delta < 0 then min \<bar>delta\<bar> sellable else \<bar>delta\<bar>)"
  by (auto simp: limit_sell_def min_def)

lemma request_fields [simp]:
  "rq_key (buy_request c ex v p ty ref) = symbol_key c ex" "rq_key (sell_request c ex v p ty ref) = symbol_key c ex"
  "rq_direction (buy_request c ex v p ty ref) = LONG" "rq_direction (sell_request c ex v p ty ref) = SHORT"
  "rq_volume (buy_request c ex v p ty ref) = v" "rq_volume (sell_request c ex v p ty ref) = v"
  "rq_reference (buy_request c ex v p ty ref) = ref" "rq_reference (sell_request c ex v p ty ref) = ref"
  "rq_price (buy_request c ex v p ty ref) = p" "rq_price (sell_request c ex v p ty ref) = p"
  by (simp_all add: buy_request_def sell_request_def rq_key_def)

lemma enumerate_value: "(i, x) \<in> set (enumerate n xs) \<Longrightarrow> x \<in> set xs"
  by (induction xs arbitrary: n) auto

lemma value_caps_pos: "x \<in> set (value_caps a b equity) \<Longrightarrow> 0 \<le> x"
  by (auto simp: value_caps_def split: if_splits)

lemma enumerate_mapE:
  assumes "r \<in> set (map (\<lambda>(i, x). g i x) (enumerate n xs))"
  obtains i x where "x \<in> set xs" "r = g i x"
  using assms enumerate_value by fastforce

text \<open>Either no order, or the chunks of the floored volume on the side of the difference.\<close>

lemma plan_key_cases:
  fixes wanted effective sellable :: num
  assumes "0 \<le> sellable"
  defines "delta \<equiv> wanted - effective" and "d \<equiv> limit_sell (wanted - effective) sellable"
  obtains (none) "fst (plan_key pl prefix equity wanted effective sellable key m) = []"
  | (orders) code ex price lot where "m = (code, ex, price, lot)" "of_int (lot_unit lot) \<le> \<bar>delta\<bar>"
      "0 < price \<or> delta < 0" "0 < floor_lot \<bar>d\<bar> lot" "delta < 0 \<longleftrightarrow> \<not> 0 < d"
      "fst (plan_key pl prefix equity wanted effective sellable key m) = map (\<lambda>(i, child).
         (if 0 < d then buy_request code ex child price LIMIT (child_reference prefix key ''B'' i)
          else sell_request code ex child price LIMIT (child_reference prefix key ''S'' i)))
         (enumerate 0 (plan_chunks pl (floor_lot \<bar>d\<bar> lot) price lot equity))"
proof (cases m)
  case (fields code ex price lot)
  show thesis
  proof (cases "\<bar>delta\<bar> < of_int (max lot 1) \<or> price \<le> 0 \<and> delta > 0 \<or> floor_lot \<bar>d\<bar> lot \<le> 0")
    case True
    with fields have "fst (plan_key pl prefix equity wanted effective sellable key m) = []"
      by (auto simp: plan_key_def delta_def d_def Let_def)
    then show thesis by (rule none)
  next
    case False
    have unit: "(1 :: num) \<le> of_int (lot_unit lot)" by (metis lot_unit_pos(2) of_int_1_le_iff)
    from False have big: "of_int (lot_unit lot) \<le> \<bar>delta\<bar>" "0 < floor_lot \<bar>d\<bar> lot"
      by (simp_all add: lot_unit_max not_less)
    from order_trans [OF unit big(1)] have nz: "delta \<noteq> 0" by auto
    with False have lot: "0 < price \<or> delta < 0" by auto
    have side: "delta < 0 \<longleftrightarrow> \<not> 0 < d"
      using nz assms(1) by (auto simp: d_def delta_def limit_sell_def)
    show thesis by (rule orders [OF fields big(1) lot big(2) side]) (use False fields in \<open>auto simp: plan_key_def delta_def d_def Let_def\<close>)
  qed
qed

lemma enumerate_map_snd: "map (\<lambda>(i, x). f x) (enumerate n xs) = map f xs"
  by (induction xs arbitrary: n) simp_all

lemma plan_key_requests:
  assumes "0 \<le> sellable" "meta_ok key m" "r \<in> set (fst (plan_key pl prefix equity wanted effective sellable key m))"
  shows "rq_key r = key \<and> 0 < rq_volume r \<and> is_lots (lot_unit (meta_lot m)) (rq_volume r) \<and>
     (0 < meta_price m \<longrightarrow> (\<forall>x \<in> set (value_caps (pl_max_order_value pl) (pl_max_order_equity_pct pl) equity).
        rq_volume r * meta_price m \<le> x))"
proof (cases rule: plan_key_cases [OF assms(1), where pl = pl and prefix = prefix and equity = equity
    and wanted = wanted and effective = effective and key = key and m = m, case_names none orders])
  case none
  with assms(3) show ?thesis by simp
next
  case (orders code ex price lot)
  let ?caps = "value_caps (pl_max_order_value pl) (pl_max_order_equity_pct pl) equity"
  let ?v = "floor_lot \<bar>limit_sell (wanted - effective) sellable\<bar> lot"
  obtain i c where c: "c \<in> set (chunk_volumes ?caps ?v price lot)"
    and req: "r = (if 0 < limit_sell (wanted - effective) sellable
      then buy_request code ex c price LIMIT (child_reference prefix key ''B'' i)
      else sell_request code ex c price LIMIT (child_reference prefix key ''S'' i))"
    using assms(3) unfolding orders(6) plan_chunks_def by (rule enumerate_mapE)
  then have r: "rq_key r = symbol_key code ex" "rq_volume r = c" by simp_all
  note chunk = chunk_volumes_children [OF c orders(4) floor_lot_whole [OF abs_ge_zero]]
  have "c * price \<le> x" if "0 < price" "x \<in> set ?caps" for x
    using that value_caps_pos by (intro chunk(3)) auto
  with chunk r orders(1) assms(2) show ?thesis by (simp add: meta_ok_def meta_lot_def meta_price_def)
qed

text \<open>
  What the orders of one instrument add up to: nothing, or the whole difference rounded down to
  lots, a sell limited first by the sellable shares.
\<close>

lemma plan_key_net:
  fixes pl :: planner and prefix :: string and equity wanted effective :: num
  assumes "0 \<le> sellable" "meta_ok key m"
  defines "reqs \<equiv> fst (plan_key pl prefix equity wanted effective sellable key m)"
    and "d \<equiv> limit_sell (wanted - effective) sellable"
  shows "reqs = [] \<or> net_volume key reqs = (if 0 < d then 1 else -1) * floor_lot \<bar>d\<bar> (meta_lot m)"
proof (cases rule: plan_key_cases [OF assms(1), where pl = pl and prefix = prefix and equity = equity
    and wanted = wanted and effective = effective and key = key and m = m, case_names none orders])
  case none
  then show ?thesis by (simp add: reqs_def)
next
  case (orders code ex price lot)
  let ?v = "floor_lot \<bar>d\<bar> lot" and ?sign = "(if 0 < d then 1 else -1) :: num"
  let ?cs = "plan_chunks pl ?v price lot equity"
  have key: "symbol_key code ex = key" using assms(2) orders(1) by (simp add: meta_ok_def)
  have "filter (\<lambda>r. rq_key r = key) reqs = reqs"
    using plan_key_requests [OF assms(1,2)] by (auto simp: reqs_def filter_id_conv)
  moreover have "map signed_volume reqs = map (\<lambda>(i, c). ?sign * c) (enumerate 0 ?cs)"
    using orders(6) by (auto simp: reqs_def d_def signed_volume_def)
  ultimately have net: "net_volume key reqs = ?sign * sum_list ?cs"
    by (simp add: net_volume_def enumerate_map_snd sum_list_const_mult)
  have "sum_list ?cs \<in> {0, ?v}" "sum_list ?cs = 0 \<longleftrightarrow> ?cs = []"
    using chunk_volumes_sum [OF floor_lot_whole [OF abs_ge_zero]] orders(4) by (auto simp: plan_chunks_def d_def)
  then have "?cs = [] \<or> sum_list ?cs = ?v" by auto
  then show ?thesis using net orders(1,6) by (auto simp: reqs_def d_def meta_lot_def)
qed

lemma plan_key_bounds:
  fixes pl :: planner and prefix :: string and equity wanted effective :: num
  assumes "0 \<le> sellable" "meta_ok key m"
  defines "reqs \<equiv> fst (plan_key pl prefix equity wanted effective sellable key m)"
    and "delta \<equiv> wanted - effective"
  shows "min 0 delta \<le> net_volume key reqs" "net_volume key reqs \<le> max 0 delta" "- net_volume key reqs \<le> sellable"
    "reqs \<noteq> [] \<Longrightarrow> \<bar>limit_sell delta sellable - net_volume key reqs\<bar> < of_int (lot_unit (meta_lot m))"
proof -
  let ?d = "limit_sell delta sellable"
  have d: "delta < 0 \<Longrightarrow> ?d \<le> 0 \<and> delta \<le> ?d \<and> - sellable \<le> ?d" "\<not> delta < 0 \<Longrightarrow> ?d = delta"
    using assms(1) by (auto simp: limit_sell_def)
  note fl = floor_lot_le [of "\<bar>?d\<bar>" "meta_lot m"] floor_lot_nonneg [of "\<bar>?d\<bar>" "meta_lot m"]
    floor_lot_gt [of "\<bar>?d\<bar>" "meta_lot m"]
  consider "reqs = []" | "0 < ?d" "net_volume key reqs = floor_lot \<bar>?d\<bar> (meta_lot m)"
    | "\<not> 0 < ?d" "net_volume key reqs = - floor_lot \<bar>?d\<bar> (meta_lot m)"
    using plan_key_net [OF assms(1,2), of pl prefix equity wanted effective]
    by (auto simp: reqs_def delta_def split: if_splits)
  then have "min 0 delta \<le> net_volume key reqs \<and> net_volume key reqs \<le> max 0 delta \<and>
      - net_volume key reqs \<le> sellable \<and>
      (reqs \<noteq> [] \<longrightarrow> \<bar>?d - net_volume key reqs\<bar> < of_int (lot_unit (meta_lot m)))"
  proof cases
    case 1
    with assms(1) show ?thesis by (simp add: net_volume_def)
  next
    case 2
    with d fl assms(1) show ?thesis by (cases "delta < 0") auto
  next
    case 3
    with d fl assms(1) show ?thesis by (cases "delta < 0") auto
  qed
  then show "min 0 delta \<le> net_volume key reqs" "net_volume key reqs \<le> max 0 delta" "- net_volume key reqs \<le> sellable"
    "reqs \<noteq> [] \<Longrightarrow> \<bar>?d - net_volume key reqs\<bar> < of_int (lot_unit (meta_lot m))" by auto
qed

subsection \<open>The tables and the loop\<close>

lemma plan_all_spec:
  "plan_all step keys = Inr (reqs, issues) \<Longrightarrow>
     \<exists>f. (\<forall>k \<in> set keys. step k = Inr (f k)) \<and> reqs = concat (map (fst \<circ> f) keys) \<and>
       issues = concat (map (snd \<circ> f) keys)"
proof (induction keys arbitrary: reqs issues)
  case (Cons key keys)
  then obtain r i r' i' where "step key = Inr (r, i)" "plan_all step keys = Inr (r', i')"
    "reqs = r @ r'" "issues = i @ i'" by (auto split: sum.splits)
  moreover from Cons.IH [OF this(2)] obtain f where
    "\<forall>k \<in> set keys. step k = Inr (f k)" "r' = concat (map (fst \<circ> f) keys)" "i' = concat (map (snd \<circ> f) keys)"
    by blast
  ultimately have step: "\<forall>k \<in> set (key # keys). step k = Inr (projr (step k))"
    and cat: "r' = concat (map (fst \<circ> (\<lambda>k. projr (step k))) keys)"
      "i' = concat (map (snd \<circ> (\<lambda>k. projr (step k))) keys)"
      "projr (step key) = (r, i)" "reqs = r @ r'" "issues = i @ i'"
    by (auto intro!: arg_cong [where f = concat])
  show ?case by (rule exI [of _ "\<lambda>k. projr (step k)"]) (use step cat in \<open>auto simp: comp_def\<close>)
qed simp

lemma plan_all_total: "(\<And>k. k \<in> set keys \<Longrightarrow> \<exists>x. step k = Inr x) \<Longrightarrow> \<exists>x. plan_all step keys = Inr x"
  by (induction keys) (fastforce split: sum.splits)+

definition tables_ok :: "(string \<times> num) list \<Rightarrow> (string \<times> key_meta) list \<Rightarrow> bool" where
  "tables_ok wanted meta \<longleftrightarrow> (\<forall>k m. map_of meta k = Some m \<longrightarrow> meta_ok k m) \<and>
     (\<forall>k. map_of wanted k \<noteq> None \<longrightarrow> map_of meta k \<noteq> None)"

lemma want_row_ok: "tables_ok (fst st) (snd st) \<Longrightarrow> tables_ok (fst (want_row pl t s row st)) (snd (want_row pl t s row st))"
  by (cases row; cases st; cases "normalize_symbol (fst row)")
    (auto simp: want_row_def tables_ok_def meta_ok_def AList.update_conv' Let_def split: if_splits)

lemma held_row_ok: "tables_ok wanted meta \<Longrightarrow> tables_ok wanted (held_row pl t s p meta) \<and>
    map_of (held_row pl t s p meta) (ps_key p) \<noteq> None \<and>
    (map_of meta k \<noteq> None \<longrightarrow> map_of (held_row pl t s p meta) k \<noteq> None)"
  by (auto simp: held_row_def tables_ok_def meta_ok_def AList.update_conv' ps_key_def)

lemma held_rows_ok: "tables_ok wanted meta \<Longrightarrow> tables_ok wanted (fold (held_row pl t s) ps meta) \<and>
    (\<forall>k. map_of meta k \<noteq> None \<or> k \<in> ps_key ` set ps \<longrightarrow> map_of (fold (held_row pl t s) ps meta) k \<noteq> None)"
proof (induction ps arbitrary: meta)
  case (Cons p ps)
  from held_row_ok [OF Cons.prems] have row: "tables_ok wanted (held_row pl t s p meta)"
    "map_of (held_row pl t s p meta) (ps_key p) \<noteq> None"
    "\<And>k. map_of meta k \<noteq> None \<Longrightarrow> map_of (held_row pl t s p meta) k \<noteq> None" by blast+
  from Cons.IH [OF row(1)] row(2,3) show ?case by auto
qed simp

lemma plan_tables_ok:
  assumes "plan_tables pl t s = (wanted, meta)"
  shows "tables_ok wanted meta" "k \<in> ps_key ` set (oms_get_positions s) \<Longrightarrow> map_of meta k \<noteq> None"
proof -
  have "tables_ok (fst (fold (want_row pl t s) rows st)) (snd (fold (want_row pl t s) rows st))"
    if "tables_ok (fst st) (snd st)" for rows st
    using that by (induction rows arbitrary: st) (simp_all add: want_row_ok)
  from this [of "([], [])" "tp_holdings t"] have ok: "tables_ok (fst (fold (want_row pl t s) (tp_holdings t) ([], [])))
      (snd (fold (want_row pl t s) (tp_holdings t) ([], [])))" by (simp add: tables_ok_def)
  from assms held_rows_ok [OF ok] show "tables_ok wanted meta"
    "k \<in> ps_key ` set (oms_get_positions s) \<Longrightarrow> map_of meta k \<noteq> None"
    by (auto simp: plan_tables_def split: prod.splits)
qed

subsection \<open>The whole plan\<close>

lemma dict_of_get: "map_of (dict_of rows) k = map_of (rev rows) k"
proof -
  have "map_of (fold (\<lambda>(k, v). dict_set k v) rows d) k =
      (case map_of (rev rows) k of Some v \<Rightarrow> Some v | None \<Rightarrow> map_of d k)" for d
    by (induction rows arbitrary: d) (auto simp: AList.update_conv' map_add_def split: option.splits)
  from this [of "[]"] show ?thesis by (simp add: dict_of_def split: option.split)
qed

lemma snapshot_sellable_nonneg:
  assumes "snapshot_from_oms s as_of = Inr snap"
  shows "0 \<le> dget (as_sellable snap) k"
proof -
  let ?rows = "map (\<lambda>p. (ps_key p, oms_available_shares s (ps_key p))) (oms_get_positions s)"
  have "as_sellable snap = dict_of ?rows"
    using assms by (auto simp: snapshot_from_oms_def split: option.splits)
  then have "(k, v) \<in> set ?rows" if "map_of (as_sellable snap) k = Some v" for v
    using that map_of_SomeD [of "rev ?rows" k v] by (simp add: dict_of_get)
  moreover have "0 \<le> oms_available_shares s key" for key
    by (simp add: oms_available_shares_def book_available_def split: option.split)
  ultimately have "0 \<le> v" if "map_of (as_sellable snap) k = Some v" for v using that by auto
  then show ?thesis by (simp add: dget_def split: option.split)
qed

lemma snapshot_position_keys:
  assumes "snapshot_from_oms s as_of = Inr snap"
  shows "set (map fst (as_positions snap)) \<subseteq> ps_key ` set (oms_get_positions s)"
proof -
  have "as_positions snap = dict_of (map (\<lambda>p. (ps_key p, ps_volume p))
      (filter (\<lambda>p. ps_volume p \<noteq> 0) (oms_get_positions s)))"
    using assms by (auto simp: snapshot_from_oms_def split: option.splits)
  then show ?thesis unfolding dict_of_keys by (auto simp: dict_of_keys simp del: set_map) auto
qed

lemma plan_keys_known:
  assumes "plan_tables pl t s = (wanted, meta)" "snapshot_from_oms s as_of = Inr snap" "k \<in> set (plan_keys wanted snap)"
  obtains m where "map_of meta k = Some m" "meta_ok k m"
proof -
  have "map_of wanted k \<noteq> None \<or> k \<in> ps_key ` set (oms_get_positions s)"
    using assms(3) snapshot_position_keys [OF assms(2)] by (auto simp: plan_keys_def map_of_eq_None_iff)
  then have "map_of meta k \<noteq> None"
    using plan_tables_ok [OF assms(1)] unfolding tables_ok_def by blast
  then obtain m where "map_of meta k = Some m" by blast
  moreover from this have "meta_ok k m" using plan_tables_ok(1) [OF assms(1)] unfolding tables_ok_def by blast
  ultimately show thesis by (rule that)
qed

text \<open>With an account snapshot the planner always returns a plan: no instrument misses its entry.\<close>

lemma plan_execution_total:
  assumes "om_account s \<noteq> None"
  shows "\<exists>p. plan_execution stable_id pl t s = Inr p"
proof -
  obtain snap where snap: "snapshot_from_oms s (tp_as_of t) = Inr snap"
    using assms by (auto simp: snapshot_from_oms_def)
  obtain wanted meta where tabs: "plan_tables pl t s = (wanted, meta)" by fastforce
  let ?prefix = "reference_prefix t (decision_id_of stable_id t)"
  have "\<exists>x. plan_step pl ?prefix snap wanted meta k = Inr x" if k: "k \<in> set (plan_keys wanted snap)" for k
  proof -
    obtain m where "map_of meta k = Some m" using plan_keys_known [OF tabs snap k] by blast
    then show ?thesis by (simp add: plan_step_def)
  qed
  then have "\<exists>x. plan_all (plan_step pl ?prefix snap wanted meta) (plan_keys wanted snap) = Inr x"
    by (rule plan_all_total)
  with snap tabs show ?thesis by (auto simp: plan_execution_def Let_def)
qed

text \<open>A plan is the sorted concatenation of the orders of its instruments.\<close>

lemma plan_execution_snapshot:
  assumes "plan_execution stable_id pl t s = Inr p"
  obtains snap wanted meta where "snapshot_from_oms s (tp_as_of t) = Inr snap" "plan_tables pl t s = (wanted, meta)"
  using assms by (auto simp: plan_execution_def Let_def split: sum.splits prod.splits)

lemma plan_execution_parts:
  assumes "plan_execution stable_id pl t s = Inr p" "snapshot_from_oms s (tp_as_of t) = Inr snap"
    "plan_tables pl t s = (wanted, meta)"
  obtains f where "ep_requests p = sort_key plan_order (concat (map f (plan_keys wanted snap)))"
    "\<And>k. k \<in> set (plan_keys wanted snap) \<Longrightarrow> \<exists>m. map_of meta k = Some m \<and> meta_ok k m \<and>
       f k = fst (plan_key pl (reference_prefix t (decision_id_of stable_id t)) (as_balance snap) (dget wanted k)
         (dget (as_positions snap) k + dget (as_active_order_deltas snap) k) (dget (as_sellable snap) k) k m)"
proof -
  note snap = assms(2) and tabs = assms(3)
  let ?step = "plan_step pl (reference_prefix t (decision_id_of stable_id t)) snap wanted meta"
  from assms obtain reqs issues where
    all_keys: "plan_all ?step (plan_keys wanted snap) = Inr (reqs, issues)" "ep_requests p = sort_key plan_order reqs"
    by (auto simp: plan_execution_def Let_def split: sum.splits)
  from plan_all_spec [OF all_keys(1)] obtain f where f: "\<forall>k \<in> set (plan_keys wanted snap). ?step k = Inr (f k)"
    "reqs = concat (map (fst \<circ> f) (plan_keys wanted snap))" by blast
  show thesis
  proof (rule that)
    show "ep_requests p = sort_key plan_order (concat (map (fst \<circ> f) (plan_keys wanted snap)))"
      using all_keys f by simp
    fix k assume k: "k \<in> set (plan_keys wanted snap)"
    obtain m where m: "map_of meta k = Some m" "meta_ok k m" using plan_keys_known [OF tabs snap k] by blast
    with f(1) k have "Inr (f k) = (Inr (plan_key pl (reference_prefix t (decision_id_of stable_id t)) (as_balance snap)
        (dget wanted k) (dget (as_positions snap) k + dget (as_active_order_deltas snap) k)
        (dget (as_sellable snap) k) k m) :: exn + _)"
      by (auto simp: plan_step_def)
    with m show "\<exists>m. map_of meta k = Some m \<and> meta_ok k m \<and> (fst \<circ> f) k = fst (plan_key pl
       (reference_prefix t (decision_id_of stable_id t)) (as_balance snap) (dget wanted k)
       (dget (as_positions snap) k + dget (as_active_order_deltas snap) k) (dget (as_sellable snap) k) k m)" by auto
  qed
qed

lemma net_volume_concat:
  assumes "distinct keys" "\<And>k r. k \<in> set keys \<Longrightarrow> r \<in> set (f k) \<Longrightarrow> rq_key r = k"
  shows "net_volume key (concat (map f keys)) = (if key \<in> set keys then net_volume key (f key) else 0)"
  using assms
proof (induction keys)
  case (Cons k keys)
  then have "net_volume key (f k) = 0" if "k \<noteq> key" using that by (intro net_volume_other) auto
  with Cons show ?case by (auto simp: net_volume_append)
qed (simp add: net_volume_def)

lemma plan_keys_distinct: "distinct (plan_keys wanted snap)"
  by (simp add: plan_keys_def)

text \<open>
  The plan's orders of an instrument never pass the target nor go away from it, sells stay within
  the sellable shares, and where there are orders they reach the target to within a lot.
\<close>

lemma plan_execution_net:
  assumes "plan_execution stable_id pl t s = Inr p" "snapshot_from_oms s (tp_as_of t) = Inr snap"
    "plan_tables pl t s = (wanted, meta)"
  defines "delta k \<equiv> dget wanted k - (dget (as_positions snap) k + dget (as_active_order_deltas snap) k)"
  shows "min 0 (delta k) \<le> net_volume k (ep_requests p)" "net_volume k (ep_requests p) \<le> max 0 (delta k)"
    "- net_volume k (ep_requests p) \<le> dget (as_sellable snap) k"
proof -
  obtain f where reqs: "ep_requests p = sort_key plan_order (concat (map f (plan_keys wanted snap)))"
    and f: "\<And>k. k \<in> set (plan_keys wanted snap) \<Longrightarrow> \<exists>m. map_of meta k = Some m \<and> meta_ok k m \<and>
       f k = fst (plan_key pl (reference_prefix t (decision_id_of stable_id t)) (as_balance snap) (dget wanted k)
         (dget (as_positions snap) k + dget (as_active_order_deltas snap) k) (dget (as_sellable snap) k) k m)"
    by (rule plan_execution_parts [OF assms(1-3)]) blast
  note sellable = snapshot_sellable_nonneg [OF assms(2)]
  have keyed: "rq_key r = k" if "k \<in> set (plan_keys wanted snap)" "r \<in> set (f k)" for k r
    using f [OF that(1)] that(2) plan_key_requests [OF sellable] by auto
  have net: "net_volume k (ep_requests p) = (if k \<in> set (plan_keys wanted snap) then net_volume k (f k) else 0)"
    unfolding reqs net_volume_sort using keyed by (intro net_volume_concat plan_keys_distinct)
  have "min 0 (delta k) \<le> net_volume k (ep_requests p) \<and> net_volume k (ep_requests p) \<le> max 0 (delta k) \<and>
      - net_volume k (ep_requests p) \<le> dget (as_sellable snap) k"
  proof (cases "k \<in> set (plan_keys wanted snap)")
    case True
    from f [OF True] obtain m where m: "meta_ok k m" and fk: "f k = fst (plan_key pl
        (reference_prefix t (decision_id_of stable_id t)) (as_balance snap) (dget wanted k)
        (dget (as_positions snap) k + dget (as_active_order_deltas snap) k) (dget (as_sellable snap) k) k m)" by blast
    from plan_key_bounds(1-3) [OF sellable m] net True fk show ?thesis by (simp add: delta_def)
  next
    case False
    with net sellable [of k] show ?thesis by simp
  qed
  then show "min 0 (delta k) \<le> net_volume k (ep_requests p)" "net_volume k (ep_requests p) \<le> max 0 (delta k)"
    "- net_volume k (ep_requests p) \<le> dget (as_sellable snap) k" by blast+
qed

text \<open>Sells come before buys.\<close>

lemma sells_first: "sorted_wrt (\<lambda>a b. rq_direction b = SHORT \<longrightarrow> rq_direction a = SHORT) (sort_key plan_order reqs)"
proof -
  have "sorted (map plan_order (sort_key plan_order reqs))" by simp
  then have "sorted_wrt (\<lambda>a b. plan_order a \<le> plan_order b) (sort_key plan_order reqs)"
    by (simp add: sorted_map)
  then show ?thesis
    by (rule sorted_wrt_mono_rel [rotated]) (auto simp: plan_order_def less_eq_prod_def)
qed

subsection \<open>References\<close>

lemma reference_suffix_inj:
  assumes "key @ CHR '':'' # side @ CHR '':'' # nat_digits i = key' @ CHR '':'' # side' @ CHR '':'' # nat_digits j"
    "length side = 1" "length side' = 1"
  shows "key = key' \<and> side = side' \<and> i = j"
proof -
  have colon: "CHR '':'' \<notin> set (nat_digits n)" for n
    using nat_digits_are_digits [of "CHR '':''" n] by (auto simp: is_digit_def)
  let ?a = "key @ CHR '':'' # side" and ?b = "key' @ CHR '':'' # side'"
  have split: "takeWhile (\<lambda>c. c \<noteq> CHR '':'') (rev (x @ CHR '':'' # nat_digits n)) = rev (nat_digits n)"
    "dropWhile (\<lambda>c. c \<noteq> CHR '':'') (rev (x @ CHR '':'' # nat_digits n)) = CHR '':'' # rev x" for x n
    using colon [of n] by (auto simp: takeWhile_append dropWhile_append)
  have eq: "?a @ CHR '':'' # nat_digits i = ?b @ CHR '':'' # nat_digits j" using assms(1) by simp
  then have digits: "rev (nat_digits i) = rev (nat_digits j)" and ab: "rev ?a = rev ?b"
    using split [of ?a i] split [of ?b j] by (metis, metis list.inject)
  from digits have "i = j" using nat_digits_inj by simp
  moreover from ab have ab: "?a = ?b" by (rule rev_is_rev_conv [THEN iffD1])
  moreover have "length key = length key'" using arg_cong [OF ab, of length] assms(2,3) by simp
  ultimately show ?thesis by simp
qed

lemma child_reference_inj:
  "child_reference prefix key side i = child_reference prefix key' side' j \<Longrightarrow> length side = 1 \<Longrightarrow> length side' = 1 \<Longrightarrow>
     key = key' \<and> side = side' \<and> i = j"
  by (rule reference_suffix_inj) (simp_all add: child_reference_def)

lemma enumerate_map_fst: "map (\<lambda>(i, x). g i) (enumerate n xs) = map g [n..<n + length xs]"
proof (induction xs arbitrary: n)
  case (Cons x xs)
  then show ?case by (simp add: upt_rec)
qed simp

lemma plan_key_references:
  assumes "0 \<le> sellable"
  shows "\<exists>side n. length side = 1 \<and> map rq_reference (fst (plan_key pl prefix equity wanted effective sellable key m)) =
     map (child_reference prefix key side) [0..<n]"
proof (cases rule: plan_key_cases [OF assms(1), where pl = pl and prefix = prefix and equity = equity
    and wanted = wanted and effective = effective and key = key and m = m, case_names none orders])
  case none
  then show ?thesis by (intro exI [of _ "''B''"] exI [of _ 0]) simp
next
  case (orders code ex price lot)
  let ?side = "if 0 < limit_sell (wanted - effective) sellable then ''B'' else ''S''"
  let ?cs = "plan_chunks pl (floor_lot \<bar>limit_sell (wanted - effective) sellable\<bar> lot) price lot equity"
  have "map rq_reference (fst (plan_key pl prefix equity wanted effective sellable key m)) =
      map (\<lambda>(i, c). child_reference prefix key ?side i) (enumerate 0 ?cs)"
    unfolding orders(6) by auto
  also have "\<dots> = map (child_reference prefix key ?side) [0..<length ?cs]"
    unfolding enumerate_map_fst by simp
  finally show ?thesis by (intro exI [of _ ?side] exI [of _ "length ?cs"]) simp
qed

lemma concat_references_distinct:
  assumes "distinct keys"
    "\<And>k. k \<in> set keys \<Longrightarrow> \<exists>side n. length side = 1 \<and>
       map rq_reference (f k) = map (child_reference prefix k side) [0..<n]"
  shows "distinct (map rq_reference (concat (map f keys)))"
  using assms
proof (induction keys)
  case (Cons k keys)
  obtain side n where k: "length side = 1" "map rq_reference (f k) = map (child_reference prefix k side) [0..<n]"
    using Cons.prems(2) [of k] by auto
  then have "inj_on (child_reference prefix k side) (set [0..<n])"
    by (auto intro!: inj_onI dest: child_reference_inj)
  with k(2) have own: "distinct (map rq_reference (f k))" by (simp only: distinct_map) simp
  have "False" if r: "r \<in> set (f k)" "r' \<in> set (f k')" "k' \<in> set keys" "rq_reference r = rq_reference r'" for r r' k'
  proof -
    obtain side' n' where k': "length side' = 1"
      "map rq_reference (f k') = map (child_reference prefix k' side') [0..<n']"
      using Cons.prems(2) [of k'] r(3) by auto
    have "rq_reference r \<in> set (map (child_reference prefix k side) [0..<n])"
      "rq_reference r' \<in> set (map (child_reference prefix k' side') [0..<n'])"
      unfolding k(2) [symmetric] k'(2) [symmetric] using r(1,2) by simp_all
    then obtain i j where "rq_reference r = child_reference prefix k side i"
      "rq_reference r' = child_reference prefix k' side' j" by auto
    with r(4) have "k = k'" using child_reference_inj [OF _ k(1) k'(1)] by metis
    with Cons.prems(1) r(3) show False by simp
  qed
  with own Cons show ?case by fastforce
qed simp

lemma plan_references_distinct:
  assumes "plan_execution stable_id pl t s = Inr p"
  shows "distinct (map rq_reference (ep_requests p))"
proof -
  obtain snap wanted meta where snap: "snapshot_from_oms s (tp_as_of t) = Inr snap"
    and tabs: "plan_tables pl t s = (wanted, meta)" by (rule plan_execution_snapshot [OF assms])
  obtain f where reqs: "ep_requests p = sort_key plan_order (concat (map f (plan_keys wanted snap)))"
    and f: "\<And>k. k \<in> set (plan_keys wanted snap) \<Longrightarrow> \<exists>m. map_of meta k = Some m \<and> meta_ok k m \<and>
       f k = fst (plan_key pl (reference_prefix t (decision_id_of stable_id t)) (as_balance snap) (dget wanted k)
         (dget (as_positions snap) k + dget (as_active_order_deltas snap) k) (dget (as_sellable snap) k) k m)"
    by (rule plan_execution_parts [OF assms snap tabs]) blast
  have "\<exists>side n. length side = 1 \<and> map rq_reference (f k) =
      map (child_reference (reference_prefix t (decision_id_of stable_id t)) k side) [0..<n]"
    if k: "k \<in> set (plan_keys wanted snap)" for k
    using f [OF k] plan_key_references [OF snapshot_sellable_nonneg [OF snap]] by auto
  then have "distinct (map rq_reference (concat (map f (plan_keys wanted snap))))"
    by (rule concat_references_distinct [OF plan_keys_distinct])
  moreover have "mset (map rq_reference (ep_requests p)) = mset (map rq_reference (concat (map f (plan_keys wanted snap))))"
    unfolding reqs by (simp only: mset_map mset_sort)
  ultimately show ?thesis by (metis mset_eq_imp_distinct_iff)
qed

text \<open>Every order is a positive number of lots under the caps, for an instrument of the tables.\<close>

lemma plan_execution_orders:
  assumes "plan_execution stable_id pl t s = Inr p" "snapshot_from_oms s (tp_as_of t) = Inr snap"
    "plan_tables pl t s = (wanted, meta)" "r \<in> set (ep_requests p)"
  obtains m where "map_of meta (rq_key r) = Some m" "0 < rq_volume r" "is_lots (lot_unit (meta_lot m)) (rq_volume r)"
    "\<And>x. 0 < meta_price m \<Longrightarrow>
       x \<in> set (value_caps (pl_max_order_value pl) (pl_max_order_equity_pct pl) (as_balance snap)) \<Longrightarrow>
       rq_volume r * meta_price m \<le> x"
proof -
  obtain f where reqs: "ep_requests p = sort_key plan_order (concat (map f (plan_keys wanted snap)))"
    and f: "\<And>k. k \<in> set (plan_keys wanted snap) \<Longrightarrow> \<exists>m. map_of meta k = Some m \<and> meta_ok k m \<and>
       f k = fst (plan_key pl (reference_prefix t (decision_id_of stable_id t)) (as_balance snap) (dget wanted k)
         (dget (as_positions snap) k + dget (as_active_order_deltas snap) k) (dget (as_sellable snap) k) k m)"
    by (rule plan_execution_parts [OF assms(1-3)]) blast
  from assms(4) reqs obtain k where k: "k \<in> set (plan_keys wanted snap)" "r \<in> set (f k)" by auto
  from f [OF k(1)] obtain m where m: "map_of meta k = Some m" "meta_ok k m" and fk: "f k = fst (plan_key pl
     (reference_prefix t (decision_id_of stable_id t)) (as_balance snap) (dget wanted k)
     (dget (as_positions snap) k + dget (as_active_order_deltas snap) k) (dget (as_sellable snap) k) k m)" by blast
  from plan_key_requests [OF snapshot_sellable_nonneg [OF assms(2)] m(2) k(2) [unfolded fk]] m(1)
  show thesis by (intro that) auto
qed

end
