(* ===== verification/Executor.thy ===== *)
theory Executor
  imports Planner
begin

section \<open>Orders from targets and intents\<close>

text \<open>
  \<open>systems/live/executor.py\<close>, \<open>asset_routing.py\<close> and \<open>targets.py\<close>: a target book becomes the
  requests of the planner, the intents of a timing strategy become requests one by one, and only
  cash equities and funds are routable.  The hash of a decision is a parameter.
\<close>

text \<open>\<open>executor._floor_lot\<close>, which is the planner's.\<close>

definition executor_floor_lot :: "num \<Rightarrow> int \<Rightarrow> num" where
  "executor_floor_lot v lot =
     (if lot \<noteq> 0 \<and> lot > 0 then of_int (\<lfloor>v / of_int lot\<rfloor> * lot) else if v > 0 then of_int \<lfloor>v\<rfloor> else 0)"

lemma executor_floor_lot_eq: "executor_floor_lot v lot = floor_lot v lot"
  by (simp add: executor_floor_lot_def floor_lot_def)

definition reconcile :: "(json list \<Rightarrow> string) \<Rightarrow> target_portfolio \<Rightarrow> oms \<Rightarrow> int \<Rightarrow> num \<Rightarrow> num \<Rightarrow> exn + order_request list" where
  "reconcile stable_id t s lot_size max_order_value max_order_equity_pct =
     map_sum id ep_requests (plan_execution stable_id (planner_init lot_size max_order_value max_order_equity_pct) t s)"

subsection \<open>Intents\<close>

record order_intent =
  oi_datetime :: string
  oi_instrument :: string
  oi_action :: string
  oi_quantity :: "num option"
  oi_target_percent :: "num option"

definition or_zero :: "num option \<Rightarrow> num" where
  "or_zero x = (case x of Some v \<Rightarrow> v | None \<Rightarrow> 0)"

definition intent_price :: "(string \<times> num) list \<Rightarrow> string \<Rightarrow> string \<Rightarrow> num" where
  "intent_price prices instrument key =
     (if dget prices instrument \<noteq> 0 then dget prices instrument else dget prices key)"

text \<open>The holding with the remaining volumes of the working orders.\<close>

definition current_shares :: "oms \<Rightarrow> string \<Rightarrow> num" where
  "current_shares s key = fold (\<lambda>ord acc.
       if od_key ord \<noteq> key then acc
       else acc + (if od_direction ord = LONG then od_remaining ord else - od_remaining ord))
     (oms_get_active_orders s)
     (case oms_get_position s key of Some p \<Rightarrow> ps_volume p | None \<Rightarrow> 0)"

definition target_shares :: "order_intent \<Rightarrow> oms \<Rightarrow> num \<Rightarrow> int \<Rightarrow> num" where
  "target_shares it s price lot_size =
     (case (oi_action it = ''target_shares'', oi_quantity it) of
        (True, Some q) \<Rightarrow> executor_floor_lot q lot_size
      | _ \<Rightarrow>
          let pct = or_zero (oi_target_percent it);
              equity = (case om_account s of
                 Some a \<Rightarrow> if ac_balance a > 0 then ac_balance a else oms_buying_power s
               | None \<Rightarrow> oms_buying_power s)
          in if price \<le> 0 \<or> equity \<le> 0 then 0 else executor_floor_lot (pct * equity / price) lot_size)"

definition intent_reference ::
  "(string \<Rightarrow> string) \<Rightarrow> order_intent \<Rightarrow> nat \<Rightarrow> string \<Rightarrow> string \<Rightarrow> string \<Rightarrow> string \<Rightarrow> string" where
  "intent_reference hash24 it index key instance_id config_hash decision_id =
     (let decision = or_text decision_id (hash24 (oi_datetime it @ '':'' @ key @ '':'' @ oi_action it));
          target = (if oi_action it = ''target_percent'' then oi_target_percent it else oi_quantity it);
          side = (if oi_action it = ''buy'' \<or>
                     oi_action it \<in> {''target_percent'', ''target_shares''} \<and> or_zero target > 0
                  then ''B'' else ''S'')
      in instance_id @ '':'' @ or_text config_hash ''-'' @ '':'' @ decision @ '':'' @ key @ '':'' @ side @ '':'' @
         nat_digits index)"

text \<open>One turn of the loop: at most one request.\<close>

definition intent_orders ::
  "order_intent \<Rightarrow> oms \<Rightarrow> string \<Rightarrow> exchange \<Rightarrow> num \<Rightarrow> int \<Rightarrow> string \<Rightarrow> order_request list" where
  "intent_orders it s code ex price lot_size ref =
     (let key = symbol_key code ex; action = oi_action it; qty = or_zero (oi_quantity it);
          available = oms_available_shares s key;
          sell = (\<lambda>vol. if vol > 0 then [sell_request code ex vol price LIMIT ref] else [])
      in if action = ''buy'' \<and> qty \<noteq> 0 then
           (let vol = executor_floor_lot qty lot_size
            in if vol > 0 then [buy_request code ex vol price LIMIT ref] else [])
         else if action = ''sell'' \<and> qty \<noteq> 0 then sell (executor_floor_lot (min qty available) lot_size)
         else if action = ''close'' then sell (executor_floor_lot available lot_size)
         else if action \<in> {''target_percent'', ''target_shares''} then
           (let delta = target_shares it s price lot_size - current_shares s key
            in if delta \<ge> of_int lot_size
               then [buy_request code ex (executor_floor_lot delta lot_size) price LIMIT ref]
               else if - delta \<ge> of_int lot_size
               then sell (executor_floor_lot (min (- delta) available) lot_size)
               else [])
         else [])"

definition orders_from_intents ::
  "(string \<Rightarrow> string) \<Rightarrow> order_intent list \<Rightarrow> oms \<Rightarrow> (string \<times> num) list \<Rightarrow> int \<Rightarrow> string \<Rightarrow> string \<Rightarrow> string \<Rightarrow>
   order_request list" where
  "orders_from_intents hash24 intents s prices lot_size instance_id config_hash decision_id =
     concat (map (\<lambda>(index, it).
       let (code, ex) = normalize_symbol (oi_instrument it); key = symbol_key code ex
       in intent_orders it s code ex (intent_price prices (oi_instrument it) key) lot_size
            (intent_reference hash24 it index key instance_id config_hash decision_id))
       (enumerate 0 intents))"

text \<open>What one intent asks for, within what the account can deliver.\<close>

lemma current_shares_sum:
  "current_shares s key = (case oms_get_position s key of Some p \<Rightarrow> ps_volume p | None \<Rightarrow> 0) +
     sum_list (map (\<lambda>ord. if od_direction ord = LONG then od_remaining ord else - od_remaining ord)
       (filter (\<lambda>ord. od_key ord = key) (oms_get_active_orders s)))"
proof -
  have "fold (\<lambda>ord acc. if od_key ord \<noteq> key then acc
       else acc + (if od_direction ord = LONG then od_remaining ord else - od_remaining ord)) ords a =
     a + sum_list (map (\<lambda>ord. if od_direction ord = LONG then od_remaining ord else - od_remaining ord)
       (filter (\<lambda>ord. od_key ord = key) ords))" for ords a
    by (induction ords arbitrary: a) simp_all
  then show ?thesis by (simp add: current_shares_def)
qed

lemma available_shares_nonneg: "0 \<le> oms_available_shares s key"
  by (simp add: oms_available_shares_def book_available_def split: option.split)

lemma sell_volume_bound: "0 < executor_floor_lot (min q a) lot \<Longrightarrow> executor_floor_lot (min q a) lot \<le> a"
  unfolding executor_floor_lot_eq using floor_lot_pos_arg [of "min q a" lot] floor_lot_le [of "min q a" lot] by simp

lemma intent_sells_available:
  assumes "r \<in> set (intent_orders it s code ex price lot_size ref)" "rq_direction r = SHORT"
  shows "0 < rq_volume r \<and> rq_volume r \<le> oms_available_shares s (symbol_key code ex)"
proof -
  let ?a = "oms_available_shares s (symbol_key code ex)"
  have own: "executor_floor_lot ?a lot_size \<le> ?a"
    unfolding executor_floor_lot_eq by (rule floor_lot_le [OF available_shares_nonneg])
  from assms show ?thesis
    using sell_volume_bound [of "or_zero (oi_quantity it)" ?a lot_size]
      sell_volume_bound [of "current_shares s (symbol_key code ex) - target_shares it s price lot_size" ?a lot_size] own
    by (auto simp: intent_orders_def Let_def split: if_splits)
qed

text \<open>A rebalancing intent moves the holding towards its target and not past it.\<close>

lemma intent_rebalances:
  assumes "oi_action it \<in> {''target_percent'', ''target_shares''}" "0 < lot_size"
    "r \<in> set (intent_orders it s code ex price lot_size ref)"
  shows "let target = target_shares it s price lot_size; current = current_shares s (symbol_key code ex) in
    0 < rq_volume r \<and>
    (if rq_direction r = LONG then current + rq_volume r \<le> target else target \<le> current - rq_volume r)"
proof -
  let ?d = "target_shares it s price lot_size - current_shares s (symbol_key code ex)"
  let ?a = "oms_available_shares s (symbol_key code ex)"
  have act: "oi_action it \<noteq> ''buy''" "oi_action it \<noteq> ''sell''" "oi_action it \<noteq> ''close''" using assms(1) by auto
  have pos: "(0 :: num) < of_int lot_size" using assms(2) by simp
  consider (buy) "of_int lot_size \<le> ?d" "r = buy_request code ex (floor_lot ?d lot_size) price LIMIT ref"
    | (sell) "of_int lot_size \<le> - ?d" "0 < floor_lot (min (- ?d) ?a) lot_size"
        "r = sell_request code ex (floor_lot (min (- ?d) ?a) lot_size) price LIMIT ref"
    using assms(1,3) act by (auto simp: intent_orders_def Let_def executor_floor_lot_eq split: if_splits)
  then show ?thesis
  proof cases
    case buy
    with pos have "0 \<le> ?d" by linarith
    moreover have "\<not> floor_lot ?d lot_size \<le> 0"
      using floor_lot_zero_iff [OF calculation, of lot_size] buy(1) assms(2) by (simp add: lot_unit_def)
    ultimately show ?thesis using buy(2) floor_lot_le [of ?d lot_size] by (simp add: Let_def)
  next
    case sell
    from floor_lot_le [OF floor_lot_pos_arg [OF sell(2)], of lot_size] sell(2,3) show ?thesis by (simp add: Let_def)
  qed
qed

subsection \<open>Routable assets\<close>

fun product_value :: "product \<Rightarrow> string" where
  "product_value EQUITY = ''equity''"
| "product_value FUND = ''fund''"
| "product_value BOND = ''bond''"
| "product_value INDEX = ''index''"
| "product_value OPTION = ''option''"
| "product_value FUTURES = ''futures''"

record asset_route_profile =
  arp_name :: string
  arp_asset_classes :: "string list"
  arp_session_profile :: string
  arp_position_model :: string
  arp_offset_requirement :: string
  arp_notional_model :: string

definition route_accepts :: "asset_route_profile \<Rightarrow> contract \<Rightarrow> bool" where
  "route_accepts profile c \<longleftrightarrow> product_value (ct_product c) \<in> set (arp_asset_classes profile)"

definition ashare_cash_route :: asset_route_profile where
  "ashare_cash_route = \<lparr>arp_name = ''ashare_cash'', arp_asset_classes = [product_value EQUITY, product_value FUND],
     arp_session_profile = ''ashare_cash'', arp_position_model = ''long_only_t1'', arp_offset_requirement = ''none'',
     arp_notional_model = ''cash''\<rparr>"

definition validate_contract :: "contract \<Rightarrow> exn + unit" where
  "validate_contract c = (if ct_product c \<notin> {EQUITY, FUND}
     then Inl (ValueError (product_value (ct_product c) @
       '' is SDK-discoverable but not routable by the A-share cash position/risk model''))
     else Inr ())"

definition route_capability_for :: "contract \<Rightarrow> exn + asset_route_profile" where
  "route_capability_for c = (case validate_contract c of Inl e \<Rightarrow> Inl e | Inr _ \<Rightarrow> Inr ashare_cash_route)"

lemma route_capability_accepts:
  "(route_capability_for c = Inr ashare_cash_route) = route_accepts ashare_cash_route c"
  by (cases "ct_product c")
    (simp_all add: route_capability_for_def validate_contract_def route_accepts_def ashare_cash_route_def)

subsection \<open>Target positions from input\<close>

text \<open>
  A row of the input that is an object: its symbol, instrument, direction, volumes, price and
  policy, each absent or present.
\<close>

record position_row =
  pr_symbol :: string
  pr_instrument :: string
  pr_direction :: string
  pr_target_volume :: num
  pr_volume :: num
  pr_price :: num
  pr_offset_policy :: string

record target_position =
  tg_symbol :: string
  tg_target_volume :: num
  tg_direction :: direction
  tg_price :: num
  tg_offset_policy :: string

definition direction_of_value :: "string \<Rightarrow> direction option" where
  "direction_of_value v = find (\<lambda>d. direction_value d = v) [LONG, SHORT, NET]"

definition parse_target_row :: "position_row \<Rightarrow> target_position list" where
  "parse_target_row row =
     (let symbol = str_strip (or_text (pr_symbol row) (pr_instrument row))
      in if symbol = [] then []
         else [\<lparr>tg_symbol = symbol,
                tg_target_volume = (if pr_target_volume row \<noteq> 0 then pr_target_volume row else pr_volume row),
                tg_direction = (case direction_of_value (str_lower (or_text (pr_direction row) ''net'')) of
                   Some d \<Rightarrow> d | None \<Rightarrow> NET),
                tg_price = pr_price row, tg_offset_policy = or_text (pr_offset_policy row) ''auto''\<rparr>])"

text \<open>The rows of a list; a row that is not an object is \<open>None\<close> and is skipped.\<close>

definition parse_target_positions :: "position_row option list \<Rightarrow> target_position list" where
  "parse_target_positions rows = concat (map (\<lambda>row. case row of Some r \<Rightarrow> parse_target_row r | None \<Rightarrow> []) rows)"

lemma direction_of_value_value [simp]: "direction_of_value (direction_value d) = Some d"
  by (cases d) (simp_all add: direction_of_value_def)

end
