(* ===== verification/Algos.thy ===== *)
theory Algos
  imports Session Lots
begin

section \<open>Execution algorithms\<close>

text \<open>
  \<open>systems/live/algos.py\<close>: the call-auction algorithm places a whole plan inside its window, the
  TWAP algorithm cuts one order into children over the continuous session.  The session clock's
  \<open>tick\<close> and the route port's \<open>submit\<close> are operations on a state of any type \<open>'s\<close> that both share;
  a port that records its requests and answers anything is used to say what is submitted when.
\<close>

datatype algo_state = ARMED | SUBMITTED | WORKING | DONE

subsection \<open>The call-auction algorithm\<close>

record auction_algo =
  au_requests :: "order_request list"
  au_window :: string
  au_state :: algo_state
  au_order_ids :: "string list"

definition auction_init :: "order_request list \<Rightarrow> string \<Rightarrow> auction_algo" where
  "auction_init reqs window = \<lparr>au_requests = reqs, au_window = window, au_state = ARMED, au_order_ids = []\<rparr>"

definition auction_target :: "auction_algo \<Rightarrow> session_state" where
  "auction_target al = (if au_window al = ''open'' then CALL_AUCTION_OPEN else CALL_AUCTION_CLOSE)"

text \<open>The loop over the requests; a raise leaves the ids placed so far.\<close>

fun place_all :: "(order_request \<Rightarrow> ('s, string option) op) \<Rightarrow> order_request list \<Rightarrow> (auction_algo \<times> 's, unit) op" where
  "place_all port [] st = (Inr (), st)"
| "place_all port (req # reqs) (al, s) = (case port req s of
     (Inl e, s') \<Rightarrow> (Inl e, (al, s'))
   | (Inr oid, s') \<Rightarrow> place_all port reqs
       (case oid of Some i \<Rightarrow> if i \<noteq> [] then al\<lparr>au_order_ids := au_order_ids al @ [i]\<rparr> else al | None \<Rightarrow> al, s'))"

definition auction_step ::
  "('s, session_state) op \<Rightarrow> (order_request \<Rightarrow> ('s, string option) op) \<Rightarrow> (auction_algo \<times> 's, algo_state) op" where
  "auction_step tick port st = (case st of (al, s) \<Rightarrow> case tick s of
     (Inl e, s1) \<Rightarrow> (Inl e, (al, s1))
   | (Inr session, s1) \<Rightarrow>
       if au_state al = ARMED \<and> session = auction_target al
       then (case place_all port (au_requests al) (al, s1) of
           (Inl e, st') \<Rightarrow> (Inl e, st')
         | (Inr _, (al', s2)) \<Rightarrow> (Inr SUBMITTED, (al'\<lparr>au_state := SUBMITTED\<rparr>, s2)))
       else if au_state al = SUBMITTED \<and> session \<noteq> auction_target al
       then (Inr DONE, (al\<lparr>au_state := DONE\<rparr>, s1))
       else (Inr (au_state al), (al, s1)))"

subsection \<open>The TWAP algorithm\<close>

record twap_algo =
  twp_request :: order_request
  twp_slices :: int
  twp_lot_size :: int
  twp_state :: algo_state
  twp_submitted :: nat
  twp_order_ids :: "string list"
  twp_child_volumes :: "num list"

definition plan_children :: "num \<Rightarrow> int \<Rightarrow> int \<Rightarrow> num list" where
  "plan_children volume slices lot_size =
     (let lot = (if lot_size > 0 then lot_size else 1); total_lots = \<lfloor>volume / of_int lot\<rfloor> in
      if total_lots \<le> 0 then []
      else
        let base = total_lots div slices; extra = total_lots - base * slices
        in map (\<lambda>lots. of_int (lots * lot))
             (filter (\<lambda>lots. lots > 0) (map (\<lambda>i. base + (if i < extra then 1 else 0)) [0..slices - 1])))"

definition twap_init :: "order_request \<Rightarrow> int \<Rightarrow> int \<Rightarrow> twap_algo" where
  "twap_init req slices lot_size =
     \<lparr>twp_request = req, twp_slices = max 1 slices, twp_lot_size = lot_size, twp_state = ARMED, twp_submitted = 0,
      twp_order_ids = [], twp_child_volumes = plan_children (rq_volume req) (max 1 slices) lot_size\<rparr>"

definition twap_child :: "twap_algo \<Rightarrow> order_request" where
  "twap_child al = (let req = twp_request al in
     \<lparr>rq_code = rq_code req, rq_exchange = rq_exchange req, rq_direction = rq_direction req,
      rq_volume = twp_child_volumes al ! twp_submitted al, rq_price = rq_price req, rq_type = rq_type req,
      rq_offset = ONone, rq_reference = rq_reference req @ '':twap'' @ nat_digits (twp_submitted al)\<rparr>)"

definition twap_step ::
  "('s, session_state) op \<Rightarrow> (order_request \<Rightarrow> ('s, string option) op) \<Rightarrow> (twap_algo \<times> 's, algo_state) op" where
  "twap_step tick port st = (case st of (al, s) \<Rightarrow> case tick s of
     (Inl e, s1) \<Rightarrow> (Inl e, (al, s1))
   | (Inr session, s1) \<Rightarrow>
       if twp_submitted al \<ge> length (twp_child_volumes al) then (Inr DONE, (al\<lparr>twp_state := DONE\<rparr>, s1))
       else if session \<in> {CONTINUOUS_AM, CONTINUOUS_PM} then
         (case port (twap_child al) s1 of
            (Inl e, s2) \<Rightarrow> (Inl e, (al, s2))
          | (Inr oid, s2) \<Rightarrow>
              let al1 = (case oid of Some i \<Rightarrow> if i \<noteq> [] then al\<lparr>twp_order_ids := twp_order_ids al @ [i]\<rparr> else al
                         | None \<Rightarrow> al);
                  n = twp_submitted al + 1;
                  state = (if n < length (twp_child_volumes al) then WORKING else DONE)
              in (Inr state, (al1\<lparr>twp_submitted := n, twp_state := state\<rparr>, s2)))
       else (Inr (twp_state al), (al, s1)))"

definition remaining_children :: "twap_algo \<Rightarrow> nat" where
  "remaining_children al = length (twp_child_volumes al) - twp_submitted al"

subsection \<open>The children of an order\<close>

lemma sum_list_filter_pos: "(\<And>x. x \<in> set xs \<Longrightarrow> (0 :: int) \<le> x) \<Longrightarrow> sum_list (filter (\<lambda>x. x > 0) xs) = sum_list xs"
  by (induction xs) force+

lemma count_below: "0 \<le> r \<Longrightarrow> r \<le> n \<Longrightarrow> (\<Sum>i\<leftarrow>[0..n - 1]. if i < r then 1 else 0 :: int) = r"
proof -
  assume r: "0 \<le> r" "r \<le> n"
  have "(\<Sum>i\<leftarrow>[0..n - 1]. if i < r then 1 else 0 :: int) = (\<Sum>i\<in>{0..n - 1}. if i < r then 1 else 0)"
    by (simp add: interv_sum_list_conv_sum_set_int)
  also have "\<dots> = int (card ({0..n - 1} \<inter> {i. i < r}))" by (simp add: sum.If_cases)
  also have "{0..n - 1} \<inter> {i. i < r} = {0..<r}" using r by auto
  finally show ?thesis using r by simp
qed

lemma slice_lots_sum:
  assumes "0 < slices" "0 \<le> m"
  defines "b \<equiv> m div slices"
  shows "(\<Sum>i\<leftarrow>[0..slices - 1]. b + (if i < m - b * slices then 1 else 0)) = m"
proof -
  have extra: "m - b * slices = m mod slices" by (simp add: b_def minus_div_mult_eq_mod)
  have "(\<Sum>i\<leftarrow>[0..slices - 1]. b + (if i < m - b * slices then 1 else 0)) =
      (\<Sum>i\<leftarrow>[0..slices - 1]. b) + (\<Sum>i\<leftarrow>[0..slices - 1]. if i < m - b * slices then 1 else 0)"
    by (rule sum_list_addf)
  also have "(\<Sum>i\<leftarrow>[0..slices - 1]. if i < m - b * slices then 1 else 0) = m mod slices"
    unfolding extra using assms(1) by (intro count_below) (simp_all add: less_imp_le)
  also have "(\<Sum>i\<leftarrow>[0..slices - 1]. b) = slices * b" using assms(1) by (simp add: sum_list_triv)
  finally show ?thesis by (simp add: b_def)
qed

text \<open>The children add up to the order's whole lots, are whole lots, and differ by a lot at most.\<close>

lemma plan_children_sum:
  assumes "0 < slices" "0 \<le> volume"
  shows "sum_list (plan_children volume slices lot_size) = floor_lot volume lot_size"
proof -
  let ?lot = "lot_unit lot_size"
  let ?total = "\<lfloor>volume / of_int ?lot\<rfloor>"
  let ?lots = "map (\<lambda>i. ?total div slices + (if i < ?total - ?total div slices * slices then 1 else 0)) [0..slices - 1]"
  have tot: "0 \<le> ?total" using assms(2) less_imp_le [OF lot_unit_pos(1)] by simp
  have mult: "sum_list (map (\<lambda>lots. of_int (lots * ?lot)) ls) = (of_int (sum_list ls * ?lot) :: num)" for ls
    by (induction ls) (simp_all add: algebra_simps)
  have nonneg: "0 \<le> l" if "l \<in> set ?lots" for l
    using that tot assms(1) by (auto simp: pos_imp_zdiv_nonneg_iff)
  have "sum_list (filter (\<lambda>l. l > 0) ?lots) = sum_list ?lots" by (rule sum_list_filter_pos) (rule nonneg)
  also have "\<dots> = ?total" by (rule slice_lots_sum [OF assms(1) tot])
  finally have sum: "sum_list (filter (\<lambda>l. l > 0) ?lots) = ?total" .
  have "plan_children volume slices lot_size =
      (if ?total \<le> 0 then [] else map (\<lambda>lots. of_int (lots * ?lot)) (filter (\<lambda>l. l > 0) ?lots))"
    by (simp only: plan_children_def Let_def lot_unit_def)
  then have "sum_list (plan_children volume slices lot_size) = of_int (?total * ?lot)"
  proof (cases "?total \<le> 0")
    case True
    with tot have "?total = 0" by linarith
    with \<open>plan_children volume slices lot_size = _\<close> show ?thesis by simp
  next
    case False
    with \<open>plan_children volume slices lot_size = _\<close> show ?thesis by (simp only: if_False mult sum)
  qed
  then show ?thesis using assms(2) by (simp only: floor_lot_unit)
qed

lemma plan_children_members:
  assumes "0 < slices" "c \<in> set (plan_children volume slices lot_size)"
  shows "0 < c" "is_lots (lot_unit lot_size) c"
    "d \<in> set (plan_children volume slices lot_size) \<Longrightarrow> c - d \<le> of_int (lot_unit lot_size)"
proof -
  let ?lot = "lot_unit lot_size"
  let ?b = "\<lfloor>volume / of_int ?lot\<rfloor> div slices"
  have shape: "\<exists>k. 0 < k \<and> ?b \<le> k \<and> k \<le> ?b + 1 \<and> c = of_int (k * ?lot)"
    if "c \<in> set (plan_children volume slices lot_size)" for c
    using that by (auto simp: plan_children_def Let_def lot_unit_def [symmetric] split: if_splits) 
  from shape [OF assms(2)] obtain k where k: "0 < k" "k \<le> ?b + 1" "c = of_int (k * ?lot)" by blast
  then show "0 < c" "is_lots ?lot c"
    by (auto simp: is_lots_iff zero_less_mult_iff simp del: of_int_mult)
  assume "d \<in> set (plan_children volume slices lot_size)"
  from shape [OF this] obtain j where j: "?b \<le> j" "d = of_int (j * ?lot)" by blast
  have "(k - j) * ?lot \<le> 1 * ?lot" using k(2) j(1) less_imp_le [OF lot_unit_pos(1)] by (intro mult_right_mono) simp_all
  then have "k * ?lot - j * ?lot \<le> ?lot" by (simp add: left_diff_distrib)
  then have "(of_int (k * ?lot - j * ?lot) :: num) \<le> of_int ?lot" by (rule of_int_le_iff [THEN iffD2])
  then show "c - d \<le> of_int ?lot" using k(3) j(2) by simp
qed

lemma plan_children_length: "0 < slices \<Longrightarrow> length (plan_children volume slices lot_size) \<le> nat slices"
  by (auto simp: plan_children_def Let_def intro: le_trans [OF length_filter_le])

subsection \<open>A day of polls\<close>

definition record_port :: "(order_request \<Rightarrow> string option) \<Rightarrow> order_request \<Rightarrow> (order_request list, string option) op" where
  "record_port reply req sent = (Inr (reply req), sent @ [req])"

definition auction_day ::
  "(order_request \<Rightarrow> string option) \<Rightarrow> session_state list \<Rightarrow> auction_algo \<times> order_request list \<Rightarrow>
   auction_algo \<times> order_request list" where
  "auction_day reply sessions st =
     fold (\<lambda>x st. snd (auction_step (\<lambda>s. (Inr x, s)) (record_port reply) st)) sessions st"

lemma place_all_record:
  "\<exists>ids. place_all (record_port reply) reqs (al, sent) = (Inr (), (al\<lparr>au_order_ids := ids\<rparr>, sent @ reqs))"
proof (induction reqs arbitrary: al sent)
  case Nil
  show ?case by (rule exI [of _ "au_order_ids al"]) simp
next
  case (Cons req reqs)
  have upd: "\<exists>ids. place_all (record_port reply) reqs (al\<lparr>au_order_ids := x\<rparr>, sent @ [req]) =
      (Inr (), (al\<lparr>au_order_ids := ids\<rparr>, sent @ req # reqs))" for x
    using Cons.IH [of "al\<lparr>au_order_ids := x\<rparr>" "sent @ [req]"] by simp
  show ?case using upd Cons.IH [of al "sent @ [req]"]
    by (simp add: record_port_def [of reply req sent] split: option.split)
qed

lemma auction_waits:
  "au_state al = ARMED \<Longrightarrow> auction_target al \<notin> set xs \<Longrightarrow> auction_day reply xs (al, sent) = (al, sent)"
  by (induction xs arbitrary: sent) (auto simp: auction_day_def auction_step_def)

lemma auction_finishes:
  "au_state al = DONE \<Longrightarrow> auction_day reply xs (al, sent) = (al, sent)"
  by (induction xs arbitrary: sent) (auto simp: auction_day_def auction_step_def)

lemma auction_after:
  assumes "au_state al = SUBMITTED"
  shows "snd (auction_day reply xs (al, sent)) = sent"
    "au_state (fst (auction_day reply xs (al, sent))) = (if \<forall>x \<in> set xs. x = auction_target al then SUBMITTED else DONE)"
proof -
  have "snd (auction_day reply xs (al, sent)) = sent \<and>
      au_state (fst (auction_day reply xs (al, sent))) = (if \<forall>x \<in> set xs. x = auction_target al then SUBMITTED else DONE)"
    using assms
  proof (induction xs)
    case (Cons x xs)
    show ?case
    proof (cases "x = auction_target al")
      case True
      with Cons show ?thesis by (simp add: auction_day_def auction_step_def)
    next
      case False
      have "auction_day reply (x # xs) (al, sent) = auction_day reply xs (al\<lparr>au_state := DONE\<rparr>, sent)"
        using Cons.prems False by (simp add: auction_day_def auction_step_def)
      with False auction_finishes [of "al\<lparr>au_state := DONE\<rparr>"] show ?thesis by simp
    qed
  qed (simp add: auction_day_def)
  then show "snd (auction_day reply xs (al, sent)) = sent"
    "au_state (fst (auction_day reply xs (al, sent))) = (if \<forall>x \<in> set xs. x = auction_target al then SUBMITTED else DONE)"
    by blast+
qed

lemma auction_day_split: "auction_day reply (xs @ ys) st = auction_day reply ys (auction_day reply xs st)"
  by (simp add: auction_day_def)

text \<open>The plan is placed once, whole and in order, at the first poll inside the window.\<close>

lemma auction_day_log:
  assumes "auction_target (auction_init reqs window) = w"
  shows "snd (auction_day reply xs (auction_init reqs window, [])) = (if w \<in> set xs then reqs else [])"
proof (cases "w \<in> set xs")
  case True
  then obtain ys zs where xs: "xs = ys @ w # zs" "w \<notin> set ys" by (meson split_list_first)
  let ?al = "auction_init reqs window"
  have wait: "auction_day reply ys (?al, []) = (?al, [])"
    using xs(2) assms by (intro auction_waits) (auto simp: auction_init_def)
  obtain ids where place: "place_all (record_port reply) reqs (?al, []) = (Inr (), (?al\<lparr>au_order_ids := ids\<rparr>, reqs))"
    using place_all_record [of reply reqs ?al "[]"] by auto
  have "snd (auction_step (\<lambda>s. (Inr w, s)) (record_port reply) (?al, [])) =
      (?al\<lparr>au_order_ids := ids, au_state := SUBMITTED\<rparr>, reqs)"
    using place assms by (simp add: auction_step_def auction_init_def)
  then have "auction_day reply xs (?al, []) = auction_day reply zs (?al\<lparr>au_order_ids := ids, au_state := SUBMITTED\<rparr>, reqs)"
    unfolding xs(1) auction_day_split wait by (simp add: auction_day_def)
  with True auction_after(1) [of "?al\<lparr>au_order_ids := ids, au_state := SUBMITTED\<rparr>"] show ?thesis by simp
next
  case False
  then show ?thesis using auction_waits [of "auction_init reqs window" xs reply "[]"] assms
    by (simp add: auction_init_def)
qed

definition continuous :: "session_state \<Rightarrow> bool" where
  "continuous x \<longleftrightarrow> x \<in> {CONTINUOUS_AM, CONTINUOUS_PM}"

definition twap_day ::
  "(order_request \<Rightarrow> string option) \<Rightarrow> session_state list \<Rightarrow> twap_algo \<times> order_request list \<Rightarrow>
   twap_algo \<times> order_request list" where
  "twap_day reply sessions st =
     fold (\<lambda>x st. snd (twap_step (\<lambda>s. (Inr x, s)) (record_port reply) st)) sessions st"

text \<open>The log holds one child for each continuous poll until the children are used up.\<close>

definition twap_logged :: "twap_algo \<Rightarrow> order_request list \<Rightarrow> bool" where
  "twap_logged al sent \<longleftrightarrow> twp_submitted al \<le> length (twp_child_volumes al) \<and>
     map rq_volume sent = take (twp_submitted al) (twp_child_volumes al) \<and>
     (0 < twp_submitted al \<and> twp_submitted al = length (twp_child_volumes al) \<longrightarrow> twp_state al = DONE)"

lemma twap_step_logged:
  assumes "twap_logged al sent" "snd (twap_step (\<lambda>s. (Inr x, s)) (record_port reply) (al, sent)) = (al', sent')"
  shows "twap_logged al' sent'" "twp_child_volumes al' = twp_child_volumes al"
    "twp_submitted al' = min (length (twp_child_volumes al)) (twp_submitted al + (if continuous x then 1 else 0))"
    "twp_submitted al = length (twp_child_volumes al) \<Longrightarrow> twp_state al' = DONE"
proof -
  have log: "twp_submitted al \<le> length (twp_child_volumes al)"
    "map rq_volume sent = take (twp_submitted al) (twp_child_volumes al)"
    "0 < twp_submitted al \<Longrightarrow> twp_submitted al = length (twp_child_volumes al) \<Longrightarrow> twp_state al = DONE"
    using assms(1) by (auto simp: twap_logged_def)
  consider (full) "length (twp_child_volumes al) \<le> twp_submitted al" "al' = al\<lparr>twp_state := DONE\<rparr>" "sent' = sent"
    | (idle) "twp_submitted al < length (twp_child_volumes al)" "\<not> continuous x" "al' = al" "sent' = sent"
    | (child) ids where "twp_submitted al < length (twp_child_volumes al)" "continuous x"
        "al' = al\<lparr>twp_order_ids := ids, twp_submitted := Suc (twp_submitted al),
           twp_state := (if Suc (twp_submitted al) < length (twp_child_volumes al) then WORKING else DONE)\<rparr>"
        "sent' = sent @ [twap_child al]"
  proof (cases "length (twp_child_volumes al) \<le> twp_submitted al")
    case True
    with assms(2) full show thesis by (simp add: twap_step_def)
  next
    case False
    show thesis
    proof (cases "continuous x")
      case True
      let ?ids = "case reply (twap_child al) of
        Some i \<Rightarrow> if i \<noteq> [] then twp_order_ids al @ [i] else twp_order_ids al | None \<Rightarrow> twp_order_ids al"
      have "al' = al\<lparr>twp_order_ids := ?ids, twp_submitted := Suc (twp_submitted al),
           twp_state := (if Suc (twp_submitted al) < length (twp_child_volumes al) then WORKING else DONE)\<rparr>"
        "sent' = sent @ [twap_child al]"
        using assms(2) False True
        by (auto simp: twap_step_def record_port_def continuous_def Let_def split: option.splits)
      with child False True show thesis by (simp add: not_le)
    next
      case no: False
      then have "snd (twap_step (\<lambda>s. (Inr x, s)) (record_port reply) (al, sent)) = (al, sent)"
        using False by (auto simp: twap_step_def continuous_def)
      with idle no False assms(2) show thesis by simp
    qed
  qed
  then have "twap_logged al' sent' \<and> twp_child_volumes al' = twp_child_volumes al \<and>
      twp_submitted al' = min (length (twp_child_volumes al)) (twp_submitted al + (if continuous x then 1 else 0)) \<and>
      (twp_submitted al = length (twp_child_volumes al) \<longrightarrow> twp_state al' = DONE)"
  proof cases
    case full
    with log show ?thesis by (simp add: twap_logged_def)
  next
    case idle
    with log assms(1) show ?thesis by simp
  next
    case child
    have "rq_volume (twap_child al) = twp_child_volumes al ! twp_submitted al" by (simp add: twap_child_def Let_def)
    then have "map rq_volume sent' = take (Suc (twp_submitted al)) (twp_child_volumes al)"
      using child(1,4) log(2) by (simp add: take_Suc_conv_app_nth)
    with child show ?thesis by (simp add: twap_logged_def)
  qed
  then show "twap_logged al' sent'" "twp_child_volumes al' = twp_child_volumes al"
    "twp_submitted al' = min (length (twp_child_volumes al)) (twp_submitted al + (if continuous x then 1 else 0))"
    "twp_submitted al = length (twp_child_volumes al) \<Longrightarrow> twp_state al' = DONE" by blast+
qed

lemma twap_day_logged:
  assumes "twap_logged al sent" "twap_day reply xs (al, sent) = (al', sent')"
  shows "twap_logged al' sent' \<and> twp_child_volumes al' = twp_child_volumes al \<and>
    twp_submitted al' = min (length (twp_child_volumes al)) (twp_submitted al + length (filter continuous xs)) \<and>
    (twp_submitted al = length (twp_child_volumes al) \<and> xs \<noteq> [] \<longrightarrow> twp_state al' = DONE)"
  using assms
proof (induction xs arbitrary: al sent)
  case Nil
  then have "al' = al" "sent' = sent" by (simp_all add: twap_day_def)
  moreover have "twp_submitted al \<le> length (twp_child_volumes al)" using Nil.prems(1) by (simp add: twap_logged_def)
  ultimately show ?case using Nil.prems(1) by simp
next
  case (Cons x xs)
  obtain al1 sent1 where step: "snd (twap_step (\<lambda>s. (Inr x, s)) (record_port reply) (al, sent)) = (al1, sent1)"
    by fastforce
  note s = twap_step_logged [OF Cons.prems(1) step]
  have day: "twap_day reply xs (al1, sent1) = (al', sent')" using Cons.prems(2) step by (simp add: twap_day_def)
  note ih = Cons.IH [OF s(1) day]
  have le: "twp_submitted al \<le> length (twp_child_volumes al)" using Cons.prems(1) by (simp add: twap_logged_def)
  have "twp_state al' = DONE" if "twp_submitted al = length (twp_child_volumes al)"
  proof (cases xs)
    case Nil
    with day s(4) that show ?thesis by (simp add: twap_day_def)
  qed (use ih s(2,3) that in auto)
  with ih s le show ?case by (auto simp: min_def)
qed

text \<open>With enough continuous polls every child has been submitted and the algorithm is done.\<close>

lemma twap_day_completes:
  assumes "xs \<noteq> []" "length (plan_children (rq_volume req) (max 1 slices) lot_size) \<le> length (filter continuous xs)"
    "twap_day reply xs (twap_init req slices lot_size, []) = (al', sent')"
  shows "twp_state al' = DONE" "map rq_volume sent' = plan_children (rq_volume req) (max 1 slices) lot_size"
    "remaining_children al' = 0"
proof -
  have init: "twap_logged (twap_init req slices lot_size) []" by (simp add: twap_logged_def twap_init_def)
  note day = twap_day_logged [OF init assms(3)]
  have vols: "twp_child_volumes al' = plan_children (rq_volume req) (max 1 slices) lot_size"
    "twp_submitted al' = length (twp_child_volumes al')"
    using day assms(2) by (simp_all add: twap_init_def)
  with day show "map rq_volume sent' = plan_children (rq_volume req) (max 1 slices) lot_size" "remaining_children al' = 0"
    by (simp_all add: twap_logged_def remaining_children_def)
  show "twp_state al' = DONE"
  proof (cases "plan_children (rq_volume req) (max 1 slices) lot_size = []")
    case True
    then have "twp_submitted (twap_init req slices lot_size) = length (twp_child_volumes (twap_init req slices lot_size))"
      by (simp add: twap_init_def)
    with day assms(1) show ?thesis by blast
  next
    case False
    with day vols show ?thesis by (simp add: twap_logged_def)
  qed
qed

end
