(* ===== verification/Trading_Planner.thy ===== *)
theory Trading_Planner
  imports Planner
begin

section \<open>The broker-independent planner\<close>

text \<open>
  \<open>systems/trading/planning.py\<close>: a target portfolio and an account snapshot become child orders.
  Instruments are canonical, the quote's raw price is rounded to the tick, suspended or locked
  instruments become issues, and the child index continues a counter per instrument and side.  The
  value arithmetic is that of theory \<open>Lots\<close>.
\<close>

text \<open>\<open>_lookup\<close>: the entry of the instrument, else the first one whose key is canonically the same.\<close>

definition canon_lookup :: "(string \<times> 'v) list \<Rightarrow> string \<Rightarrow> 'v option" where
  "canon_lookup values instrument = (case map_of values instrument of
     Some v \<Rightarrow> Some v
   | None \<Rightarrow> map_option snd (find (\<lambda>(k, v). canonical_instrument k = instrument) values))"

definition metadata_of :: "string \<Rightarrow> instrument_metadata" where
  "metadata_of instrument = \<lparr>im_instrument = instrument, im_asset_type = ''equity'', im_lot_size = 100,
     im_price_tick = 1/100, im_settlement_days = 1, im_long_only = True\<rparr>"

text \<open>Rounding half up on decimals: the quotient is exact.\<close>

definition round_price_tick :: "num \<Rightarrow> num \<Rightarrow> num" where
  "round_price_tick price tick =
     (if tick \<le> 0 then price
      else let q = price / tick; ticks = (if q \<ge> 0 then \<lfloor>q + 1/2\<rfloor> else - \<lfloor>- q + 1/2\<rfloor>) in of_int ticks * tick)"

definition canon_dict :: "(num \<Rightarrow> num) \<Rightarrow> (string \<times> num) list \<Rightarrow> (string \<times> num) list" where
  "canon_dict f d = dict_of (map (\<lambda>(k, v). (canonical_instrument k, f v)) d)"

definition quote_price :: "tradable_quote option \<Rightarrow> num option \<Rightarrow> num" where
  "quote_price quote fallback =
     (let q = (case quote of Some q \<Rightarrow> executable_price q | None \<Rightarrow> 0)
      in if q \<noteq> 0 then q else case fallback of Some p \<Rightarrow> p | None \<Rightarrow> 0)"

definition untradable :: "tradable_quote option \<Rightarrow> bool" where
  "untradable quote = (case quote of Some q \<Rightarrow> tq_stale q \<or> tq_suspended q | None \<Rightarrow> False)"

definition at_limit_up :: "tradable_quote option \<Rightarrow> num \<Rightarrow> bool" where
  "at_limit_up quote price = (case quote of
     Some q \<Rightarrow> tq_limit_up q > 0 \<and> price \<ge> tq_limit_up q - 1/1000000000 | None \<Rightarrow> False)"

definition at_limit_down :: "tradable_quote option \<Rightarrow> num \<Rightarrow> bool" where
  "at_limit_down quote price = (case quote of
     Some q \<Rightarrow> tq_limit_down q > 0 \<and> price \<le> tq_limit_down q + 1/1000000000 | None \<Rightarrow> False)"

text \<open>\<open>sellable.get(instrument, current.get(instrument, 0.0))\<close>.\<close>

definition dget_or :: "(string \<times> num) list \<Rightarrow> string \<Rightarrow> num \<Rightarrow> num" where
  "dget_or d k v = (case map_of d k of Some x \<Rightarrow> x | None \<Rightarrow> v)"

text \<open>Unlike the live planner's, these chunks divide by the price whenever there is a cap.\<close>

definition trading_chunks :: "num list \<Rightarrow> num \<Rightarrow> num \<Rightarrow> int \<Rightarrow> exn + num list" where
  "trading_chunks caps volume price lot =
     (if caps = [] then Inr [volume]
      else if price = 0 then Inl (PyError ''ZeroDivisionError'' ''float division by zero'')
      else let cap = floor_lot (Min (set caps) / price) lot
           in Inr (if cap \<le> 0 then [] else chunk_loop cap lot volume))"

text \<open>The result of one turn of the loop.\<close>

datatype key_result =
    Skip
  | Issue plan_issue
  | Children string "num list" num

definition key_issue :: "string \<Rightarrow> string \<Rightarrow> string \<Rightarrow> exn + key_result" where
  "key_issue instrument rule reason =
     Inr (Issue \<lparr>pi_rule = rule, pi_reason = reason, pi_instrument = instrument\<rparr>)"

definition children_of ::
  "planner \<Rightarrow> num \<Rightarrow> num \<Rightarrow> num \<Rightarrow> num \<Rightarrow> string \<Rightarrow> int \<Rightarrow> num \<Rightarrow> tradable_quote option \<Rightarrow> num option \<Rightarrow>
   exn + key_result" where
  "children_of pl equity wanted effective available instrument lot tick quote fallback =
     (let delta = wanted - effective; price0 = quote_price quote fallback in
      if \<bar>delta\<bar> < of_int (max lot 1) then Inr Skip
      else if untradable quote then key_issue instrument ''untradable_quote'' ''quote is stale or suspended''
      else if price0 \<le> 0 then key_issue instrument ''missing_price'' ''positive raw execution price is required''
      else
        let price = round_price_tick price0 tick; d = limit_sell delta available in
        if d > 0 \<and> at_limit_up quote price
        then key_issue instrument ''limit_up'' ''cannot buy at a locked upper limit''
        else if d < 0 \<and> at_limit_down quote price
        then key_issue instrument ''limit_down'' ''cannot sell at a locked lower limit''
        else
          let volume = floor_lot \<bar>d\<bar> lot in
          if volume \<le> 0 then Inr Skip
          else (case trading_chunks (value_caps (pl_max_order_value pl) (pl_max_order_equity_pct pl) equity)
                       volume price lot of
              Inl e \<Rightarrow> Inl e
            | Inr chunks \<Rightarrow>
                if chunks = []
                then key_issue instrument ''max_order_value'' ''single lot exceeds max_order_value''
                else Inr (Children (if d > 0 then ''buy'' else ''sell'') chunks price)))"

definition counter_key :: "string \<Rightarrow> string \<Rightarrow> string" where
  "counter_key instrument side = instrument @ '':'' @ side"

definition make_children ::
  "string \<Rightarrow> string \<Rightarrow> string \<Rightarrow> num \<Rightarrow> int \<Rightarrow> num list \<Rightarrow> execution_child list" where
  "make_children prefix instrument side price index chunks =
     map (\<lambda>(i, chunk). \<lparr>ec_reference = prefix @ instrument @ '':'' @ (if side = ''buy'' then ''B'' else ''S'') @ '':'' @
            int_text (index + int i), ec_instrument = instrument, ec_side = side, ec_volume = chunk,
            ec_price = price, ec_child_index = index + int i\<rparr>) (enumerate 0 chunks)"

type_synonym plan_acc = "execution_child list \<times> plan_issue list \<times> (string \<times> int) list"

definition get_index :: "(string \<times> int) list \<Rightarrow> string \<Rightarrow> int" where
  "get_index d k = (case map_of d k of Some i \<Rightarrow> i | None \<Rightarrow> 0)"

definition plan_instrument :: "string \<Rightarrow> string \<Rightarrow> key_result \<Rightarrow> plan_acc \<Rightarrow> plan_acc" where
  "plan_instrument prefix instrument result acc = (case acc of (children, issues, counters) \<Rightarrow>
     (case result of
        Skip \<Rightarrow> acc
      | Issue issue \<Rightarrow> (children, issues @ [issue], counters)
      | Children side chunks price \<Rightarrow>
          let key = counter_key instrument side; index = get_index counters key
          in (children @ make_children prefix instrument side price index chunks, issues,
              dict_set key (index + int (length chunks)) counters)))"

fun plan_instruments :: "string \<Rightarrow> (string \<Rightarrow> exn + key_result) \<Rightarrow> string list \<Rightarrow> plan_acc \<Rightarrow> exn + plan_acc" where
  "plan_instruments prefix result [] acc = Inr acc"
| "plan_instruments prefix result (k # ks) acc = (case result k of
     Inl e \<Rightarrow> Inl e | Inr r \<Rightarrow> plan_instruments prefix result ks (plan_instrument prefix k r acc))"

definition child_order :: "execution_child \<Rightarrow> bool \<times> string \<times> int" where
  "child_order c = (ec_side c \<noteq> ''sell'', ec_instrument c, ec_child_index c)"

definition instrument_result ::
  "planner \<Rightarrow> target_portfolio \<Rightarrow> account_snapshot \<Rightarrow> (string \<times> tradable_quote) list \<Rightarrow>
   (string \<times> instrument_metadata) list \<Rightarrow> string \<Rightarrow> exn + key_result" where
  "instrument_result pl t account quotes instruments instrument =
     (let wanted = canon_dict (\<lambda>v. max v 0) (tp_holdings t);
          current = canon_dict (\<lambda>v. max v 0) (as_positions account);
          active = canon_dict (\<lambda>v. v) (as_active_order_deltas account);
          sellable = canon_dict (\<lambda>v. max v 0) (as_sellable account);
          metadata = (case canon_lookup instruments instrument of Some m \<Rightarrow> m | None \<Rightarrow> metadata_of instrument);
          lot = (if im_lot_size metadata \<noteq> 0 then im_lot_size metadata else pl_lot_size pl)
      in children_of pl (as_balance account) (dget wanted instrument) (dget current instrument + dget active instrument)
           (dget_or sellable instrument (dget current instrument)) instrument lot (im_price_tick metadata)
           (canon_lookup quotes instrument) (map_of (tp_prices t) instrument))"

definition trading_keys :: "target_portfolio \<Rightarrow> account_snapshot \<Rightarrow> string list" where
  "trading_keys t account = sort (remdups (map fst (canon_dict (\<lambda>v. max v 0) (tp_holdings t)) @
     map fst (canon_dict (\<lambda>v. max v 0) (as_positions account))))"

definition trading_plan ::
  "(json list \<Rightarrow> string) \<Rightarrow> planner \<Rightarrow> target_portfolio \<Rightarrow> account_snapshot \<Rightarrow> (string \<times> tradable_quote) list \<Rightarrow>
   (string \<times> instrument_metadata) list \<Rightarrow> (string \<times> int) list \<Rightarrow> exn + child_plan" where
  "trading_plan stable_id pl t account quotes instruments next_child_index =
     (let decision_id = decision_id_of stable_id t in
      case plan_instruments (reference_prefix t decision_id) (instrument_result pl t account quotes instruments)
             (trading_keys t account) ([], [], next_child_index) of
        Inl e \<Rightarrow> Inl e
      | Inr (children, issues, counters) \<Rightarrow> Inr
          \<lparr>xp_plan_id = stable_id [JStr ''plan'', JStr decision_id], xp_decision_id = decision_id,
           xp_instance_id = or_text (tp_instance_id t) ''legacy'', xp_config_hash = tp_config_hash t,
           xp_phase = PHASE_PLANNED, xp_children = sort_key child_order children, xp_issues = issues\<rparr>)"

text \<open>At a positive price the chunks are the live planner's.\<close>

lemma trading_chunks_eq: "0 < price \<Longrightarrow> trading_chunks caps volume price lot = Inr (chunk_volumes caps volume price lot)"
  by (simp add: trading_chunks_def chunk_volumes_def Let_def)

subsection \<open>Rounding to the tick\<close>

lemma round_price_tick_near:
  assumes "0 < tick" "0 \<le> price"
  shows "\<bar>round_price_tick price tick - price\<bar> \<le> tick / 2" "\<exists>k. 0 \<le> k \<and> round_price_tick price tick = of_int k * tick"
proof -
  let ?k = "\<lfloor>price / tick + 1/2\<rfloor>"
  have q: "0 \<le> price / tick" using assms by simp
  then have r: "round_price_tick price tick = of_int ?k * tick" using assms(1) by (simp add: round_price_tick_def Let_def)
  have "of_int ?k \<le> price / tick + 1/2" "price / tick + 1/2 < of_int ?k + 1" by linarith+
  then have "of_int ?k - price / tick \<le> 1/2" "- (of_int ?k - price / tick) \<le> 1/2" by linarith+
  then have "\<bar>of_int ?k - price / tick\<bar> \<le> 1/2" by (rule abs_leI)
  then have "\<bar>of_int ?k - price / tick\<bar> * tick \<le> 1/2 * tick" using assms(1) by (intro mult_right_mono) simp_all
  moreover have "\<bar>of_int ?k - price / tick\<bar> * tick = \<bar>of_int ?k * tick - price\<bar>"
    using assms(1) by (simp add: abs_mult_pos left_diff_distrib)
  ultimately show "\<bar>round_price_tick price tick - price\<bar> \<le> tick / 2" using r by simp
  show "\<exists>k. 0 \<le> k \<and> round_price_tick price tick = of_int k * tick" using r q by (intro exI [of _ ?k]) simp
qed

lemma round_price_tick_nonneg: "0 \<le> price \<Longrightarrow> 0 \<le> round_price_tick price tick"
  using round_price_tick_near(2) [of tick price] by (cases "0 < tick") (auto simp: round_price_tick_def)

subsection \<open>The children of an instrument\<close>

lemma children_of_Children:
  assumes "children_of pl equity wanted effective available k lot tick quote fallback = Inr (Children side chunks price)"
    "0 \<le> available"
  defines "d \<equiv> limit_sell (wanted - effective) available"
  shows "side = (if d > 0 then ''buy'' else ''sell'')" "chunks \<noteq> []" "0 < floor_lot \<bar>d\<bar> lot"
    "sum_list chunks = floor_lot \<bar>d\<bar> lot" "\<not> untradable quote" "\<not> (d > 0 \<and> at_limit_up quote price)"
    "c \<in> set chunks \<Longrightarrow> 0 < c \<and> is_lots (lot_unit lot) c"
    "c \<in> set chunks \<Longrightarrow> x \<in> set (value_caps (pl_max_order_value pl) (pl_max_order_equity_pct pl) equity) \<Longrightarrow>
       c * price \<le> x"
proof -
  let ?caps = "value_caps (pl_max_order_value pl) (pl_max_order_equity_pct pl) equity"
  let ?v = "floor_lot \<bar>d\<bar> lot"
  have d: "limit_sell (wanted - effective) available = d" by (simp add: d_def)
  from assms(1) have r: "trading_chunks ?caps ?v price lot = Inr chunks" "chunks \<noteq> []" "0 < ?v"
    "side = (if d > 0 then ''buy'' else ''sell'')" "\<not> untradable quote" "\<not> (d > 0 \<and> at_limit_up quote price)"
    "price = round_price_tick (quote_price quote fallback) tick" "0 < quote_price quote fallback"
    unfolding children_of_def Let_def d by (auto simp: key_issue_def not_le split: if_splits sum.splits)
  have p: "0 \<le> price" unfolding r(7) using r(8) by (intro round_price_tick_nonneg) simp
  have cs: "chunks = chunk_volumes ?caps ?v price lot"
  proof (cases "price = 0")
    case True
    with r(1) show ?thesis by (auto simp: chunk_volumes_def trading_chunks_def split: if_splits)
  next
    case False
    with p r(1) show ?thesis by (simp add: trading_chunks_eq)
  qed
  note whole = floor_lot_whole [OF abs_ge_zero [of d], of lot]
  show "side = (if d > 0 then ''buy'' else ''sell'')" "chunks \<noteq> []" "0 < ?v" "\<not> untradable quote"
    "\<not> (d > 0 \<and> at_limit_up quote price)" by (rule r)+
  show "sum_list chunks = ?v" using chunk_volumes_sum [OF whole r(3), of ?caps price] r(2) cs by auto
  show "0 < c \<and> is_lots (lot_unit lot) c" if "c \<in> set chunks"
    using chunk_volumes_children(1,2) [OF that [unfolded cs] r(3) whole] by simp
  show "c * price \<le> x" if c: "c \<in> set chunks" and x: "x \<in> set ?caps"
  proof (cases "price = 0")
    case True
    then show ?thesis using value_caps_pos [OF x] by simp
  next
    case False
    with p have "0 < price" by simp
    then show ?thesis using chunk_volumes_children(3) [OF c [unfolded cs] r(3) whole] x value_caps_pos [OF x] by blast
  qed
qed

definition child_signed :: "execution_child \<Rightarrow> num" where
  "child_signed c = (if ec_side c = ''buy'' then ec_volume c else - ec_volume c)"

definition child_net :: "string \<Rightarrow> execution_child list \<Rightarrow> num" where
  "child_net k cs = sum_list (map child_signed (filter (\<lambda>c. ec_instrument c = k) cs))"

lemma child_net_simps: "child_net k (a @ b) = child_net k a + child_net k b" "child_net k [] = 0"
  by (simp_all add: child_net_def)

lemma child_net_sort: "child_net k (sort_key f cs) = child_net k cs"
proof -
  have "mset (filter P (sort_key f cs)) = mset (filter P cs)" for P by simp
  then have "mset (map child_signed (filter (\<lambda>c. ec_instrument c = k) (sort_key f cs))) =
      mset (map child_signed (filter (\<lambda>c. ec_instrument c = k) cs))"
    unfolding mset_map by simp
  then show ?thesis unfolding child_net_def by (metis sum_mset_sum_list)
qed

lemma make_children_signed: "sum_list (map child_signed (make_children prefix inst side price i chunks)) =
    (if side = ''buy'' then sum_list chunks else - sum_list chunks)"
proof -
  have "map child_signed (make_children prefix inst side price i chunks) =
      map (\<lambda>(j, v). if side = ''buy'' then v else - v) (enumerate 0 chunks)"
    by (auto simp: make_children_def child_signed_def)
  moreover have "sum_list (map uminus chunks) = - sum_list chunks" by (induction chunks) simp_all
  ultimately show ?thesis by (auto simp: enumerate_map_snd)
qed

lemma make_children_instrument: "c \<in> set (make_children prefix inst side price i chunks) \<Longrightarrow> ec_instrument c = inst"
  by (auto simp: make_children_def)

lemma make_children_net: "child_net k (make_children prefix inst side price i chunks) =
    (if inst = k then if side = ''buy'' then sum_list chunks else - sum_list chunks else 0)"
proof -
  have "filter (\<lambda>c. ec_instrument c = k) (make_children prefix inst side price i chunks) =
      (if inst = k then make_children prefix inst side price i chunks else [])"
    using make_children_instrument by (auto simp: filter_id_conv filter_empty_conv)
  then show ?thesis by (simp add: child_net_def make_children_signed)
qed

definition result_net :: "exn + key_result \<Rightarrow> num" where
  "result_net r = (case r of Inr (Children side chunks _) \<Rightarrow> (if side = ''buy'' then sum_list chunks else - sum_list chunks) | _ \<Rightarrow> 0)"

lemma plan_instruments_net:
  assumes "plan_instruments prefix result keys (cs, is, ct) = Inr (cs', is', ct')" "distinct keys"
  shows "child_net k cs' = child_net k cs + (if k \<in> set keys then result_net (result k) else 0)"
  using assms
proof (induction keys arbitrary: cs "is" ct)
  case (Cons key keys)
  obtain r where r: "result key = Inr r" using Cons.prems(1) by (auto split: sum.splits)
  obtain cs1 is1 ct1 where step: "plan_instrument prefix key r (cs, is, ct) = (cs1, is1, ct1)" by (metis surj_pair)
  have rest: "plan_instruments prefix result keys (cs1, is1, ct1) = Inr (cs', is', ct')"
    using Cons.prems(1) r step by simp
  have "child_net k cs1 = child_net k cs + (if k = key then result_net (result key) else 0)"
    using step r by (cases r) (auto simp: plan_instrument_def result_net_def Let_def child_net_simps make_children_net)
  with Cons.IH [OF rest] Cons.prems(2) show ?case by auto
qed simp

text \<open>Without a value cap no price is divided by, and every book has a plan.\<close>

lemma plan_instruments_total:
  assumes "\<And>k. \<exists>r. result k = Inr r"
  obtains acc' where "plan_instruments prefix result keys acc = Inr acc'"
proof -
  have "\<exists>acc'. plan_instruments prefix result keys acc = Inr acc'" for acc
  proof (induction keys arbitrary: acc)
    case (Cons k ks)
    from assms obtain r where "result k = Inr r" by blast
    with Cons show ?case by simp
  qed (simp del: split_paired_Ex)
  with that show thesis by blast
qed

lemma trading_plan_total:
  assumes "pl_max_order_value pl \<le> 0" "pl_max_order_equity_pct pl \<le> 0"
  shows "\<exists>p. trading_plan stable_id pl t account quotes instruments ni = Inr p"
proof -
  have "pl_max_order_equity_pct pl * max (as_balance account) 0 \<le> 0"
    using assms(2) by (intro mult_nonpos_nonneg) auto
  with assms(1) have "value_caps (pl_max_order_value pl) (pl_max_order_equity_pct pl) (as_balance account) = []"
    by (simp add: value_caps_def)
  then have "\<exists>r. instrument_result pl t account quotes instruments k = Inr r" for k
    by (simp add: instrument_result_def children_of_def key_issue_def trading_chunks_def Let_def)
  then obtain acc where "plan_instruments (reference_prefix t (decision_id_of stable_id t))
      (instrument_result pl t account quotes instruments) (trading_keys t account) ([], [], ni) = Inr acc"
    by (rule plan_instruments_total)
  then show ?thesis by (cases acc) (simp add: trading_plan_def Let_def)
qed

text \<open>Where a replan would put the holding: between what is held and what is wanted.\<close>

lemma children_of_bounds:
  assumes "children_of pl equity wanted effective available k lot tick quote fallback = r" "0 \<le> available"
  defines "delta \<equiv> wanted - effective"
  shows "min 0 delta \<le> result_net r \<and> result_net r \<le> max 0 delta \<and> - result_net r \<le> available"
proof (cases "\<exists>side chunks price. r = Inr (Children side chunks price)")
  case True
  then obtain side chunks price where r: "r = Inr (Children side chunks price)" by blast
  let ?d = "limit_sell delta available"
  note c = children_of_Children [OF assms(1) [unfolded r] assms(2)]
  have net: "result_net r = (if 0 < ?d then floor_lot \<bar>?d\<bar> lot else - floor_lot \<bar>?d\<bar> lot)"
    using c(1,4) r by (simp add: result_net_def delta_def)
  have d: "delta < 0 \<Longrightarrow> ?d \<le> 0 \<and> delta \<le> ?d \<and> - available \<le> ?d" "\<not> delta < 0 \<Longrightarrow> ?d = delta"
    using assms(2) by (auto simp: limit_sell_def)
  note fl = floor_lot_le [of "\<bar>?d\<bar>" lot] floor_lot_nonneg [of "\<bar>?d\<bar>" lot]
  show ?thesis using net d fl assms(2) by (cases "delta < 0") auto
next
  case False
  then have "result_net r = 0" by (auto simp: result_net_def split: sum.split key_result.split)
  with assms(2) show ?thesis by simp
qed

lemma canon_dict_nonneg: "0 \<le> dget (canon_dict (\<lambda>v. max v 0) d) k"
proof (cases "map_of (canon_dict (\<lambda>v. max v 0) d) k")
  case (Some v)
  then have "0 \<le> v" using map_of_SomeD [OF Some [unfolded canon_dict_def dict_of_get]] by auto
  with Some show ?thesis by (simp add: dget_def)
qed (simp add: dget_def)

lemma dget_or_nonneg: "0 \<le> v \<Longrightarrow> 0 \<le> dget_or (canon_dict (\<lambda>v. max v 0) d) k v"
  using canon_dict_nonneg [of d k] by (auto simp: dget_or_def dget_def split: option.splits)

lemma trading_plan_parts:
  assumes "trading_plan stable_id pl t account quotes instruments ni = Inr p"
  obtains cs "is" ct where "plan_instruments (reference_prefix t (decision_id_of stable_id t))
      (instrument_result pl t account quotes instruments) (trading_keys t account) ([], [], ni) = Inr (cs, is, ct)"
    "xp_children p = sort_key child_order cs" "xp_issues p = is"
  using assms by (auto simp: trading_plan_def Let_def split: sum.splits prod.splits)

lemma trading_plan_net:
  assumes "trading_plan stable_id pl t account quotes instruments ni = Inr p"
  defines "delta k \<equiv> dget (canon_dict (\<lambda>v. max v 0) (tp_holdings t)) k -
    (dget (canon_dict (\<lambda>v. max v 0) (as_positions account)) k + dget (canon_dict (\<lambda>v. v) (as_active_order_deltas account)) k)"
    and "available k \<equiv> dget_or (canon_dict (\<lambda>v. max v 0) (as_sellable account)) k
      (dget (canon_dict (\<lambda>v. max v 0) (as_positions account)) k)"
  shows "min 0 (delta k) \<le> child_net k (xp_children p)" "child_net k (xp_children p) \<le> max 0 (delta k)"
    "- child_net k (xp_children p) \<le> available k"
proof -
  obtain cs "is" ct where parts: "plan_instruments (reference_prefix t (decision_id_of stable_id t))
      (instrument_result pl t account quotes instruments) (trading_keys t account) ([], [], ni) = Inr (cs, is, ct)"
    "xp_children p = sort_key child_order cs" by (rule trading_plan_parts [OF assms(1)])
  let ?net = "result_net (instrument_result pl t account quotes instruments k)"
  have "child_net k (xp_children p) = (if k \<in> set (trading_keys t account) then ?net else 0)"
  proof -
    have "distinct (trading_keys t account)" by (simp add: trading_keys_def)
    from plan_instruments_net [OF parts(1) this, of k] have "child_net k cs =
        (if k \<in> set (trading_keys t account) then ?net else 0)" by (simp add: child_net_simps)
    then show ?thesis unfolding parts(2) child_net_sort .
  qed
  moreover have av: "0 \<le> available k" by (simp add: available_def dget_or_nonneg canon_dict_nonneg)
  moreover have "min 0 (delta k) \<le> ?net \<and> ?net \<le> max 0 (delta k) \<and> - ?net \<le> available k"
    unfolding instrument_result_def Let_def delta_def available_def
    by (rule children_of_bounds [OF refl]) (simp add: dget_or_nonneg canon_dict_nonneg)
  ultimately show "min 0 (delta k) \<le> child_net k (xp_children p)" "child_net k (xp_children p) \<le> max 0 (delta k)"
    "- child_net k (xp_children p) \<le> available k" by (auto split: if_splits)
qed

subsection \<open>References across replans\<close>

definition child_ident :: "execution_child \<Rightarrow> string \<times> string \<times> int" where
  "child_ident c = (ec_instrument c, ec_side c, ec_child_index c)"

fun ident_reference :: "string \<Rightarrow> string \<times> string \<times> int \<Rightarrow> string" where
  "ident_reference prefix (instrument, side, i) =
     prefix @ instrument @ '':'' @ (if side = ''buy'' then ''B'' else ''S'') @ '':'' @ int_text i"

definition proper_side :: "string \<Rightarrow> bool" where
  "proper_side side \<longleftrightarrow> side = ''buy'' \<or> side = ''sell''"

lemma ident_reference_inj:
  assumes "ident_reference prefix (k, side, i) = ident_reference prefix (k', side', j)"
    "proper_side side" "proper_side side'" "0 \<le> i" "0 \<le> j"
  shows "k = k' \<and> side = side' \<and> i = j"
proof -
  let ?s = "if side = ''buy'' then ''B'' else ''S''" and ?s' = "if side' = ''buy'' then ''B'' else ''S''"
  have "k = k' \<and> ?s = ?s' \<and> nat i = nat j"
    using assms by (intro reference_suffix_inj) (simp_all add: int_text_def)
  then show ?thesis using assms(2-) by (auto simp: proper_side_def eq_nat_nat_iff split: if_splits)
qed

declare ident_reference.simps [simp del]

lemma counter_key_inj: "counter_key k side = counter_key k' side' \<Longrightarrow> proper_side side \<Longrightarrow> proper_side side' \<Longrightarrow>
    k = k' \<and> side = side'"
  by (auto simp: counter_key_def proper_side_def dest: arg_cong [where f = last])

definition child_key :: "execution_child \<Rightarrow> string" where
  "child_key c = counter_key (ec_instrument c) (ec_side c)"

text \<open>Each child carries its reference and an index from the counters' old value up to the new one.\<close>

definition numbered :: "string \<Rightarrow> (string \<times> int) list \<Rightarrow> execution_child list \<Rightarrow> (string \<times> int) list \<Rightarrow> bool" where
  "numbered prefix ct0 cs ct \<longleftrightarrow> distinct (map child_ident cs) \<and> (\<forall>k. get_index ct0 k \<le> get_index ct k) \<and>
     (\<forall>c \<in> set cs. proper_side (ec_side c) \<and> ec_reference c = ident_reference prefix (child_ident c) \<and>
        get_index ct0 (child_key c) \<le> ec_child_index c \<and> ec_child_index c < get_index ct (child_key c))"

lemma get_index_set: "get_index (dict_set k i d) k' = (if k' = k then i else get_index d k')"
  by (simp add: get_index_def AList.update_conv')

lemma make_children_member:
  "c \<in> set (make_children prefix inst side price i chunks) \<Longrightarrow> ec_instrument c = inst \<and> ec_side c = side \<and>
     ec_reference c = ident_reference prefix (child_ident c) \<and> i \<le> ec_child_index c \<and>
     ec_child_index c < i + int (length chunks)"
  by (auto simp: make_children_def child_ident_def in_set_enumerate_eq ident_reference.simps)

lemma make_children_distinct: "distinct (map child_ident (make_children prefix inst side price i chunks))"
proof -
  have "map child_ident (make_children prefix inst side price i chunks) =
      map (\<lambda>j. (inst, side, i + int j)) [0..<length chunks]"
    unfolding make_children_def by (simp add: child_ident_def split_beta comp_def flip: enumerate_map_fst
        [of "\<lambda>j. (inst, side, i + int j)" 0 chunks, simplified])
  then show ?thesis by (simp add: distinct_map inj_on_def)
qed

lemma numbered_step:
  assumes "numbered prefix ct0 cs ct" "plan_instrument prefix k r (cs, is, ct) = (cs', is', ct')"
    "\<And>side chunks price. r = Children side chunks price \<Longrightarrow> proper_side side"
  shows "numbered prefix ct0 cs' ct'"
proof (cases "\<exists>side chunks price. r = Children side chunks price")
  case False
  with assms(1,2) show ?thesis by (cases r) (auto simp: plan_instrument_def)
next
  case True
  then obtain side chunks price where r: "r = Children side chunks price" by blast
  let ?key = "counter_key k side"
  let ?i = "get_index ct ?key"
  let ?new = "make_children prefix k side price ?i chunks"
  have out: "cs' = cs @ ?new" "ct' = dict_set ?key (?i + int (length chunks)) ct"
    using assms(2) r by (auto simp: plan_instrument_def Let_def)
  note new = make_children_member [of _ prefix k side price ?i chunks]
  have side: "proper_side side" using assms(3) r by blast
  have "child_ident c' \<noteq> child_ident c" if "c \<in> set cs" "c' \<in> set ?new" for c c'
    using assms(1) new [OF that(2)] that(1) by (force simp: numbered_def child_ident_def child_key_def)
  then have "set (map child_ident cs) \<inter> set (map child_ident ?new) = {}" by fastforce
  then have "distinct (map child_ident cs')"
    using assms(1) make_children_distinct [of prefix k side price ?i chunks] out(1)
    by (simp add: numbered_def)
  moreover have mono: "get_index ct0 x \<le> get_index ct x \<and> get_index ct x \<le> get_index ct' x" for x
    using assms(1) out(2) by (auto simp: numbered_def get_index_set)
  moreover have "proper_side (ec_side c) \<and> ec_reference c = ident_reference prefix (child_ident c) \<and>
        get_index ct0 (child_key c) \<le> ec_child_index c \<and> ec_child_index c < get_index ct' (child_key c)"
    if c: "c \<in> set cs'" for c
  proof (cases "c \<in> set cs")
    case True
    with assms(1) mono [of "child_key c"] show ?thesis by (auto simp: numbered_def)
  next
    case False
    with c out(1) have "c \<in> set ?new" by simp
    from new [OF this] side mono [of ?key] out(2) show ?thesis by (auto simp: child_key_def get_index_set)
  qed
  ultimately show ?thesis unfolding numbered_def using order_trans by blast
qed

lemma children_of_side:
  "children_of pl equity wanted effective available k lot tick quote fallback = Inr (Children side chunks price) \<Longrightarrow>
     proper_side side"
  by (auto simp: children_of_def Let_def key_issue_def proper_side_def split: if_splits sum.splits)

lemma plan_instruments_numbered:
  assumes "plan_instruments prefix result keys (cs, is, ct) = Inr (cs', is', ct')" "numbered prefix ct0 cs ct"
    "\<And>k side chunks price. result k = Inr (Children side chunks price) \<Longrightarrow> proper_side side"
  shows "numbered prefix ct0 cs' ct'"
  using assms(1,2)
proof (induction keys arbitrary: cs "is" ct)
  case (Cons key keys)
  obtain r where r: "result key = Inr r" using Cons.prems(1) by (auto split: sum.splits)
  obtain cs1 is1 ct1 where step: "plan_instrument prefix key r (cs, is, ct) = (cs1, is1, ct1)" by (metis surj_pair)
  have "plan_instruments prefix result keys (cs1, is1, ct1) = Inr (cs', is', ct')"
    using Cons.prems(1) r step by simp
  moreover have "numbered prefix ct0 cs1 ct1"
    using numbered_step [OF Cons.prems(2) step] assms(3) r by blast
  ultimately show ?case by (rule Cons.IH)
qed simp

lemma trading_plan_numbered:
  assumes "trading_plan stable_id pl t account quotes instruments ni = Inr p"
  obtains ct where "numbered (reference_prefix t (decision_id_of stable_id t)) ni (xp_children p) ct"
proof -
  obtain cs "is" ct where parts: "plan_instruments (reference_prefix t (decision_id_of stable_id t))
      (instrument_result pl t account quotes instruments) (trading_keys t account) ([], [], ni) = Inr (cs, is, ct)"
    "xp_children p = sort_key child_order cs" by (rule trading_plan_parts [OF assms])
  have "numbered (reference_prefix t (decision_id_of stable_id t)) ni cs ct"
  proof (rule plan_instruments_numbered [OF parts(1)])
    show "numbered (reference_prefix t (decision_id_of stable_id t)) ni [] ni" by (simp add: numbered_def)
    show "proper_side side"
      if "instrument_result pl t account quotes instruments k = Inr (Children side chunks price)" for k side chunks price
      using that children_of_side by (simp add: instrument_result_def Let_def)
  qed
  moreover have "mset (map child_ident (sort_key child_order cs)) = mset (map child_ident cs)"
    by (simp only: mset_map mset_sort)
  then have "distinct (map child_ident (sort_key child_order cs)) = distinct (map child_ident cs)"
    by (rule mset_eq_imp_distinct_iff)
  ultimately have "numbered (reference_prefix t (decision_id_of stable_id t)) ni (xp_children p) ct"
    unfolding parts(2) numbered_def set_sort by blast
  then show thesis by (rule that)
qed

text \<open>\<open>execution._next_indices\<close>: the counters after a plan.\<close>

definition next_indices :: "execution_child list \<Rightarrow> (string \<times> int) list \<Rightarrow> (string \<times> int) list" where
  "next_indices children existing = fold (\<lambda>c d. let key = counter_key (ec_instrument c) (ec_side c)
     in dict_set key (max (get_index d key) (ec_child_index c + 1)) d) children existing"

lemma next_indices_ge:
  "get_index d k \<le> get_index (next_indices cs d) k"
  "c \<in> set cs \<Longrightarrow> ec_child_index c < get_index (next_indices cs d) (child_key c)"
proof -
  show mono: "get_index d k \<le> get_index (next_indices cs d) k" for cs d k
  proof (induction cs arbitrary: d)
    case (Cons c cs)
    let ?d = "dict_set (child_key c) (max (get_index d (child_key c)) (ec_child_index c + 1)) d"
    have "get_index d k \<le> get_index ?d k" by (simp add: get_index_set)
    also have "\<dots> \<le> get_index (next_indices cs ?d) k" by (rule Cons)
    finally show ?case by (simp add: next_indices_def child_key_def Let_def)
  qed (simp add: next_indices_def)
  show "c \<in> set cs \<Longrightarrow> ec_child_index c < get_index (next_indices cs d) (child_key c)"
  proof (induction cs arbitrary: d)
    case (Cons x cs)
    let ?d = "dict_set (child_key x) (max (get_index d (child_key x)) (ec_child_index x + 1)) d"
    have next_step: "next_indices (x # cs) d = next_indices cs ?d" by (simp add: next_indices_def child_key_def Let_def)
    show ?case
    proof (cases "c \<in> set cs")
      case True
      with Cons.IH next_step show ?thesis by simp
    next
      case False
      with Cons.prems have "ec_child_index c < get_index ?d (child_key c)" by (simp add: get_index_set)
      with mono [of ?d "child_key c" cs] next_step show ?thesis by simp
    qed
  qed simp
qed

lemma numberedD:
  assumes "numbered prefix ct0 cs ct" "\<And>k. 0 \<le> get_index ct0 k" "c \<in> set cs"
  shows "proper_side (ec_side c)" "0 \<le> ec_child_index c" "ec_reference c = ident_reference prefix (child_ident c)"
proof -
  show "proper_side (ec_side c)" "ec_reference c = ident_reference prefix (child_ident c)"
    using assms(1,3) by (simp_all add: numbered_def)
  have "get_index ct0 (child_key c) \<le> ec_child_index c" using assms(1,3) by (simp add: numbered_def)
  with assms(2) [of "child_key c"] show "0 \<le> ec_child_index c" by simp
qed

text \<open>References within a plan are distinct, and a replan on the next counters repeats none.\<close>

lemma numbered_references_distinct:
  assumes "numbered prefix ct0 cs ct" "\<And>k. 0 \<le> get_index ct0 k"
  shows "distinct (map ec_reference cs)"
proof -
  have "map ec_reference cs = map (ident_reference prefix) (map child_ident cs)"
    using assms(1) by (simp add: numbered_def)
  moreover have "inj_on (ident_reference prefix) (set (map child_ident cs))"
  proof (rule inj_onI)
    fix a b assume ab: "a \<in> set (map child_ident cs)" "b \<in> set (map child_ident cs)"
      "ident_reference prefix a = ident_reference prefix b"
    then obtain c c' where c: "c \<in> set cs" "a = child_ident c" "c' \<in> set cs" "b = child_ident c'" by auto
    with ab(3) numberedD(1,2) [OF assms c(1)] numberedD(1,2) [OF assms c(3)] show "a = b"
      by (auto simp: child_ident_def dest!: ident_reference_inj)
  qed
  ultimately show ?thesis using assms(1) by (simp only: distinct_map numbered_def)
qed

lemma numbered_references_fresh:
  assumes "numbered prefix ct0 cs ct" "numbered prefix (next_indices cs ct0) cs' ct'" "\<And>k. 0 \<le> get_index ct0 k"
    "c \<in> set cs" "c' \<in> set cs'"
  shows "ec_reference c \<noteq> ec_reference c'"
proof
  assume eq: "ec_reference c = ec_reference c'"
  note c = numberedD [OF assms(1,3,4)]
  have c': "proper_side (ec_side c')" "ec_reference c' = ident_reference prefix (child_ident c')"
    "get_index (next_indices cs ct0) (child_key c') \<le> ec_child_index c'"
    using assms(2,5) by (auto simp: numbered_def)
  have pos: "0 \<le> ec_child_index c'"
    by (rule order_trans [OF assms(3) order_trans [OF next_indices_ge(1) c'(3)]])
  have "ident_reference prefix (child_ident c) = ident_reference prefix (child_ident c')"
    unfolding c(3) [symmetric] c'(2) [symmetric] by (rule eq)
  from ident_reference_inj [OF this [unfolded child_ident_def] c(1) c'(1) c(2) pos]
  have "child_ident c = child_ident c'" by (simp add: child_ident_def)
  then have "child_key c' = child_key c" "ec_child_index c' = ec_child_index c"
    by (simp_all add: child_ident_def child_key_def)
  with c'(3) next_indices_ge(2) [OF assms(4), of ct0] show False by simp
qed

end
