(* ===== verification/Portfolio.thy ===== *)
theory Portfolio
  imports Trading_Planner
begin

section \<open>Signals to portfolios\<close>

text \<open>
  \<open>systems/trading/portfolio.py\<close>: the three portfolio policies, and the sizer that turns weights
  into whole lots and then scales the buys down until they fit the cash.  An infinite cost is
  \<open>None\<close>.  The bisection runs 64 rounds, as in the code.
\<close>

subsection \<open>Equal weights\<close>

record signal_record =
  sr_instrument :: string
  sr_signal :: int
  sr_score :: num

definition equal_weight_build :: "num \<Rightarrow> num \<Rightarrow> signal_record list \<Rightarrow> string \<Rightarrow> target_weights" where
  "equal_weight_build capital_fraction max_position_weight signals as_of =
     (let active = sort (remdups (map sr_instrument (filter (\<lambda>r. sr_signal r > 0) signals)));
          scores = dict_of (map (\<lambda>r. (sr_instrument r, sr_score r)) signals);
          weights = (if active = [] then []
            else let capital = min (max capital_fraction 0) 1; cap = min (max max_position_weight 0) 1;
                     weight = min (capital / of_nat (length active)) cap
                 in map (\<lambda>k. (k, weight)) active)
      in \<lparr>tw_as_of = as_of, tw_weights = weights, tw_scores = scores, tw_policy_id = [], tw_policy_version = []\<rparr>)"

subsection \<open>Timing states\<close>

record timing_policy =
  tm_target_percent :: num
  tm_cash_buffer :: num
  tm_max_position_weight :: num
  tm_exposure_mode :: string
  tm_policy_id :: string
  tm_version :: string

definition on_states :: "string set" where
  "on_states = {''1'', ''true'', ''long'', ''bull'', ''on''}"

definition timing_active :: "signal_payload \<Rightarrow> string list" where
  "timing_active p = sort (map fst (filter (\<lambda>(k, v). str_lower (str_strip v) \<in> on_states) (payload_states p)))"

definition timing_weight :: "timing_policy \<Rightarrow> string list \<Rightarrow> exn + num" where
  "timing_weight tp active =
     (let target = tm_target_percent tp; cap = tm_max_position_weight tp; investable = 1 - tm_cash_buffer tp;
          mode = str_lower (str_strip (tm_exposure_mode tp)); eps = 1/1000000000000 in
      if target < 0 \<or> target > cap + eps
      then Inl (ValueError ''target_percent must be non-negative and <= max_position_weight'')
      else if investable < 0 \<or> investable > 1 then Inl (ValueError ''cash_buffer must be between 0 and 1'')
      else if mode = ''per_instrument'' then
        (let total_weight = target * of_nat (length active) in
         if total_weight > investable + eps
         then Inl (ValueError (''timing target weights sum to '' @ pct_text 2 total_weight @ '', above investable '' @
                pct_text 2 investable))
         else Inr target)
      else if mode = ''equal_active_budget'' then
        (if target > investable + eps
         then Inl (ValueError (''timing exposure budget '' @ pct_text 2 target @ '' is above investable '' @
                pct_text 2 investable))
         else Inr (if active \<noteq> [] then min (target / of_nat (length active)) cap else 0))
      else Inl (ValueError ''exposure_mode must be per_instrument or equal_active_budget''))"

definition timing_build :: "timing_policy \<Rightarrow> portfolio_inputs \<Rightarrow> exn + target_weights" where
  "timing_build tp inputs =
     (if pf_selection inputs \<noteq> None \<or> pf_market_timing inputs \<noteq> []
      then Inl (ValueError ''timing_fixed_exposure accepts one instrument-timing source only'')
      else case pf_instrument_timing inputs of
        [e] \<Rightarrow>
          if sg_kind e \<noteq> INSTRUMENT_TIMING
          then Inl (ValueError ''timing_fixed_exposure requires instrument timing signals'')
          else let active = timing_active (sg_payload e) in
            (case timing_weight tp active of
               Inl err \<Rightarrow> Inl err
             | Inr weight \<Rightarrow> Inr \<lparr>tw_as_of = sg_as_of e, tw_weights = map (\<lambda>k. (k, weight)) active,
                 tw_scores = payload_scores (sg_payload e), tw_policy_id = tm_policy_id tp,
                 tw_policy_version = tm_version tp\<rparr>)
      | _ \<Rightarrow> Inl (ValueError ''timing_fixed_exposure requires exactly one signal envelope''))"

subsection \<open>Top-k selection with bounded turnover\<close>

record topk_policy =
  tk_topk :: int
  tk_n_drop :: int
  tk_cash_buffer :: num
  tk_max_position_weight :: num
  tk_policy_id :: string
  tk_version :: string

definition by_score :: "(string \<times> num) list \<Rightarrow> string \<Rightarrow> num \<times> string" where
  "by_score scores k = (- dget scores k, k)"

text \<open>The loop over the ranking: the length is tested after the append.\<close>

fun fill_selected :: "int \<Rightarrow> string list \<Rightarrow> string list \<Rightarrow> string list" where
  "fill_selected topk [] selected = selected"
| "fill_selected topk (k # ranked) selected =
     (let selected' = (if k \<in> set selected then selected else selected @ [k])
      in if int (length selected') \<ge> topk then selected' else fill_selected topk ranked selected')"

definition topk_select :: "int \<Rightarrow> int \<Rightarrow> (string \<times> num) list \<Rightarrow> (string \<times> num) list \<Rightarrow> string list" where
  "topk_select topk n_drop scores positions =
     (let ranked = sort_key (by_score scores) (map fst scores);
          current = map fst (filter (\<lambda>(k, v). v > 0 \<and> k \<in> fst ` set scores) positions)
      in if current = [] then take (nat topk) ranked
         else
           let ordered = sort_key (by_score scores) current;
               forced_excess = max (int (length ordered) - topk) 0;
               drop_count = min (max n_drop forced_excess) (int (length ordered));
               kept = take (length ordered - nat drop_count) ordered
           in fill_selected topk ranked (take (nat topk) kept))"

definition topk_build :: "topk_policy \<Rightarrow> portfolio_inputs \<Rightarrow> account_snapshot \<Rightarrow> exn + target_weights" where
  "topk_build tp inputs account =
     (case pf_selection inputs of
        None \<Rightarrow> Inl (ValueError ''selection policy accepts one cross-sectional source only'')
      | Some e \<Rightarrow>
          if pf_instrument_timing inputs \<noteq> [] \<or> pf_market_timing inputs \<noteq> []
          then Inl (ValueError ''selection policy accepts one cross-sectional source only'')
          else if sg_kind e \<noteq> CROSS_SECTIONAL_SELECTION
          then Inl (ValueError ''selection policy requires cross-sectional scores'')
          else if tk_topk tp \<le> 0 \<or> tk_n_drop tp < 0 \<or> tk_n_drop tp > tk_topk tp
          then Inl (ValueError ''topk must be positive and n_drop must be between 0 and topk'')
          else
            let scores = payload_scores (sg_payload e);
                selected = topk_select (tk_topk tp) (tk_n_drop tp) scores (as_positions account);
                investable = 1 - tk_cash_buffer tp; cap = tk_max_position_weight tp in
            if investable < 0 \<or> investable > 1 \<or> cap \<le> 0 \<or> cap > 1
            then Inl (ValueError ''cash_buffer/max_position_weight are outside safe bounds'')
            else let weight = (if selected \<noteq> [] then min (investable / of_nat (length selected)) cap else 0)
              in Inr \<lparr>tw_as_of = sg_as_of e, tw_weights = map (\<lambda>k. (k, weight)) selected, tw_scores = scores,
                      tw_policy_id = tk_policy_id tp, tw_policy_version = tk_version tp\<rparr>)"

subsection \<open>What the weights add up to\<close>

definition total_weight :: "target_weights \<Rightarrow> num" where
  "total_weight w = sum_list (map snd (tw_weights w))"

lemma const_weights: "sum_list (map (snd \<circ> (\<lambda>k. (k, w))) ks) = of_nat (length ks) * (w :: num)"
  by (simp add: comp_def sum_list_triv)

lemma shared_weight: "0 \<le> budget \<Longrightarrow> of_nat (length ks) * min (budget / of_nat (length ks)) (cap :: num) \<le> budget"
proof (cases "ks = []")
  case False
  then have n: "(0 :: num) < of_nat (length ks)" by simp
  have "of_nat (length ks) * min (budget / of_nat (length ks)) cap \<le> of_nat (length ks) * (budget / of_nat (length ks))"
    using n by (intro mult_left_mono) simp_all
  also have "\<dots> = budget" using n by simp
  finally show ?thesis .
qed simp

lemma equal_weight_total:
  "total_weight (equal_weight_build capital_fraction cap signals as_of) \<le> min (max capital_fraction 0) 1"
proof -
  let ?active = "sort (remdups (map sr_instrument (filter (\<lambda>r. sr_signal r > 0) signals)))"
  have "total_weight (equal_weight_build capital_fraction cap signals as_of) =
      (if ?active = [] then 0 else of_nat (length ?active) *
         min (min (max capital_fraction 0) 1 / of_nat (length ?active)) (min (max cap 0) 1))"
    by (simp only: total_weight_def equal_weight_build_def Let_def target_weights.simps if_distrib [of "map snd"]
        if_distrib [of sum_list] map_map const_weights list.map sum_list.Nil)
  moreover have "0 \<le> min (max capital_fraction 0) 1" by simp
  ultimately show ?thesis using shared_weight [of "min (max capital_fraction 0) 1" ?active] by (simp only: split: if_split) simp
qed

lemma equal_weight_each:
  "(k, w) \<in> set (tw_weights (equal_weight_build capital_fraction cap signals as_of)) \<Longrightarrow>
     0 \<le> w \<and> w \<le> min (max cap 0) 1 \<and> (\<exists>r \<in> set signals. sr_instrument r = k \<and> 0 < sr_signal r)"
  by (auto simp: equal_weight_build_def Let_def min_def max_def split: if_splits)

lemma timing_weight_bounds:
  assumes "timing_weight tp active = Inr w"
  shows "of_nat (length active) * w \<le> 1 - tm_cash_buffer tp + 1/1000000000000" "0 \<le> w \<or> tm_max_position_weight tp < 0"
    "w \<le> tm_max_position_weight tp + 1/1000000000000 \<or> active = []"
proof -
  let ?eps = "1/1000000000000 :: num"
  let ?t = "tm_target_percent tp"
  from assms have base: "0 \<le> ?t" "?t \<le> tm_max_position_weight tp + ?eps" "0 \<le> 1 - tm_cash_buffer tp"
    by (auto simp: timing_weight_def Let_def split: if_splits)
  from assms have modes: "(w = ?t \<and> ?t * of_nat (length active) \<le> 1 - tm_cash_buffer tp + ?eps) \<or>
      (?t \<le> 1 - tm_cash_buffer tp + ?eps \<and>
       w = (if active \<noteq> [] then min (?t / of_nat (length active)) (tm_max_position_weight tp) else 0))"
    by (auto simp: timing_weight_def Let_def split: if_splits)
  show "of_nat (length active) * w \<le> 1 - tm_cash_buffer tp + ?eps"
    using modes shared_weight [OF base(1), of active "tm_max_position_weight tp"] base(3)
    by (auto simp: mult.commute split: if_splits)
  show "0 \<le> w \<or> tm_max_position_weight tp < 0" "w \<le> tm_max_position_weight tp + ?eps \<or> active = []"
    using modes base by (auto simp: min_def split: if_splits)
qed

lemma timing_build_total:
  assumes "timing_build tp inputs = Inr w"
  shows "total_weight w \<le> 1 - tm_cash_buffer tp + 1/1000000000000"
  using assms timing_weight_bounds(1)
  by (auto simp: timing_build_def Let_def total_weight_def const_weights split: list.splits if_splits sum.splits)

lemma topk_build_total:
  assumes "topk_build tp inputs account = Inr w"
  shows "total_weight w \<le> 1 - tk_cash_buffer tp" "tk_cash_buffer tp \<le> 1"
    "(k, x) \<in> set (tw_weights w) \<Longrightarrow> 0 \<le> x \<and> x \<le> tk_max_position_weight tp"
proof -
  have "0 \<le> 1 - tk_cash_buffer tp \<and> 0 < tk_max_position_weight tp \<and> (\<exists>selected. tw_weights w =
      map (\<lambda>k. (k, min ((1 - tk_cash_buffer tp) / of_nat (length selected)) (tk_max_position_weight tp))) selected)"
    using assms by (auto simp: topk_build_def Let_def split: option.splits if_splits)
  then obtain selected where inv: "0 \<le> 1 - tk_cash_buffer tp" "0 < tk_max_position_weight tp" and w: "tw_weights w =
      map (\<lambda>k. (k, min ((1 - tk_cash_buffer tp) / of_nat (length selected)) (tk_max_position_weight tp))) selected"
    by blast
  show "total_weight w \<le> 1 - tk_cash_buffer tp"
    using shared_weight [OF inv(1)] by (simp add: total_weight_def w const_weights)
  show "tk_cash_buffer tp \<le> 1" using inv(1) by simp
  show "0 \<le> x \<and> x \<le> tk_max_position_weight tp" if "(k, x) \<in> set (tw_weights w)"
    using that inv by (auto simp: w)
qed

subsection \<open>How many instruments are selected\<close>

lemma fill_selected_length:
  "int (length selected) < topk \<Longrightarrow> int (length (fill_selected topk ranked selected)) \<le> topk"
  by (induction topk ranked selected rule: fill_selected.induct) (auto simp: Let_def)

lemma fill_selected_distinct: "distinct selected \<Longrightarrow> distinct (fill_selected topk ranked selected)"
  by (induction topk ranked selected rule: fill_selected.induct) (auto simp: Let_def)

lemma fill_selected_members:
  "set selected \<subseteq> set (fill_selected topk ranked selected)"
  "set (fill_selected topk ranked selected) \<subseteq> set selected \<union> set ranked"
  by (induction topk ranked selected rule: fill_selected.induct) (auto simp: Let_def)

lemma fill_selected_full: "topk \<le> int (length selected) \<Longrightarrow>
    length (fill_selected topk ranked selected) \<le> Suc (length selected)"
  by (cases ranked) (auto simp: Let_def)

lemma take_nat_length: "0 < n \<Longrightarrow> int (length (take (nat n) xs)) \<le> n"
  by simp

lemma topk_select_length:
  assumes "0 < topk" "0 \<le> n_drop"
  shows "int (length (topk_select topk n_drop scores positions)) \<le> topk + 1"
    "(\<forall>(k, v) \<in> set positions. v \<le> 0 \<or> k \<notin> fst ` set scores) \<Longrightarrow>
       int (length (topk_select topk n_drop scores positions)) \<le> topk"
proof -
  let ?current = "map fst (filter (\<lambda>(k, v). v > 0 \<and> k \<in> fst ` set scores) positions)"
  let ?ordered = "sort_key (by_score scores) ?current"
  let ?kept = "take (nat topk) (take (length ?ordered - nat (min (max n_drop (max (int (length ?ordered) - topk) 0))
     (int (length ?ordered)))) ?ordered)"
  let ?ranked = "sort_key (by_score scores) (map fst scores)"
  have kept: "int (length ?kept) \<le> topk" and fresh: "int (length (take (nat topk) ?ranked)) \<le> topk"
    using assms(1) by (rule take_nat_length)+
  have "int (length (fill_selected topk ?ranked ?kept)) \<le> topk + 1"
  proof (cases "int (length ?kept) < topk")
    case True
    from fill_selected_length [OF this, of ?ranked] show ?thesis by linarith
  next
    case False
    with fill_selected_full [of topk ?kept ?ranked] kept show ?thesis by linarith
  qed
  with fresh show "int (length (topk_select topk n_drop scores positions)) \<le> topk + 1"
    unfolding topk_select_def Let_def by (split if_split, intro conjI impI) linarith+
  show "int (length (topk_select topk n_drop scores positions)) \<le> topk"
    if "\<forall>(k, v) \<in> set positions. v \<le> 0 \<or> k \<notin> fst ` set scores"
  proof -
    have "?current = []" using that by (force simp: filter_empty_conv)
    with fresh show ?thesis unfolding topk_select_def Let_def by (simp only: if_P)
  qed
qed

text \<open>
  A full book whose members are all kept takes one name too many: with \<open>topk = 1\<close>, no drop, one
  holding and a better ranked newcomer, two instruments are selected.
\<close>

lemma topk_select_overshoots:
  "topk_select 1 0 [(''A'', 2), (''B'', 1)] [(''B'', 100)] = [''B'', ''A'']"
  by (simp add: topk_select_def by_score_def dget_def Let_def)

end
