(* ===== verification/Sizing.thy ===== *)
theory Sizing
  imports Portfolio
begin

section \<open>Sizing a portfolio within the account's cash\<close>

text \<open>
  \<open>AccountSizer\<close> and \<open>SingleWriterAllocator\<close> of \<open>systems/trading/portfolio.py\<close>.  An infinite cost is
  \<open>None\<close>; the bisection for the common scale of the buys runs its 64 rounds.
\<close>

subsection \<open>Costs that may be infinite\<close>

fun plus_inf :: "num option \<Rightarrow> num option \<Rightarrow> num option" where
  "plus_inf (Some a) (Some b) = Some (a + b)"
| "plus_inf _ _ = None"

definition fits_in :: "num option \<Rightarrow> num \<Rightarrow> bool" where
  "fits_in c b \<longleftrightarrow> (case c of Some x \<Rightarrow> x \<le> b | None \<Rightarrow> False)"

text \<open>What buying a volume costs: the notional and its fee.\<close>

definition purchase_cost :: "fee_schedule \<Rightarrow> num \<Rightarrow> num \<Rightarrow> int \<Rightarrow> num option" where
  "purchase_cost fees volume price lot =
     map_option (\<lambda>fee. volume * price + fee) (buy_fee fees (volume * price) (of_int lot * price))"

type_synonym buy_row = "string \<times> num \<times> num \<times> int"

definition required_cash :: "fee_schedule \<Rightarrow> buy_row list \<Rightarrow> num option" where
  "required_cash fees buys =
     fold (\<lambda>(_, volume, price, lot) c. plus_inf c (purchase_cost fees volume price lot)) buys (Some 0)"

subsection \<open>The scale of the buys\<close>

definition scale_row ::
  "fee_schedule \<Rightarrow> (string \<times> num) list \<Rightarrow> num \<Rightarrow> buy_row \<Rightarrow> (string \<times> num) list \<times> num option \<Rightarrow>
   (string \<times> num) list \<times> num option" where
  "scale_row fees current scale row st = (case row of (instrument, volume, price, lot) \<Rightarrow> case st of (adjusted, cost) \<Rightarrow>
     let increment = floor_lot (volume * scale) lot; target = dget current instrument + increment
     in (if target > 0 then dict_set instrument target adjusted else dict_del instrument adjusted,
         plus_inf cost (purchase_cost fees increment price lot)))"

definition scaled ::
  "fee_schedule \<Rightarrow> (string \<times> num) list \<Rightarrow> (string \<times> num) list \<Rightarrow> buy_row list \<Rightarrow> num \<Rightarrow>
   (string \<times> num) list \<times> num option" where
  "scaled fees current desired buys scale = fold (scale_row fees current scale) buys (desired, Some 0)"

fun bisect :: "(num \<Rightarrow> bool) \<Rightarrow> nat \<Rightarrow> num \<Rightarrow> num \<Rightarrow> num" where
  "bisect fits 0 low high = low"
| "bisect fits (Suc n) low high =
     (let middle = (low + high) / 2 in if fits middle then bisect fits n middle high else bisect fits n low middle)"

definition fit_buys ::
  "fee_schedule \<Rightarrow> (string \<times> num) list \<Rightarrow> (string \<times> num) list \<Rightarrow> buy_row list \<Rightarrow> num \<Rightarrow> (string \<times> num) list" where
  "fit_buys fees current desired buys capacity =
     (let required = required_cash fees buys; cap = capacity + 1/1000000000;
          run = scaled fees current desired buys; fits = (\<lambda>scale. fits_in (snd (run scale)) cap) in
      if fits_in required cap then desired
      else
        let high = (case required of Some r \<Rightarrow> if r > 0 then min (capacity / r) 1 else 0 | None \<Rightarrow> 0)
        in if fits high then fst (run high) else fst (run (bisect fits 64 0 high)))"

subsection \<open>The rows\<close>

definition canon_price :: "(string \<times> num) list \<Rightarrow> string \<Rightarrow> num option" where
  "canon_price prices instrument =
     (if dget prices instrument \<noteq> 0 then Some (dget prices instrument)
      else map_option snd (find (\<lambda>(k, v). canonical_instrument k = instrument) prices))"

definition current_book :: "account_snapshot \<Rightarrow> (string \<times> num) list" where
  "current_book account = fold (\<lambda>(k, delta) d. let i = canonical_instrument k
       in dict_set i (max (dget d i + delta) 0) d)
     (as_active_order_deltas account) (canon_dict (\<lambda>v. max v 0) (as_positions account))"

definition lot_of :: "int \<Rightarrow> instrument_metadata option \<Rightarrow> int" where
  "lot_of lot_size metadata = (case metadata of Some m \<Rightarrow> im_lot_size m | None \<Rightarrow> lot_size)"

fun collect_rows ::
  "int \<Rightarrow> fee_schedule \<Rightarrow> (string \<times> num) list \<Rightarrow> (string \<times> num) list \<Rightarrow> (string \<times> num) list \<Rightarrow>
   (string \<times> num) list \<Rightarrow> (string \<times> tradable_quote) list \<Rightarrow> (string \<times> instrument_metadata) list \<Rightarrow>
   string list \<Rightarrow> num \<times> buy_row list \<Rightarrow> exn + num \<times> buy_row list" where
  "collect_rows lot_size fees desired current sellable prices quotes instruments [] acc = Inr acc"
| "collect_rows lot_size fees desired current sellable prices quotes instruments (k # ks) (proceeds, buys) =
     (let actual = dget current k; delta = dget desired k - actual; quote = canon_lookup quotes k;
          price = quote_price quote (canon_price prices k); lot = lot_of lot_size (canon_lookup instruments k);
          rest = collect_rows lot_size fees desired current sellable prices quotes instruments ks in
      if \<bar>delta\<bar> \<le> 1/1000000000 then rest (proceeds, buys)
      else if untradable quote then Inl (ValueError (''execution quote is not tradable for '' @ k))
      else if price \<le> 0 then Inl (ValueError (''missing positive execution price for '' @ k))
      else if delta < 0 then
        (let notional = min \<bar>delta\<bar> (dget_or sellable k actual) * price
         in rest (proceeds + (case sell_fee fees notional (of_int lot * price) of
                    Some fee \<Rightarrow> max (notional - fee) 0 | None \<Rightarrow> 0), buys))
      else rest (proceeds, buys @ [(k, delta, price, lot)]))"

definition fit_to_available_cash ::
  "int \<Rightarrow> (string \<times> num) list \<Rightarrow> account_snapshot \<Rightarrow> (string \<times> num) list \<Rightarrow> (string \<times> tradable_quote) list \<Rightarrow>
   (string \<times> instrument_metadata) list \<Rightarrow> fee_schedule \<Rightarrow> exn + (string \<times> num) list" where
  "fit_to_available_cash lot_size desired account prices quotes instruments fees =
     (let current = current_book account; sellable = canon_dict (\<lambda>v. max v 0) (as_sellable account);
          keys = sort (remdups (map fst current @ map fst desired)) in
      case collect_rows lot_size fees desired current sellable prices quotes instruments keys (0, []) of
        Inl e \<Rightarrow> Inl e
      | Inr (proceeds, buys) \<Rightarrow> Inr (fit_buys fees current desired buys (max (as_available account) 0 + proceeds)))"

subsection \<open>The sizer\<close>

record sizing_instance =
  si_instance_id :: string
  si_config_hash :: string

definition first_of :: "'v option \<Rightarrow> 'v option \<Rightarrow> 'v option" where
  "first_of a b = (case a of Some x \<Rightarrow> Some x | None \<Rightarrow> b)"

fun size_rows ::
  "int \<Rightarrow> num \<Rightarrow> (string \<times> num) list \<Rightarrow> (string \<times> tradable_quote) list \<Rightarrow> (string \<times> instrument_metadata) list \<Rightarrow>
   (string \<times> num) list \<Rightarrow> (string \<times> num) list \<times> (string \<times> num) list \<Rightarrow>
   exn + (string \<times> num) list \<times> (string \<times> num) list" where
  "size_rows lot_size balance prices quotes instruments [] acc = Inr acc"
| "size_rows lot_size balance prices quotes instruments ((raw, weight) # rows) (holdings, used) =
     (let key = canonical_instrument raw; quote = first_of (map_of quotes raw) (map_of quotes key);
          price = quote_price quote (Some (if dget prices raw \<noteq> 0 then dget prices raw else dget prices key));
          metadata = first_of (map_of instruments raw) (map_of instruments key) in
      if untradable quote then Inl (ValueError (''execution quote is not tradable for '' @ raw))
      else if price \<le> 0 then Inl (ValueError (''missing positive execution price for '' @ raw))
      else if (case metadata of Some m \<Rightarrow> \<not> im_long_only m | None \<Rightarrow> False)
      then Inl (ValueError (''instrument metadata is outside the long-only launch scope: '' @ key))
      else
        let shares = floor_lot (balance * weight / price) (lot_of lot_size metadata)
        in size_rows lot_size balance prices quotes instruments rows
             (if shares > 0 then (dict_set key shares holdings, dict_set key price used) else (holdings, used)))"

definition size_portfolio ::
  "(string \<Rightarrow> string) \<Rightarrow> int \<Rightarrow> target_weights \<Rightarrow> account_snapshot \<Rightarrow> (string \<times> num) list \<Rightarrow> sizing_instance \<Rightarrow>
   (string \<times> tradable_quote) list \<Rightarrow> (string \<times> instrument_metadata) list \<Rightarrow> fee_schedule \<Rightarrow> string \<Rightarrow> string \<Rightarrow> string \<Rightarrow>
   exn + target_portfolio" where
  "size_portfolio hash24 lot_size weights account prices inst quotes instruments fees decision_id effective_session valid_until =
     (if as_balance account \<le> 0 then Inl (ValueError ''account equity must be positive before sizing'')
      else if sum_list (map (\<lambda>(_, w). max w 0) (tw_weights weights)) > 1 + 1/1000000000
      then Inl (ValueError ''target weights exceed account equity'')
      else case size_rows lot_size (as_balance account) prices quotes instruments (sort_key fst (tw_weights weights)) ([], []) of
        Inl e \<Rightarrow> Inl e
      | Inr (holdings, used) \<Rightarrow>
          (case fit_to_available_cash lot_size holdings account prices quotes instruments fees of
             Inl e \<Rightarrow> Inl e
           | Inr fitted \<Rightarrow> Inr
               \<lparr>tp_date = or_text effective_session (tw_as_of weights), tp_holdings = fitted,
                tp_prices = filter (\<lambda>(k, _). k \<in> fst ` set fitted) used,
                tp_decision_id = or_text decision_id
                  (hash24 (si_instance_id inst @ '':'' @ si_config_hash inst @ '':'' @ tw_as_of weights)),
                tp_instance_id = si_instance_id inst, tp_as_of = tw_as_of weights, tp_valid_until = valid_until,
                tp_config_hash = si_config_hash inst\<rparr>))"

definition single_writer_allocate :: "target_portfolio list \<Rightarrow> exn + target_portfolio" where
  "single_writer_allocate targets = (case targets of
     [t] \<Rightarrow> Inr t | _ \<Rightarrow> Inl (ValueError ''exactly one account-level strategy target is allowed in v1''))"

subsection \<open>The buys fit\<close>

text \<open>What a book's buys cost, whatever the scale that gave it.\<close>

definition book_cost :: "fee_schedule \<Rightarrow> (string \<times> num) list \<Rightarrow> buy_row list \<Rightarrow> (string \<times> num) list \<Rightarrow> num option" where
  "book_cost fees current buys hs = fold (\<lambda>(k, _, price, lot) c.
     plus_inf c (purchase_cost fees (dget hs k - dget current k) price lot)) buys (Some 0)"

lemma purchase_cost_zero [simp]: "purchase_cost fees 0 price lot = Some 0"
  by (simp add: purchase_cost_def buy_fee_def schedule_fee_def)

lemma dget_del: "dget (dict_del k d) k' = (if k' = k then 0 else dget d k')"
  by (simp add: dget_def AList.delete_conv')

lemma scale_rows_get:
  assumes "distinct (map fst buys)" "\<And>k. 0 \<le> dget current k" "\<And>k v p l. (k, v, p, l) \<in> set buys \<Longrightarrow> 0 \<le> v" "0 \<le> scale"
  shows "dget (fst (fold (scale_row fees current scale) buys (adjusted, cost))) k =
    (case map_of buys k of None \<Rightarrow> dget adjusted k
     | Some (v, p, l) \<Rightarrow> dget current k + floor_lot (v * scale) l)"
  using assms(1,3)
proof (induction buys arbitrary: adjusted cost)
  case (Cons row buys)
  obtain i v p l where row: "row = (i, v, p, l)" by (cases row)
  let ?t = "dget current i + floor_lot (v * scale) l"
  define adj where "adj = (if ?t > 0 then dict_set i ?t adjusted else dict_del i adjusted)"
  have inc: "0 \<le> floor_lot (v * scale) l"
    using Cons.prems(2) [of i v p l] assms(4) row by (intro floor_lot_nonneg mult_nonneg_nonneg) simp_all
  have get: "dget adj k = (if k = i then ?t else dget adjusted k)" for k
    using inc assms(2) [of i] by (auto simp: adj_def dget_set dget_del)
  have step: "fold (scale_row fees current scale) (row # buys) (adjusted, cost) =
      fold (scale_row fees current scale) buys (adj, plus_inf cost (purchase_cost fees (floor_lot (v * scale) l) p l))"
    by (simp add: row scale_row_def Let_def adj_def)
  have "i \<notin> fst ` set buys" using Cons.prems(1) row by simp
  then have "map_of buys i = None" by (simp add: map_of_eq_None_iff)
  moreover have "dget (fst (fold (scale_row fees current scale) buys (adj, c))) k =
      (case map_of buys k of None \<Rightarrow> dget adj k | Some (v, p, l) \<Rightarrow> dget current k + floor_lot (v * scale) l)" for c
    using Cons.prems by (intro Cons.IH) auto
  ultimately show ?case unfolding step by (auto simp: row get split: option.split)
qed simp

lemma scaled_cost:
  "snd (fold (scale_row fees current scale) buys (adjusted, cost)) =
     fold (\<lambda>(_, v, p, l) c. plus_inf c (purchase_cost fees (floor_lot (v * scale) l) p l)) buys cost"
  by (induction buys arbitrary: adjusted cost) (auto simp: scale_row_def Let_def)

lemma bisect_fits: "fits low \<Longrightarrow> fits (bisect fits n low high)"
  by (induction fits n low high rule: bisect.induct) (auto simp: Let_def)

lemma bisect_bounds: "low \<le> high \<Longrightarrow> low \<le> bisect fits n low high \<and> bisect fits n low high \<le> high"
proof (induction fits n low high rule: bisect.induct)
  case (2 fits n low high)
  let ?m = "(low + high) / 2"
  have m: "low \<le> ?m" "?m \<le> high" using "2.prems" by simp_all
  show ?case
  proof (cases "fits ?m")
    case True
    with "2.IH"(1) [OF refl True m(2)] m(1) show ?thesis by (simp add: Let_def)
  next
    case False
    with "2.IH"(2) [OF refl False m(1)] m(2) show ?thesis by (simp add: Let_def)
  qed
qed simp

text \<open>A scaled book costs what the scaling accounted for.\<close>

lemma scaled_book_cost:
  assumes "distinct (map fst buys)" "\<And>k. 0 \<le> dget current k" "\<And>k v p l. (k, v, p, l) \<in> set buys \<Longrightarrow> 0 \<le> v" "0 \<le> scale"
  shows "book_cost fees current buys (fst (scaled fees current desired buys scale)) =
    snd (scaled fees current desired buys scale)"
proof -
  let ?hs = "fst (scaled fees current desired buys scale)"
  have get: "dget ?hs k - dget current k = floor_lot (v * scale) l" if "(k, v, p, l) \<in> set buys" for k v p l
  proof -
    have "map_of buys k = Some (v, p, l)" using that assms(1) by (simp add: map_of_is_SomeI)
    with scale_rows_get [OF assms, where fees = fees and adjusted = desired and cost = "Some 0" and k = k] assms show ?thesis by (simp add: scaled_def)
  qed
  have cong: "fold (\<lambda>(k, _, price, lot) c. plus_inf c (purchase_cost fees (dget ?hs k - dget current k) price lot)) rows c0 =
      fold (\<lambda>(_, v, p, l) c. plus_inf c (purchase_cost fees (floor_lot (v * scale) l) p l)) rows c0"
    if "set rows \<subseteq> set buys" for rows c0
    using that by (induction rows arbitrary: c0) (auto simp: get)
  show ?thesis unfolding book_cost_def cong [OF order_refl] by (simp add: scaled_def scaled_cost)
qed

lemma required_book_cost:
  assumes "\<And>k v p l. (k, v, p, l) \<in> set buys \<Longrightarrow> dget hs k - dget current k = v"
  shows "book_cost fees current buys hs = required_cash fees buys"
proof -
  have cong: "fold (\<lambda>(k, _, price, lot) c. plus_inf c (purchase_cost fees (dget hs k - dget current k) price lot)) rows c0 =
      fold (\<lambda>(_, volume, price, lot) c. plus_inf c (purchase_cost fees volume price lot)) rows c0"
    if "set rows \<subseteq> set buys" for rows c0
    using that assms by (induction rows arbitrary: c0) auto
  show ?thesis unfolding book_cost_def required_cash_def by (rule cong) simp
qed

lemma scaled_zero_cost: "snd (scaled fees current desired buys 0) = Some 0"
proof -
  have "floor_lot 0 l = 0" for l by (simp add: floor_lot_def)
  then have "fold (\<lambda>(_, v, p, l) c. plus_inf c (purchase_cost fees (floor_lot (v * 0) l) p l)) buys (Some 0) = Some 0"
    by (induction buys) auto
  then show ?thesis by (simp add: scaled_def scaled_cost)
qed

text \<open>The fitted book's buys never cost more than the capacity, and stay within the desired book.\<close>

lemma fit_buys_scale:
  assumes "0 \<le> capacity"
  shows "fit_buys fees current desired buys capacity = desired \<and> fits_in (required_cash fees buys) (capacity + 1/1000000000) \<or>
    (\<exists>scale. 0 \<le> scale \<and> scale \<le> 1 \<and> fit_buys fees current desired buys capacity = fst (scaled fees current desired buys scale) \<and>
       fits_in (snd (scaled fees current desired buys scale)) (capacity + 1/1000000000))"
proof (cases "fits_in (required_cash fees buys) (capacity + 1/1000000000)")
  case True
  then show ?thesis by (simp add: fit_buys_def Let_def)
next
  case False
  let ?fits = "\<lambda>scale. fits_in (snd (scaled fees current desired buys scale)) (capacity + 1/1000000000)"
  define high where "high = (case required_cash fees buys of
      Some r \<Rightarrow> if r > 0 then min (capacity / r) 1 else 0 | None \<Rightarrow> 0)"
  have high: "0 \<le> high" "high \<le> 1" using assms by (auto simp: high_def split: option.split)
  have zero: "?fits 0" using assms by (simp add: scaled_zero_cost fits_in_def)
  have eq: "fit_buys fees current desired buys capacity = fst (scaled fees current desired buys
      (if ?fits high then high else bisect ?fits 64 0 high))"
    using False by (simp add: fit_buys_def Let_def high_def del: bisect.simps)
  show ?thesis
  proof (cases "?fits high")
    case True
    with eq high show ?thesis by auto
  next
    case no: False
    have "?fits (bisect ?fits 64 0 high)" by (rule bisect_fits [of ?fits, OF zero])
    moreover have "0 \<le> bisect ?fits 64 0 high" "bisect ?fits 64 0 high \<le> 1"
      using bisect_bounds [OF high(1), of ?fits 64] high(2) by linarith+
    ultimately show ?thesis using eq no by auto
  qed
qed

lemma fit_buys_affordable:
  assumes "0 \<le> capacity" "distinct (map fst buys)" "\<And>k. 0 \<le> dget current k"
    "\<And>k v p l. (k, v, p, l) \<in> set buys \<Longrightarrow> 0 \<le> v \<and> dget desired k - dget current k = v"
  shows "fits_in (book_cost fees current buys (fit_buys fees current desired buys capacity)) (capacity + 1/1000000000)"
    "dget (fit_buys fees current desired buys capacity) k \<le> dget desired k"
    "k \<notin> fst ` set buys \<Longrightarrow> dget (fit_buys fees current desired buys capacity) k = dget desired k"
proof -
  have v: "\<And>k v p l. (k, v, p, l) \<in> set buys \<Longrightarrow> 0 \<le> v" using assms(4) by blast
  from fit_buys_scale [OF assms(1), of fees current desired buys]
  have "fits_in (book_cost fees current buys (fit_buys fees current desired buys capacity)) (capacity + 1/1000000000) \<and>
    dget (fit_buys fees current desired buys capacity) k \<le> dget desired k \<and>
    (k \<notin> fst ` set buys \<longrightarrow> dget (fit_buys fees current desired buys capacity) k = dget desired k)"
  proof (elim disjE exE conjE)
    assume "fit_buys fees current desired buys capacity = desired" "fits_in (required_cash fees buys) (capacity + 1/1000000000)"
    then show ?thesis using required_book_cost [of buys desired current fees] assms(4) by auto
  next
    fix scale assume sc: "0 \<le> scale" "scale \<le> 1"
      "fit_buys fees current desired buys capacity = fst (scaled fees current desired buys scale)"
      "fits_in (snd (scaled fees current desired buys scale)) (capacity + 1/1000000000)"
    note get = scale_rows_get [OF assms(2,3) v sc(1), where fees = fees and adjusted = desired and cost = "Some 0" and k = k,
      folded scaled_def]
    have "dget (fst (scaled fees current desired buys scale)) k \<le> dget desired k"
    proof (cases "map_of buys k")
      case (Some row)
      obtain v p l where row: "row = (v, p, l)" by (cases row)
      from map_of_SomeD [OF Some] row assms(4) have *: "0 \<le> v" "dget desired k = dget current k + v" by force+
      have "floor_lot (v * scale) l \<le> v * scale" using * sc by (intro floor_lot_le) simp
      also have "\<dots> \<le> v * 1" using * sc by (intro mult_left_mono) simp_all
      finally show ?thesis using get Some row * by simp
    qed (use get in simp)
    moreover have "map_of buys k = None" if "k \<notin> fst ` set buys" using that by (simp add: map_of_eq_None_iff)
    ultimately show ?thesis using sc get scaled_book_cost [OF assms(2,3) v sc(1)] by auto
  qed
  then show "fits_in (book_cost fees current buys (fit_buys fees current desired buys capacity)) (capacity + 1/1000000000)"
    "dget (fit_buys fees current desired buys capacity) k \<le> dget desired k"
    "k \<notin> fst ` set buys \<Longrightarrow> dget (fit_buys fees current desired buys capacity) k = dget desired k" by blast+
qed

subsection \<open>The rows the cash pays for\<close>

lemma collect_rows_buys:
  assumes "collect_rows lot_size fees desired current sellable prices quotes instruments keys (pr, bs) = Inr (pr', bs')"
    "distinct keys"
  shows "pr \<le> pr' \<and> (\<exists>new. bs' = bs @ new \<and> distinct (map fst new) \<and> fst ` set new \<subseteq> set keys \<and>
    (\<forall>(k, v, p, l) \<in> set new. 0 \<le> v \<and> dget desired k - dget current k = v) \<and>
    (\<forall>k \<in> set keys. 1/1000000000 < dget desired k - dget current k \<longrightarrow> k \<in> fst ` set new))"
  using assms
proof (induction keys arbitrary: pr bs)
  case (Cons k keys)
  let ?delta = "dget desired k - dget current k"
  let ?rest = "collect_rows lot_size fees desired current sellable prices quotes instruments keys"
  have d: "distinct keys" "k \<notin> set keys" using Cons.prems(2) by simp_all
  consider (same) "?rest (pr, bs) = Inr (pr', bs')" "?delta \<le> 1/1000000000"
    | (sell) x where "0 \<le> x" "?rest (pr + x, bs) = Inr (pr', bs')" "?delta \<le> 1/1000000000"
    | (buy) p l where "0 \<le> ?delta" "?rest (pr, bs @ [(k, ?delta, p, l)]) = Inr (pr', bs')"
  proof (cases "\<bar>?delta\<bar> \<le> 1/1000000000")
    case True
    have "?rest (pr, bs) = Inr (pr', bs')"
      using Cons.prems(1) unfolding collect_rows.simps Let_def if_P [OF True] .
    moreover have "?delta \<le> 1/1000000000" using abs_le_D1 [OF True] .
    ultimately show thesis by (rule same)
  next
    case big: False
    let ?price = "quote_price (canon_lookup quotes k) (canon_price prices k)"
    let ?lot = "lot_of lot_size (canon_lookup instruments k)"
    let ?notional = "min \<bar>?delta\<bar> (dget_or sellable k (dget current k)) * ?price"
    let ?x = "case sell_fee fees ?notional (of_int ?lot * ?price) of Some fee \<Rightarrow> max (?notional - fee) 0 | None \<Rightarrow> 0"
    show thesis
    proof (cases "?delta < 0")
      case True
      have "0 \<le> ?x" by (simp split: option.split)
      moreover have "?rest (pr + ?x, bs) = Inr (pr', bs')"
        using Cons.prems(1) big True unfolding collect_rows.simps Let_def by (simp split: if_splits)
      ultimately show thesis using sell True by simp
    next
      case False
      have "?rest (pr, bs @ [(k, ?delta, ?price, ?lot)]) = Inr (pr', bs')"
        using Cons.prems(1) big False unfolding collect_rows.simps Let_def by (simp split: if_splits)
      then show thesis using buy False by simp
    qed
  qed
  then show ?case
  proof cases
    case same
    with Cons.IH [OF same(1) d(1)] show ?thesis by auto
  next
    case sell
    with Cons.IH [OF sell(2) d(1)] show ?thesis by auto
  next
    case buy
    from Cons.IH [OF buy(2) d(1)] obtain new where new: "pr \<le> pr'" "bs' = (bs @ [(k, ?delta, p, l)]) @ new"
      "distinct (map fst new)" "fst ` set new \<subseteq> set keys"
      "\<forall>(k, v, p, l) \<in> set new. 0 \<le> v \<and> dget desired k - dget current k = v"
      "\<forall>k \<in> set keys. 1/1000000000 < dget desired k - dget current k \<longrightarrow> k \<in> fst ` set new" by blast
    show ?thesis
      by (intro conjI exI [of _ "(k, ?delta, p, l) # new"]) (use new d buy(1) in auto)
  qed
qed simp

lemma current_book_nonneg: "0 \<le> dget (current_book account) k"
proof -
  have "\<forall>k. 0 \<le> dget (fold (\<lambda>(k, delta) d. let i = canonical_instrument k in dict_set i (max (dget d i + delta) 0) d) rows d) k"
    if "\<forall>k. 0 \<le> dget d k" for rows d
    using that by (induction rows arbitrary: d) (auto simp: Let_def dget_set)
  then show ?thesis by (simp add: current_book_def canon_dict_nonneg)
qed

lemma dget_absent: "k \<notin> fst ` set d \<Longrightarrow> dget d k = 0"
  by (simp add: dget_def map_of_eq_None_iff [THEN iffD2])

lemma fit_to_available_cash_affordable:
  assumes "fit_to_available_cash lot_size desired account prices quotes instruments fees = Inr hs"
  shows "\<exists>proceeds buys. 0 \<le> proceeds \<and> distinct (map fst buys) \<and>
      (\<forall>k. 1/1000000000 < dget desired k - dget (current_book account) k \<longrightarrow> k \<in> fst ` set buys) \<and>
      fits_in (book_cost fees (current_book account) buys hs) (max (as_available account) 0 + proceeds + 1/1000000000)"
    "dget hs k \<le> dget desired k"
proof -
  let ?current = "current_book account"
  let ?keys = "sort (remdups (map fst ?current @ map fst desired))"
  from assms obtain proceeds buys where rows: "collect_rows lot_size fees desired ?current
      (canon_dict (\<lambda>v. max v 0) (as_sellable account)) prices quotes instruments ?keys (0, []) = Inr (proceeds, buys)"
    and hs: "hs = fit_buys fees ?current desired buys (max (as_available account) 0 + proceeds)"
    by (auto simp: fit_to_available_cash_def Let_def split: sum.splits)
  have "distinct ?keys" by simp
  from collect_rows_buys [OF rows this] have b: "0 \<le> proceeds" "distinct (map fst buys)"
    "\<And>k v p l. (k, v, p, l) \<in> set buys \<Longrightarrow> 0 \<le> v \<and> dget desired k - dget ?current k = v"
    "\<And>k. k \<in> set ?keys \<Longrightarrow> 1/1000000000 < dget desired k - dget ?current k \<Longrightarrow> k \<in> fst ` set buys" by auto
  have cap: "0 \<le> max (as_available account) 0 + proceeds" using b(1) by simp
  have keys: "k \<in> set ?keys" if "1/1000000000 < dget desired k - dget ?current k" for k
  proof (rule ccontr)
    assume "k \<notin> set ?keys"
    then have "dget desired k = 0" "dget ?current k = 0" by (auto intro!: dget_absent)
    with that show False by simp
  qed
  have "fits_in (book_cost fees ?current buys hs) (max (as_available account) 0 + proceeds + 1/1000000000)"
    unfolding hs by (rule fit_buys_affordable(1) [OF cap b(2) current_book_nonneg]) (erule b(3))
  then show "\<exists>proceeds buys. 0 \<le> proceeds \<and> distinct (map fst buys) \<and>
      (\<forall>k. 1/1000000000 < dget desired k - dget ?current k \<longrightarrow> k \<in> fst ` set buys) \<and>
      fits_in (book_cost fees ?current buys hs) (max (as_available account) 0 + proceeds + 1/1000000000)"
    using b(1,2,4) keys by blast
  show "dget hs k \<le> dget desired k"
    unfolding hs by (rule fit_buys_affordable(2) [OF cap b(2) current_book_nonneg]) (erule b(3))
qed

text \<open>
  One instrument whose lot exceeds the order cap has an infinite fee, and the common scale then
  drops every buy, the affordable ones included.
\<close>

lemma infinite_fee_drops_all:
  "fit_buys \<lparr>fs_buy_rate = 0, fs_sell_rate = 0, fs_min_fee = 0, fs_max_order_value = 500\<rparr> []
     [(''A'', 100), (''B'', 100)] [(''A'', 100, 10, 100), (''B'', 100, 1, 100)] 100000 = []"
  by (simp add: fit_buys_def Let_def required_cash_def purchase_cost_def buy_fee_def schedule_fee_def split_fee_def
      fits_in_def scaled_def scale_row_def floor_lot_def dget_def)

end
