(* ===== verification/Trading_Examples.thy ===== *)
theory Trading_Examples
  imports Examples Recovery Bars Executor Algos Sizing
begin

section \<open>Worked trading examples\<close>

text \<open>
  A target of 300 shares for the empty account of theory \<open>Examples\<close>, its live plan under a cap of
  2000 per order, a tick, and a broker-independent account snapshot.
\<close>

definition demo_target :: target_portfolio where
  "demo_target = \<lparr>tp_date = ''2024-01-02'', tp_holdings = [(''600000.SSE'', 300)],
     tp_prices = [(''600000.SSE'', 10)], tp_decision_id = ''d1'', tp_instance_id = ''i1'',
     tp_as_of = ''2024-01-02'', tp_valid_until = [], tp_config_hash = ''c1''\<rparr>"

definition demo_planner :: planner where
  "demo_planner = planner_init 100 2000 0"

definition demo_snapshot :: account_snapshot where
  "demo_snapshot = \<lparr>as_account_id = ''acct'', as_as_of = ''2024-01-02'', as_balance = 100000,
     as_available = 100000, as_positions = [], as_sellable = [], as_active_order_deltas = [],
     as_external_orders = []\<rparr>"

lemma demo_snapshot: "snapshot_from_oms demo_oms (tp_as_of demo_target) = Inr demo_snapshot"
  by (simp add: snapshot_from_oms_def demo_oms_def oms_init_def oms_get_positions_def all_positions_def
      empty_book_def dict_of_def oms_get_active_orders_def demo_target_def demo_snapshot_def)

lemma demo_symbol: "normalize_symbol ''600000.SSE'' = (''600000'', SSE)"
  by code_simp

lemma demo_tables: "plan_tables demo_planner demo_target demo_oms =
    ([(''600000.SSE'', 300)], [(''600000.SSE'', (''600000'', SSE, 10, 100))])"
  by (simp add: plan_tables_def demo_target_def want_row_def demo_symbol symbol_key_def oms_get_positions_def
      demo_oms_def oms_init_def all_positions_def empty_book_def price_for_def dget_def lot_for_def
      demo_planner_def planner_init_def oms_get_contract_def Let_def)

lemma demo_live_plan:
  obtains p where "plan_execution (\<lambda>_. ''id'') demo_planner demo_target demo_oms = Inr p" "ep_requests p \<noteq> []"
proof -
  have acc: "om_account demo_oms \<noteq> None" by (simp add: demo_oms_def)
  obtain p where p: "plan_execution (\<lambda>_. ''id'') demo_planner demo_target demo_oms = Inr p"
    using plan_execution_total [OF acc] by blast
  have step: "plan_step demo_planner prefix demo_snapshot [(''600000.SSE'', 300)]
      [(''600000.SSE'', (''600000'', SSE, 10, 100))] ''600000.SSE'' = Inr r \<Longrightarrow> fst r \<noteq> []" for prefix r
    by (auto simp: plan_step_def demo_snapshot_def dget_def plan_key_def limit_sell_def floor_lot_def
        plan_chunks_def value_caps_def demo_planner_def planner_init_def chunk_volumes_def
        chunk_loop.simps [of 200 100 300] Let_def)
  have "plan_keys [(''600000.SSE'', 300)] demo_snapshot = [''600000.SSE'']"
    by (simp add: plan_keys_def demo_snapshot_def)
  with p have "ep_requests p \<noteq> []"
    by (auto simp: plan_execution_def demo_snapshot demo_tables Let_def split: sum.splits dest!: step
        dest: arg_cong [where f = length])
  with p that show thesis by blast
qed

definition demo_tick :: "datetime \<Rightarrow> num \<Rightarrow> tick" where
  "demo_tick dt volume = \<lparr>tk_code = ''600000'', tk_exchange = SSE, tk_datetime = Some (Naive dt),
     tk_volume = volume, tk_turnover = 0, tk_last_price = 10, tk_open_price = 10, tk_limit_up = 11,
     tk_limit_down = 9, tk_bid_price_1 = 10, tk_ask_price_1 = 10, tk_gateway = ''paper'', tk_received_at = None\<rparr>"

lemma demo_live_tick: "live_tick ''600000.SSE'' (demo_tick dt volume)"
  by (simp add: live_tick_def demo_tick_def tk_key_def symbol_key_def)

definition demo_fees :: fee_schedule where
  "demo_fees = \<lparr>fs_buy_rate = 1/1000, fs_sell_rate = 1/1000, fs_min_fee = 5, fs_max_order_value = 0\<rparr>"

definition demo_topk :: topk_policy where
  "demo_topk = \<lparr>tk_topk = 1, tk_n_drop = 0, tk_cash_buffer = 1/10, tk_max_position_weight = 1/2,
     tk_policy_id = ''p'', tk_version = ''1.0.0''\<rparr>"

definition demo_envelope :: signal_envelope where
  "demo_envelope = \<lparr>sg_kind = CROSS_SECTIONAL_SELECTION, sg_source_instance_id = ''s1'', sg_as_of = ''2024-01-02'',
     sg_payload = CrossSectional [(''600000.SSE'', 2), (''000001.SZSE'', 1)] []\<rparr>"

definition demo_inputs :: portfolio_inputs where
  "demo_inputs = \<lparr>pf_selection = Some demo_envelope, pf_instrument_timing = [], pf_market_timing = []\<rparr>"

end
