(* ===== verification/Deployment.thy ===== *)
theory Deployment
  imports Ledger Symbols
begin

section \<open>Accounts, strategies and deployments\<close>

text \<open>
  \<open>systems/trading/account_identity.py\<close> and the immutable configurations of
  \<open>systems/trading/domain.py\<close>.  SHA-256 is a parameter: \<open>sha\<close> hashes a text and \<open>digest\<close> the canonical
  JSON of an object.  A value that JSON writes and reads back is taken as unchanged.
\<close>

subsection \<open>Account identities\<close>

definition hash_prefix :: string where
  "hash_prefix = ''sha256:''"

definition account_identity_hash :: "(string \<Rightarrow> string) \<Rightarrow> string \<Rightarrow> string" where
  "account_identity_hash sha account_id =
     (let value = str_strip account_id in
      if value = [] then []
      else if starts_with hash_prefix value then str_lower value
      else hash_prefix @ sha value)"

definition account_identities_match :: "(string \<Rightarrow> string) \<Rightarrow> string \<Rightarrow> string \<Rightarrow> bool" where
  "account_identities_match sha expected observed =
     (let left = account_identity_hash sha expected; right = account_identity_hash sha observed
      in left \<noteq> [] \<and> right \<noteq> [] \<and> left = right)"

text \<open>\<open>str\<close> of a JSON scalar, as far as account ids are texts.\<close>

fun json_text :: "json \<Rightarrow> string" where
  "json_text (JStr s) = s"
| "json_text (JNum n) = num_text n"
| "json_text (JBool b) = (if b then ''True'' else ''False'')"
| "json_text _ = []"

text \<open>
  \<open>public_account_state\<close>: every \<open>account_id\<close> entry becomes a hash, at any depth.  The result is built
  entry by entry in a dictionary, so a later key takes over an earlier one.
\<close>

definition hashed_entry :: "(string \<Rightarrow> string) \<Rightarrow> json \<Rightarrow> (string \<times> json) list" where
  "hashed_entry sha v = (if v = JNull \<or> v = JStr [] then []
     else [(''account_id_hash'', JStr (account_identity_hash sha (json_text v)))])"

fun public_account_state :: "(string \<Rightarrow> string) \<Rightarrow> json \<Rightarrow> json" where
  "public_account_state sha (JObj kvs) = JObj (dict_of (concat (map (\<lambda>(k, v).
     if k = ''account_id'' then hashed_entry sha v else [(k, public_account_state sha v)]) kvs)))"
| "public_account_state sha (JArr xs) = JArr (map (public_account_state sha) xs)"
| "public_account_state sha v = v"

text \<open>No key of the document, at any depth, is \<open>account_id\<close>.\<close>

fun anonymous :: "json \<Rightarrow> bool" where
  "anonymous (JObj kvs) = list_all (\<lambda>(k, v). k \<noteq> ''account_id'' \<and> anonymous v) kvs"
| "anonymous (JArr xs) = list_all anonymous xs"
| "anonymous _ = True"

lemma dict_of_members: "(k, v) \<in> set (dict_of rows) \<Longrightarrow> (k, v) \<in> set rows"
proof -
  have "(k, v) \<in> set (fold (\<lambda>(k, v). dict_set k v) rows d) \<Longrightarrow> dict_ok d \<Longrightarrow> (k, v) \<in> set rows \<or> (k, v) \<in> set d" for d
  proof (induction rows arbitrary: d)
    case (Cons r rows)
    obtain k1 v1 where r: "r = (k1, v1)" by fastforce
    have "dict_ok (dict_set k1 v1 d)" using Cons.prems(2) by simp
    from Cons.IH [OF _ this] Cons.prems r show ?case by (auto simp: dict_set_mem split: if_splits)
  qed simp
  then show "(k, v) \<in> set (dict_of rows) \<Longrightarrow> ?thesis" by (fastforce simp: dict_of_def)
qed

lemma hashed_entry_key: "(k, x) \<in> set (hashed_entry sha v) \<Longrightarrow> k \<noteq> ''account_id'' \<and> anonymous x"
  by (simp add: hashed_entry_def split: if_splits)

lemma public_account_state_anonymous: "anonymous (public_account_state sha v)"
proof (induction sha v rule: public_account_state.induct)
  case (1 sha kvs)
  let ?rows = "concat (map (\<lambda>(k, v). if k = ''account_id'' then hashed_entry sha v
    else [(k, public_account_state sha v)]) kvs)"
  have "k \<noteq> ''account_id'' \<and> anonymous x" if row: "(k, x) \<in> set ?rows" for k x
  proof -
    from row obtain k0 v0 where e: "(k0, v0) \<in> set kvs"
      "(k, x) \<in> set (if k0 = ''account_id'' then hashed_entry sha v0 else [(k0, public_account_state sha v0)])"
      by (fastforce simp del: set_simps)
    show ?thesis
    proof (cases "k0 = ''account_id''")
      case True
      with e(2) show ?thesis using hashed_entry_key [of k x] by simp
    next
      case False
      with e(2) have "k = k0" "x = public_account_state sha v0" by simp_all
      with False 1 [OF e(1) refl False] show ?thesis by simp
    qed
  qed
  then have "\<forall>(k, x) \<in> set (dict_of ?rows). k \<noteq> ''account_id'' \<and> anonymous x"
    using dict_of_members by fast
  then show ?case by (simp only: public_account_state.simps anonymous.simps list_all_iff)
qed (simp_all add: list_all_iff)

text \<open>A hash that is a lower-case hexadecimal text is left alone when it is hashed again.\<close>

definition hex_digest :: "(string \<Rightarrow> string) \<Rightarrow> bool" where
  "hex_digest sha \<longleftrightarrow> (\<forall>s. list_all (\<lambda>c. is_digit c \<or> c \<in> set ''abcdef'') (sha s))"

lemma hex_char_plain:
  assumes "is_digit c \<or> c \<in> set ''abcdef''"
  shows "to_lower c = c" "\<not> is_space c"
  using assms by (auto simp: to_lower_def is_upper_def is_digit_def is_space_def)

lemma to_lower_space: "is_space (to_lower c) = is_space c"
proof (cases "is_upper c")
  case True
  then have "(of_char (to_lower c) :: nat) = of_char c + 32" by (simp add: to_lower_def is_upper_def)
  with True show ?thesis by (auto simp: is_space_def is_upper_def)
qed (simp add: to_lower_def)

lemma to_lower_again: "to_lower (to_lower c) = to_lower c"
proof (cases "is_upper c")
  case True
  then have "(of_char (to_lower c) :: nat) = of_char c + 32" by (simp add: to_lower_def is_upper_def)
  with True show ?thesis by (simp add: to_lower_def [of "to_lower c"] is_upper_def)
qed (simp add: to_lower_def)

lemma str_lower_again: "str_lower (str_lower s) = str_lower s"
  by (simp add: str_lower_def to_lower_again)

lemma str_strip_lower: "str_strip (str_lower s) = str_lower (str_strip s)"
  by (simp add: str_strip_def str_lower_def dropWhile_map rev_map comp_def to_lower_space)

lemma str_strip_again: "str_strip (str_strip s) = str_strip s"
proof -
  have drop: "dropWhile P (dropWhile P xs) = dropWhile P xs" for P and xs :: string
    by (induction xs) simp_all
  have front: "dropWhile P (rev (dropWhile P (rev (dropWhile P xs)))) = rev (dropWhile P (rev (dropWhile P xs)))" for P and xs :: string
  proof (cases "dropWhile P xs")
    case (Cons x ys)
    then have "\<not> P x" by (metis hd_dropWhile list.distinct(1) list.sel(1))
    then have "dropWhile P (rev ys @ [x]) = dropWhile P (rev ys) @ [x] \<or> dropWhile P (rev ys @ [x]) = [x]"
      by (simp add: dropWhile_append)
    with Cons \<open>\<not> P x\<close> show ?thesis by auto
  qed (simp only: rev.simps dropWhile.simps)
  show ?thesis by (simp add: str_strip_def front drop)
qed

text \<open>What an identity looks like once it is tagged.\<close>

lemma account_identity_hash_form:
  fixes a :: string
  assumes "hex_digest sha"
  defines "h \<equiv> account_identity_hash sha a"
  shows "h = [] \<or> starts_with hash_prefix h" "str_strip h = h" "str_lower h = h"
proof -
  let ?v = "str_strip a"
  have prefix: "list_all (\<lambda>c. \<not> is_space c \<and> to_lower c = c) hash_prefix" by (simp add: hash_prefix_def) code_simp
  have "(h = [] \<or> starts_with hash_prefix h) \<and> str_strip h = h \<and> str_lower h = h"
  proof (cases "?v = []")
    case True
    then show ?thesis by (simp add: h_def account_identity_hash_def str_strip_def str_lower_def)
  next
    case False
    show ?thesis
    proof (cases "starts_with hash_prefix ?v")
      case True
      have "take (length hash_prefix) (str_lower ?v) = str_lower (take (length hash_prefix) ?v)"
        by (simp add: str_lower_def take_map)
      also have "take (length hash_prefix) ?v = hash_prefix" using True by (simp add: starts_with_def)
      also have "str_lower hash_prefix = hash_prefix" using prefix by (simp add: str_lower_def list_all_iff map_idI)
      finally have "starts_with hash_prefix (str_lower ?v)" by (simp add: starts_with_def)
      moreover have "h = str_lower ?v" using False True by (simp add: h_def account_identity_hash_def Let_def)
      ultimately show ?thesis by (simp add: str_strip_lower str_strip_again str_lower_again)
    next
      case tag: False
      have "list_all (\<lambda>c. is_digit c \<or> c \<in> set ''abcdef'') (sha ?v)" using assms(1) by (simp only: hex_digest_def)
      then have "list_all (\<lambda>c. \<not> is_space c \<and> to_lower c = c) (sha ?v)"
        by (rule list.pred_mono_strong) (intro conjI hex_char_plain, assumption+)
      with prefix have "list_all (\<lambda>c. \<not> is_space c \<and> to_lower c = c) (hash_prefix @ sha ?v)"
        by (simp only: list_all_append)
      moreover have "h = hash_prefix @ sha ?v" using False tag by (simp add: h_def account_identity_hash_def Let_def)
      ultimately show ?thesis by (auto simp: list_all_iff str_lower_def starts_with_def intro!: str_strip_id map_idI)
    qed
  qed
  then show "h = [] \<or> starts_with hash_prefix h" "str_strip h = h" "str_lower h = h" by simp_all
qed

lemma account_identity_hash_again:
  assumes "hex_digest sha"
  shows "account_identity_hash sha (account_identity_hash sha a) = account_identity_hash sha a"
proof -
  let ?h = "account_identity_hash sha a"
  have "account_identity_hash sha ?h = (if str_strip ?h = [] then []
      else if starts_with hash_prefix (str_strip ?h) then str_lower (str_strip ?h) else hash_prefix @ sha (str_strip ?h))"
    by (simp add: account_identity_hash_def [of sha ?h] Let_def)
  with account_identity_hash_form [OF assms, of a] show ?thesis by auto
qed

lemma account_identities_match_hash:
  "hex_digest sha \<Longrightarrow> account_identities_match sha (account_identity_hash sha a) b = account_identities_match sha a b"
  by (simp add: account_identities_match_def account_identity_hash_again)

subsection \<open>Enumerations\<close>

datatype lifecycle_state = LC_CREATED | LC_VALIDATED | LC_WARMING_UP | LC_READY | LC_RUNNING | LC_PAUSED
  | LC_PAUSED_PENDING_RECONCILE | LC_HALTED | LC_ERROR | LC_STOPPED

fun lifecycle_value :: "lifecycle_state \<Rightarrow> string" where
  "lifecycle_value LC_CREATED = ''created''"
| "lifecycle_value LC_VALIDATED = ''validated''"
| "lifecycle_value LC_WARMING_UP = ''warming_up''"
| "lifecycle_value LC_READY = ''ready''"
| "lifecycle_value LC_RUNNING = ''running''"
| "lifecycle_value LC_PAUSED = ''paused''"
| "lifecycle_value LC_PAUSED_PENDING_RECONCILE = ''paused_pending_reconcile''"
| "lifecycle_value LC_HALTED = ''halted''"
| "lifecycle_value LC_ERROR = ''error''"
| "lifecycle_value LC_STOPPED = ''stopped''"

datatype deployment_mode = DM_PAPER | DM_SIMULATION | DM_SHADOW | DM_LIVE

fun mode_value :: "deployment_mode \<Rightarrow> string" where
  "mode_value DM_PAPER = ''paper''"
| "mode_value DM_SIMULATION = ''simulation''"
| "mode_value DM_SHADOW = ''shadow''"
| "mode_value DM_LIVE = ''live''"

datatype execution_environment = LOCAL_PAPER | BROKER_SIMULATION | ENV_LIVE

fun environment_value :: "execution_environment \<Rightarrow> string" where
  "environment_value LOCAL_PAPER = ''local_paper''"
| "environment_value BROKER_SIMULATION = ''broker_simulation''"
| "environment_value ENV_LIVE = ''live''"

text \<open>\<open>Cls(text)\<close>: the member with that value, or a \<open>ValueError\<close>.\<close>

fun join_text :: "string \<Rightarrow> string list \<Rightarrow> string" where
  "join_text sep [] = []"
| "join_text sep [x] = x"
| "join_text sep (x # y # xs) = x @ sep @ join_text sep (y # xs)"

definition enum_parse :: "string \<Rightarrow> ('e \<Rightarrow> string) \<Rightarrow> 'e list \<Rightarrow> string \<Rightarrow> exn + 'e" where
  "enum_parse cls value_of members s = (case find (\<lambda>e. value_of e = s) members of
     Some e \<Rightarrow> Inr e
   | None \<Rightarrow> Inl (ValueError (quoted s @ '' is not a valid '' @ cls)))"

definition parse_lifecycle :: "string \<Rightarrow> exn + lifecycle_state" where
  "parse_lifecycle = enum_parse ''LifecycleState'' lifecycle_value [LC_CREATED, LC_VALIDATED, LC_WARMING_UP,
     LC_READY, LC_RUNNING, LC_PAUSED, LC_PAUSED_PENDING_RECONCILE, LC_HALTED, LC_ERROR, LC_STOPPED]"

definition parse_mode :: "string \<Rightarrow> exn + deployment_mode" where
  "parse_mode = enum_parse ''DeploymentMode'' mode_value [DM_PAPER, DM_SIMULATION, DM_SHADOW, DM_LIVE]"

definition parse_environment :: "string \<Rightarrow> exn + execution_environment" where
  "parse_environment = enum_parse ''ExecutionEnvironment'' environment_value [LOCAL_PAPER, BROKER_SIMULATION, ENV_LIVE]"

lemma enum_parse_iff:
  assumes "distinct (map value_of members)" "e \<in> set members"
  shows "enum_parse cls value_of members s = Inr e \<longleftrightarrow> s = value_of e"
proof
  assume "enum_parse cls value_of members s = Inr e"
  then show "s = value_of e" by (auto simp: enum_parse_def find_Some_iff split: option.splits)
next
  assume s: "s = value_of e"
  then obtain x where x: "find (\<lambda>e. value_of e = s) members = Some x"
    using assms(2) by (cases "find (\<lambda>e. value_of e = s) members") (auto simp: find_None_iff)
  then have "x \<in> set members" "value_of x = value_of e" using s by (auto simp: find_Some_iff)
  then have "x = e" using assms by (auto simp: distinct_map dest: inj_onD)
  with x show "enum_parse cls value_of members s = Inr e" by (simp add: enum_parse_def)
qed

lemma parse_mode_iff: "parse_mode s = Inr m \<longleftrightarrow> s = mode_value m"
  unfolding parse_mode_def by (rule enum_parse_iff, code_simp) (cases m; simp)

lemma parse_environment_iff: "parse_environment s = Inr e \<longleftrightarrow> s = environment_value e"
  unfolding parse_environment_def by (rule enum_parse_iff, code_simp) (cases e; simp)

lemma parse_lifecycle_iff: "parse_lifecycle s = Inr e \<longleftrightarrow> s = lifecycle_value e"
  unfolding parse_lifecycle_def by (rule enum_parse_iff, code_simp) (cases e; simp)

subsection \<open>Deployment specifications\<close>

record deployment_spec =
  ds_instance_id :: string
  ds_config_hash :: string
  ds_run_mode :: string
  ds_execution_environment :: string
  ds_trade_provider :: string
  ds_quote_provider :: string
  ds_account_profile :: string
  ds_account_id :: string
  ds_quote_data_kind :: string
  ds_binding_hash :: string

definition spec_hash :: "(json \<Rightarrow> string) \<Rightarrow> deployment_spec \<Rightarrow> string" where
  "spec_hash digest d = digest (JObj [(''instance_id'', JStr (ds_instance_id d)),
     (''config_hash'', JStr (ds_config_hash d)), (''run_mode'', JStr (ds_run_mode d)),
     (''execution_environment'', JStr (ds_execution_environment d)),
     (''trade_provider'', JStr (ds_trade_provider d)), (''quote_provider'', JStr (ds_quote_provider d)),
     (''account_profile'', JStr (ds_account_profile d)), (''account_id'', JStr (ds_account_id d)),
     (''quote_data_kind'', JStr (ds_quote_data_kind d))])"

text \<open>The account profile and account id that a mode keeps, or why the combination is refused.\<close>

definition mode_accounts ::
  "(string \<Rightarrow> string) \<Rightarrow> deployment_mode \<Rightarrow> execution_environment \<Rightarrow> string \<Rightarrow> string \<Rightarrow> string \<Rightarrow> string \<Rightarrow> string \<Rightarrow>
   exn + string \<times> string" where
  "mode_accounts sha mode env trade quote profile account data_kind =
     (case mode of
        DM_PAPER \<Rightarrow>
          if env \<noteq> LOCAL_PAPER then Inl (ValueError ''PAPER must use local_paper'')
          else if (trade, quote, data_kind) \<noteq> (''paper'', ''paper'', ''synthetic'')
          then Inl (ValueError ''LOCAL_PAPER must use paper trade/quote with synthetic data'')
          else Inr ([], [])
      | DM_SIMULATION \<Rightarrow>
          if env \<noteq> BROKER_SIMULATION then Inl (ValueError ''SIMULATION must use broker_simulation'')
          else if profile = [] then Inl (ValueError ''SIMULATION requires an account_profile alias'')
          else Inr (profile, [])
      | _ \<Rightarrow>
          if env \<noteq> ENV_LIVE then Inl (ValueError ''SHADOW/LIVE must use the live execution environment'')
          else if data_kind \<noteq> ''realtime'' then Inl (ValueError ''SHADOW/LIVE require realtime quote data'')
          else if account = [] then Inl (ValueError ''SHADOW/LIVE require account_id'')
          else Inr ([], account_identity_hash sha account))"

definition check_spec :: "(string \<Rightarrow> string) \<Rightarrow> (json \<Rightarrow> string) \<Rightarrow> deployment_spec \<Rightarrow> exn + deployment_spec" where
  "check_spec sha digest d =
     (case parse_mode (ds_run_mode d) of
        Inl e \<Rightarrow> Inl e
      | Inr mode \<Rightarrow> (case parse_environment (ds_execution_environment d) of
          Inl e \<Rightarrow> Inl e
        | Inr env \<Rightarrow>
            let trade = str_lower (str_strip (ds_trade_provider d)); quote = str_lower (str_strip (ds_quote_provider d));
                data_kind = str_lower (str_strip (ds_quote_data_kind d)) in
            if ds_instance_id d = [] then Inl (ValueError ''instance_id is required'')
            else if ds_config_hash d = [] then Inl (ValueError ''config_hash is required'')
            else if trade = [] \<or> quote = [] then Inl (ValueError ''trade_provider and quote_provider are required'')
            else if data_kind \<notin> {''realtime'', ''replay'', ''synthetic''}
            then Inl (ValueError ''quote_data_kind must be realtime, replay or synthetic'')
            else (case mode_accounts sha mode env trade quote (str_strip (ds_account_profile d))
                         (str_strip (ds_account_id d)) data_kind of
                Inl e \<Rightarrow> Inl e
              | Inr (profile, account) \<Rightarrow>
                  let d' = d\<lparr>ds_run_mode := mode_value mode, ds_execution_environment := environment_value env,
                         ds_trade_provider := trade, ds_quote_provider := quote, ds_account_profile := profile,
                         ds_account_id := account, ds_quote_data_kind := data_kind\<rparr>;
                      expected = spec_hash digest d' in
                  if ds_binding_hash d \<noteq> [] \<and> ds_binding_hash d \<noteq> expected
                  then Inl (ValueError ''deployment binding_hash does not match its immutable fields'')
                  else Inr (d'\<lparr>ds_binding_hash := expected\<rparr>))))"

subsection \<open>Strategy configurations\<close>

record strategy_config =
  sc_instance_id :: string
  sc_strategy_id :: string
  sc_strategy_version :: string
  sc_params :: json
  sc_universe :: "string list"
  sc_frequency :: string
  sc_data_policy :: json
  sc_portfolio_policy :: json
  sc_strategy_code_hash :: string
  sc_model_hash :: string
  sc_artifact_binding :: json
  sc_config_hash :: string

definition config_hash_of :: "(json \<Rightarrow> string) \<Rightarrow> strategy_config \<Rightarrow> string" where
  "config_hash_of digest c = digest (JObj [(''strategy_id'', JStr (sc_strategy_id c)),
     (''strategy_version'', JStr (sc_strategy_version c)), (''params'', sc_params c),
     (''universe'', JArr (map JStr (sc_universe c))), (''frequency'', JStr (sc_frequency c)),
     (''data_policy'', sc_data_policy c), (''portfolio_policy'', sc_portfolio_policy c),
     (''strategy_code_hash'', JStr (sc_strategy_code_hash c)), (''model_hash'', JStr (sc_model_hash c)),
     (''artifact_binding'', sc_artifact_binding c)])"

text \<open>\<open>tuple(dict.fromkeys(...))\<close>: the first occurrence of each.\<close>

definition keep_first :: "'a list \<Rightarrow> 'a list" where
  "keep_first xs = rev (remdups (rev xs))"

definition normalized_config :: "strategy_config \<Rightarrow> strategy_config" where
  "normalized_config c = c\<lparr>sc_instance_id := str_strip (sc_instance_id c),
     sc_strategy_id := str_lower (str_strip (sc_strategy_id c)),
     sc_universe := keep_first (map canonical_instrument (filter (\<lambda>i. str_strip i \<noteq> []) (sc_universe c)))\<rparr>"

definition check_config :: "(json \<Rightarrow> string) \<Rightarrow> strategy_config \<Rightarrow> exn + strategy_config" where
  "check_config digest c =
     (let c' = normalized_config c; expected = config_hash_of digest c' in
      if sc_config_hash c \<noteq> [] \<and> sc_config_hash c \<noteq> expected
      then Inl (ValueError ''strategy instance config_hash does not match its immutable fields'')
      else Inr (c'\<lparr>sc_config_hash := expected\<rparr>))"

text \<open>A specification that was accepted is accepted again, unchanged.\<close>

lemma account_identity_hash_Nil: "account_identity_hash sha a = [] \<longleftrightarrow> str_strip a = []"
  by (simp add: account_identity_hash_def hash_prefix_def str_lower_def Let_def)

lemma mode_accounts_again:
  assumes "hex_digest sha" "mode_accounts sha mode env trade quote (str_strip p) (str_strip a) k = Inr (profile, account)"
  shows "mode_accounts sha mode env trade quote (str_strip profile) (str_strip account) k = Inr (profile, account)"
  using assms(2) account_identity_hash_form(2) [OF assms(1), of "str_strip a"]
    account_identity_hash_again [OF assms(1), of "str_strip a"]
  by (cases mode) (auto simp: mode_accounts_def str_strip_again account_identity_hash_Nil str_strip_def [of "[]"] split: if_splits)

lemma check_spec_parts:
  assumes "check_spec sha digest d = Inr d'"
  obtains mode env where "parse_mode (ds_run_mode d) = Inr mode" "parse_environment (ds_execution_environment d) = Inr env"
    "ds_instance_id d \<noteq> []" "ds_config_hash d \<noteq> []"
    "ds_instance_id d' = ds_instance_id d" "ds_config_hash d' = ds_config_hash d"
    "ds_run_mode d' = mode_value mode" "ds_execution_environment d' = environment_value env"
    "ds_trade_provider d' = str_lower (str_strip (ds_trade_provider d))" "ds_trade_provider d' \<noteq> []"
    "ds_quote_provider d' = str_lower (str_strip (ds_quote_provider d))" "ds_quote_provider d' \<noteq> []"
    "ds_quote_data_kind d' = str_lower (str_strip (ds_quote_data_kind d))"
    "ds_quote_data_kind d' \<in> {''realtime'', ''replay'', ''synthetic''}"
    "mode_accounts sha mode env (ds_trade_provider d') (ds_quote_provider d') (str_strip (ds_account_profile d))
       (str_strip (ds_account_id d)) (ds_quote_data_kind d') = Inr (ds_account_profile d', ds_account_id d')"
    "ds_binding_hash d' = spec_hash digest d'"
  using assms unfolding check_spec_def Let_def
  by (auto split: sum.splits if_splits simp del: insert_iff simp: spec_hash_def)

lemma check_spec_again:
  assumes "hex_digest sha" "check_spec sha digest d = Inr d'"
  shows "check_spec sha digest d' = Inr d'"
proof (rule check_spec_parts [OF assms(2)])
  fix mode env
  assume parts: "ds_instance_id d \<noteq> []" "ds_config_hash d \<noteq> []"
    "ds_instance_id d' = ds_instance_id d" "ds_config_hash d' = ds_config_hash d"
    "ds_run_mode d' = mode_value mode" "ds_execution_environment d' = environment_value env"
    "ds_trade_provider d' = str_lower (str_strip (ds_trade_provider d))" "ds_trade_provider d' \<noteq> []"
    "ds_quote_provider d' = str_lower (str_strip (ds_quote_provider d))" "ds_quote_provider d' \<noteq> []"
    "ds_quote_data_kind d' = str_lower (str_strip (ds_quote_data_kind d))"
    "ds_quote_data_kind d' \<in> {''realtime'', ''replay'', ''synthetic''}"
    "mode_accounts sha mode env (ds_trade_provider d') (ds_quote_provider d') (str_strip (ds_account_profile d))
       (str_strip (ds_account_id d)) (ds_quote_data_kind d') = Inr (ds_account_profile d', ds_account_id d')"
    "ds_binding_hash d' = spec_hash digest d'"
  have "parse_mode (mode_value mode) = Inr mode" "parse_environment (environment_value env) = Inr env"
    by (simp_all add: parse_mode_iff parse_environment_iff)
  moreover have "str_lower (str_strip (ds_trade_provider d')) = ds_trade_provider d'"
    "str_lower (str_strip (ds_quote_provider d')) = ds_quote_provider d'"
    "str_lower (str_strip (ds_quote_data_kind d')) = ds_quote_data_kind d'"
    by (simp_all add: parts(7,9,11) str_strip_lower str_strip_again str_lower_again)
  moreover have "mode_accounts sha mode env (ds_trade_provider d') (ds_quote_provider d') (str_strip (ds_account_profile d'))
       (str_strip (ds_account_id d')) (ds_quote_data_kind d') = Inr (ds_account_profile d', ds_account_id d')"
    by (rule mode_accounts_again [OF assms(1) parts(13)])
  moreover have "d'\<lparr>ds_run_mode := ds_run_mode d', ds_execution_environment := ds_execution_environment d',
      ds_trade_provider := ds_trade_provider d', ds_quote_provider := ds_quote_provider d',
      ds_account_profile := ds_account_profile d', ds_account_id := ds_account_id d',
      ds_quote_data_kind := ds_quote_data_kind d', ds_binding_hash := ds_binding_hash d'\<rparr> = d'" by simp
  ultimately show ?thesis using parts(1-6,8,10,12,14)
    by (simp add: check_spec_def Let_def spec_hash_def del: insert_iff)
qed

lemma check_config_fields:
  assumes "check_config digest c = Inr c'"
  shows "sc_config_hash c' = config_hash_of digest c'"
  using assms by (auto simp: check_config_def Let_def config_hash_of_def split: if_splits)

end
