(* ===== verification/Store.thy ===== *)
theory Store
  imports Deployment "HOL-Library.Product_Lexorder"
begin

section \<open>The strategy runtime store\<close>

text \<open>
  The deployment tables of \<open>systems/trading/store.py\<close>: strategy instances, deployment
  specifications, runtime rows, route blocks, runtime runs and their sessions.  A table is a
  dictionary on its primary key.  An operation is one transaction: it returns a result or an
  exception with the tables as they are afterwards.  The two unique indexes of the schema on active
  writers are checked where SQLite checks them.  The clock text, new ids and SHA-256 are parameters.
\<close>

subsection \<open>Tables\<close>

record instance_row =
  ir_strategy_id :: string
  ir_strategy_version :: string
  ir_config :: strategy_config
  ir_config_hash :: string
  ir_validation_state :: string
  ir_updated_at :: string

record spec_row =
  sr_spec :: deployment_spec
  sr_version :: int
  sr_updated_at :: string

record runtime_row =
  rt_config_hash :: string
  rt_binding_hash :: string
  rt_run_mode :: string
  rt_account_id :: string
  rt_execution_environment :: string
  rt_trade_provider :: string
  rt_quote_provider :: string
  rt_account_profile :: string
  rt_quote_data_kind :: string
  rt_desired_state :: string
  rt_observed_state :: string
  rt_runtime_id :: string
  rt_runner_heartbeat_at :: string
  rt_last_command_id :: string
  rt_last_error :: json
  rt_reconcile_required :: bool
  rt_reconciled :: bool
  rt_binding_active :: bool
  rt_version :: int
  rt_updated_at :: string

record block_row =
  bl_active :: bool
  bl_reason :: string
  bl_updated_at :: string

record run_row =
  rn_instance_id :: string
  rn_run_mode :: string
  rn_config_hash :: string
  rn_binding_hash :: string
  rn_status :: string
  rn_started_at :: string
  rn_ended_at :: string
  rn_trading_sessions :: int
  rn_updated_at :: string

record store =
  st_instances :: "(string \<times> instance_row) list"
  st_specs :: "(string \<times> spec_row) list"
  st_runtimes :: "(string \<times> runtime_row) list"
  st_blocks :: "((string \<times> string) \<times> block_row) list"
  st_runs :: "(string \<times> run_row) list"
  st_sessions :: "(string \<times> string) list"

definition empty_store :: store where
  "empty_store = \<lparr>st_instances = [], st_specs = [], st_runtimes = [], st_blocks = [], st_runs = [], st_sessions = []\<rparr>"

text \<open>
  A partial unique index lists the key of each row it covers; the schema has one on external
  accounts, one on simulation profiles and one on the running run of an instance.
\<close>

definition index_of :: "('r \<Rightarrow> 'k) \<Rightarrow> ('r \<Rightarrow> bool) \<Rightarrow> (string \<times> 'r) list \<Rightarrow> 'k list" where
  "index_of key covers tbl = map (\<lambda>(_, r). key r) (filter (\<lambda>(_, r). covers r) tbl)"

definition account_index :: "runtime_row \<Rightarrow> string \<times> string \<times> string" where
  "account_index r = (rt_execution_environment r, rt_trade_provider r, rt_account_id r)"

definition in_account_index :: "runtime_row \<Rightarrow> bool" where
  "in_account_index r \<longleftrightarrow> rt_binding_active r \<and> rt_account_id r \<noteq> [] \<and>
     rt_execution_environment r \<in> {''live'', ''broker_simulation''}"

definition profile_index :: "runtime_row \<Rightarrow> string \<times> string \<times> string" where
  "profile_index r = (rt_execution_environment r, rt_trade_provider r, rt_account_profile r)"

definition in_profile_index :: "runtime_row \<Rightarrow> bool" where
  "in_profile_index r \<longleftrightarrow> rt_binding_active r \<and> rt_account_profile r \<noteq> [] \<and>
     rt_execution_environment r = ''broker_simulation''"

definition run_running :: "run_row \<Rightarrow> bool" where
  "run_running r \<longleftrightarrow> rn_status r = ''running''"

definition unique_writers :: "(string \<times> runtime_row) list \<Rightarrow> bool" where
  "unique_writers tbl \<longleftrightarrow> distinct (index_of account_index in_account_index tbl) \<and>
     distinct (index_of profile_index in_profile_index tbl)"

definition unique_running :: "(string \<times> run_row) list \<Rightarrow> bool" where
  "unique_running runs \<longleftrightarrow> distinct (index_of rn_instance_id run_running runs)"

subsection \<open>Strategy instances\<close>

definition key_error :: "string \<Rightarrow> exn + 'a" where
  "key_error m = Inl (PyError ''KeyError'' m)"

definition read_instance :: "(json \<Rightarrow> string) \<Rightarrow> instance_row \<Rightarrow> exn + instance_row" where
  "read_instance digest row =
     (if sc_config_hash (ir_config row) \<noteq> ir_config_hash row
      then Inl (RuntimeError ''strategy instance config JSON/hash projection is inconsistent'')
      else case check_config digest (ir_config row) of
        Inl e \<Rightarrow> Inl (RuntimeError (''strategy instance config is corrupted: '' @ exn_message e))
      | Inr c \<Rightarrow>
          if sc_strategy_id c \<noteq> ir_strategy_id row \<or> sc_strategy_version c \<noteq> ir_strategy_version row
          then Inl (RuntimeError ''strategy instance row/config projection is inconsistent'')
          else Inr (row\<lparr>ir_config := c\<rparr>))"

definition get_instance :: "(json \<Rightarrow> string) \<Rightarrow> string \<Rightarrow> store \<Rightarrow> exn + instance_row" where
  "get_instance digest instance_id st = (case map_of (st_instances st) instance_id of
     None \<Rightarrow> key_error (''unknown strategy instance '' @ quoted instance_id)
   | Some row \<Rightarrow> read_instance digest row)"

fun list_rows :: "(json \<Rightarrow> string) \<Rightarrow> (string \<times> instance_row) list \<Rightarrow> exn + (string \<times> instance_row) list" where
  "list_rows digest [] = Inr []"
| "list_rows digest ((k, row) # rows) = (case read_instance digest row of
     Inl e \<Rightarrow> Inl e
   | Inr r \<Rightarrow> (case list_rows digest rows of Inl e \<Rightarrow> Inl e | Inr rs \<Rightarrow> Inr ((k, r) # rs)))"

definition list_instances :: "(json \<Rightarrow> string) \<Rightarrow> store \<Rightarrow> exn + (string \<times> instance_row) list" where
  "list_instances digest st = list_rows digest (sort_key fst (st_instances st))"

text \<open>The argument is a configuration object, so it has been through \<open>__post_init__\<close>.\<close>

definition create_instance :: "(json \<Rightarrow> string) \<Rightarrow> string \<Rightarrow> strategy_config \<Rightarrow> (store, instance_row) op" where
  "create_instance digest now c st =
     (let k = sc_instance_id c in
      if k = [] then (Inl (ValueError ''instance_id is required''), st)
      else if map_of (st_instances st) k \<noteq> None
      then (Inl (PyError ''IntegrityError'' ''UNIQUE constraint failed: strategy_instances.instance_id''), st)
      else let st' = st\<lparr>st_instances := dict_set k \<lparr>ir_strategy_id = sc_strategy_id c,
               ir_strategy_version = sc_strategy_version c, ir_config = c, ir_config_hash = sc_config_hash c,
               ir_validation_state = ''created'', ir_updated_at = now\<rparr> (st_instances st)\<rparr>
           in (get_instance digest k st', st'))"

definition set_validation_state :: "(json \<Rightarrow> string) \<Rightarrow> string \<Rightarrow> string \<Rightarrow> string \<Rightarrow> (store, instance_row) op" where
  "set_validation_state digest now instance_id state st =
     (if state \<notin> {''created'', ''validated''}
      then (Inl (ValueError (quoted state @ '' is not a valid InstanceValidationState'')), st)
      else let st' = (case map_of (st_instances st) instance_id of
               None \<Rightarrow> st
             | Some row \<Rightarrow> st\<lparr>st_instances := dict_set instance_id
                 (row\<lparr>ir_validation_state := state, ir_updated_at := now\<rparr>) (st_instances st)\<rparr>)
           in (get_instance digest instance_id st', st'))"

subsection \<open>Reading a deployment\<close>

definition read_spec :: "(string \<Rightarrow> string) \<Rightarrow> (json \<Rightarrow> string) \<Rightarrow> spec_row \<Rightarrow> exn + spec_row" where
  "read_spec sha digest row = (case check_spec sha digest (sr_spec row) of
     Inl e \<Rightarrow> Inl (RuntimeError (''deployment configuration is corrupted: '' @ exn_message e))
   | Inr d \<Rightarrow> Inr (row\<lparr>sr_spec := d\<rparr>))"

text \<open>The specification with its \<open>stale\<close> flag.\<close>

definition get_deployment_spec ::
  "(string \<Rightarrow> string) \<Rightarrow> (json \<Rightarrow> string) \<Rightarrow> string \<Rightarrow> store \<Rightarrow> exn + spec_row \<times> bool" where
  "get_deployment_spec sha digest instance_id st = (case map_of (st_specs st) instance_id of
     None \<Rightarrow> key_error (''deployment is not configured for '' @ quoted instance_id)
   | Some row \<Rightarrow> (case get_instance digest instance_id st of
       Inl e \<Rightarrow> Inl e
     | Inr current \<Rightarrow> (case read_spec sha digest row of
         Inl e \<Rightarrow> Inl e
       | Inr row' \<Rightarrow> Inr (row', ds_config_hash (sr_spec row) \<noteq> ir_config_hash current))))"

definition get_runtime_state :: "string \<Rightarrow> store \<Rightarrow> exn + runtime_row" where
  "get_runtime_state instance_id st = (case map_of (st_runtimes st) instance_id of
     None \<Rightarrow> key_error (''deployment runtime is missing for '' @ quoted instance_id)
   | Some row \<Rightarrow> Inr row)"

definition list_runtime_runs :: "string \<Rightarrow> store \<Rightarrow> (string \<times> run_row) list" where
  "list_runtime_runs instance_id st = sort_key (\<lambda>(k, r). (rn_started_at r, k))
     (filter (\<lambda>(_, r). rn_instance_id r = instance_id) (st_runs st))"

text \<open>Which blocks concern an instance and an account; \<open>active_route_blocks\<close> keeps the active ones.\<close>

definition block_applies :: "(string \<Rightarrow> string) \<Rightarrow> string \<Rightarrow> string \<Rightarrow> string \<times> string \<Rightarrow> bool" where
  "block_applies sha instance_id account_id key = (case key of (scope_type, scope_id) \<Rightarrow>
     scope_type = ''global'' \<or>
     (scope_type = ''instance'' \<or> scope_type = ''runtime'') \<and> scope_id = instance_id \<or>
     scope_type = ''account'' \<and> scope_id \<in> {account_id, account_identity_hash sha account_id})"

definition active_route_blocks ::
  "(string \<Rightarrow> string) \<Rightarrow> string \<Rightarrow> string \<Rightarrow> store \<Rightarrow> ((string \<times> string) \<times> block_row) list" where
  "active_route_blocks sha instance_id account_id st = sort_key fst
     (filter (\<lambda>(k, b). bl_active b \<and> block_applies sha instance_id account_id k \<and>
        (fst k = ''global'' \<longrightarrow> snd k = ''*'')) (st_blocks st))"

definition list_route_blocks ::
  "(string \<Rightarrow> string) \<Rightarrow> string option \<Rightarrow> store \<Rightarrow> ((string \<times> string) \<times> block_row) list" where
  "list_route_blocks sha instance_id st = (case instance_id of
     None \<Rightarrow> sort_key fst (st_blocks st)
   | Some i \<Rightarrow>
       let account_id = (case map_of (st_runtimes st) i of None \<Rightarrow> [] | Some r \<Rightarrow> rt_account_id r)
       in sort_key fst (filter (\<lambda>(k, _). block_applies sha i account_id k) (st_blocks st)))"

record deployment_view =
  dv_instance :: instance_row
  dv_configuration :: "spec_row \<times> bool"
  dv_runtime :: runtime_row
  dv_runs :: "(string \<times> run_row) list"
  dv_route_blocks :: "((string \<times> string) \<times> block_row) list"

definition deployment :: "(string \<Rightarrow> string) \<Rightarrow> (json \<Rightarrow> string) \<Rightarrow> string \<Rightarrow> store \<Rightarrow> exn + deployment_view" where
  "deployment sha digest instance_id st = (case get_instance digest instance_id st of
     Inl e \<Rightarrow> Inl e
   | Inr current \<Rightarrow> (case get_deployment_spec sha digest instance_id st of
       Inl e \<Rightarrow> Inl e
     | Inr configuration \<Rightarrow> (case get_runtime_state instance_id st of
         Inl e \<Rightarrow> Inl e
       | Inr runtime \<Rightarrow> Inr \<lparr>dv_instance = current, dv_configuration = configuration, dv_runtime = runtime,
           dv_runs = list_runtime_runs instance_id st,
           dv_route_blocks = list_route_blocks sha (Some instance_id) st\<rparr>)))"

subsection \<open>Configuring a deployment\<close>

text \<open>
  \<open>configure_deployment\<close> checks the instance before its transaction and again inside it;
  \<open>configure_write\<close> is the transaction, on whatever the tables then hold.
\<close>

definition same_spec :: "deployment_spec \<Rightarrow> deployment_spec \<Rightarrow> bool" where
  "same_spec a b \<longleftrightarrow> ds_config_hash a = ds_config_hash b \<and> ds_run_mode a = ds_run_mode b \<and>
     ds_execution_environment a = ds_execution_environment b \<and> ds_trade_provider a = ds_trade_provider b \<and>
     ds_quote_provider a = ds_quote_provider b \<and> ds_account_profile a = ds_account_profile b \<and>
     ds_account_id a = ds_account_id b \<and> ds_quote_data_kind a = ds_quote_data_kind b \<and>
     ds_binding_hash a = ds_binding_hash b"

definition runtime_is_initial :: "deployment_spec \<Rightarrow> runtime_row \<Rightarrow> bool" where
  "runtime_is_initial d r \<longleftrightarrow> rt_config_hash r = ds_config_hash d \<and> rt_binding_hash r = ds_binding_hash d \<and>
     rt_run_mode r = ds_run_mode d \<and> rt_account_id r = ds_account_id d \<and>
     rt_trade_provider r = ds_trade_provider d \<and> rt_quote_provider r = ds_quote_provider d \<and>
     rt_account_profile r = ds_account_profile d \<and> rt_desired_state r = ''ready'' \<and>
     rt_observed_state r = ''ready'' \<and> rt_runtime_id r = [] \<and> \<not> rt_binding_active r \<and>
     \<not> rt_reconcile_required r \<and> rt_reconciled r = (ds_run_mode d = ''paper'')"

definition idle_states :: "string set" where
  "idle_states = {''ready'', ''stopped'', ''error''}"

definition runtime_busy :: "runtime_row \<Rightarrow> bool" where
  "runtime_busy r \<longleftrightarrow> rt_runtime_id r \<noteq> [] \<or> rt_desired_state r \<notin> idle_states \<or> rt_observed_state r \<notin> idle_states"

definition fresh_runtime :: "string \<Rightarrow> deployment_spec \<Rightarrow> int \<Rightarrow> runtime_row" where
  "fresh_runtime now d version = \<lparr>rt_config_hash = ds_config_hash d, rt_binding_hash = ds_binding_hash d,
     rt_run_mode = ds_run_mode d, rt_account_id = ds_account_id d,
     rt_execution_environment = ds_execution_environment d, rt_trade_provider = ds_trade_provider d,
     rt_quote_provider = ds_quote_provider d, rt_account_profile = ds_account_profile d,
     rt_quote_data_kind = ds_quote_data_kind d, rt_desired_state = ''ready'', rt_observed_state = ''ready'',
     rt_runtime_id = [], rt_runner_heartbeat_at = [], rt_last_command_id = [], rt_last_error = JObj [],
     rt_reconcile_required = False, rt_reconciled = (ds_run_mode d = ''paper''), rt_binding_active = False,
     rt_version = version, rt_updated_at = now\<rparr>"

definition lift_block :: "string \<Rightarrow> string \<times> string \<Rightarrow> ((string \<times> string) \<times> block_row) list \<Rightarrow> ((string \<times> string) \<times> block_row) list" where
  "lift_block now key blocks = (case map_of blocks key of
     None \<Rightarrow> blocks
   | Some b \<Rightarrow> dict_set key \<lparr>bl_active = False, bl_reason = [], bl_updated_at = now\<rparr> blocks)"

definition write_deployment :: "string \<Rightarrow> deployment_spec \<Rightarrow> int \<Rightarrow> store \<Rightarrow> store" where
  "write_deployment now d version st =
     (let k = ds_instance_id d;
          runtime_version = (case map_of (st_runtimes st) k of None \<Rightarrow> 1 | Some r \<Rightarrow> rt_version r + 1)
      in st\<lparr>st_specs := dict_set k \<lparr>sr_spec = d, sr_version = version, sr_updated_at = now\<rparr> (st_specs st),
            st_runtimes := dict_set k (fresh_runtime now d runtime_version) (st_runtimes st),
            st_blocks := lift_block now (''runtime'', k) (st_blocks st)\<rparr>)"

definition configure_write :: "string \<Rightarrow> deployment_spec \<Rightarrow> (store, unit) op" where
  "configure_write now d st =
     (let k = ds_instance_id d; persisted = map_of (st_specs st) k; runtime = map_of (st_runtimes st) k;
          block = map_of (st_blocks st) (''runtime'', k) in
      case map_of (st_instances st) k of
        None \<Rightarrow> (key_error (''unknown strategy instance '' @ quoted k), st)
      | Some inst \<Rightarrow>
          if ir_config_hash inst \<noteq> ds_config_hash d
          then (Inl (RuntimeError ''strategy instance changed concurrently during deployment''), st)
          else if ir_validation_state inst \<noteq> ''validated''
          then (Inl (ValueError ''strategy instance must be validated before deployment''), st)
          else if (case runtime of None \<Rightarrow> False | Some r \<Rightarrow> runtime_busy r)
          then (Inl (ValueError ''stop the strategy daemon before changing deployment''), st)
          else
            let unchanged = (case persisted of None \<Rightarrow> False | Some p \<Rightarrow> same_spec (sr_spec p) d);
                initial = (case runtime of None \<Rightarrow> False | Some r \<Rightarrow> runtime_is_initial d r);
                blocked = (case block of None \<Rightarrow> False | Some b \<Rightarrow> bl_active b);
                version = (case persisted of None \<Rightarrow> 1 | Some p \<Rightarrow> if unchanged then sr_version p else sr_version p + 1)
            in if unchanged \<and> initial \<and> \<not> blocked then (Inr (), st)
               else (Inr (), write_deployment now d version st))"

definition configure_deployment ::
  "(string \<Rightarrow> string) \<Rightarrow> (json \<Rightarrow> string) \<Rightarrow> string \<Rightarrow> deployment_spec \<Rightarrow> (store, deployment_view) op" where
  "configure_deployment sha digest now d st = (case get_instance digest (ds_instance_id d) st of
     Inl e \<Rightarrow> (Inl e, st)
   | Inr current \<Rightarrow>
       if ir_validation_state current \<noteq> ''validated''
       then (Inl (ValueError ''strategy instance must be validated before deployment''), st)
       else if ds_config_hash d \<noteq> ir_config_hash current
       then (Inl (ValueError ''deployment spec must bind the current config_hash''), st)
       else (case configure_write now d st of
           (Inl e, st') \<Rightarrow> (Inl e, st')
         | (Inr _, st') \<Rightarrow> (deployment sha digest (ds_instance_id d) st', st')))"

subsection \<open>Changing a strategy instance\<close>

text \<open>The allowed changes of \<open>update_instance\<close>; any other key is ignored.\<close>

datatype config_change = CParams json | CUniverse "string list" | CFrequency string | CDataPolicy json
  | CPortfolioPolicy json | CStrategyVersion string | CStrategyCodeHash string | CModelHash string
  | CArtifactBinding json | COther string

fun apply_config_change :: "config_change \<Rightarrow> strategy_config \<Rightarrow> strategy_config" where
  "apply_config_change (CParams v) c = c\<lparr>sc_params := v\<rparr>"
| "apply_config_change (CUniverse v) c = c\<lparr>sc_universe := v\<rparr>"
| "apply_config_change (CFrequency v) c = c\<lparr>sc_frequency := v\<rparr>"
| "apply_config_change (CDataPolicy v) c = c\<lparr>sc_data_policy := v\<rparr>"
| "apply_config_change (CPortfolioPolicy v) c = c\<lparr>sc_portfolio_policy := v\<rparr>"
| "apply_config_change (CStrategyVersion v) c = c\<lparr>sc_strategy_version := v\<rparr>"
| "apply_config_change (CStrategyCodeHash v) c = c\<lparr>sc_strategy_code_hash := v\<rparr>"
| "apply_config_change (CModelHash v) c = c\<lparr>sc_model_hash := v\<rparr>"
| "apply_config_change (CArtifactBinding v) c = c\<lparr>sc_artifact_binding := v\<rparr>"
| "apply_config_change (COther _) c = c"

definition invalidate_run :: "string \<Rightarrow> string \<Rightarrow> run_row \<Rightarrow> run_row" where
  "invalidate_run now instance_id r =
     (if rn_instance_id r = instance_id \<and> rn_status r = ''running''
      then r\<lparr>rn_status := ''invalidated'', rn_ended_at := (if rn_ended_at r = [] then now else rn_ended_at r),
             rn_updated_at := now\<rparr>
      else r)"

definition revoked_runtime :: "string \<Rightarrow> runtime_row \<Rightarrow> runtime_row" where
  "revoked_runtime now r = r\<lparr>rt_desired_state := ''stopped'', rt_observed_state := ''stopped'', rt_runtime_id := [],
     rt_runner_heartbeat_at := [], rt_last_command_id := [], rt_last_error := JObj [], rt_reconcile_required := True,
     rt_reconciled := False, rt_binding_active := False, rt_version := rt_version r + 1, rt_updated_at := now\<rparr>"

definition revoke_deployment :: "string \<Rightarrow> string \<Rightarrow> store \<Rightarrow> store" where
  "revoke_deployment now k st = st\<lparr>
     st_runs := map (\<lambda>(i, r). (i, invalidate_run now k r)) (st_runs st),
     st_runtimes := (case map_of (st_runtimes st) k of None \<Rightarrow> st_runtimes st
        | Some r \<Rightarrow> dict_set k (revoked_runtime now r) (st_runtimes st)),
     st_blocks := dict_set (''runtime'', k) \<lparr>bl_active = True,
        bl_reason = ''deployment is stale after strategy config change'', bl_updated_at = now\<rparr> (st_blocks st)\<rparr>"

definition update_write :: "string \<Rightarrow> string \<Rightarrow> instance_row \<Rightarrow> strategy_config \<Rightarrow> (store, unit) op" where
  "update_write now k current c st =
     (let changed = (sc_config_hash c \<noteq> ir_config_hash current) in
      case map_of (st_instances st) k of
        None \<Rightarrow> (key_error (''unknown strategy instance '' @ quoted k), st)
      | Some row \<Rightarrow>
          if ir_config_hash row \<noteq> ir_config_hash current
          then (Inl (RuntimeError ''strategy instance changed concurrently during update''), st)
          else
            let st1 = st\<lparr>st_instances := dict_set k (row\<lparr>ir_strategy_version := sc_strategy_version c, ir_config := c,
                   ir_config_hash := sc_config_hash c,
                   ir_validation_state := (if changed then ''created'' else ir_validation_state current),
                   ir_updated_at := now\<rparr>) (st_instances st)\<rparr>
            in (Inr (), if changed then revoke_deployment now k st1 else st1))"

definition update_instance ::
  "(json \<Rightarrow> string) \<Rightarrow> string \<Rightarrow> string \<Rightarrow> config_change list \<Rightarrow> (store, instance_row) op" where
  "update_instance digest now instance_id changes st = (case get_instance digest instance_id st of
     Inl e \<Rightarrow> (Inl e, st)
   | Inr current \<Rightarrow>
       (case check_config digest ((fold apply_config_change changes (ir_config current))\<lparr>sc_config_hash := []\<rparr>) of
          Inl e \<Rightarrow> (Inl e, st)
        | Inr c \<Rightarrow> (case update_write now instance_id current c st of
            (Inl e, st') \<Rightarrow> (Inl e, st')
          | (Inr _, st') \<Rightarrow> (get_instance digest instance_id st', st'))))"

subsection \<open>The runtime row\<close>

text \<open>
  The keyword arguments of \<open>update_runtime_state\<close> and \<open>transition_runtime\<close>: one constructor per
  allowed field, and \<open>RUnknown\<close> for any other name.
\<close>

datatype runtime_change = RConfigHash string | RBindingHash string | RRunMode string | RAccountId string
  | RDesired string | RObserved string | RRuntimeId string | RHeartbeat string | RLastCommand string
  | RLastError json | RReconcileRequired bool | RBindingActive bool | REnvironment string | RTradeProvider string
  | RQuoteProvider string | RAccountProfile string | RQuoteDataKind string | RReconciled bool | RUnknown string

fun apply_runtime_change :: "(string \<Rightarrow> string) \<Rightarrow> runtime_change \<Rightarrow> runtime_row \<Rightarrow> runtime_row" where
  "apply_runtime_change sha (RConfigHash v) r = r\<lparr>rt_config_hash := v\<rparr>"
| "apply_runtime_change sha (RBindingHash v) r = r\<lparr>rt_binding_hash := v\<rparr>"
| "apply_runtime_change sha (RRunMode v) r = r\<lparr>rt_run_mode := v\<rparr>"
| "apply_runtime_change sha (RAccountId v) r = r\<lparr>rt_account_id := account_identity_hash sha v\<rparr>"
| "apply_runtime_change sha (RDesired v) r = r\<lparr>rt_desired_state := v\<rparr>"
| "apply_runtime_change sha (RObserved v) r = r\<lparr>rt_observed_state := v\<rparr>"
| "apply_runtime_change sha (RRuntimeId v) r = r\<lparr>rt_runtime_id := v\<rparr>"
| "apply_runtime_change sha (RHeartbeat v) r = r\<lparr>rt_runner_heartbeat_at := v\<rparr>"
| "apply_runtime_change sha (RLastCommand v) r = r\<lparr>rt_last_command_id := v\<rparr>"
| "apply_runtime_change sha (RLastError v) r = r\<lparr>rt_last_error := (if v \<in> {JNull, JBool False, JNum 0, JStr [], JArr []} then JObj [] else v)\<rparr>"
| "apply_runtime_change sha (RReconcileRequired b) r = r\<lparr>rt_reconcile_required := b\<rparr>"
| "apply_runtime_change sha (RBindingActive b) r = r\<lparr>rt_binding_active := b\<rparr>"
| "apply_runtime_change sha (REnvironment v) r = r\<lparr>rt_execution_environment := v\<rparr>"
| "apply_runtime_change sha (RTradeProvider v) r = r\<lparr>rt_trade_provider := v\<rparr>"
| "apply_runtime_change sha (RQuoteProvider v) r = r\<lparr>rt_quote_provider := v\<rparr>"
| "apply_runtime_change sha (RAccountProfile v) r = r\<lparr>rt_account_profile := v\<rparr>"
| "apply_runtime_change sha (RQuoteDataKind v) r = r\<lparr>rt_quote_data_kind := v\<rparr>"
| "apply_runtime_change sha (RReconciled b) r = r\<lparr>rt_reconciled := b\<rparr>"
| "apply_runtime_change sha (RUnknown _) r = r"

fun unknown_fields :: "runtime_change list \<Rightarrow> string list" where
  "unknown_fields [] = []"
| "unknown_fields (RUnknown n # cs) = n # unknown_fields cs"
| "unknown_fields (_ # cs) = unknown_fields cs"

text \<open>The update both operations make: guarded by the version, refused by an index on active writers.\<close>

definition write_runtime ::
  "(string \<Rightarrow> string) \<Rightarrow> string \<Rightarrow> string \<Rightarrow> int option \<Rightarrow> runtime_change list \<Rightarrow> (store, runtime_row) op" where
  "write_runtime sha now instance_id expected_version changes st = (case map_of (st_runtimes st) instance_id of
     None \<Rightarrow> (Inl (RuntimeError ''deployment runtime changed concurrently''), st)
   | Some row \<Rightarrow>
       if (case expected_version of None \<Rightarrow> False | Some v \<Rightarrow> rt_version row \<noteq> v)
       then (Inl (RuntimeError ''deployment runtime changed concurrently''), st)
       else
         let row' = (fold (apply_runtime_change sha) changes row)\<lparr>rt_version := rt_version row + 1, rt_updated_at := now\<rparr>;
             tbl = dict_set instance_id row' (st_runtimes st)
         in if \<not> unique_writers tbl
            then (Inl (ValueError ''external account already has an active automated writer''), st)
            else (Inr row', st\<lparr>st_runtimes := tbl\<rparr>))"

definition unsupported :: "runtime_change list \<Rightarrow> exn" where
  "unsupported changes = ValueError (''unsupported runtime fields: ['' @
     join_text '', '' (map quoted (sort (unknown_fields changes))) @ '']'')"

definition update_runtime_state ::
  "(string \<Rightarrow> string) \<Rightarrow> string \<Rightarrow> string \<Rightarrow> int option \<Rightarrow> runtime_change list \<Rightarrow> (store, runtime_row) op" where
  "update_runtime_state sha now instance_id expected_version changes st =
     (if unknown_fields changes \<noteq> [] then (Inl (unsupported changes), st)
      else if changes = [] then (get_runtime_state instance_id st, st)
      else write_runtime sha now instance_id expected_version changes st)"

fun sets_observed :: "runtime_change \<Rightarrow> bool" where
  "sets_observed (RObserved _) = True"
| "sets_observed _ = False"

definition transition_runtime ::
  "(string \<Rightarrow> string) \<Rightarrow> string \<Rightarrow> string \<Rightarrow> string \<Rightarrow> int option \<Rightarrow> runtime_change list \<Rightarrow> (store, runtime_row) op" where
  "transition_runtime sha now instance_id lifecycle expected_version changes st = (case parse_lifecycle lifecycle of
     Inl e \<Rightarrow> (Inl e, st)
   | Inr lc \<Rightarrow>
       let changes' = (if list_ex sets_observed changes then changes else changes @ [RObserved (lifecycle_value lc)])
       in if unknown_fields changes' \<noteq> [] then (Inl (unsupported changes'), st)
          else write_runtime sha now instance_id expected_version changes' st)"

definition record_runtime_heartbeat ::
  "string \<Rightarrow> string \<Rightarrow> string \<Rightarrow> string \<Rightarrow> string \<Rightarrow> string \<Rightarrow> (store, bool) op" where
  "record_runtime_heartbeat now instance_id config_hash runtime_id heartbeat_at observed_state st =
     (case parse_lifecycle observed_state of
        Inl e \<Rightarrow> (Inl e, st)
      | Inr observed \<Rightarrow> (case map_of (st_runtimes st) instance_id of
          None \<Rightarrow> (Inr False, st)
        | Some row \<Rightarrow>
            if rt_config_hash row \<noteq> config_hash \<or> rt_runtime_id row \<noteq> runtime_id then (Inr False, st)
            else (Inr True, st\<lparr>st_runtimes := dict_set instance_id
              (row\<lparr>rt_runner_heartbeat_at := heartbeat_at, rt_observed_state := lifecycle_value observed,
                   rt_version := rt_version row + 1, rt_updated_at := now\<rparr>) (st_runtimes st)\<rparr>)))"

subsection \<open>Route blocks\<close>

definition block_identifier :: "(string \<Rightarrow> string) \<Rightarrow> string \<Rightarrow> string \<Rightarrow> string" where
  "block_identifier sha scope scope_id =
     (if scope = ''global'' then ''*''
      else if scope = ''account'' then account_identity_hash sha (str_strip scope_id) else str_strip scope_id)"

definition set_route_block ::
  "(string \<Rightarrow> string) \<Rightarrow> string \<Rightarrow> string \<Rightarrow> string \<Rightarrow> bool \<Rightarrow> string \<Rightarrow> (store, string \<times> string) op" where
  "set_route_block sha now scope_type scope_id active reason st =
     (let scope = str_lower (str_strip scope_type); identifier = block_identifier sha scope scope_id in
      if scope \<notin> {''global'', ''account'', ''instance'', ''runtime''}
      then (Inl (ValueError ''scope_type must be global, account, instance or runtime''), st)
      else if identifier = [] then (Inl (ValueError ''scope_id is required''), st)
      else (Inr (scope, identifier), st\<lparr>st_blocks := dict_set (scope, identifier)
        \<lparr>bl_active = active, bl_reason = reason, bl_updated_at = now\<rparr> (st_blocks st)\<rparr>))"

subsection \<open>Writers\<close>

definition active_live_writer :: "(string \<Rightarrow> string) \<Rightarrow> string \<Rightarrow> store \<Rightarrow> (string \<times> runtime_row) option" where
  "active_live_writer sha account_id st =
     (let identity = account_identity_hash sha account_id in
      if identity = [] then None
      else find (\<lambda>(_, r). rt_account_id r = identity \<and> rt_run_mode r = ''live'' \<and> rt_binding_active r) (st_runtimes st))"

definition active_external_writer ::
  "(string \<Rightarrow> string) \<Rightarrow> string \<Rightarrow> string \<Rightarrow> string \<Rightarrow> string \<Rightarrow> store \<Rightarrow> (string \<times> runtime_row) option" where
  "active_external_writer sha execution_environment trade_provider account_id account_profile st =
     (let environment = str_lower (str_strip execution_environment);
          provider = str_lower (str_strip trade_provider); by_account = (str_strip account_id \<noteq> []);
          identity = (if by_account then account_identity_hash sha account_id else str_strip account_profile) in
      if environment \<notin> {''broker_simulation'', ''live''} then None
      else if identity = [] then None
      else find (\<lambda>(_, r). rt_execution_environment r = environment \<and> rt_trade_provider r = provider \<and>
        (if by_account then rt_account_id r else rt_account_profile r) = identity \<and> rt_binding_active r) (st_runtimes st))"

subsection \<open>Runtime runs\<close>

definition get_runtime_run :: "string \<Rightarrow> store \<Rightarrow> exn + run_row" where
  "get_runtime_run run_id st = (case map_of (st_runs st) run_id of
     None \<Rightarrow> key_error (''unknown runtime run '' @ quoted run_id) | Some r \<Rightarrow> Inr r)"

definition start_run_write ::
  "string \<Rightarrow> string \<Rightarrow> string \<Rightarrow> string \<Rightarrow> string \<Rightarrow> string \<Rightarrow> (store, unit) op" where
  "start_run_write now run_id instance_id mode config_hash binding_hash st =
     (case map_of (st_specs st) instance_id of
        None \<Rightarrow> (key_error (''deployment is not configured for '' @ quoted instance_id), st)
      | Some p \<Rightarrow>
          if ds_config_hash (sr_spec p) \<noteq> config_hash \<or> ds_run_mode (sr_spec p) \<noteq> mode \<or>
             ds_binding_hash (sr_spec p) \<noteq> binding_hash
          then (Inl (RuntimeError ''deployment changed concurrently before runtime run start''), st)
          else
            let tbl = dict_set run_id \<lparr>rn_instance_id = instance_id, rn_run_mode = mode,
                  rn_config_hash = config_hash, rn_binding_hash = binding_hash, rn_status = ''running'',
                  rn_started_at = now, rn_ended_at = [], rn_trading_sessions = 0, rn_updated_at = now\<rparr> (st_runs st)
            in if map_of (st_runs st) run_id \<noteq> None \<or> \<not> unique_running tbl
               then (Inl (ValueError (''strategy instance '' @ quoted instance_id @ '' already has an active runtime run'')), st)
               else (Inr (), st\<lparr>st_runs := tbl\<rparr>))"

definition start_runtime_run ::
  "(string \<Rightarrow> string) \<Rightarrow> (json \<Rightarrow> string) \<Rightarrow> string \<Rightarrow> string \<Rightarrow> string \<Rightarrow> string \<Rightarrow> (store, run_row) op" where
  "start_runtime_run sha digest now run_id instance_id run_mode st = (case parse_mode run_mode of
     Inl e \<Rightarrow> (Inl e, st)
   | Inr m \<Rightarrow> (case get_instance digest instance_id st of
       Inl e \<Rightarrow> (Inl e, st)
     | Inr current \<Rightarrow> (case get_deployment_spec sha digest instance_id st of
         Inl e \<Rightarrow> (Inl e, st)
       | Inr (spec, stale) \<Rightarrow>
           if stale then (Inl (ValueError ''deployment is stale; configure it for the current strategy''), st)
           else if ds_run_mode (sr_spec spec) \<noteq> mode_value m
           then (Inl (ValueError (''deployment is configured for '' @ ds_run_mode (sr_spec spec) @ '', not '' @ mode_value m)), st)
           else (case start_run_write now run_id instance_id (mode_value m) (ir_config_hash current)
                        (ds_binding_hash (sr_spec spec)) st of
               (Inl e, st') \<Rightarrow> (Inl e, st')
             | (Inr _, st') \<Rightarrow> (get_runtime_run run_id st', st')))))"

text \<open>The newest running run of a binding.\<close>

definition running_run ::
  "string \<Rightarrow> string \<Rightarrow> string \<Rightarrow> string \<Rightarrow> store \<Rightarrow> (string \<times> run_row) option" where
  "running_run instance_id mode config_hash binding_hash st =
     (case rev (sort_key (\<lambda>(_, r). rn_started_at r) (filter (\<lambda>(_, r). rn_instance_id r = instance_id \<and> rn_run_mode r = mode \<and>
        rn_config_hash r = config_hash \<and> rn_binding_hash r = binding_hash \<and> rn_status r = ''running'') (st_runs st))) of
        [] \<Rightarrow> None | x # _ \<Rightarrow> Some x)"

definition get_active_runtime_run ::
  "(string \<Rightarrow> string) \<Rightarrow> (json \<Rightarrow> string) \<Rightarrow> string \<Rightarrow> string option \<Rightarrow> store \<Rightarrow> exn + (string \<times> run_row) option" where
  "get_active_runtime_run sha digest instance_id run_mode st = (case get_instance digest instance_id st of
     Inl e \<Rightarrow> Inl e
   | Inr current \<Rightarrow> (case get_deployment_spec sha digest instance_id st of
       Inl e \<Rightarrow> Inl e
     | Inr (spec, _) \<Rightarrow>
         (case (case run_mode of None \<Rightarrow> Inr (ds_run_mode (sr_spec spec)) | Some m \<Rightarrow> map_sum id mode_value (parse_mode m)) of
            Inl e \<Rightarrow> Inl e
          | Inr mode \<Rightarrow> Inr (running_run instance_id mode (ir_config_hash current) (ds_binding_hash (sr_spec spec)) st))))"

definition record_runtime_session ::
  "(string \<Rightarrow> string) \<Rightarrow> (json \<Rightarrow> string) \<Rightarrow> string \<Rightarrow> string \<Rightarrow> string \<Rightarrow> string \<Rightarrow> string \<Rightarrow> (store, bool) op" where
  "record_runtime_session sha digest now instance_id config_hash run_mode session st = (case parse_mode run_mode of
     Inl e \<Rightarrow> (Inl e, st)
   | Inr m \<Rightarrow> (case get_deployment_spec sha digest instance_id st of
       Inl e \<Rightarrow> (Inl e, st)
     | Inr (spec, _) \<Rightarrow> (case running_run instance_id (mode_value m) config_hash (ds_binding_hash (sr_spec spec)) st of
         None \<Rightarrow> (Inr False, st)
       | Some (run_id, r) \<Rightarrow>
           let row = (run_id, take 10 session); new = (row \<notin> set (st_sessions st));
               sessions = (if new then st_sessions st @ [row] else st_sessions st);
               count = int (length (filter (\<lambda>(i, _). i = run_id) sessions))
           in (Inr new, st\<lparr>st_sessions := sessions, st_runs := dict_set run_id
                 (r\<lparr>rn_trading_sessions := count, rn_updated_at := now\<rparr>) (st_runs st)\<rparr>))))"

end
