(* ===== verification/Store_Safety.thy ===== *)
theory Store_Safety
  imports Store
begin

section \<open>What the store guarantees\<close>

text \<open>
  The steps of the store are its transactions, whatever their arguments and in any interleaving.
  Every reachable store has unique keys, references that resolve, at most one running run per
  instance, and at most one active writer per external account.
\<close>

subsection \<open>Indexes\<close>

lemma index_of_simps [simp]:
  "index_of key c [] = []"
  "index_of key c (p # tbl) = (if c (snd p) then key (snd p) # index_of key c tbl else index_of key c tbl)"
  by (simp_all add: index_of_def case_prod_beta)

lemma index_of_member: "(k, r) \<in> set tbl \<Longrightarrow> c r \<Longrightarrow> key r \<in> set (index_of key c tbl)"
  by (induction tbl) auto

lemma index_of_idle:
  assumes "\<not> c r"
  shows "set (index_of key c (dict_set k r tbl)) \<subseteq> set (index_of key c tbl)"
    "distinct (index_of key c tbl) \<Longrightarrow> distinct (index_of key c (dict_set k r tbl))"
proof -
  show sub: "set (index_of key c (dict_set k r tbl)) \<subseteq> set (index_of key c tbl)" for tbl
    using assms by (induction tbl) auto
  show "distinct (index_of key c tbl) \<Longrightarrow> distinct (index_of key c (dict_set k r tbl))"
  proof (induction tbl)
    case (Cons p tbl)
    with assms subsetD [OF sub [of tbl]] show ?case by (auto split: if_splits)
  qed (simp add: assms)
qed

lemma index_of_same:
  assumes "map_of tbl k = Some r" "key r' = key r" "c r' = c r"
  shows "index_of key c (dict_set k r' tbl) = index_of key c tbl"
  using assms by (induction tbl) (auto split: if_splits)

lemma index_of_unique:
  assumes "distinct (index_of key c tbl)" "(i, a) \<in> set tbl" "(j, b) \<in> set tbl" "c a" "c b" "key a = key b"
  shows "(i, a) = (j, b)"
  using assms
proof (induction tbl)
  case (Cons p tbl)
  have "key b \<notin> set (index_of key c tbl)" if "p = (i, a) \<or> p = (j, b)"
    using that Cons.prems by auto
  with Cons index_of_member [of _ _ tbl c key] show ?case by (auto split: if_splits) metis+
qed simp

lemma index_of_map_idle:
  assumes "\<And>r. c (f r) \<Longrightarrow> c r \<and> key (f r) = key r"
  shows "distinct (index_of key c tbl) \<Longrightarrow> distinct (index_of key c (map (\<lambda>(i, r). (i, f r)) tbl))"
proof -
  have sub: "set (index_of key c (map (\<lambda>(i, r). (i, f r)) tbl)) \<subseteq> set (index_of key c tbl)" for tbl
    using assms by (induction tbl) auto
  show "distinct (index_of key c tbl) \<Longrightarrow> distinct (index_of key c (map (\<lambda>(i, r). (i, f r)) tbl))"
  proof (induction tbl)
    case (Cons p tbl)
    with assms subsetD [OF sub [of tbl]] show ?case by (cases p) (auto split: if_splits)
  qed simp
qed

lemma unique_writers_idle: "\<not> rt_binding_active r \<Longrightarrow> unique_writers tbl \<Longrightarrow> unique_writers (dict_set k r tbl)"
  by (simp add: unique_writers_def index_of_idle(2) in_account_index_def in_profile_index_def)

lemma unique_writers_same:
  assumes "map_of tbl k = Some r" "account_index r' = account_index r" "profile_index r' = profile_index r"
    "rt_binding_active r' = rt_binding_active r"
  shows "unique_writers (dict_set k r' tbl) = unique_writers tbl"
  using assms
  by (simp add: unique_writers_def index_of_same [OF assms(1)] in_account_index_def in_profile_index_def
      account_index_def profile_index_def)

subsection \<open>The invariant\<close>

definition store_ok :: "store \<Rightarrow> bool" where
  "store_ok st \<longleftrightarrow> dict_ok (st_instances st) \<and> dict_ok (st_specs st) \<and> dict_ok (st_runtimes st) \<and>
     dict_ok (st_blocks st) \<and> dict_ok (st_runs st) \<and> distinct (st_sessions st) \<and>
     fst ` set (st_runtimes st) = fst ` set (st_specs st) \<and> fst ` set (st_specs st) \<subseteq> fst ` set (st_instances st) \<and>
     unique_writers (st_runtimes st) \<and> unique_running (st_runs st) \<and>
     list_all (\<lambda>(k, row). ds_instance_id (sr_spec row) = k) (st_specs st)"

text \<open>A step carries the route block that \<open>set_route_block\<close> sets, if it is one.\<close>

inductive store_step :: "(string \<Rightarrow> string) \<Rightarrow> (json \<Rightarrow> string) \<Rightarrow> (string \<times> string) option \<Rightarrow> store \<Rightarrow> store \<Rightarrow> bool"
  for sha digest where
  step_create: "store_step sha digest None st (snd (create_instance digest now c st))"
| step_validate: "store_step sha digest None st (snd (set_validation_state digest now i state st))"
| step_configure: "store_step sha digest None st (snd (configure_write now d st))"
| step_update: "store_step sha digest None st (snd (update_write now i current c st))"
| step_runtime: "store_step sha digest None st (snd (update_runtime_state sha now i version changes st))"
| step_transition: "store_step sha digest None st (snd (transition_runtime sha now i lifecycle version changes st))"
| step_heartbeat: "store_step sha digest None st (snd (record_runtime_heartbeat now i ch rid at_text observed st))"
| step_block: "store_step sha digest (Some (str_lower (str_strip scope), block_identifier sha (str_lower (str_strip scope)) scope_id))
    st (snd (set_route_block sha now scope scope_id active reason st))"
| step_run: "store_step sha digest None st (snd (start_run_write now rid i mode ch bh st))"
| step_session: "store_step sha digest None st (snd (record_runtime_session sha digest now i ch mode session st))"

inductive reachable_store :: "(string \<Rightarrow> string) \<Rightarrow> (json \<Rightarrow> string) \<Rightarrow> store \<Rightarrow> bool" for sha digest where
  reach_empty: "reachable_store sha digest empty_store"
| reach_step: "reachable_store sha digest st \<Longrightarrow> store_step sha digest t st st' \<Longrightarrow> reachable_store sha digest st'"

text \<open>Any steps, none of which sets the block \<open>key\<close>.\<close>

inductive untouched_run ::
  "(string \<Rightarrow> string) \<Rightarrow> (json \<Rightarrow> string) \<Rightarrow> string \<times> string \<Rightarrow> store \<Rightarrow> store \<Rightarrow> bool" for sha digest key st where
  untouched_none: "untouched_run sha digest key st st"
| untouched_step: "untouched_run sha digest key st st1 \<Longrightarrow> store_step sha digest t st1 st2 \<Longrightarrow> t \<noteq> Some key \<Longrightarrow>
    untouched_run sha digest key st st2"

lemma dict_set_keys: "fst ` set (dict_set k v d) = insert k (fst ` set d)"
  by (simp add: AList.dom_update)

lemma map_of_key: "map_of d k = Some v \<Longrightarrow> k \<in> fst ` set d"
  by (metis domI dom_map_of_conv_image_fst)

lemma create_instance_ok: "store_ok st \<Longrightarrow> store_ok (snd (create_instance digest now c st))"
  by (auto simp: create_instance_def store_ok_def dict_set_keys Let_def)

lemma set_validation_state_ok: "store_ok st \<Longrightarrow> store_ok (snd (set_validation_state digest now i state st))"
  by (auto simp: set_validation_state_def store_ok_def dict_set_keys Let_def split: option.split)

lemma list_all_set_row: "list_all (\<lambda>(k, v). P k v) d \<Longrightarrow> P k v \<Longrightarrow> list_all (\<lambda>(k, v). P k v) (dict_set k v d)"
  by (induction d) auto

lemma write_deployment_ok:
  assumes "store_ok st" "map_of (st_instances st) (ds_instance_id d) = Some inst"
  shows "store_ok (write_deployment now d version st)"
  using assms map_of_key [OF assms(2)]
  by (auto simp: write_deployment_def store_ok_def dict_set_keys fresh_runtime_def lift_block_def Let_def
      intro!: unique_writers_idle list_all_set_row split: option.split)

lemma configure_write_ok: "store_ok st \<Longrightarrow> store_ok (snd (configure_write now d st))"
  by (simp add: configure_write_def write_deployment_ok Let_def split: option.split)

lemma map_values_keys: "fst \<circ> (\<lambda>(i, r). (i, f r)) = fst"
  by auto

lemma invalidate_run_ok: "unique_running runs \<Longrightarrow> unique_running (map (\<lambda>(i, r). (i, invalidate_run now k r)) runs)"
  unfolding unique_running_def
  by (rule index_of_map_idle) (auto simp: run_running_def invalidate_run_def split: if_splits)

lemma revoke_deployment_ok:
  assumes "store_ok st"
  shows "store_ok (revoke_deployment now k st)"
proof -
  have "unique_writers (dict_set k (revoked_runtime now r) (st_runtimes st))" for r
    using assms by (intro unique_writers_idle) (simp_all add: revoked_runtime_def store_ok_def)
  with assms map_of_key [of "st_runtimes st" k] show ?thesis
    unfolding store_ok_def revoke_deployment_def
    by (simp add: dict_set_keys invalidate_run_ok map_values_keys insert_absorb del: map_of_eq_Some_iff split: option.split)
qed

lemma update_write_ok:
  assumes "store_ok st"
  shows "store_ok (snd (update_write now k current c st))"
proof (cases "map_of (st_instances st) k")
  case (Some row)
  have "store_ok (st\<lparr>st_instances := dict_set k r (st_instances st)\<rparr>)" for r
    using assms by (auto simp: store_ok_def dict_set_keys)
  with Some assms show ?thesis by (simp add: update_write_def revoke_deployment_ok Let_def)
qed (simp add: update_write_def assms)

lemma runtime_row_ok:
  assumes "store_ok st" "map_of (st_runtimes st) i = Some row" "unique_writers (dict_set i row' (st_runtimes st))"
  shows "store_ok (st\<lparr>st_runtimes := dict_set i row' (st_runtimes st)\<rparr>)"
proof -
  have "insert i (fst ` set (st_runtimes st)) = fst ` set (st_runtimes st)"
    using map_of_key [OF assms(2)] by (rule insert_absorb)
  with assms(1,3) show ?thesis by (simp add: store_ok_def dict_set_keys)
qed

lemma write_runtime_ok: "store_ok st \<Longrightarrow> store_ok (snd (write_runtime sha now i version changes st))"
  by (simp add: write_runtime_def runtime_row_ok Let_def del: map_of_eq_Some_iff split: option.split)

lemma heartbeat_ok:
  assumes "store_ok st"
  shows "store_ok (snd (record_runtime_heartbeat now i ch rid at_text observed st))"
proof -
  have "unique_writers (dict_set i (row\<lparr>rt_runner_heartbeat_at := at_text, rt_observed_state := o', rt_version := v,
      rt_updated_at := now\<rparr>) (st_runtimes st))" if "map_of (st_runtimes st) i = Some row" for row o' v
    using assms unique_writers_same [OF that]
    by (simp add: store_ok_def account_index_def profile_index_def)
  with assms show ?thesis
    by (simp add: record_runtime_heartbeat_def runtime_row_ok del: map_of_eq_Some_iff split: option.split sum.split)
qed

lemma set_route_block_ok: "store_ok st \<Longrightarrow> store_ok (snd (set_route_block sha now scope scope_id active reason st))"
  by (simp add: set_route_block_def store_ok_def Let_def del: insert_iff)

lemma start_run_ok: "store_ok st \<Longrightarrow> store_ok (snd (start_run_write now rid i mode ch bh st))"
  by (simp add: start_run_write_def store_ok_def Let_def split: option.split)

lemma running_run_row:
  assumes "running_run i mode ch bh st = Some (rid, r)"
  shows "(rid, r) \<in> set (st_runs st) \<and> run_running r"
proof -
  define xs where "xs = sort_key (\<lambda>(_, r). rn_started_at r) (filter (\<lambda>(_, r). rn_instance_id r = i \<and>
      rn_run_mode r = mode \<and> rn_config_hash r = ch \<and> rn_binding_hash r = bh \<and> rn_status r = ''running'') (st_runs st))"
  have "(case rev xs of [] \<Rightarrow> None | x # _ \<Rightarrow> Some x) = Some (rid, r)"
    using assms by (simp only: running_run_def xs_def)
  then have "(rid, r) \<in> set (rev xs)" by (cases "rev xs") (simp_all only: list.case option.inject option.distinct list.set_intros)
  then have "(rid, r) \<in> set xs" by (simp only: set_rev)
  then show ?thesis by (simp add: xs_def run_running_def)
qed

lemma session_write_ok:
  assumes "store_ok st" "running_run i mode ch bh st = Some (rid, r)" "distinct sessions"
  shows "store_ok (st\<lparr>st_sessions := sessions,
    st_runs := dict_set rid (r\<lparr>rn_trading_sessions := n, rn_updated_at := now\<rparr>) (st_runs st)\<rparr>)"
proof -
  have "map_of (st_runs st) rid = Some r" using running_run_row [OF assms(2)] assms(1) by (simp add: store_ok_def)
  from index_of_same [OF this, of rn_instance_id "r\<lparr>rn_trading_sessions := n, rn_updated_at := now\<rparr>" run_running] assms(1,3)
  show ?thesis by (simp add: store_ok_def unique_running_def run_running_def)
qed

lemma record_session_ok:
  assumes "store_ok st"
  shows "store_ok (snd (record_runtime_session sha digest now i ch mode session st))"
proof -
  have "distinct (st_sessions st)" using assms by (simp add: store_ok_def)
  with assms show ?thesis
    by (simp add: record_runtime_session_def session_write_ok Let_def split: sum.split option.split prod.split)
qed

theorem store_step_ok: "store_step sha digest t st st' \<Longrightarrow> store_ok st \<Longrightarrow> store_ok st'"
  by (induction rule: store_step.induct)
    (simp_all add: create_instance_ok set_validation_state_ok configure_write_ok update_write_ok
      update_runtime_state_def transition_runtime_def write_runtime_ok heartbeat_ok set_route_block_ok
      start_run_ok record_session_ok Let_def split: sum.split)

theorem reachable_store_ok: "reachable_store sha digest st \<Longrightarrow> store_ok st"
proof (induction rule: reachable_store.induct)
  case reach_empty
  show ?case by (simp add: empty_store_def store_ok_def unique_writers_def unique_running_def)
qed (rule store_step_ok)

subsection \<open>Blocks stay\<close>

lemma write_runtime_blocks [simp]: "st_blocks (snd (write_runtime sha now i version changes st)) = st_blocks st"
  by (simp add: write_runtime_def Let_def split: option.split)

lemma lift_block_other: "k \<noteq> k' \<Longrightarrow> map_of (lift_block now k blocks) k' = map_of blocks k'"
  by (auto simp: lift_block_def AList.update_conv' split: option.split)

lemma set_route_block_other:
  "key \<noteq> (str_lower (str_strip scope), block_identifier sha (str_lower (str_strip scope)) scope_id) \<Longrightarrow>
   map_of (st_blocks (snd (set_route_block sha now scope scope_id active reason st))) key = map_of (st_blocks st) key"
  by (simp add: set_route_block_def AList.update_conv' Let_def del: insert_iff)

lemma store_step_blocks:
  assumes "store_step sha digest t st st'" "t \<noteq> Some key" "fst key \<noteq> ''runtime''"
  shows "map_of (st_blocks st') key = map_of (st_blocks st) key"
  using assms
proof (induction rule: store_step.induct)
  case (step_configure st now d)
  then have "(''runtime'', ds_instance_id d) \<noteq> key" by (metis fst_conv)
  then show ?case
    by (simp add: configure_write_def write_deployment_def lift_block_other Let_def split: option.split)
next
  case (step_update st now i current c)
  then have "(''runtime'', i) \<noteq> key" by (metis fst_conv)
  then show ?case
    by (simp add: update_write_def revoke_deployment_def AList.update_conv' Let_def split: option.split)
next
  case (step_block scope scope_id st now active reason)
  then show ?case by (intro set_route_block_other) auto
qed (simp_all add: create_instance_def set_validation_state_def update_runtime_state_def transition_runtime_def
    record_runtime_heartbeat_def start_run_write_def record_runtime_session_def Let_def
    split: option.split sum.split prod.split)

lemma untouched_block:
  assumes "untouched_run sha digest key st st'" "fst key \<noteq> ''runtime''"
  shows "map_of (st_blocks st') key = map_of (st_blocks st) key"
  using assms(1) by induction (simp_all add: store_step_blocks assms(2))

lemma untouched_reachable:
  assumes "untouched_run sha digest key st st'" "reachable_store sha digest st"
  shows "reachable_store sha digest st'"
  using assms(1) by induction (auto intro: assms(2) reach_step)

end
