(* ===== verification/Authorization.thy ===== *)
theory Authorization
  imports Store_Safety Live_Types
begin

section \<open>Authorization of automated routes\<close>

text \<open>
  \<open>systems/trading/authorization.py\<close>: an automated order is let through only when the persisted
  deployment, the runtime row, the writer lock, the route blocks and the heartbeat all agree with the
  context it comes with.  \<open>fromisoformat\<close> is Python's parser of ISO timestamps (\<open>None\<close> for a
  \<open>ValueError\<close>), \<open>environ\<close> the process environment.
\<close>

datatype route_origin = ORIGIN_MANUAL | ORIGIN_AUTOMATED | ORIGIN_BROKER_UAT

record route_context =
  rc_origin :: route_origin
  rc_instance_id :: string
  rc_config_hash :: string
  rc_account_id :: string
  rc_broker :: string
  rc_run_mode :: string
  rc_runtime_id :: string
  rc_execution_environment :: string
  rc_trade_provider :: string
  rc_quote_provider :: string
  rc_quote_data_kind :: string
  rc_binding_hash :: string

record route_authorization =
  ra_allowed :: bool
  ra_rule :: string
  ra_reason :: string

definition deny :: "string \<Rightarrow> string \<Rightarrow> route_authorization" where
  "deny rule reason = \<lparr>ra_allowed = False, ra_rule = rule, ra_reason = reason\<rparr>"

definition missing_bindings :: "route_context \<Rightarrow> string list" where
  "missing_bindings c = map fst (filter (\<lambda>(_, v). str_strip v = [])
     [(''instance_id'', rc_instance_id c), (''config_hash'', rc_config_hash c), (''account_id'', rc_account_id c),
      (''broker'', rc_broker c), (''run_mode'', rc_run_mode c), (''runtime_id'', rc_runtime_id c),
      (''binding_hash'', rc_binding_hash c)])"

definition replace_z :: "string \<Rightarrow> string" where
  "replace_z s = concat (map (\<lambda>c. if c = CHR ''Z'' then ''+00:00'' else [c]) s)"

text \<open>\<open>_parse_timestamp\<close>, in UTC; a naive time is refused.\<close>

definition parse_timestamp :: "(string \<Rightarrow> stamp option) \<Rightarrow> string \<Rightarrow> datetime option" where
  "parse_timestamp fromisoformat value =
     (if value = [] then None
      else case fromisoformat (replace_z value) of
        Some (Aware t offset) \<Rightarrow> Some (t - offset) | _ \<Rightarrow> None)"

fun utc_time :: "stamp \<Rightarrow> datetime" where
  "utc_time (Naive t) = t"
| "utc_time (Aware t offset) = t - offset"

definition heartbeat_age :: "stamp \<Rightarrow> datetime \<Rightarrow> num" where
  "heartbeat_age now heartbeat = max (of_int (utc_time now - heartbeat) / 1000000) 0"

definition route_block_summary :: "(string \<Rightarrow> string) \<Rightarrow> ((string \<times> string) \<times> block_row) list \<Rightarrow> string" where
  "route_block_summary sha blocks = join_text '', '' (map (\<lambda>((scope_type, scope_id), _).
     if or_text scope_type ''unknown'' = ''global'' then ''global:*''
     else or_text scope_type ''unknown'' @ '':sha256:'' @ take 12 (sha scope_id)) blocks)"

definition automated_live_enabled :: "(string \<times> string) list \<Rightarrow> bool" where
  "automated_live_enabled environ \<longleftrightarrow>
     str_lower (str_strip (case map_of environ ''ALPHAPILOT_AUTOMATED_LIVE_ENABLED'' of Some v \<Rightarrow> v | None \<Rightarrow> []))
       \<in> {''1'', ''true'', ''yes'', ''on''}"

text \<open>The checks in order: a condition under which the route is denied, the rule and the reason.\<close>

type_synonym denial = "bool \<times> string \<times> string"

definition field_checks :: "string \<Rightarrow> string \<Rightarrow> string \<Rightarrow> string \<Rightarrow> denial list" where
  "field_checks name expected observed routed =
     [(str_lower observed \<noteq> str_lower expected, ''runtime_'' @ name, ''runtime '' @ name @ '' does not match deployment''),
      (str_lower routed \<noteq> str_lower expected, name @ ''_binding'', name @ '' does not match deployment authorization'')]"

definition external_environment :: "string \<Rightarrow> bool" where
  "external_environment environment \<longleftrightarrow> environment \<in> {''live'', ''broker_simulation''}"

definition binding_checks ::
  "(string \<Rightarrow> string) \<Rightarrow> (string \<times> string) list \<Rightarrow> route_context \<Rightarrow> instance_row \<Rightarrow> deployment_spec \<times> bool \<Rightarrow> runtime_row \<Rightarrow>
   denial list" where
  "binding_checks sha environ c inst dep r = (case dep of (d, stale) \<Rightarrow>
     [(ir_validation_state inst \<noteq> ''validated'', ''validation_state'', ''strategy instance is not validated''),
      (stale, ''stale_deployment'', ''deployment is bound to an old config_hash''),
      (ir_config_hash inst \<noteq> rc_config_hash c \<or> ds_config_hash d \<noteq> rc_config_hash c \<or> rt_config_hash r \<noteq> rc_config_hash c,
       ''config_hash'', ''route uses a stale or mismatched config_hash''),
      (ds_run_mode d \<noteq> rc_run_mode c \<or> rt_run_mode r \<noteq> rc_run_mode c, ''run_mode'',
       ''deployment run mode does not match route''),
      (rc_run_mode c = ''shadow'', ''shadow_no_route'', ''SHADOW deployments never route orders''),
      (rc_run_mode c \<notin> {''paper'', ''simulation'', ''live''}, ''routing_disabled'', rc_run_mode c @ '' cannot route orders''),
      (rc_run_mode c = ''live'' \<and> \<not> account_identities_match sha (ds_account_id d) (rt_account_id r),
       ''deployment_account_binding'', ''runtime account_id does not match the configured LIVE deployment''),
      (rc_run_mode c = ''live'' \<and> \<not> automated_live_enabled environ, ''live_disabled'',
       ''automated LIVE is disabled by environment'')] @
     field_checks ''execution_environment'' (ds_execution_environment d) (rt_execution_environment r) (rc_execution_environment c) @
     field_checks ''trade_provider'' (ds_trade_provider d) (rt_trade_provider r) (rc_trade_provider c) @
     field_checks ''quote_provider'' (ds_quote_provider d) (rt_quote_provider r) (rc_quote_provider c) @
     field_checks ''quote_data_kind'' (ds_quote_data_kind d) (rt_quote_data_kind r) (rc_quote_data_kind c) @
     field_checks ''binding_hash'' (ds_binding_hash d) (rt_binding_hash r) (rc_binding_hash c) @
     [(rt_account_profile r \<noteq> ds_account_profile d, ''runtime_account_profile'',
       ''runtime account_profile does not match the configured deployment'')])"

definition writer_is :: "(string \<Rightarrow> string) \<Rightarrow> route_context \<Rightarrow> runtime_row \<Rightarrow> store \<Rightarrow> bool" where
  "writer_is sha c r st =
     (case active_external_writer sha (rt_execution_environment r) (or_text (rt_trade_provider r) (rc_broker c))
             (rt_account_id r) (rt_account_profile r) st of
        None \<Rightarrow> False | Some (k, _) \<Rightarrow> k = rc_instance_id c)"

definition account_checks ::
  "(string \<Rightarrow> string) \<Rightarrow> route_context \<Rightarrow> runtime_row \<Rightarrow> store \<Rightarrow> denial list" where
  "account_checks sha c r st =
     (let environment = rt_execution_environment r; external = external_environment environment in
     [(external \<and> \<not> rt_reconciled r, ''not_reconciled'', ''external account truth has not been reconciled''),
      (\<not> account_identities_match sha (rt_account_id r) (rc_account_id c), ''account_binding'',
       ''account_id does not match deployment authorization''),
      (str_lower (rt_trade_provider r) \<noteq> str_lower (rc_broker c), ''broker_binding'',
       ''broker does not match deployment authorization''),
      (rt_runtime_id r \<noteq> rc_runtime_id c, ''runtime_binding'', ''runtime_id does not match the observed daemon''),
      (external \<and> \<not> rt_binding_active r, ''writer_revoked'', ''external automated-writer binding is not active''),
      (external \<and> \<not> writer_is sha c r st, ''single_writer'',
       ''external account writer lock is missing or owned elsewhere''),
      (rt_reconcile_required r, ''reconcile_required'', ''deployment must reconcile before routing''),
      (rt_desired_state r \<noteq> ''running'' \<or> rt_observed_state r \<noteq> ''running'', ''lifecycle'',
       ''deployment is '' @ rt_desired_state r @ ''/'' @ rt_observed_state r @ '', not running'')])"

definition block_checks :: "(string \<Rightarrow> string) \<Rightarrow> route_context \<Rightarrow> runtime_row \<Rightarrow> store \<Rightarrow> denial list" where
  "block_checks sha c r st =
     (let blocks = active_route_blocks sha (rc_instance_id c) (or_text (rt_account_id r) (rc_account_id c)) st
      in [(blocks \<noteq> [], ''kill_switch'', ''route blocked by '' @ route_block_summary sha blocks)])"

definition heartbeat_checks :: "(string \<Rightarrow> stamp option) \<Rightarrow> num \<Rightarrow> stamp \<Rightarrow> runtime_row \<Rightarrow> denial list" where
  "heartbeat_checks fromisoformat ttl now r =
     (case parse_timestamp fromisoformat (rt_runner_heartbeat_at r) of
        None \<Rightarrow> [(True, ''heartbeat_missing'', ''runner heartbeat is missing'')]
      | Some heartbeat \<Rightarrow> let age = heartbeat_age now heartbeat in
          [(age > ttl, ''heartbeat_stale'', ''runner heartbeat age '' @ fixed_text 1 age @ ''s exceeds '' @
              fixed_text 1 ttl @ ''s'')])"

fun first_denial :: "denial list \<Rightarrow> route_authorization" where
  "first_denial [] = \<lparr>ra_allowed = True, ra_rule = ''authorized'',
     ra_reason = ''deployment binding and runtime state match''\<rparr>"
| "first_denial ((True, rule, reason) # _) = deny rule reason"
| "first_denial ((False, _, _) # rest) = first_denial rest"

text \<open>The exceptions that the authorizer turns into a denial, and their text.\<close>

fun caught :: "exn \<Rightarrow> bool" where
  "caught (PyError cls _) = (cls = ''KeyError'')"
| "caught (GatewayError _) = False"
| "caught _ = True"

fun caught_text :: "exn \<Rightarrow> string" where
  "caught_text (PyError _ m) = CHR 0x22 # m @ [CHR 0x22]"
| "caught_text e = exn_message e"

definition read_state ::
  "(string \<Rightarrow> string) \<Rightarrow> (json \<Rightarrow> string) \<Rightarrow> string \<Rightarrow> store \<Rightarrow> exn + instance_row \<times> (spec_row \<times> bool) \<times> runtime_row" where
  "read_state sha digest instance_id st = (case get_instance digest instance_id st of
     Inl e \<Rightarrow> Inl e
   | Inr inst \<Rightarrow> (case get_deployment_spec sha digest instance_id st of
       Inl e \<Rightarrow> Inl e
     | Inr dep \<Rightarrow> (case get_runtime_state instance_id st of Inl e \<Rightarrow> Inl e | Inr r \<Rightarrow> Inr (inst, dep, r))))"

definition authorize ::
  "(string \<Rightarrow> string) \<Rightarrow> (json \<Rightarrow> string) \<Rightarrow> (string \<Rightarrow> stamp option) \<Rightarrow> num \<Rightarrow> (string \<times> string) list \<Rightarrow> stamp \<Rightarrow> store \<Rightarrow>
   route_context \<Rightarrow> exn + route_authorization" where
  "authorize sha digest fromisoformat heartbeat_ttl_seconds environ now st c =
     (if rc_origin c \<noteq> ORIGIN_AUTOMATED
      then Inr (deny ''invalid_origin'' ''automated authorizer only accepts automated routes'')
      else if missing_bindings c \<noteq> []
      then Inr (deny ''missing_binding'' (''missing route binding: '' @ join_text '', '' (missing_bindings c)))
      else case read_state sha digest (rc_instance_id c) st of
        Inl e \<Rightarrow> if caught e then Inr (deny ''state_unavailable'' (caught_text e)) else Inl e
      | Inr (inst, (spec, stale), r) \<Rightarrow> Inr (first_denial
          (binding_checks sha environ c inst (sr_spec spec, stale) r @ account_checks sha c r st @ block_checks sha c r st @
           heartbeat_checks fromisoformat (max heartbeat_ttl_seconds (1/10)) now r)))"

subsection \<open>What an authorization means\<close>

definition clear :: "denial list \<Rightarrow> bool" where
  "clear ds \<longleftrightarrow> (\<forall>(b, _) \<in> set ds. \<not> b)"

lemma clear_simps [simp]:
  "clear []" "clear ((b, x) # ds) \<longleftrightarrow> \<not> b \<and> clear ds" "clear (ds @ ds') \<longleftrightarrow> clear ds \<and> clear ds'"
  by (auto simp: clear_def)

lemma first_denial_allowed: "ra_allowed (first_denial ds) \<longleftrightarrow> clear ds"
  by (induction ds rule: first_denial.induct) (auto simp: deny_def)

lemma read_state_caught: "read_state sha digest i st = Inl e \<Longrightarrow> caught e"
  by (auto simp: read_state_def get_instance_def get_deployment_spec_def get_runtime_state_def key_error_def
      read_instance_def read_spec_def split: option.splits sum.splits if_splits)

lemma authorize_total: "\<exists>a. authorize sha digest fromiso ttl environ now st c = Inr a"
  using read_state_caught [of sha digest "rc_instance_id c" st]
  by (auto simp: authorize_def split: sum.split prod.split)

lemma authorize_allowed:
  assumes "authorize sha digest fromiso ttl environ now st c = Inr a" "ra_allowed a"
  obtains inst spec stale r where "rc_origin c = ORIGIN_AUTOMATED" "missing_bindings c = []"
    "get_instance digest (rc_instance_id c) st = Inr inst"
    "get_deployment_spec sha digest (rc_instance_id c) st = Inr (spec, stale)"
    "map_of (st_runtimes st) (rc_instance_id c) = Some r"
    "clear (binding_checks sha environ c inst (sr_spec spec, stale) r)"
    "clear (account_checks sha c r st)" "clear (block_checks sha c r st)"
    "clear (heartbeat_checks fromiso (max ttl (1/10)) now r)"
proof -
  from assms have c: "rc_origin c = ORIGIN_AUTOMATED" "missing_bindings c = []"
    by (auto simp: authorize_def deny_def split: if_splits)
  with assms obtain inst spec stale r where rs: "read_state sha digest (rc_instance_id c) st = Inr (inst, (spec, stale), r)"
    by (auto simp: authorize_def deny_def split: sum.splits if_splits)
  with c assms have "ra_allowed (first_denial
      (binding_checks sha environ c inst (sr_spec spec, stale) r @ account_checks sha c r st @ block_checks sha c r st @
       heartbeat_checks fromiso (max ttl (1/10)) now r))"
    by (simp add: authorize_def)
  then have ok: "clear (binding_checks sha environ c inst (sr_spec spec, stale) r)"
    "clear (account_checks sha c r st)" "clear (block_checks sha c r st)"
    "clear (heartbeat_checks fromiso (max ttl (1/10)) now r)"
    by (simp_all only: first_denial_allowed clear_simps)
  from rs have "get_instance digest (rc_instance_id c) st = Inr inst"
    "get_deployment_spec sha digest (rc_instance_id c) st = Inr (spec, stale)"
    "map_of (st_runtimes st) (rc_instance_id c) = Some r"
    by (auto simp: read_state_def get_runtime_state_def key_error_def simp del: map_of_eq_Some_iff split: sum.splits option.splits)
  with c ok show thesis by (rule_tac that)
qed

lemma binding_checks_pass:
  assumes "clear (binding_checks sha environ c inst (d, stale) r)"
  shows "ir_validation_state inst = ''validated''" "\<not> stale" "ir_config_hash inst = rc_config_hash c"
    "ds_config_hash d = rc_config_hash c" "rt_config_hash r = rc_config_hash c" "ds_run_mode d = rc_run_mode c"
    "rt_run_mode r = rc_run_mode c" "rc_run_mode c \<in> {''paper'', ''simulation'', ''live''}"
    "rc_run_mode c = ''live'' \<Longrightarrow> account_identities_match sha (ds_account_id d) (rt_account_id r) \<and> automated_live_enabled environ"
    "str_lower (rt_execution_environment r) = str_lower (rc_execution_environment c)"
    "str_lower (rt_binding_hash r) = str_lower (rc_binding_hash c)"
    "rt_account_profile r = ds_account_profile d"
  using assms by (simp_all add: binding_checks_def field_checks_def del: insert_iff)

lemma account_checks_pass:
  assumes "clear (account_checks sha c r st)"
  shows "account_identities_match sha (rt_account_id r) (rc_account_id c)"
    "str_lower (rt_trade_provider r) = str_lower (rc_broker c)" "rt_runtime_id r = rc_runtime_id c"
    "\<not> rt_reconcile_required r" "rt_desired_state r = ''running''" "rt_observed_state r = ''running''"
    "external_environment (rt_execution_environment r) \<Longrightarrow> rt_reconciled r \<and> rt_binding_active r \<and> writer_is sha c r st"
  using assms by (simp_all add: account_checks_def Let_def)

lemma block_checks_pass:
  assumes "clear (block_checks sha c r st)" "rt_account_id r \<noteq> []"
    "map_of (st_blocks st) key = Some b" "bl_active b"
    "key = (''global'', ''*'') \<or> key = (''instance'', rc_instance_id c) \<or> key = (''runtime'', rc_instance_id c) \<or>
     key = (''account'', rt_account_id r)"
  shows False
proof -
  have applies: "block_applies sha (rc_instance_id c) (rt_account_id r) key \<and> (fst key = ''global'' \<longrightarrow> snd key = ''*'')"
    using assms(5) by (elim disjE) (simp_all add: block_applies_def)
  let ?P = "\<lambda>(k, b). bl_active b \<and> block_applies sha (rc_instance_id c) (rt_account_id r) k \<and>
      (fst k = ''global'' \<longrightarrow> snd k = ''*'')"
  have "?P (key, b)" unfolding prod.case using assms(4) applies by (rule conjI)
  with map_of_SomeD [OF assms(3)] have "(key, b) \<in> set (filter ?P (st_blocks st))"
    unfolding set_filter mem_Collect_eq by (rule conjI)
  then have member: "(key, b) \<in> set (active_route_blocks sha (rc_instance_id c) (rt_account_id r) st)"
    by (simp only: active_route_blocks_def set_sort)
  have "active_route_blocks sha (rc_instance_id c) (rt_account_id r) st \<noteq> []"
  proof
    assume "active_route_blocks sha (rc_instance_id c) (rt_account_id r) st = []"
    with member show False by (simp only: list.set empty_iff)
  qed
  then have "\<not> clear (block_checks sha c r st)"
    using assms(2) by (simp add: block_checks_def or_text_def Let_def)
  with assms(1) show False by simp
qed

lemma heartbeat_checks_pass:
  assumes "clear (heartbeat_checks fromiso ttl now r)"
  obtains hb where "parse_timestamp fromiso (rt_runner_heartbeat_at r) = Some hb" "heartbeat_age now hb \<le> ttl"
  using assms by (auto simp: heartbeat_checks_def Let_def split: option.splits)

subsection \<open>One writer per external account\<close>

text \<open>The row of an authorized external route is the one the unique index holds.\<close>

lemma authorized_writer_row:
  assumes "dict_ok (st_runtimes st)" "map_of (st_runtimes st) (rc_instance_id c) = Some r" "writer_is sha c r st"
    "rt_account_id r \<noteq> []" "account_identities_match sha (rt_account_id r) (rc_account_id c)"
    "str_lower (rt_trade_provider r) = str_lower (rc_broker c)" "rt_trade_provider r \<noteq> []"
  shows "in_account_index r" "rt_account_id r = account_identity_hash sha (rc_account_id c)"
    "rt_trade_provider r = str_lower (rc_broker c)"
proof -
  have acct: "str_strip (rt_account_id r) \<noteq> []"
    using assms(5) by (auto simp: account_identities_match_def account_identity_hash_Nil Let_def)
  from assms(3,7) obtain w where "active_external_writer sha (rt_execution_environment r) (rt_trade_provider r)
      (rt_account_id r) (rt_account_profile r) st = Some (rc_instance_id c, w)"
    by (auto simp: writer_is_def or_text_def split: option.splits)
  with acct have w: "(rc_instance_id c, w) \<in> set (st_runtimes st)" "rt_binding_active w"
    "rt_execution_environment w = str_lower (str_strip (rt_execution_environment r))"
    "rt_execution_environment w \<in> {''broker_simulation'', ''live''}"
    "rt_trade_provider w = str_lower (str_strip (rt_trade_provider r))"
    "rt_account_id w = account_identity_hash sha (rt_account_id r)"
    by (auto simp: active_external_writer_def find_Some_iff Let_def simp del: insert_iff split: if_splits dest: nth_mem)
  have "w = r" using assms(1,2) w(1) by simp
  moreover have "str_lower (rt_trade_provider w) = rt_trade_provider w" by (simp add: w(5) str_lower_again)
  moreover note assms(6)
  ultimately show "in_account_index r" "rt_account_id r = account_identity_hash sha (rc_account_id c)"
    "rt_trade_provider r = str_lower (rc_broker c)"
    using w(2,4,6) assms(4,5) by (auto simp: in_account_index_def account_identities_match_def Let_def)
qed

text \<open>Two routes allowed on one external account come from one instance.\<close>

lemma authorized_row:
  assumes "reachable_store sha digest st" "authorize sha digest fromiso ttl environ now st c = Inr a" "ra_allowed a"
    "map_of (st_runtimes st) (rc_instance_id c) = Some r" "external_environment (rt_execution_environment r)"
  shows "in_account_index r" "account_index r = (rt_execution_environment r, str_lower (rc_broker c),
    account_identity_hash sha (rc_account_id c))" "str_lower (rt_execution_environment r) = str_lower (rc_execution_environment c)"
proof -
  obtain inst spec stale r0 where all: "rc_origin c = ORIGIN_AUTOMATED" "missing_bindings c = []"
    "get_instance digest (rc_instance_id c) st = Inr inst"
    "get_deployment_spec sha digest (rc_instance_id c) st = Inr (spec, stale)"
    "map_of (st_runtimes st) (rc_instance_id c) = Some r0"
    "clear (binding_checks sha environ c inst (sr_spec spec, stale) r0)" "clear (account_checks sha c r0 st)"
    "clear (block_checks sha c r0 st)" "clear (heartbeat_checks fromiso (max ttl (1/10)) now r0)"
    by (rule authorize_allowed [OF assms(2,3)])
  have "r0 = r" using all(5) assms(4) by (simp only: option.inject)
  with all have ok: "missing_bindings c = []" "clear (binding_checks sha environ c inst (sr_spec spec, stale) r)"
    "clear (account_checks sha c r st)" by (simp_all only:)
  note acct = account_checks_pass [OF ok(3)]
  have keys: "dict_ok (st_runtimes st)" using reachable_store_ok [OF assms(1)] by (simp add: store_ok_def)
  have "str_strip (rc_broker c) \<noteq> []" using ok(1) by (auto simp: missing_bindings_def split: if_splits)
  then have "rc_broker c \<noteq> []" by (auto simp: str_strip_def)
  with acct(2) have provider: "rt_trade_provider r \<noteq> []" by (auto simp: str_lower_def)
  have account: "rt_account_id r \<noteq> []"
    using acct(1) by (auto simp: account_identities_match_def account_identity_hash_def str_strip_def Let_def)
  note row = authorized_writer_row [OF keys assms(4) _ account acct(1,2) provider]
  show "in_account_index r" "account_index r = (rt_execution_environment r, str_lower (rc_broker c),
      account_identity_hash sha (rc_account_id c))"
    using row acct(7) [OF assms(5)] by (simp_all add: account_index_def)
  show "str_lower (rt_execution_environment r) = str_lower (rc_execution_environment c)"
    by (rule binding_checks_pass(10) [OF ok(2)])
qed

lemma external_lower: "external_environment e \<Longrightarrow> str_lower e = e"
proof -
  have "str_lower ''live'' = ''live''" "str_lower ''broker_simulation'' = ''broker_simulation''" by code_simp+
  then show "external_environment e \<Longrightarrow> str_lower e = e" by (auto simp: external_environment_def)
qed

lemma authorized_same_account:
  assumes "reachable_store sha digest st"
    "authorize sha digest fromiso ttl environ now st c = Inr a" "ra_allowed a"
    "authorize sha digest fromiso' ttl' environ' now' st c' = Inr a'" "ra_allowed a'"
    "map_of (st_runtimes st) (rc_instance_id c) = Some r" "external_environment (rt_execution_environment r)"
    "map_of (st_runtimes st) (rc_instance_id c') = Some r'" "external_environment (rt_execution_environment r')"
    "str_lower (rc_execution_environment c) = str_lower (rc_execution_environment c')"
    "str_lower (rc_broker c) = str_lower (rc_broker c')"
    "account_identities_match sha (rc_account_id c) (rc_account_id c')"
  shows "rc_instance_id c = rc_instance_id c'"
proof -
  note a = authorized_row [OF assms(1-3,6,7)] and b = authorized_row [OF assms(1,4,5,8,9)]
  have "account_index r = account_index r'"
    using a(2,3) b(2,3) assms(10-12) external_lower [OF assms(7)] external_lower [OF assms(9)]
    by (simp add: account_identities_match_def Let_def)
  moreover have "distinct (index_of account_index in_account_index (st_runtimes st))"
    using reachable_store_ok [OF assms(1)] by (simp add: store_ok_def unique_writers_def)
  ultimately have "(rc_instance_id c, r) = (rc_instance_id c', r')"
    using index_of_unique [OF _ map_of_SomeD [OF assms(6)] map_of_SomeD [OF assms(8)] a(1) b(1)] by blast
  then show ?thesis by simp
qed

end
