(* ===== verification/Routing.thy ===== *)
theory Routing
  imports Engine_Safety Contracts Authorization
begin

section \<open>Automated routing\<close>

text \<open>
  \<open>systems/live/routing.py\<close>, the router that asks for an authorization before every child order, and
  \<open>systems/live/execution_adapter.py\<close>, which gives the execution coordinator its account snapshot,
  quotes, submissions, statuses, fills and cancels on the live engine.
\<close>

subsection \<open>The router\<close>

definition route_prefix :: "string \<Rightarrow> string \<Rightarrow> string" where
  "route_prefix instance_id config_hash = instance_id @ '':'' @ or_text config_hash ''-'' @ '':''"

type_synonym authorizer = "route_context \<Rightarrow> exn + route_authorization"

text \<open>The decision on a request; whatever the authorizer raises is a denial.\<close>

definition route_decision :: "authorizer option \<Rightarrow> route_context \<Rightarrow> order_request \<Rightarrow> route_authorization" where
  "route_decision auth c req =
     (if \<not> starts_with (route_prefix (rc_instance_id c) (rc_config_hash c)) (rq_reference req)
      then deny ''reference_binding'' ''automated child reference does not match instance_id/config_hash''
      else case auth of
        None \<Rightarrow> deny ''authorizer_missing'' ''automated routing is disabled because no authorizer is installed''
      | Some f \<Rightarrow> (case f c of
          Inl e \<Rightarrow> deny ''authorizer_error'' (exn_text e)
        | Inr d \<Rightarrow> d))"

definition record_block :: "order_request \<Rightarrow> route_authorization \<Rightarrow> 'g engine \<Rightarrow> 'g engine" where
  "record_block req d en = en\<lparr>en_ledger := record_event ''blocked''
     (JObj [(''origin'', JStr ''automated''), (''rule'', JStr (ra_rule d)), (''reason'', JStr (ra_reason d)),
            (''reference'', JStr (rq_reference req))])
     None None (Some (rq_reference req)) ''live'' (en_wall en) (en_ledger en)\<rparr>"

record 'g router =
  ro_engine :: "'g engine"
  ro_last_authorization :: "route_authorization option"

definition router_submit ::
  "'g gateway \<Rightarrow> authorizer option \<Rightarrow> route_context \<Rightarrow> order_request \<Rightarrow> ('g router, string option) op" where
  "router_submit gi auth c req ro =
     (let d = route_decision auth c req; ro1 = ro\<lparr>ro_last_authorization := Some d\<rparr> in
      if \<not> ra_allowed d
      then (Inr None, ro1\<lparr>ro_engine := record_block req d (ro_engine ro1)\<rparr>)
      else case submit gi req ''automated'' (ro_engine ro1) of
        (result, en') \<Rightarrow> (result, ro1\<lparr>ro_engine := en'\<rparr>))"

lemma route_decision_allowed:
  assumes "ra_allowed (route_decision auth c req)"
  obtains f d where "auth = Some f" "f c = Inr d" "ra_allowed d"
    "starts_with (route_prefix (rc_instance_id c) (rc_config_hash c)) (rq_reference req)"
  using assms by (auto simp: route_decision_def deny_def split: if_splits option.splits sum.splits)

text \<open>A denied order reaches neither the gate nor the broker: the ledger gains a line.\<close>

lemma router_denied:
  assumes "\<not> ra_allowed (route_decision auth c req)"
  shows "router_submit gi auth c req ro = (Inr None, ro\<lparr>ro_last_authorization := Some (route_decision auth c req),
    ro_engine := record_block req (route_decision auth c req) (ro_engine ro)\<rparr>)"
  using assms by (simp add: router_submit_def Let_def)

lemma record_block_frame:
  "record_block req d en = en\<lparr>en_ledger := en_ledger (record_block req d en)\<rparr>"
  "ledger_lines (en_ledger (record_block req d en)) day = ledger_lines (en_ledger en) day @
     (if day = day_of (en_wall en) then [event_to_dict (make_event ''blocked''
        (JObj [(''origin'', JStr ''automated''), (''rule'', JStr (ra_rule d)), (''reason'', JStr (ra_reason d)),
               (''reference'', JStr (rq_reference req))]) None None (Some (rq_reference req)) ''live'' (en_wall en))] else [])"
  by (simp_all add: record_block_def record_event_def ledger_lines_append_event)

lemma router_routed:
  assumes "fst (router_submit gi auth c req ro) = Inr (Some i)"
  shows "ra_allowed (route_decision auth c req)" "fst (submit gi req ''automated'' (ro_engine ro)) = Inr (Some i)"
  using assms by (auto simp: router_submit_def Let_def split: if_splits prod.splits)

subsection \<open>The execution adapter\<close>

definition adapter_snapshot ::
  "(stamp \<Rightarrow> string) \<Rightarrow> string \<Rightarrow> string \<Rightarrow> 'g engine \<Rightarrow> exn + account_snapshot" where
  "adapter_snapshot isoformat instance_id config_hash en =
     (case snapshot_from_oms (en_oms en) (isoformat (en_now en)) of
        Inl e \<Rightarrow> Inl e
      | Inr snap \<Rightarrow> Inr (snap\<lparr>as_external_orders := map (\<lambda>ord. or_text (od_reference ord) (od_id ord))
          (filter (\<lambda>ord. \<not> starts_with (route_prefix instance_id config_hash) (od_reference ord))
             (oms_get_active_orders (en_oms en)))\<rparr>))"

text \<open>A naive tick time is read in the clock's time zone; the age is then a difference.\<close>

definition tick_age :: "stamp \<Rightarrow> stamp \<Rightarrow> exn + num" where
  "tick_age now probe = (case (now, probe) of
     (Naive _, Aware _ _) \<Rightarrow> Inl (PyError ''TypeError'' ''can't subtract offset-naive and offset-aware datetimes'')
   | (Aware n u, Naive p) \<Rightarrow> Inr (max (of_int ((n - u) - (p - u)) / 1000000) 0)
   | _ \<Rightarrow> Inr (max (of_int (stamp_diff now probe) / 1000000) 0))"

definition quote_of_tick ::
  "(stamp \<Rightarrow> string) \<Rightarrow> num \<Rightarrow> stamp \<Rightarrow> string \<Rightarrow> tick \<Rightarrow> exn + tradable_quote" where
  "quote_of_tick isoformat stale_after now instrument t =
     (let timestamp = (case tk_received_at t of Some x \<Rightarrow> Some x | None \<Rightarrow> tk_datetime t) in
      case (case timestamp of None \<Rightarrow> Inr None | Some p \<Rightarrow> map_sum id Some (tick_age now p)) of
        Inl e \<Rightarrow> Inl e
      | Inr age \<Rightarrow> check_quote_record
          \<lparr>tq_instrument = instrument, tq_as_of = (case timestamp of None \<Rightarrow> [] | Some p \<Rightarrow> isoformat p),
           tq_last = tk_last_price t, tq_open = tk_open_price t, tq_bid = tk_bid_price_1 t, tq_ask = tk_ask_price_1 t,
           tq_limit_up = tk_limit_up t, tq_limit_down = tk_limit_down t, tq_suspended = False,
           tq_stale = (timestamp = None \<or> stale_after > 0 \<and> (case age of None \<Rightarrow> False | Some a \<Rightarrow> a > stale_after)),
           tq_price_source = ''raw''\<rparr>)"

fun adapter_quotes ::
  "(stamp \<Rightarrow> string) \<Rightarrow> num \<Rightarrow> 'g engine \<Rightarrow> string list \<Rightarrow> (string \<times> tradable_quote) list \<Rightarrow>
   exn + (string \<times> tradable_quote) list" where
  "adapter_quotes isoformat stale_after en [] acc = Inr acc"
| "adapter_quotes isoformat stale_after en (k # ks) acc = (case oms_get_tick (en_oms en) k of
     None \<Rightarrow> adapter_quotes isoformat stale_after en ks acc
   | Some t \<Rightarrow> (case quote_of_tick isoformat stale_after (en_now en) k t of
       Inl e \<Rightarrow> Inl e
     | Inr q \<Rightarrow> adapter_quotes isoformat stale_after en ks (dict_set k q acc)))"

definition split_instrument :: "string \<Rightarrow> exn + string \<times> exchange" where
  "split_instrument instrument =
     (let (code, suffix) = split_once (CHR ''.'') instrument in
      if suffix = ''SSE'' then Inr (code, SSE)
      else if suffix = ''SZSE'' then Inr (code, SZSE)
      else if suffix = ''BSE'' then Inr (code, BSE)
      else Inl (ValueError (''unsupported live exchange for '' @ instrument)))"

definition child_request :: "execution_child \<Rightarrow> exn + order_request" where
  "child_request ch = (case split_instrument (ec_instrument ch) of
     Inl e \<Rightarrow> Inl e
   | Inr (code, ex) \<Rightarrow> Inr ((if ec_side ch = ''buy'' then buy_request else sell_request)
       code ex (ec_volume ch) (ec_price ch) LIMIT (ec_reference ch)))"

definition submit_child ::
  "'g gateway \<Rightarrow> authorizer option \<Rightarrow> route_context \<Rightarrow> execution_child \<Rightarrow> ('g router, string option) op" where
  "submit_child gi auth c ch ro = (case child_request ch of
     Inl e \<Rightarrow> (Inl e, ro) | Inr req \<Rightarrow> router_submit gi auth c req ro)"

definition child_statuses :: "string list \<Rightarrow> oms \<Rightarrow> (string \<times> string) list" where
  "child_statuses references s = dict_of (map (\<lambda>ord. (od_reference ord, str_lower (status_value (od_status ord))))
     (filter (\<lambda>ord. od_reference ord \<in> set references) (dict_vals (om_orders s))))"

record child_fill =
  cf_fill_key :: string
  cf_reference :: string
  cf_order_id :: string
  cf_volume :: num
  cf_price :: num
  cf_instrument :: string
  cf_direction :: string

definition child_fills :: "string list \<Rightarrow> oms \<Rightarrow> child_fill list" where
  "child_fills references s =
     (let orders = dict_of (map (\<lambda>ord. (od_id ord, ord))
            (filter (\<lambda>ord. od_reference ord \<in> set references) (dict_vals (om_orders s))))
      in List.map_filter (\<lambda>t. map_option (\<lambda>ord. \<lparr>cf_fill_key = td_id t, cf_reference = od_reference ord,
             cf_order_id = td_order_id t, cf_volume = td_volume t, cf_price = td_price t,
             cf_instrument = td_key t, cf_direction = direction_value (td_direction t)\<rparr>)
           (map_of orders (td_order_id t))) (oms_get_trades s))"

text \<open>\<open>LiveRuntime.cancel_order\<close> without the state file it writes at the end.\<close>

definition runtime_cancel_order ::
  "'g gateway \<Rightarrow> string \<Rightarrow> string option \<Rightarrow> bool \<Rightarrow> ('g engine, bool) op" where
  "runtime_cancel_order gi order_id symbol force en =
     (let oid = str_strip order_id; cancelled = (\<lambda>(r, en'). (map_sum id cn_cancelled r, en')) in
      if oid = [] then (Inl (ValueError ''order_id is required''), en)
      else case oms_get_order (en_oms en) oid of
        Some known \<Rightarrow> cancelled (cancel_order gi known (\<not> force) en)
      | None \<Rightarrow>
          if force then
            (case symbol of
               None \<Rightarrow> (Inl (ValueError ''symbol is required for force cancel when order is not in OMS''), en)
             | Some raw \<Rightarrow> let (code, ex) = normalize_symbol raw in
                 op_then (engine_cancel_request gi \<lparr>cr_order_id = oid, cr_code = code, cr_exchange = ex\<rparr> True)
                   (op_return True) en)
          else cancelled (cancel_by_id gi oid True en))"

definition cancel_child :: "'g gateway \<Rightarrow> string \<Rightarrow> ('g engine, bool) op" where
  "cancel_child gi reference en =
     (case find (\<lambda>ord. od_reference ord = reference) (oms_get_active_orders (en_oms en)) of
        None \<Rightarrow> (Inr True, en)
      | Some ord \<Rightarrow> runtime_cancel_order gi (od_id ord) None False en)"

text \<open>A tick without any time never becomes a stale quote: its quote has no \<open>as_of\<close> and is refused.\<close>

lemma untimed_tick_raises:
  assumes "tk_received_at t = None" "tk_datetime t = None"
  shows "quote_of_tick isoformat stale_after now instrument t =
    Inl (ValueError ''tradable quote instrument and as_of are required'')"
  using assms by (simp add: quote_of_tick_def check_quote_record_def)

lemma quotes_raise_on_untimed:
  assumes "oms_get_tick (en_oms en) k = Some t" "tk_received_at t = None" "tk_datetime t = None" "k \<in> set ks"
  shows "\<exists>e. adapter_quotes isoformat stale_after en ks acc = Inl e"
  using assms
  by (induction ks arbitrary: acc) (auto simp: untimed_tick_raises split: option.split sum.split)

text \<open>The request of a child carries its reference, volume, price and side to its own instrument.\<close>

lemma child_request_fields:
  assumes "child_request ch = Inr req"
  shows "rq_reference req = ec_reference ch" "rq_volume req = ec_volume ch" "rq_price req = ec_price ch"
    "rq_type req = LIMIT" "rq_direction req = (if ec_side ch = ''buy'' then LONG else SHORT)"
  using assms by (auto simp: child_request_def buy_request_def sell_request_def split: sum.splits if_splits)

end
