(* ===== verification/Deployment_Facts.thy ===== *)
theory Deployment_Facts
  imports Routing
begin

section \<open>Deployments end to end\<close>

text \<open>
  What a block, a change of strategy and a configuration mean for later authorizations, an instance
  that cannot be read back, and one deployment on a broker's simulation account.
\<close>

subsection \<open>Blocks and changes deny\<close>

lemma account_known:
  assumes "clear (account_checks sha c r st)"
  shows "rt_account_id r \<noteq> []"
  using account_checks_pass(1) [OF assms]
  by (auto simp: account_identities_match_def account_identity_hash_def str_strip_def Let_def)

lemma blocked_denies:
  assumes "authorize sha digest fromiso ttl environ now st c = Inr a" "map_of (st_blocks st) key = Some b" "bl_active b"
    "key = (''global'', ''*'') \<or> key = (''instance'', rc_instance_id c) \<or> key = (''runtime'', rc_instance_id c) \<or>
     (\<exists>r. map_of (st_runtimes st) (rc_instance_id c) = Some r \<and> key = (''account'', rt_account_id r))"
  shows "\<not> ra_allowed a"
proof
  assume ok: "ra_allowed a"
  obtain inst spec stale r where all: "rc_origin c = ORIGIN_AUTOMATED" "missing_bindings c = []"
    "get_instance digest (rc_instance_id c) st = Inr inst"
    "get_deployment_spec sha digest (rc_instance_id c) st = Inr (spec, stale)"
    "map_of (st_runtimes st) (rc_instance_id c) = Some r"
    "clear (binding_checks sha environ c inst (sr_spec spec, stale) r)" "clear (account_checks sha c r st)"
    "clear (block_checks sha c r st)" "clear (heartbeat_checks fromiso (max ttl (1/10)) now r)"
    by (rule authorize_allowed [OF assms(1) ok])
  have "key = (''global'', ''*'') \<or> key = (''instance'', rc_instance_id c) \<or> key = (''runtime'', rc_instance_id c) \<or>
     key = (''account'', rt_account_id r)"
    using assms(4) all(5) by (elim disjE exE) (simp_all del: map_of_eq_Some_iff)
  with block_checks_pass [OF all(8) account_known [OF all(7)] assms(2,3)] show False by blast
qed

lemma update_instance_revokes:
  assumes "update_instance digest now i changes st = (res, st')" "get_instance digest i st = Inr old"
    "map_of (st_instances st') i = Some row" "ir_config_hash row \<noteq> ir_config_hash old"
  shows "\<exists>b. map_of (st_blocks st') (''runtime'', i) = Some b \<and> bl_active b"
    "map_of (st_runtimes st') i = Some r \<Longrightarrow> \<not> rt_binding_active r \<and> rt_runtime_id r = [] \<and> rt_reconcile_required r \<and>
       rt_desired_state r = ''stopped''"
    "(k, run) \<in> set (st_runs st') \<Longrightarrow> rn_instance_id run = i \<Longrightarrow> \<not> run_running run"
    "ir_validation_state row = ''created''"
proof -
  obtain row0 where row0: "map_of (st_instances st) i = Some row0" "ir_config_hash old = ir_config_hash row0"
    using assms(2) by (auto simp: get_instance_def key_error_def read_instance_def simp del: map_of_eq_Some_iff
        split: option.splits sum.splits if_splits)
  have "i \<in> fst ` set (st_instances st)" by (rule map_of_key [OF row0(1)])
  obtain c where c: "check_config digest ((fold apply_config_change changes (ir_config old))\<lparr>sc_config_hash := []\<rparr>) = Inr c"
    using assms row0 by (auto simp: update_instance_def simp del: map_of_eq_Some_iff split: sum.splits)
  let ?st1 = "st\<lparr>st_instances := dict_set i (row0\<lparr>ir_strategy_version := sc_strategy_version c, ir_config := c,
     ir_config_hash := sc_config_hash c,
     ir_validation_state := (if sc_config_hash c \<noteq> ir_config_hash old then ''created'' else ir_validation_state old),
     ir_updated_at := now\<rparr>) (st_instances st)\<rparr>"
  have st': "st' = (if sc_config_hash c \<noteq> ir_config_hash old then revoke_deployment now i ?st1 else ?st1)"
  proof -
    have "snd (update_instance digest now i changes st) =
        (if sc_config_hash c \<noteq> ir_config_hash old then revoke_deployment now i ?st1 else ?st1)"
      using assms(2) c row0 by (simp add: update_instance_def update_write_def Let_def del: map_of_eq_Some_iff)
    then show ?thesis using assms(1) by simp
  qed
  with assms(3) have row: "ir_config_hash row = sc_config_hash c"
    "ir_validation_state row = (if sc_config_hash c \<noteq> ir_config_hash old then ''created'' else ir_validation_state old)"
    by (auto simp: revoke_deployment_def AList.update_conv' simp del: map_of_eq_Some_iff split: if_splits)
  with assms(4) have rev: "st' = revoke_deployment now i ?st1" and created: "ir_validation_state row = ''created''"
    using st' by simp_all
  show "ir_validation_state row = ''created''" by (rule created)
  show "\<exists>b. map_of (st_blocks st') (''runtime'', i) = Some b \<and> bl_active b"
    by (simp add: rev revoke_deployment_def AList.update_conv' del: map_of_eq_Some_iff)
  show "\<not> rt_binding_active r \<and> rt_runtime_id r = [] \<and> rt_reconcile_required r \<and> rt_desired_state r = ''stopped''"
    if r: "map_of (st_runtimes st') i = Some r"
  proof (cases "map_of (st_runtimes st) i")
    case None
    with r show ?thesis by (simp add: rev revoke_deployment_def del: map_of_eq_Some_iff)
  next
    case (Some old_row)
    with r have "r = revoked_runtime now old_row"
      by (simp add: rev revoke_deployment_def AList.update_conv' del: map_of_eq_Some_iff)
    then show ?thesis by (simp add: revoked_runtime_def)
  qed
  show "\<not> run_running run" if run: "(k, run) \<in> set (st_runs st')" "rn_instance_id run = i"
  proof -
    from run(1) obtain r0 where "run = invalidate_run now i r0" by (auto simp: rev revoke_deployment_def)
    with run(2) show ?thesis by (simp add: invalidate_run_def run_running_def split: if_splits)
  qed
qed

subsection \<open>A configuration reads back\<close>

lemma same_spec_eq: "same_spec a b \<Longrightarrow> ds_instance_id a = ds_instance_id b \<Longrightarrow> a = b"
  by (simp add: same_spec_def)

definition at_rest :: "deployment_spec \<Rightarrow> runtime_row \<Rightarrow> bool" where
  "at_rest d r \<longleftrightarrow> rt_desired_state r = ''ready'' \<and> rt_observed_state r = ''ready'' \<and> rt_runtime_id r = [] \<and>
     \<not> rt_binding_active r \<and> \<not> rt_reconcile_required r \<and> rt_reconciled r = (ds_run_mode d = ''paper'') \<and>
     rt_config_hash r = ds_config_hash d \<and> rt_binding_hash r = ds_binding_hash d"

lemma configure_write_result:
  assumes "store_ok st" "configure_write now d st = (Inr u, st')"
  shows "st_instances st' = st_instances st" "\<exists>row. map_of (st_specs st') (ds_instance_id d) = Some row \<and> sr_spec row = d"
    "\<exists>r. map_of (st_runtimes st') (ds_instance_id d) = Some r \<and> at_rest d r"
    "map_of (st_blocks st') (''runtime'', ds_instance_id d) = Some b \<Longrightarrow> \<not> bl_active b"
proof -
  let ?k = "ds_instance_id d"
  consider (written) version where "st' = write_deployment now d version st"
    | (kept) p r where "st' = st" "map_of (st_specs st) ?k = Some p" "same_spec (sr_spec p) d"
        "map_of (st_runtimes st) ?k = Some r" "runtime_is_initial d r"
        "\<And>b. map_of (st_blocks st) (''runtime'', ?k) = Some b \<Longrightarrow> \<not> bl_active b"
    using assms(2)
    by (auto simp: configure_write_def key_error_def Let_def simp del: map_of_eq_Some_iff split: option.splits if_splits)
  then have "st_instances st' = st_instances st \<and> (\<exists>row. map_of (st_specs st') ?k = Some row \<and> sr_spec row = d) \<and>
    (\<exists>r. map_of (st_runtimes st') ?k = Some r \<and> at_rest d r) \<and>
    (\<forall>b. map_of (st_blocks st') (''runtime'', ?k) = Some b \<longrightarrow> \<not> bl_active b)"
  proof cases
    case written
    then show ?thesis
      by (auto simp: write_deployment_def at_rest_def fresh_runtime_def lift_block_def AList.update_conv' Let_def
          simp del: map_of_eq_Some_iff split: option.splits)
  next
    case kept
    have "list_all (\<lambda>(k, row). ds_instance_id (sr_spec row) = k) (st_specs st)" using assms(1) by (simp add: store_ok_def)
    with map_of_SomeD [OF kept(2)] have "ds_instance_id (sr_spec p) = ?k" by (auto simp: list_all_iff)
    with kept(3) have "sr_spec p = d" by (rule same_spec_eq)
    with kept show ?thesis by (simp add: runtime_is_initial_def at_rest_def del: map_of_eq_Some_iff)
  qed
  then show "st_instances st' = st_instances st" "\<exists>row. map_of (st_specs st') ?k = Some row \<and> sr_spec row = d"
    "\<exists>r. map_of (st_runtimes st') ?k = Some r \<and> at_rest d r"
    "map_of (st_blocks st') (''runtime'', ?k) = Some b \<Longrightarrow> \<not> bl_active b"
    by blast+
qed

lemma configure_reads_back:
  assumes "store_ok st" "hex_digest sha" "check_spec sha digest d0 = Inr d"
    "configure_deployment sha digest now d st = (Inr v, st')"
  shows "sr_spec (fst (dv_configuration v)) = d" "\<not> snd (dv_configuration v)" "at_rest d (dv_runtime v)"
    "map_of (st_blocks st') (''runtime'', ds_instance_id d) = Some b \<Longrightarrow> \<not> bl_active b"
proof -
  let ?k = "ds_instance_id d"
  from assms(4) obtain current u where cur: "get_instance digest ?k st = Inr current" "ds_config_hash d = ir_config_hash current"
    "configure_write now d st = (Inr u, st')" "deployment sha digest ?k st' = Inr v"
    by (auto simp: configure_deployment_def split: sum.splits if_splits prod.splits)
  note res = configure_write_result [OF assms(1) cur(3)]
  from res(2,3) obtain row r where row: "map_of (st_specs st') ?k = Some row" "sr_spec row = d"
    "map_of (st_runtimes st') ?k = Some r" "at_rest d r" by blast
  have "get_instance digest ?k st' = Inr current" using cur(1) res(1) by (simp add: get_instance_def)
  with cur(4) row have "v = \<lparr>dv_instance = current, dv_configuration = (row\<lparr>sr_spec := d\<rparr>, ds_config_hash d \<noteq> ir_config_hash current),
      dv_runtime = r, dv_runs = list_runtime_runs ?k st', dv_route_blocks = list_route_blocks sha (Some ?k) st'\<rparr>"
    using check_spec_again [OF assms(2,3)]
    by (simp add: deployment_def get_deployment_spec_def get_runtime_state_def read_spec_def del: map_of_eq_Some_iff)
  with row(2,4) cur(2) show "sr_spec (fst (dv_configuration v)) = d" "\<not> snd (dv_configuration v)" "at_rest d (dv_runtime v)"
    by simp_all
  show "map_of (st_blocks st') (''runtime'', ?k) = Some b \<Longrightarrow> \<not> bl_active b" by (rule res(4))
qed

subsection \<open>A symbol no exchange is known for\<close>

text \<open>
  The universe of a configuration is made canonical when the object is built and again whenever its
  row is read, and canonical keys of unknown exchanges change each time: the hash no longer matches.
\<close>

lemma list_rows_raises:
  assumes "(k, row) \<in> set rows" "read_instance digest row = Inl e"
  shows "\<exists>e. list_rows digest rows = Inl e"
  using assms by (induction rows) (auto split: sum.split)

lemma foo_again: "canonical_instrument ''FOO'' = ''FOO.UNKNOWN''" "canonical_instrument ''FOO.UNKNOWN'' = ''FOO.UNKNOWN.UNKNOWN''"
  "str_strip ''FOO'' = ''FOO''" "str_strip ''FOO.UNKNOWN'' = ''FOO.UNKNOWN''"
  by code_simp+

lemma config_hash_of_frame:
  "config_hash_of digest (c\<lparr>sc_config_hash := h\<rparr>) = config_hash_of digest c"
  "config_hash_of digest (c\<lparr>sc_instance_id := i\<rparr>) = config_hash_of digest c"
  by (simp_all add: config_hash_of_def)

lemma unplaceable_row:
  assumes "check_config digest raw = Inr c" "sc_universe raw = [''FOO'']" "\<And>j. digest j \<noteq> []"
    "config_hash_of digest (c\<lparr>sc_universe := [''FOO.UNKNOWN.UNKNOWN'']\<rparr>) \<noteq> config_hash_of digest c"
    "ir_config row = c" "ir_config_hash row = sc_config_hash c"
  shows "\<exists>e. read_instance digest row = Inl (RuntimeError e)"
proof -
  let ?n = "normalized_config raw"
  have c: "c = ?n\<lparr>sc_config_hash := config_hash_of digest ?n\<rparr>"
    using assms(1) by (simp add: check_config_def Let_def split: if_splits)
  have universe: "sc_universe ?n = [''FOO.UNKNOWN'']"
    by (simp only: normalized_config_def assms(2) foo_again strategy_config.select_convs strategy_config.update_convs
        strategy_config.simps filter.simps list.map keep_first_def) (simp add: foo_again keep_first_def)
  have hash: "sc_config_hash c = config_hash_of digest c" by (simp add: c config_hash_of_frame)
  have "normalized_config c = c\<lparr>sc_universe := [''FOO.UNKNOWN.UNKNOWN'']\<rparr>"
  proof -
    have "str_strip (sc_instance_id c) = sc_instance_id c" "str_lower (str_strip (sc_strategy_id c)) = sc_strategy_id c"
      by (simp_all add: c normalized_config_def str_strip_again str_strip_lower str_lower_again)
    moreover have "sc_universe c = [''FOO.UNKNOWN'']" using universe by (simp add: c)
    then have "keep_first (map canonical_instrument (filter (\<lambda>i. str_strip i \<noteq> []) (sc_universe c))) = [''FOO.UNKNOWN.UNKNOWN'']"
      by (simp add: foo_again keep_first_def)
    ultimately show ?thesis by (simp add: normalized_config_def [of c])
  qed
  then have "config_hash_of digest (normalized_config c) \<noteq> sc_config_hash c" using assms(4) hash by simp
  moreover have "sc_config_hash c \<noteq> []" using assms(3) by (simp add: hash config_hash_of_def)
  ultimately have "\<exists>e. check_config digest c = Inl e" by (simp add: check_config_def Let_def)
  then show ?thesis using assms(5,6) by (auto simp: read_instance_def)
qed

lemma unplaceable_instance:
  assumes "check_config digest raw = Inr c" "sc_universe raw = [''FOO'']" "\<And>j. digest j \<noteq> []"
    "config_hash_of digest (c\<lparr>sc_universe := [''FOO.UNKNOWN.UNKNOWN'']\<rparr>) \<noteq> config_hash_of digest c"
    "sc_instance_id c \<noteq> []" "map_of (st_instances st) (sc_instance_id c) = None"
    "create_instance digest now c st = (res, st')"
  shows "\<exists>e. res = Inl (RuntimeError e)" "map_of (st_instances st') (sc_instance_id c) \<noteq> None"
    "\<exists>e. get_instance digest (sc_instance_id c) st' = Inl e" "\<exists>e. list_instances digest st' = Inl e"
    "update_instance digest now' (sc_instance_id c) changes st' = (res', st'') \<Longrightarrow> (\<exists>e. res' = Inl e) \<and> st'' = st'"
proof -
  let ?row = "\<lparr>ir_strategy_id = sc_strategy_id c, ir_strategy_version = sc_strategy_version c, ir_config = c,
    ir_config_hash = sc_config_hash c, ir_validation_state = ''created'', ir_updated_at = now\<rparr>"
  obtain e where e: "read_instance digest ?row = Inl (RuntimeError e)"
    using unplaceable_row [OF assms(1,2,3,4), of ?row] by auto
  from assms(5-7) have st': "st' = st\<lparr>st_instances := dict_set (sc_instance_id c) ?row (st_instances st)\<rparr>"
    "res = get_instance digest (sc_instance_id c) st'"
    by (auto simp: create_instance_def Let_def)
  have got: "get_instance digest (sc_instance_id c) st' = Inl (RuntimeError e)"
    using e by (simp add: get_instance_def st'(1) AList.update_conv')
  with st'(2) show "\<exists>e. res = Inl (RuntimeError e)" "\<exists>e. get_instance digest (sc_instance_id c) st' = Inl e" by simp_all
  show "map_of (st_instances st') (sc_instance_id c) \<noteq> None" by (simp add: st'(1) AList.update_conv')
  have "map_of (st_instances st') (sc_instance_id c) = Some ?row" by (simp add: st'(1) AList.update_conv')
  from map_of_SomeD [OF this] list_rows_raises [OF _ e] show "\<exists>e. list_instances digest st' = Inl e"
    by (simp add: list_instances_def)
  have upd: "update_instance digest now' (sc_instance_id c) changes st' = (Inl (RuntimeError e), st')"
    by (simp add: update_instance_def got)
  show "(\<exists>e. res' = Inl e) \<and> st'' = st'" if "update_instance digest now' (sc_instance_id c) changes st' = (res', st'')"
  proof -
    from that upd have "res' = Inl (RuntimeError e)" "st'' = st'" by simp_all
    then show ?thesis by blast
  qed
qed

end
