(* ===== verification/Deployment_Examples.thy ===== *)
theory Deployment_Examples
  imports Deployment_Facts
begin

section \<open>A worked deployment\<close>

text \<open>
  A strategy instance configured for a simulation account of a broker, validated, deployed and
  running, and the context of one of its orders.
\<close>

definition demo_sha :: "string \<Rightarrow> string" where
  "demo_sha s = ''ab''"

definition demo_digest :: "json \<Rightarrow> string" where
  "demo_digest j = (case jget ''universe'' j of JArr [JStr s] \<Rightarrow> CHR ''u'' # s | _ \<Rightarrow> ''d'')"

definition demo_raw_config :: "string \<Rightarrow> strategy_config" where
  "demo_raw_config symbol = \<lparr>sc_instance_id = ''i1'', sc_strategy_id = ''ma'', sc_strategy_version = ''1'',
     sc_params = JObj [], sc_universe = [symbol], sc_frequency = ''day'', sc_data_policy = JObj [],
     sc_portfolio_policy = JObj [], sc_strategy_code_hash = [], sc_model_hash = [], sc_artifact_binding = JObj [],
     sc_config_hash = []\<rparr>"

definition demo_config :: strategy_config where
  "demo_config = (demo_raw_config ''600000.SSE'')\<lparr>sc_config_hash := ''u600000.SSE''\<rparr>"

definition demo_raw_spec :: deployment_spec where
  "demo_raw_spec = \<lparr>ds_instance_id = ''i1'', ds_config_hash = ''u600000.SSE'', ds_run_mode = ''simulation'',
     ds_execution_environment = ''broker_simulation'', ds_trade_provider = ''qmt'', ds_quote_provider = ''qmt'',
     ds_account_profile = ''p1'', ds_account_id = [], ds_quote_data_kind = ''realtime'', ds_binding_hash = []\<rparr>"

definition demo_spec :: deployment_spec where
  "demo_spec = demo_raw_spec\<lparr>ds_binding_hash := ''d''\<rparr>"

definition demo_validated :: store where
  "demo_validated = snd (set_validation_state demo_digest ''t'' ''i1'' ''validated''
     (snd (create_instance demo_digest ''t'' demo_config empty_store)))"

definition demo_deployed :: store where
  "demo_deployed = snd (configure_write ''t'' demo_spec demo_validated)"

definition demo_running :: store where
  "demo_running = snd (update_runtime_state demo_sha ''t'' ''i1'' None
     [RAccountId ''acct'', RDesired ''running'', RObserved ''running'', RRuntimeId ''r1'', RHeartbeat ''t1'',
      RReconciled True, RBindingActive True] demo_deployed)"

definition demo_context :: route_context where
  "demo_context = \<lparr>rc_origin = ORIGIN_AUTOMATED, rc_instance_id = ''i1'', rc_config_hash = ''u600000.SSE'',
     rc_account_id = ''acct'', rc_broker = ''qmt'', rc_run_mode = ''simulation'', rc_runtime_id = ''r1'',
     rc_execution_environment = ''broker_simulation'', rc_trade_provider = ''qmt'', rc_quote_provider = ''qmt'',
     rc_quote_data_kind = ''realtime'', rc_binding_hash = ''d''\<rparr>"

definition demo_iso :: "string \<Rightarrow> stamp option" where
  "demo_iso s = Some (Aware 0 0)"

lemma demo_config_ok: "check_config demo_digest (demo_raw_config ''600000.SSE'') = Inr demo_config"
  by code_simp

lemma demo_spec_ok: "check_spec demo_sha demo_digest demo_raw_spec = Inr demo_spec"
  by code_simp

lemma demo_authorized: "authorize demo_sha demo_digest demo_iso 15 [] (Aware 0 0) demo_running demo_context =
    Inr \<lparr>ra_allowed = True, ra_rule = ''authorized'', ra_reason = ''deployment binding and runtime state match''\<rparr>"
  by code_simp

lemma demo_reachable: "reachable_store demo_sha demo_digest demo_running"
  unfolding demo_running_def demo_deployed_def demo_validated_def
  by (intro reach_step [OF _ step_runtime] reach_step [OF _ step_configure] reach_step [OF _ step_validate]
      reach_step [OF _ step_create] reach_empty)

lemma demo_running_row:
  obtains r where "map_of (st_runtimes demo_running) ''i1'' = Some r" "rt_execution_environment r = ''broker_simulation''"
proof -
  have "map_option rt_execution_environment (map_of (st_runtimes demo_running) ''i1'') = Some ''broker_simulation''"
    by code_simp
  then show thesis using that by (auto simp del: map_of_eq_Some_iff)
qed

lemma demo_broker_case: "str_lower ''qmt'' = str_lower ''QMT''"
  by code_simp

lemma demo_acct: "str_strip ''acct'' = ''acct''" "starts_with ''sha256:'' ''acct'' = False"
  by code_simp+

end
