(* ===== verification/Account_Guard.thy ===== *)
theory Account_Guard
  imports Deployment Contracts "HOL-Library.List_Lexorder" "HOL-Library.Char_ord"
begin

section \<open>The account boundary\<close>

text \<open>
  \<open>systems/trading/account_guard.py\<close>: what must hold of a dedicated account before a plan is made or
  routed for it.  An issue is the dictionary that the code builds.
\<close>

text \<open>Python compares dictionaries by their entries, not by their order.\<close>

definition dict_within :: "('k \<times> 'v) list \<Rightarrow> ('k \<times> 'v) list \<Rightarrow> bool" where
  "dict_within a b \<longleftrightarrow> list_all (\<lambda>(k, v). map_of b k = Some v) a"

definition dict_eq :: "('k \<times> 'v) list \<Rightarrow> ('k \<times> 'v) list \<Rightarrow> bool" where
  "dict_eq a b \<longleftrightarrow> dict_within a b \<and> dict_within b a"

lemma dict_within_le: "dict_ok a \<Longrightarrow> dict_within a b \<longleftrightarrow> map_of a \<subseteq>\<^sub>m map_of b"
  by (fastforce simp: dict_within_def list_all_iff map_le_def dom_map_of_conv_image_fst)

lemma dict_eq_iff:
  assumes "dict_ok a" "dict_ok b"
  shows "dict_eq a b \<longleftrightarrow> map_of a = map_of b"
  using assms by (auto simp: dict_eq_def dict_within_le intro: map_le_antisym)

definition numbers_json :: "(string \<times> num) list \<Rightarrow> json" where
  "numbers_json d = JObj (map (\<lambda>(k, v). (k, JNum v)) d)"

definition texts_json :: "string list \<Rightarrow> json" where
  "texts_json xs = JArr (map JStr xs)"

definition guard_issue :: "string \<Rightarrow> string \<Rightarrow> (string \<times> json) list \<Rightarrow> json" where
  "guard_issue rule reason extra = JObj ([(''rule'', JStr rule), (''reason'', JStr reason)] @ extra)"

text \<open>The holdings that are not zero, under their canonical names.\<close>

definition held_positions :: "(string \<times> num) list \<Rightarrow> (string \<times> num) list" where
  "held_positions d = dict_of (map (\<lambda>(k, v). (canonical_instrument k, v)) (filter (\<lambda>(_, v). v \<noteq> 0) d))"

definition outside_universe :: "string list \<Rightarrow> (string \<times> num) list \<Rightarrow> string list" where
  "outside_universe universe positions =
     sort (filter (\<lambda>k. k \<notin> set (map canonical_instrument universe))
       (map (\<lambda>(k, _). canonical_instrument k) (filter (\<lambda>(_, v). v \<noteq> 0) positions)))"

definition boundary_issues ::
  "(string \<Rightarrow> string) \<Rightarrow> account_snapshot \<Rightarrow> string list \<Rightarrow> string \<Rightarrow> (string \<times> num) list option \<Rightarrow> bool \<Rightarrow> json list" where
  "boundary_issues sha snapshot universe expected_account_id expected_positions allow_position_changes =
     (let outside = outside_universe universe (as_positions snapshot) in
      (if expected_account_id \<noteq> [] \<and> \<not> account_identities_match sha expected_account_id (as_account_id snapshot)
       then [guard_issue ''account_binding'' ''account snapshot does not match deployment binding'' []] else []) @
      (if outside \<noteq> []
       then [guard_issue ''outside_universe_positions''
               ''dedicated account contains holdings outside the instance universe'' [(''instruments'', texts_json outside)]]
       else []) @
      (if as_external_orders snapshot \<noteq> []
       then [guard_issue ''external_active_orders'' ''account contains activity not owned by this strategy instance''
               [(''references'', texts_json (as_external_orders snapshot))]]
       else []) @
      (case expected_positions of
         None \<Rightarrow> []
       | Some wanted \<Rightarrow>
           let actual = held_positions (as_positions snapshot); expected = held_positions wanted in
           if allow_position_changes \<or> dict_eq actual expected then []
           else [guard_issue ''position_reconciliation'' ''account holdings differ from the last execution target''
                   [(''expected'', numbers_json expected), (''actual'', numbers_json actual)]]))"

lemma held_positions_ok [simp]: "dict_ok (held_positions d)"
  by (simp add: held_positions_def dict_of_ok)

lemma outside_universe_Nil:
  "outside_universe universe positions = [] \<longleftrightarrow>
     (\<forall>(k, v) \<in> set positions. v \<noteq> 0 \<longrightarrow> canonical_instrument k \<in> set (map canonical_instrument universe))"
  by (auto simp: outside_universe_def filter_empty_conv simp flip: set_empty)

text \<open>The boundary holds exactly when the account is the expected one, holds only instruments of the
  universe, has no order of anybody else, and, where asked, holds what the last target left.\<close>

lemma boundary_ok_iff:
  "boundary_issues sha snapshot universe account expected allow = [] \<longleftrightarrow>
     (account = [] \<or> account_identities_match sha account (as_account_id snapshot)) \<and>
     (\<forall>(k, v) \<in> set (as_positions snapshot). v \<noteq> 0 \<longrightarrow>
        canonical_instrument k \<in> set (map canonical_instrument universe)) \<and>
     as_external_orders snapshot = [] \<and>
     (\<forall>wanted. expected = Some wanted \<longrightarrow> \<not> allow \<longrightarrow>
        map_of (held_positions (as_positions snapshot)) = map_of (held_positions wanted))"
  unfolding boundary_issues_def Let_def outside_universe_Nil [symmetric]
  by (auto simp: dict_eq_iff split: option.split)

end
