(* ===== verification/Execution_Journal.thy ===== *)
theory Execution_Journal
  imports Trading_Planner Routing Account_Guard
begin

section \<open>The execution journal\<close>

text \<open>
  The tables of \<open>systems/trading/store.py\<close> that make an execution recoverable: plans, child orders,
  the state of each plan, its attempts, and what was reconciled with the broker.  A table is a
  dictionary on its primary key or, where rows are only appended, a list.  An operation is one
  transaction; foreign keys are enforced.  The rows of one operation carry one clock text \<open>now\<close>.
  The JSON payload of a fill, a copy of the broker's report, is left out.
\<close>

subsection \<open>Tables\<close>

fun phase_value :: "execution_phase \<Rightarrow> string" where
  "phase_value PHASE_PLANNED = ''planned''"
| "phase_value SELLING = ''selling''"
| "phase_value WAITING_SELL_REPORTS = ''waiting_sell_reports''"
| "phase_value REFRESHING_ACCOUNT = ''refreshing_account''"
| "phase_value BUYING = ''buying''"
| "phase_value FINAL_RECONCILE = ''final_reconcile''"
| "phase_value COMPLETED = ''completed''"
| "phase_value PAUSED = ''paused''"
| "phase_value FAILED = ''failed''"

record plan_payload =
  pp_plan :: child_plan
  pp_target :: target_portfolio
  pp_universe :: "string list"
  pp_quotes :: "(string \<times> tradable_quote) list"
  pp_instruments :: "(string \<times> instrument_metadata) list"
  pp_replans :: int
  pp_route_mode :: string
  pp_buy_waiting :: bool

record plan_row =
  xr_decision_id :: string
  xr_instance_id :: string
  xr_payload :: plan_payload
  xr_status :: string
  xr_created_at :: string

record child_row =
  co_plan_id :: string
  co_order_id :: string
  co_status :: string
  co_child :: execution_child
  co_updated_at :: string

record plan_state =
  es_decision_id :: string
  es_instance_id :: string
  es_config_hash :: string
  es_phase :: execution_phase
  es_recovery_version :: int
  es_next_child_index :: "(string \<times> int) list"
  es_payload :: plan_payload
  es_last_error :: json
  es_created_at :: string
  es_updated_at :: string

record attempt_row =
  pa_plan_id :: string
  pa_phase :: string
  pa_attempt :: int
  pa_from :: string

record order_report =
  ol_plan_id :: string
  ol_reference :: string
  ol_local_status :: string
  ol_broker_status :: string

record fill_row =
  fr_plan_id :: string
  fr_reference :: string
  fr_order_id :: string
  fr_volume :: num
  fr_price :: num
  fr_created_at :: string

record journal =
  jn_instances :: "string list"
  jn_plans :: "(string \<times> plan_row) list"
  jn_children :: "(string \<times> child_row) list"
  jn_states :: "(string \<times> plan_state) list"
  jn_attempts :: "attempt_row list"
  jn_reports :: "order_report list"
  jn_fills :: "(string \<times> fill_row) list"

definition empty_journal :: "string list \<Rightarrow> journal" where
  "empty_journal instances = \<lparr>jn_instances = instances, jn_plans = [], jn_children = [], jn_states = [],
     jn_attempts = [], jn_reports = [], jn_fills = []\<rparr>"

definition foreign_key_failed :: exn where
  "foreign_key_failed = PyError ''IntegrityError'' ''FOREIGN KEY constraint failed''"

subsection \<open>Operations\<close>

text \<open>\<open>INSERT OR IGNORE\<close>: an existing row stays, and the result says whether one was inserted.\<close>

definition insert_or_ignore :: "'k \<Rightarrow> 'v \<Rightarrow> ('k \<times> 'v) list \<Rightarrow> ('k \<times> 'v) list" where
  "insert_or_ignore k v tbl = (case map_of tbl k of Some _ \<Rightarrow> tbl | None \<Rightarrow> dict_set k v tbl)"

definition record_plan ::
  "string \<Rightarrow> string \<Rightarrow> string \<Rightarrow> string \<Rightarrow> plan_payload \<Rightarrow> string \<Rightarrow> (journal, bool) op" where
  "record_plan now plan_id decision_id instance_id payload status jn =
     (Inr (map_of (jn_plans jn) plan_id = None),
      jn\<lparr>jn_plans := insert_or_ignore plan_id \<lparr>xr_decision_id = decision_id, xr_instance_id = instance_id,
           xr_payload = payload, xr_status = status, xr_created_at = now\<rparr> (jn_plans jn)\<rparr>)"

definition record_child_order ::
  "string \<Rightarrow> string \<Rightarrow> string \<Rightarrow> execution_child \<Rightarrow> string \<Rightarrow> string \<Rightarrow> (journal, bool) op" where
  "record_child_order now reference plan_id child status order_id jn =
     (Inr (map_of (jn_children jn) reference = None),
      jn\<lparr>jn_children := insert_or_ignore reference \<lparr>co_plan_id = plan_id, co_order_id = order_id,
           co_status = status, co_child = child, co_updated_at = now\<rparr> (jn_children jn)\<rparr>)"

definition update_child_order :: "string \<Rightarrow> string \<Rightarrow> string \<Rightarrow> string \<Rightarrow> (journal, unit) op" where
  "update_child_order now reference status order_id jn =
     (Inr (), case map_of (jn_children jn) reference of
        None \<Rightarrow> jn
      | Some row \<Rightarrow> jn\<lparr>jn_children := dict_set reference
          (row\<lparr>co_status := status, co_order_id := order_id, co_updated_at := now\<rparr>) (jn_children jn)\<rparr>)"

definition get_child_order :: "string \<Rightarrow> journal \<Rightarrow> child_row option" where
  "get_child_order reference jn = map_of (jn_children jn) reference"

definition get_execution_plan_state :: "string \<Rightarrow> journal \<Rightarrow> exn + plan_state" where
  "get_execution_plan_state plan_id jn = (case map_of (jn_states jn) plan_id of
     None \<Rightarrow> key_error (''unknown execution plan state '' @ quoted plan_id) | Some s \<Rightarrow> Inr s)"

text \<open>The upsert leaves the identity of an existing row alone and counts its recovery version.\<close>

definition upserted_state ::
  "string \<Rightarrow> plan_state option \<Rightarrow> plan_state \<Rightarrow> plan_state" where
  "upserted_state now existing s = (case existing of
     None \<Rightarrow> s\<lparr>es_created_at := now, es_updated_at := now\<rparr>
   | Some row \<Rightarrow> row\<lparr>es_phase := es_phase s, es_recovery_version := es_recovery_version row + 1,
       es_next_child_index := es_next_child_index s, es_payload := es_payload s,
       es_last_error := es_last_error s, es_updated_at := now\<rparr>)"

definition save_execution_plan_state :: "string \<Rightarrow> string \<Rightarrow> plan_state \<Rightarrow> (journal, plan_state) op" where
  "save_execution_plan_state now plan_id s jn =
     (let row = upserted_state now (map_of (jn_states jn) plan_id) s in
      if es_instance_id row \<notin> set (jn_instances jn) then (Inl foreign_key_failed, jn)
      else (Inr row, jn\<lparr>jn_states := dict_set plan_id row (jn_states jn)\<rparr>))"

definition unfinished :: "plan_state \<Rightarrow> bool" where
  "unfinished s \<longleftrightarrow> es_phase s \<notin> {COMPLETED, FAILED}"

definition list_unfinished_execution_plans :: "string \<Rightarrow> journal \<Rightarrow> (string \<times> plan_state) list" where
  "list_unfinished_execution_plans instance_id jn = sort_key (\<lambda>(k, s). (es_created_at s, k))
     (filter (\<lambda>(_, s). es_instance_id s = instance_id \<and> unfinished s) (jn_states jn))"

text \<open>The newest completed plan that was really routed.\<close>

definition latest_execution_target :: "string \<Rightarrow> string \<Rightarrow> journal \<Rightarrow> (target_portfolio \<times> string) option" where
  "latest_execution_target instance_id config_hash jn =
     map_option (\<lambda>(_, s). (pp_target (es_payload s), es_updated_at s))
       (find (\<lambda>(_, s). pp_route_mode (es_payload s) = ''routed'')
          (rev (sort_key (\<lambda>(_, s). es_updated_at s)
             (filter (\<lambda>(_, s). es_instance_id s = instance_id \<and> es_config_hash s = config_hash \<and>
                es_phase s = COMPLETED) (jn_states jn)))))"

definition next_attempt :: "string \<Rightarrow> string \<Rightarrow> journal \<Rightarrow> int" where
  "next_attempt plan_id phase jn =
     fold (\<lambda>r n. if pa_plan_id r = plan_id \<and> pa_phase r = phase then max n (pa_attempt r) else n) (jn_attempts jn) 0 + 1"

definition record_plan_attempt :: "string \<Rightarrow> string \<Rightarrow> string \<Rightarrow> (journal, int) op" where
  "record_plan_attempt plan_id phase came_from jn =
     (if map_of (jn_states jn) plan_id = None then (Inl foreign_key_failed, jn)
      else let attempt = next_attempt plan_id phase jn
           in (Inr attempt, jn\<lparr>jn_attempts := jn_attempts jn @
                [\<lparr>pa_plan_id = plan_id, pa_phase = phase, pa_attempt = attempt, pa_from = came_from\<rparr>]\<rparr>))"

definition record_order_reconciliation :: "string \<Rightarrow> string \<Rightarrow> string \<Rightarrow> string \<Rightarrow> (journal, unit) op" where
  "record_order_reconciliation plan_id reference local_status broker_status jn =
     (if map_of (jn_states jn) plan_id = None then (Inl foreign_key_failed, jn)
      else (Inr (), jn\<lparr>jn_reports := jn_reports jn @ [\<lparr>ol_plan_id = plan_id, ol_reference = reference,
        ol_local_status = local_status, ol_broker_status = broker_status\<rparr>]\<rparr>))"

definition record_fill_reconciliation ::
  "string \<Rightarrow> string \<Rightarrow> string \<Rightarrow> string \<Rightarrow> string \<Rightarrow> num \<Rightarrow> num \<Rightarrow> (journal, bool) op" where
  "record_fill_reconciliation now fill_key plan_id reference order_id volume price jn =
     (case map_of (jn_fills jn) fill_key of
        Some _ \<Rightarrow> (Inr False, jn)
      | None \<Rightarrow>
          if map_of (jn_states jn) plan_id = None then (Inl foreign_key_failed, jn)
          else (Inr True, jn\<lparr>jn_fills := dict_set fill_key \<lparr>fr_plan_id = plan_id, fr_reference = reference,
            fr_order_id = order_id, fr_volume = volume, fr_price = price, fr_created_at = now\<rparr> (jn_fills jn)\<rparr>))"

end
