(* ===== verification/Execution.thy ===== *)
theory Execution
  imports Execution_Journal
begin

section \<open>The execution coordinator\<close>

text \<open>
  \<open>systems/trading/execution.py\<close>: one plan advances phase by phase, and every phase is in the journal
  before the next call.  The account and route ports are a record of operations on the journal and a
  world (the replay broker writes its fills into the store it shares with the coordinator); the planner, SHA-256, the ISO reader and the clock text are parameters.  What the coordinator knows is
  the journal; a call that raises leaves the journal and the world as they were at that point.
\<close>

subsection \<open>Ports and state\<close>

record 'w execution =
  xs_journal :: journal
  xs_world :: 'w

record 'w ports =
  po_snapshot :: "('w execution, account_snapshot) op"
  po_statuses :: "string list \<Rightarrow> ('w execution, (string \<times> string) list) op"
  po_fills :: "(string list \<Rightarrow> ('w execution, child_fill list) op) option"
  po_submit :: "execution_child \<Rightarrow> ('w execution, string option) op"
  po_cancel :: "string \<Rightarrow> ('w execution, bool) op"

type_synonym plan_function = "target_portfolio \<Rightarrow> account_snapshot \<Rightarrow> (string \<times> tradable_quote) list \<Rightarrow>
   (string \<times> instrument_metadata) list \<Rightarrow> (string \<times> int) list \<Rightarrow> exn + child_plan"

record 'w coordinator =
  xc_ports :: "'w ports"
  xc_planner :: plan_function
  xc_can_route :: bool
  xc_shadow :: bool
  xc_max_replans :: int
  xc_expected_account_id :: string
  xc_sha :: "string \<Rightarrow> string"
  xc_fromisoformat :: "string \<Rightarrow> stamp option"
  xc_now :: string

definition coordinator_init ::
  "'w ports \<Rightarrow> plan_function \<Rightarrow> bool \<Rightarrow> bool \<Rightarrow> int \<Rightarrow> string \<Rightarrow> (string \<Rightarrow> string) \<Rightarrow> (string \<Rightarrow> stamp option) \<Rightarrow> string \<Rightarrow>
   exn + 'w coordinator" where
  "coordinator_init ports planner can_route shadow max_replans account sha fromiso now =
     (if shadow \<and> can_route then Inl (ValueError ''SHADOW execution can never enable routing'')
      else Inr \<lparr>xc_ports = ports, xc_planner = planner, xc_can_route = can_route, xc_shadow = shadow,
        xc_max_replans = max max_replans 1, xc_expected_account_id = account, xc_sha = sha,
        xc_fromisoformat = fromiso, xc_now = now\<rparr>)"

definition in_journal :: "(journal, 'a) op \<Rightarrow> ('w execution, 'a) op" where
  "in_journal m x = (case m (xs_journal x) of (r, j) \<Rightarrow> (r, x\<lparr>xs_journal := j\<rparr>))"

definition in_world :: "('w, 'a) op \<Rightarrow> ('w execution, 'a) op" where
  "in_world m x = (case m (xs_world x) of (r, w) \<Rightarrow> (r, x\<lparr>xs_world := w\<rparr>))"

definition ask :: "(journal \<Rightarrow> 'a) \<Rightarrow> ('w execution, 'a) op" where
  "ask f x = (Inr (f (xs_journal x)), x)"

definition op_result :: "exn + 'a \<Rightarrow> ('s, 'a) op" where
  "op_result r s = (r, s)"

subsection \<open>Helpers\<close>

definition terminal_statuses :: "string set" where
  "terminal_statuses = {''alltraded'', ''filled'', ''cancelled'', ''canceled'', ''rejected''}"

definition working_statuses :: "string set" where
  "working_statuses = {''planned'', ''routing'', ''submitted'', ''submitting'', ''nottraded'', ''parttraded''}"

definition dead_statuses :: "string set" where
  "dead_statuses = {''rejected'', ''cancelled'', ''canceled''}"

definition child_status :: "string \<Rightarrow> journal \<Rightarrow> string" where
  "child_status reference jn = (case get_child_order reference jn of None \<Rightarrow> [] | Some row \<Rightarrow> str_lower (co_status row))"

definition timestamp_after :: "(string \<Rightarrow> stamp option) \<Rightarrow> string \<Rightarrow> string \<Rightarrow> exn + bool" where
  "timestamp_after fromiso left right =
     (let invalid = (\<lambda>s. Inl (ValueError (''Invalid isoformat string: '' @ quoted s))) in
      if length left = 10 \<and> length right \<ge> 10 then Inr (take 10 left > take 10 right)
      else case fromiso left of
        None \<Rightarrow> invalid left
      | Some lhs \<Rightarrow> (case fromiso right of None \<Rightarrow> invalid right | Some rhs \<Rightarrow> Inr (stamp_diff lhs rhs > 0)))"

definition plan_issue_json :: "plan_issue \<Rightarrow> json" where
  "plan_issue_json i = JObj [(''rule'', JStr (pi_rule i)), (''reason'', JStr (pi_reason i)),
     (''instrument'', JStr (pi_instrument i))]"

definition dead_child_json :: "string \<times> string \<Rightarrow> json" where
  "dead_child_json p = JObj [(''reference'', JStr (fst p)), (''status'', JStr (snd p))]"

definition side_children :: "string \<Rightarrow> child_plan \<Rightarrow> execution_child list" where
  "side_children side plan = filter (\<lambda>ch. ec_side ch = side) (xp_children plan)"

subsection \<open>Writing the state of a plan\<close>

definition save_phase ::
  "'w coordinator \<Rightarrow> string \<Rightarrow> plan_state \<Rightarrow> execution_phase \<Rightarrow> plan_payload \<Rightarrow> (string \<times> int) list \<Rightarrow>
   ('w execution, plan_state) op" where
  "save_phase c plan_id st phase payload next_index =
     op_then (in_journal (record_plan_attempt plan_id (phase_value phase) (phase_value (es_phase st))))
       (in_journal (save_execution_plan_state (xc_now c) plan_id (st\<lparr>es_phase := phase, es_payload := payload,
          es_next_child_index := (if next_index = [] then es_next_child_index st else next_index),
          es_last_error := JObj []\<rparr>)))"

definition pause_state :: "'w coordinator \<Rightarrow> string \<Rightarrow> plan_state \<Rightarrow> json \<Rightarrow> ('w execution, plan_state) op" where
  "pause_state c plan_id st error =
     in_journal (save_execution_plan_state (xc_now c) plan_id (st\<lparr>es_phase := PAUSED, es_last_error := error\<rparr>))"

definition get_state :: "string \<Rightarrow> ('w execution, plan_state) op" where
  "get_state plan_id = op_bind (ask (get_execution_plan_state plan_id)) op_result"

definition begin_plan ::
  "'w coordinator \<Rightarrow> child_plan \<Rightarrow> target_portfolio \<Rightarrow> string list \<Rightarrow> (string \<times> tradable_quote) list \<Rightarrow>
   (string \<times> instrument_metadata) list \<Rightarrow> ('w execution, plan_state) op" where
  "begin_plan c plan target universe quotes instruments =
     (let payload = \<lparr>pp_plan = plan, pp_target = target, pp_universe = universe, pp_quotes = quotes,
            pp_instruments = instruments, pp_replans = 0,
            pp_route_mode = (if xc_shadow c then ''shadow'' else if xc_can_route c then ''routed'' else ''disabled''),
            pp_buy_waiting = False\<rparr>;
          ok = child_plan_ok plan
      in op_then (in_journal (record_plan (xc_now c) (xp_plan_id plan) (xp_decision_id plan) (xp_instance_id plan)
             payload (if ok then ''planned'' else ''blocked'')))
           (in_journal (save_execution_plan_state (xc_now c) (xp_plan_id plan)
             \<lparr>es_decision_id = xp_decision_id plan, es_instance_id = xp_instance_id plan,
              es_config_hash = xp_config_hash plan, es_phase = (if ok then PHASE_PLANNED else PAUSED),
              es_recovery_version = 1, es_next_child_index = next_indices (xp_children plan) [],
              es_payload = payload,
              es_last_error = (if ok then JObj [] else JObj [(''rule'', JStr ''plan_issues''),
                 (''issues'', JArr (map plan_issue_json (xp_issues plan)))]),
              es_created_at = [], es_updated_at = []\<rparr>)))"

subsection \<open>Fills\<close>

definition capture_fill :: "'w coordinator \<Rightarrow> string \<Rightarrow> string list \<Rightarrow> child_fill \<Rightarrow> ('w execution, unit) op" where
  "capture_fill c plan_id references f =
     (let reference = cf_reference f; bad = (\<lambda>m. op_raise (ValueError m)) in
      if reference \<notin> set references then bad (''fill references an unexpected child '' @ quoted reference)
      else op_bind (ask (get_child_order reference)) (\<lambda>row.
        if (case row of None \<Rightarrow> True | Some r \<Rightarrow> co_plan_id r \<noteq> plan_id)
        then bad (''fill child '' @ quoted reference @ '' is not journalled for this plan'')
        else if cf_volume f \<le> 0 \<or> cf_price f \<le> 0
        then bad (''fill '' @ quoted reference @ '' has invalid volume or price'')
        else if cf_fill_key f = [] then bad (''fill '' @ quoted reference @ '' has no stable fill key'')
        else op_then (in_journal (record_fill_reconciliation (xc_now c) (cf_fill_key f) plan_id reference
               (cf_order_id f) (cf_volume f) (cf_price f))) (op_return ())))"

definition capture_fills :: "'w coordinator \<Rightarrow> string \<Rightarrow> string list \<Rightarrow> ('w execution, unit) op" where
  "capture_fills c plan_id references = (case po_fills (xc_ports c) of
     None \<Rightarrow> op_return ()
   | Some loader \<Rightarrow>
       if references = [] then op_return ()
       else op_bind (loader references) (\<lambda>fills. op_for fills (capture_fill c plan_id references)))"

text \<open>\<open>try: m  except Exception as exc\<close>: the exception, if there was one.\<close>

definition op_attempt :: "('s, unit) op \<Rightarrow> ('s, exn option) op" where
  "op_attempt m = op_catch (op_then m (op_return None)) (\<lambda>e. op_return (Some e))"

definition fills_failed :: "'w coordinator \<Rightarrow> string \<Rightarrow> plan_state \<Rightarrow> exn \<Rightarrow> ('w execution, plan_state) op" where
  "fills_failed c plan_id st e = pause_state c plan_id st
     (JObj [(''rule'', JStr ''fill_reconciliation_failed''), (''reason'', JStr (exn_text e))])"

subsection \<open>Waiting for reports\<close>

type_synonym reports = "string list \<times> (string \<times> string) list \<times> bool"

definition reconcile_child :: "'w coordinator \<Rightarrow> string \<Rightarrow> string \<Rightarrow> string \<Rightarrow> string \<Rightarrow> ('w execution, unit) op" where
  "reconcile_child c plan_id reference local_status status =
     op_then (in_journal (record_order_reconciliation plan_id reference local_status status))
       (in_journal (update_child_order (xc_now c) reference status []))"

definition wait_child ::
  "'w coordinator \<Rightarrow> child_plan \<Rightarrow> (string \<times> string) list \<Rightarrow> execution_child \<Rightarrow> reports \<Rightarrow> ('w execution, reports) op" where
  "wait_child c plan statuses ch acc = (case acc of (unknown, failed, active) \<Rightarrow>
     let reference = ec_reference ch in
     op_bind (ask (child_status reference)) (\<lambda>local_status.
       case map_of statuses reference of
         None \<Rightarrow> op_return
           (if local_status \<in> dead_statuses then (unknown, failed @ [(reference, local_status)], active)
            else if local_status \<notin> terminal_statuses then (unknown @ [reference], failed, active) else acc)
       | Some broker_status \<Rightarrow>
           let status = str_lower broker_status in
           op_then (reconcile_child c (xp_plan_id plan) reference local_status status)
             (op_return (unknown, if status \<in> dead_statuses then failed @ [(reference, status)] else failed,
                active \<or> status \<in> working_statuses))))"

fun wait_children ::
  "'w coordinator \<Rightarrow> child_plan \<Rightarrow> (string \<times> string) list \<Rightarrow> execution_child list \<Rightarrow> reports \<Rightarrow> ('w execution, reports) op" where
  "wait_children c plan statuses [] acc = op_return acc"
| "wait_children c plan statuses (ch # chs) acc =
     op_bind (wait_child c plan statuses ch acc) (\<lambda>acc'. wait_children c plan statuses chs acc')"

definition wait_outcome ::
  "'w coordinator \<Rightarrow> string \<Rightarrow> plan_state \<Rightarrow> plan_payload \<Rightarrow> execution_phase \<Rightarrow> reports \<Rightarrow> ('w execution, plan_state) op" where
  "wait_outcome c plan_id st payload complete_phase acc = (case acc of (unknown, failed, active) \<Rightarrow>
     if unknown \<noteq> [] then pause_state c plan_id st
       (JObj [(''rule'', JStr ''missing_broker_reports''), (''references'', texts_json unknown)])
     else if failed \<noteq> [] then pause_state c plan_id st
       (JObj [(''rule'', JStr ''child_order_not_filled''), (''orders'', JArr (map dead_child_json failed)),
              (''reason'', JStr ''a rejected or externally cancelled child requires reconciliation'')])
     else if active then op_return st
     else save_phase c plan_id st complete_phase (payload\<lparr>pp_buy_waiting := False\<rparr>) [])"

definition wait_phase ::
  "'w coordinator \<Rightarrow> string \<Rightarrow> plan_state \<Rightarrow> child_plan \<Rightarrow> plan_payload \<Rightarrow> string \<Rightarrow> execution_phase \<Rightarrow>
   ('w execution, plan_state) op" where
  "wait_phase c plan_id st plan payload side complete_phase =
     (let children = side_children side plan; references = map ec_reference children in
      op_bind (po_statuses (xc_ports c) references) (\<lambda>statuses.
      op_bind (wait_children c plan statuses children ([], [], False)) (\<lambda>acc.
      op_bind (op_attempt (capture_fills c (xp_plan_id plan) references)) (\<lambda>raised.
        case raised of
          Some e \<Rightarrow> fills_failed c plan_id st e
        | None \<Rightarrow> wait_outcome c plan_id st payload complete_phase acc))))"

subsection \<open>Routing children\<close>

definition already_routed :: "string \<Rightarrow> bool" where
  "already_routed status \<longleftrightarrow> status \<in> working_statuses \<union> terminal_statuses \<and> status \<noteq> ''planned''"

definition route_child ::
  "'w coordinator \<Rightarrow> child_plan \<Rightarrow> (string \<times> string) list \<Rightarrow> execution_child \<Rightarrow> ('w execution, bool) op" where
  "route_child c plan statuses ch =
     (let reference = ec_reference ch; observed = (case map_of statuses reference of Some s \<Rightarrow> s | None \<Rightarrow> []) in
      op_bind (ask (child_status reference)) (\<lambda>local_status.
      if already_routed (str_lower (or_text observed local_status)) then op_return False
      else op_bind (in_journal (record_child_order (xc_now c) reference (xp_plan_id plan) ch ''routing'' []))
        (\<lambda>inserted. if \<not> inserted then op_return False
         else op_bind (po_submit (xc_ports c) ch) (\<lambda>order_id.
           case (case order_id of None \<Rightarrow> [] | Some oid \<Rightarrow> oid) of
             [] \<Rightarrow> op_then (in_journal (update_child_order (xc_now c) reference ''rejected'' [])) (op_return False)
           | oid \<Rightarrow> op_then (in_journal (update_child_order (xc_now c) reference ''submitted'' oid)) (op_return True)))))"

fun route_children ::
  "'w coordinator \<Rightarrow> child_plan \<Rightarrow> (string \<times> string) list \<Rightarrow> execution_child list \<Rightarrow> bool \<Rightarrow> ('w execution, bool) op" where
  "route_children c plan statuses [] submitted = op_return submitted"
| "route_children c plan statuses (ch # chs) submitted =
     op_bind (route_child c plan statuses ch) (\<lambda>routed. route_children c plan statuses chs (submitted \<or> routed))"

definition route_phase ::
  "'w coordinator \<Rightarrow> string \<Rightarrow> plan_state \<Rightarrow> child_plan \<Rightarrow> plan_payload \<Rightarrow> string \<Rightarrow> ('w execution, plan_state) op" where
  "route_phase c plan_id st plan payload side =
     (let children = side_children side plan in
      if children = [] then
        save_phase c plan_id st (if side = ''sell'' then REFRESHING_ACCOUNT else FINAL_RECONCILE) payload []
      else op_bind (po_statuses (xc_ports c) (map ec_reference children)) (\<lambda>statuses.
        op_bind (route_children c plan statuses children False) (\<lambda>submitted.
          if side = ''sell'' then save_phase c plan_id st WAITING_SELL_REPORTS payload []
          else if submitted then save_phase c plan_id st BUYING (payload\<lparr>pp_buy_waiting := True\<rparr>) []
          else wait_phase c plan_id st plan payload ''buy'' FINAL_RECONCILE)))"

subsection \<open>Refreshing and the final comparison\<close>

definition refresh_plan ::
  "'w coordinator \<Rightarrow> string \<Rightarrow> plan_state \<Rightarrow> target_portfolio \<Rightarrow> plan_payload \<Rightarrow> account_snapshot \<Rightarrow>
   ('w execution, plan_state) op" where
  "refresh_plan c plan_id st target payload snapshot =
     op_bind (op_result (xc_planner c target snapshot (pp_quotes payload) (pp_instruments payload)
         (es_next_child_index st))) (\<lambda>plan.
       if \<not> child_plan_ok plan then pause_state c plan_id st
         (JObj [(''rule'', JStr ''replan_issues''), (''issues'', JArr (map plan_issue_json (xp_issues plan)))])
       else
         let payload' = payload\<lparr>pp_plan := plan, pp_replans := pp_replans payload + 1\<rparr> in
         if pp_replans payload' > xc_max_replans c then pause_state c plan_id st
           (JObj [(''rule'', JStr ''max_replans''), (''reason'', JStr ''execution did not converge'')])
         else save_phase c plan_id st
           (if side_children ''sell'' plan \<noteq> [] then SELLING
            else if side_children ''buy'' plan \<noteq> [] then BUYING else FINAL_RECONCILE)
           payload' (next_indices (xp_children plan) (es_next_child_index st)))"

definition compare_holdings ::
  "'w coordinator \<Rightarrow> string \<Rightarrow> plan_state \<Rightarrow> target_portfolio \<Rightarrow> plan_payload \<Rightarrow> ('w execution, plan_state) op" where
  "compare_holdings c plan_id st target payload =
     op_bind (po_snapshot (xc_ports c)) (\<lambda>snapshot.
       if dict_eq (held_positions (as_positions snapshot)) (held_positions (tp_holdings target)) \<and>
          as_active_order_deltas snapshot = []
       then save_phase c plan_id st COMPLETED payload []
       else refresh_plan c plan_id st target payload snapshot)"

text \<open>
  \<open>_wait_phase\<close> pops \<open>buy_waiting\<close> from the payload that it shares with its caller when it saves the phase.
\<close>

definition final_reconcile ::
  "'w coordinator \<Rightarrow> string \<Rightarrow> plan_state \<Rightarrow> target_portfolio \<Rightarrow> plan_payload \<Rightarrow> ('w execution, plan_state) op" where
  "final_reconcile c plan_id st target payload =
     (if side_children ''buy'' (pp_plan payload) = [] then compare_holdings c plan_id st target payload
      else op_bind (wait_phase c plan_id st (pp_plan payload) payload ''buy'' FINAL_RECONCILE) (\<lambda>waited.
        if es_phase waited \<noteq> FINAL_RECONCILE then op_return waited
        else compare_holdings c plan_id st target
          (payload\<lparr>pp_buy_waiting := pp_buy_waiting (es_payload waited)\<rparr>)))"

subsection \<open>Pausing\<close>

fun cancel_children :: "'w coordinator \<Rightarrow> (string \<times> string) list \<Rightarrow> string list \<Rightarrow> ('w execution, string list) op" where
  "cancel_children c [] failures = op_return failures"
| "cancel_children c ((reference, status) # rest) failures =
     (if str_lower status \<in> working_statuses
      then op_bind (po_cancel (xc_ports c) reference) (\<lambda>cancelled.
             cancel_children c rest (if cancelled then failures else failures @ [reference]))
      else cancel_children c rest failures)"

definition pause_plan :: "'w coordinator \<Rightarrow> string \<Rightarrow> string \<Rightarrow> ('w execution, plan_state) op" where
  "pause_plan c plan_id reason =
     op_bind (get_state plan_id) (\<lambda>st.
     op_bind (po_statuses (xc_ports c) (map ec_reference (xp_children (pp_plan (es_payload st))))) (\<lambda>statuses.
     op_bind (cancel_children c statuses []) (\<lambda>failures.
       pause_state c plan_id st (JObj [(''rule'', JStr ''operator_pause''), (''reason'', JStr reason),
         (''cancel_failures'', texts_json failures)]))))"

subsection \<open>Advancing\<close>

text \<open>The phases a shadow execution walks through.\<close>

fun shadow_next :: "execution_phase \<Rightarrow> execution_phase" where
  "shadow_next PHASE_PLANNED = SELLING"
| "shadow_next SELLING = WAITING_SELL_REPORTS"
| "shadow_next WAITING_SELL_REPORTS = REFRESHING_ACCOUNT"
| "shadow_next REFRESHING_ACCOUNT = BUYING"
| "shadow_next BUYING = FINAL_RECONCILE"
| "shadow_next FINAL_RECONCILE = COMPLETED"
| "shadow_next p = p"

definition settled_phase :: "execution_phase \<Rightarrow> bool" where
  "settled_phase p \<longleftrightarrow> p \<in> {COMPLETED, FAILED, PAUSED}"

definition advance_routed ::
  "'w coordinator \<Rightarrow> string \<Rightarrow> plan_state \<Rightarrow> account_snapshot \<Rightarrow> ('w execution, plan_state) op" where
  "advance_routed c plan_id st snapshot =
     (let payload = es_payload st; plan = pp_plan payload; target = pp_target payload in
      case es_phase st of
        PHASE_PLANNED \<Rightarrow> save_phase c plan_id st
          (if side_children ''sell'' plan \<noteq> [] then SELLING else REFRESHING_ACCOUNT) payload []
      | SELLING \<Rightarrow> route_phase c plan_id st plan payload ''sell''
      | WAITING_SELL_REPORTS \<Rightarrow> wait_phase c plan_id st plan payload ''sell'' REFRESHING_ACCOUNT
      | REFRESHING_ACCOUNT \<Rightarrow> refresh_plan c plan_id st target payload snapshot
      | BUYING \<Rightarrow> route_phase c plan_id st plan payload ''buy''
      | FINAL_RECONCILE \<Rightarrow> final_reconcile c plan_id st target payload
      | p \<Rightarrow> pause_state c plan_id st (JObj [(''rule'', JStr ''unknown_phase''), (''phase'', JStr (phase_value p))]))"

definition advance_open ::
  "'w coordinator \<Rightarrow> string \<Rightarrow> plan_state \<Rightarrow> account_snapshot \<Rightarrow> ('w execution, plan_state) op" where
  "advance_open c plan_id st snapshot =
     (let payload = es_payload st;
          issues = boundary_issues (xc_sha c) snapshot (pp_universe payload) (xc_expected_account_id c) None True in
      if issues \<noteq> [] then pause_state c plan_id st
        (JObj [(''rule'', JStr ''account_boundary''), (''issues'', JArr issues)])
      else if xc_shadow c then save_phase c plan_id st (shadow_next (es_phase st)) payload []
      else if \<not> xc_can_route c then pause_state c plan_id st
        (JObj [(''rule'', JStr ''routing_disabled''), (''reason'', JStr ''runtime cannot route'')])
      else advance_routed c plan_id st snapshot)"

definition advance_plan :: "'w coordinator \<Rightarrow> string \<Rightarrow> ('w execution, plan_state) op" where
  "advance_plan c plan_id =
     op_bind (get_state plan_id) (\<lambda>st.
       if settled_phase (es_phase st) then op_return st
       else op_bind (po_snapshot (xc_ports c)) (\<lambda>snapshot.
         let valid_until = tp_valid_until (pp_target (es_payload st)) in
         op_bind (op_result (if valid_until = [] then Inr False
             else timestamp_after (xc_fromisoformat c) (as_as_of snapshot) valid_until)) (\<lambda>expired.
           if expired then pause_plan c plan_id
             (''target expired at '' @ valid_until @ ''; observed '' @ as_as_of snapshot)
           else advance_open c plan_id st snapshot)))"

subsection \<open>Recovering\<close>

definition recover_child :: "'w coordinator \<Rightarrow> string \<Rightarrow> (string \<times> string) list \<Rightarrow> execution_child \<Rightarrow> ('w execution, unit) op" where
  "recover_child c plan_id statuses ch = (case map_of statuses (ec_reference ch) of
     None \<Rightarrow> op_return ()
   | Some status \<Rightarrow> op_bind (ask (child_status (ec_reference ch))) (\<lambda>local_status.
       reconcile_child c plan_id (ec_reference ch) local_status (str_lower status)))"

definition recover_reports ::
  "'w coordinator \<Rightarrow> string \<Rightarrow> plan_state \<Rightarrow> string list \<Rightarrow> (string \<times> string) list \<Rightarrow> ('w execution, plan_state) op" where
  "recover_reports c plan_id st references statuses =
     op_bind (ask (\<lambda>jn. sort (filter (\<lambda>r. r \<notin> fst ` set statuses \<and> child_status r jn \<notin> terminal_statuses) references)))
       (\<lambda>missing.
          if missing \<noteq> [] then pause_state c plan_id st
            (JObj [(''rule'', JStr ''missing_broker_reports''), (''references'', texts_json missing)])
          else op_then (op_for (xp_children (pp_plan (es_payload st))) (recover_child c plan_id statuses))
            (op_bind (op_attempt (capture_fills c plan_id references)) (\<lambda>raised. case raised of
               Some e \<Rightarrow> fills_failed c plan_id st e
             | None \<Rightarrow> get_state plan_id)))"

definition recover_plan :: "'w coordinator \<Rightarrow> string \<Rightarrow> ('w execution, plan_state) op" where
  "recover_plan c plan_id =
     op_bind (get_state plan_id) (\<lambda>st.
       if es_phase st \<in> {COMPLETED, FAILED} then op_return st
       else op_bind (po_snapshot (xc_ports c)) (\<lambda>snapshot.
         if as_external_orders snapshot \<noteq> [] then pause_state c plan_id st
           (JObj [(''rule'', JStr ''external_orders''), (''references'', texts_json (as_external_orders snapshot))])
         else op_bind (ask (\<lambda>jn. filter (\<lambda>r. get_child_order r jn \<noteq> None)
                (map ec_reference (xp_children (pp_plan (es_payload st)))))) (\<lambda>references.
           op_bind (if references = [] then op_return [] else po_statuses (xc_ports c) references)
             (recover_reports c plan_id st references))))"

end
