(* ===== verification/Execution_Safety.thy ===== *)
theory Execution_Safety
  imports Execution
begin

section \<open>What every execution keeps\<close>

subsection \<open>Rules for the coordinator's operations\<close>

lemma keeps_ask [simp]: "keeps I (ask f)"
  by (simp add: keeps_def ask_def)

lemma keeps_result [simp]: "keeps I (op_result r)"
  by (simp add: keeps_def op_result_def)

lemma keeps_in_journal:
  "(\<And>x. I x \<Longrightarrow> I (x\<lparr>xs_journal := snd (m (xs_journal x))\<rparr>)) \<Longrightarrow> keeps I (in_journal m)"
  by (simp add: keeps_def in_journal_def split_beta)

lemma keeps_in_world:
  "(\<And>x. I x \<Longrightarrow> I (x\<lparr>xs_world := snd (m (xs_world x))\<rparr>)) \<Longrightarrow> keeps I (in_world m)"
  by (simp add: keeps_def in_world_def split_beta)

lemma keeps_attempt: "keeps I m \<Longrightarrow> keeps I (op_attempt m)"
  unfolding op_attempt_def by (intro keeps_catch keeps_then keeps_return)

lemma keeps_if: "(b \<Longrightarrow> keeps I m) \<Longrightarrow> (\<not> b \<Longrightarrow> keeps I m') \<Longrightarrow> keeps I (if b then m else m')"
  by simp

lemma keeps_for_all: "(\<And>x. x \<in> set xs \<Longrightarrow> keeps I (f x)) \<Longrightarrow> keeps I (op_for xs f)"
proof (induction xs)
  case (Cons x xs)
  then have "keeps I (f x)" "keeps I (op_for xs f)" by simp_all
  then show ?case by (fastforce simp: keeps_def split: prod.splits sum.splits)
qed (simp add: keeps_def)

text \<open>What an operation does when the state it reads is known.\<close>

lemma get_state_bind:
  "op_bind (get_state plan_id) f x = (case map_of (jn_states (xs_journal x)) plan_id of
     None \<Rightarrow> (key_error (''unknown execution plan state '' @ quoted plan_id), x) | Some st \<Rightarrow> f st x)"
  by (simp add: get_state_def op_bind_def ask_def op_result_def get_execution_plan_state_def key_error_def split: option.split)

lemma get_state_keeps: "keeps I (get_state plan_id)"
  unfolding get_state_def by (intro keeps_bind keeps_ask keeps_result)

lemma keeps_get_state_bind:
  assumes "\<And>st x. I x \<Longrightarrow> map_of (jn_states (xs_journal x)) plan_id = Some st \<Longrightarrow> I (snd (f st x))"
  shows "keeps I (op_bind (get_state plan_id) f)"
  using assms by (auto simp: keeps_def get_state_bind split: option.split)

subsection \<open>An invariant of the coordinator\<close>

text \<open>
  What has to be known of a predicate on journal and world to conclude that the operations keep it:
  the ports keep it, the journal's writes keep it, routing one child keeps it, and the states that a
  plan in \<open>scope\<close> reads may be written back with any phase and any number of replans up to the bound.
\<close>

locale execution_invariant =
  fixes c :: "'w coordinator"
    and I :: "'w execution \<Rightarrow> bool"
    and scope :: "string \<Rightarrow> bool"
    and ok_state :: "string \<Rightarrow> plan_state \<Rightarrow> bool"
  assumes snapshot_keeps: "keeps I (po_snapshot (xc_ports c))"
    and statuses_keeps: "keeps I (po_statuses (xc_ports c) rs)"
    and fills_keeps: "po_fills (xc_ports c) = Some loader \<Longrightarrow> keeps I (loader rs)"
    and cancel_keeps: "keeps I (po_cancel (xc_ports c) r)"
    and plan_keeps: "keeps I (in_journal (record_plan now plan_id d i payload status))"
    and attempt_keeps: "keeps I (in_journal (record_plan_attempt plan_id phase from_phase))"
    and report_keeps: "keeps I (in_journal (record_order_reconciliation plan_id r l b))"
    and fill_keeps: "keeps I (in_journal (record_fill_reconciliation now k plan_id r oid v p))"
    and update_keeps: "keeps I (in_journal (update_child_order now r status oid))"
    and route_keeps: "keeps I (route_child c plan statuses ch)"
    and read_ok: "I x \<Longrightarrow> scope plan_id \<Longrightarrow> map_of (jn_states (xs_journal x)) plan_id = Some st \<Longrightarrow> ok_state plan_id st"
    and ok_again: "ok_state plan_id st \<Longrightarrow>
      pp_replans (es_payload st') \<le> max (pp_replans (es_payload st)) (xc_max_replans c) \<Longrightarrow> ok_state plan_id st'"
    and save_keeps: "ok_state plan_id st \<Longrightarrow> keeps I (in_journal (save_execution_plan_state now plan_id st))"
begin

lemma pause_state_keeps: "ok_state plan_id st \<Longrightarrow> keeps I (pause_state c plan_id st error)"
  unfolding pause_state_def by (rule save_keeps, rule ok_again, assumption) simp

lemma save_phase_keeps:
  assumes "ok_state plan_id st" "pp_replans payload \<le> max (pp_replans (es_payload st)) (xc_max_replans c)"
  shows "keeps I (save_phase c plan_id st phase payload ni)"
  unfolding save_phase_def
  by (intro keeps_then attempt_keeps save_keeps ok_again [OF assms(1)]) (simp add: assms(2))

lemma capture_fill_keeps: "keeps I (capture_fill c plan_id rs f)"
  unfolding capture_fill_def Let_def
  by (intro keeps_if keeps_bind keeps_then keeps_raise keeps_ask keeps_return fill_keeps)

lemma capture_fills_keeps: "keeps I (capture_fills c plan_id rs)"
  unfolding capture_fills_def
  by (cases "po_fills (xc_ports c)")
    (auto intro!: keeps_bind keeps_for capture_fill_keeps fills_keeps)

lemma reconcile_child_keeps: "keeps I (reconcile_child c plan_id r l b)"
  unfolding reconcile_child_def by (intro keeps_then report_keeps update_keeps)

lemma wait_child_keeps: "keeps I (wait_child c plan statuses ch acc)"
  unfolding wait_child_def Let_def
  by (cases acc; cases "map_of statuses (ec_reference ch)")
    (auto intro!: keeps_bind keeps_then reconcile_child_keeps)

lemma wait_children_keeps: "keeps I (wait_children c plan statuses chs acc)"
  by (induction chs arbitrary: acc) (auto intro!: keeps_bind wait_child_keeps)

lemma route_children_keeps: "keeps I (route_children c plan statuses chs b)"
  by (induction chs arbitrary: b) (auto intro!: keeps_bind route_keeps)

lemma wait_outcome_keeps:
  assumes "ok_state plan_id st" "pp_replans payload \<le> max (pp_replans (es_payload st)) (xc_max_replans c)"
  shows "keeps I (wait_outcome c plan_id st payload complete_phase acc)"
  using assms unfolding wait_outcome_def
  by (cases acc) (auto intro!: pause_state_keeps save_phase_keeps)

lemma wait_phase_keeps:
  assumes "ok_state plan_id st" "pp_replans payload \<le> max (pp_replans (es_payload st)) (xc_max_replans c)"
  shows "keeps I (wait_phase c plan_id st plan payload side complete_phase)"
  unfolding wait_phase_def Let_def fills_failed_def
  by (intro keeps_bind statuses_keeps wait_children_keeps keeps_attempt capture_fills_keeps)
    (auto intro!: pause_state_keeps wait_outcome_keeps assms split: option.split)

lemma route_phase_keeps:
  assumes "ok_state plan_id st" "pp_replans payload \<le> max (pp_replans (es_payload st)) (xc_max_replans c)"
  shows "keeps I (route_phase c plan_id st plan payload side)"
  unfolding route_phase_def Let_def
  by (intro keeps_if keeps_bind statuses_keeps route_children_keeps save_phase_keeps wait_phase_keeps assms)
    (simp_all add: assms)

lemma refresh_keeps:
  assumes "ok_state plan_id st"
  shows "keeps I (refresh_plan c plan_id st target payload snapshot)"
  unfolding refresh_plan_def Let_def
  by (intro keeps_bind keeps_result keeps_if pause_state_keeps save_phase_keeps assms) simp_all

lemma compare_keeps:
  assumes "ok_state plan_id st" "pp_replans payload \<le> max (pp_replans (es_payload st)) (xc_max_replans c)"
  shows "keeps I (compare_holdings c plan_id st target payload)"
  unfolding compare_holdings_def
  by (intro keeps_bind snapshot_keeps keeps_if save_phase_keeps refresh_keeps assms)

lemma final_keeps:
  assumes "ok_state plan_id st" "pp_replans payload \<le> max (pp_replans (es_payload st)) (xc_max_replans c)"
  shows "keeps I (final_reconcile c plan_id st target payload)"
  unfolding final_reconcile_def
  by (intro keeps_if compare_keeps keeps_bind wait_phase_keeps keeps_return assms) (simp_all add: assms)

lemma cancel_children_keeps: "keeps I (cancel_children c statuses failures)"
proof (induction statuses arbitrary: failures)
  case (Cons p rest)
  obtain r s where "p = (r, s)" by fastforce
  with Cons show ?case by (auto intro!: keeps_bind cancel_keeps)
qed simp

lemma keeps_scoped:
  assumes "scope plan_id" "\<And>st. ok_state plan_id st \<Longrightarrow> keeps I (f st)"
  shows "keeps I (op_bind (get_state plan_id) f)"
proof (rule keeps_get_state_bind)
  fix st x
  assume x: "I x" "map_of (jn_states (xs_journal x)) plan_id = Some st"
  with assms have "keeps I (f st)" by (blast intro: read_ok)
  with x(1) show "I (snd (f st x))" by (simp add: keepsD)
qed

lemma pause_plan_keeps: "scope plan_id \<Longrightarrow> keeps I (pause_plan c plan_id reason)"
  unfolding pause_plan_def
  by (intro keeps_scoped keeps_bind statuses_keeps cancel_children_keeps pause_state_keeps)

lemma advance_routed_keeps:
  assumes "ok_state plan_id st"
  shows "keeps I (advance_routed c plan_id st snapshot)"
  unfolding advance_routed_def Let_def
  using assms by (cases "es_phase st")
    (auto intro!: save_phase_keeps route_phase_keeps wait_phase_keeps refresh_keeps final_keeps pause_state_keeps)

lemma advance_open_keeps: "ok_state plan_id st \<Longrightarrow> keeps I (advance_open c plan_id st snapshot)"
  unfolding advance_open_def Let_def
  by (intro keeps_if pause_state_keeps save_phase_keeps advance_routed_keeps) simp_all

lemma advance_plan_keeps: "scope plan_id \<Longrightarrow> keeps I (advance_plan c plan_id)"
  unfolding advance_plan_def Let_def
  by (intro keeps_scoped keeps_if keeps_bind keeps_return snapshot_keeps keeps_result pause_plan_keeps
      advance_open_keeps)

lemma recover_child_keeps: "keeps I (recover_child c plan_id statuses ch)"
  unfolding recover_child_def
  by (cases "map_of statuses (ec_reference ch)") (auto intro!: keeps_bind reconcile_child_keeps)

lemma recover_reports_keeps: "ok_state plan_id st \<Longrightarrow> keeps I (recover_reports c plan_id st rs statuses)"
  unfolding recover_reports_def fills_failed_def
  by (intro keeps_bind keeps_ask keeps_if keeps_then pause_state_keeps keeps_for recover_child_keeps keeps_attempt
      capture_fills_keeps) (auto intro!: pause_state_keeps get_state_keeps split: option.split)

lemma recover_plan_keeps: "scope plan_id \<Longrightarrow> keeps I (recover_plan c plan_id)"
  unfolding recover_plan_def
  by (intro keeps_scoped keeps_bind keeps_if keeps_return keeps_ask snapshot_keeps statuses_keeps pause_state_keeps
      recover_reports_keeps)

end

subsection \<open>At most one submission per child\<close>

text \<open>
  What a client relies on in the ports: \<open>handed\<close> is the list of the references that went to the broker
  so far, only \<open>submit_child\<close> adds to it, and only the reference of its child; of the journal a port may
  write the captured fills and nothing else.
\<close>

definition fills_only :: "journal \<Rightarrow> journal \<Rightarrow> bool" where
  "fills_only j j' \<longleftrightarrow> j' = j\<lparr>jn_fills := jn_fills j'\<rparr>"

lemma fills_only_kept:
  assumes "fills_only j j'"
  shows "jn_children j' = jn_children j" "jn_states j' = jn_states j" "jn_instances j' = jn_instances j"
    "jn_plans j' = jn_plans j"
proof -
  from assms obtain fl where "j' = j\<lparr>jn_fills := fl\<rparr>" unfolding fills_only_def by blast
  then show "jn_children j' = jn_children j" "jn_states j' = jn_states j" "jn_instances j' = jn_instances j"
    "jn_plans j' = jn_plans j" by simp_all
qed

lemma fills_only_refl [simp]: "fills_only j j"
  by (simp add: fills_only_def)

lemma fills_only_set [simp]: "fills_only j (j\<lparr>jn_fills := fl\<rparr>)"
  by (simp add: fills_only_def)

definition quiet_step :: "('w \<Rightarrow> string list) \<Rightarrow> 'w execution \<Rightarrow> 'w execution \<Rightarrow> bool" where
  "quiet_step handed x y \<longleftrightarrow> handed (xs_world y) = handed (xs_world x) \<and> fills_only (xs_journal x) (xs_journal y)"

lemma quiet_stepD:
  assumes "quiet_step handed x y"
  shows "handed (xs_world y) = handed (xs_world x)" "fills_only (xs_journal x) (xs_journal y)"
  using assms by (simp_all add: quiet_step_def)

locale execution_ports =
  fixes P :: "'w ports" and handed :: "'w \<Rightarrow> string list"
  assumes snapshot_quiet: "quiet_step handed x (snd (po_snapshot P x))"
    and statuses_quiet: "quiet_step handed x (snd (po_statuses P rs x))"
    and fills_quiet: "po_fills P = Some loader \<Longrightarrow> quiet_step handed x (snd (loader rs x))"
    and cancel_quiet: "quiet_step handed x (snd (po_cancel P r x))"
    and submit_journal: "fills_only (xs_journal x) (xs_journal (snd (po_submit P ch x)))"
    and submit_hands: "handed (xs_world (snd (po_submit P ch x))) = handed (xs_world x) \<or>
      handed (xs_world (snd (po_submit P ch x))) = handed (xs_world x) @ [ec_reference ch]"

text \<open>Every reference handed over is journalled, and none is handed over twice.\<close>

definition handed_once :: "('w \<Rightarrow> string list) \<Rightarrow> 'w execution \<Rightarrow> bool" where
  "handed_once handed x \<longleftrightarrow> distinct (handed (xs_world x)) \<and>
     set (handed (xs_world x)) \<subseteq> fst ` set (jn_children (xs_journal x))"

lemma handed_once_world:
  "handed w = handed (xs_world x) \<Longrightarrow> handed_once handed (x\<lparr>xs_world := w\<rparr>) = handed_once handed x"
  by (simp add: handed_once_def)

lemma handed_once_quiet: "quiet_step handed x y \<Longrightarrow> handed_once handed x \<Longrightarrow> handed_once handed y"
  by (simp add: handed_once_def fills_only_kept(1) [OF quiet_stepD(2)] quiet_stepD(1))

lemma quiet_keeps_handed: "(\<And>x. quiet_step handed x (snd (m x))) \<Longrightarrow> keeps (handed_once handed) m"
  by (blast intro: keepsI handed_once_quiet)

lemma handed_once_journal:
  "handed_once handed x \<Longrightarrow> fst ` set (jn_children (xs_journal x)) \<subseteq> fst ` set (jn_children j) \<Longrightarrow>
   handed_once handed (x\<lparr>xs_journal := j\<rparr>)"
  by (auto simp: handed_once_def)

lemma child_keys:
  "fst ` set (jn_children (snd (record_plan now p d i pl s j))) = fst ` set (jn_children j)"
  "fst ` set (jn_children (snd (save_execution_plan_state now p st j))) = fst ` set (jn_children j)"
  "fst ` set (jn_children (snd (record_plan_attempt p ph fp j))) = fst ` set (jn_children j)"
  "fst ` set (jn_children (snd (record_order_reconciliation p r l b j))) = fst ` set (jn_children j)"
  "fst ` set (jn_children (snd (record_fill_reconciliation now k p r oid v pr j))) = fst ` set (jn_children j)"
  "fst ` set (jn_children (snd (update_child_order now r s oid j))) = fst ` set (jn_children j)"
  by (auto simp: record_plan_def save_execution_plan_state_def record_plan_attempt_def record_order_reconciliation_def
      record_fill_reconciliation_def update_child_order_def Let_def dom_update dict_set_keys insert_absorb
      dest: map_of_key split: option.split simp del: map_of_eq_Some_iff)

lemma recorded_child_key:
  "fst ` set (jn_children (snd (record_child_order now r p ch s oid j))) = insert r (fst ` set (jn_children j))"
  "fst (record_child_order now r p ch s oid j) = Inr (r \<notin> fst ` set (jn_children j))"
  by (auto simp: record_child_order_def insert_or_ignore_def dict_set_keys insert_absorb map_of_eq_None_iff
      dest: map_of_key split: option.split simp del: map_of_eq_Some_iff)

lemma states_kept:
  "jn_states (snd (record_plan now p d i pl s j)) = jn_states j"
  "jn_states (snd (record_plan_attempt p ph fp j)) = jn_states j"
  "jn_states (snd (record_order_reconciliation p r l b j)) = jn_states j"
  "jn_states (snd (record_fill_reconciliation now k p r oid v pr j)) = jn_states j"
  "jn_states (snd (update_child_order now r s oid j)) = jn_states j"
  "jn_states (snd (record_child_order now r p ch s oid j)) = jn_states j"
  by (simp_all add: record_plan_def record_plan_attempt_def record_order_reconciliation_def
      record_fill_reconciliation_def update_child_order_def record_child_order_def Let_def split: option.split)

lemma updated_child:
  "op_then (in_journal (update_child_order now r status oid)) (op_return b) z =
     (Inr b, z\<lparr>xs_journal := snd (update_child_order now r status oid (xs_journal z))\<rparr>)"
  by (simp add: op_then_def op_bind_def op_return_def in_journal_def update_child_order_def)

lemma updated_child_cases:
  "\<exists>r j'. (case oid of [] \<Rightarrow> op_then (in_journal (update_child_order now ref s [])) (op_return b)
       | a # as \<Rightarrow> op_then (in_journal (update_child_order now ref s' (a # as))) (op_return b')) z =
     (r, z\<lparr>xs_journal := j'\<rparr>) \<and> fst ` set (jn_children j') = fst ` set (jn_children (xs_journal z)) \<and>
     jn_states j' = jn_states (xs_journal z)"
proof (cases oid)
  case Nil
  show ?thesis unfolding Nil list.case updated_child
    by (intro exI conjI, rule refl, rule child_keys, rule states_kept)
next
  case (Cons a as)
  show ?thesis unfolding Cons list.case updated_child
    by (intro exI conjI, rule refl, rule child_keys, rule states_kept)
qed

lemma route_child_cases:
  obtains "route_child c plan statuses ch x = (Inr False, x)"
  | j where "ec_reference ch \<in> fst ` set (jn_children (xs_journal x))"
      "fst ` set (jn_children j) = fst ` set (jn_children (xs_journal x))" "jn_states j = jn_states (xs_journal x)"
      "route_child c plan statuses ch x = (Inr False, x\<lparr>xs_journal := j\<rparr>)"
  | j j' r where "ec_reference ch \<notin> fst ` set (jn_children (xs_journal x))"
      "fst ` set (jn_children j) = insert (ec_reference ch) (fst ` set (jn_children (xs_journal x)))"
      "jn_states j = jn_states (xs_journal x)"
      "fst ` set (jn_children j') = fst ` set (jn_children (xs_journal (snd (po_submit (xc_ports c) ch (x\<lparr>xs_journal := j\<rparr>)))))"
      "jn_states j' = jn_states (xs_journal (snd (po_submit (xc_ports c) ch (x\<lparr>xs_journal := j\<rparr>))))"
      "route_child c plan statuses ch x = (r, (snd (po_submit (xc_ports c) ch (x\<lparr>xs_journal := j\<rparr>)))\<lparr>xs_journal := j'\<rparr>)"
proof -
  let ?r = "ec_reference ch"
  let ?rec = "record_child_order (xc_now c) ?r (xp_plan_id plan) ch ''routing'' [] (xs_journal x)"
  let ?y = "x\<lparr>xs_journal := snd ?rec\<rparr>"
  let ?sub = "po_submit (xc_ports c) ch ?y"
  let ?known = "str_lower (or_text (case map_of statuses ?r of Some s \<Rightarrow> s | None \<Rightarrow> []) (child_status ?r (xs_journal x)))"
  show thesis
  proof (cases "already_routed ?known")
    case True
    then have "route_child c plan statuses ch x = (Inr False, x)"
      by (simp add: route_child_def op_bind_def ask_def op_return_def Let_def)
    then show thesis by (rule that(1))
  next
    case False
    note go = False
    show thesis
    proof (cases "?r \<in> fst ` set (jn_children (xs_journal x))")
      case True
      with go have "route_child c plan statuses ch x = (Inr False, ?y)"
        unfolding route_child_def op_bind_def ask_def op_return_def Let_def in_journal_def
        by (simp add: split_beta recorded_child_key)
      with True that(2) [of "snd ?rec"] show thesis by (auto simp: recorded_child_key states_kept)
    next
      case new: False
      have "\<exists>j' r. fst ` set (jn_children j') = fst ` set (jn_children (xs_journal (snd ?sub))) \<and>
          jn_states j' = jn_states (xs_journal (snd ?sub)) \<and>
          route_child c plan statuses ch x = (r, (snd ?sub)\<lparr>xs_journal := j'\<rparr>)"
      proof (cases "fst ?sub")
        case (Inl e)
        with go new have "route_child c plan statuses ch x = (Inl e, (snd ?sub)\<lparr>xs_journal := xs_journal (snd ?sub)\<rparr>)"
          unfolding route_child_def op_bind_def ask_def op_return_def Let_def in_journal_def
          by (simp add: split_beta recorded_child_key)
        then show ?thesis by blast
      next
        case (Inr oid)
        let ?oid = "case oid of None \<Rightarrow> [] | Some oid \<Rightarrow> oid"
        let ?upd = "\<lambda>s oid b. op_then (in_journal (update_child_order (xc_now c) ?r s oid)) (op_return b)"
        have "route_child c plan statuses ch x = (case ?oid of [] \<Rightarrow> ?upd ''rejected'' [] False
            | a # oid \<Rightarrow> ?upd ''submitted'' (a # oid) True) (snd ?sub)"
          using go new Inr unfolding route_child_def op_bind_def ask_def op_return_def Let_def in_journal_def
          by (simp add: split_beta recorded_child_key)
        with updated_child_cases [where oid = ?oid and now = "xc_now c" and ref = ?r and s = "''rejected''" and b = False
            and s' = "''submitted''" and b' = True and z = "snd ?sub"]
        show ?thesis by auto
      qed
      then obtain j' r where "fst ` set (jn_children j') = fst ` set (jn_children (xs_journal (snd ?sub)))"
        "jn_states j' = jn_states (xs_journal (snd ?sub))"
        "route_child c plan statuses ch x = (r, (snd ?sub)\<lparr>xs_journal := j'\<rparr>)" by blast
      with new that(3) [of "snd ?rec" j' r] show thesis by (simp add: recorded_child_key states_kept)
    qed
  qed
qed

context execution_ports begin

lemma route_child_handed_once:
  assumes "xc_ports c = P"
  shows "keeps (handed_once handed) (route_child c plan statuses ch)"
proof (rule keepsI)
  fix x
  assume once: "handed_once handed x"
  show "handed_once handed (snd (route_child c plan statuses ch x))"
  proof (cases rule: route_child_cases [of c plan statuses ch x])
    case 1
    with once show ?thesis by simp
  next
    case (2 j)
    with once show ?thesis by (simp add: handed_once_journal)
  next
    case (3 j j' r)
    let ?z = "snd (po_submit (xc_ports c) ch (x\<lparr>xs_journal := j\<rparr>))"
    have "fst ` set (jn_children (xs_journal ?z)) = insert (ec_reference ch) (fst ` set (jn_children (xs_journal x)))"
      using submit_journal [of "x\<lparr>xs_journal := j\<rparr>" ch] 3(2) assms by (simp add: fills_only_kept)
    with 3 show ?thesis using once submit_hands [of ch "x\<lparr>xs_journal := j\<rparr>"] assms by (auto simp: handed_once_def)
  qed
qed

lemma handed_once_invariant:
  assumes "xc_ports c = P"
  shows "execution_invariant c (handed_once handed) (\<lambda>_. True) (\<lambda>_ _. True)"
proof
  fix rs loader
  show "keeps (handed_once handed) (po_snapshot (xc_ports c))"
    "keeps (handed_once handed) (po_statuses (xc_ports c) rs)"
    "\<And>r. keeps (handed_once handed) (po_cancel (xc_ports c) r)"
    unfolding assms by (intro quiet_keeps_handed snapshot_quiet statuses_quiet cancel_quiet)+
  show "keeps (handed_once handed) (loader rs)" if "po_fills (xc_ports c) = Some loader"
    using that unfolding assms by (intro quiet_keeps_handed fills_quiet)
qed (rule keeps_in_journal, rule handed_once_journal, assumption, simp add: child_keys | rule route_child_handed_once [OF assms]
    | simp)+

end

subsection \<open>Runs\<close>

datatype coordinator_action =
    Begin child_plan target_portfolio "string list" "(string \<times> tradable_quote) list" "(string \<times> instrument_metadata) list"
  | Advance string
  | Recover string
  | Pause string string

fun perform :: "'w coordinator \<Rightarrow> coordinator_action \<Rightarrow> ('w execution, plan_state) op" where
  "perform c (Begin plan target universe quotes instruments) = begin_plan c plan target universe quotes instruments"
| "perform c (Advance plan_id) = advance_plan c plan_id"
| "perform c (Recover plan_id) = recover_plan c plan_id"
| "perform c (Pause plan_id reason) = pause_plan c plan_id reason"

text \<open>
  Any coordinators act on one journal, in any order, returning or raising; in between the world moves
  by itself along \<open>env\<close>.
\<close>

inductive execution_run ::
  "('w coordinator \<Rightarrow> coordinator_action \<Rightarrow> bool) \<Rightarrow> ('w \<Rightarrow> 'w \<Rightarrow> bool) \<Rightarrow> 'w execution \<Rightarrow> 'w execution \<Rightarrow> bool"
  for may env x where
  run_done: "execution_run may env x x"
| run_act: "execution_run may env x y \<Longrightarrow> may c a \<Longrightarrow> execution_run may env x (snd (perform c a y))"
| run_env: "execution_run may env x y \<Longrightarrow> env (xs_world y) w \<Longrightarrow> execution_run may env x (y\<lparr>xs_world := w\<rparr>)"

lemma execution_run_keeps:
  assumes "execution_run may env x y" "I x" "\<And>c a. may c a \<Longrightarrow> keeps I (perform c a)"
    "\<And>z w. I z \<Longrightarrow> env (xs_world z) w \<Longrightarrow> I (z\<lparr>xs_world := w\<rparr>)"
  shows "I y"
  using assms(1)
proof induction
  case run_done
  show ?case by (rule assms(2))
next
  case (run_act y c a)
  then show ?case using assms(3) by (blast intro: keepsD)
next
  case (run_env y w)
  then show ?case using assms(4) by blast
qed

context execution_invariant begin

text \<open>The plan that an action begins may be new; the plan that another action works on is in scope.\<close>

lemma begin_plan_keeps:
  assumes "\<And>st. pp_replans (es_payload st) = 0 \<Longrightarrow> ok_state (xp_plan_id plan) st"
  shows "keeps I (begin_plan c plan target universe quotes instruments)"
  unfolding begin_plan_def Let_def
  by (intro keeps_then plan_keeps save_keeps assms) simp

lemma perform_keeps:
  assumes "\<And>plan target universe quotes instruments st. a = Begin plan target universe quotes instruments \<Longrightarrow>
      pp_replans (es_payload st) = 0 \<Longrightarrow> ok_state (xp_plan_id plan) st"
    "\<And>plan_id reason. a \<in> {Advance plan_id, Recover plan_id, Pause plan_id reason} \<Longrightarrow> scope plan_id"
  shows "keeps I (perform c a)"
  using assms by (cases a) (auto intro!: begin_plan_keeps advance_plan_keeps recover_plan_keeps pause_plan_keeps)

end

text \<open>Whatever the coordinators do, no child goes to the broker twice.\<close>

lemma handed_once_run:
  assumes "execution_run may env x y" "handed_once handed x"
    "\<And>c a. may c a \<Longrightarrow> execution_ports (xc_ports c) handed" "\<And>w w'. env w w' \<Longrightarrow> handed w' = handed w"
  shows "handed_once handed y"
proof (rule execution_run_keeps [where I = "handed_once handed", OF assms(1,2)])
  fix c a
  assume "may c a"
  then have ports: "execution_ports (xc_ports c) handed" by (rule assms(3))
  show "keeps (handed_once handed) (perform c a)"
    by (rule execution_invariant.perform_keeps [OF execution_ports.handed_once_invariant [OF ports refl]]) simp_all
qed (simp add: handed_once_world assms(4))

subsection \<open>A paused plan stays paused\<close>

definition plan_paused :: "string \<Rightarrow> 'w execution \<Rightarrow> bool" where
  "plan_paused plan_id x \<longleftrightarrow> (\<exists>st. map_of (jn_states (xs_journal x)) plan_id = Some st \<and> es_phase st = PAUSED)"

definition begins_plan :: "string \<Rightarrow> coordinator_action \<Rightarrow> bool" where
  "begins_plan plan_id a \<longleftrightarrow> (case a of Begin plan _ _ _ _ \<Rightarrow> xp_plan_id plan = plan_id | _ \<Rightarrow> False)"

lemma plan_paused_journal:
  assumes "map_of (jn_states j) plan_id = map_of (jn_states (xs_journal x)) plan_id" "plan_paused plan_id x"
  shows "plan_paused plan_id (x\<lparr>xs_journal := j\<rparr>)"
  using assms by (simp add: plan_paused_def)

lemma plan_paused_world [simp]: "plan_paused plan_id (x\<lparr>xs_world := w\<rparr>) = plan_paused plan_id x"
  by (simp add: plan_paused_def)

lemma save_state_get:
  "map_of (jn_states (snd (save_execution_plan_state now p st j))) q =
     (if q = p \<and> es_instance_id (upserted_state now (map_of (jn_states j) p) st) \<in> set (jn_instances j)
      then Some (upserted_state now (map_of (jn_states j) p) st) else map_of (jn_states j) q)"
  by (simp add: save_execution_plan_state_def Let_def AList.update_conv')

lemma upserted_fields [simp]:
  "es_phase (upserted_state now old st) = es_phase st" "es_payload (upserted_state now old st) = es_payload st"
  "es_last_error (upserted_state now old st) = es_last_error st"
  "es_next_child_index (upserted_state now old st) = es_next_child_index st"
  by (simp_all add: upserted_state_def split: option.split)

lemma plan_paused_quiet: "quiet_step handed x y \<Longrightarrow> plan_paused plan_id x \<Longrightarrow> plan_paused plan_id y"
  by (simp add: plan_paused_def fills_only_kept(2) [OF quiet_stepD(2)])

lemma quiet_keeps_paused: "(\<And>x. quiet_step handed x (snd (m x))) \<Longrightarrow> keeps (plan_paused q) m"
  by (blast intro: keepsI plan_paused_quiet)

lemma pause_state_paused: "keeps (plan_paused p) (pause_state c p st error)"
  unfolding pause_state_def
  by (rule keeps_in_journal) (auto simp: plan_paused_def save_state_get)

lemma advance_paused: "plan_paused p x \<Longrightarrow> snd (advance_plan c p x) = x"
  by (auto simp: plan_paused_def advance_plan_def get_state_bind settled_phase_def op_return_def)

context execution_ports begin

lemma route_child_states:
  assumes "xc_ports c = P"
  shows "jn_states (xs_journal (snd (route_child c plan statuses ch x))) = jn_states (xs_journal x)"
proof (cases rule: route_child_cases [of c plan statuses ch x])
  case (3 j j' r)
  with submit_journal [of "x\<lparr>xs_journal := j\<rparr>" ch] assms show ?thesis by (simp add: fills_only_kept)
qed simp_all

lemma ports_keep_paused:
  assumes "xc_ports c = P"
  shows "keeps (plan_paused q) (po_snapshot (xc_ports c))" "keeps (plan_paused q) (po_statuses (xc_ports c) rs)"
    "keeps (plan_paused q) (po_cancel (xc_ports c) r)"
    "po_fills (xc_ports c) = Some loader \<Longrightarrow> keeps (plan_paused q) (loader rs)"
  unfolding assms
  by (rule quiet_keeps_paused, rule snapshot_quiet statuses_quiet cancel_quiet)+
    (rule quiet_keeps_paused, rule fills_quiet)

text \<open>Work on other plans.\<close>

lemma paused_elsewhere:
  assumes "xc_ports c = P"
  shows "execution_invariant c (plan_paused q) (\<lambda>p. p \<noteq> q) (\<lambda>p _. p \<noteq> q)"
proof
  show "keeps (plan_paused q) (route_child c plan statuses ch)" for plan statuses ch
    by (rule keepsI) (simp add: plan_paused_def route_child_states [OF assms])
  show "keeps (plan_paused q) (in_journal (save_execution_plan_state now p st))" if "p \<noteq> q" for now p st
    using that by (intro keeps_in_journal plan_paused_journal) (simp_all add: save_state_get)
qed (use ports_keep_paused [OF assms] in \<open>simp_all add: states_kept plan_paused_journal keeps_in_journal\<close>)

text \<open>Work on the plan itself.\<close>

lemma elsewhere_rules:
  assumes "xc_ports c = P"
  shows "keeps (plan_paused p) (po_snapshot (xc_ports c))"
    "keeps (plan_paused p) (po_statuses (xc_ports c) rs)"
    "keeps (plan_paused p) (cancel_children c statuses failures)"
    "keeps (plan_paused p) (capture_fills c plan_id rs)"
    "keeps (plan_paused p) (recover_child c plan_id statuses ch)"
    "keeps (plan_paused p) (get_state plan_id)"
  using paused_elsewhere [OF assms, of p]
  by (simp_all add: execution_invariant.snapshot_keeps execution_invariant.statuses_keeps
      execution_invariant.cancel_children_keeps execution_invariant.capture_fills_keeps
      execution_invariant.recover_child_keeps get_state_keeps)

lemma pause_plan_paused: "xc_ports c = P \<Longrightarrow> keeps (plan_paused p) (pause_plan c p reason)"
  unfolding pause_plan_def
  by (intro keeps_bind elsewhere_rules pause_state_paused)

lemma recover_plan_paused:
  assumes "xc_ports c = P"
  shows "keeps (plan_paused p) (recover_plan c p)"
  unfolding recover_plan_def recover_reports_def fills_failed_def
  by (intro keeps_bind keeps_if keeps_then keeps_return keeps_ask keeps_for keeps_attempt elsewhere_rules [OF assms]
      pause_state_paused)
    (auto intro: elsewhere_rules [OF assms] pause_state_paused split: option.split)

lemma perform_paused:
  assumes "xc_ports c = P" "\<not> begins_plan q a"
  shows "keeps (plan_paused q) (perform c a)"
proof (cases "a = Advance q \<or> a = Recover q \<or> (\<exists>reason. a = Pause q reason)")
  case True
  then show ?thesis
    by (auto simp: recover_plan_paused assms(1) pause_plan_paused keeps_def [of _ "advance_plan c q"] advance_paused)
next
  case False
  with assms(2) show ?thesis
    by (intro execution_invariant.perform_keeps [OF paused_elsewhere [OF assms(1)]]) (auto simp: begins_plan_def)
qed

end

lemma plan_paused_run:
  assumes "execution_run may env x y" "plan_paused q x"
    "\<And>c a. may c a \<Longrightarrow> execution_ports (xc_ports c) handed \<and> \<not> begins_plan q a"
  shows "plan_paused q y"
  by (rule execution_run_keeps [where I = "plan_paused q", OF assms(1,2)])
    (use assms(3) in \<open>auto intro: execution_ports.perform_paused\<close>)

end
