(* ===== verification/Execution_Phases.thy ===== *)
theory Execution_Phases
  imports Execution_Safety
begin

section \<open>The phases of an execution\<close>

text \<open>
  What a returned plan state says: an abstract phase machine, the comparison that completes a plan, the
  bound on replans, shadow executions, and the reconciliation of fills and statuses.
\<close>

subsection \<open>Results of operations\<close>

text \<open>\<open>yields Q m\<close>: when \<open>m\<close> returns, its result and the state after it satisfy \<open>Q\<close>.\<close>

definition yields :: "('a \<Rightarrow> 's \<Rightarrow> bool) \<Rightarrow> ('s, 'a) op \<Rightarrow> bool" where
  "yields Q m \<longleftrightarrow> (\<forall>x a y. m x = (Inr a, y) \<longrightarrow> Q a y)"

lemma yieldsI: "(\<And>x a y. m x = (Inr a, y) \<Longrightarrow> Q a y) \<Longrightarrow> yields Q m"
  by (simp add: yields_def)

lemma yieldsD: "yields Q m \<Longrightarrow> m x = (Inr a, y) \<Longrightarrow> Q a y"
  by (simp add: yields_def)

lemma yields_bind: "(\<And>a. yields Q (f a)) \<Longrightarrow> yields Q (op_bind m f)"
  by (auto simp: yields_def op_bind_def split: prod.splits sum.splits)

lemma yields_then: "yields Q k \<Longrightarrow> yields Q (op_then m k)"
  unfolding op_then_def by (rule yields_bind)

lemma yields_return: "(\<And>x. Q a x) \<Longrightarrow> yields Q (op_return a)"
  by (simp add: yields_def op_return_def)

lemma yields_if: "(b \<Longrightarrow> yields Q m) \<Longrightarrow> (\<not> b \<Longrightarrow> yields Q m') \<Longrightarrow> yields Q (if b then m else m')"
  by simp

lemma yields_weaken: "yields Q m \<Longrightarrow> (\<And>a y. Q a y \<Longrightarrow> R a y) \<Longrightarrow> yields R m"
  by (simp add: yields_def)

lemma yields_get_state:
  assumes "\<And>st. yields (\<lambda>a y. Q st a) (f st)" "map_of (jn_states (xs_journal x)) plan_id = Some st"
    "op_bind (get_state plan_id) f x = (Inr a, y)"
  shows "Q st a"
  using assms by (auto simp: get_state_bind yields_def)

lemma in_journal_returns:
  "in_journal m x = (Inr a, y) \<longleftrightarrow> (\<exists>j. m (xs_journal x) = (Inr a, j) \<and> y = x\<lparr>xs_journal := j\<rparr>)"
  by (auto simp: in_journal_def split: prod.split)

text \<open>A saved state has the phase, payload and error it was given.\<close>

lemma save_phase_yields:
  assumes "\<And>st' y. es_phase st' = phase \<Longrightarrow> es_payload st' = payload \<Longrightarrow> es_last_error st' = JObj [] \<Longrightarrow> Q st' y"
  shows "yields Q (save_phase c plan_id st phase payload ni)"
  unfolding save_phase_def
  by (rule yields_then, rule yieldsI)
    (auto simp: in_journal_returns save_execution_plan_state_def Let_def intro!: assms split: if_splits)

lemma pause_state_yields:
  assumes "\<And>st' y. es_phase st' = PAUSED \<Longrightarrow> es_payload st' = es_payload st \<Longrightarrow> es_last_error st' = error \<Longrightarrow> Q st' y"
  shows "yields Q (pause_state c plan_id st error)"
  unfolding pause_state_def
  by (rule yieldsI) (auto simp: in_journal_returns save_execution_plan_state_def Let_def intro!: assms split: if_splits)

subsection \<open>The phase machine\<close>

text \<open>
  The steps of one \<open>advance\<close> on a routed plan: sells before buys, a fresh plan in between, and completion
  only from the final comparison.
\<close>

fun phase_edge :: "execution_phase \<Rightarrow> execution_phase \<Rightarrow> bool" where
  "phase_edge PHASE_PLANNED q \<longleftrightarrow> q \<in> {SELLING, REFRESHING_ACCOUNT, PAUSED}"
| "phase_edge SELLING q \<longleftrightarrow> q \<in> {WAITING_SELL_REPORTS, REFRESHING_ACCOUNT, PAUSED}"
| "phase_edge WAITING_SELL_REPORTS q \<longleftrightarrow> q \<in> {WAITING_SELL_REPORTS, REFRESHING_ACCOUNT, PAUSED}"
| "phase_edge REFRESHING_ACCOUNT q \<longleftrightarrow> q \<in> {SELLING, BUYING, FINAL_RECONCILE, PAUSED}"
| "phase_edge BUYING q \<longleftrightarrow> q \<in> {BUYING, FINAL_RECONCILE, PAUSED}"
| "phase_edge FINAL_RECONCILE q \<longleftrightarrow> q \<in> {COMPLETED, SELLING, BUYING, FINAL_RECONCILE, PAUSED}"
| "phase_edge p q \<longleftrightarrow> q = p"

text \<open>
  \<open>phase_step\<close> adds what is known of the plan: a plan that enters \<open>BUYING\<close> has nothing left to sell, only a
  refresh replaces the plan, and each refresh counts.
\<close>

definition phase_step :: "'w coordinator \<Rightarrow> plan_state \<Rightarrow> plan_state \<Rightarrow> bool" where
  "phase_step c st st' \<longleftrightarrow> phase_edge (es_phase st) (es_phase st') \<and>
     (es_phase st' = BUYING \<longrightarrow> es_phase st \<noteq> BUYING \<longrightarrow> side_children ''sell'' (pp_plan (es_payload st')) = []) \<and>
     (pp_plan (es_payload st') = pp_plan (es_payload st) \<and> pp_replans (es_payload st') = pp_replans (es_payload st) \<or>
      es_phase st \<in> {REFRESHING_ACCOUNT, FINAL_RECONCILE} \<and> child_plan_ok (pp_plan (es_payload st')) \<and>
      pp_replans (es_payload st') = pp_replans (es_payload st) + 1 \<and> pp_replans (es_payload st') \<le> xc_max_replans c)"

lemma phase_edge_paused [simp]: "phase_edge p PAUSED \<longleftrightarrow> p \<notin> {COMPLETED, FAILED}"
  by (cases p) auto

lemma pause_step: "\<not> settled_phase (es_phase st) \<Longrightarrow> yields (\<lambda>st' _. phase_step c st st') (pause_state c plan_id st error)"
  by (rule pause_state_yields) (auto simp: phase_step_def settled_phase_def)

text \<open>Saving another phase with the same plan.\<close>

lemma save_step:
  assumes "phase_edge (es_phase st) phase" "phase \<noteq> BUYING \<or> es_phase st = BUYING"
    "pp_plan payload = pp_plan (es_payload st)" "pp_replans payload = pp_replans (es_payload st)"
  shows "yields (\<lambda>st' _. phase_step c st st') (save_phase c plan_id st phase payload ni)"
  using assms by (intro save_phase_yields) (auto simp: phase_step_def)

lemma wait_outcome_step:
  assumes "\<not> settled_phase (es_phase st)" "phase_edge (es_phase st) (es_phase st)" "phase_edge (es_phase st) complete_phase"
    "complete_phase \<noteq> BUYING" "pp_plan payload = pp_plan (es_payload st)" "pp_replans payload = pp_replans (es_payload st)"
  shows "yields (\<lambda>st' _. phase_step c st st') (wait_outcome c plan_id st payload complete_phase acc)"
proof (cases acc)
  case (fields unknown failed active)
  have "phase_step c st st" using assms(2) by (simp add: phase_step_def)
  with assms show ?thesis unfolding wait_outcome_def fields prod.case
    by (intro yields_if pause_step save_step yields_return) simp_all
qed

lemma wait_phase_step:
  assumes "\<not> settled_phase (es_phase st)" "phase_edge (es_phase st) (es_phase st)" "phase_edge (es_phase st) complete_phase"
    "complete_phase \<noteq> BUYING" "pp_plan payload = pp_plan (es_payload st)" "pp_replans payload = pp_replans (es_payload st)"
  shows "yields (\<lambda>st' _. phase_step c st st') (wait_phase c plan_id st plan payload side complete_phase)"
  unfolding wait_phase_def Let_def fills_failed_def
  by (intro yields_bind) (auto intro!: pause_step wait_outcome_step assms split: option.split)

lemma refresh_step:
  assumes "es_phase st \<in> {REFRESHING_ACCOUNT, FINAL_RECONCILE}"
    "pp_plan payload = pp_plan (es_payload st)" "pp_replans payload = pp_replans (es_payload st)"
  shows "yields (\<lambda>st' _. phase_step c st st') (refresh_plan c plan_id st target payload snapshot)"
proof -
  have "\<not> settled_phase (es_phase st)" using assms(1) by (auto simp: settled_phase_def)
  then show ?thesis unfolding refresh_plan_def Let_def
    by (intro yields_bind yields_if pause_step save_phase_yields)
      (use assms in \<open>auto simp: phase_step_def\<close>)
qed

lemma compare_step:
  assumes "es_phase st = FINAL_RECONCILE"
    "pp_plan payload = pp_plan (es_payload st)" "pp_replans payload = pp_replans (es_payload st)"
  shows "yields (\<lambda>st' _. phase_step c st st') (compare_holdings c plan_id st target payload)"
  unfolding compare_holdings_def
  by (intro yields_bind yields_if save_step refresh_step) (simp_all add: assms)

lemma final_step:
  assumes "es_phase st = FINAL_RECONCILE"
  shows "yields (\<lambda>st' _. phase_step c st st') (final_reconcile c plan_id st target (es_payload st))"
proof -
  let ?wait = "wait_phase c plan_id st (pp_plan (es_payload st)) (es_payload st) ''buy'' FINAL_RECONCILE"
  have wait: "yields (\<lambda>st' _. phase_step c st st') ?wait"
    by (rule wait_phase_step) (simp_all add: assms settled_phase_def)
  let ?after = "\<lambda>waited. if es_phase waited \<noteq> FINAL_RECONCILE then op_return waited
     else compare_holdings c plan_id st target ((es_payload st)\<lparr>pp_buy_waiting := pp_buy_waiting (es_payload waited)\<rparr>)"
  have "yields (\<lambda>st' _. phase_step c st st') (op_bind ?wait ?after)"
  proof (rule yieldsI)
    fix x st' y
    assume "op_bind ?wait ?after x = (Inr st', y)"
    then obtain waited z where w: "?wait x = (Inr waited, z)" "?after waited z = (Inr st', y)"
      by (auto simp: op_bind_def split: prod.splits sum.splits)
    note step = yieldsD [OF wait w(1)]
    have compare: "yields (\<lambda>st' _. phase_step c st st') (compare_holdings c plan_id st target
        ((es_payload st)\<lparr>pp_buy_waiting := pp_buy_waiting (es_payload waited)\<rparr>))"
      by (rule compare_step) (simp_all add: assms)
    show "phase_step c st st'"
      using w(2) step yieldsD [OF compare] by (auto simp: op_return_def split: if_splits)
  qed
  moreover have "yields (\<lambda>st' _. phase_step c st st') (compare_holdings c plan_id st target (es_payload st))"
    by (rule compare_step) (simp_all add: assms)
  ultimately show ?thesis unfolding final_reconcile_def by (intro yields_if)
qed

lemma route_phase_step:
  assumes "es_phase st = SELLING \<and> side = ''sell'' \<or> es_phase st = BUYING \<and> side = ''buy''"
  shows "yields (\<lambda>st' _. phase_step c st st') (route_phase c plan_id st plan (es_payload st) side)"
  unfolding route_phase_def Let_def
  by (intro yields_if yields_bind save_step wait_phase_step) (use assms in \<open>auto simp: settled_phase_def\<close>)

lemma advance_routed_step:
  assumes "\<not> settled_phase (es_phase st)"
  shows "yields (\<lambda>st' _. phase_step c st st') (advance_routed c plan_id st snapshot)"
  unfolding advance_routed_def Let_def using assms
  by (cases "es_phase st")
    (auto simp: settled_phase_def intro!: save_step route_phase_step wait_phase_step refresh_step final_step)

lemma pause_plan_step:
  assumes "map_of (jn_states (xs_journal x)) plan_id = Some st" "\<not> settled_phase (es_phase st)"
    "pause_plan c plan_id reason x = (Inr st', y)"
  shows "phase_step c st st'"
proof -
  let ?rest = "\<lambda>st. op_bind (po_statuses (xc_ports c) (map ec_reference (xp_children (pp_plan (es_payload st)))))
    (\<lambda>statuses. op_bind (cancel_children c statuses []) (\<lambda>failures. pause_state c plan_id st
       (JObj [(''rule'', JStr ''operator_pause''), (''reason'', JStr reason), (''cancel_failures'', texts_json failures)])))"
  have "yields (\<lambda>st' _. phase_step c st st') (?rest st)" by (intro yields_bind pause_step assms(2))
  moreover have "?rest st x = (Inr st', y)" using assms(1,3) by (simp add: pause_plan_def get_state_bind)
  ultimately show ?thesis by (rule yieldsD)
qed

lemma advance_plan_open:
  assumes "map_of (jn_states (xs_journal x)) plan_id = Some st" "\<not> settled_phase (es_phase st)"
    "advance_plan c plan_id x = (Inr st', y)"
  obtains reason where "pause_plan c plan_id reason (snd (po_snapshot (xc_ports c) x)) = (Inr st', y)"
  | snapshot where "advance_open c plan_id st snapshot (snd (po_snapshot (xc_ports c) x)) = (Inr st', y)"
  using assms unfolding advance_plan_def get_state_bind
  by (auto simp: op_bind_def op_result_def Let_def split: prod.splits sum.splits if_splits)

text \<open>A routed \<open>advance\<close> follows the phase machine.\<close>

lemma advance_plan_step:
  assumes "execution_ports (xc_ports c) handed" "map_of (jn_states (xs_journal x)) plan_id = Some st"
    "\<not> settled_phase (es_phase st)" "\<not> xc_shadow c" "advance_plan c plan_id x = (Inr st', y)"
  shows "phase_step c st st'"
proof (rule advance_plan_open [OF assms(2,3,5)])
  fix reason
  assume "pause_plan c plan_id reason (snd (po_snapshot (xc_ports c) x)) = (Inr st', y)"
  moreover have "jn_states (xs_journal (snd (po_snapshot (xc_ports c) x))) = jn_states (xs_journal x)"
    by (rule fills_only_kept, rule quiet_stepD, rule execution_ports.snapshot_quiet [OF assms(1)])
  ultimately show ?thesis using assms(2) by (intro pause_plan_step [OF _ assms(3)]) auto
next
  fix snapshot
  assume *: "advance_open c plan_id st snapshot (snd (po_snapshot (xc_ports c) x)) = (Inr st', y)"
  have "yields (\<lambda>st' _. phase_step c st st') (advance_open c plan_id st snapshot)"
    unfolding advance_open_def Let_def
    by (intro yields_if pause_step advance_routed_step assms(3)) (simp_all add: assms(4))
  from yieldsD [OF this *] show ?thesis .
qed

subsection \<open>Completion\<close>

text \<open>The account, read last, holds the target and has nothing in flight.\<close>

definition at_target :: "'w coordinator \<Rightarrow> target_portfolio \<Rightarrow> 'w \<Rightarrow> bool" where
  "at_target c target w \<longleftrightarrow> (\<exists>x0 x1 snapshot. po_snapshot (xc_ports c) x0 = (Inr snapshot, x1) \<and> xs_world x1 = w \<and>
     map_of (held_positions (as_positions snapshot)) = map_of (held_positions (tp_holdings target)) \<and>
     as_active_order_deltas snapshot = [])"

definition completes_at_target :: "'w coordinator \<Rightarrow> target_portfolio \<Rightarrow> plan_state \<Rightarrow> 'w execution \<Rightarrow> bool" where
  "completes_at_target c target st y \<longleftrightarrow> (es_phase st = COMPLETED \<longrightarrow> at_target c target (xs_world y))"

lemma not_completed: "yields (\<lambda>st' _. es_phase st' \<noteq> COMPLETED) m \<Longrightarrow> yields (completes_at_target c target) m"
  by (auto simp: yields_def completes_at_target_def)

lemma in_journal_world: "xs_world (snd (in_journal m x)) = xs_world x"
  by (simp add: in_journal_def split_beta)

lemma save_phase_world: "xs_world (snd (save_phase c plan_id st phase payload ni x)) = xs_world x"
  by (simp add: save_phase_def op_then_def op_bind_def in_journal_def split_beta split: sum.split)

lemma refresh_not_completed: "yields (\<lambda>st' _. es_phase st' \<noteq> COMPLETED) (refresh_plan c plan_id st target payload snapshot)"
  unfolding refresh_plan_def Let_def
  by (intro yields_bind yields_if pause_state_yields save_phase_yields) auto

lemma compare_completes: "yields (completes_at_target c target) (compare_holdings c plan_id st target payload)"
proof (rule yieldsI)
  fix x st' y
  assume run: "compare_holdings c plan_id st target payload x = (Inr st', y)"
  show "completes_at_target c target st' y"
    unfolding completes_at_target_def
  proof
    assume fin: "es_phase st' = COMPLETED"
    let ?at = "\<lambda>snapshot. dict_eq (held_positions (as_positions snapshot)) (held_positions (tp_holdings target)) \<and>
        as_active_order_deltas snapshot = []"
    from run obtain snapshot x1 where s: "po_snapshot (xc_ports c) x = (Inr snapshot, x1)"
      "(if ?at snapshot then save_phase c plan_id st COMPLETED payload []
        else refresh_plan c plan_id st target payload snapshot) x1 = (Inr st', y)"
      unfolding compare_holdings_def by (auto simp: op_bind_def split: prod.splits sum.splits)
    have "?at snapshot"
    proof (rule ccontr)
      assume "\<not> ?at snapshot"
      with s(2) have "refresh_plan c plan_id st target payload snapshot x1 = (Inr st', y)" by simp
      from yieldsD [OF refresh_not_completed this] fin show False by blast
    qed
    with s(2) have "save_phase c plan_id st COMPLETED payload [] x1 = (Inr st', y)" by simp
    then have "xs_world y = xs_world x1" using save_phase_world [of c plan_id st COMPLETED payload "[]" x1] by simp
    with s(1) \<open>?at snapshot\<close> show "at_target c target (xs_world y)"
      unfolding at_target_def by (intro exI [of _ x] exI [of _ x1] exI [of _ snapshot]) (simp add: dict_eq_iff)
  qed
qed

lemma step_not_completed:
  assumes "yields (\<lambda>st' _. phase_step c st st') m" "es_phase st \<notin> {FINAL_RECONCILE, COMPLETED}"
  shows "yields (completes_at_target c target) m"
proof (rule not_completed, rule yields_weaken [OF assms(1)])
  fix st' y
  assume "phase_step c st st'"
  then have "phase_edge (es_phase st) (es_phase st')" by (simp add: phase_step_def)
  with assms(2) show "es_phase st' \<noteq> COMPLETED" by (cases "es_phase st") auto
qed

lemma final_completes:
  assumes "es_phase st = FINAL_RECONCILE"
  shows "yields (completes_at_target c target) (final_reconcile c plan_id st target (es_payload st))"
proof -
  have other: "yields (completes_at_target c target) (op_return waited)"
    if "es_phase waited \<noteq> COMPLETED" for waited :: plan_state
    using that by (intro yields_return) (simp add: completes_at_target_def)
  let ?wait = "wait_phase c plan_id st (pp_plan (es_payload st)) (es_payload st) ''buy'' FINAL_RECONCILE"
  have wait: "yields (\<lambda>st' _. es_phase st' \<noteq> COMPLETED) ?wait"
    unfolding wait_phase_def Let_def fills_failed_def wait_outcome_def
    by (intro yields_bind) (auto intro!: yields_if pause_state_yields save_phase_yields yields_return simp: assms
        split: option.split prod.split)
  let ?after = "\<lambda>waited. if es_phase waited \<noteq> FINAL_RECONCILE then op_return waited
     else compare_holdings c plan_id st target ((es_payload st)\<lparr>pp_buy_waiting := pp_buy_waiting (es_payload waited)\<rparr>)"
  have "yields (completes_at_target c target) (op_bind ?wait ?after)"
  proof (rule yieldsI)
    fix x st' y
    assume "op_bind ?wait ?after x = (Inr st', y)"
    then obtain waited z where w: "?wait x = (Inr waited, z)" "?after waited z = (Inr st', y)"
      by (auto simp: op_bind_def split: prod.splits sum.splits)
    from yieldsD [OF wait w(1)] w(2) show "completes_at_target c target st' y"
      using yieldsD [OF other] yieldsD [OF compare_completes] by (auto split: if_splits)
  qed
  then show ?thesis unfolding final_reconcile_def by (intro yields_if compare_completes)
qed

lemma advance_plan_completes:
  assumes "map_of (jn_states (xs_journal x)) plan_id = Some st" "es_phase st \<noteq> COMPLETED" "\<not> xc_shadow c"
    "advance_plan c plan_id x = (Inr st', y)" "es_phase st' = COMPLETED" "execution_ports (xc_ports c) handed"
  shows "at_target c (pp_target (es_payload st)) (xs_world y)"
proof -
  have open_phase: "\<not> settled_phase (es_phase st)"
    using assms by (auto simp: advance_plan_def get_state_bind op_return_def settled_phase_def split: if_splits)
  have edge: "phase_edge (es_phase st) COMPLETED"
    using advance_plan_step [OF assms(6,1) open_phase assms(3,4)] assms(5) by (simp add: phase_step_def)
  then have final: "es_phase st = FINAL_RECONCILE" using assms(2) by (cases "es_phase st") auto
  have pause: "es_phase s \<noteq> COMPLETED" if "pause_state c plan_id st e z = (Inr s, z')" for s e z z'
    using yieldsD [OF pause_state_yields [where Q = "\<lambda>s _. es_phase s \<noteq> COMPLETED"] that] by simp
  show ?thesis
  proof (rule advance_plan_open [OF assms(1) open_phase assms(4)])
    fix reason
    assume *: "pause_plan c plan_id reason (snd (po_snapshot (xc_ports c) x)) = (Inr st', y)"
    have "yields (\<lambda>s _. es_phase s \<noteq> COMPLETED) (pause_plan c plan_id reason)"
      unfolding pause_plan_def by (intro yields_bind pause_state_yields) simp
    from yieldsD [OF this *] assms(5) show ?thesis by blast
  next
    fix snapshot
    assume *: "advance_open c plan_id st snapshot (snd (po_snapshot (xc_ports c) x)) = (Inr st', y)"
    have routed: "yields (completes_at_target c (pp_target (es_payload st))) (advance_routed c plan_id st snapshot)"
      unfolding advance_routed_def Let_def by (simp add: final final_completes)
    have "yields (completes_at_target c (pp_target (es_payload st))) (advance_open c plan_id st snapshot)"
      unfolding advance_open_def Let_def
      by (intro yields_if routed; rule not_completed, rule pause_state_yields save_phase_yields)
        (simp_all add: assms(3))
    from yieldsD [OF this *] assms(5) show ?thesis by (simp add: completes_at_target_def)
  qed
qed

subsection \<open>Shadow executions\<close>

text \<open>A shadow execution does not depend on what submitting would do.\<close>

definition with_submit :: "(execution_child \<Rightarrow> ('w execution, string option) op) \<Rightarrow> 'w coordinator \<Rightarrow> 'w coordinator" where
  "with_submit f c = c\<lparr>xc_ports := (xc_ports c)\<lparr>po_submit := f\<rparr>\<rparr>"

lemma with_submit_fields [simp]:
  "xc_ports (with_submit f c) = (xc_ports c)\<lparr>po_submit := f\<rparr>" "xc_now (with_submit f c) = xc_now c"
  "xc_shadow (with_submit f c) = xc_shadow c" "xc_sha (with_submit f c) = xc_sha c"
  "xc_expected_account_id (with_submit f c) = xc_expected_account_id c"
  "xc_fromisoformat (with_submit f c) = xc_fromisoformat c"
  by (simp_all add: with_submit_def)

lemma writes_without_submit:
  "save_phase (with_submit f c) = save_phase c" "pause_state (with_submit f c) = pause_state c"
  by (simp_all add: save_phase_def pause_state_def fun_eq_iff)

lemma cancel_without_submit: "cancel_children (with_submit f c) statuses failures = cancel_children c statuses failures"
proof (induction statuses arbitrary: failures)
  case (Cons p rest)
  obtain r s where "p = (r, s)" by fastforce
  with Cons show ?case by simp
qed simp

lemma shadow_without_submit: "xc_shadow c \<Longrightarrow> advance_plan (with_submit f c) plan_id = advance_plan c plan_id"
  by (simp add: advance_plan_def pause_plan_def advance_open_def writes_without_submit cancel_without_submit cong: if_cong)

text \<open>One step of a shadow execution on an account within its boundary.\<close>

definition quiet_account :: "'w coordinator \<Rightarrow> plan_payload \<Rightarrow> 'w \<Rightarrow> bool" where
  "quiet_account c payload w \<longleftrightarrow> (\<exists>snapshot. (\<forall>x. xs_world x = w \<longrightarrow> po_snapshot (xc_ports c) x = (Inr snapshot, x)) \<and>
     boundary_issues (xc_sha c) snapshot (pp_universe payload) (xc_expected_account_id c) None True = [])"

definition shadowed :: "string \<Rightarrow> execution_phase \<Rightarrow> plan_payload \<Rightarrow> 'w \<Rightarrow> 'w execution \<Rightarrow> bool" where
  "shadowed plan_id phase payload w x \<longleftrightarrow> xs_world x = w \<and> (\<exists>st. map_of (jn_states (xs_journal x)) plan_id = Some st \<and>
     es_phase st = phase \<and> es_payload st = payload \<and> es_instance_id st \<in> set (jn_instances (xs_journal x)))"

lemma save_phase_succeeds:
  assumes "map_of (jn_states (xs_journal x)) plan_id = Some st" "es_instance_id st \<in> set (jn_instances (xs_journal x))"
  shows "\<exists>st' y. save_phase c plan_id st phase payload ni x = (Inr st', y) \<and> xs_world y = xs_world x \<and>
    map_of (jn_states (xs_journal y)) plan_id = Some st' \<and> es_phase st' = phase \<and> es_payload st' = payload \<and>
    es_instance_id st' = es_instance_id st \<and> jn_instances (xs_journal y) = jn_instances (xs_journal x) \<and>
    jn_children (xs_journal y) = jn_children (xs_journal x)"
  using assms
  by (simp add: save_phase_def op_then_def op_bind_def in_journal_def record_plan_attempt_def Let_def
      save_execution_plan_state_def upserted_state_def AList.update_conv')

lemma shadow_step:
  assumes "xc_shadow c" "shadowed plan_id p payload w x" "\<not> settled_phase p" "tp_valid_until (pp_target payload) = []"
    "quiet_account c payload w"
  obtains st' y where "advance_plan c plan_id x = (Inr st', y)" "es_phase st' = shadow_next p"
    "shadowed plan_id (shadow_next p) payload w y" "jn_children (xs_journal y) = jn_children (xs_journal x)"
proof -
  obtain st where st: "map_of (jn_states (xs_journal x)) plan_id = Some st" "es_phase st = p" "es_payload st = payload"
    "es_instance_id st \<in> set (jn_instances (xs_journal x))" "xs_world x = w"
    using assms(2) by (auto simp: shadowed_def simp del: map_of_eq_Some_iff)
  obtain snapshot where snap: "po_snapshot (xc_ports c) x = (Inr snapshot, x)"
    "boundary_issues (xc_sha c) snapshot (pp_universe payload) (xc_expected_account_id c) None True = []"
    using assms(5) st(5) by (auto simp: quiet_account_def)
  have "advance_plan c plan_id x = save_phase c plan_id st (shadow_next p) payload [] x"
    using st snap assms(1,3,4) unfolding advance_plan_def get_state_bind
    by (simp add: op_bind_def op_result_def Let_def advance_open_def del: map_of_eq_Some_iff)
  with save_phase_succeeds [OF st(1,4), of c "shadow_next p" payload "[]"] st(4,5) that show thesis
    by (auto simp: shadowed_def simp del: map_of_eq_Some_iff)
qed

fun advance_times :: "nat \<Rightarrow> 'w coordinator \<Rightarrow> string \<Rightarrow> ('w execution, plan_state) op" where
  "advance_times 0 c plan_id = get_state plan_id"
| "advance_times (Suc n) c plan_id = op_then (advance_plan c plan_id) (advance_times n c plan_id)"

fun shadow_left :: "execution_phase \<Rightarrow> nat" where
  "shadow_left PHASE_PLANNED = 6"
| "shadow_left SELLING = 5"
| "shadow_left WAITING_SELL_REPORTS = 4"
| "shadow_left REFRESHING_ACCOUNT = 3"
| "shadow_left BUYING = 2"
| "shadow_left FINAL_RECONCILE = 1"
| "shadow_left _ = 0"

lemma shadow_left_next: "\<not> settled_phase p \<Longrightarrow> shadow_left p = Suc (shadow_left (shadow_next p)) \<and>
    (shadow_next p = COMPLETED \<or> \<not> settled_phase (shadow_next p))"
  by (cases p) (simp_all add: settled_phase_def)

lemma shadow_finishes:
  assumes "xc_shadow c" "tp_valid_until (pp_target payload) = []" "quiet_account c payload w"
    "shadowed plan_id p payload w x" "p = COMPLETED \<or> \<not> settled_phase p"
  shows "\<exists>st y. advance_times (shadow_left p) c plan_id x = (Inr st, y) \<and> es_phase st = COMPLETED \<and>
    jn_children (xs_journal y) = jn_children (xs_journal x) \<and> xs_world y = w"
  using assms(4,5)
proof (induction "shadow_left p" arbitrary: p x)
  case 0
  then have "p = COMPLETED" using shadow_left_next by fastforce
  with 0 show ?case
    by (auto simp: shadowed_def get_state_def op_bind_def ask_def op_result_def get_execution_plan_state_def
        simp del: map_of_eq_Some_iff)
next
  case (Suc n)
  from Suc.hyps(2) have p: "\<not> settled_phase p" using Suc.prems(2) by auto
  note left = shadow_left_next [OF p]
  obtain st' y where y: "advance_plan c plan_id x = (Inr st', y)" "shadowed plan_id (shadow_next p) payload w y"
    "jn_children (xs_journal y) = jn_children (xs_journal x)"
    by (rule shadow_step [OF assms(1) Suc.prems(1) p assms(2,3)])
  have "n = shadow_left (shadow_next p)" using left Suc.hyps(2) by simp
  from Suc.hyps(1) [OF this y(2)] left y show ?case by (auto simp: op_then_def op_bind_def)
qed

subsection \<open>Fills and statuses\<close>

text \<open>A fill that was captured stays captured: capturing it again changes nothing.\<close>

lemma recorded_fill:
  assumes "fst (record_fill_reconciliation now k p r oid v pr j) = Inr b"
  shows "fst ` set (jn_fills (snd (record_fill_reconciliation now k p r oid v pr j))) = insert k (fst ` set (jn_fills j))"
    "jn_children (snd (record_fill_reconciliation now k p r oid v pr j)) = jn_children j"
  using assms
  by (auto simp: record_fill_reconciliation_def dict_set_keys insert_absorb dest: map_of_key
      split: option.splits if_splits simp del: map_of_eq_Some_iff)

lemma capture_fill_returns:
  assumes "capture_fill c plan_id rs f x = (Inr (), y)"
  shows "cf_reference f \<in> set rs" "cf_fill_key f \<in> fst ` set (jn_fills (xs_journal y))"
    "fst ` set (jn_fills (xs_journal x)) \<subseteq> fst ` set (jn_fills (xs_journal y))"
    "jn_children (xs_journal y) = jn_children (xs_journal x)" "xs_world y = xs_world x"
    "0 < cf_volume f" "0 < cf_price f" "cf_fill_key f \<noteq> []"
    "\<exists>r. get_child_order (cf_reference f) (xs_journal x) = Some r \<and> co_plan_id r = plan_id"
proof -
  obtain row where row: "get_child_order (cf_reference f) (xs_journal x) = Some row" "co_plan_id row = plan_id"
    "cf_reference f \<in> set rs" "0 < cf_volume f" "0 < cf_price f" "cf_fill_key f \<noteq> []"
    using assms by (auto simp: capture_fill_def Let_def op_bind_def ask_def op_raise_def split: if_splits option.splits
        simp del: map_of_eq_Some_iff)
  let ?rec = "record_fill_reconciliation (xc_now c) (cf_fill_key f) plan_id (cf_reference f) (cf_order_id f)
    (cf_volume f) (cf_price f) (xs_journal x)"
  obtain b where "fst ?rec = Inr b" "y = x\<lparr>xs_journal := snd ?rec\<rparr>"
    using assms row by (auto simp: capture_fill_def Let_def op_bind_def op_then_def ask_def op_return_def in_journal_def
        split_beta split: sum.splits if_splits)
  with recorded_fill [OF this(1)] row show "cf_reference f \<in> set rs" "cf_fill_key f \<in> fst ` set (jn_fills (xs_journal y))"
    "fst ` set (jn_fills (xs_journal x)) \<subseteq> fst ` set (jn_fills (xs_journal y))"
    "jn_children (xs_journal y) = jn_children (xs_journal x)" "xs_world y = xs_world x"
    "0 < cf_volume f" "0 < cf_price f" "cf_fill_key f \<noteq> []"
    "\<exists>r. get_child_order (cf_reference f) (xs_journal x) = Some r \<and> co_plan_id r = plan_id"
    by auto
qed

lemma capture_fill_again:
  assumes "cf_reference f \<in> set rs" "cf_fill_key f \<in> fst ` set (jn_fills (xs_journal z))"
    "0 < cf_volume f" "0 < cf_price f" "cf_fill_key f \<noteq> []"
    "get_child_order (cf_reference f) (xs_journal z) = Some r" "co_plan_id r = plan_id"
  shows "capture_fill c plan_id rs f z = (Inr (), z)"
proof -
  obtain row where row: "map_of (jn_fills (xs_journal z)) (cf_fill_key f) = Some row"
    using assms(2) by (metis map_of_eq_None_iff not_None_eq)
  with assms show ?thesis
    by (simp add: capture_fill_def Let_def op_bind_def op_then_def ask_def op_return_def in_journal_def
        record_fill_reconciliation_def del: map_of_eq_Some_iff)
qed

lemma captured_loop:
  assumes "op_for fills (capture_fill c plan_id rs) x = (Inr (), y)"
  shows "fst ` set (jn_fills (xs_journal x)) \<subseteq> fst ` set (jn_fills (xs_journal y)) \<and>
    jn_children (xs_journal y) = jn_children (xs_journal x) \<and> xs_world y = xs_world x \<and>
    (\<forall>f \<in> set fills. cf_fill_key f \<in> fst ` set (jn_fills (xs_journal y)) \<and> capture_fill c plan_id rs f y = (Inr (), y))"
  using assms
proof (induction fills arbitrary: x)
  case (Cons f fills)
  obtain z where z: "capture_fill c plan_id rs f x = (Inr (), z)" "op_for fills (capture_fill c plan_id rs) z = (Inr (), y)"
    using Cons.prems by (auto split: prod.splits sum.splits)
  note first = capture_fill_returns [OF z(1)]
  note rest = Cons.IH [OF z(2)]
  obtain r where r: "get_child_order (cf_reference f) (xs_journal x) = Some r" "co_plan_id r = plan_id"
    using first(9) by blast
  have "get_child_order (cf_reference f) (xs_journal y) = Some r"
    using r(1) rest first(4) by (simp add: get_child_order_def)
  moreover have "cf_fill_key f \<in> fst ` set (jn_fills (xs_journal y))" using first(2) rest by blast
  ultimately have "capture_fill c plan_id rs f y = (Inr (), y)"
    using first(1,6,7,8) r(2) by (intro capture_fill_again)
  with first rest show ?case by auto
qed simp

lemma captured_again: "(\<forall>f \<in> set fills. capture_fill c plan_id rs f y = (Inr (), y)) \<Longrightarrow>
    op_for fills (capture_fill c plan_id rs) y = (Inr (), y)"
  by (induction fills) simp_all

text \<open>Reading the fills again gives the same fills and changes nothing.\<close>

definition stable_loader :: "(string list \<Rightarrow> ('w execution, child_fill list) op) \<Rightarrow> string list \<Rightarrow> child_fill list \<Rightarrow> 'w \<Rightarrow> bool" where
  "stable_loader loader rs fills w \<longleftrightarrow> (\<forall>x. xs_world x = w \<longrightarrow> loader rs x = (Inr fills, x))"

lemma capture_fills_again:
  assumes "po_fills (xc_ports c) = Some loader" "stable_loader loader rs fills (xs_world x)"
    "capture_fills c plan_id rs x = (Inr (), y)" "rs \<noteq> []"
  shows "capture_fills c plan_id rs y = (Inr (), y) \<and>
    (\<forall>f \<in> set fills. cf_fill_key f \<in> fst ` set (jn_fills (xs_journal y)))"
proof -
  have load: "loader rs z = (Inr fills, z)" if "xs_world z = xs_world x" for z
    using assms(2) that by (simp add: stable_loader_def)
  have loop: "op_for fills (capture_fill c plan_id rs) x = (Inr (), y)"
    using assms by (simp add: capture_fills_def op_bind_def load)
  note fin = captured_loop [OF this]
  with fin assms(1,4) show ?thesis
    by (simp add: capture_fills_def op_bind_def load captured_again)
qed

text \<open>A reconciled child forgets the broker's order id: the update writes the default.\<close>

lemma reconcile_child_forgets_order_id:
  assumes "get_child_order r (xs_journal x) = Some row" "reconcile_child c plan_id r l status x = (Inr (), y)"
  shows "\<exists>row'. get_child_order r (xs_journal y) = Some row' \<and> co_order_id row' = [] \<and> co_status row' = status"
  using assms
  by (auto simp: reconcile_child_def op_then_def op_bind_def in_journal_def record_order_reconciliation_def
      update_child_order_def get_child_order_def AList.update_conv' split: if_splits simp del: map_of_eq_Some_iff)

end
