(* ===== verification/Live_Execution.thy ===== *)
theory Live_Execution
  imports Execution_Phases
begin

section \<open>The coordinator on the live ports\<close>

text \<open>
  The adapters of \<open>systems/live/execution_adapter.py\<close> provide the ports of the coordinator: the account
  and the reports are read from the engine's order management system, a child goes through the router of
  automated orders.  \<open>lw_handed\<close> is a history of the references handed to the router, which no code reads.
\<close>

record 'g live_world =
  lw_router :: "'g router"
  lw_handed :: "string list"

abbreviation live_oms :: "'g live_world \<Rightarrow> oms" where
  "live_oms w \<equiv> en_oms (ro_engine (lw_router w))"

definition live_submit ::
  "'g gateway \<Rightarrow> authorizer option \<Rightarrow> route_context \<Rightarrow> execution_child \<Rightarrow> ('g live_world, string option) op" where
  "live_submit gi auth ctx ch w = (case submit_child gi auth ctx ch (lw_router w) of
     (r, ro) \<Rightarrow> (r, w\<lparr>lw_router := ro, lw_handed := lw_handed w @ [ec_reference ch]\<rparr>))"

definition live_cancel :: "'g gateway \<Rightarrow> string \<Rightarrow> ('g live_world, bool) op" where
  "live_cancel gi reference w = (case cancel_child gi reference (ro_engine (lw_router w)) of
     (r, en) \<Rightarrow> (r, w\<lparr>lw_router := (lw_router w)\<lparr>ro_engine := en\<rparr>\<rparr>))"

definition live_ports ::
  "'g gateway \<Rightarrow> authorizer option \<Rightarrow> route_context \<Rightarrow> (stamp \<Rightarrow> string) \<Rightarrow> 'g live_world ports" where
  "live_ports gi auth ctx isoformat =
     \<lparr>po_snapshot = in_world (\<lambda>w. (adapter_snapshot isoformat (rc_instance_id ctx) (rc_config_hash ctx)
        (ro_engine (lw_router w)), w)),
      po_statuses = (\<lambda>rs. in_world (\<lambda>w. (Inr (child_statuses rs (live_oms w)), w))),
      po_fills = Some (\<lambda>rs. in_world (\<lambda>w. (Inr (child_fills rs (live_oms w)), w))),
      po_submit = (\<lambda>ch. in_world (live_submit gi auth ctx ch)),
      po_cancel = (\<lambda>r. in_world (live_cancel gi r))\<rparr>"

lemma live_ports_fields:
  "po_snapshot (live_ports gi auth ctx isoformat) = in_world (\<lambda>w. (adapter_snapshot isoformat (rc_instance_id ctx)
     (rc_config_hash ctx) (ro_engine (lw_router w)), w))"
  "po_statuses (live_ports gi auth ctx isoformat) = (\<lambda>rs. in_world (\<lambda>w. (Inr (child_statuses rs (live_oms w)), w)))"
  "po_fills (live_ports gi auth ctx isoformat) = Some (\<lambda>rs. in_world (\<lambda>w. (Inr (child_fills rs (live_oms w)), w)))"
  "po_submit (live_ports gi auth ctx isoformat) = (\<lambda>ch. in_world (live_submit gi auth ctx ch))"
  "po_cancel (live_ports gi auth ctx isoformat) = (\<lambda>r. in_world (live_cancel gi r))"
  by (simp_all add: live_ports_def)

lemma quiet_world:
  assumes "handed (snd (m (xs_world x))) = handed (xs_world x)"
  shows "quiet_step handed x (snd (in_world m x))"
  using assms by (simp add: quiet_step_def in_world_def split_beta)

lemma live_cancel_handed: "lw_handed (snd (live_cancel gi r w)) = lw_handed w"
  by (simp add: live_cancel_def split_beta)

lemma live_submit_handed: "lw_handed (snd (live_submit gi auth ctx ch w)) = lw_handed w @ [ec_reference ch]"
  by (simp add: live_submit_def split_beta)

interpretation live: execution_ports "live_ports gi auth ctx isoformat" lw_handed
  for gi :: "'g gateway" and auth ctx isoformat
proof
  fix x :: "'g live_world execution" and ch
  show "fills_only (xs_journal x) (xs_journal (snd (po_submit (live_ports gi auth ctx isoformat) ch x)))"
    by (simp add: live_ports_fields in_world_def split_beta)
  show "lw_handed (xs_world (snd (po_submit (live_ports gi auth ctx isoformat) ch x))) = lw_handed (xs_world x) \<or>
      lw_handed (xs_world (snd (po_submit (live_ports gi auth ctx isoformat) ch x))) =
        lw_handed (xs_world x) @ [ec_reference ch]"
    by (simp add: live_ports_fields in_world_def split_beta live_submit_handed)
qed (auto simp: live_ports_fields live_cancel_handed intro!: quiet_world)

text \<open>The coordinator that the instance runner builds, with the default bound on replans.\<close>

definition live_coordinator ::
  "'g live_world ports \<Rightarrow> plan_function \<Rightarrow> bool \<Rightarrow> bool \<Rightarrow> string \<Rightarrow> (string \<Rightarrow> string) \<Rightarrow> (string \<Rightarrow> stamp option) \<Rightarrow> string \<Rightarrow>
   'g live_world coordinator" where
  "live_coordinator P planner can_route shadow account sha fromiso now =
     \<lparr>xc_ports = P, xc_planner = planner, xc_can_route = can_route, xc_shadow = shadow, xc_max_replans = 8,
      xc_expected_account_id = account, xc_sha = sha, xc_fromisoformat = fromiso, xc_now = now\<rparr>"

lemma live_coordinator_ports [simp]:
  "xc_ports (live_coordinator P planner can_route shadow account sha fromiso now) = P"
  by (simp add: live_coordinator_def)

lemma live_coordinator_init: "\<not> (shadow \<and> can_route) \<Longrightarrow>
    coordinator_init P planner can_route shadow 8 account sha fromiso now =
    Inr (live_coordinator P planner can_route shadow account sha fromiso now)"
  by (auto simp: coordinator_init_def live_coordinator_def)

interpretation live_once: execution_invariant
  "live_coordinator (live_ports gi auth ctx isoformat) planner can_route shadow account sha fromiso now"
  "handed_once lw_handed" "\<lambda>_. True" "\<lambda>_ _. True"
  for gi :: "'g gateway" and auth ctx isoformat planner can_route shadow account sha fromiso now
  by (rule live.handed_once_invariant) simp

interpretation live_paused: execution_invariant
  "live_coordinator (live_ports gi auth ctx isoformat) planner can_route shadow account sha fromiso now"
  "plan_paused q" "\<lambda>p. p \<noteq> q" "\<lambda>p _. p \<noteq> q"
  for gi :: "'g gateway" and auth ctx isoformat planner can_route shadow account sha fromiso now q
  by (rule live.paused_elsewhere) simp

text \<open>Coordinators on the live ports: any session of the program over one journal.\<close>

definition on_live_ports :: "'g live_world coordinator \<Rightarrow> bool" where
  "on_live_ports c \<longleftrightarrow> (\<exists>gi auth ctx isoformat. xc_ports c = live_ports gi auth ctx isoformat)"

lemma on_live_ports: "on_live_ports c \<Longrightarrow> execution_ports (xc_ports c) lw_handed"
  unfolding on_live_ports_def using live.execution_ports_axioms by auto

definition keeps_handed :: "'g live_world \<Rightarrow> 'g live_world \<Rightarrow> bool" where
  "keeps_handed w w' \<longleftrightarrow> lw_handed w' = lw_handed w"

text \<open>No child reaches the router twice, whatever the coordinators do and whatever happens in between.\<close>

lemma live_handed_once:
  assumes "execution_run (\<lambda>c _. on_live_ports c) keeps_handed x y" "lw_handed (xs_world x) = []"
  shows "distinct (lw_handed (xs_world y)) \<and> set (lw_handed (xs_world y)) \<subseteq> fst ` set (jn_children (xs_journal y))"
proof -
  have "handed_once lw_handed x" using assms(2) by (simp add: handed_once_def)
  with assms(1) have "handed_once lw_handed y"
    by (rule handed_once_run) (simp_all add: on_live_ports keeps_handed_def)
  then show ?thesis by (simp add: handed_once_def)
qed

lemma live_paused_stays:
  assumes "execution_run (\<lambda>c a. on_live_ports c \<and> \<not> begins_plan q a) env x y" "plan_paused q x"
  shows "plan_paused q y"
  using assms by (rule plan_paused_run [where handed = lw_handed]) (simp add: on_live_ports)

text \<open>The children that a live coordinator sends are those of its plan: the run mode and the authorization
  decide on each of them.\<close>

lemma live_submit_denied:
  assumes "child_request ch = Inr req" "\<not> ra_allowed (route_decision auth ctx req)"
  shows "fst (live_submit gi auth ctx ch w) = Inr None"
    "en_gw (ro_engine (lw_router (snd (live_submit gi auth ctx ch w)))) = en_gw (ro_engine (lw_router w))"
    "live_oms (snd (live_submit gi auth ctx ch w)) = live_oms w"
proof -
  let ?d = "route_decision auth ctx req"
  obtain l where l: "record_block req ?d (ro_engine (lw_router w)) = (ro_engine (lw_router w))\<lparr>en_ledger := l\<rparr>"
    using record_block_frame [of req ?d "ro_engine (lw_router w)"] by blast
  have "router_submit gi auth ctx req (lw_router w) = (Inr None, (lw_router w)\<lparr>ro_last_authorization := Some ?d,
      ro_engine := (ro_engine (lw_router w))\<lparr>en_ledger := l\<rparr>\<rparr>)"
    unfolding router_denied [OF assms(2)] l ..
  with assms(1) show "fst (live_submit gi auth ctx ch w) = Inr None"
    "en_gw (ro_engine (lw_router (snd (live_submit gi auth ctx ch w)))) = en_gw (ro_engine (lw_router w))"
    "live_oms (snd (live_submit gi auth ctx ch w)) = live_oms w"
    by (simp_all add: live_submit_def submit_child_def)
qed

end
