(* ===== verification/Replay.thy ===== *)
theory Replay
  imports Execution_Phases
begin

section \<open>The replay broker\<close>

text \<open>
  \<open>systems/trading/replay.py\<close>: the account and the broker that stand behind the coordinator in a replay.
  \<open>orders_output\<close> holds the same row objects as \<open>orders\<close>, in the same order, so the dictionary is both.
  The text of a float is a parameter, as is the clock.
\<close>

subsection \<open>Configuration and account\<close>

record replay_config =
  rcf_initial_cash :: num
  rcf_open_cost :: num
  rcf_close_cost :: num
  rcf_min_cost :: num
  rcf_slippage :: num
  rcf_lot_size :: int
  rcf_max_order_value :: num
  rcf_partial_fill_ratio :: num
  rcf_instrument_metadata :: "(string \<times> instrument_metadata) list"
  rcf_quote_overrides :: "(string \<times> (string \<times> tradable_quote) list) list"

definition check_replay_config :: "replay_config \<Rightarrow> exn + replay_config" where
  "check_replay_config cfg =
     (if rcf_initial_cash cfg \<le> 0 then Inl (ValueError ''replay initial_cash must be positive'')
      else if min (min (rcf_open_cost cfg) (rcf_close_cost cfg)) (rcf_min_cost cfg) < 0
      then Inl (ValueError ''replay costs must not be negative'')
      else if \<not> (0 \<le> rcf_slippage cfg \<and> rcf_slippage cfg < 1)
      then Inl (ValueError ''replay slippage must be in [0, 1)'')
      else if rcf_lot_size cfg \<le> 0 then Inl (ValueError ''replay lot_size must be positive'')
      else if rcf_max_order_value cfg < 0 then Inl (ValueError ''replay max_order_value must not be negative'')
      else if \<not> (0 \<le> rcf_partial_fill_ratio cfg \<and> rcf_partial_fill_ratio cfg \<le> 1)
      then Inl (ValueError ''replay partial_fill_ratio must be in [0, 1]'')
      else Inr cfg)"

record replay_account =
  rac_cash :: num
  rac_positions :: "(string \<times> num) list"
  rac_acquired_session :: "(string \<times> string) list"
  rac_settlement_days :: "(string \<times> int) list"

definition text_at :: "(string \<times> string) list \<Rightarrow> string \<Rightarrow> string" where
  "text_at d k = (case map_of d k of Some v \<Rightarrow> v | None \<Rightarrow> [])"

definition settled_volume :: "replay_account \<Rightarrow> string \<Rightarrow> string \<Rightarrow> num \<Rightarrow> num" where
  "settled_volume a session instrument volume =
     (if (case map_of (rac_settlement_days a) instrument of Some d \<Rightarrow> d | None \<Rightarrow> 1) \<le> 0 \<or>
         take 10 (text_at (rac_acquired_session a) instrument) < take 10 session
      then volume else 0)"

definition replay_account_snapshot :: "replay_account \<Rightarrow> string \<Rightarrow> (string \<times> num) list \<Rightarrow> account_snapshot" where
  "replay_account_snapshot a session prices =
     \<lparr>as_account_id = ''replay'', as_as_of = session,
      as_balance = rac_cash a + sum_list (map (\<lambda>(k, v). v * dget prices k) (rac_positions a)),
      as_available = rac_cash a, as_positions = rac_positions a,
      as_sellable = map (\<lambda>(k, v). (k, settled_volume a session k v)) (rac_positions a),
      as_active_order_deltas = [], as_external_orders = []\<rparr>"

subsection \<open>Broker\<close>

record replay_order =
  rpo_child :: execution_child
  rpo_session :: string
  rpo_order_id :: string
  rpo_status :: string
  rpo_filled :: num
  rpo_polls :: int

record replay_fill =
  rpf_reference :: string
  rpf_session :: string
  rpf_instrument :: string
  rpf_side :: string
  rpf_volume :: num
  rpf_price :: num
  rpf_fee :: num

record replay_broker =
  rb_account :: replay_account
  rb_session :: string
  rb_prices :: "(string \<times> num) list"
  rb_instruments :: "(string \<times> instrument_metadata) list"
  rb_orders :: "(string \<times> replay_order) list"
  rb_fills :: "replay_fill list"

definition new_replay_broker :: "replay_config \<Rightarrow> replay_broker" where
  "new_replay_broker cfg =
     \<lparr>rb_account = \<lparr>rac_cash = rcf_initial_cash cfg, rac_positions = [], rac_acquired_session = [],
        rac_settlement_days = []\<rparr>,
      rb_session = [], rb_prices = [], rb_instruments = [], rb_orders = [], rb_fills = []\<rparr>"

definition replay_active :: "replay_order \<Rightarrow> bool" where
  "replay_active ord \<longleftrightarrow> rpo_status ord \<in> {''submitted'', ''nottraded'', ''parttraded''}"

definition replay_remaining :: "replay_order \<Rightarrow> num" where
  "replay_remaining ord = ec_volume (rpo_child ord) - rpo_filled ord"

definition replay_set_session ::
  "string \<Rightarrow> (string \<times> num) list \<Rightarrow> (string \<times> instrument_metadata) list \<Rightarrow> replay_broker \<Rightarrow> replay_broker" where
  "replay_set_session session prices instruments b =
     (let known = dict_of (map (\<lambda>(k, m). (canonical_instrument k, m)) instruments); a = rb_account b
      in b\<lparr>rb_session := session, rb_prices := canon_dict id prices, rb_instruments := known,
           rb_account := a\<lparr>rac_settlement_days :=
             fold (\<lambda>(k, m). dict_set k (max (im_settlement_days m) 0)) known (rac_settlement_days a)\<rparr>\<rparr>)"

definition add_replay_active :: "replay_order \<Rightarrow> (string \<times> num) list \<Rightarrow> (string \<times> num) list" where
  "add_replay_active ord d =
     (let sign = (if ec_side (rpo_child ord) = ''buy'' then 1 else -1); k = ec_instrument (rpo_child ord)
      in dict_set k (dget d k + sign * replay_remaining ord) d)"

definition replay_snapshot :: "replay_broker \<Rightarrow> account_snapshot" where
  "replay_snapshot b = (replay_account_snapshot (rb_account b) (rb_session b) (rb_prices b))
     \<lparr>as_active_order_deltas := fold add_replay_active (filter replay_active (dict_vals (rb_orders b))) []\<rparr>"

definition replay_submit :: "execution_child \<Rightarrow> (replay_broker, string option) op" where
  "replay_submit ch b = (case map_of (rb_orders b) (ec_reference ch) of
     Some ord \<Rightarrow> (Inr (Some (rpo_order_id ord)), b)
   | None \<Rightarrow>
       let order_id = ''replay-'' @ drop (length (ec_reference ch) - 12) (ec_reference ch);
           ord = \<lparr>rpo_child = ch, rpo_session = rb_session b, rpo_order_id = order_id, rpo_status = ''submitted'',
             rpo_filled = 0, rpo_polls = 0\<rparr>
       in (Inr (Some order_id), b\<lparr>rb_orders := dict_set (ec_reference ch) ord (rb_orders b)\<rparr>))"

definition replay_cancel :: "string \<Rightarrow> (replay_broker, bool) op" where
  "replay_cancel reference b = (case map_of (rb_orders b) reference of
     None \<Rightarrow> (Inr True, b)
   | Some ord \<Rightarrow>
       if rpo_status ord \<in> {''alltraded'', ''cancelled'', ''rejected''} then (Inr True, b)
       else (Inr True, b\<lparr>rb_orders := dict_set reference (ord\<lparr>rpo_status := ''cancelled''\<rparr>) (rb_orders b)\<rparr>))"

subsection \<open>Filling\<close>

definition replay_floor :: "num \<Rightarrow> int \<Rightarrow> num" where
  "replay_floor value lot = (if lot > 0 then of_int (\<lfloor>max value 0 / of_int lot\<rfloor> * lot) else of_int \<lfloor>value\<rfloor>)"

definition replay_price :: "replay_config \<Rightarrow> execution_child \<Rightarrow> num" where
  "replay_price cfg ch = ec_price ch * (if ec_side ch = ''buy'' then 1 + rcf_slippage cfg else 1 - rcf_slippage cfg)"

definition replay_fee_rate :: "replay_config \<Rightarrow> execution_child \<Rightarrow> num" where
  "replay_fee_rate cfg ch = (if ec_side ch = ''buy'' then rcf_open_cost cfg else rcf_close_cost cfg)"

definition replay_affordable :: "replay_config \<Rightarrow> replay_account \<Rightarrow> execution_child \<Rightarrow> num" where
  "replay_affordable cfg a ch = replay_floor (max (rac_cash a - rcf_min_cost cfg) 0 /
     max (replay_price cfg ch * (1 + replay_fee_rate cfg ch)) (1 / 1000000000000)) (rcf_lot_size cfg)"

definition replay_volume :: "replay_config \<Rightarrow> replay_broker \<Rightarrow> replay_order \<Rightarrow> num \<Rightarrow> num" where
  "replay_volume cfg b ord ratio =
     (let ch = rpo_child ord; lots = replay_floor (replay_remaining ord * ratio) (rcf_lot_size cfg);
          volume = (if lots \<le> 0 then replay_remaining ord else lots)
      in if ec_side ch = ''buy'' then min volume (replay_affordable cfg (rb_account b) ch)
         else min volume (dget (as_sellable (replay_account_snapshot (rb_account b) (rb_session b) (rb_prices b)))
                (ec_instrument ch)))"

definition replay_settle ::
  "string \<Rightarrow> execution_child \<Rightarrow> num \<Rightarrow> num \<Rightarrow> num \<Rightarrow> replay_account \<Rightarrow> replay_account" where
  "replay_settle session ch volume price fee a =
     (let k = ec_instrument ch; held = dget (rac_positions a) k in
      if ec_side ch = ''buy''
      then a\<lparr>rac_cash := rac_cash a - (volume * price + fee), rac_positions := dict_set k (held + volume) (rac_positions a),
             rac_acquired_session := dict_set k session (rac_acquired_session a)\<rparr>
      else let a' = a\<lparr>rac_cash := rac_cash a + (volume * price - fee)\<rparr> in
           if held - volume > 0 then a'\<lparr>rac_positions := dict_set k (held - volume) (rac_positions a)\<rparr>
           else a'\<lparr>rac_positions := AList.delete k (rac_positions a),
                  rac_acquired_session := AList.delete k (rac_acquired_session a)\<rparr>)"

text \<open>The row under a reference is changed in place.\<close>

definition put_order :: "string \<Rightarrow> replay_order \<Rightarrow> replay_broker \<Rightarrow> replay_broker" where
  "put_order reference ord b = b\<lparr>rb_orders := dict_set reference ord (rb_orders b)\<rparr>"

text \<open>
  One poll of an active order: the order after it, and the fill if there is one.
\<close>

definition replay_poll :: "replay_config \<Rightarrow> replay_broker \<Rightarrow> replay_order \<Rightarrow> replay_order \<times> replay_fill option" where
  "replay_poll cfg b ord0 =
     (let ord = ord0\<lparr>rpo_polls := rpo_polls ord0 + 1\<rparr>; ch = rpo_child ord;
          ratio = min (max (rcf_partial_fill_ratio cfg) 0) 1; remaining = replay_remaining ord in
      if remaining \<le> 0 then (ord\<lparr>rpo_status := ''alltraded''\<rparr>, None)
      else if ratio \<le> 0
      then (ord\<lparr>rpo_status := (if rpo_polls ord = 1 then ''nottraded'' else ''cancelled'')\<rparr>, None)
      else let volume = replay_volume cfg b ord ratio; price = replay_price cfg ch in
        if volume \<le> 0 then (ord\<lparr>rpo_status := ''rejected''\<rparr>, None)
        else let fee = max (volume * price * replay_fee_rate cfg ch) (rcf_min_cost cfg);
                 filled = rpo_filled ord + volume
             in (ord\<lparr>rpo_filled := filled,
                   rpo_status := (if filled \<ge> ec_volume ch - 1 / 1000000000 then ''alltraded'' else ''parttraded'')\<rparr>,
                 Some \<lparr>rpf_reference = ec_reference ch, rpf_session = rb_session b, rpf_instrument = ec_instrument ch,
                   rpf_side = ec_side ch, rpf_volume = volume, rpf_price = price, rpf_fee = fee\<rparr>))"

definition replay_apply :: "string \<Rightarrow> replay_order \<times> replay_fill option \<Rightarrow> replay_broker \<Rightarrow> replay_broker" where
  "replay_apply reference p b = (case p of
     (ord, None) \<Rightarrow> put_order reference ord b
   | (ord, Some f) \<Rightarrow> (put_order reference ord b)\<lparr>rb_account := replay_settle (rpf_session f) (rpo_child ord) (rpf_volume f)
        (rpf_price f) (rpf_fee f) (rb_account b), rb_fills := rb_fills b @ [f]\<rparr>)"

definition replay_record ::
  "(num \<Rightarrow> string) \<Rightarrow> string \<Rightarrow> replay_order \<Rightarrow> replay_fill option \<Rightarrow> (replay_broker execution, unit) op" where
  "replay_record ftext now ord fill = (case fill of
     None \<Rightarrow> op_return ()
   | Some f \<Rightarrow> op_bind (ask (get_child_order (rpf_reference f))) (\<lambda>row. case row of
         None \<Rightarrow> op_return ()
       | Some r \<Rightarrow> op_then (in_journal (record_fill_reconciliation now
             (rpf_reference f @ '':'' @ ftext (rpo_filled ord) @ '':'' @ ftext (rpf_price f))
             (co_plan_id r) (rpf_reference f) (rpo_order_id ord) (rpf_volume f) (rpf_price f))) (op_return ())))"

definition advance_order ::
  "replay_config \<Rightarrow> (num \<Rightarrow> string) \<Rightarrow> string \<Rightarrow> string \<Rightarrow> replay_order \<Rightarrow> (replay_broker execution, replay_order) op" where
  "advance_order cfg ftext now reference ord x =
     (let p = replay_poll cfg (xs_world x) ord
      in op_then (replay_record ftext now (fst p) (snd p)) (op_return (fst p))
           (x\<lparr>xs_world := replay_apply reference p (xs_world x)\<rparr>))"

definition replay_status ::
  "replay_config \<Rightarrow> (num \<Rightarrow> string) \<Rightarrow> string \<Rightarrow> string \<Rightarrow> (replay_broker execution, replay_order option) op" where
  "replay_status cfg ftext now reference x = (case map_of (rb_orders (xs_world x)) reference of
     None \<Rightarrow> (Inr None, x)
   | Some ord \<Rightarrow>
       if replay_active ord then op_bind (advance_order cfg ftext now reference ord) (\<lambda>ord'. op_return (Some ord')) x
       else (Inr (Some ord), x))"

fun replay_statuses ::
  "replay_config \<Rightarrow> (num \<Rightarrow> string) \<Rightarrow> string \<Rightarrow> string list \<Rightarrow> (string \<times> string) list \<Rightarrow>
   (replay_broker execution, (string \<times> string) list) op" where
  "replay_statuses cfg ftext now [] result = op_return result"
| "replay_statuses cfg ftext now (reference # references) result =
     op_bind (replay_status cfg ftext now reference) (\<lambda>ord.
       replay_statuses cfg ftext now references (case ord of
         None \<Rightarrow> result | Some ord \<Rightarrow> dict_set reference (rpo_status ord) result))"

definition replay_ports :: "replay_config \<Rightarrow> (num \<Rightarrow> string) \<Rightarrow> string \<Rightarrow> replay_broker ports" where
  "replay_ports cfg ftext now =
     \<lparr>po_snapshot = in_world (\<lambda>b. (Inr (replay_snapshot b), b)),
      po_statuses = (\<lambda>references. replay_statuses cfg ftext now references []),
      po_fills = None,
      po_submit = (\<lambda>ch. in_world (replay_submit ch)),
      po_cancel = (\<lambda>reference. in_world (replay_cancel reference))\<rparr>"

lemma replay_ports_fields [simp]:
  "po_snapshot (replay_ports cfg ftext now) = in_world (\<lambda>b. (Inr (replay_snapshot b), b))"
  "po_statuses (replay_ports cfg ftext now) = (\<lambda>references. replay_statuses cfg ftext now references [])"
  "po_fills (replay_ports cfg ftext now) = None"
  "po_submit (replay_ports cfg ftext now) = (\<lambda>ch. in_world (replay_submit ch))"
  "po_cancel (replay_ports cfg ftext now) = (\<lambda>reference. in_world (replay_cancel reference))"
  by (simp_all add: replay_ports_def)

subsection \<open>Driving one plan\<close>

text \<open>
  \<open>for _ in range(256): ... else: pause\<close>.  The \<open>else\<close> runs whenever the loop ended without \<open>break\<close>, so also when
  the last \<open>advance\<close> settled the plan.
\<close>

fun drive_plan :: "nat \<Rightarrow> 'w coordinator \<Rightarrow> string \<Rightarrow> plan_state \<Rightarrow> ('w execution, plan_state) op" where
  "drive_plan 0 c plan_id st = pause_plan c plan_id ''replay execution exceeded phase budget''"
| "drive_plan (Suc n) c plan_id st =
     (if settled_phase (es_phase st) then op_return st
      else op_bind (advance_plan c plan_id) (drive_plan n c plan_id))"

definition replay_coordinator ::
  "replay_config \<Rightarrow> (num \<Rightarrow> string) \<Rightarrow> string \<Rightarrow> plan_function \<Rightarrow> (string \<Rightarrow> string) \<Rightarrow> (string \<Rightarrow> stamp option) \<Rightarrow>
   replay_broker coordinator" where
  "replay_coordinator cfg ftext now planner sha fromiso =
     \<lparr>xc_ports = replay_ports cfg ftext now, xc_planner = planner, xc_can_route = True, xc_shadow = False,
      xc_max_replans = 8, xc_expected_account_id = ''replay'', xc_sha = sha, xc_fromisoformat = fromiso, xc_now = now\<rparr>"

definition replay_execute ::
  "replay_broker coordinator \<Rightarrow> string \<Rightarrow> (string \<times> num) list \<Rightarrow> child_plan \<Rightarrow> target_portfolio \<Rightarrow> string list \<Rightarrow>
   (string \<times> tradable_quote) list \<Rightarrow> (string \<times> instrument_metadata) list \<Rightarrow> (replay_broker execution, plan_state) op" where
  "replay_execute c session prices plan target universe quotes instruments =
     op_then (in_world (op_modify (replay_set_session session prices instruments)))
       (op_bind (begin_plan c plan target universe quotes instruments)
          (drive_plan 256 c (xp_plan_id plan)))"

end
