(* ===== verification/Replay_Safety.thy ===== *)
theory Replay_Safety
  imports Replay
begin

section \<open>What a replay keeps\<close>

text \<open>
  The replay broker as a provider of the coordinator's ports, and the invariants of its books under every
  run of coordinators: balances, cash, lots and the settlement rule.
\<close>

subsection \<open>The broker provides the ports\<close>

lemma replay_record_frame:
  "xs_world (snd (replay_record ftext now ord fill x)) = xs_world x"
  "fills_only (xs_journal x) (xs_journal (snd (replay_record ftext now ord fill x)))"
proof -
  have fill: "\<exists>fl. snd (record_fill_reconciliation n k p r oid v pr j) = j\<lparr>jn_fills := fl\<rparr>" for n k p r oid v pr j
  proof (cases "map_of (jn_fills j) k = None \<and> map_of (jn_states j) p \<noteq> None")
    case True
    then show ?thesis by (auto simp: record_fill_reconciliation_def simp del: map_of_eq_Some_iff)
  next
    case False
    then have "snd (record_fill_reconciliation n k p r oid v pr j) = j\<lparr>jn_fills := jn_fills j\<rparr>"
      by (auto simp: record_fill_reconciliation_def split: option.split simp del: map_of_eq_Some_iff)
    then show ?thesis by blast
  qed
  have "\<exists>fl. snd (replay_record ftext now ord fill x) = x\<lparr>xs_journal := (xs_journal x)\<lparr>jn_fills := fl\<rparr>\<rparr>"
  proof (cases "\<exists>f r. fill = Some f \<and> get_child_order (rpf_reference f) (xs_journal x) = Some r")
    case True
    then obtain f r where "fill = Some f" "get_child_order (rpf_reference f) (xs_journal x) = Some r" by blast
    then show ?thesis using fill
      by (simp add: replay_record_def op_bind_def op_then_def op_return_def ask_def in_journal_def split_beta
          split: sum.split) (metis)
  next
    case False
    then have "snd (replay_record ftext now ord fill x) = x\<lparr>xs_journal := (xs_journal x)\<lparr>jn_fills := jn_fills (xs_journal x)\<rparr>\<rparr>"
      by (auto simp: replay_record_def op_bind_def op_return_def ask_def split: option.split simp del: map_of_eq_Some_iff)
    then show ?thesis by blast
  qed
  then obtain fl where "snd (replay_record ftext now ord fill x) = x\<lparr>xs_journal := (xs_journal x)\<lparr>jn_fills := fl\<rparr>\<rparr>" ..
  then show "xs_world (snd (replay_record ftext now ord fill x)) = xs_world x"
    "fills_only (xs_journal x) (xs_journal (snd (replay_record ftext now ord fill x)))" by simp_all
qed

lemma advance_order_frame:
  "xs_world (snd (advance_order cfg ftext now r ord x)) = replay_apply r (replay_poll cfg (xs_world x) ord) (xs_world x)"
  "fills_only (xs_journal x) (xs_journal (snd (advance_order cfg ftext now r ord x)))"
  using replay_record_frame [where ftext = ftext and now = now and ord = "fst (replay_poll cfg (xs_world x) ord)"
      and fill = "snd (replay_poll cfg (xs_world x) ord)" and x = "x\<lparr>xs_world := replay_apply r (replay_poll cfg (xs_world x) ord) (xs_world x)\<rparr>"]
  by (auto simp: advance_order_def op_then_def op_bind_def op_return_def Let_def split: prod.split sum.split)

text \<open>One status: nothing, or one poll of an active order.\<close>

lemma replay_status_cases:
  obtains "snd (replay_status cfg ftext now r x) = x"
  | ord where "map_of (rb_orders (xs_world x)) r = Some ord" "replay_active ord"
      "xs_world (snd (replay_status cfg ftext now r x)) = replay_apply r (replay_poll cfg (xs_world x) ord) (xs_world x)"
      "fills_only (xs_journal x) (xs_journal (snd (replay_status cfg ftext now r x)))"
proof (cases "map_of (rb_orders (xs_world x)) r")
  case None
  with that(1) show thesis by (simp add: replay_status_def)
next
  case (Some ord)
  show thesis
  proof (cases "replay_active ord")
    case False
    with Some that(1) show thesis by (simp add: replay_status_def)
  next
    case True
    have "snd (replay_status cfg ftext now r x) = snd (advance_order cfg ftext now r ord x)"
      using Some True by (simp add: replay_status_def op_bind_def op_return_def split: prod.split sum.split)
    with Some True that(2) advance_order_frame show thesis by simp
  qed
qed

lemma fills_only_trans: "fills_only a b \<Longrightarrow> fills_only b c \<Longrightarrow> fills_only a c"
  unfolding fills_only_def by (metis (no_types, lifting) journal.surjective journal.update_convs(7))

text \<open>The keys of the orders are those that were submitted.\<close>

definition replay_handed :: "replay_broker \<Rightarrow> string list" where
  "replay_handed b = map fst (rb_orders b)"

definition orders_keyed :: "replay_broker \<Rightarrow> bool" where
  "orders_keyed b \<longleftrightarrow> (\<forall>(r, ord) \<in> set (rb_orders b). ec_reference (rpo_child ord) = r)"

lemma dict_set_same: "k \<in> fst ` set d \<Longrightarrow> map fst (dict_set k v d) = map fst d"
  by (induction d) auto

lemma dict_set_new: "k \<notin> fst ` set d \<Longrightarrow> map fst (dict_set k v d) = map fst d @ [k]"
  by (induction d) auto

lemma replay_poll_child [simp]: "rpo_child (fst (replay_poll cfg b ord)) = rpo_child ord"
  by (simp add: replay_poll_def Let_def)

lemma replay_apply_orders: "rb_orders (replay_apply r p b) = dict_set r (fst p) (rb_orders b)"
  by (cases p; cases "snd p") (simp_all add: replay_apply_def put_order_def)

lemma replay_status_quiet: "quiet_step replay_handed x (snd (replay_status cfg ftext now r x))"
proof (cases rule: replay_status_cases [of cfg ftext now r x])
  case 1
  then show ?thesis by (simp add: quiet_step_def)
next
  case (2 ord)
  then have "r \<in> fst ` set (rb_orders (xs_world x))" by (auto dest: map_of_SomeD intro: rev_image_eqI)
  with 2 show ?thesis by (simp add: quiet_step_def replay_handed_def replay_apply_orders dict_set_same)
qed

lemma quiet_step_trans: "quiet_step handed x y \<Longrightarrow> quiet_step handed y z \<Longrightarrow> quiet_step handed x z"
  unfolding quiet_step_def using fills_only_trans by auto

lemma replay_statuses_quiet: "quiet_step replay_handed x (snd (replay_statuses cfg ftext now rs result x))"
proof (induction rs arbitrary: result x)
  case Nil
  show ?case by (simp add: op_return_def quiet_step_def)
next
  case (Cons r rs)
  have "quiet_step replay_handed x (snd (replay_status cfg ftext now r x))" by (rule replay_status_quiet)
  with Cons show ?case by (auto simp: op_bind_def split: prod.splits sum.splits intro: quiet_step_trans)
qed

lemma replay_cancel_keys: "replay_handed (snd (replay_cancel r b)) = replay_handed b"
proof (cases "map_of (rb_orders b) r")
  case (Some ord)
  then have "r \<in> fst ` set (rb_orders b)" by (auto dest: map_of_SomeD intro: rev_image_eqI)
  with Some show ?thesis by (simp add: replay_cancel_def replay_handed_def dict_set_same)
qed (simp add: replay_cancel_def)

lemma replay_submit_keys: "replay_handed (snd (replay_submit ch b)) =
    replay_handed b @ (if ec_reference ch \<in> set (replay_handed b) then [] else [ec_reference ch])"
  by (auto simp: replay_submit_def replay_handed_def Let_def dict_set_new map_of_eq_None_iff dest: map_of_key
      split: option.split simp del: map_of_eq_Some_iff)

lemma quiet_in_world:
  "handed (snd (m (xs_world x))) = handed (xs_world x) \<Longrightarrow> quiet_step handed x (snd (in_world m x))"
  by (simp add: quiet_step_def in_world_def split_beta)

interpretation replayed: execution_ports "replay_ports cfg ftext now" replay_handed for cfg ftext now
proof
  fix x ch
  show "fills_only (xs_journal x) (xs_journal (snd (po_submit (replay_ports cfg ftext now) ch x)))"
    by (simp add: in_world_def split_beta)
  show "replay_handed (xs_world (snd (po_submit (replay_ports cfg ftext now) ch x))) = replay_handed (xs_world x) \<or>
      replay_handed (xs_world (snd (po_submit (replay_ports cfg ftext now) ch x))) =
        replay_handed (xs_world x) @ [ec_reference ch]"
    by (simp add: in_world_def split_beta replay_submit_keys)
qed (auto simp: replay_cancel_keys replay_statuses_quiet intro!: quiet_in_world)

subsection \<open>Invariants of the broker\<close>

text \<open>An invariant of the broker under submitting, polling and cancelling is one of the coordinator.\<close>

locale replay_invariant =
  fixes cfg :: replay_config and I :: "replay_broker \<Rightarrow> bool"
  assumes poll_keeps: "I b \<Longrightarrow> map_of (rb_orders b) r = Some ord \<Longrightarrow> replay_active ord \<Longrightarrow>
      I (replay_apply r (replay_poll cfg b ord) b)"
    and submit_keeps: "I b \<Longrightarrow> I (snd (replay_submit ch b))"
    and cancel_keeps: "I b \<Longrightarrow> I (snd (replay_cancel r b))"
begin

lemma status_keeps: "keeps (\<lambda>x. I (xs_world x)) (replay_status cfg ftext now r)"
proof (rule keepsI)
  fix x :: "replay_broker execution"
  assume "I (xs_world x)"
  then show "I (xs_world (snd (replay_status cfg ftext now r x)))"
    by (cases rule: replay_status_cases [of cfg ftext now r x]) (simp_all add: poll_keeps)
qed

lemma statuses_keep: "keeps (\<lambda>x. I (xs_world x)) (replay_statuses cfg ftext now rs result)"
  by (induction rs arbitrary: result) (auto intro: keeps_bind status_keeps)

lemma replay_world:
  assumes "xc_ports c = replay_ports cfg ftext now"
  shows "execution_invariant c (\<lambda>x. I (xs_world x)) (\<lambda>_. True) (\<lambda>_ _. True)"
proof
  have sub: "keeps (\<lambda>x. I (xs_world x)) (po_submit (xc_ports c) ch)" for ch
    unfolding assms replay_ports_fields by (rule keeps_in_world) (simp add: submit_keeps)
  show "keeps (\<lambda>x. I (xs_world x)) (route_child c plan statuses ch)" for plan statuses ch
    unfolding route_child_def Let_def
    by (intro keeps_bind keeps_if keeps_ask keeps_return keeps_in_journal sub)
      (auto intro!: keeps_then keeps_in_journal split: list.split)
  show "keeps (\<lambda>x. I (xs_world x)) (po_cancel (xc_ports c) r)" for r
    unfolding assms replay_ports_fields by (rule keeps_in_world) (simp add: cancel_keeps)
qed (simp_all add: assms statuses_keep keeps_in_world keeps_in_journal)

text \<open>Sessions may change between the calls where the invariant allows it.\<close>

lemma replay_run_keeps:
  assumes "execution_run (\<lambda>c _. \<exists>ftext now. xc_ports c = replay_ports cfg ftext now) env x y" "I (xs_world x)"
    "\<And>b b'. I b \<Longrightarrow> env b b' \<Longrightarrow> I b'"
  shows "I (xs_world y)"
proof (rule execution_run_keeps [where I = "\<lambda>x. I (xs_world x)", OF assms(1,2)])
  fix c :: "replay_broker coordinator" and a
  assume "\<exists>ftext now. xc_ports c = replay_ports cfg ftext now"
  then obtain ftext now where "xc_ports c = replay_ports cfg ftext now" by blast
  from execution_invariant.perform_keeps [OF replay_world [OF this]]
  show "keeps (\<lambda>x. I (xs_world x)) (perform c a)" by blast
qed (use assms(3) in auto)

end

subsection \<open>Balanced books\<close>

definition fill_lots :: "string \<Rightarrow> replay_fill \<Rightarrow> num" where
  "fill_lots k f = (if rpf_instrument f = k then if rpf_side f = ''buy'' then rpf_volume f else - rpf_volume f else 0)"

definition fill_flow :: "replay_fill \<Rightarrow> num" where
  "fill_flow f = (if rpf_side f = ''buy'' then - (rpf_volume f * rpf_price f + rpf_fee f)
     else rpf_volume f * rpf_price f - rpf_fee f)"

text \<open>
  The account is the sum of the fills: cash starts from the configured amount, a position is what was
  bought less what was sold and is never short, and an order is filled as far as its fills say.
\<close>

definition long_only_books :: "(string \<times> num) list \<Rightarrow> bool" where
  "long_only_books d \<longleftrightarrow> dict_ok d \<and> (\<forall>(k, v) \<in> set d. v > 0)"

definition books_balance :: "replay_config \<Rightarrow> replay_broker \<Rightarrow> bool" where
  "books_balance cfg b \<longleftrightarrow>
     rac_cash (rb_account b) = rcf_initial_cash cfg + sum_list (map fill_flow (rb_fills b)) \<and>
     (\<forall>k. dget (rac_positions (rb_account b)) k = sum_list (map (fill_lots k) (rb_fills b))) \<and>
     long_only_books (rac_positions (rb_account b))"

lemma long_only_books_get:
  assumes "long_only_books d"
  shows "dget d k \<ge> 0" "map_of d k \<noteq> None \<Longrightarrow> dget d k > 0"
  using assms by (auto simp: long_only_books_def dget_def split: option.split dest!: map_of_SomeD)

lemma long_only_books_set: "long_only_books d \<Longrightarrow> v > 0 \<Longrightarrow> long_only_books (dict_set k v d)"
  by (auto simp: long_only_books_def dict_set_mem split: if_splits)

lemma long_only_books_delete: "long_only_books d \<Longrightarrow> long_only_books (dict_del k d)"
  by (auto simp: long_only_books_def dict_set_mem AList.delete_eq distinct_map_filter case_prod_beta)

lemma dget_delete: "dget (dict_del k d) k' = (if k' = k then 0 else dget d k')"
  by (simp add: dget_def AList.delete_conv')

text \<open>What the account can sell is what it holds, or nothing while it is not settled.\<close>

lemma sellable_at: "dget (as_sellable (replay_account_snapshot a session prices)) k =
    (if map_of (rac_positions a) k = None then 0 else settled_volume a session k (dget (rac_positions a) k))"
proof -
  have "map_of (map (\<lambda>(k, v). (k, settled_volume a session k v)) d) k = map_option (settled_volume a session k) (map_of d k)"
    for d :: "(string \<times> num) list"
    by (induction d) auto
  from this [of "rac_positions a"] show ?thesis
    by (simp add: replay_account_snapshot_def dget_def split: option.split)
qed

lemma sellable_held: "long_only_books (rac_positions a) \<Longrightarrow>
    dget (as_sellable (replay_account_snapshot a session prices)) k \<le> dget (rac_positions a) k"
  using long_only_books_get [of "rac_positions a" k] by (auto simp: sellable_at settled_volume_def)

text \<open>The fill of a poll.\<close>

lemma replay_poll_fill:
  assumes "snd (replay_poll cfg b ord) = Some f"
  shows "rpf_volume f > 0" "rpf_volume f = replay_volume cfg b ord (min (max (rcf_partial_fill_ratio cfg) 0) 1)"
    "rpf_instrument f = ec_instrument (rpo_child ord)" "rpf_side f = ec_side (rpo_child ord)"
    "rpf_session f = rb_session b" "rpf_price f = replay_price cfg (rpo_child ord)"
    "rpf_fee f = max (rpf_volume f * rpf_price f * replay_fee_rate cfg (rpo_child ord)) (rcf_min_cost cfg)"
    "rpo_filled (fst (replay_poll cfg b ord)) = rpo_filled ord + rpf_volume f" "replay_remaining ord > 0"
    "rpf_reference f = ec_reference (rpo_child ord)" "rcf_partial_fill_ratio cfg > 0"
proof -
  have rem: "replay_remaining (ord\<lparr>rpo_polls := n\<rparr>) = replay_remaining ord" for n by (simp add: replay_remaining_def)
  have vol: "replay_volume cfg b (ord\<lparr>rpo_polls := n\<rparr>) r = replay_volume cfg b ord r" for n r
    by (simp add: replay_volume_def rem cong: if_cong)
  show "rpf_volume f > 0" "rpf_volume f = replay_volume cfg b ord (min (max (rcf_partial_fill_ratio cfg) 0) 1)"
    "rpf_instrument f = ec_instrument (rpo_child ord)" "rpf_side f = ec_side (rpo_child ord)"
    "rpf_session f = rb_session b" "rpf_price f = replay_price cfg (rpo_child ord)"
    "rpf_fee f = max (rpf_volume f * rpf_price f * replay_fee_rate cfg (rpo_child ord)) (rcf_min_cost cfg)"
    "rpo_filled (fst (replay_poll cfg b ord)) = rpo_filled ord + rpf_volume f" "replay_remaining ord > 0"
    "rpf_reference f = ec_reference (rpo_child ord)" "rcf_partial_fill_ratio cfg > 0"
    using assms by (auto simp: replay_poll_def Let_def rem vol split: if_splits)
qed

lemma replay_apply_fields:
  "snd p = None \<Longrightarrow> replay_apply r p b = put_order r (fst p) b"
  "snd p = Some f \<Longrightarrow> rb_fills (replay_apply r p b) = rb_fills b @ [f]"
  "snd p = Some f \<Longrightarrow> rb_account (replay_apply r p b) = replay_settle (rpf_session f) (rpo_child (fst p)) (rpf_volume f)
     (rpf_price f) (rpf_fee f) (rb_account b)"
  "rb_session (replay_apply r p b) = rb_session b"
  by (cases p; cases "snd p"; simp add: replay_apply_def put_order_def)+

lemma put_order_fields [simp]:
  "rb_account (put_order r ord b) = rb_account b" "rb_fills (put_order r ord b) = rb_fills b"
  "rb_session (put_order r ord b) = rb_session b" "rb_orders (put_order r ord b) = dict_set r ord (rb_orders b)"
  by (simp_all add: put_order_def)

lemma replay_volume_bounds:
  "ec_side (rpo_child ord) = ''buy'' \<Longrightarrow> replay_volume cfg b ord q \<le> replay_affordable cfg (rb_account b) (rpo_child ord)"
  "ec_side (rpo_child ord) \<noteq> ''buy'' \<Longrightarrow> replay_volume cfg b ord q \<le>
     dget (as_sellable (replay_account_snapshot (rb_account b) (rb_session b) (rb_prices b))) (ec_instrument (rpo_child ord))"
  "replay_volume cfg b ord q \<le> (if replay_floor (replay_remaining ord * q) (rcf_lot_size cfg) \<le> 0 then replay_remaining ord
     else replay_floor (replay_remaining ord * q) (rcf_lot_size cfg))"
  unfolding replay_volume_def Let_def by (simp_all only: if_True if_False simp_thms min.cobounded1 min.cobounded2 split: if_splits)

text \<open>A sale is covered by the holding.\<close>

lemma sale_covered:
  assumes "snd (replay_poll cfg b ord) = Some f" "rpf_side f \<noteq> ''buy''" "long_only_books (rac_positions (rb_account b))"
  shows "rpf_volume f \<le> dget (rac_positions (rb_account b)) (rpf_instrument f)"
proof -
  note f = replay_poll_fill [OF assms(1)]
  have "rpf_volume f \<le> dget (as_sellable (replay_account_snapshot (rb_account b) (rb_session b) (rb_prices b))) (rpf_instrument f)"
    using replay_volume_bounds(2) [of ord] assms(2) unfolding f(2,3,4) by simp
  also have "\<dots> \<le> dget (rac_positions (rb_account b)) (rpf_instrument f)" by (rule sellable_held [OF assms(3)])
  finally show ?thesis .
qed

lemma settled_books:
  assumes "snd (replay_poll cfg b ord) = Some f" "books_balance cfg b"
  shows "books_balance cfg (replay_apply r (replay_poll cfg b ord) b)"
proof -
  note f = replay_poll_fill [OF assms(1)]
  let ?a = "rb_account b"
  let ?a' = "replay_settle (rpf_session f) (rpo_child ord) (rpf_volume f) (rpf_price f) (rpf_fee f) ?a"
  have ok: "long_only_books (rac_positions ?a)" using assms(2) by (simp add: books_balance_def)
  have acct: "rb_account (replay_apply r (replay_poll cfg b ord) b) = ?a'"
    using replay_apply_fields(3) [OF assms(1)] by simp
  have cash: "rac_cash ?a' = rac_cash ?a + fill_flow f"
    by (simp add: replay_settle_def fill_flow_def Let_def f(4))
  have pos: "dget (rac_positions ?a') k = dget (rac_positions ?a) k + fill_lots k f" for k
    using sale_covered [OF assms(1) _ ok] f(3,4)
    by (auto simp: replay_settle_def fill_lots_def Let_def dget_set dget_delete)
  have "dget (rac_positions ?a) k + rpf_volume f > 0" for k
    using long_only_books_get(1) [OF ok, of k] f(1) by linarith
  then have "long_only_books (rac_positions ?a')"
    using ok by (auto simp: replay_settle_def Let_def intro: long_only_books_set long_only_books_delete)
  with assms(2) show ?thesis
    unfolding books_balance_def acct cash pos replay_apply_fields(2) [OF assms(1)] by simp
qed

interpretation books: replay_invariant cfg "books_balance cfg" for cfg
proof
  fix b r ord ch
  assume b: "books_balance cfg b"
  show "books_balance cfg (replay_apply r (replay_poll cfg b ord) b)"
  proof (cases "snd (replay_poll cfg b ord)")
    case None
    with b show ?thesis by (simp add: replay_apply_fields(1) books_balance_def)
  next
    case (Some f)
    from settled_books [OF this b] show ?thesis .
  qed
  show "books_balance cfg (snd (replay_submit ch b))"
    using b by (simp add: replay_submit_def books_balance_def Let_def split: option.split)
  show "books_balance cfg (snd (replay_cancel r b))"
    using b by (simp add: replay_cancel_def books_balance_def split: option.split)
qed

subsection \<open>Orders\<close>

definition reference_lots :: "string \<Rightarrow> replay_fill \<Rightarrow> num" where
  "reference_lots r f = (if rpf_reference f = r then rpf_volume f else 0)"

definition filled_of :: "replay_broker \<Rightarrow> string \<Rightarrow> num" where
  "filled_of b r = (case map_of (rb_orders b) r of None \<Rightarrow> 0 | Some ord \<Rightarrow> rpo_filled ord)"

text \<open>An order is filled as far as its fills say, and never beyond its volume.\<close>

definition orders_filled :: "replay_broker \<Rightarrow> bool" where
  "orders_filled b \<longleftrightarrow> (\<forall>r. filled_of b r = sum_list (map (reference_lots r) (rb_fills b))) \<and>
     (\<forall>r ord. map_of (rb_orders b) r = Some ord \<longrightarrow>
        ec_reference (rpo_child ord) = r \<and> rpo_filled ord \<le> max (ec_volume (rpo_child ord)) 0)"

lemma replay_floor_le: "value > 0 \<Longrightarrow> replay_floor value lot \<le> value"
proof (cases "lot > 0")
  case True
  assume pos: "value > 0"
  have "of_int \<lfloor>value / of_int lot\<rfloor> \<le> value / of_int lot" by simp
  then have "of_int \<lfloor>value / of_int lot\<rfloor> * of_int lot \<le> value / of_int lot * of_int lot"
    using True by (intro mult_right_mono) simp_all
  with True pos show ?thesis by (simp add: replay_floor_def)
qed (simp add: replay_floor_def)

lemma fill_within_order:
  assumes "snd (replay_poll cfg b ord) = Some f"
  shows "rpf_volume f \<le> replay_remaining ord"
proof -
  note f = replay_poll_fill [OF assms]
  let ?q = "min (max (rcf_partial_fill_ratio cfg) 0) 1"
  have q: "0 < ?q" "?q \<le> 1" using f(11) by auto
  have "replay_floor (replay_remaining ord * ?q) (rcf_lot_size cfg) \<le> replay_remaining ord * ?q"
    using q f(9) by (intro replay_floor_le) simp
  also have "\<dots> \<le> replay_remaining ord" using q f(9) by (intro mult_left_le) simp_all
  finally have "(if replay_floor (replay_remaining ord * ?q) (rcf_lot_size cfg) \<le> 0 then replay_remaining ord
      else replay_floor (replay_remaining ord * ?q) (rcf_lot_size cfg)) \<le> replay_remaining ord" by simp
  then show ?thesis unfolding f(2) using replay_volume_bounds(3) by (rule order_trans [rotated])
qed

lemma replay_poll_no_fill: "snd (replay_poll cfg b ord) = None \<Longrightarrow> rpo_filled (fst (replay_poll cfg b ord)) = rpo_filled ord"
  by (auto simp: replay_poll_def Let_def split: if_splits)

lemma polled_orders:
  assumes b: "orders_filled b" and r: "map_of (rb_orders b) r = Some ord"
  shows "orders_filled (replay_apply r (replay_poll cfg b ord) b)"
proof (cases "snd (replay_poll cfg b ord)")
  case None
  then show ?thesis using b r
    by (auto simp: replay_apply_fields(1) orders_filled_def filled_of_def AList.update_conv' replay_poll_no_fill
        split: option.splits if_splits simp del: map_of_eq_Some_iff)
next
  case (Some f)
  note f = replay_poll_fill [OF Some] and within = fill_within_order [OF Some]
  have key: "rpf_reference f = r" using b r f(10) by (auto simp: orders_filled_def simp del: map_of_eq_Some_iff)
  have "filled_of (replay_apply r (replay_poll cfg b ord) b) r' = filled_of b r' + reference_lots r' f" for r'
    using r key f(8) by (cases "r' = r") (simp_all add: filled_of_def replay_apply_orders AList.update_conv' reference_lots_def)
  moreover have "rpo_filled ord + rpf_volume f \<le> max (ec_volume (rpo_child ord)) 0"
    using within by (simp add: replay_remaining_def)
  ultimately show ?thesis
    using b r f(8) by (auto simp: orders_filled_def replay_apply_fields(2) [OF Some] replay_apply_orders AList.update_conv'
        split: if_splits simp del: map_of_eq_Some_iff)
qed

interpretation orders: replay_invariant cfg orders_filled for cfg
proof
  fix b r ord ch
  assume b: "orders_filled b"
  show "orders_filled (replay_apply r (replay_poll cfg b ord) b)" if "map_of (rb_orders b) r = Some ord"
    by (rule polled_orders [OF b that])
  show "orders_filled (snd (replay_submit ch b))"
  proof (cases "map_of (rb_orders b) (ec_reference ch)")
    case None
    then have "filled_of (snd (replay_submit ch b)) r = filled_of b r" for r
      by (cases "r = ec_reference ch") (simp_all add: filled_of_def replay_submit_def Let_def AList.update_conv')
    with b None show ?thesis
      by (auto simp: orders_filled_def replay_submit_def Let_def AList.update_conv' simp del: map_of_eq_Some_iff)
  next
    case (Some ord)
    with b show ?thesis by (simp add: replay_submit_def)
  qed
  show "orders_filled (snd (replay_cancel r b))"
  proof (cases "map_of (rb_orders b) r")
    case None
    with b show ?thesis by (simp add: replay_cancel_def)
  next
    case (Some ord)
    then have "filled_of (snd (replay_cancel r b)) r' = filled_of b r'" for r'
      by (cases "r' = r") (simp_all add: filled_of_def replay_cancel_def AList.update_conv')
    with b Some show ?thesis
      by (auto simp: orders_filled_def replay_cancel_def AList.update_conv' split: if_splits simp del: map_of_eq_Some_iff)
  qed
qed

subsection \<open>Cash\<close>

text \<open>
  A purchase is paid from cash; a sale may cost more than it brings by less than the minimum fee.
\<close>

definition sale_count :: "replay_fill list \<Rightarrow> nat" where
  "sale_count fs = length (filter (\<lambda>f. rpf_side f \<noteq> ''buy'') fs)"

definition fair_prices :: "replay_broker \<Rightarrow> bool" where
  "fair_prices b \<longleftrightarrow> (\<forall>r ord. map_of (rb_orders b) r = Some ord \<longrightarrow> ec_price (rpo_child ord) \<ge> 0)"

definition cash_bounded :: "replay_config \<Rightarrow> replay_broker \<Rightarrow> bool" where
  "cash_bounded cfg b \<longleftrightarrow> rac_cash (rb_account b) \<ge> - (rcf_min_cost cfg * of_nat (sale_count (rb_fills b)))"

definition fair_config :: "replay_config \<Rightarrow> bool" where
  "fair_config cfg \<longleftrightarrow> check_replay_config cfg = Inr cfg \<and> rcf_close_cost cfg \<le> 1"

lemma fair_config_fields:
  assumes "fair_config cfg"
  shows "rcf_initial_cash cfg > 0" "rcf_open_cost cfg \<ge> 0" "rcf_close_cost cfg \<ge> 0" "rcf_min_cost cfg \<ge> 0"
    "rcf_slippage cfg \<ge> 0" "rcf_slippage cfg < 1" "rcf_lot_size cfg > 0" "rcf_close_cost cfg \<le> 1"
  using assms by (auto simp: fair_config_def check_replay_config_def split: if_splits)

lemma replay_floor_nonneg: "lot > 0 \<Longrightarrow> replay_floor value lot \<ge> 0"
  by (simp add: replay_floor_def)

text \<open>What a fill costs.\<close>

lemma purchase_paid:
  assumes "fair_config cfg" "snd (replay_poll cfg b ord) = Some f" "rpf_side f = ''buy''"
  shows "rpf_volume f * rpf_price f + rpf_fee f \<le> rac_cash (rb_account b)"
proof -
  note f = replay_poll_fill [OF assms(2)] and cf = fair_config_fields [OF assms(1)]
  let ?ch = "rpo_child ord" and ?v = "rpf_volume f" and ?p = "rpf_price f" and ?r = "rcf_open_cost cfg"
  let ?d = "max (?p * (1 + ?r)) (1 / 1000000000000)" and ?free = "max (rac_cash (rb_account b) - rcf_min_cost cfg) 0"
  have side: "ec_side ?ch = ''buy''" using assms(3) f(4) by simp
  have "?v \<le> replay_floor (?free / ?d) (rcf_lot_size cfg)"
    using replay_volume_bounds(1) [OF side] unfolding f(2,6) replay_affordable_def replay_fee_rate_def side by simp
  moreover have d: "?d > 0" by simp
  moreover have "?free > 0"
  proof (rule ccontr)
    assume "\<not> ?free > 0"
    then have "?free = 0" by simp
    with calculation f(1) cf(7) show False by (simp add: replay_floor_def)
  qed
  ultimately have "?v \<le> ?free / ?d" using replay_floor_le [of "?free / ?d" "rcf_lot_size cfg"] by simp
  with d have afford: "?v * ?d \<le> ?free" by (simp add: field_simps)
  have free: "?free = rac_cash (rb_account b) - rcf_min_cost cfg" using \<open>?free > 0\<close> by auto
  have "?v * (?p * (1 + ?r)) \<le> ?v * ?d" using f(1) by (intro mult_left_mono) auto
  with afford free have a: "?v * ?p + ?v * ?p * ?r \<le> rac_cash (rb_account b) - rcf_min_cost cfg"
    by (simp add: algebra_simps)
  have b: "?v * ?p \<le> rac_cash (rb_account b) - rcf_min_cost cfg"
  proof (cases "?p \<ge> 0")
    case True
    then have "?v * ?p * ?r \<ge> 0" using f(1) cf(2) by simp
    with a show ?thesis by linarith
  next
    case False
    then have "?v * ?p \<le> 0" using f(1) by (simp add: mult_nonneg_nonpos)
    then show ?thesis using free \<open>?free > 0\<close> by linarith
  qed
  have "rpf_fee f = max (?v * ?p * ?r) (rcf_min_cost cfg)" using f(7) side by (simp add: replay_fee_rate_def)
  with a b cf(4) show ?thesis by linarith
qed

lemma sale_costs:
  assumes "fair_config cfg" "snd (replay_poll cfg b ord) = Some f" "rpf_side f \<noteq> ''buy''" "ec_price (rpo_child ord) \<ge> 0"
  shows "rpf_volume f * rpf_price f - rpf_fee f \<ge> - rcf_min_cost cfg"
proof -
  note f = replay_poll_fill [OF assms(2)] and cf = fair_config_fields [OF assms(1)]
  have side: "ec_side (rpo_child ord) \<noteq> ''buy''" using assms(3) f(4) by simp
  have p: "rpf_price f \<ge> 0" using f(6) side assms(4) cf(6) by (simp add: replay_price_def)
  with f(1) have v: "rpf_volume f * rpf_price f \<ge> 0" by simp
  then have "rpf_volume f * rpf_price f * rcf_close_cost cfg \<le> rpf_volume f * rpf_price f"
    using cf(8) v by (intro mult_left_le) simp_all
  with f(7) side v cf(4) show ?thesis by (simp add: replay_fee_rate_def max_def split: if_splits)
qed

lemma polled_cash:
  assumes "fair_config cfg" "cash_bounded cfg b" "ec_price (rpo_child ord) \<ge> 0"
  shows "cash_bounded cfg (replay_apply r (replay_poll cfg b ord) b)"
proof (cases "snd (replay_poll cfg b ord)")
  case None
  with assms(2) show ?thesis by (simp add: replay_apply_fields(1) cash_bounded_def)
next
  case (Some f)
  note f = replay_poll_fill [OF Some] and cf = fair_config_fields [OF assms(1)]
  let ?b = "replay_apply r (replay_poll cfg b ord) b"
  have cash: "rac_cash (rb_account ?b) = rac_cash (rb_account b) + fill_flow f"
    unfolding replay_apply_fields(3) [OF Some] by (simp add: replay_settle_def fill_flow_def Let_def f(4))
  have fills: "rb_fills ?b = rb_fills b @ [f]" by (rule replay_apply_fields(2) [OF Some])
  show ?thesis
  proof (cases "rpf_side f = ''buy''")
    case True
    have "rcf_min_cost cfg * of_nat (sale_count (rb_fills b)) \<ge> 0" using cf(4) by simp
    with purchase_paid [OF assms(1) Some True] True show ?thesis
      unfolding cash_bounded_def cash fills by (simp add: sale_count_def fill_flow_def)
  next
    case False
    with sale_costs [OF assms(1) Some False assms(3)] assms(2) show ?thesis
      unfolding cash_bounded_def cash fills by (simp add: sale_count_def fill_flow_def algebra_simps)
  qed
qed

definition fair_cash :: "replay_config \<Rightarrow> replay_broker \<Rightarrow> bool" where
  "fair_cash cfg b \<longleftrightarrow> fair_config cfg \<longrightarrow> fair_prices b \<longrightarrow> cash_bounded cfg b"

lemma fair_prices_put:
  assumes "fair_prices (b\<lparr>rb_orders := dict_set r ord' (rb_orders b)\<rparr>)" "map_of (rb_orders b) r = Some ord" "rpo_child ord' = rpo_child ord"
  shows "ec_price (rpo_child ord) \<ge> 0" "fair_prices b"
proof -
  have all: "ec_price (rpo_child x) \<ge> 0" if "(if k = r then Some ord' else map_of (rb_orders b) k) = Some x" for k x
    using assms(1) that by (simp add: fair_prices_def AList.update_conv' del: map_of_eq_Some_iff split: if_splits)
  from all [of r ord'] assms(3) show price: "ec_price (rpo_child ord) \<ge> 0" by simp
  have "ec_price (rpo_child x) \<ge> 0" if "map_of (rb_orders b) k = Some x" for k x
    using that assms(2) price all [of k x] by (cases "k = r") (simp_all del: map_of_eq_Some_iff)
  then show "fair_prices b" by (simp add: fair_prices_def del: map_of_eq_Some_iff)
qed

interpretation cash: replay_invariant cfg "fair_cash cfg" for cfg
proof
  fix b r ord ch
  assume b: "fair_cash cfg b"
  show "fair_cash cfg (replay_apply r (replay_poll cfg b ord) b)" if ord: "map_of (rb_orders b) r = Some ord"
    unfolding fair_cash_def
  proof (intro impI)
    let ?b = "replay_apply r (replay_poll cfg b ord) b"
    assume cfg: "fair_config cfg" and after: "fair_prices ?b"
    have child: "rpo_child (fst (replay_poll cfg b ord)) = rpo_child ord" by simp
    have after': "fair_prices (b\<lparr>rb_orders := dict_set r (fst (replay_poll cfg b ord)) (rb_orders b)\<rparr>)"
      using after by (simp add: fair_prices_def replay_apply_orders)
    have "fair_prices b" using fair_prices_put(2) [OF after' ord child] .
    moreover have "ec_price (rpo_child ord) \<ge> 0" using fair_prices_put(1) [OF after' ord child] .
    ultimately show "cash_bounded cfg ?b" using b cfg polled_cash by (simp add: fair_cash_def)
  qed
  show "fair_cash cfg (snd (replay_submit ch b))"
  proof (cases "map_of (rb_orders b) (ec_reference ch)")
    case None
    have "fair_prices b" if "fair_prices (snd (replay_submit ch b))"
      using that None unfolding fair_prices_def replay_submit_def Let_def
      by (simp add: AList.update_conv' del: map_of_eq_Some_iff split: if_splits) (metis option.distinct(1))
    with b None show ?thesis by (auto simp: fair_cash_def cash_bounded_def replay_submit_def Let_def)
  next
    case (Some ord)
    with b show ?thesis by (simp add: replay_submit_def)
  qed
  show "fair_cash cfg (snd (replay_cancel r b))"
  proof (cases "map_of (rb_orders b) r")
    case (Some ord)
    have "fair_prices b" if "fair_prices (snd (replay_cancel r b))"
      using that Some fair_prices_put(2) [OF _ Some, of "ord\<lparr>rpo_status := ''cancelled''\<rparr>"]
      by (auto simp: replay_cancel_def split: if_splits simp del: map_of_eq_Some_iff)
    with b show ?thesis by (auto simp: fair_cash_def cash_bounded_def replay_cancel_def split: option.split)
  qed (use b in \<open>simp add: replay_cancel_def\<close>)
qed

subsection \<open>Settlement\<close>

text \<open>
  Of an instrument that settles after a day or more, nothing is sold on a day on which some was bought.
\<close>

definition bought :: "string \<Rightarrow> replay_fill \<Rightarrow> bool" where
  "bought k f \<longleftrightarrow> rpf_instrument f = k \<and> rpf_side f = ''buy''"

definition sold :: "string \<Rightarrow> replay_fill \<Rightarrow> bool" where
  "sold k f \<longleftrightarrow> rpf_instrument f = k \<and> rpf_side f \<noteq> ''buy''"

definition fill_day :: "replay_fill \<Rightarrow> string" where
  "fill_day f = take 10 (rpf_session f)"

fun no_same_day_sale :: "string \<Rightarrow> replay_fill list \<Rightarrow> bool" where
  "no_same_day_sale k [] \<longleftrightarrow> True"
| "no_same_day_sale k (f # fs) \<longleftrightarrow> no_same_day_sale k fs \<and>
     (bought k f \<longrightarrow> (\<forall>g \<in> set fs. sold k g \<longrightarrow> fill_day g \<noteq> fill_day f))"

lemma no_same_day_sale_snoc: "no_same_day_sale k (fs @ [g]) \<longleftrightarrow> no_same_day_sale k fs \<and>
    (sold k g \<longrightarrow> (\<forall>f \<in> set fs. bought k f \<longrightarrow> fill_day g \<noteq> fill_day f))"
  by (induction fs) auto

definition settles_later :: "string \<Rightarrow> replay_account \<Rightarrow> bool" where
  "settles_later k a \<longleftrightarrow> (case map_of (rac_settlement_days a) k of Some d \<Rightarrow> d | None \<Rightarrow> 1) > 0"

definition settlement_kept :: "string \<Rightarrow> replay_broker \<Rightarrow> bool" where
  "settlement_kept k b \<longleftrightarrow> settles_later k (rb_account b) \<and> no_same_day_sale k (rb_fills b) \<and>
     (\<forall>f \<in> set (rb_fills b). fill_day f \<le> take 10 (rb_session b)) \<and> long_only_books (rac_positions (rb_account b)) \<and>
     (map_of (rac_positions (rb_account b)) k \<noteq> None \<longrightarrow>
        (\<forall>f \<in> set (rb_fills b). bought k f \<longrightarrow> fill_day f \<le> take 10 (text_at (rac_acquired_session (rb_account b)) k)))"

text \<open>A sale is of settled stock.\<close>

lemma sale_settled:
  assumes "snd (replay_poll cfg b ord) = Some f" "rpf_side f \<noteq> ''buy''" "settles_later (rpf_instrument f) (rb_account b)"
  shows "map_of (rac_positions (rb_account b)) (rpf_instrument f) \<noteq> None"
    "take 10 (text_at (rac_acquired_session (rb_account b)) (rpf_instrument f)) < fill_day f"
proof -
  note f = replay_poll_fill [OF assms(1)]
  have "rpf_volume f \<le> dget (as_sellable (replay_account_snapshot (rb_account b) (rb_session b) (rb_prices b))) (rpf_instrument f)"
    using replay_volume_bounds(2) [of ord] assms(2) unfolding f(2,3,4) by simp
  with f(1) have pos: "dget (as_sellable (replay_account_snapshot (rb_account b) (rb_session b) (rb_prices b))) (rpf_instrument f) > 0"
    by linarith
  then show "map_of (rac_positions (rb_account b)) (rpf_instrument f) \<noteq> None"
    by (auto simp: sellable_at split: if_splits)
  show "take 10 (text_at (rac_acquired_session (rb_account b)) (rpf_instrument f)) < fill_day f"
  proof (rule ccontr)
    assume "\<not> take 10 (text_at (rac_acquired_session (rb_account b)) (rpf_instrument f)) < fill_day f"
    with assms(3) have "settled_volume (rb_account b) (rb_session b) (rpf_instrument f) v = 0" for v
      by (simp add: settled_volume_def settles_later_def fill_day_def f(5))
    with pos show False by (simp add: sellable_at split: if_splits)
  qed
qed

lemma settle_settlement: "rac_settlement_days (replay_settle session ch v p fee a) = rac_settlement_days a"
  by (simp add: replay_settle_def Let_def)

lemma settle_positions:
  "long_only_books (rac_positions a) \<Longrightarrow> v > 0 \<Longrightarrow> long_only_books (rac_positions (replay_settle session ch v p fee a))"
  using long_only_books_get(1) [of "rac_positions a" "ec_instrument ch"]
  by (auto simp: replay_settle_def Let_def intro: long_only_books_set long_only_books_delete)

text \<open>The session of the acquisition after a fill.\<close>

lemma settle_acquired:
  assumes "map_of (rac_positions (replay_settle session ch v p fee a)) k \<noteq> None" "v > 0"
  shows "text_at (rac_acquired_session (replay_settle session ch v p fee a)) k =
      (if ec_side ch = ''buy'' \<and> ec_instrument ch = k then session else text_at (rac_acquired_session a) k)"
    "ec_side ch = ''buy'' \<and> ec_instrument ch = k \<or> map_of (rac_positions a) k \<noteq> None"
  using assms by (auto simp: replay_settle_def Let_def text_at_def dget_def AList.update_conv' AList.delete_conv'
      split: if_splits option.splits simp del: map_of_eq_Some_iff)

lemma settlement_fill:
  assumes "snd (replay_poll cfg b ord) = Some f" "settlement_kept k b"
  shows "settlement_kept k (replay_apply r (replay_poll cfg b ord) b)"
proof -
  note f = replay_poll_fill [OF assms(1)]
  let ?b = "replay_apply r (replay_poll cfg b ord) b" and ?a = "rb_account b"
  have a': "rb_account ?b = replay_settle (rb_session b) (rpo_child ord) (rpf_volume f) (rpf_price f) (rpf_fee f) ?a"
    unfolding replay_apply_fields(3) [OF assms(1)] f(5) by simp
  note fills = replay_apply_fields(2) [OF assms(1), of r]
  have day: "fill_day f = take 10 (rb_session b)" by (simp add: fill_day_def f(5))
  have kept: "settles_later k ?a" "no_same_day_sale k (rb_fills b)" "long_only_books (rac_positions ?a)"
    "\<And>g. g \<in> set (rb_fills b) \<Longrightarrow> fill_day g \<le> take 10 (rb_session b)"
    "\<And>g. map_of (rac_positions ?a) k \<noteq> None \<Longrightarrow> g \<in> set (rb_fills b) \<Longrightarrow> bought k g \<Longrightarrow>
       fill_day g \<le> take 10 (text_at (rac_acquired_session ?a) k)"
    using assms(2) unfolding settlement_kept_def by blast+
  have sale: "fill_day f \<noteq> fill_day g" if "sold k f" "g \<in> set (rb_fills b)" "bought k g" for g
  proof -
    from that(1) have k: "rpf_instrument f = k" "rpf_side f \<noteq> ''buy''" by (simp_all add: sold_def)
    have later: "settles_later (rpf_instrument f) ?a" using kept(1) k(1) by simp
    from sale_settled [OF assms(1) k(2) later] kept(5) [OF _ that(2,3)] k(1) show ?thesis by fastforce
  qed
  have "settles_later k (rb_account ?b)" using kept(1) unfolding a' by (simp add: settles_later_def settle_settlement)
  moreover have "no_same_day_sale k (rb_fills ?b)"
    unfolding fills no_same_day_sale_snoc using kept(2) sale by blast
  moreover have "\<forall>g \<in> set (rb_fills ?b). fill_day g \<le> take 10 (rb_session ?b)"
    unfolding fills replay_apply_fields(4) using kept(4) day by auto
  moreover have "long_only_books (rac_positions (rb_account ?b))"
    unfolding a' by (rule settle_positions [OF kept(3) f(1)])
  moreover have "fill_day g \<le> take 10 (text_at (rac_acquired_session (rb_account ?b)) k)"
    if "map_of (rac_positions (rb_account ?b)) k \<noteq> None" "g \<in> set (rb_fills ?b)" "bought k g" for g
  proof -
    note acq = settle_acquired [OF that(1) [unfolded a'] f(1)]
    have g: "g \<in> set (rb_fills b) \<or> g = f" using that(2) unfolding fills by auto
    show ?thesis
    proof (cases "ec_side (rpo_child ord) = ''buy'' \<and> ec_instrument (rpo_child ord) = k")
      case True
      with g acq(1) show ?thesis unfolding a' using kept(4) day by auto
    next
      case False
      with that(3) g f(3,4) have "g \<in> set (rb_fills b)" by (auto simp: bought_def)
      with False acq kept(5) that(3) show ?thesis unfolding a' by auto
    qed
  qed
  ultimately show ?thesis unfolding settlement_kept_def by blast
qed

interpretation settlement: replay_invariant cfg "settlement_kept k" for cfg k
proof
  fix b r ord ch
  assume b: "settlement_kept k b"
  show "settlement_kept k (replay_apply r (replay_poll cfg b ord) b)"
  proof (cases "snd (replay_poll cfg b ord)")
    case None
    with b show ?thesis by (simp add: replay_apply_fields(1) settlement_kept_def)
  next
    case (Some f)
    from settlement_fill [OF this b] show ?thesis .
  qed
  show "settlement_kept k (snd (replay_submit ch b))"
    using b by (simp add: replay_submit_def settlement_kept_def Let_def split: option.split)
  show "settlement_kept k (snd (replay_cancel r b))"
    using b by (simp add: replay_cancel_def settlement_kept_def split: option.split)
qed

text \<open>Sessions go forward, and the metadata say that the instrument settles later.\<close>

definition later_session :: "string \<Rightarrow> replay_broker \<Rightarrow> replay_broker \<Rightarrow> bool" where
  "later_session k b b' \<longleftrightarrow> (\<exists>session prices instruments. b' = replay_set_session session prices instruments b \<and>
     take 10 (rb_session b) \<le> take 10 session \<and>
     (\<forall>(i, m) \<in> set instruments. canonical_instrument i = k \<longrightarrow> im_settlement_days m > 0))"

lemma later_session_kept:
  assumes "settlement_kept k b" "later_session k b b'"
  shows "settlement_kept k b'"
proof -
  obtain session prices instruments where b': "b' = replay_set_session session prices instruments b"
    "take 10 (rb_session b) \<le> take 10 session"
    "\<forall>(i, m) \<in> set instruments. canonical_instrument i = k \<longrightarrow> im_settlement_days m > 0"
    using assms(2) unfolding later_session_def by blast
  let ?known = "dict_of (map (\<lambda>(k, m). (canonical_instrument k, m)) instruments)"
  let ?days = "\<lambda>known d. fold (\<lambda>(k, m). dict_set k (max (im_settlement_days m) 0)) known d"
  have "im_settlement_days m > 0" if "(k, m) \<in> set ?known" for m
    using dict_of_members [OF that] b'(3) by fastforce
  moreover have "(case map_of (?days rows d) k of Some d \<Rightarrow> d | None \<Rightarrow> 1) > 0"
    if "\<And>m. (k, m) \<in> set rows \<Longrightarrow> im_settlement_days m > 0" "(case map_of d k of Some d \<Rightarrow> d | None \<Rightarrow> 1) > 0"
    for rows and d :: "(string \<times> int) list"
    using that
  proof (induction rows arbitrary: d)
    case (Cons row rows)
    obtain i m where row: "row = (i, m)" by fastforce
    have "im_settlement_days m > 0" if "i = k" using Cons.prems(1) [of m] row that by simp
    then show ?case unfolding row using Cons.prems row
      by (simp only: fold.simps prod.case o_apply, intro Cons.IH) (auto simp: AList.update_conv')
  qed simp
  ultimately have "(case map_of (?days ?known d) k of Some d \<Rightarrow> d | None \<Rightarrow> 1) > 0"
    if "(case map_of d k of Some d \<Rightarrow> d | None \<Rightarrow> 1) > 0" for d :: "(string \<times> int) list"
    using that by blast
  then have "settles_later k (rb_account b')"
    using assms(1) b'(1) by (simp add: settlement_kept_def settles_later_def replay_set_session_def Let_def)
  moreover have "fill_day f \<le> take 10 session" if "f \<in> set (rb_fills b)" for f
    using assms(1) that b'(2) unfolding settlement_kept_def by force
  ultimately show ?thesis
    using assms(1) b'(1) by (simp add: settlement_kept_def replay_set_session_def Let_def)
qed

subsection \<open>Runs of a replay\<close>

text \<open>The coordinators of a replay act on one broker; in between the replay moves to another session.\<close>

definition on_replay :: "replay_config \<Rightarrow> replay_broker coordinator \<Rightarrow> bool" where
  "on_replay cfg c \<longleftrightarrow> (\<exists>ftext now. xc_ports c = replay_ports cfg ftext now)"

definition session_change :: "replay_broker \<Rightarrow> replay_broker \<Rightarrow> bool" where
  "session_change b b' \<longleftrightarrow> (\<exists>session prices instruments. b' = replay_set_session session prices instruments b)"

lemma session_change_books:
  assumes "session_change b b'"
  shows "rb_orders b' = rb_orders b" "rb_fills b' = rb_fills b" "rac_cash (rb_account b') = rac_cash (rb_account b)"
    "rac_positions (rb_account b') = rac_positions (rb_account b)"
  using assms by (auto simp: session_change_def replay_set_session_def Let_def)

lemma later_session_change: "later_session k b b' \<Longrightarrow> session_change b b'"
  unfolding later_session_def session_change_def by blast

lemma replay_run_books:
  assumes "execution_run (\<lambda>c _. on_replay cfg c) session_change x y" "xs_world x = new_replay_broker cfg"
  shows "books_balance cfg (xs_world y)" "orders_filled (xs_world y)" "fair_cash cfg (xs_world y)"
proof -
  note run = assms(1) [unfolded on_replay_def]
  show "books_balance cfg (xs_world y)"
    by (rule books.replay_run_keeps [OF run])
      (auto simp: assms(2) books_balance_def new_replay_broker_def long_only_books_def dget_def session_change_books)
  show "orders_filled (xs_world y)"
    by (rule orders.replay_run_keeps [OF run])
      (auto simp: assms(2) orders_filled_def filled_of_def new_replay_broker_def session_change_books)
  show "fair_cash cfg (xs_world y)"
    by (rule cash.replay_run_keeps [OF run])
      (auto simp: assms(2) fair_cash_def cash_bounded_def sale_count_def new_replay_broker_def fair_prices_def
        session_change_books dest: fair_config_fields(1))
qed

lemma replay_run_settlement:
  assumes "execution_run (\<lambda>c _. on_replay cfg c) (later_session k) x y" "xs_world x = new_replay_broker cfg"
  shows "no_same_day_sale k (rb_fills (xs_world y))"
proof -
  have start: "settlement_kept k (xs_world x)"
    by (simp add: assms(2) settlement_kept_def settles_later_def new_replay_broker_def long_only_books_def)
  have "settlement_kept k (xs_world y)"
    by (rule settlement.replay_run_keeps [OF assms(1) [unfolded on_replay_def] start]) (rule later_session_kept)
  then show ?thesis by (simp add: settlement_kept_def)
qed

end
