(* ===== verification/Replay_Orders.thy ===== *)
theory Replay_Orders
  imports Replay_Safety
begin

section \<open>Orders of a replay come to an end\<close>

text \<open>
  Polling an order of the replay broker brings it to a final status; driving a plan returns it settled.
\<close>

definition poll_once :: "replay_config \<Rightarrow> string \<Rightarrow> replay_broker \<Rightarrow> replay_broker" where
  "poll_once cfg r b = (case map_of (rb_orders b) r of
     None \<Rightarrow> b | Some ord \<Rightarrow> if replay_active ord then replay_apply r (replay_poll cfg b ord) b else b)"

fun polls :: "nat \<Rightarrow> replay_config \<Rightarrow> string \<Rightarrow> replay_broker \<Rightarrow> replay_broker" where
  "polls 0 cfg r b = b"
| "polls (Suc n) cfg r b = polls n cfg r (poll_once cfg r b)"

definition order_rests :: "string \<Rightarrow> replay_broker \<Rightarrow> bool" where
  "order_rests r b \<longleftrightarrow> (case map_of (rb_orders b) r of None \<Rightarrow> True | Some ord \<Rightarrow> \<not> replay_active ord)"

text \<open>This is what the broker does for each reference it is asked about.\<close>

lemma replay_status_polls: "xs_world (snd (replay_status cfg ftext now r x)) = poll_once cfg r (xs_world x)"
proof (cases "map_of (rb_orders (xs_world x)) r")
  case None
  then show ?thesis by (simp add: replay_status_def poll_once_def)
next
  case (Some ord)
  then show ?thesis using advance_order_frame(1) [of cfg ftext now r ord x]
    by (auto simp: replay_status_def poll_once_def op_bind_def op_return_def split: prod.split sum.split)
qed

lemma order_rests_polls: "order_rests r b \<Longrightarrow> polls n cfg r b = b"
  by (induction n) (simp_all add: order_rests_def poll_once_def split: option.splits)

lemma polls_less: "order_rests r (polls n cfg r b) \<Longrightarrow> n \<le> m \<Longrightarrow> order_rests r (polls m cfg r b)"
proof (induction n arbitrary: m b)
  case 0
  then show ?case by (simp add: order_rests_polls)
next
  case (Suc n)
  then show ?case by (cases m) simp_all
qed

lemma poll_once_order:
  assumes "map_of (rb_orders b) r = Some ord" "replay_active ord"
  shows "map_of (rb_orders (poll_once cfg r b)) r = Some (fst (replay_poll cfg b ord))"
  using assms by (simp add: poll_once_def replay_apply_orders AList.update_conv')

text \<open>Polls without a fill.\<close>

lemma remaining_polls [simp]: "replay_remaining (ord\<lparr>rpo_polls := n\<rparr>) = replay_remaining ord"
  by (simp add: replay_remaining_def)

lemma poll_complete: "replay_remaining ord \<le> 0 \<Longrightarrow>
    replay_poll cfg b ord = (ord\<lparr>rpo_polls := rpo_polls ord + 1, rpo_status := ''alltraded''\<rparr>, None)"
  by (simp add: replay_poll_def Let_def)

lemma poll_ignored: "replay_remaining ord > 0 \<Longrightarrow> rcf_partial_fill_ratio cfg \<le> 0 \<Longrightarrow>
    replay_poll cfg b ord = (ord\<lparr>rpo_polls := rpo_polls ord + 1,
      rpo_status := (if rpo_polls ord + 1 = 1 then ''nottraded'' else ''cancelled'')\<rparr>, None)"
  by (simp add: replay_poll_def Let_def)

lemma complete_rests:
  assumes "map_of (rb_orders b) r = Some ord" "replay_remaining ord \<le> 0"
  shows "order_rests r (poll_once cfg r b)"
proof (cases "replay_active ord")
  case True
  from poll_once_order [OF assms(1) True, of cfg] show ?thesis
    by (simp add: order_rests_def poll_complete [OF assms(2)] replay_active_def)
next
  case False
  with assms(1) show ?thesis by (simp add: order_rests_def poll_once_def)
qed

text \<open>A poll that leaves the order active filled some of it.\<close>

definition nothing_to_sell :: "replay_broker \<Rightarrow> execution_child \<Rightarrow> bool" where
  "nothing_to_sell b ch \<longleftrightarrow> ec_side ch \<noteq> ''buy'' \<and> map_of (rac_positions (rb_account b)) (ec_instrument ch) = None"

lemma replay_floor_step: "lot > 0 \<Longrightarrow> replay_floor value lot > 0 \<Longrightarrow> replay_floor value lot \<ge> of_int lot"
proof -
  assume lot: "lot > 0" "replay_floor value lot > 0"
  let ?n = "\<lfloor>max value 0 / of_int lot\<rfloor>"
  have v: "replay_floor value lot = of_int (?n * lot)" using lot(1) by (simp add: replay_floor_def)
  with lot(2) have "0 < ?n * lot" by (metis of_int_0_less_iff)
  with lot(1) have "1 \<le> ?n" by (simp add: zero_less_mult_iff)
  with lot(1) have "lot \<le> ?n * lot" by simp
  then show ?thesis unfolding v by (simp only: of_int_le_iff)
qed

lemma capped: "v = min w c \<Longrightarrow> w = a \<or> l \<le> w \<Longrightarrow> (v = a \<or> l \<le> v) \<or> v = c" for v w c a l :: num
  by (auto simp: min_def)

lemma replay_volume_cases:
  assumes "rcf_lot_size cfg > 0" "replay_volume cfg b ord q > 0"
  obtains "replay_volume cfg b ord q = replay_remaining ord"
  | "replay_volume cfg b ord q \<ge> of_int (rcf_lot_size cfg)"
  | "ec_side (rpo_child ord) \<noteq> ''buy''" "replay_volume cfg b ord q =
      dget (as_sellable (replay_account_snapshot (rb_account b) (rb_session b) (rb_prices b))) (ec_instrument (rpo_child ord))"
proof -
  let ?lots = "replay_floor (replay_remaining ord * q) (rcf_lot_size cfg)"
  let ?want = "if ?lots \<le> 0 then replay_remaining ord else ?lots"
  have want: "?want = replay_remaining ord \<or> ?want \<ge> of_int (rcf_lot_size cfg)"
    using replay_floor_step [OF assms(1), of "replay_remaining ord * q"] by auto
  show thesis
  proof (cases "ec_side (rpo_child ord) = ''buy''")
    case True
    let ?cap = "replay_affordable cfg (rb_account b) (rpo_child ord)"
    have v: "replay_volume cfg b ord q = min ?want ?cap"
      unfolding replay_volume_def Let_def True by (simp only: simp_thms if_True)
    have "?cap > 0" using assms(2) v by linarith
    then have "?cap \<ge> of_int (rcf_lot_size cfg)"
      using replay_floor_step [OF assms(1)] unfolding replay_affordable_def by blast
    with capped [OF v want] have "replay_volume cfg b ord q = replay_remaining ord \<or> replay_volume cfg b ord q \<ge> of_int (rcf_lot_size cfg)"
      by metis
    with that(1,2) show thesis by blast
  next
    case False
    then have v: "replay_volume cfg b ord q = min ?want
        (dget (as_sellable (replay_account_snapshot (rb_account b) (rb_session b) (rb_prices b))) (ec_instrument (rpo_child ord)))"
      unfolding replay_volume_def Let_def by (simp only: simp_thms if_False)
    from capped [OF v want] that(1,2) that(3) [OF False] show thesis by blast
  qed
qed

lemma sold_out:
  assumes "snd (replay_poll cfg b ord) = Some f" "ec_side (rpo_child ord) \<noteq> ''buy''"
    "rpf_volume f = dget (as_sellable (replay_account_snapshot (rb_account b) (rb_session b) (rb_prices b))) (ec_instrument (rpo_child ord))"
  shows "nothing_to_sell (replay_apply r (replay_poll cfg b ord) b) (rpo_child ord)"
proof -
  let ?k = "ec_instrument (rpo_child ord)"
  note f = replay_poll_fill [OF assms(1)]
  have sell: "dget (as_sellable (replay_account_snapshot a session prices)) k = 0 \<or>
      dget (as_sellable (replay_account_snapshot a session prices)) k = dget (rac_positions a) k" for a session prices k
    by (simp add: sellable_at settled_volume_def)
  have "rpf_volume f \<noteq> 0" using f(1) by simp
  with assms(3) sell [of "rb_account b" "rb_session b" "rb_prices b" ?k]
  have "rpf_volume f = dget (rac_positions (rb_account b)) ?k" by metis
  then show ?thesis
    using assms(2) unfolding nothing_to_sell_def replay_apply_fields(3) [OF assms(1)]
    by (simp add: replay_settle_def Let_def AList.delete_conv')
qed

lemma poll_progress:
  assumes "rcf_lot_size cfg > 0" "map_of (rb_orders b) r = Some ord" "replay_active ord" "rcf_partial_fill_ratio cfg > 0"
    "\<not> order_rests r (poll_once cfg r b)"
  obtains ord' where "map_of (rb_orders (poll_once cfg r b)) r = Some ord'" "rpo_child ord' = rpo_child ord"
    "replay_remaining ord' < replay_remaining ord" "replay_remaining ord > 0"
    "replay_remaining ord' \<le> replay_remaining ord - of_int (rcf_lot_size cfg) \<or>
     nothing_to_sell (poll_once cfg r b) (rpo_child ord)"
proof -
  let ?p = "replay_poll cfg b ord" and ?ord = "fst (replay_poll cfg b ord)"
  have b': "poll_once cfg r b = replay_apply r ?p b" using assms(2,3) by (simp add: poll_once_def)
  have after: "map_of (rb_orders (poll_once cfg r b)) r = Some ?ord" by (rule poll_once_order [OF assms(2,3)])
  with assms(5) have active: "replay_active ?ord" by (simp add: order_rests_def)
  have "snd ?p \<noteq> None"
    using active assms(4) by (auto simp: replay_poll_def replay_active_def Let_def split: if_splits)
  then obtain f where f: "snd ?p = Some f" by blast
  note ff = replay_poll_fill [OF f]
  have rem: "replay_remaining ?ord = replay_remaining ord - rpf_volume f" using ff(8) by (simp add: replay_remaining_def)
  have open_part: "rpf_volume f \<noteq> replay_remaining ord"
  proof
    assume full: "rpf_volume f = replay_remaining ord"
    have "rpo_status ?ord = ''alltraded'' \<or> rpo_filled ?ord < ec_volume (rpo_child ord) - 1 / 1000000000"
      using f by (auto simp: replay_poll_def Let_def split: if_splits)
    with active full ff(8) show False by (auto simp: replay_active_def replay_remaining_def)
  qed
  have "rpf_volume f \<ge> of_int (rcf_lot_size cfg) \<or> nothing_to_sell (poll_once cfg r b) (rpo_child ord)"
    using ff(1) unfolding ff(2)
    by (rule replay_volume_cases [OF assms(1)]) (use open_part sold_out [OF f] in \<open>auto simp: b' ff(2)\<close>)
  then show thesis
    using that [of ?ord] after rem ff(1,9) by auto
qed

lemma nothing_to_sell_rests:
  assumes "map_of (rb_orders b) r = Some ord" "replay_active ord" "nothing_to_sell b (rpo_child ord)" "rcf_partial_fill_ratio cfg > 0"
  shows "order_rests r (poll_once cfg r b)"
proof -
  have none: "snd (replay_poll cfg b ord) = None"
  proof (rule ccontr)
    assume "snd (replay_poll cfg b ord) \<noteq> None"
    then obtain f where f: "snd (replay_poll cfg b ord) = Some f" by blast
    note ff = replay_poll_fill [OF f]
    have "rpf_volume f \<le> dget (as_sellable (replay_account_snapshot (rb_account b) (rb_session b) (rb_prices b))) (ec_instrument (rpo_child ord))"
      using replay_volume_bounds(2) [of ord] assms(3) unfolding ff(2) nothing_to_sell_def by blast
    with ff(1) assms(3) show False by (simp add: sellable_at nothing_to_sell_def)
  qed
  then have "\<not> replay_active (fst (replay_poll cfg b ord))"
    using assms(4) by (auto simp: replay_poll_def replay_active_def Let_def split: if_splits)
  with poll_once_order [OF assms(1,2), of cfg] show ?thesis by (simp add: order_rests_def)
qed

lemma polls_finish:
  assumes "rcf_lot_size cfg > 0" "rcf_partial_fill_ratio cfg > 0" "map_of (rb_orders b) r = Some ord"
    "replay_remaining ord \<le> of_nat j * of_int (rcf_lot_size cfg)"
  shows "order_rests r (polls (j + 2) cfg r b)"
  using assms(3,4)
proof (induction j arbitrary: b ord)
  case 0
  then have "order_rests r (polls 1 cfg r b)" by (simp add: complete_rests)
  then show ?case by (rule polls_less) simp
next
  case (Suc j)
  show ?case
  proof (cases "replay_active ord \<and> \<not> order_rests r (poll_once cfg r b)")
    case True
    then obtain ord' where o: "map_of (rb_orders (poll_once cfg r b)) r = Some ord'" "rpo_child ord' = rpo_child ord"
      "replay_remaining ord' \<le> replay_remaining ord - of_int (rcf_lot_size cfg) \<or> nothing_to_sell (poll_once cfg r b) (rpo_child ord)"
      using poll_progress [OF assms(1) Suc.prems(1) _ assms(2)] by blast
    from o(3) show ?thesis
    proof
      assume "replay_remaining ord' \<le> replay_remaining ord - of_int (rcf_lot_size cfg)"
      then have "replay_remaining ord' \<le> of_nat j * of_int (rcf_lot_size cfg)"
        using Suc.prems(2) by (simp add: algebra_simps)
      from Suc.IH [OF o(1) this] show ?thesis by simp
    next
      assume n: "nothing_to_sell (poll_once cfg r b) (rpo_child ord)"
      have "replay_active ord'" using True o(1) by (simp add: order_rests_def)
      from nothing_to_sell_rests [OF o(1) this, of cfg] n o(2) assms(2) have "order_rests r (polls 2 cfg r b)"
        by (simp add: numeral_2_eq_2)
      then show ?thesis by (rule polls_less) simp
    qed
  next
    case False
    then have "order_rests r (polls 1 cfg r b)"
      using Suc.prems(1) by (auto simp: order_rests_def poll_once_def)
    then show ?thesis by (rule polls_less) simp
  qed
qed

text \<open>An order of the broker ends after at most one poll for each lot, and two more.\<close>

lemma order_ends:
  assumes "check_replay_config cfg = Inr cfg" "map_of (rb_orders b) r = Some ord" "rpo_polls ord \<ge> 0"
  shows "order_rests r (polls (nat \<lceil>replay_remaining ord / of_int (rcf_lot_size cfg)\<rceil> + 2) cfg r b)"
proof (cases "rcf_partial_fill_ratio cfg > 0")
  case True
  have lot: "rcf_lot_size cfg > 0" using assms(1) by (auto simp: check_replay_config_def split: if_splits)
  have "replay_remaining ord / of_int (rcf_lot_size cfg) \<le> of_nat (nat \<lceil>replay_remaining ord / of_int (rcf_lot_size cfg)\<rceil>)"
    by linarith
  then have "replay_remaining ord \<le> of_nat (nat \<lceil>replay_remaining ord / of_int (rcf_lot_size cfg)\<rceil>) * of_int (rcf_lot_size cfg)"
    using lot by (simp add: pos_divide_le_eq)
  with lot True assms(2) show ?thesis by (intro polls_finish)
next
  case False
  show ?thesis
  proof (rule polls_less [where n = 2])
    let ?again = "\<lambda>z. \<exists>u. map_of (rb_orders z) r = Some u \<and> rpo_polls u \<ge> 1"
    have ratio: "rcf_partial_fill_ratio cfg \<le> 0" using False by simp
    have one: "order_rests r (poll_once cfg r b) \<or> ?again (poll_once cfg r b)" if "replay_active ord"
    proof (cases "replay_remaining ord \<le> 0")
      case True
      with assms(2) show ?thesis by (simp add: complete_rests)
    next
      case False
      then have "rpo_polls (fst (replay_poll cfg b ord)) \<ge> 1" using ratio assms(3) by (simp add: poll_ignored)
      with poll_once_order [OF assms(2) that, of cfg] show ?thesis by blast
    qed
    have two: "order_rests r (poll_once cfg r z)" if "map_of (rb_orders z) r = Some u" "rpo_polls u \<ge> 1" for z u
    proof (cases "replay_remaining u \<le> 0 \<or> \<not> replay_active u")
      case True
      then show ?thesis
      proof
        assume "\<not> replay_active u"
        with that(1) show ?thesis by (simp add: order_rests_def poll_once_def)
      qed (rule complete_rests [OF that(1)])
    next
      case False
      then have "replay_poll cfg z u = (u\<lparr>rpo_polls := rpo_polls u + 1, rpo_status := ''cancelled''\<rparr>, None)"
        using ratio that(2) by (simp add: poll_ignored)
      with poll_once_order [OF that(1), of cfg] False show ?thesis by (simp add: order_rests_def replay_active_def)
    qed
    show "order_rests r (polls 2 cfg r b)"
    proof (cases "replay_active ord")
      case True
      from one [OF this] show ?thesis
      proof
        assume "order_rests r (poll_once cfg r b)"
        then have "order_rests r (polls 1 cfg r b)" by simp
        then show ?thesis by (rule polls_less) simp
      next
        assume "?again (poll_once cfg r b)"
        then obtain u where "map_of (rb_orders (poll_once cfg r b)) r = Some u" "rpo_polls u \<ge> 1" by blast
        from two [OF this] show ?thesis by (simp add: numeral_2_eq_2)
      qed
    next
      case False
      with assms(2) have "order_rests r (polls 0 cfg r b)" by (simp add: order_rests_def)
      then show ?thesis by (rule polls_less) simp
    qed
  qed simp
qed

subsection \<open>Driving a plan\<close>

lemma drive_plan_settles:
  assumes "drive_plan n c plan_id st x = (Inr st', y)"
  shows "settled_phase (es_phase st')"
  using assms
proof (induction n arbitrary: st x)
  case 0
  have "yields (\<lambda>s _. es_phase s = PAUSED) (pause_plan c plan_id reason)" for reason
    unfolding pause_plan_def by (intro yields_bind pause_state_yields) simp
  from yieldsD [OF this] 0 show ?case by (auto simp: settled_phase_def)
next
  case (Suc n)
  show ?case
  proof (cases "settled_phase (es_phase st)")
    case True
    with Suc.prems show ?thesis by (simp add: op_return_def)
  next
    case False
    then obtain st1 z where "drive_plan n c plan_id st1 z = (Inr st', y)"
      using Suc.prems by (cases "advance_plan c plan_id x"; cases "fst (advance_plan c plan_id x)") (simp_all add: op_bind_def)
    then show ?thesis by (rule Suc.IH)
  qed
qed

text \<open>The loop that ends by its range pauses the plan, even one that the last step completed.\<close>

lemma drive_plan_last:
  assumes "\<not> settled_phase (es_phase st)" "advance_plan c plan_id x = (Inr st1, x1)"
    "drive_plan 1 c plan_id st x = (Inr st', y)"
  shows "es_phase st' = PAUSED"
proof -
  have "yields (\<lambda>s _. es_phase s = PAUSED) (pause_plan c plan_id ''replay execution exceeded phase budget'')"
    unfolding pause_plan_def by (intro yields_bind pause_state_yields) simp
  from yieldsD [OF this] show ?thesis using assms by (simp add: op_bind_def)
qed

text \<open>Executing a plan is a run of its coordinator, after a change of the session.\<close>

lemma drive_plan_run:
  assumes "execution_run may env x y" "\<And>a. may c a"
  shows "execution_run may env x (snd (drive_plan n c plan_id st y))"
  using assms(1)
proof (induction n arbitrary: st y)
  case 0
  from run_act [OF this assms(2), of "Pause plan_id ''replay execution exceeded phase budget''"] show ?case by simp
next
  case (Suc n)
  have adv: "execution_run may env x (snd (advance_plan c plan_id y))"
    using run_act [OF Suc.prems assms(2), of "Advance plan_id"] by simp
  obtain r z where rz: "advance_plan c plan_id y = (r, z)" by fastforce
  with Suc adv show ?case by (cases r) (simp_all add: op_bind_def op_return_def)
qed

lemma replay_execute_run:
  assumes "execution_run may env x y" "\<And>a. may c a" "env (xs_world y) (replay_set_session session prices instruments (xs_world y))"
  shows "execution_run may env x (snd (replay_execute c session prices plan target universe quotes instruments y))"
proof -
  let ?z = "y\<lparr>xs_world := replay_set_session session prices instruments (xs_world y)\<rparr>"
  have z: "execution_run may env x ?z" by (rule run_env [OF assms(1,3)])
  have begun: "execution_run may env x (snd (begin_plan c plan target universe quotes instruments ?z))"
    using run_act [OF z assms(2), of "Begin plan target universe quotes instruments"] by simp
  obtain r u where ru: "begin_plan c plan target universe quotes instruments ?z = (r, u)" by fastforce
  have drive: "execution_run may env x (snd (drive_plan n c plan_id st v))" if "execution_run may env x v" for n plan_id st v
    using that assms(2) by (rule drive_plan_run)
  from ru begun drive show ?thesis
    by (cases r) (simp_all add: replay_execute_def op_then_def op_bind_def in_world_def op_modify_def)
qed

lemma poll_once_keys: "replay_handed (poll_once cfg r b) = replay_handed b"
proof (cases "map_of (rb_orders b) r")
  case (Some ord)
  then have "r \<in> fst ` set (rb_orders b)" by (auto dest: map_of_SomeD intro: rev_image_eqI)
  with Some show ?thesis by (simp add: poll_once_def replay_handed_def replay_apply_orders dict_set_same)
qed (simp add: poll_once_def)

lemma polls_keys: "replay_handed (polls n cfg r b) = replay_handed b"
  by (induction n arbitrary: b) (simp_all add: poll_once_keys)

lemma order_still_there:
  assumes "map_of (rb_orders b) r = Some ord"
  shows "\<exists>ord'. map_of (rb_orders (polls n cfg r b)) r = Some ord'"
proof -
  have "r \<in> set (replay_handed b)" using map_of_SomeD [OF assms] by (force simp: replay_handed_def)
  then have "r \<in> set (replay_handed (polls n cfg r b))" by (simp only: polls_keys)
  then show ?thesis by (simp only: replay_handed_def set_map) (metis map_of_eq_None_iff not_None_eq)
qed

end
