(* ===== verification/Execution_Examples.thy ===== *)
theory Execution_Examples
  imports Live_Execution Replay_Orders Trading_Examples Deployment_Examples
begin

section \<open>Worked executions\<close>

text \<open>
  One target, 300 shares of one stock, executed by the coordinator on the replay broker.  The ids and texts
  of the parameters are constants, which the coordinator does not mind.
\<close>

definition demo_replay_config :: replay_config where
  "demo_replay_config = \<lparr>rcf_initial_cash = 100000, rcf_open_cost = 15 / 100000, rcf_close_cost = 15 / 100000,
     rcf_min_cost = 5, rcf_slippage = 0, rcf_lot_size = 100, rcf_max_order_value = 0, rcf_partial_fill_ratio = 1,
     rcf_instrument_metadata = [], rcf_quote_overrides = []\<rparr>"

text \<open>A planner of one order: what is missing of the stock, or what there is too much of.\<close>

definition demo_stock :: string where
  "demo_stock = ''600000.SSE''"

definition demo_child :: "string \<Rightarrow> num \<Rightarrow> (string \<times> int) list \<Rightarrow> execution_child list" where
  "demo_child side volume next_index =
     (let i = get_index next_index (counter_key demo_stock side)
      in [\<lparr>ec_reference = ''i1:c1:d1:'' @ side @ int_text i, ec_instrument = demo_stock, ec_side = side, ec_volume = volume,
           ec_price = 10, ec_child_index = i\<rparr>])"

definition demo_plan_function :: plan_function where
  "demo_plan_function t account quotes instruments next_index =
     (let delta = dget (tp_holdings t) demo_stock - dget (as_positions account) demo_stock
      in Inr \<lparr>xp_plan_id = ''id'', xp_decision_id = ''d1'', xp_instance_id = ''i1'', xp_config_hash = ''c1'',
        xp_phase = PHASE_PLANNED, xp_children = (if delta > 0 then demo_child ''buy'' delta next_index
          else if delta < 0 then demo_child ''sell'' (- delta) next_index else []), xp_issues = []\<rparr>)"

definition demo_coordinator :: "replay_broker coordinator" where
  "demo_coordinator = replay_coordinator demo_replay_config (\<lambda>_. ''f'') ''t'' demo_plan_function demo_sha demo_iso"

definition demo_quotes :: "(string \<times> tradable_quote) list" where
  "demo_quotes = [(''600000.SSE'', \<lparr>tq_instrument = ''600000.SSE'', tq_as_of = ''t'', tq_last = 10, tq_open = 10,
     tq_bid = 0, tq_ask = 0, tq_limit_up = 0, tq_limit_down = 0, tq_suspended = False, tq_stale = False,
     tq_price_source = ''raw''\<rparr>)]"

definition demo_metadata :: "(string \<times> instrument_metadata) list" where
  "demo_metadata = [(''600000.SSE'', metadata_of ''600000.SSE'')]"

definition demo_broker_start :: replay_broker where
  "demo_broker_start = replay_set_session ''2024-01-02'' [(''600000.SSE'', 10)] demo_metadata (new_replay_broker demo_replay_config)"

definition demo_child_plan :: child_plan where
  "demo_child_plan = (case demo_plan_function demo_target (replay_snapshot demo_broker_start) demo_quotes demo_metadata [] of
     Inr p \<Rightarrow> p
   | Inl _ \<Rightarrow> \<lparr>xp_plan_id = [], xp_decision_id = [], xp_instance_id = [], xp_config_hash = [], xp_phase = PAUSED,
       xp_children = [], xp_issues = []\<rparr>)"

definition demo_execution :: "'w \<Rightarrow> 'w execution" where
  "demo_execution w = \<lparr>xs_journal = empty_journal [''i1''], xs_world = w\<rparr>"

definition demo_begun :: "replay_broker execution" where
  "demo_begun = snd (begin_plan demo_coordinator demo_child_plan demo_target [''600000.SSE''] demo_quotes demo_metadata
     (demo_execution demo_broker_start))"

definition demo_executed :: "(exn + plan_state) \<times> replay_broker execution" where
  "demo_executed = replay_execute demo_coordinator ''2024-01-02'' [(''600000.SSE'', 10)] demo_child_plan demo_target
     [''600000.SSE''] demo_quotes demo_metadata (demo_execution (new_replay_broker demo_replay_config))"

text \<open>
  The same plan on the live ports of the engine of theory \<open>Examples\<close>, without an authorizer, so
  that the router denies what it is handed; and a plan that is at its target from the start.
\<close>

definition demo_live_context :: route_context where
  "demo_live_context = demo_context\<lparr>rc_config_hash := ''c1''\<rparr>"

definition demo_live_ports :: "paper live_world ports" where
  "demo_live_ports = live_ports (paper_gateway demo_uuid (sim_decide {} 0)) None demo_live_context (\<lambda>_. ''t'')"

definition demo_live :: "paper live_world coordinator" where
  "demo_live = live_coordinator demo_live_ports demo_plan_function True False [] demo_sha demo_iso ''t''"

definition demo_live_world :: "paper live_world" where
  "demo_live_world = \<lparr>lw_router = \<lparr>ro_engine = demo_engine, ro_last_authorization = None\<rparr>, lw_handed = []\<rparr>"

definition demo_live_plan :: "target_portfolio \<Rightarrow> child_plan" where
  "demo_live_plan t = (case demo_plan_function t demo_snapshot demo_quotes demo_metadata [] of
     Inr p \<Rightarrow> p | Inl _ \<Rightarrow> demo_child_plan\<lparr>xp_phase := PAUSED\<rparr>)"

definition demo_live_begun :: "target_portfolio \<Rightarrow> paper live_world execution" where
  "demo_live_begun t = snd (perform demo_live (Begin (demo_live_plan t) t [''600000.SSE''] demo_quotes demo_metadata)
     (demo_execution demo_live_world))"

fun demo_advanced :: "nat \<Rightarrow> target_portfolio \<Rightarrow> paper live_world execution" where
  "demo_advanced 0 t = demo_live_begun t"
| "demo_advanced (Suc n) t = snd (perform demo_live (Advance ''id'') (demo_advanced n t))"

lemma demo_live_on: "on_live_ports demo_live"
  unfolding on_live_ports_def demo_live_def demo_live_ports_def by auto

lemma demo_live_run: "execution_run (\<lambda>c _. on_live_ports c) env (demo_execution demo_live_world) (demo_advanced n t)"
proof (induction n)
  case 0
  show ?case unfolding demo_advanced.simps demo_live_begun_def by (intro run_act run_done demo_live_on)
next
  case (Suc n)
  then show ?case unfolding demo_advanced.simps by (intro run_act demo_live_on)
qed

definition demo_idle_target :: target_portfolio where
  "demo_idle_target = demo_target\<lparr>tp_holdings := []\<rparr>"

text \<open>A fill of the child of the plan, as the broker's reports left it in the OMS.\<close>

definition demo_fill_refs :: "string list" where
  "demo_fill_refs = [''i1:c1:d1:buy1'']"

definition demo_fill_order :: order where
  "demo_fill_order = create_order (demo_request\<lparr>rq_reference := hd demo_fill_refs\<rparr>) ''o1'' ''paper'' PARTTRADED 0"

definition demo_fill_trade :: trade where
  "demo_fill_trade = \<lparr>td_id = ''t1'', td_order_id = ''o1'', td_code = ''600000'', td_exchange = SSE, td_direction = LONG,
     td_volume = 100, td_price = 10, td_offset = OOpen, td_gateway = ''paper''\<rparr>"

definition demo_fill_engine :: "paper engine" where
  "demo_fill_engine = demo_engine\<lparr>en_oms := oms_on_trade demo_fill_trade (oms_on_order demo_fill_order demo_oms)\<rparr>"

definition demo_filled_world :: "paper live_world execution" where
  "demo_filled_world = (demo_advanced 0 demo_target)\<lparr>
     xs_journal := snd (record_child_order ''t'' (hd demo_fill_refs) ''id'' (hd (xp_children demo_child_plan)) ''submitted'' ''o1''
       (xs_journal (demo_advanced 0 demo_target))),
     xs_world := \<lparr>lw_router = \<lparr>ro_engine = demo_fill_engine, ro_last_authorization = None\<rparr>, lw_handed = []\<rparr>\<rparr>"

lemma demo_live_ports_of: "xc_ports demo_live =
    live_ports (paper_gateway demo_uuid (sim_decide {} 0)) None demo_live_context (\<lambda>_. ''t'')"
  by (simp add: demo_live_def demo_live_ports_def)

definition plan_phase :: "'w execution \<Rightarrow> execution_phase option" where
  "plan_phase x = map_option es_phase (map_of (jn_states (xs_journal x)) ''id'')"

definition demo_paused :: "paper live_world execution" where
  "demo_paused = snd (perform demo_live (Pause ''id'' ''stop'') (demo_advanced 0 demo_target))"

text \<open>What these states are.\<close>

lemma demo_live_facts:
  "length (lw_handed (xs_world (demo_advanced 4 demo_target))) = 1 \<and> plan_phase demo_paused = Some PAUSED"
  by code_simp

lemma demo_idle_facts: "(let x = demo_advanced 2 demo_idle_target
    in (plan_phase x, map_sum id es_phase (fst (advance_plan demo_live ''id'' x)))) = (Some FINAL_RECONCILE, Inr COMPLETED)"
  by code_simp

lemma demo_fill_facts: "map cf_fill_key (child_fills demo_fill_refs (live_oms (xs_world demo_filled_world))) = [''t1''] \<and>
    fst (capture_fills demo_live ''id'' demo_fill_refs demo_filled_world) = Inr () \<and> demo_fill_refs \<noteq> []"
  by code_simp

lemmas demo_handed = demo_live_facts [THEN conjunct1]
lemmas demo_fills = demo_fill_facts [THEN conjunct1] demo_fill_facts [THEN conjunct2, THEN conjunct1]
  demo_fill_facts [THEN conjunct2, THEN conjunct2]

lemma demo_idle_phases:
  "map_option es_phase (map_of (jn_states (xs_journal (demo_advanced 2 demo_idle_target))) ''id'') = Some FINAL_RECONCILE"
  "map_sum id es_phase (fst (advance_plan demo_live ''id'' (demo_advanced 2 demo_idle_target))) = Inr COMPLETED"
  using demo_idle_facts by (simp_all add: Let_def plan_phase_def del: map_of_eq_Some_iff)

lemma demo_idle_before:
  obtains st where "map_of (jn_states (xs_journal (demo_advanced 2 demo_idle_target))) ''id'' = Some st"
    "\<not> settled_phase (es_phase st)" "es_phase st \<noteq> COMPLETED"
  using demo_idle_phases(1) that by (auto simp: settled_phase_def simp del: map_of_eq_Some_iff)

lemma demo_idle_step:
  obtains st' where "advance_plan demo_live ''id'' (demo_advanced 2 demo_idle_target) = (Inr st', demo_advanced 3 demo_idle_target)"
    "es_phase st' = COMPLETED"
proof -
  have step: "demo_advanced 3 demo_idle_target = snd (advance_plan demo_live ''id'' (demo_advanced 2 demo_idle_target))"
    by (simp only: numeral_3_eq_3 numeral_2_eq_2 demo_advanced.simps perform.simps)
  obtain r z where "advance_plan demo_live ''id'' (demo_advanced 2 demo_idle_target) = (r, z)" by fastforce
  with demo_idle_phases(2) step that show thesis by (cases r) simp_all
qed

lemma demo_paused_state:
  obtains st where "map_of (jn_states (xs_journal demo_paused)) ''id'' = Some st" "es_phase st = PAUSED"
  using demo_live_facts that by (auto simp: plan_phase_def simp del: map_of_eq_Some_iff)

text \<open>The same plan as a shadow.\<close>

definition demo_shadow :: "replay_broker coordinator" where
  "demo_shadow = demo_coordinator\<lparr>xc_shadow := True, xc_can_route := False\<rparr>"

definition demo_payload :: plan_payload where
  "demo_payload = (case map_of (jn_states (xs_journal demo_begun)) ''id'' of Some st \<Rightarrow> es_payload st)"

lemma demo_shadow_is: "xc_shadow demo_shadow"
  by (simp add: demo_shadow_def)

lemma demo_begun_evaluated: "(let x = demo_begun
    in (plan_phase x, map_option es_instance_id (map_of (jn_states (xs_journal x)) ''id''), jn_instances (xs_journal x),
        tp_valid_until (pp_target demo_payload), boundary_issues demo_sha (replay_snapshot (xs_world x)) (pp_universe demo_payload)
          ''replay'' None True)) = (Some PHASE_PLANNED, Some ''i1'', [''i1''], [], [])"
  by code_simp

lemma demo_begun_facts: "map_option es_phase (map_of (jn_states (xs_journal demo_begun)) ''id'') = Some PHASE_PLANNED"
  "map_option es_instance_id (map_of (jn_states (xs_journal demo_begun)) ''id'') = Some ''i1''"
  "jn_instances (xs_journal demo_begun) = [''i1'']"
  "tp_valid_until (pp_target demo_payload) = []"
  "boundary_issues demo_sha (replay_snapshot (xs_world demo_begun)) (pp_universe demo_payload) ''replay'' None True = []"
  using demo_begun_evaluated by (simp_all add: Let_def plan_phase_def del: map_of_eq_Some_iff)

lemma demo_shadow_open: "tp_valid_until (pp_target demo_payload) = []"
  by (rule demo_begun_facts)

lemma demo_shadow_quiet: "quiet_account demo_shadow demo_payload (xs_world demo_begun)"
  unfolding quiet_account_def using demo_begun_facts(5)
  by (intro exI [of _ "replay_snapshot (xs_world demo_begun)"])
    (simp add: demo_shadow_def demo_coordinator_def replay_coordinator_def in_world_def)

lemma demo_shadow_start: "shadowed ''id'' PHASE_PLANNED demo_payload (xs_world demo_begun) demo_begun"
  using demo_begun_facts(1-3) by (auto simp: shadowed_def demo_payload_def simp del: map_of_eq_Some_iff)

text \<open>The execution as a run, and a sale of the position on the next day.\<close>

lemma demo_on_replay: "on_replay demo_replay_config demo_coordinator"
  unfolding on_replay_def demo_coordinator_def replay_coordinator_def by auto

lemma demo_executed_run: "execution_run (\<lambda>c _. on_replay demo_replay_config c) session_change
    (demo_execution (new_replay_broker demo_replay_config)) (snd demo_executed)"
  unfolding demo_executed_def
  by (rule replay_execute_run) (auto intro: run_done demo_on_replay simp: session_change_def)

lemma demo_executed_facts: "(case demo_executed of (r, x) \<Rightarrow>
    (map_sum id es_phase r, map (ec_price \<circ> rpo_child \<circ> snd) (rb_orders (xs_world x)), rb_session (xs_world x))) =
    (Inr COMPLETED, [10], ''2024-01-02'')"
  by code_simp

lemma demo_executed_orders: "map (ec_price \<circ> rpo_child \<circ> snd) (rb_orders (xs_world (snd demo_executed))) = [10]"
  using demo_executed_facts by (simp add: case_prod_beta)

lemma demo_executed_prices:
  assumes "map_of (rb_orders (xs_world (snd demo_executed))) r = Some ord"
  shows "0 \<le> ec_price (rpo_child ord)"
proof -
  have "ec_price (rpo_child ord) \<in> set (map (ec_price \<circ> rpo_child \<circ> snd) (rb_orders (xs_world (snd demo_executed))))"
    using map_of_SomeD [OF assms] by force
  then show ?thesis unfolding demo_executed_orders by simp
qed

definition demo_sale_plan :: child_plan where
  "demo_sale_plan = \<lparr>xp_plan_id = ''id2'', xp_decision_id = ''d1'', xp_instance_id = ''i1'', xp_config_hash = ''c1'',
     xp_phase = PHASE_PLANNED, xp_children = demo_child ''sell'' 300 [], xp_issues = []\<rparr>"

definition demo_round :: "replay_broker execution" where
  "demo_round = snd (replay_execute demo_coordinator ''2024-01-03'' [(''600000.SSE'', 11)] demo_sale_plan demo_idle_target
     [''600000.SSE''] demo_quotes demo_metadata (snd demo_executed))"

lemma demo_round_sides: "map (\<lambda>f. (rpf_instrument f, rpf_side f, fill_day f, rpf_volume f)) (rb_fills (xs_world demo_round)) =
    [(''600000.SSE'', ''buy'', ''2024-01-02'', 300), (''600000.SSE'', ''sell'', ''2024-01-03'', 300)]"
  by code_simp

lemma demo_metadata_settles: "(i, m) \<in> set demo_metadata \<Longrightarrow> im_settlement_days m > 0"
  by (simp add: demo_metadata_def metadata_of_def)

lemma demo_later:
  assumes "rb_session b \<in> {[], ''2024-01-02''}" "session \<in> {''2024-01-02'', ''2024-01-03''}"
  shows "later_session demo_stock b (replay_set_session session prices demo_metadata b)"
proof -
  have "take 10 (rb_session b) \<le> take 10 session" using assms by auto
  then show ?thesis unfolding later_session_def using demo_metadata_settles by blast
qed

lemma demo_round_run: "execution_run (\<lambda>c _. on_replay demo_replay_config c) (later_session demo_stock)
    (demo_execution (new_replay_broker demo_replay_config)) demo_round"
  unfolding demo_round_def
proof (rule replay_execute_run)
  show "execution_run (\<lambda>c _. on_replay demo_replay_config c) (later_session demo_stock)
      (demo_execution (new_replay_broker demo_replay_config)) (snd demo_executed)"
    unfolding demo_executed_def
    by (rule replay_execute_run [OF run_done])
      (auto simp: demo_on_replay demo_execution_def new_replay_broker_def intro!: demo_later)
  show "later_session demo_stock (xs_world (snd demo_executed)) (replay_set_session ''2024-01-03'' [(''600000.SSE'', 11)]
      demo_metadata (xs_world (snd demo_executed)))"
    using demo_executed_facts by (intro demo_later) (auto simp: case_prod_beta)
qed (rule demo_on_replay)

lemma demo_round_start: "xs_world (demo_execution (new_replay_broker demo_replay_config)) = new_replay_broker demo_replay_config"
  by (simp add: demo_execution_def)

definition demo_purchase :: replay_fill where
  "demo_purchase = hd (rb_fills (xs_world demo_round))"

definition demo_sale :: replay_fill where
  "demo_sale = last (rb_fills (xs_world demo_round))"

lemma demo_round_fills: "rb_fills (xs_world demo_round) = [] @ demo_purchase # [] @ demo_sale # []"
proof -
  have "length (rb_fills (xs_world demo_round)) = 2" using arg_cong [OF demo_round_sides, of length] by simp
  then show ?thesis by (auto simp: demo_purchase_def demo_sale_def length_Suc_conv numeral_2_eq_2)
qed

lemma demo_round_bought: "bought demo_stock demo_purchase" "sold demo_stock demo_sale"
  using demo_round_sides unfolding demo_round_fills by (simp_all add: bought_def sold_def demo_stock_def)

text \<open>An order of 300 shares that the replay broker has not been asked about yet.\<close>

definition demo_working :: replay_broker where
  "demo_working = snd (replay_submit (hd (demo_child ''buy'' 300 [])) (new_replay_broker demo_replay_config))"

definition demo_row :: replay_order where
  "demo_row = \<lparr>rpo_child = hd (demo_child ''buy'' 300 []), rpo_session = [], rpo_order_id = ''replay-1:c1:d1:buy0'',
     rpo_status = ''submitted'', rpo_filled = 0, rpo_polls = 0\<rparr>"

lemma demo_working_facts: "rb_orders demo_working = [(''i1:c1:d1:buy0'', demo_row)]"
  by code_simp

lemma demo_working_order: "map_of (rb_orders demo_working) ''i1:c1:d1:buy0'' = Some demo_row"
  unfolding demo_working_facts by simp

lemma demo_working_row: "replay_remaining demo_row = 300" "rpo_polls demo_row = 0" "rcf_lot_size demo_replay_config = 100"
  by (simp_all add: replay_remaining_def demo_row_def demo_child_def demo_replay_config_def Let_def)

lemma demo_config_checked: "check_replay_config demo_replay_config = Inr demo_replay_config"
  by (simp add: demo_replay_config_def check_replay_config_def)

end
