(* ===== verification/Further_Results.thy ===== *)
theory Further_Results
  imports Trading_Examples Deployment_Examples Execution_Examples
begin

section \<open>Further results\<close>

text \<open>
  Facts about single components, with an instance of each, that the properties of the root theory do not
  need: the clock, the ledger, the books, bounds on live plans and the lifecycle of orders.
\<close>

text \<open>In dry-run, when halted, in shadow mode, with routing disabled or after a risk
  rejection, submit returns no order id and its outcome does not depend on the broker's
  send_order.\<close>

theorem unrouted_without_broker:
  assumes "is_dry_run (en_runmode en) \<or> \<not> can_submit_orders (en_runmode en) \<or>
    \<not> rv_ok (fst (engine_risk_check req en))"
  shows "fst (submit gi req origin en) = Inr None \<and>
    submit (gi\<lparr>gi_send_order := f\<rparr>) req origin en = submit gi req origin en"
  using submit_not_routed [OF assms] by (simp add: with_send_def)

theorem unrouted_without_broker_witness:
  "fst (submit (paper_gateway demo_uuid paper_decide) demo_request ''manual'' (set_halted ''manual'' demo_engine)) = Inr None"
  using unrouted_without_broker [of "set_halted ''manual'' demo_engine" demo_request]
  by (simp add: halted_cannot_submit)

text \<open>A submission in dry-run, when halted, in shadow mode or with routing disabled leaves
  the OMS, the risk gate and the broker as they were; it only writes to the audit trail.\<close>

theorem blocked_submit_changes_nothing:
  assumes "is_dry_run (en_runmode en) \<or> \<not> can_submit_orders (en_runmode en)"
  shows "en_oms (snd (submit gi req origin en)) = en_oms en \<and>
    en_risk (snd (submit gi req origin en)) = en_risk en \<and>
    en_gw (snd (submit gi req origin en)) = en_gw en \<and>
    length (en_events (snd (submit gi req origin en))) = length (en_events en) + 1"
proof -
  have "length (en_events (snd (submit gi req origin en))) = length (en_events en) + 1"
    using assms by (auto simp: submit_def audit_def publish_at_def Let_def)
  with submit_blocked_frame [OF assms] show ?thesis by blast
qed

theorem blocked_submit_changes_nothing_witness:
  "en_oms (snd (submit (paper_gateway demo_uuid paper_decide) demo_request ''manual'' (set_halted ''manual'' demo_engine))) = demo_oms"
  using blocked_submit_changes_nothing [of "set_halted ''manual'' demo_engine"]
  by (simp add: halted_cannot_submit)

text \<open>Once the loss stop is latched, every later submission is rejected over any sequence of
  actions, reconnects that ask to resume included, until an operator resumes; the latch survives
  recovery of the equity.\<close>

theorem loss_stop_latched:
  assumes "en_risk en = Some g" "rg_loss_halt_rule g \<noteq> []" "AResume \<notin> set acts"
  shows "\<exists>g'. en_risk (engine_run (paper_gateway uuid decide) acts en) = Some g' \<and> rg_loss_halt_rule g' \<noteq> [] \<and>
    fst (submit (paper_gateway uuid decide) req origin (engine_run (paper_gateway uuid decide) acts en)) = Inr None"
proof -
  let ?en = "engine_run (paper_gateway uuid decide) acts en"
  have l: "loss_latched ?en"
    by (rule paper.run_latched [OF _ assms(3)]) (simp add: loss_latched_def assms)
  have "fst (submit (paper_gateway uuid decide) req origin ?en) = Inr None"
    using submit_not_routed(1) loss_latched_risk_check [OF l] by blast
  with l show ?thesis by (auto simp: loss_latched_def split: option.splits)
qed

theorem loss_stop_latched_witness:
  "\<exists>g'. en_risk (engine_run (paper_gateway demo_uuid paper_decide)
      [AReconcile None True, AAccount (paper_account demo_broker)]
      (demo_engine\<lparr>en_risk := Some (demo_gate\<lparr>rg_loss_halt_rule := ''daily_loss''\<rparr>)\<rparr>)) = Some g' \<and>
    rg_loss_halt_rule g' \<noteq> []"
  using loss_stop_latched [of "demo_engine\<lparr>en_risk := Some (demo_gate\<lparr>rg_loss_halt_rule := ''daily_loss''\<rparr>)\<rparr>"
      "demo_gate\<lparr>rg_loss_halt_rule := ''daily_loss''\<rparr>" "[AReconcile None True, AAccount (paper_account demo_broker)]"
      demo_uuid paper_decide demo_request]
  by fastforce

text \<open>With a paper or simulated broker, halting leaves no working order in the OMS and
  blocks routing, from every state a session can reach.\<close>

theorem halt_cancels_every_order:
  assumes "paper_session uuid decide en"
  shows "oms_get_active_orders (en_oms (halt (gi_cancel_order (paper_gateway uuid decide)) reason en)) = [] \<and>
    rm_halted (en_runmode (halt (gi_cancel_order (paper_gateway uuid decide)) reason en))"
  using halt_flattens [OF session_synced [OF assms]] halt_halts by simp

theorem halt_cancels_every_order_witness:
  "oms_get_active_orders (en_oms (halt (gi_cancel_order (paper_gateway demo_uuid demo_sim)) ''manual''
     (snd (submit (paper_gateway demo_uuid demo_sim) demo_request ''manual'' demo_start)))) = []"
  using halt_cancels_every_order [OF session_submit [OF demo_start_session]] by blast

text \<open>An order sent to the paper broker is fully filled: send_order returns the id of an
  order the OMS holds as all-traded, for the whole volume.\<close>

theorem paper_order_fills:
  assumes "paper_session uuid paper_decide en" "0 < rq_volume req"
  shows "\<exists>i ord. fst (paper_send_order uuid paper_decide req en) = Inr i \<and>
    oms_get_order (en_oms (snd (paper_send_order uuid paper_decide req en))) i = Some ord \<and>
    od_status ord = ALLTRADED \<and> od_traded ord = rq_volume req \<and> od_volume ord = rq_volume req"
proof -
  note s = session_synced [OF assms(1)]
  obtain r en' where send: "paper_send_order uuid paper_decide req en = (r, en')" by fastforce
  have "\<exists>i. r = Inr i" by (rule synced_send [OF s send]) blast
  then obtain i where "r = Inr i" by blast
  from paper_full_fill [OF s assms(2) send [unfolded this]] show ?thesis
    using send \<open>r = Inr i\<close> by (metis fst_conv snd_conv)
qed

theorem paper_order_fills_witness:
  "\<exists>i ord. fst (paper_send_order demo_uuid paper_decide demo_request demo_start) = Inr i \<and>
    oms_get_order (en_oms (snd (paper_send_order demo_uuid paper_decide demo_request demo_start))) i = Some ord \<and>
    od_status ord = ALLTRADED"
  using paper_order_fills [OF demo_start_session, of demo_request] by fastforce

text \<open>A fill of the paper broker exchanges cash for shares at the fill price: valued at that
  price, the account changes by exactly minus the fee.\<close>

theorem fill_costs_the_fee:
  assumes "apply_fill uuid req i d pb = (t, pb')"
    "rq_direction req = LONG \<or> fd_fill_volume d \<le> held (rq_key req) pb"
  shows "pb_cash pb' + held (rq_key req) pb' * fd_fill_price d =
    pb_cash pb + held (rq_key req) pb * fd_fill_price d -
      max (fd_fill_volume d * fd_fill_price d *
           (if rq_direction req = LONG then pb_open_cost pb else pb_close_cost pb)) (pb_min_cost pb)"
  using apply_fill_value [OF assms] by (simp add: fill_fee_def)

theorem fill_costs_the_fee_witness:
  "pb_cash (snd (apply_fill demo_uuid demo_request ''i'' (paper_decide demo_broker demo_request) demo_broker)) +
     held (rq_key demo_request) (snd (apply_fill demo_uuid demo_request ''i'' (paper_decide demo_broker demo_request) demo_broker)) * 10
   = 99995"
  using fill_costs_the_fee [of demo_uuid demo_request "''i''" "paper_decide demo_broker demo_request" demo_broker
      "fst (apply_fill demo_uuid demo_request ''i'' (paper_decide demo_broker demo_request) demo_broker)"
      "snd (apply_fill demo_uuid demo_request ''i'' (paper_decide demo_broker demo_request) demo_broker)"]
  by (simp add: paper_decide_def fill_price_def demo_broker_def paper_init_def held_def)

text \<open>Restoring a saved snapshot into a gate with the same configuration gives back the gate
  it was taken from.\<close>

theorem risk_state_round_trip:
  assumes "finite (rg_seen_refs g)" "[] \<notin> rg_seen_refs g"
    "rg_limits g0 = rg_limits g" "rg_enforce_session g0 = rg_enforce_session g"
  shows "risk_restore (Some (risk_snapshot g)) g0 = g"
  by (rule restore_snapshot [OF assms])

theorem risk_state_round_trip_witness:
  "risk_restore (Some (risk_snapshot (demo_gate\<lparr>rg_seen_refs := {''r1'', ''r2''}\<rparr>)))
     (risk_gate_init default_limits True) = demo_gate\<lparr>rg_seen_refs := {''r1'', ''r2''}\<rparr>"
  by (rule risk_state_round_trip) (simp_all add: demo_gate_def risk_gate_init_def)

definition demo_done :: order where
  "demo_done = (create_order demo_request ''a'' ''paper'' CANCELLED 0)"

text \<open>An order the OMS holds in a terminal status is never changed again, whatever the
  gateway reports and whatever is done to the engine.\<close>

theorem terminal_orders_frozen:
  assumes "oms_get_order (en_oms en) (od_id ord) = Some ord" "is_terminal (od_status ord)"
  shows "oms_get_order (en_oms (engine_run (paper_gateway uuid decide) acts en)) (od_id ord) = Some ord"
  using paper.run_terminal [of ord en uuid decide acts] assms by (simp add: terminal_order_def)

theorem terminal_orders_frozen_witness:
  "oms_get_order (en_oms (engine_run (paper_gateway demo_uuid paper_decide)
     [AReport (demo_done\<lparr>od_status := NOTTRADED\<rparr>), AHalt ''x'', AResume]
     (on_order demo_done demo_engine))) ''a'' = Some demo_done"
  using terminal_orders_frozen [of "on_order demo_done demo_engine" demo_done]
  by (simp add: demo_done_def create_order_def oms_get_order_def oms_on_order_orders is_terminal_def order_terminal_def)

text \<open>Over any sequence of gateway events, the statuses of the OMS's orders are those of the
  abstract machine that only the order lifecycle moves.\<close>

theorem oms_refines_status_machine:
  "status_view_of (oms_run evs s) = fold view_step evs (status_view_of s)"
  by (induction evs arbitrary: s) (simp_all add: oms_step_refines)

text \<open>Replaying trade reports never double-counts: the positions after any list of reports
  are those of the distinct new trades, and repeating the list changes nothing.\<close>

theorem fills_counted_once:
  "om_positions (oms_run (map EvTrade ts) s) =
     fold update_trade (new_trades (dom (map_of (om_trades s))) ts) (om_positions s) \<and>
   distinct (map td_id (new_trades (dom (map_of (om_trades s))) ts)) \<and>
   oms_run (map EvTrade (ts @ ts)) s = oms_run (map EvTrade ts) s"
proof -
  have known: "map_of (om_trades (oms_run (map EvTrade xs) r)) i \<noteq> None"
    if "map_of (om_trades r) i \<noteq> None \<or> i \<in> td_id ` set xs" for xs r i
    using that
    by (induction xs arbitrary: r) (auto simp: oms_on_trade_def AList.update_conv' split: if_splits)
  have "oms_run (map EvTrade xs) r = r" if "\<forall>t \<in> set xs. map_of (om_trades r) (td_id t) \<noteq> None" for xs r
    using that by (induction xs) (auto simp: oms_on_trade_def)
  moreover have "\<forall>t \<in> set ts. map_of (om_trades (oms_run (map EvTrade ts) s)) (td_id t) \<noteq> None"
    using known by blast
  ultimately show ?thesis by (simp add: oms_run_trades new_trades_distinct)
qed

text \<open>T+1: a buy never changes the sellable shares of an instrument with settlement days,
  and the day roll makes the whole volume sellable.\<close>

theorem bought_today_not_sellable:
  assumes "book_wf bk" "td_direction t = LONG" "book_get bk (td_key t) = Some p"
    "0 < (case map_of (bk_settlement bk) (td_key t) of Some d \<Rightarrow> d | None \<Rightarrow> ps_settlement_days p)"
  shows "book_available (update_trade t bk) (td_key t) = book_available bk (td_key t) \<and>
    book_available (book_roll_new_day (update_trade t bk)) (td_key t) = max (ps_volume p + td_volume t) 0"
  using assms update_trade_get [OF assms(1), of t "td_key t"]
  by (simp add: book_available_def fill_buy_available book_roll_get)
    (simp add: ps_available_def fill_position_def Let_def)

theorem bought_today_not_sellable_witness:
  "book_available (update_trade demo_fill demo_book) (td_key demo_fill) = 200"
proof -
  let ?p = "(new_position ''600000'' SSE)\<lparr>ps_volume := 200, ps_yd_volume := 200\<rparr>"
  have get: "book_get demo_book k = (if k = td_key demo_fill then Some ?p else None)" for k
    by (simp add: demo_book_def demo_fill_def td_key_def ps_key_def new_position_def book_get_def empty_book_def
        book_put_def)
  have sells: "bk_active_sells demo_book = []" "bk_settlement demo_book = []"
    by (simp_all add: demo_book_def empty_book_def)
  have wf: "book_wf demo_book"
    unfolding demo_book_def by (rule book_put_wf) (simp_all add: new_position_def)
  from bought_today_not_sellable [OF wf, of demo_fill ?p] show ?thesis
    by (simp add: get sells book_available_def ps_available_def)
      (simp add: demo_fill_def new_position_def)
qed

fun book_replay :: "trade option list \<Rightarrow> book \<Rightarrow> book" where
  "book_replay [] bk = bk"
| "book_replay (None # es) bk = book_replay es (book_roll_new_day bk)"
| "book_replay (Some t # es) bk = book_replay es (update_trade t bk)"

text \<open>On whole share counts every sequence of fills and day rolls keeps the sellable part of
  each holding between zero and its volume.\<close>

theorem sellable_within_volume:
  assumes "\<forall>t. Some t \<in> set es \<longrightarrow> td_volume t \<in> \<int> \<and> 0 \<le> td_volume t"
    "book_get (book_replay es empty_book) k = Some p"
  shows "0 \<le> ps_yd_volume p \<and> ps_yd_volume p \<le> ps_volume p \<and> ps_available p \<le> ps_volume p"
proof -
  have *: "book_wf (book_replay es bk) \<and> book_bounds (book_replay es bk)" if "book_wf bk" "book_bounds bk"
    "\<forall>t. Some t \<in> set es \<longrightarrow> td_volume t \<in> \<int> \<and> 0 \<le> td_volume t" for es bk
    using that by (induction es bk rule: book_replay.induct) (simp_all add: inv_intros)
  from * [of empty_book es] assms(1) have inv: "book_wf (book_replay es empty_book)" "book_bounds (book_replay es empty_book)"
    by simp_all
  from book_bounds_get [OF inv(2) assms(2)] book_wf_get [OF inv(1) assms(2)]
    frozen_by_nonneg [of "book_replay es empty_book" k] show ?thesis
    unfolding position_bounds_def ps_available_def by linarith
qed

theorem sellable_within_volume_witness:
  "\<exists>p. book_get (book_replay [Some demo_fill, None] empty_book) (td_key demo_fill) = Some p \<and>
     ps_available p \<le> ps_volume p"
proof -
  have wf: "book_wf (update_trade demo_fill empty_book)" by (simp add: inv_intros)
  obtain q where "book_get (update_trade demo_fill empty_book) (td_key demo_fill) = Some q"
    using update_trade_get_Some [OF empty_book_wf] by blast
  then obtain p where p: "book_get (book_replay [Some demo_fill, None] empty_book) (td_key demo_fill) = Some p"
    by (simp add: book_roll_get)
  have "td_volume demo_fill \<in> \<int> \<and> 0 \<le> td_volume demo_fill" by (simp add: demo_fill_def)
  with sellable_within_volume [OF _ p] p show ?thesis by auto
qed

text \<open>In every well-formed OMS the shares frozen in a holding cover all of its working sell
  orders, so what is sellable plus what is working never exceeds yesterday's volume.\<close>

theorem working_sells_frozen:
  assumes "oms_inv s" "oms_get_position (oms_run evs s) key = Some p"
  shows "frozen_by (om_positions (oms_run evs s)) key \<le> ps_frozen p \<and>
    oms_available_shares (oms_run evs s) key + frozen_by (om_positions (oms_run evs s)) key
      \<le> max (ps_yd_volume p) (frozen_by (om_positions (oms_run evs s)) key)"
proof -
  have wf: "book_wf (om_positions (oms_run evs s))" using oms_run_inv [OF assms(1)] by (simp add: oms_inv_def)
  have get: "book_get (om_positions (oms_run evs s)) key = Some p"
    using assms(2) by (simp add: oms_get_position_def)
  from book_wf_get [OF wf get] get show ?thesis
    by (auto simp: oms_available_shares_def book_available_def ps_available_def)
qed

theorem working_sells_frozen_witness:
  "\<exists>p. oms_get_position (oms_run [EvTrade demo_fill] demo_oms) (td_key demo_fill) = Some p \<and>
     frozen_by (om_positions (oms_run [EvTrade demo_fill] demo_oms)) (td_key demo_fill) \<le> ps_frozen p"
proof -
  have wf: "book_wf (om_positions demo_oms)" using demo_oms_views(6) by (simp add: oms_inv_def)
  have "om_trades demo_oms = []" by (simp add: demo_oms_def oms_init_def)
  with update_trade_get_Some [OF wf, of demo_fill] obtain p where p: "oms_get_position (oms_run [EvTrade demo_fill] demo_oms) (td_key demo_fill) = Some p"
    by (auto simp: oms_get_position_def oms_on_trade_def)
  from working_sells_frozen [OF demo_oms_views(6) p] p show ?thesis by blast
qed

text \<open>On a trading day the session is the one of the exchange's timetable, orders may be
  submitted exactly between 09:15 and 11:30 and between 13:00 and 15:00, and on a closed day
  never.\<close>

theorem session_of_the_clock:
  "session_state_at dt True =
     (if time_of_day dt < hms 9 15 0 then PRE_OPEN
      else if time_of_day dt < hms 9 30 0 then CALL_AUCTION_OPEN
      else if time_of_day dt < hms 11 30 0 then CONTINUOUS_AM
      else if time_of_day dt < hms 13 0 0 then LUNCH_BREAK
      else if time_of_day dt < hms 14 57 0 then CONTINUOUS_PM
      else if time_of_day dt < hms 15 0 0 then CALL_AUCTION_CLOSE else POST_CLOSE) \<and>
   (can_submit (session_state_at dt is_open) \<longleftrightarrow> is_open \<and>
      (hms 9 15 0 \<le> time_of_day dt \<and> time_of_day dt < hms 11 30 0 \<or>
       hms 13 0 0 \<le> time_of_day dt \<and> time_of_day dt < hms 15 0 0))"
  using session_state_at_cases [of dt]
  by (cases is_open) (auto simp: Let_def can_submit_def hms_def)

text \<open>Within one trading day, polling the session clock at later and later times never
  raises and always brings it to the session of the time polled.\<close>

theorem same_day_clock_follows:
  assumes "cal t" "cal u" "day_of t = day_of u" "t \<le> u"
  shows "clock_tick cal u (clock_current_state cal t) = (Inr (clock_current_state cal u), clock_current_state cal u)"
proof -
  have le: "session_state_at t True \<le> session_state_at u True"
    by (rule session_state_at_mono [OF same_day_mono [OF assms(3,4)]])
  then have "session_state_at u True \<in> session_allowed (session_state_at t True)"
    by (simp add: session_allowed_iff session_state_at_not_closed)
  then show ?thesis using assms(1,2)
    by (simp add: clock_tick_def clock_current_state_def check_transition_def Let_def)
qed

theorem same_day_clock_follows_witness:
  "clock_tick weekday_calendar (hms 14 0 0) (clock_current_state weekday_calendar (hms 9 0 0)) =
     (Inr (clock_current_state weekday_calendar (hms 14 0 0)), clock_current_state weekday_calendar (hms 14 0 0))"
  by (rule same_day_clock_follows)
    (simp_all add: weekday_calendar_def day_of_def day_us_def hms_def)

text \<open>Every sequence of accepted status changes of an order is short: statuses that differ
  climb a rank of four levels, so at most three real changes happen and a terminal status is
  last.\<close>

theorem order_lifecycle_climbs:
  assumes "\<forall>i < length xs - 1. xs ! i \<noteq> xs ! Suc i \<and> can_transition (xs ! i) (xs ! Suc i)"
  shows "length xs \<le> 4 \<and> (\<forall>i < length xs - 1. \<not> is_terminal (xs ! i))"
proof -
  have "length xs \<le> 4 - status_rank (hd xs)" if "xs \<noteq> []"
    "\<forall>i < length xs - 1. xs ! i \<noteq> xs ! Suc i \<and> can_transition (xs ! i) (xs ! Suc i)" for xs
    using that
  proof (induction xs rule: induct_list012)
    case (2 x)
    then show ?case by (cases x) simp_all
  next
    case (3 x y zs)
    from "3.prems"(2) have "x \<noteq> y" "can_transition x y" by force+
    then have "status_rank x < status_rank y" using can_transition_rank by blast
    moreover have "\<forall>i < length (y # zs) - 1. (y # zs) ! i \<noteq> (y # zs) ! Suc i \<and> can_transition ((y # zs) ! i) ((y # zs) ! Suc i)"
      using "3.prems"(2) by fastforce
    then have "length (y # zs) \<le> 4 - status_rank y" using "3.IH"(2) by simp
    moreover have "status_rank y \<le> 3" by (cases y) simp_all
    ultimately show ?case by simp
  qed simp
  then have "length xs \<le> 4" using assms by (cases xs) fastforce+
  moreover have "\<not> is_terminal (xs ! i)" if "i < length xs - 1" for i
    using that assms terminal_stuck by blast
  ultimately show ?thesis by blast
qed

theorem order_lifecycle_climbs_witness:
  "length [SUBMITTING, NOTTRADED, PARTTRADED, CANCELLED] \<le> 4 \<and> \<not> is_terminal PARTTRADED"
proof -
  have "\<forall>i < length [SUBMITTING, NOTTRADED, PARTTRADED, CANCELLED] - 1.
    [SUBMITTING, NOTTRADED, PARTTRADED, CANCELLED] ! i \<noteq> [SUBMITTING, NOTTRADED, PARTTRADED, CANCELLED] ! Suc i \<and>
    can_transition ([SUBMITTING, NOTTRADED, PARTTRADED, CANCELLED] ! i) ([SUBMITTING, NOTTRADED, PARTTRADED, CANCELLED] ! Suc i)"
    by (auto simp: less_Suc_eq can_transition_def numeral_3_eq_3 nth_Cons')
  from order_lifecycle_climbs [OF this] show ?thesis by (force simp: is_terminal_iff)
qed

text \<open>Building the key of an instrument and parsing it gives the instrument back, and two
  instruments never share a key.\<close>

theorem symbol_round_trip:
  assumes "plain_code c e"
  shows "normalize_symbol (symbol_key c e) = (c, e) \<and> (symbol_key c e = symbol_key c' e' \<longrightarrow> c = c' \<and> e = e')"
  using normalize_symbol_key_aux [OF assms] symbol_key_inj by blast

theorem symbol_round_trip_witness:
  "normalize_symbol (symbol_key ''600000'' SSE) = (''600000'', SSE)"
proof -
  have "plain_code ''600000'' SSE"
    by (simp add: plain_code_def exchange_from_tag_def prefix_map_def exchange_of_value_def all_exchanges_def is_digit_def)
  from symbol_round_trip [OF this] show ?thesis by blast
qed

text \<open>canonical_instrument is not idempotent: a symbol it cannot place gets the suffix
  UNKNOWN again on every call.\<close>

theorem canonical_not_idempotent:
  "canonical_instrument ''FOO'' = ''FOO.UNKNOWN'' \<and>
   canonical_instrument (canonical_instrument ''FOO'') = ''FOO.UNKNOWN.UNKNOWN''"
  by code_simp

text \<open>The audit ledger only grows at the end: over any sequence of actions and callbacks
  each day's file keeps what it held as a prefix.\<close>

theorem ledger_append_only:
  "prefix (ledger_lines (en_ledger en) d)
     (ledger_lines (en_ledger (engine_run (paper_gateway uuid decide) acts en)) d)"
proof -
  have "ledger_extends (en_ledger en) en" by (simp add: ledger_extends_def)
  from paper.run_ledger [OF this] show ?thesis by (simp add: ledger_extends_def)
qed

text \<open>Publishing an event calls every subscribed handler once, in order, whatever the others
  raise, and records one error per raise after those already recorded.\<close>

theorem observers_isolated:
  "snd (publish_event call None ev bus s) =
     fold (\<lambda>h s. snd (call h ev s)) (handlers_of bus None @ handlers_of bus (Some (ev_kind ev))) s \<and>
   eb_handlers (fst (publish_event call None ev bus s)) = eb_handlers bus \<and>
   length (eb_errors (fst (publish_event call None ev bus s))) = length (eb_errors bus) +
     raises_in call ev (handlers_of bus None @ handlers_of bus (Some (ev_kind ev))) s \<and>
   prefix (eb_errors bus) (eb_errors (fst (publish_event call None ev bus s)))"
proof -
  let ?hs = "handlers_of bus None @ handlers_of bus (Some (ev_kind ev))"
  have "prefix (eb_errors bus) (fst (run_handlers call None ev ?hs (eb_errors bus) s))"
    using run_handlers_errors_extend by (metis take_is_prefix)
  then show ?thesis
    by (simp add: publish_event_def Let_def case_prod_beta run_handlers_all run_handlers_errors)
qed

text \<open>A dropped connection halts the engine whatever state the connection was in, leaves it
  disconnected, and blocks routing.\<close>

theorem disconnect_halts:
  "rm_halted (en_runmode (on_gateway_disconnected gw channel reason True en)) \<and>
   en_connection (on_gateway_disconnected gw channel reason True en) = DISCONNECTED \<and>
   \<not> can_submit_orders (en_runmode (on_gateway_disconnected gw channel reason True en))"
proof -
  have "en_connection (handle_disconnect r en) = DISCONNECTED" for r
    by (simp add: handle_disconnect_def Let_def set_connection_disconnect set_halted_def)
  then show ?thesis
    by (simp add: on_gateway_disconnected_def Let_def handle_disconnect_halts halted_cannot_submit)
qed

text \<open>Resume raises and leaves the engine halted while the equity still violates a loss
  limit, and clears the halt otherwise.\<close>

theorem resume_needs_recovered_equity:
  assumes "en_risk en = Some g"
  shows "if rv_ok (fst (check_equity (en_oms en) (acknowledge_loss_halt g)))
    then fst (engine_resume en) = Inr () \<and> \<not> rm_halted (en_runmode (snd (engine_resume en)))
    else (\<exists>e. fst (engine_resume en) = Inl e) \<and> rm_halted (en_runmode (snd (engine_resume en))) \<and>
      (\<exists>g'. en_risk (snd (engine_resume en)) = Some g' \<and> rg_loss_halt_rule g' \<noteq> [])"
proof -
  let ?c = "check_equity (en_oms en) (acknowledge_loss_halt g)"
  have unlatched: "rg_loss_halt_rule (acknowledge_loss_halt g) = []" by (simp add: acknowledge_loss_halt_def)
  have "rg_loss_halt_rule (snd ?c) \<noteq> []" if "\<not> rv_ok (fst ?c)"
    using check_equity_latches [of "en_oms en" "acknowledge_loss_halt g" "fst ?c" "snd ?c"] that unlatched by auto
  then show ?thesis
    using assms by (simp add: engine_resume_def risk_verdict_now_def Let_def case_prod_beta runmode_resume_def)
qed

theorem resume_needs_recovered_equity_witness:
  "fst (engine_resume (set_halted ''x'' demo_engine)) = Inr () \<and>
   \<not> rm_halted (en_runmode (snd (engine_resume (set_halted ''x'' demo_engine))))"
proof -
  have "acknowledge_loss_halt (risk_gate_init default_limits True) = risk_gate_init default_limits True"
    by (simp add: acknowledge_loss_halt_def risk_gate_init_def)
  with resume_needs_recovered_equity [of "set_halted ''x'' demo_engine" "risk_gate_init default_limits True"]
  show ?thesis by (simp add: demo_check_equity)
qed

text \<open>The bars of one instrument, closed ones and the flushed one together, carry exactly
  the volume traded between the first and the last tick, and start at strictly increasing
  times.\<close>

theorem bars_conserve_volume:
  assumes ticks: "\<forall>u \<in> set (t # ts). live_tick key u" "sorted (map tk_volume (t # ts))" "key \<noteq> []"
    and run: "aggregator_init interval = Inr ba0" "agg_run (t # ts) ba0 = (bs, ba)" "agg_flush (Some key) ba = (cs, ba')"
  shows "sum_list (map br_volume (bs @ cs)) = last (map tk_volume (t # ts)) - tk_volume t \<and>
    sorted_wrt (<) (map br_datetime bs) \<and> map_of (ba_working ba') key = None"
proof -
  have new: "map_of (ba_working ba0) key = None" "map_of (ba_carry ba0) key = None"
    using run(1) by (auto simp: aggregator_init_def split: if_splits)
  from ticks(1) have "live_tick key t" by simp
  then obtain start ba1 where one: "agg_on_tick t ba0 = ([], ba1)"
    "tally key (tk_volume t) 0 (tk_volume t) start ba1" using tally_first [OF _ new] by blast
  then have rest: "agg_run ts ba1 = (bs, ba)" using run(2) by (simp add: Let_def case_prod_beta prod_eq_iff)
  from tally_run [OF _ one(2) _ rest] ticks(1,2) obtain start' where
    closed: "tally key (tk_volume t) (0 + sum_list (map br_volume bs)) (last (tk_volume t # map tk_volume ts)) start' ba"
    "sorted_wrt (<) (map br_datetime bs)" by auto
  from flush_tally [OF closed(1) ticks(3) run(3)] closed(2) show ?thesis by simp
qed

theorem bars_conserve_volume_witness:
  "\<exists>ba0 bs ba cs ba'. aggregator_init 60 = Inr ba0 \<and> agg_run [demo_tick 0 100, demo_tick 30 250] ba0 = (bs, ba) \<and>
     agg_flush (Some ''600000.SSE'') ba = (cs, ba') \<and> sum_list (map br_volume (bs @ cs)) = 150"
proof -
  obtain ba0 where start: "aggregator_init 60 = Inr ba0" by (simp add: aggregator_init_def)
  obtain bs ba where run: "agg_run [demo_tick 0 100, demo_tick 30 250] ba0 = (bs, ba)" by (metis surj_pair)
  obtain cs ba' where fl: "agg_flush (Some ''600000.SSE'') ba = (cs, ba')" by (metis surj_pair)
  have "sum_list (map br_volume (bs @ cs)) =
      last (map tk_volume [demo_tick 0 100, demo_tick 30 250]) - tk_volume (demo_tick 0 100)"
    using bars_conserve_volume [OF _ _ _ start run fl] demo_live_tick by (simp add: demo_tick_def)
  with start run fl show ?thesis by (simp add: demo_tick_def)
qed

text \<open>The orders of a live plan net to at most the difference between the wanted and the
  effective holding of each instrument and never the other way, sell at most what is sellable, put
  every sell before every buy, and carry distinct references.\<close>

theorem live_plan_within_target:
  assumes "plan_execution stable_id pl t s = Inr p" "snapshot_from_oms s (tp_as_of t) = Inr snap"
    "plan_tables pl t s = (wanted, meta)"
  shows "(\<forall>k. let delta = dget wanted k - (dget (as_positions snap) k + dget (as_active_order_deltas snap) k);
        net = net_volume k (ep_requests p)
      in min 0 delta \<le> net \<and> net \<le> max 0 delta \<and> - net \<le> dget (as_sellable snap) k) \<and>
    sorted_wrt (\<lambda>a b. rq_direction b = SHORT \<longrightarrow> rq_direction a = SHORT) (ep_requests p) \<and>
    distinct (map rq_reference (ep_requests p))"
proof -
  have "\<exists>reqs. ep_requests p = sort_key plan_order reqs"
    using assms(1) by (auto simp: plan_execution_def Let_def split: sum.splits prod.splits)
  then show ?thesis
    using plan_execution_net [OF assms] plan_references_distinct [OF assms(1)] sells_first by (fastforce simp: Let_def)
qed

theorem live_plan_within_target_witness:
  "\<exists>p. plan_execution (\<lambda>_. ''id'') demo_planner demo_target demo_oms = Inr p \<and>
     distinct (map rq_reference (ep_requests p)) \<and> 0 \<le> net_volume ''600000.SSE'' (ep_requests p) \<and>
     net_volume ''600000.SSE'' (ep_requests p) \<le> 300"
proof -
  obtain p where p: "plan_execution (\<lambda>_. ''id'') demo_planner demo_target demo_oms = Inr p"
    by (rule demo_live_plan)
  from live_plan_within_target [OF p demo_snapshot demo_tables] p show ?thesis
    by (auto simp: Let_def demo_snapshot_def dget_def dest: spec [of _ "''600000.SSE''"])
qed

text \<open>Every order of a live plan is a positive whole number of lots of its instrument, and
  its value at the planned price is within both order value caps.\<close>

theorem live_plan_orders_bounded:
  assumes "plan_execution stable_id pl t s = Inr p" "snapshot_from_oms s (tp_as_of t) = Inr snap"
    "plan_tables pl t s = (wanted, meta)" "r \<in> set (ep_requests p)"
  shows "\<exists>code ex price lot. map_of meta (rq_key r) = Some (code, ex, price, lot) \<and> 0 < rq_volume r \<and>
    is_lots (max lot 1) (rq_volume r) \<and>
    (0 < price \<and> 0 < pl_max_order_value pl \<longrightarrow> rq_volume r * price \<le> pl_max_order_value pl) \<and>
    (0 < price \<and> 0 < pl_max_order_equity_pct pl * max (as_balance snap) 0 \<longrightarrow>
       rq_volume r * price \<le> pl_max_order_equity_pct pl * max (as_balance snap) 0)"
proof -
  obtain m where m: "map_of meta (rq_key r) = Some m" "0 < rq_volume r" "is_lots (lot_unit (meta_lot m)) (rq_volume r)"
    "\<And>x. 0 < meta_price m \<Longrightarrow> x \<in> set (value_caps (pl_max_order_value pl) (pl_max_order_equity_pct pl) (as_balance snap)) \<Longrightarrow>
       rq_volume r * meta_price m \<le> x"
    using plan_execution_orders [OF assms] by metis
  obtain code ex price lot where q: "m = (code, ex, price, lot)" by (metis surj_pair)
  with m(3) have "is_lots (max lot 1) (rq_volume r)" by (simp add: meta_lot_def lot_unit_max)
  with m(1,2,4) q show ?thesis by (auto simp: meta_price_def value_caps_def)
qed

theorem live_plan_orders_bounded_witness:
  "\<exists>p r. plan_execution (\<lambda>_. ''id'') demo_planner demo_target demo_oms = Inr p \<and> r \<in> set (ep_requests p) \<and> 0 < rq_volume r"
proof -
  obtain p where p: "plan_execution (\<lambda>_. ''id'') demo_planner demo_target demo_oms = Inr p" "ep_requests p \<noteq> []"
    by (rule demo_live_plan)
  then have "hd (ep_requests p) \<in> set (ep_requests p)" by simp
  with live_plan_orders_bounded [OF p(1) demo_snapshot demo_tables this] p(1) show ?thesis by blast
qed

text \<open>When a plan is refreshed with the child counters advanced past the children already
  recorded, as the coordinator does after a partial fill, no new child repeats the client
  reference of an old one, and within each plan all references differ.\<close>

theorem replan_references_fresh:
  assumes "trading_plan stable_id pl t account quotes instruments [] = Inr p"
    "trading_plan stable_id pl' t account' quotes' instruments' (next_indices (xp_children p) []) = Inr p'"
  shows "distinct (map ec_reference (xp_children p @ xp_children p'))"
proof -
  let ?prefix = "reference_prefix t (decision_id_of stable_id t)"
  obtain ct where n: "numbered ?prefix [] (xp_children p) ct" by (rule trading_plan_numbered [OF assms(1)])
  obtain ct' where n': "numbered ?prefix (next_indices (xp_children p) []) (xp_children p') ct'"
    by (rule trading_plan_numbered [OF assms(2)])
  have zero: "0 \<le> get_index [] k" for k by (simp add: get_index_def)
  have "0 \<le> get_index (next_indices (xp_children p) []) k" for k
    using next_indices_ge(1) [of "[]" k "xp_children p"] zero [of k] by linarith
  from numbered_references_distinct [OF n zero] numbered_references_distinct [OF n' this]
    numbered_references_fresh [OF n n' zero] show ?thesis by auto
qed

theorem replan_references_fresh_witness:
  "\<exists>p p'. trading_plan (\<lambda>_. ''id'') (planner_init 100 0 0) demo_target demo_snapshot [] [] [] = Inr p \<and>
     trading_plan (\<lambda>_. ''id'') (planner_init 100 0 0) demo_target demo_snapshot [] [] (next_indices (xp_children p) []) = Inr p' \<and>
     distinct (map ec_reference (xp_children p @ xp_children p'))"
proof -
  have total: "\<exists>p. trading_plan (\<lambda>_. ''id'') (planner_init 100 0 0) demo_target demo_snapshot [] [] ni = Inr p" for ni
    by (rule trading_plan_total) (simp_all add: planner_init_def)
  then obtain p where p: "trading_plan (\<lambda>_. ''id'') (planner_init 100 0 0) demo_target demo_snapshot [] [] [] = Inr p" by blast
  moreover obtain p' where "trading_plan (\<lambda>_. ''id'') (planner_init 100 0 0) demo_target demo_snapshot [] []
      (next_indices (xp_children p) []) = Inr p'" using total by blast
  ultimately show ?thesis using replan_references_fresh by blast
qed

text \<open>Whatever session states a call-auction algorithm is polled with and whatever the route
  answers, it submits its whole plan exactly once, in order, if its auction window is ever seen,
  and nothing otherwise.\<close>

theorem auction_plan_placed_once:
  "snd (auction_day reply xs (auction_init reqs window, [])) =
     (if (if window = ''open'' then CALL_AUCTION_OPEN else CALL_AUCTION_CLOSE) \<in> set xs then reqs else [])"
  by (rule auction_day_log) (simp add: auction_target_def auction_init_def)

text \<open>The book the sizer returns never holds more of an instrument than was desired, and
  what it buys, fees included, costs at most the available cash plus the sale proceeds
  counted.\<close>

theorem sized_book_affordable:
  assumes "fit_to_available_cash lot_size desired account prices quotes instruments fees = Inr hs"
  shows "(\<forall>k. dget hs k \<le> dget desired k) \<and>
    (\<exists>proceeds buys. 0 \<le> proceeds \<and> distinct (map fst buys) \<and>
      (\<forall>k. 1/1000000000 < dget desired k - dget (current_book account) k \<longrightarrow> k \<in> fst ` set buys) \<and>
      fits_in (book_cost fees (current_book account) buys hs) (max (as_available account) 0 + proceeds + 1/1000000000))"
  using fit_to_available_cash_affordable [OF assms] by blast

theorem sized_book_affordable_witness:
  "\<exists>hs. fit_to_available_cash 100 [(''600000.SSE'', 300)] demo_snapshot [(''600000.SSE'', 10)] [] [] demo_fees = Inr hs \<and>
     dget hs ''600000.SSE'' \<le> 300"
proof -
  obtain hs where hs: "fit_to_available_cash 100 [(''600000.SSE'', 300)] demo_snapshot [(''600000.SSE'', 10)] [] [] demo_fees = Inr hs"
    by (simp add: fit_to_available_cash_def current_book_def demo_snapshot_def canon_dict_def dict_of_def
        canon_lookup_def canon_price_def quote_price_def untradable_def dget_def Let_def)
  have "dget hs ''600000.SSE'' \<le> dget [(''600000.SSE'', 300)] ''600000.SSE''"
    using sized_book_affordable [OF hs] by blast
  with hs show ?thesis by (auto simp: dget_def)
qed

text \<open>A shadow execution whose target does not expire, on an account within its boundary,
  completes in exactly the number of advances left to its phase (six from PLANNED), writes no
  child order, leaves the account and the broker as they were, and is the same whatever the submit
  port would do.\<close>

theorem shadow_execution_completes:
  assumes "xc_shadow c" "tp_valid_until (pp_target payload) = []" "quiet_account c payload w"
    "shadowed plan_id p payload w x" "p = COMPLETED \<or> \<not> settled_phase p"
  shows "(\<exists>st y. advance_times (shadow_left p) c plan_id x = (Inr st, y) \<and> es_phase st = COMPLETED \<and>
      jn_children (xs_journal y) = jn_children (xs_journal x) \<and> xs_world y = w) \<and>
    advance_plan (with_submit f c) plan_id = advance_plan c plan_id"
  using shadow_finishes [OF assms] shadow_without_submit [OF assms(1)] by blast

theorem shadow_execution_completes_witness:
  "\<exists>st y. advance_times 6 demo_shadow ''id'' demo_begun = (Inr st, y) \<and> es_phase st = COMPLETED"
  using shadow_execution_completes [OF demo_shadow_is demo_shadow_open demo_shadow_quiet demo_shadow_start, where f = "\<lambda>_. op_return None"]
  by (auto simp: settled_phase_def)

text \<open>When the sessions of a replay go forward and the metadata of an instrument say that it
  settles after a day or more, no sale of it is filled on a day on which a purchase of it was
  filled before.\<close>

theorem replay_no_same_day_sale:
  assumes "execution_run (\<lambda>c _. on_replay cfg c) (later_session k) x y" "xs_world x = new_replay_broker cfg"
    "rb_fills (xs_world y) = before @ f # between @ g # after" "bought k f" "sold k g"
  shows "fill_day g \<noteq> fill_day f"
proof -
  have "no_same_day_sale k (before @ f # between @ g # after)" using replay_run_settlement [OF assms(1,2)] assms(3) by simp
  then have "no_same_day_sale k (f # between @ g # after)" by (induction before) auto
  with assms(4,5) show ?thesis by auto
qed

theorem replay_no_same_day_sale_witness:
  "fill_day demo_sale \<noteq> fill_day demo_purchase"
  by (rule replay_no_same_day_sale [OF demo_round_run demo_round_start demo_round_fills demo_round_bought])

end
