(* ===== verification/Broker_Acceptance.thy ===== *)
theory Broker_Acceptance
  imports Store Engine
begin

section \<open>Broker acceptance runs\<close>

text \<open>
  The broker acceptance (UAT) tables of \<open>systems/trading/store.py\<close>: a run against one real broker
  account with its steps, the order references it has claimed, what the broker reported, and the
  evidence issued at the end.  A table is a dictionary on its primary key; an operation is one
  transaction, with the foreign keys and the unique columns of the schema checked where SQLite checks
  them.  The clock text, new ids and SHA-256 are parameters; the rows of one operation carry one clock
  text \<open>now\<close>.
\<close>

subsection \<open>Tables\<close>

record uat_row =
  ua_broker :: string
  ua_account_hash :: string
  ua_environment :: string
  ua_plugin_version :: string
  ua_plugin_hash :: string
  ua_sdk_version :: string
  ua_status :: string
  ua_symbol :: string
  ua_max_notional :: num
  ua_current_step :: string
  ua_error :: json
  ua_created_at :: string
  ua_updated_at :: string
  ua_ended_at :: string
  ua_scenario_version :: int
  ua_code_commit :: string
  ua_runtime_code_hash :: string
  ua_sdk_hash :: string
  ua_requested_notional :: num
  ua_filled_notional :: num

record uat_step_row =
  us_status :: string
  us_evidence :: json
  us_error :: json
  us_started_at :: string
  us_ended_at :: string

record uat_evidence =
  ue_run_id :: string
  ue_broker :: string
  ue_account_hash :: string
  ue_environment :: string
  ue_plugin_version :: string
  ue_plugin_hash :: string
  ue_sdk_version :: string
  ue_capabilities :: "string list"
  ue_evidence_hash :: string
  ue_passed_at :: string
  ue_expires_at :: string
  ue_scenario_version :: int
  ue_code_commit :: string
  ue_runtime_code_hash :: string
  ue_sdk_hash :: string
  ue_requested_notional :: num
  ue_filled_notional :: num

record uat_claim =
  uc_claimed_at :: string
  uc_notional :: num

record uat_order_event =
  uo_run_id :: string
  uo_reference :: string
  uo_order_id :: string
  uo_status :: string
  uo_traded :: num
  uo_volume :: num
  uo_payload :: json
  uo_observed_at :: string

record uat_store =
  us_runs :: "(string \<times> uat_row) list"
  us_steps :: "((string \<times> string) \<times> uat_step_row) list"
  us_evidences :: "(string \<times> uat_evidence) list"
  us_claims :: "((string \<times> string) \<times> uat_claim) list"
  us_events :: "(string \<times> uat_order_event) list"

definition empty_uat :: uat_store where
  "empty_uat = \<lparr>us_runs = [], us_steps = [], us_evidences = [], us_claims = [], us_events = []\<rparr>"

definition uat_integrity_error :: "string \<Rightarrow> exn" where
  "uat_integrity_error m = PyError ''IntegrityError'' m"

text \<open>\<open>value or {}\<close>, and the representation of a list of texts in a message.\<close>

definition or_object :: "json \<Rightarrow> json" where
  "or_object j = (if truthy j then j else JObj [])"

definition list_repr :: "string list \<Rightarrow> string" where
  "list_repr xs = ''['' @ join_text '', '' (map quoted xs) @ '']''"

subsection \<open>Reading a run\<close>

record uat_view =
  uv_run :: uat_row
  uv_steps :: "(string \<times> uat_step_row) list"
  uv_evidence :: "uat_evidence option"
  uv_events :: "uat_order_event list"

definition uat_steps_of :: "string \<Rightarrow> uat_store \<Rightarrow> (string \<times> uat_step_row) list" where
  "uat_steps_of run_id st = sort_key (\<lambda>(step, s). (us_started_at s, step))
     (List.map_filter (\<lambda>((rid, step), s). if rid = run_id then Some (step, s) else None) (us_steps st))"

definition get_uat_run :: "string \<Rightarrow> uat_store \<Rightarrow> exn + uat_view" where
  "get_uat_run run_id st = (case map_of (us_runs st) run_id of
     None \<Rightarrow> key_error (''unknown broker UAT run '' @ quoted run_id)
   | Some row \<Rightarrow> Inr \<lparr>uv_run = row, uv_steps = uat_steps_of run_id st,
       uv_evidence = find (\<lambda>e. ue_run_id e = run_id) (map snd (us_evidences st)),
       uv_events = sort_key uo_observed_at (filter (\<lambda>e. uo_run_id e = run_id) (map snd (us_events st)))\<rparr>)"

text \<open>\<open>ORDER BY key DESC\<close>; rows with equal keys stay in the order of the table.\<close>

definition newest_first :: "('r \<Rightarrow> string) \<Rightarrow> 'r list \<Rightarrow> 'r list" where
  "newest_first key rows = rev (sort_key key (rev rows))"

definition list_uat_runs :: "string \<Rightarrow> uat_store \<Rightarrow> (exn + uat_view) list" where
  "list_uat_runs broker st = map (\<lambda>(k, _). get_uat_run k st) (newest_first (\<lambda>(_, r). ua_created_at r)
     (if broker \<noteq> [] then filter (\<lambda>(_, r). ua_broker r = str_lower broker) (us_runs st) else us_runs st))"

definition set_uat_row :: "string \<Rightarrow> (uat_row \<Rightarrow> uat_row) \<Rightarrow> uat_store \<Rightarrow> uat_store" where
  "set_uat_row run_id f st = (case map_of (us_runs st) run_id of
     None \<Rightarrow> st | Some row \<Rightarrow> st\<lparr>us_runs := dict_set run_id (f row) (us_runs st)\<rparr>)"

subsection \<open>Operations\<close>

definition create_uat_run :: "string \<Rightarrow> string \<Rightarrow> uat_row \<Rightarrow> (uat_store, uat_view) op" where
  "create_uat_run now run_id r st =
     (if str_lower (ua_broker r) \<notin> {''xtp'', ''emt'', ''tts''}
      then (Inl (ValueError ''broker UAT supports xtp, emt or tts''), st)
      else if ua_max_notional r \<le> 0
      then (Inl (ValueError ''broker UAT max_notional must be positive''), st)
      else if ua_scenario_version r \<notin> {1, 2}
      then (Inl (ValueError ''unsupported broker UAT scenario version''), st)
      else if map_of (us_runs st) run_id \<noteq> None
      then (Inl (uat_integrity_error ''UNIQUE constraint failed: broker_uat_runs.run_id''), st)
      else let st' = st\<lparr>us_runs := dict_set run_id (r\<lparr>ua_broker := str_lower (ua_broker r),
               ua_status := ''created'', ua_current_step := [], ua_error := JObj [], ua_created_at := now,
               ua_updated_at := now, ua_ended_at := [], ua_requested_notional := 0,
               ua_filled_notional := 0\<rparr>) (us_runs st)\<rparr>
           in (get_uat_run run_id st', st'))"

definition step_run_status :: "string \<Rightarrow> string" where
  "step_run_status status = (if status = ''failed'' then ''failed''
     else if status = ''aborted'' then ''aborted'' else ''running'')"

definition upserted_step :: "string \<Rightarrow> string \<Rightarrow> json \<Rightarrow> json \<Rightarrow> uat_step_row option \<Rightarrow> uat_step_row" where
  "upserted_step now status evidence err existing =
     (let closed_at = (if status \<in> {''passed'', ''failed'', ''aborted''} then now else []) in
      \<lparr>us_status = status, us_evidence = or_object evidence, us_error = or_object err,
       us_started_at = (case existing of None \<Rightarrow> now | Some s \<Rightarrow> us_started_at s), us_ended_at = closed_at\<rparr>)"

definition update_uat_step ::
  "string \<Rightarrow> string \<Rightarrow> string \<Rightarrow> string \<Rightarrow> json \<Rightarrow> json \<Rightarrow> (uat_store, uat_view) op" where
  "update_uat_step now run_id step status evidence err st =
     (if status \<notin> {''running'', ''passed'', ''failed'', ''aborted''}
      then (Inl (ValueError ''invalid broker UAT step status''), st)
      else if map_of (us_runs st) run_id = None then (Inl (uat_integrity_error ''FOREIGN KEY constraint failed''), st)
      else
        let st1 = st\<lparr>us_steps := dict_set (run_id, step)
              (upserted_step now status evidence err (map_of (us_steps st) (run_id, step))) (us_steps st)\<rparr>;
            st2 = set_uat_row run_id (\<lambda>r. r\<lparr>ua_status := step_run_status status, ua_current_step := step,
              ua_error := or_object err, ua_updated_at := now,
              ua_ended_at := (if status \<in> {''failed'', ''aborted''} then now else [])\<rparr>) st1
        in (get_uat_run run_id st2, st2))"

definition bind_uat_account :: "string \<Rightarrow> string \<Rightarrow> string \<Rightarrow> (uat_store, uat_view) op" where
  "bind_uat_account now run_id account_hash st =
     (let bound = str_strip account_hash in
      if bound = [] then (Inl (ValueError ''broker UAT account_hash is required''), st)
      else case map_of (us_runs st) run_id of
        None \<Rightarrow> (key_error (''unknown broker UAT run '' @ quoted run_id), st)
      | Some row \<Rightarrow>
          if ua_account_hash row = [] \<and> ua_status row \<in> {''created'', ''running''}
          then let st' = set_uat_row run_id (\<lambda>r. r\<lparr>ua_account_hash := bound, ua_updated_at := now\<rparr>) st
               in (get_uat_run run_id st', st')
          else if ua_account_hash row \<noteq> bound
          then (Inl (ValueError ''broker UAT account binding is immutable''), st)
          else (get_uat_run run_id st, st))"

definition claimed_notional :: "string \<Rightarrow> uat_store \<Rightarrow> num" where
  "claimed_notional run_id st = sum_list (map (\<lambda>(_, c). uc_notional c) (filter (\<lambda>(k, _). fst k = run_id) (us_claims st)))"

definition claim_uat_route :: "string \<Rightarrow> string \<Rightarrow> string \<Rightarrow> num \<Rightarrow> (uat_store, bool) op" where
  "claim_uat_route now run_id reference notional st =
     (let identifier = str_strip run_id; stable = str_strip reference; amount = max notional 0;
          claimed = claimed_notional identifier st in
      if identifier = [] \<or> stable = [] then (Inr False, st)
      else case map_of (us_runs st) identifier of
        None \<Rightarrow> (Inr False, st)
      | Some run \<Rightarrow>
          if ua_status run \<notin> {''created'', ''running''} then (Inr False, st)
          else if map_of (us_claims st) (identifier, stable) \<noteq> None then (Inr False, st)
          else if claimed + amount > ua_max_notional run + 1 / 10^9 then (Inr False, st)
          else (Inr True, set_uat_row identifier
            (\<lambda>r. r\<lparr>ua_requested_notional := claimed + amount, ua_updated_at := now\<rparr>)
            (st\<lparr>us_claims := dict_set (identifier, stable) \<lparr>uc_claimed_at = now, uc_notional = amount\<rparr> (us_claims st)\<rparr>)))"

definition update_uat_filled_notional :: "string \<Rightarrow> string \<Rightarrow> num \<Rightarrow> (uat_store, uat_view) op" where
  "update_uat_filled_notional now run_id filled st =
     (if map_of (us_runs st) run_id = None then (key_error (''unknown broker UAT run '' @ quoted run_id), st)
      else let st' = set_uat_row run_id (\<lambda>r. r\<lparr>ua_filled_notional := max filled 0, ua_updated_at := now\<rparr>) st
           in (get_uat_run run_id st', st'))"

definition order_event_material :: "uat_order_event \<Rightarrow> json" where
  "order_event_material e = JObj [(''run_id'', JStr (uo_run_id e)), (''reference'', JStr (uo_reference e)),
     (''order_id'', JStr (uo_order_id e)), (''status'', JStr (uo_status e)), (''traded'', JNum (uo_traded e)),
     (''volume'', JNum (uo_volume e)), (''payload'', uo_payload e), (''observed_at'', JStr (uo_observed_at e))]"

definition event_payload :: "json \<Rightarrow> json" where
  "event_payload payload = (case payload of JObj _ \<Rightarrow> payload | _ \<Rightarrow> JObj [(''value'', payload)])"

text \<open>\<open>INSERT OR IGNORE\<close> does not ignore a foreign key.\<close>

definition record_uat_order_event :: "(json \<Rightarrow> string) \<Rightarrow> string \<Rightarrow> uat_order_event \<Rightarrow> (uat_store, bool) op" where
  "record_uat_order_event digest now e st =
     (let e1 = e\<lparr>uo_payload := event_payload (uo_payload e)\<rparr>; key = digest (order_event_material e1) in
      if map_of (us_events st) key \<noteq> None then (Inr False, st)
      else if map_of (us_runs st) (uo_run_id e) = None then (Inl (uat_integrity_error ''FOREIGN KEY constraint failed''), st)
      else (Inr True, st\<lparr>us_events := dict_set key (e1\<lparr>uo_observed_at := or_text (uo_observed_at e) now\<rparr>) (us_events st)\<rparr>))"

definition abort_uat_run :: "string \<Rightarrow> string \<Rightarrow> string \<Rightarrow> (uat_store, uat_view) op" where
  "abort_uat_run now run_id reason st =
     (if str_strip reason = [] then (Inl (ValueError ''broker UAT abort requires a reason''), st)
      else case map_of (us_runs st) run_id of
        None \<Rightarrow> (Inl (ValueError ''broker UAT run is missing or already terminal''), st)
      | Some row \<Rightarrow>
          if ua_status row \<notin> {''created'', ''running'', ''failed'', ''restart_required''}
          then (Inl (ValueError ''broker UAT run is missing or already terminal''), st)
          else let st' = set_uat_row run_id (\<lambda>r. r\<lparr>ua_status := ''aborted'',
                   ua_error := JObj [(''reason'', JStr reason)], ua_updated_at := now, ua_ended_at := now\<rparr>) st
               in (get_uat_run run_id st', st'))"

definition resume_uat_run :: "string \<Rightarrow> string \<Rightarrow> (uat_store, uat_view) op" where
  "resume_uat_run now run_id st = (case map_of (us_runs st) run_id of
     None \<Rightarrow> (Inl (ValueError ''broker UAT run is not resumable''), st)
   | Some row \<Rightarrow>
       if ua_status row \<notin> {''created'', ''failed'', ''restart_required''}
       then (Inl (ValueError ''broker UAT run is not resumable''), st)
       else let st' = set_uat_row run_id (\<lambda>r. r\<lparr>ua_status := ''running'', ua_error := JObj [],
                ua_updated_at := now, ua_ended_at := []\<rparr>) st
            in (get_uat_run run_id st', st'))"

text \<open>Two transactions: the step is written even when the second one is refused.\<close>

definition enter_restart :: "string \<Rightarrow> string \<Rightarrow> (uat_store, uat_view) op" where
  "enter_restart now run_id st = (case map_of (us_runs st) run_id of
     None \<Rightarrow> (Inl (ValueError ''broker UAT run cannot enter the restart checkpoint''), st)
   | Some row \<Rightarrow>
       if ua_status row \<noteq> ''running''
       then (Inl (ValueError ''broker UAT run cannot enter the restart checkpoint''), st)
       else let st' = set_uat_row run_id (\<lambda>r. r\<lparr>ua_status := ''restart_required'',
                ua_current_step := ''process_restart_required'', ua_error := JObj [],
                ua_updated_at := now, ua_ended_at := []\<rparr>) st
            in (get_uat_run run_id st', st'))"

definition mark_uat_restart_required :: "string \<Rightarrow> string \<Rightarrow> string \<Rightarrow> (uat_store, uat_view) op" where
  "mark_uat_restart_required now run_id process_marker =
     (let marker = str_strip process_marker in
      if marker = [] then (\<lambda>st. (Inl (ValueError ''broker UAT process marker is required''), st))
      else op_then (update_uat_step now run_id ''process_restart_required'' ''passed''
          (JObj [(''origin_process_marker'', JStr marker)]) JNull) (enter_restart now run_id))"

definition required_steps :: "int \<Rightarrow> string list" where
  "required_steps version = (if version \<ge> 2
     then [''preflight'', ''connected'', ''execution_plan'', ''marketable_order_acknowledged'',
       ''marketable_fill_observed'', ''remainder_order_acknowledged'', ''plan_partial_execution_observed'',
       ''process_restart_required'', ''restart_reconciled'', ''kill_switches_verified'', ''cancel_confirmed'',
       ''reconnect_reconciled'']
     else [''preflight'', ''connected'', ''order_acknowledged'', ''partial_fill_observed'',
       ''process_restart_required'', ''restart_reconciled'', ''kill_switches_verified'', ''cancel_confirmed'',
       ''reconnect_reconciled''])"

definition scenario_of :: "uat_row \<Rightarrow> int" where
  "scenario_of r = (if ua_scenario_version r = 0 then 1 else ua_scenario_version r)"

definition steps_missing :: "uat_view \<Rightarrow> string list" where
  "steps_missing v = sort (filter (\<lambda>s. s \<notin> fst ` set (uv_steps v)) (required_steps (scenario_of (uv_run v))))"

definition steps_not_passed :: "uat_view \<Rightarrow> string list" where
  "steps_not_passed v = sort (filter (\<lambda>s. map_option us_status (map_of (rev (uv_steps v)) s) \<noteq> Some ''passed'')
     (required_steps (scenario_of (uv_run v))))"

definition check_completion :: "string \<Rightarrow> string \<Rightarrow> uat_view \<Rightarrow> exn option" where
  "check_completion now expires_at v =
     (let r = uv_run v in
      if steps_missing v \<noteq> [] \<or> steps_not_passed v \<noteq> []
      then Some (ValueError (''all required broker UAT steps must pass before evidence is issued: missing=''
        @ list_repr (steps_missing v) @ '', not_passed='' @ list_repr (steps_not_passed v)))
      else if ua_account_hash r = [] \<or> ua_plugin_hash r = []
      then Some (ValueError ''broker UAT account and plugin bindings are required'')
      else if scenario_of r \<ge> 2 \<and> (ua_code_commit r = [] \<or> ua_runtime_code_hash r = [] \<or> ua_sdk_hash r = [])
      then Some (ValueError ''Broker UAT v2 evidence requires code, runtime and native SDK fingerprints'')
      else if expires_at \<le> now then Some (ValueError ''broker UAT evidence expiry must be in the future'')
      else None)"

definition evidence_payload :: "string \<Rightarrow> uat_row \<Rightarrow> string list \<Rightarrow> string \<Rightarrow> json" where
  "evidence_payload run_id r capabilities expires_at = JObj
     [(''run_id'', JStr run_id), (''broker'', JStr (ua_broker r)), (''account_hash'', JStr (ua_account_hash r)),
      (''environment'', JStr (ua_environment r)), (''plugin_version'', JStr (ua_plugin_version r)),
      (''plugin_hash'', JStr (ua_plugin_hash r)), (''sdk_version'', JStr (ua_sdk_version r)),
      (''sdk_hash'', JStr (ua_sdk_hash r)), (''scenario_version'', JNum (of_int (ua_scenario_version r))),
      (''code_commit'', JStr (ua_code_commit r)), (''runtime_code_hash'', JStr (ua_runtime_code_hash r)),
      (''requested_notional'', JNum (ua_requested_notional r)), (''filled_notional'', JNum (ua_filled_notional r)),
      (''capabilities'', JArr (map JStr capabilities)), (''expires_at'', JStr expires_at)]"

definition evidence_of_run :: "(json \<Rightarrow> string) \<Rightarrow> string \<Rightarrow> string \<Rightarrow> uat_row \<Rightarrow> string list \<Rightarrow> string \<Rightarrow> uat_evidence" where
  "evidence_of_run digest now run_id r capabilities expires_at =
     (let caps = sort (remdups capabilities) in
      \<lparr>ue_run_id = run_id, ue_broker = ua_broker r, ue_account_hash = ua_account_hash r,
       ue_environment = ua_environment r, ue_plugin_version = ua_plugin_version r, ue_plugin_hash = ua_plugin_hash r,
       ue_sdk_version = ua_sdk_version r, ue_capabilities = caps,
       ue_evidence_hash = digest (evidence_payload run_id r caps expires_at), ue_passed_at = now,
       ue_expires_at = expires_at, ue_scenario_version = ua_scenario_version r, ue_code_commit = ua_code_commit r,
       ue_runtime_code_hash = ua_runtime_code_hash r, ue_sdk_hash = ua_sdk_hash r,
       ue_requested_notional = ua_requested_notional r, ue_filled_notional = ua_filled_notional r\<rparr>)"

definition complete_uat_run ::
  "(json \<Rightarrow> string) \<Rightarrow> string \<Rightarrow> string \<Rightarrow> string \<Rightarrow> string list \<Rightarrow> string \<Rightarrow> (uat_store, uat_view) op" where
  "complete_uat_run digest now evidence_id run_id capabilities expires_at st = (case get_uat_run run_id st of
     Inl e \<Rightarrow> (Inl e, st)
   | Inr v \<Rightarrow> (case check_completion now expires_at v of
       Some e \<Rightarrow> (Inl e, st)
     | None \<Rightarrow>
         let ev = evidence_of_run digest now run_id (uv_run v) capabilities expires_at in
         if map_of (us_evidences st) evidence_id \<noteq> None
         then (Inl (uat_integrity_error ''UNIQUE constraint failed: broker_uat_evidence.evidence_id''), st)
         else if run_id \<in> set (map (ue_run_id \<circ> snd) (us_evidences st))
         then (Inl (uat_integrity_error ''UNIQUE constraint failed: broker_uat_evidence.run_id''), st)
         else if ue_evidence_hash ev \<in> set (map (ue_evidence_hash \<circ> snd) (us_evidences st))
         then (Inl (uat_integrity_error ''UNIQUE constraint failed: broker_uat_evidence.evidence_hash''), st)
         else let st' = set_uat_row run_id (\<lambda>r. r\<lparr>ua_status := ''passed'', ua_current_step := ''completed'',
                  ua_updated_at := now, ua_ended_at := now\<rparr>)
                  (st\<lparr>us_evidences := dict_set evidence_id ev (us_evidences st)\<rparr>)
              in (get_uat_run run_id st', st')))"

record evidence_query =
  eq_broker :: string
  eq_account_hash :: string
  eq_environment :: string
  eq_plugin_version :: string
  eq_plugin_hash :: string
  eq_sdk_version :: string
  eq_sdk_hash :: string
  eq_runtime_code_hash :: string
  eq_scenario_version :: int
  eq_passed_after :: string

definition optional_match :: "string \<Rightarrow> string \<Rightarrow> bool" where
  "optional_match wanted found \<longleftrightarrow> wanted = [] \<or> found = wanted"

definition evidence_matches :: "string \<Rightarrow> evidence_query \<Rightarrow> uat_evidence \<Rightarrow> bool" where
  "evidence_matches now q e \<longleftrightarrow> ue_broker e = str_lower (eq_broker q) \<and> ue_expires_at e > now \<and>
     optional_match (eq_account_hash q) (ue_account_hash e) \<and> optional_match (eq_environment q) (ue_environment e) \<and>
     optional_match (eq_plugin_version q) (ue_plugin_version e) \<and> optional_match (eq_plugin_hash q) (ue_plugin_hash e) \<and>
     optional_match (eq_sdk_version q) (ue_sdk_version e) \<and> optional_match (eq_sdk_hash q) (ue_sdk_hash e) \<and>
     optional_match (eq_runtime_code_hash q) (ue_runtime_code_hash e) \<and>
     (eq_scenario_version q = 0 \<or> ue_scenario_version e = eq_scenario_version q) \<and>
     (eq_passed_after q = [] \<or> ue_passed_at e \<ge> eq_passed_after q)"

text \<open>The newest matching evidence.\<close>

definition valid_uat_evidence :: "string \<Rightarrow> evidence_query \<Rightarrow> uat_store \<Rightarrow> uat_evidence option" where
  "valid_uat_evidence now q st = (case newest_first ue_passed_at (filter (evidence_matches now q) (map snd (us_evidences st))) of
     [] \<Rightarrow> None | e # _ \<Rightarrow> Some e)"

end
