(* ===== verification/Acceptance_Safety.thy ===== *)
theory Acceptance_Safety
  imports Broker_Acceptance
begin

section \<open>What the acceptance tables guarantee\<close>

text \<open>
  The steps are the transactions of the acceptance tables, whatever their arguments and in any
  interleaving of processes.  The claimed notional of a run stays within its bound, a claim is never
  released, the binding of a run is immutable, and evidence is issued once, from steps that had all passed.
\<close>

subsection \<open>Steps\<close>

inductive uat_trans :: "(json \<Rightarrow> string) \<Rightarrow> uat_store \<Rightarrow> uat_store \<Rightarrow> bool" for digest where
  uat_create: "uat_trans digest st (snd (create_uat_run now k r st))"
| uat_step: "uat_trans digest st (snd (update_uat_step now k step status evidence err st))"
| uat_bind: "uat_trans digest st (snd (bind_uat_account now k h st))"
| uat_claim: "uat_trans digest st (snd (claim_uat_route now k reference notional st))"
| uat_filled: "uat_trans digest st (snd (update_uat_filled_notional now k filled st))"
| uat_event: "uat_trans digest st (snd (record_uat_order_event digest now e st))"
| uat_abort: "uat_trans digest st (snd (abort_uat_run now k reason st))"
| uat_resume: "uat_trans digest st (snd (resume_uat_run now k st))"
| uat_restart: "uat_trans digest st (snd (enter_restart now k st))"
| uat_complete: "uat_trans digest st (snd (complete_uat_run digest now i k caps expires st))"

abbreviation uat_run :: "(json \<Rightarrow> string) \<Rightarrow> uat_store \<Rightarrow> uat_store \<Rightarrow> bool" where
  "uat_run digest \<equiv> (uat_trans digest)\<^sup>*\<^sup>*"

lemma set_uat_row_fields [simp]:
  "us_steps (set_uat_row k f st) = us_steps st" "us_evidences (set_uat_row k f st) = us_evidences st"
  "us_claims (set_uat_row k f st) = us_claims st" "us_events (set_uat_row k f st) = us_events st"
  by (simp_all add: set_uat_row_def split: option.split)

lemma set_uat_row_lookup [simp]:
  "map_of (us_runs (set_uat_row k f st)) j =
     (if j = k then map_option f (map_of (us_runs st) k) else map_of (us_runs st) j)"
  by (simp add: set_uat_row_def AList.update_conv' split: option.split)

lemma set_uat_row_ok [simp]: "dict_ok (us_runs st) \<Longrightarrow> dict_ok (us_runs (set_uat_row k f st))"
  by (simp add: set_uat_row_def split: option.split)

lemma claimed_notional_cong: "us_claims st' = us_claims st \<Longrightarrow> claimed_notional k st' = claimed_notional k st"
  by (simp add: claimed_notional_def)

text \<open>Every operation but \<open>create\<close>, \<open>claim\<close> and \<open>complete\<close> writes at most one row of the run, and neither
  claims nor evidence.\<close>

definition row_write :: "(uat_row \<Rightarrow> uat_row \<Rightarrow> bool) \<Rightarrow> uat_store \<Rightarrow> uat_store \<Rightarrow> bool" where
  "row_write rel st st' \<longleftrightarrow> us_claims st' = us_claims st \<and> us_evidences st' = us_evidences st \<and>
     (dict_ok (us_runs st) \<longrightarrow> dict_ok (us_runs st')) \<and>
     (\<forall>k. rel_option rel (map_of (us_runs st) k) (map_of (us_runs st') k))"

lemma row_write_none:
  "reflp rel \<Longrightarrow> row_write rel st st"
  "reflp rel \<Longrightarrow> row_write rel st (us_events_update f st)"
  by (auto simp: row_write_def option.rel_reflp reflpD [OF option.rel_reflp])

lemma row_write_set:
  assumes "reflp rel" "\<And>r. map_of (us_runs st) k = Some r \<Longrightarrow> rel r (f r)"
  shows "row_write rel st (set_uat_row k f st)" "row_write rel st (set_uat_row k f (us_steps_update g st))"
  using assms reflpD [OF option.rel_reflp, OF assms(1)]
  by (auto simp: row_write_def option.rel_map intro: option.rel_refl_strong)

text \<open>What no operation changes in a row, and the account, which can be bound once.\<close>

definition same_binding :: "uat_row \<Rightarrow> uat_row \<Rightarrow> bool" where
  "same_binding r r' \<longleftrightarrow> ua_broker r' = ua_broker r \<and> ua_environment r' = ua_environment r \<and>
     ua_plugin_version r' = ua_plugin_version r \<and> ua_plugin_hash r' = ua_plugin_hash r \<and>
     ua_sdk_version r' = ua_sdk_version r \<and> ua_sdk_hash r' = ua_sdk_hash r \<and> ua_symbol r' = ua_symbol r \<and>
     ua_max_notional r' = ua_max_notional r \<and> ua_scenario_version r' = ua_scenario_version r \<and>
     ua_code_commit r' = ua_code_commit r \<and> ua_runtime_code_hash r' = ua_runtime_code_hash r \<and>
     ua_created_at r' = ua_created_at r \<and> (ua_account_hash r = [] \<or> ua_account_hash r' = ua_account_hash r)"

definition quiet_write :: "uat_row \<Rightarrow> uat_row \<Rightarrow> bool" where
  "quiet_write r r' \<longleftrightarrow> same_binding r r' \<and> ua_requested_notional r' = ua_requested_notional r"

lemma same_binding_refl [simp]: "same_binding r r"
  by (simp add: same_binding_def)

lemma same_binding_trans: "same_binding a b \<Longrightarrow> same_binding b c \<Longrightarrow> same_binding a c"
  by (simp only: same_binding_def) metis

lemma quiet_write_refl: "reflp quiet_write"
  by (simp add: reflp_def quiet_write_def)

lemmas quiet_simps = row_write_none [OF quiet_write_refl] row_write_set [OF quiet_write_refl]

lemma quiet_steps:
  "row_write quiet_write st (snd (update_uat_step now k step status evidence err st))"
  "row_write quiet_write st (snd (bind_uat_account now k h st))"
  "row_write quiet_write st (snd (update_uat_filled_notional now k filled st))"
  "row_write quiet_write st (snd (record_uat_order_event digest now e st))"
  "row_write quiet_write st (snd (abort_uat_run now k reason st))"
  "row_write quiet_write st (snd (resume_uat_run now k st))"
  "row_write quiet_write st (snd (enter_restart now k st))"
  by (simp_all add: update_uat_step_def bind_uat_account_def update_uat_filled_notional_def record_uat_order_event_def
      abort_uat_run_def resume_uat_run_def enter_restart_def Let_def quiet_simps quiet_write_def same_binding_def
      split: option.split) (auto simp: quiet_write_def same_binding_def intro!: row_write_set(1) [OF quiet_write_refl])

text \<open>The three operations that write more.\<close>

lemma dict_set_appended: "map_of d k = None \<Longrightarrow> dict_set k v d = d @ [(k, v)]"
  by (induction d) (auto split: if_splits)

lemma create_uat_cases:
  obtains "snd (create_uat_run now k r st) = st"
  | r' where "map_of (us_runs st) k = None" "ua_max_notional r' > 0" "ua_requested_notional r' = 0"
      "snd (create_uat_run now k r st) = st\<lparr>us_runs := us_runs st @ [(k, r')]\<rparr>"
proof (cases "str_lower (ua_broker r) \<notin> {''xtp'', ''emt'', ''tts''} \<or> ua_max_notional r \<le> 0 \<or>
    ua_scenario_version r \<notin> {1, 2} \<or> map_of (us_runs st) k \<noteq> None")
  case True
  then have "snd (create_uat_run now k r st) = st" by (simp only: create_uat_run_def Let_def split: if_splits) auto
  with that(1) show ?thesis .
next
  case False
  let ?r = "r\<lparr>ua_broker := str_lower (ua_broker r), ua_status := ''created'', ua_current_step := [],
    ua_error := JObj [], ua_created_at := now, ua_updated_at := now, ua_ended_at := [],
    ua_requested_notional := 0, ua_filled_notional := 0\<rparr>"
  from False have "snd (create_uat_run now k r st) = st\<lparr>us_runs := us_runs st @ [(k, ?r)]\<rparr>"
    by (simp add: create_uat_run_def Let_def dict_set_appended)
  with False that(2) [of ?r] show ?thesis by simp
qed

lemma claim_uat_cases:
  obtains "claim_uat_route now k reference notional st = (Inr False, st)"
  | row where "map_of (us_runs st) (str_strip k) = Some row" "ua_status row \<in> {''created'', ''running''}"
      "map_of (us_claims st) (str_strip k, str_strip reference) = None"
      "claimed_notional (str_strip k) st + max notional 0 \<le> ua_max_notional row + 1 / 10^9"
      "claim_uat_route now k reference notional st = (Inr True, set_uat_row (str_strip k)
        (\<lambda>r. r\<lparr>ua_requested_notional := claimed_notional (str_strip k) st + max notional 0, ua_updated_at := now\<rparr>)
        (st\<lparr>us_claims := us_claims st @ [((str_strip k, str_strip reference),
           \<lparr>uc_claimed_at = now, uc_notional = max notional 0\<rparr>)]\<rparr>))"
proof (cases "\<exists>row. map_of (us_runs st) (str_strip k) = Some row \<and> ua_status row \<in> {''created'', ''running''} \<and>
    str_strip k \<noteq> [] \<and> str_strip reference \<noteq> [] \<and> map_of (us_claims st) (str_strip k, str_strip reference) = None \<and>
    claimed_notional (str_strip k) st + max notional 0 \<le> ua_max_notional row + 1 / 10^9")
  case True
  then obtain row where row: "map_of (us_runs st) (str_strip k) = Some row" "ua_status row \<in> {''created'', ''running''}"
    "map_of (us_claims st) (str_strip k, str_strip reference) = None" "str_strip k \<noteq> []" "str_strip reference \<noteq> []"
    "claimed_notional (str_strip k) st + max notional 0 \<le> ua_max_notional row + 1 / 10^9" by blast
  show ?thesis
    by (rule that(2) [OF row(1,2,3,6)])
      (simp only: claim_uat_route_def Let_def row dict_set_appended option.case if_False simp_thms not_less [symmetric] not_not
        not_less [THEN iffD2, OF row(6)])
next
  case False
  have "claim_uat_route now k reference notional st = (Inr False, st)"
  proof (cases "map_of (us_runs st) (str_strip k)")
    case None
    then show ?thesis by (simp add: claim_uat_route_def Let_def)
  next
    case (Some row)
    with False show ?thesis by (simp add: claim_uat_route_def Let_def not_le) auto
  qed
  with that(1) show ?thesis .
qed

lemma complete_uat_cases:
  obtains "snd (complete_uat_run digest now i k caps expires st) = st"
  | v where "get_uat_run k st = Inr v" "check_completion now expires v = None" "map_of (us_evidences st) i = None"
      "k \<notin> set (map (ue_run_id \<circ> snd) (us_evidences st))"
      "snd (complete_uat_run digest now i k caps expires st) = set_uat_row k (\<lambda>r. r\<lparr>ua_status := ''passed'',
        ua_current_step := ''completed'', ua_updated_at := now, ua_ended_at := now\<rparr>)
        (st\<lparr>us_evidences := us_evidences st @ [(i, evidence_of_run digest now k (uv_run v) caps expires)]\<rparr>)"
proof (cases "get_uat_run k st")
  case (Inl e)
  with that(1) show ?thesis by (simp add: complete_uat_run_def)
next
  case (Inr v)
  let ?ev = "evidence_of_run digest now k (uv_run v) caps expires"
  show ?thesis
  proof (cases "check_completion now expires v = None \<and> map_of (us_evidences st) i = None \<and>
      k \<notin> set (map (ue_run_id \<circ> snd) (us_evidences st)) \<and>
      ue_evidence_hash ?ev \<notin> set (map (ue_evidence_hash \<circ> snd) (us_evidences st))")
    case True
    with Inr show ?thesis
      by (intro that(2) [of v]) (simp_all add: complete_uat_run_def Let_def dict_set_appended)
  next
    case False
    with Inr have "snd (complete_uat_run digest now i k caps expires st) = st"
      by (cases "check_completion now expires v") (auto simp: complete_uat_run_def Let_def)
    with that(1) show ?thesis .
  qed
qed

lemma claimed_notional_append:
  "claimed_notional j (st\<lparr>us_claims := us_claims st @ [((k, ref), c)]\<rparr>) =
     claimed_notional j st + (if j = k then uc_notional c else 0)"
  by (simp add: claimed_notional_def)

text \<open>What every step keeps: bindings, claims and evidence.\<close>

definition extends_uat :: "uat_store \<Rightarrow> uat_store \<Rightarrow> bool" where
  "extends_uat st st' \<longleftrightarrow> map_of (us_claims st) \<subseteq>\<^sub>m map_of (us_claims st') \<and>
     map_of (us_evidences st) \<subseteq>\<^sub>m map_of (us_evidences st') \<and>
     (\<forall>k r. map_of (us_runs st) k = Some r \<longrightarrow> (\<exists>r'. map_of (us_runs st') k = Some r' \<and> same_binding r r'))"

lemma extends_refl: "extends_uat st st"
  by (auto simp: extends_uat_def)

lemma extends_trans: "extends_uat a b \<Longrightarrow> extends_uat b c \<Longrightarrow> extends_uat a c"
  unfolding extends_uat_def by (meson map_le_trans same_binding_trans)

lemma row_write_extends: "row_write quiet_write st st' \<Longrightarrow> extends_uat st st'"
  unfolding row_write_def extends_uat_def quiet_write_def
  by (metis (no_types, lifting) map_le_refl option_rel_Some1)

lemma map_le_append: "map_of d k = None \<Longrightarrow> map_of d \<subseteq>\<^sub>m map_of (d @ [(k, v)])"
  by (auto simp: map_le_def map_add_def)

lemma uat_trans_extends: "uat_trans digest st st' \<Longrightarrow> extends_uat st st'"
proof (induction rule: uat_trans.cases)
  case (uat_create st now k r)
  then show ?case
    by (cases rule: create_uat_cases [of now k r st]) (auto simp: extends_uat_def map_add_def)
next
  case (uat_claim st now k reference notional)
  then show ?case
    by (cases rule: claim_uat_cases [of now k reference notional st])
      (auto simp: extends_uat_def map_le_append same_binding_def)
next
  case (uat_complete st now i k caps expires)
  then show ?case
    by (cases rule: complete_uat_cases [of digest now i k caps expires st])
      (auto simp: extends_uat_def map_le_append same_binding_def)
qed (auto intro: row_write_extends quiet_steps)

lemma uat_run_extends: "uat_run digest st st' \<Longrightarrow> extends_uat st st'"
  by (induction rule: rtranclp_induct) (auto intro: extends_refl extends_trans uat_trans_extends)

subsection \<open>The invariant\<close>

definition run_claims_ok :: "uat_store \<Rightarrow> string \<times> uat_row \<Rightarrow> bool" where
  "run_claims_ok st p \<longleftrightarrow> ua_requested_notional (snd p) = claimed_notional (fst p) st \<and>
     claimed_notional (fst p) st \<le> ua_max_notional (snd p) + 1 / 10^9"

definition uat_ok :: "uat_store \<Rightarrow> bool" where
  "uat_ok st \<longleftrightarrow> dict_ok (us_runs st) \<and> dict_ok (us_claims st) \<and>
     (fst \<circ> fst) ` set (us_claims st) \<subseteq> fst ` set (us_runs st) \<and>
     distinct (map (ue_run_id \<circ> snd) (us_evidences st)) \<and> list_all (run_claims_ok st) (us_runs st)"

lemma uat_ok_empty: "uat_ok empty_uat"
  by (simp add: uat_ok_def empty_uat_def)

lemma runs_keys: "fst ` set d = dom (map_of d)"
  by (simp add: dom_map_of_conv_image_fst)

lemma rel_option_dom: "\<forall>k. rel_option rel (m k) (m' k) \<Longrightarrow> dom m = dom m'"
  by (auto simp: dom_def option_rel_Some1 option_rel_Some2) (metis option_rel_Some1 option_rel_Some2)+

lemma run_claims_iff: "dict_ok (us_runs st) \<Longrightarrow> list_all (run_claims_ok st) (us_runs st) \<longleftrightarrow>
   (\<forall>k r. map_of (us_runs st) k = Some r \<longrightarrow> run_claims_ok st (k, r))"
  by (auto simp: list_all_iff)

lemma no_claims_of_unknown:
  assumes "uat_ok st" "map_of (us_runs st) k = None"
  shows "claimed_notional k st = 0"
proof -
  have "filter (\<lambda>(j, _). fst j = k) (us_claims st) = []"
    using assms by (force simp: uat_ok_def runs_keys filter_empty_conv)
  then show ?thesis by (simp add: claimed_notional_def)
qed

lemma run_claims_kept:
  assumes "uat_ok st" "us_claims st' = us_claims st" "dict_ok (us_runs st')"
    "\<forall>k. rel_option quiet_write (map_of (us_runs st) k) (map_of (us_runs st') k)"
  shows "list_all (run_claims_ok st') (us_runs st')"
  unfolding run_claims_iff [OF assms(3)]
proof (intro allI impI)
  fix k r' assume r': "map_of (us_runs st') k = Some r'"
  with assms(4) obtain r where r: "map_of (us_runs st) k = Some r" "quiet_write r r'"
    by (metis option_rel_Some2)
  with assms(1) have "run_claims_ok st (k, r)" by (auto simp: uat_ok_def list_all_iff)
  with r(2) claimed_notional_cong [OF assms(2)] show "run_claims_ok st' (k, r')"
    by (simp add: run_claims_ok_def quiet_write_def same_binding_def)
qed

lemma row_write_uat_ok:
  assumes "row_write quiet_write st st'" "uat_ok st"
  shows "uat_ok st'"
proof -
  from assms have frame: "us_claims st' = us_claims st" "us_evidences st' = us_evidences st" "dict_ok (us_runs st')"
      "\<forall>k. rel_option quiet_write (map_of (us_runs st) k) (map_of (us_runs st') k)"
    by (auto simp: row_write_def uat_ok_def)
  have "fst ` set (us_runs st') = fst ` set (us_runs st)"
    unfolding runs_keys using rel_option_dom [OF frame(4)] by simp
  with assms(2) frame run_claims_kept [OF assms(2) frame(1,3,4)] show ?thesis by (simp add: uat_ok_def)
qed

lemma create_uat_ok:
  assumes "uat_ok st" shows "uat_ok (snd (create_uat_run now k r st))"
proof (cases rule: create_uat_cases [of now k r st])
  case 1
  with assms show ?thesis by simp
next
  case (2 r')
  let ?st = "st\<lparr>us_runs := us_runs st @ [(k, r')]\<rparr>"
  have "run_claims_ok ?st (k, r')"
    using no_claims_of_unknown [OF assms 2(1)] 2 by (simp add: run_claims_ok_def claimed_notional_cong [of ?st st])
  moreover have "run_claims_ok ?st p = run_claims_ok st p" for p
    by (simp add: run_claims_ok_def claimed_notional_cong [of ?st st])
  moreover have "dict_ok (us_runs st @ [(k, r')])"
    using assms 2(1) by (force simp: uat_ok_def map_of_eq_None_iff)
  ultimately show ?thesis using assms 2(4) by (auto simp: uat_ok_def list_all_iff)
qed

lemma claim_uat_ok:
  assumes "uat_ok st" shows "uat_ok (snd (claim_uat_route now k reference notional st))"
proof (cases rule: claim_uat_cases [of now k reference notional st])
  case 1
  with assms show ?thesis by simp
next
  case (2 row)
  let ?k = "str_strip k" and ?n = "claimed_notional (str_strip k) st + max notional 0"
  let ?c = "\<lparr>uc_claimed_at = now, uc_notional = max notional 0\<rparr>"
  let ?st1 = "st\<lparr>us_claims := us_claims st @ [((?k, str_strip reference), ?c)]\<rparr>"
  let ?st = "set_uat_row ?k (\<lambda>r. r\<lparr>ua_requested_notional := ?n, ua_updated_at := now\<rparr>) ?st1"
  have claimed: "claimed_notional j ?st = claimed_notional j st + (if j = ?k then max notional 0 else 0)" for j
    using claimed_notional_append [of j st ?k "str_strip reference" ?c] by (simp add: claimed_notional_def)
  have ok: "dict_ok (us_runs ?st)" using assms by (simp add: uat_ok_def)
  have rows: "list_all (run_claims_ok ?st) (us_runs ?st)"
    unfolding run_claims_iff [OF ok]
  proof (intro allI impI)
    fix j r assume r: "map_of (us_runs ?st) j = Some r"
    show "run_claims_ok ?st (j, r)"
    proof (cases "j = ?k")
      case True
      with r 2(1,4) show ?thesis by (auto simp: run_claims_ok_def claimed)
    next
      case False
      with r have "map_of (us_runs st) j = Some r" by simp
      with assms have "run_claims_ok st (j, r)" by (auto simp: uat_ok_def list_all_iff)
      with False show ?thesis by (simp add: run_claims_ok_def claimed)
    qed
  qed
  have keys: "fst ` set (us_runs ?st) = fst ` set (us_runs st)"
    by (auto simp: runs_keys dom_def)
  have "dict_ok (us_claims ?st)" using assms 2(3) by (force simp: uat_ok_def map_of_eq_None_iff)
  moreover have "(fst \<circ> fst) ` set (us_claims ?st) \<subseteq> fst ` set (us_runs ?st)"
    using assms 2(1) [THEN map_of_SomeD, THEN imageI, of fst] by (simp add: keys uat_ok_def)
  ultimately show ?thesis using assms rows ok 2(5) by (simp add: uat_ok_def)
qed

lemma complete_uat_ok:
  assumes "uat_ok st" shows "uat_ok (snd (complete_uat_run digest now i k caps expires st))"
proof (cases rule: complete_uat_cases [of digest now i k caps expires st])
  case 1
  with assms show ?thesis by simp
next
  case (2 v)
  let ?f = "\<lambda>r. r\<lparr>ua_status := ''passed'', ua_current_step := ''completed'', ua_updated_at := now, ua_ended_at := now\<rparr>"
  let ?ev = "evidence_of_run digest now k (uv_run v) caps expires"
  have "row_write quiet_write st (set_uat_row k ?f st)"
    by (rule quiet_simps(3)) (simp add: quiet_write_def same_binding_def)
  with assms have "uat_ok (set_uat_row k ?f st)" by (rule row_write_uat_ok [rotated])
  moreover have "set_uat_row k ?f (st\<lparr>us_evidences := us_evidences st @ [(i, ?ev)]\<rparr>) =
      (set_uat_row k ?f st)\<lparr>us_evidences := us_evidences st @ [(i, ?ev)]\<rparr>"
    by (simp add: set_uat_row_def split: option.split)
  moreover have "run_claims_ok (s\<lparr>us_evidences := es\<rparr>) = run_claims_ok s" for s es
    by (rule ext) (simp add: run_claims_ok_def claimed_notional_cong [of "s\<lparr>us_evidences := es\<rparr>" s])
  moreover have "ue_run_id ?ev = k" by (simp add: evidence_of_run_def Let_def)
  ultimately show ?thesis using 2(4,5) by (simp add: uat_ok_def)
qed

lemma uat_trans_ok: "uat_trans digest st st' \<Longrightarrow> uat_ok st \<Longrightarrow> uat_ok st'"
  by (induction rule: uat_trans.cases)
    (auto intro: row_write_uat_ok quiet_steps create_uat_ok claim_uat_ok complete_uat_ok)

lemma uat_run_ok: "uat_run digest st st' \<Longrightarrow> uat_ok st \<Longrightarrow> uat_ok st'"
  by (induction rule: rtranclp_induct) (auto intro: uat_trans_ok)

subsection \<open>Evidence\<close>

text \<open>What was checked when a piece of evidence was written.\<close>

definition issued_from :: "(json \<Rightarrow> string) \<Rightarrow> uat_evidence \<Rightarrow> uat_store \<Rightarrow> bool" where
  "issued_from digest e st \<longleftrightarrow> (\<exists>now k v caps expires. get_uat_run k st = Inr v \<and>
     check_completion now expires v = None \<and> e = evidence_of_run digest now k (uv_run v) caps expires)"

lemma issued_fromI: "get_uat_run k st = Inr v \<Longrightarrow> check_completion now expires v = None \<Longrightarrow>
    issued_from digest (evidence_of_run digest now k (uv_run v) caps expires) st"
  unfolding issued_from_def by blast

lemma row_write_evidences: "row_write rel st st' \<Longrightarrow> us_evidences st' = us_evidences st"
  by (simp add: row_write_def)

lemma uat_trans_evidence:
  assumes "uat_trans digest st st'" "map_of (us_evidences st') i = Some e"
  shows "map_of (us_evidences st) i = Some e \<or> issued_from digest e st"
  using assms
proof (induction rule: uat_trans.cases)
  case (uat_create st now k r)
  then show ?case by (cases rule: create_uat_cases [of now k r st]) auto
next
  case (uat_claim st now k reference notional)
  then show ?case by (cases rule: claim_uat_cases [of now k reference notional st]) auto
next
  case (uat_complete st now j k caps expires)
  show ?case
  proof (cases rule: complete_uat_cases [of digest now j k caps expires st])
    case 1
    with uat_complete show ?thesis by simp
  next
    case (2 v)
    with uat_complete have "map_of (us_evidences st) i = Some e \<or> e = evidence_of_run digest now k (uv_run v) caps expires"
      by (auto simp: map_add_def split: if_splits option.splits)
    moreover have "issued_from digest (evidence_of_run digest now k (uv_run v) caps expires) st"
      using 2(1,2) by (rule issued_fromI)
    ultimately show ?thesis using uat_complete(1) by blast
  qed
qed (simp_all add: quiet_steps [THEN row_write_evidences])

lemma evidence_issued:
  assumes "uat_run digest empty_uat st" "map_of (us_evidences st) i = Some e"
  shows "\<exists>st0. uat_run digest empty_uat st0 \<and> uat_run digest st0 st \<and> issued_from digest e st0"
  using assms
proof (induction rule: rtranclp_induct)
  case base
  then show ?case by (simp add: empty_uat_def)
next
  case (step st1 st2)
  from uat_trans_evidence [OF step(2,4)] show ?case
  proof
    assume "map_of (us_evidences st1) i = Some e"
    from step.IH [OF this] step(2) show ?thesis by (meson rtranclp.rtrancl_into_rtrancl)
  next
    assume "issued_from digest e st1"
    with step(1,2) show ?thesis by blast
  qed
qed

lemma evidence_keys: "uat_run digest empty_uat st \<Longrightarrow> dict_ok (us_evidences st)"
proof (induction rule: rtranclp_induct)
  case base
  show ?case by (simp add: empty_uat_def)
next
  case (step st1 st2)
  from step(2,3) show ?case
  proof (induction rule: uat_trans.cases)
    case (uat_create st now k r)
    then show ?case by (cases rule: create_uat_cases [of now k r st]) auto
  next
    case (uat_claim st now k reference notional)
    then show ?case by (cases rule: claim_uat_cases [of now k reference notional st]) auto
  next
    case (uat_complete st i now k caps expires)
    then show ?case
      by (cases rule: complete_uat_cases [of digest i now k caps expires st])
        (auto simp: map_of_eq_None_iff image_iff)
  qed (simp_all add: quiet_steps [THEN row_write_evidences])
qed

lemma evidence_fields:
  "ue_run_id (evidence_of_run digest now k r caps expires) = k"
  "ue_account_hash (evidence_of_run digest now k r caps expires) = ua_account_hash r"
  "ue_plugin_hash (evidence_of_run digest now k r caps expires) = ua_plugin_hash r"
  "ue_passed_at (evidence_of_run digest now k r caps expires) = now"
  "ue_expires_at (evidence_of_run digest now k r caps expires) = expires"
  "ue_requested_notional (evidence_of_run digest now k r caps expires) = ua_requested_notional r"
  by (simp_all add: evidence_of_run_def Let_def)

lemma issued_fromE:
  assumes "issued_from digest e st"
  obtains now v caps expires where "get_uat_run (ue_run_id e) st = Inr v" "check_completion now expires v = None"
    "e = evidence_of_run digest now (ue_run_id e) (uv_run v) caps expires"
proof -
  from assms obtain now k v caps expires where v: "get_uat_run k st = Inr v" "check_completion now expires v = None"
      "e = evidence_of_run digest now k (uv_run v) caps expires"
    unfolding issued_from_def by blast
  then have k: "ue_run_id e = k" by (simp only: evidence_fields)
  have get: "get_uat_run (ue_run_id e) st = Inr v" unfolding k by (rule v(1))
  have "e = evidence_of_run digest now (ue_run_id e) (uv_run v) caps expires" unfolding k by (rule v(3))
  with get v(2) show thesis by (rule that)
qed

lemma issued_notional:
  assumes "uat_ok st" "get_uat_run k st = Inr v"
  shows "ua_requested_notional (uv_run v) = claimed_notional k st"
    "claimed_notional k st \<le> ua_max_notional (uv_run v) + 1 / 10^9"
proof -
  from assms(2) have "map_of (us_runs st) k = Some (uv_run v)"
    by (auto simp: get_uat_run_def key_error_def split: option.splits)
  with assms(1) have "run_claims_ok st (k, uv_run v)" by (auto simp: uat_ok_def list_all_iff)
  then show "ua_requested_notional (uv_run v) = claimed_notional k st"
    "claimed_notional k st \<le> ua_max_notional (uv_run v) + 1 / 10^9" by (simp_all add: run_claims_ok_def)
qed

lemma check_completion_passed:
  assumes "check_completion now expires v = None"
  shows "steps_missing v = []" "steps_not_passed v = []" "ua_account_hash (uv_run v) \<noteq> []" "now < expires"
  using assms by (simp_all add: check_completion_def Let_def not_le split: if_splits)

lemma newest_first_set [simp]: "set (newest_first key rows) = set rows"
  by (simp add: newest_first_def)

lemma valid_evidence_row:
  assumes "valid_uat_evidence now q st = Some e"
  shows "e \<in> set (map snd (us_evidences st)) \<and> evidence_matches now q e"
proof -
  let ?rows = "filter (evidence_matches now q) (map snd (us_evidences st))"
  from assms obtain es where "newest_first ue_passed_at ?rows = e # es"
    by (auto simp: valid_uat_evidence_def split: list.splits)
  then have "e \<in> set (newest_first ue_passed_at ?rows)" by simp
  then show ?thesis by auto
qed

end
