(* ===== verification/Runtime_Orders.thy ===== *)
theory Runtime_Orders
  imports Routing Acceptance_Safety
begin

section \<open>Orders through the live runtime\<close>

text \<open>
  \<open>LiveRuntime._submit_request\<close> of \<open>systems/live/runtime.py\<close>: the one door to the engine for manual,
  automated and broker acceptance orders, with the kill switches, the lock of an automated writer and
  the persisted limits of an acceptance run.  The deployment tables and the acceptance tables are those
  of \<open>Store\<close> and \<open>Broker_Acceptance\<close>; the route authorizer of automated orders is an argument.
\<close>

subsection \<open>State\<close>

record runtime_config =
  rg_trade_broker :: string
  rg_broker :: string
  rg_execution_environment :: string

record 'g live_runtime =
  lr_engine :: "'g engine"
  lr_store :: store
  lr_uat :: uat_store

record uat_context = route_context +
  uc_uat_run_id :: string

definition env_flag :: "string \<Rightarrow> (string \<times> string) list \<Rightarrow> bool" where
  "env_flag name environ \<longleftrightarrow> str_lower (str_strip (case map_of environ name of Some v \<Rightarrow> v | None \<Rightarrow> ''false''))
     \<in> {''1'', ''true'', ''yes'', ''on''}"

definition engine_account_id :: "'g engine \<Rightarrow> string" where
  "engine_account_id en = (case om_account (en_oms en) of None \<Rightarrow> [] | Some a \<Rightarrow> ac_id a)"

definition configured_broker :: "runtime_config \<Rightarrow> string" where
  "configured_broker cfg = str_lower (or_text (rg_trade_broker cfg) (rg_broker cfg))"

subsection \<open>Locks\<close>

definition active_automated_writer ::
  "(string \<Rightarrow> string) \<Rightarrow> runtime_config \<Rightarrow> string \<Rightarrow> store \<Rightarrow> (string \<times> runtime_row) option" where
  "active_automated_writer sha cfg account_id st =
     (let identity = str_strip account_id in
      if identity = [] then None
      else case (if rg_execution_environment cfg \<in> {''live'', ''broker_simulation''}
                 then active_external_writer sha (rg_execution_environment cfg) (configured_broker cfg) identity [] st
                 else None) of
        Some w \<Rightarrow> Some w
      | None \<Rightarrow> active_live_writer sha identity st)"

definition manual_route_blocks ::
  "(string \<Rightarrow> string) \<Rightarrow> string \<Rightarrow> string \<Rightarrow> 'g live_runtime \<Rightarrow> ((string \<times> string) \<times> block_row) list" where
  "manual_route_blocks sha instance_id account_id rt =
     active_route_blocks sha instance_id (or_text account_id (engine_account_id (lr_engine rt))) (lr_store rt)"

subsection \<open>Acceptance orders\<close>

definition uat_reference :: "string \<Rightarrow> string \<Rightarrow> string" where
  "uat_reference run_id leg = ''broker-uat/'' @ run_id @ ''/'' @ leg"

definition allowed_references :: "string \<Rightarrow> int \<Rightarrow> string list" where
  "allowed_references run_id version = (if (if version = 0 then 1 else version) \<ge> 2
     then [uat_reference run_id ''fill'', uat_reference run_id ''remainder''] else [uat_reference run_id ''primary''])"

text \<open>Every check before the claim, in the order of the code; the text of a \<open>KeyError\<close> is its message in quotes.\<close>

definition uat_checks ::
  "(string \<Rightarrow> string) \<Rightarrow> runtime_config \<Rightarrow> (string \<times> string) list \<Rightarrow> string \<Rightarrow> order_request \<Rightarrow> 'g live_runtime \<Rightarrow>
   (string \<times> string) option" where
  "uat_checks sha cfg environ run_id req rt =
     (let account_id = engine_account_id (lr_engine rt); notional = rq_volume req * rq_price req in
      if \<not> env_flag ''ALPHAPILOT_BROKER_UAT_ENABLED'' environ
      then Some (''uat_disabled'', ''ALPHAPILOT_BROKER_UAT_ENABLED is not true'')
      else if run_id = [] then Some (''uat_binding'', ''uat_run_id is required'')
      else case get_uat_run run_id (lr_uat rt) of
        Inl e \<Rightarrow> Some (''uat_state'', [CHR 0x22] @ exn_message e @ [CHR 0x22])
      | Inr v \<Rightarrow> (let run = uv_run v in
          if ua_status run \<notin> {''created'', ''running''}
          then Some (''uat_state'', ''Broker UAT run is '' @ ua_status run)
          else if str_lower (ua_broker run) \<noteq> configured_broker cfg
          then Some (''uat_broker'', ''runtime broker does not match the UAT run'')
          else if account_id = [] \<or> sha account_id = [] \<or> sha account_id \<noteq> ua_account_hash run
          then Some (''uat_account'', ''runtime account does not match the UAT run'')
          else if symbol_key (rq_code req) (rq_exchange req) \<noteq> ua_symbol run
          then Some (''uat_whitelist'', symbol_key (rq_code req) (rq_exchange req) @ '' is not the bound UAT symbol'')
          else if rq_type req \<noteq> LIMIT \<or> rq_price req \<le> 0
          then Some (''uat_price'', ''Broker UAT requires a positive limit price'')
          else if notional > ua_max_notional run + 1 / 10^9
          then Some (''uat_notional'', ''UAT notional '' @ fixed_text 2 notional @ '' exceeds persisted cap ''
            @ fixed_text 2 (ua_max_notional run))
          else let blocks = manual_route_blocks sha (''broker-uat:'' @ run_id) account_id rt in
            if blocks \<noteq> [] then Some (''kill_switch'', ''route blocked by '' @ route_block_summary sha blocks)
            else case active_automated_writer sha cfg account_id (lr_store rt) of
              Some (i, _) \<Rightarrow> Some (''automated_writer_lock'', ''automated writer '' @ i @ '' owns this account'')
            | None \<Rightarrow>
                if rq_reference req \<notin> set (allowed_references run_id (ua_scenario_version run))
                then Some (''uat_reference'', ''reference is not part of the persisted UAT scenario'')
                else None))"

definition uat_denial ::
  "(string \<Rightarrow> string) \<Rightarrow> runtime_config \<Rightarrow> (string \<times> string) list \<Rightarrow> string \<Rightarrow> string \<Rightarrow> order_request \<Rightarrow>
   'g live_runtime \<Rightarrow> (string \<times> string) option \<times> 'g live_runtime" where
  "uat_denial sha cfg environ now run_id req rt =
     (let rid = str_strip run_id in
      case uat_checks sha cfg environ rid req rt of
        Some d \<Rightarrow> (Some d, rt)
      | None \<Rightarrow> (case claim_uat_route now rid (rq_reference req) (rq_volume req * rq_price req) (lr_uat rt) of
          (Inr True, u) \<Rightarrow> (None, rt\<lparr>lr_uat := u\<rparr>)
        | (_, u) \<Rightarrow> (Some (''duplicate'', ''the UAT route was already claimed or exhausted its cap''), rt\<lparr>lr_uat := u\<rparr>)))"

subsection \<open>Submission\<close>

definition record_denial :: "string \<Rightarrow> order_request \<Rightarrow> string \<Rightarrow> string \<Rightarrow> 'g engine \<Rightarrow> 'g engine" where
  "record_denial origin req rule reason en = en\<lparr>en_ledger := record_event ''blocked''
     (JObj [(''origin'', JStr origin), (''rule'', JStr rule), (''reason'', JStr reason)])
     None None (Some (rq_reference req)) ''live'' (en_wall en) (en_ledger en)\<rparr>"

definition on_engine :: "('g engine, 'a) op \<Rightarrow> ('g live_runtime, 'a) op" where
  "on_engine f rt = (let (r, en) = f (lr_engine rt) in (r, rt\<lparr>lr_engine := en\<rparr>))"

definition refuse_order :: "string \<Rightarrow> order_request \<Rightarrow> string \<times> string \<Rightarrow> ('g live_runtime, string option) op" where
  "refuse_order origin req d = on_engine (\<lambda>en. (Inr None, record_denial origin req (fst d) (snd d) en))"

definition submit_manual ::
  "'g gateway \<Rightarrow> (string \<Rightarrow> string) \<Rightarrow> runtime_config \<Rightarrow> uat_context \<Rightarrow> order_request \<Rightarrow> ('g live_runtime, string option) op" where
  "submit_manual gi sha cfg c req rt =
     (let blocks = manual_route_blocks sha (rc_instance_id c) (rc_account_id c) rt in
      if blocks \<noteq> []
      then refuse_order ''manual'' req (''kill_switch'', ''route blocked by '' @ route_block_summary sha blocks) rt
      else case active_automated_writer sha cfg (engine_account_id (lr_engine rt)) (lr_store rt) of
        Some (i, _) \<Rightarrow>
          if rq_is_buy req
          then refuse_order ''manual'' req (''automated_writer_lock'',
            ''ordinary manual buys are disabled while automated writer '' @ i @ '' owns this account'') rt
          else on_engine (submit gi req ''manual'') rt
      | None \<Rightarrow> on_engine (submit gi req ''manual'') rt)"

definition submit_uat ::
  "'g gateway \<Rightarrow> (string \<Rightarrow> string) \<Rightarrow> runtime_config \<Rightarrow> (string \<times> string) list \<Rightarrow> string \<Rightarrow> uat_context \<Rightarrow> order_request \<Rightarrow>
   ('g live_runtime, string option) op" where
  "submit_uat gi sha cfg environ now c req rt =
     (case uat_denial sha cfg environ now (uc_uat_run_id c) req rt of
        (Some d, rt') \<Rightarrow> refuse_order ''broker_uat'' req d rt'
      | (None, rt') \<Rightarrow> on_engine (submit gi req ''broker_uat'') rt')"

definition submit_automated ::
  "'g gateway \<Rightarrow> authorizer option \<Rightarrow> uat_context \<Rightarrow> order_request \<Rightarrow> ('g live_runtime, string option) op" where
  "submit_automated gi auth c req = on_engine (\<lambda>en.
     let (r, ro) = router_submit gi auth (route_context.truncate c) req \<lparr>ro_engine = en, ro_last_authorization = None\<rparr>
     in (r, ro_engine ro))"

definition submit_request ::
  "'g gateway \<Rightarrow> (store \<Rightarrow> authorizer option) \<Rightarrow> (string \<Rightarrow> string) \<Rightarrow> runtime_config \<Rightarrow> (string \<times> string) list \<Rightarrow>
   string \<Rightarrow> uat_context \<Rightarrow> order_request \<Rightarrow> ('g live_runtime, string option) op" where
  "submit_request gi auth sha cfg environ now c req rt = (case rc_origin c of
     ORIGIN_AUTOMATED \<Rightarrow> submit_automated gi (auth (lr_store rt)) c req rt
   | ORIGIN_BROKER_UAT \<Rightarrow> submit_uat gi sha cfg environ now c req rt
   | ORIGIN_MANUAL \<Rightarrow> submit_manual gi sha cfg c req rt)"

end
