(* ===== verification/Runtime_Safety.thy ===== *)
theory Runtime_Safety
  imports Runtime_Orders
begin

section \<open>What the runtime lets through\<close>

text \<open>
  The acceptance orders that reach the engine, whatever processes do to the tables in between: their
  notional per run, their references, their number.  An active global block stops manual and acceptance
  orders alike; an automated writer stops manual purchases.
\<close>

subsection \<open>Claims and orders\<close>

lemma claim_uat_transits: "uat_trans digest st (snd (claim_uat_route now k reference notional st))"
  by (rule uat_claim)

lemma row_write_claims: "row_write rel st st' \<Longrightarrow> us_claims st' = us_claims st"
  by (simp add: row_write_def)

lemma claimed_notional_mono: "uat_trans digest st st' \<Longrightarrow> claimed_notional j st \<le> claimed_notional j st'"
proof (induction rule: uat_trans.cases)
  case (uat_create st now k r)
  then show ?case by (cases rule: create_uat_cases [of now k r st]) (simp_all add: claimed_notional_def)
next
  case (uat_claim st now k reference notional)
  then show ?case
    by (cases rule: claim_uat_cases [of now k reference notional st]) (simp_all add: claimed_notional_def)
next
  case (uat_complete st now i k caps expires)
  then show ?case
    by (cases rule: complete_uat_cases [of digest now i k caps expires st]) (simp_all add: claimed_notional_def)
qed (simp_all add: claimed_notional_def quiet_steps [THEN row_write_claims])

lemma claimed_notional_run: "uat_run digest st st' \<Longrightarrow> claimed_notional j st \<le> claimed_notional j st'"
  by (induction rule: rtranclp_induct) (auto intro: order_trans claimed_notional_mono)

declare str_strip_again [simp]

text \<open>An order that is not denied has just been claimed, by a reference of its run.\<close>

lemma uat_not_denied:
  assumes "fst (uat_denial sha cfg environ now run_id req rt) = None"
  obtains run where "map_of (us_runs (lr_uat rt)) (str_strip run_id) = Some run"
    "rq_reference req \<in> set (allowed_references (str_strip run_id) (ua_scenario_version run))"
    "map_of (us_claims (lr_uat rt)) (str_strip run_id, str_strip (rq_reference req)) = None"
    "lr_uat (snd (uat_denial sha cfg environ now run_id req rt)) =
       snd (claim_uat_route now (str_strip run_id) (rq_reference req) (rq_volume req * rq_price req) (lr_uat rt))"
    "map_of (us_claims (lr_uat (snd (uat_denial sha cfg environ now run_id req rt))))
       (str_strip run_id, str_strip (rq_reference req)) \<noteq> None"
    "\<And>j. claimed_notional j (lr_uat (snd (uat_denial sha cfg environ now run_id req rt))) =
       claimed_notional j (lr_uat rt) + (if j = str_strip run_id then max (rq_volume req * rq_price req) 0 else 0)"
proof -
  let ?k = "str_strip run_id" and ?n = "rq_volume req * rq_price req"
  from assms have checks: "uat_checks sha cfg environ ?k req rt = None"
    by (simp add: uat_denial_def Let_def split: option.splits)
  then have ref: "\<exists>run. map_of (us_runs (lr_uat rt)) ?k = Some run \<and>
      rq_reference req \<in> set (allowed_references ?k (ua_scenario_version run))"
    by (auto simp: uat_checks_def Let_def get_uat_run_def key_error_def split: if_splits option.splits)
  show thesis
  proof (cases rule: claim_uat_cases [of now ?k "rq_reference req" ?n "lr_uat rt"])
    case 1
    with assms checks show thesis by (simp add: uat_denial_def Let_def)
  next
    case (2 row)
    have "claimed_notional j (snd (claim_uat_route now ?k (rq_reference req) ?n (lr_uat rt))) =
        claimed_notional j (lr_uat rt) + (if j = ?k then max ?n 0 else 0)" for j
      by (simp add: 2(5) claimed_notional_def)
    with ref 2 checks that show thesis by (auto simp: uat_denial_def Let_def)
  qed
qed

lemma uat_denied_claims:
  assumes "fst (uat_denial sha cfg environ now run_id req rt) \<noteq> None"
  shows "lr_uat (snd (uat_denial sha cfg environ now run_id req rt)) = lr_uat rt"
proof (cases rule: claim_uat_cases [of now "str_strip run_id" "rq_reference req" "rq_volume req * rq_price req" "lr_uat rt"])
  case 1
  then show ?thesis by (simp add: uat_denial_def Let_def split: option.split)
next
  case (2 row)
  with assms show ?thesis by (simp add: uat_denial_def Let_def split: option.splits)
qed

lemma on_engine_frame [simp]: "lr_uat (snd (on_engine f rt)) = lr_uat rt" "lr_store (snd (on_engine f rt)) = lr_store rt"
  by (simp_all add: on_engine_def split: prod.split)

lemma submit_uat_tables:
  "lr_uat (snd (submit_uat gi sha cfg environ now c req rt)) = lr_uat (snd (uat_denial sha cfg environ now (uc_uat_run_id c) req rt))"
  by (simp add: submit_uat_def refuse_order_def split: prod.split option.split)

subsection \<open>Histories\<close>

text \<open>
  A history of the runtime: acceptance orders are submitted, and in between anything happens to the engine
  and to the deployment tables, and any transactions to the acceptance tables.  The trace holds
  the orders that were handed to the engine, with their run.
\<close>

inductive uat_history ::
  "(json \<Rightarrow> string) \<Rightarrow> 'g live_runtime \<Rightarrow> (string \<times> order_request) list \<Rightarrow> 'g live_runtime \<Rightarrow> bool" for digest rt where
  history_start: "uat_history digest rt [] rt"
| history_env: "uat_history digest rt tr rt1 \<Longrightarrow> uat_run digest (lr_uat rt1) (lr_uat rt2) \<Longrightarrow> uat_history digest rt tr rt2"
| history_order: "uat_history digest rt tr rt1 \<Longrightarrow>
    uat_history digest rt
      (tr @ (if fst (uat_denial sha cfg environ now (uc_uat_run_id c) req rt1) = None
             then [(str_strip (uc_uat_run_id c), req)] else []))
      (snd (submit_uat gi sha cfg environ now c req rt1))"

definition order_notional :: "string \<times> order_request \<Rightarrow> num" where
  "order_notional p = rq_volume (snd p) * rq_price (snd p)"

definition order_key :: "string \<times> order_request \<Rightarrow> string \<times> string" where
  "order_key p = (fst p, str_strip (rq_reference (snd p)))"

definition orders_of :: "string \<Rightarrow> (string \<times> order_request) list \<Rightarrow> (string \<times> order_request) list" where
  "orders_of k tr = filter (\<lambda>p. fst p = k) tr"

definition reference_allowed :: "uat_store \<Rightarrow> string \<times> order_request \<Rightarrow> bool" where
  "reference_allowed u p \<longleftrightarrow> (\<exists>r. map_of (us_runs u) (fst p) = Some r \<and>
     rq_reference (snd p) \<in> set (allowed_references (fst p) (ua_scenario_version r)))"

definition history_ok :: "(string \<times> order_request) list \<Rightarrow> uat_store \<Rightarrow> bool" where
  "history_ok tr u \<longleftrightarrow> distinct (map order_key tr) \<and> order_key ` set tr \<subseteq> dom (map_of (us_claims u)) \<and>
     (\<forall>p\<in>set tr. reference_allowed u p) \<and>
     (\<forall>k. sum_list (map order_notional (orders_of k tr)) \<le> claimed_notional k u)"

lemma reference_allowed_extends: "extends_uat u u' \<Longrightarrow> reference_allowed u p \<Longrightarrow> reference_allowed u' p"
  unfolding extends_uat_def reference_allowed_def same_binding_def by metis

lemma history_ok_later: "history_ok tr u \<Longrightarrow> uat_run digest u u' \<Longrightarrow> history_ok tr u'"
proof -
  assume ok: "history_ok tr u" and run: "uat_run digest u u'"
  have ext: "extends_uat u u'" by (rule uat_run_extends [OF run])
  then have "dom (map_of (us_claims u)) \<subseteq> dom (map_of (us_claims u'))"
    by (auto simp: extends_uat_def dest: map_le_implies_dom_le)
  moreover have "\<forall>p\<in>set tr. reference_allowed u' p"
    using ok by (auto simp: history_ok_def intro: reference_allowed_extends [OF ext])
  moreover have "\<forall>k. sum_list (map order_notional (orders_of k tr)) \<le> claimed_notional k u'"
    using ok by (auto simp: history_ok_def intro: order_trans [OF _ claimed_notional_run [OF run]])
  ultimately show ?thesis using ok unfolding history_ok_def by (meson subset_trans)
qed

lemma history_ok_order:
  assumes ok: "history_ok tr (lr_uat rt)" and handed: "fst (uat_denial sha cfg environ now run_id req rt) = None"
  shows "history_ok (tr @ [(str_strip run_id, req)]) (lr_uat (snd (uat_denial sha cfg environ now run_id req rt)))"
proof -
  let ?u = "lr_uat (snd (uat_denial sha cfg environ now run_id req rt))" and ?p = "(str_strip run_id, req)"
  obtain run where run: "map_of (us_runs (lr_uat rt)) (str_strip run_id) = Some run"
      "rq_reference req \<in> set (allowed_references (str_strip run_id) (ua_scenario_version run))"
      "map_of (us_claims (lr_uat rt)) (str_strip run_id, str_strip (rq_reference req)) = None"
      "?u = snd (claim_uat_route now (str_strip run_id) (rq_reference req) (rq_volume req * rq_price req) (lr_uat rt))"
      "map_of (us_claims ?u) (str_strip run_id, str_strip (rq_reference req)) \<noteq> None"
      "\<And>j. claimed_notional j ?u = claimed_notional j (lr_uat rt) +
         (if j = str_strip run_id then max (rq_volume req * rq_price req) 0 else 0)"
    by (rule uat_not_denied [OF handed]) blast
  have key: "order_key ?p = (str_strip run_id, str_strip (rq_reference req))"
      "order_notional ?p = rq_volume req * rq_price req" by (simp_all add: order_key_def order_notional_def)
  have "uat_run (\<lambda>_. []) (lr_uat rt) ?u" unfolding run(4) by (rule r_into_rtranclp) (rule claim_uat_transits)
  with ok have later: "history_ok tr ?u" by (rule history_ok_later)
  have "reference_allowed (lr_uat rt) ?p" using run(1,2) by (simp add: reference_allowed_def)
  then have allowed: "reference_allowed ?u ?p"
    using \<open>uat_run _ _ ?u\<close> by (blast intro: reference_allowed_extends uat_run_extends)
  have new: "order_key ?p \<notin> order_key ` set tr"
    using ok run(3) unfolding key history_ok_def by (metis domIff subsetD)
  have "sum_list (map order_notional (orders_of k (tr @ [?p]))) \<le> claimed_notional k ?u" for k
  proof -
    have "sum_list (map order_notional (orders_of k tr)) \<le> claimed_notional k (lr_uat rt)"
      using ok by (simp add: history_ok_def)
    then show ?thesis using key(2) by (auto simp: orders_of_def run(6) intro!: add_mono)
  qed
  moreover have "order_key ?p \<in> dom (map_of (us_claims ?u))" using run(5) unfolding key by (simp add: domIff)
  ultimately show ?thesis using later allowed new by (simp add: history_ok_def)
qed

lemma uat_history_ok:
  assumes "uat_history digest rt tr rt'" "uat_ok (lr_uat rt)" "us_claims (lr_uat rt) = []"
  shows "history_ok tr (lr_uat rt') \<and> uat_ok (lr_uat rt')"
  using assms(1)
proof induction
  case history_start
  with assms(2,3) show ?case by (simp add: history_ok_def orders_of_def claimed_notional_def)
next
  case (history_env tr rt1 rt2)
  then show ?case by (blast intro: history_ok_later uat_run_ok)
next
  case (history_order tr rt1 sha cfg environ now c req gi)
  show ?case
  proof (cases "fst (uat_denial sha cfg environ now (uc_uat_run_id c) req rt1)")
    case None
    from uat_not_denied [OF None] obtain k n where u: "lr_uat (snd (uat_denial sha cfg environ now (uc_uat_run_id c) req rt1)) =
        snd (claim_uat_route now k (rq_reference req) n (lr_uat rt1))" by blast
    have "uat_ok (snd (claim_uat_route now k (rq_reference req) n (lr_uat rt1)))"
      using history_order.IH by (blast intro: claim_uat_ok)
    with u history_ok_order [OF _ None] history_order.IH None show ?thesis by (simp add: submit_uat_tables)
  next
    case (Some d)
    with uat_denied_claims [of sha cfg environ now "uc_uat_run_id c" req rt1] history_order.IH show ?thesis
      by (simp add: submit_uat_tables)
  qed
qed

lemma allowed_references_length: "length (allowed_references k v) \<le> 2"
  by (simp add: allowed_references_def)

lemma history_orders_bounded:
  assumes "history_ok tr u" "uat_ok u" "map_of (us_runs u) k = Some r"
  shows "sum_list (map order_notional (orders_of k tr)) \<le> ua_max_notional r + 1 / 10^9"
    "distinct (map (rq_reference \<circ> snd) (orders_of k tr))" "length (orders_of k tr) \<le> 2"
proof -
  have "run_claims_ok u (k, r)" using assms(2,3) by (auto simp: uat_ok_def list_all_iff)
  with assms(1) show "sum_list (map order_notional (orders_of k tr)) \<le> ua_max_notional r + 1 / 10^9"
    unfolding history_ok_def run_claims_ok_def by (metis fst_conv snd_conv order_trans)
  have "distinct (map order_key (orders_of k tr))"
    using assms(1) by (simp add: history_ok_def orders_of_def distinct_map_filter)
  moreover have "map order_key (orders_of k tr) = map (\<lambda>ref. (k, str_strip ref)) (map (rq_reference \<circ> snd) (orders_of k tr))"
    by (auto simp: orders_of_def order_key_def)
  ultimately show dist: "distinct (map (rq_reference \<circ> snd) (orders_of k tr))"
    by (simp only: distinct_map)
  have "set (map (rq_reference \<circ> snd) (orders_of k tr)) \<subseteq> set (allowed_references k (ua_scenario_version r))"
    using assms(1,3) by (auto simp: history_ok_def orders_of_def reference_allowed_def)
  then have "card (set (map (rq_reference \<circ> snd) (orders_of k tr))) \<le> card (set (allowed_references k (ua_scenario_version r)))"
    by (rule card_mono [rotated]) simp
  with distinct_card [OF dist] card_length [of "allowed_references k (ua_scenario_version r)"]
    allowed_references_length [of k "ua_scenario_version r"]
  show "length (orders_of k tr) \<le> 2" by simp
qed

subsection \<open>Kill switches and locks\<close>

text \<open>What a refused order leaves behind: one line of the ledger.\<close>

definition only_logged :: "'g live_runtime \<Rightarrow> 'g live_runtime \<Rightarrow> bool" where
  "only_logged rt rt' \<longleftrightarrow> lr_store rt' = lr_store rt \<and> lr_uat rt' = lr_uat rt \<and>
     lr_engine rt' = (lr_engine rt)\<lparr>en_ledger := en_ledger (lr_engine rt')\<rparr>"

lemma refuse_order_logged: "fst (refuse_order origin req d rt) = Inr None" "only_logged rt (snd (refuse_order origin req d rt))"
  by (simp_all add: refuse_order_def on_engine_def only_logged_def record_denial_def)

lemma global_block_applies:
  assumes "map_of (st_blocks st) (''global'', ''*'') = Some b" "bl_active b"
  shows "active_route_blocks sha i a st \<noteq> []"
proof -
  from assms(1) have "((''global'', ''*''), b) \<in> set (st_blocks st)" by (rule map_of_SomeD)
  with assms(2) have "((''global'', ''*''), b) \<in> set (active_route_blocks sha i a st)"
    by (simp add: active_route_blocks_def block_applies_def)
  then show ?thesis by force
qed

lemma uat_checks_blocked:
  assumes "manual_route_blocks sha (''broker-uat:'' @ k) (engine_account_id (lr_engine rt)) rt \<noteq> []"
  shows "uat_checks sha cfg environ k req rt \<noteq> None"
  using assms by (simp add: uat_checks_def Let_def split: sum.split)

lemma submit_blocked:
  assumes "map_of (st_blocks (lr_store rt)) (''global'', ''*'') = Some b" "bl_active b" "rc_origin c \<noteq> ORIGIN_AUTOMATED"
  shows "fst (submit_request gi auth sha cfg environ now c req rt) = Inr None"
    "only_logged rt (snd (submit_request gi auth sha cfg environ now c req rt))"
proof -
  note blocks = global_block_applies [OF assms(1,2), of sha]
  obtain rule reason where d: "uat_checks sha cfg environ (str_strip (uc_uat_run_id c)) req rt = Some (rule, reason)"
    using uat_checks_blocked [of sha "str_strip (uc_uat_run_id c)" rt cfg environ req] blocks
    by (auto simp: manual_route_blocks_def)
  have "\<exists>origin d. submit_request gi auth sha cfg environ now c req rt = refuse_order origin req d rt"
    using assms(3) blocks d
    by (cases "rc_origin c") (simp_all add: submit_request_def submit_manual_def submit_uat_def uat_denial_def
        manual_route_blocks_def Let_def, blast+)
  then show "fst (submit_request gi auth sha cfg environ now c req rt) = Inr None"
    "only_logged rt (snd (submit_request gi auth sha cfg environ now c req rt))"
    by (auto simp: refuse_order_logged)
qed

lemma writer_locks_buys:
  assumes "active_automated_writer sha cfg (engine_account_id (lr_engine rt)) (lr_store rt) \<noteq> None"
    "rc_origin c = ORIGIN_MANUAL" "rq_is_buy req"
  shows "fst (submit_request gi auth sha cfg environ now c req rt) = Inr None"
    "only_logged rt (snd (submit_request gi auth sha cfg environ now c req rt))"
  using assms refuse_order_logged
  by (auto simp: submit_request_def submit_manual_def Let_def)

subsection \<open>Terminal runs\<close>

text \<open>
  \<open>update_uat_step\<close> sets the status of the run whatever it was, so the guard of the restart checkpoint
  never refuses: an aborted or passed run is open again.
\<close>

lemma mark_restart_reopens:
  assumes "map_of (us_runs st) k = Some r" "str_strip marker \<noteq> []"
  shows "\<exists>v. fst (mark_uat_restart_required now k marker st) = Inr v"
    "map_option ua_status (map_of (us_runs (snd (mark_uat_restart_required now k marker st))) k) = Some ''restart_required''"
  using assms
  by (simp_all add: mark_uat_restart_required_def op_then_def op_bind_def update_uat_step_def enter_restart_def
      step_run_status_def get_uat_run_def set_uat_row_def Let_def AList.update_conv')

lemma reopened_resumes:
  assumes "map_option ua_status (map_of (us_runs st) k) = Some ''restart_required''"
  shows "\<exists>v. fst (resume_uat_run now k st) = Inr v"
  using assms by (auto simp: resume_uat_run_def get_uat_run_def set_uat_row_def Let_def AList.update_conv')

end
