(* ===== verification/Acceptance_Harness.thy ===== *)
theory Acceptance_Harness
  imports Runtime_Safety Redaction
begin

section \<open>The acceptance harness\<close>

text \<open>
  The decisions of \<open>systems/live/broker_uat.py\<close> that need no broker: the checked request, the two-child
  execution plan, which candidates are eligible, the order ids a run has recorded, what may be
  resumed, and the redaction of evidence.  The process environment is an argument.
\<close>

subsection \<open>Numbers from text\<close>

text \<open>
  \<open>float(text)\<close> for an optional sign and decimal digits with an optional fraction; exponents, infinities
  and underscores are refused here although Python reads them.
\<close>

definition digits_value :: "string \<Rightarrow> num" where
  "digits_value s = fold (\<lambda>c n. n * 10 + of_int (int (of_char c) - 48)) s 0"

definition unsigned_float :: "string \<Rightarrow> num option" where
  "unsigned_float s = (let whole = takeWhile is_digit s; rest = dropWhile is_digit s in
     if rest = [] then (if whole = [] then None else Some (digits_value whole))
     else if hd rest = CHR ''.'' \<and> list_all is_digit (tl rest) \<and> (whole \<noteq> [] \<or> tl rest \<noteq> [])
     then Some (digits_value whole + digits_value (tl rest) / 10 ^ length (tl rest))
     else None)"

definition parse_float :: "string \<Rightarrow> exn + num" where
  "parse_float text =
     (let s = str_strip text;
          parsed = (case s of [] \<Rightarrow> None
            | c # r \<Rightarrow> if c = CHR ''-'' then map_option uminus (unsigned_float r)
                      else if c = CHR ''+'' then unsigned_float r else unsigned_float s)
      in case parsed of None \<Rightarrow> Inl (ValueError (''could not convert string to float: '' @ quoted text))
       | Some x \<Rightarrow> Inr x)"

definition env_text :: "string \<Rightarrow> string \<Rightarrow> (string \<times> string) list \<Rightarrow> string" where
  "env_text name fallback environ = (case map_of environ name of Some v \<Rightarrow> v | None \<Rightarrow> fallback)"

subsection \<open>The request\<close>

definition uat_confirmation :: string where
  "uat_confirmation = ''I_UNDERSTAND_REAL_ORDERS''"

definition require_enabled :: "(string \<times> string) list \<Rightarrow> string \<Rightarrow> exn + unit" where
  "require_enabled environ confirmation =
     (if \<not> env_flag ''ALPHAPILOT_BROKER_UAT_ENABLED'' environ
      then Inl (PyError ''PermissionError'' ''Broker UAT is disabled'')
      else if confirmation \<noteq> uat_confirmation
      then Inl (PyError ''PermissionError'' (''confirmation must equal '' @ quoted uat_confirmation))
      else Inr ())"

record uat_request =
  ur_broker :: string
  ur_symbol :: string
  ur_side :: string
  ur_volume :: num
  ur_price :: num
  ur_max_notional :: num

definition canonical_key :: "string \<Rightarrow> string" where
  "canonical_key s = (let (code, ex) = normalize_symbol s in symbol_key code ex)"

fun split_on :: "char \<Rightarrow> string \<Rightarrow> string list" where
  "split_on c [] = [[]]"
| "split_on c (x # xs) = (if x = c then [] # split_on c xs
     else case split_on c xs of w # ws \<Rightarrow> (x # w) # ws | [] \<Rightarrow> [[x]])"

definition whitelist :: "(string \<times> string) list \<Rightarrow> string list" where
  "whitelist environ = map (canonical_key \<circ> str_strip)
     (filter (\<lambda>item. str_strip item \<noteq> []) (split_on (CHR '','') (env_text ''ALPHAPILOT_BROKER_UAT_WHITELIST'' [] environ)))"

definition preflight_request ::
  "(string \<times> string) list \<Rightarrow> string \<Rightarrow> uat_request \<Rightarrow> exn + uat_request" where
  "preflight_request environ confirmation p = (case require_enabled environ confirmation of
     Inl e \<Rightarrow> Inl e
   | Inr _ \<Rightarrow>
       (let broker = str_lower (str_strip (ur_broker p)); instrument = canonical_key (ur_symbol p);
            side = str_lower (ur_side p); notional = ur_volume p * ur_price p in
        if broker \<notin> {''xtp'', ''emt'', ''tts''} then Inl (ValueError ''broker must be xtp, emt or tts'')
        else if str_strip (env_text ''ALPHAPILOT_BROKER_UAT_ENVIRONMENT'' [] environ) = []
        then Inl (ValueError ''ALPHAPILOT_BROKER_UAT_ENVIRONMENT is required'')
        else if instrument \<notin> set (whitelist environ)
        then Inl (PyError ''PermissionError'' (instrument @ '' is not in ALPHAPILOT_BROKER_UAT_WHITELIST''))
        else if side \<notin> {''buy'', ''sell''} then Inl (ValueError ''side must be buy or sell'')
        else case parse_float (or_text (env_text ''ALPHAPILOT_BROKER_UAT_MAX_NOTIONAL'' ''0'' environ) ''0'') of
          Inl e \<Rightarrow> Inl e
        | Inr configured \<Rightarrow>
            (let cap = min (ur_max_notional p) configured in
             if min (min (ur_volume p) (ur_price p)) cap \<le> 0
             then Inl (ValueError ''volume, price and both UAT notional caps must be positive'')
             else if notional > cap + 1 / 10^9
             then Inl (ValueError (''order notional '' @ fixed_text 2 notional @ '' exceeds UAT cap '' @ fixed_text 2 cap))
             else Inr \<lparr>ur_broker = broker, ur_symbol = instrument, ur_side = side, ur_volume = ur_volume p,
               ur_price = ur_price p, ur_max_notional = cap\<rparr>)))"

subsection \<open>The execution plan\<close>

text \<open>\<open>_align_price\<close> downwards and upwards, rounded to eight decimals.\<close>

definition round8 :: "num \<Rightarrow> num" where
  "round8 x = of_int (py_round (x * 10^8)) / 10^8"

definition align_down :: "num \<Rightarrow> num \<Rightarrow> num" where
  "align_down v step = round8 (of_int \<lfloor>v / step + 1 / 10^12\<rfloor> * step)"

definition align_up :: "num \<Rightarrow> num \<Rightarrow> num" where
  "align_up v step = round8 (of_int \<lceil>v / step - 1 / 10^12\<rceil> * step)"

record uat_plan =
  up_symbol :: string
  up_side :: string
  up_fill_volume :: int
  up_fill_price :: num
  up_remainder_volume :: int
  up_remainder_price :: num
  up_requested_notional :: num
  up_lot_size :: int
  up_price_tick :: num

definition num_or :: "num \<Rightarrow> num \<Rightarrow> num" where
  "num_or x d = (if x \<noteq> 0 then x else d)"

definition uat_prices :: "uat_request \<Rightarrow> num \<Rightarrow> tick \<Rightarrow> exn + num \<times> num" where
  "uat_prices r price_tick t =
     (let bid = tk_bid_price_1 t; ask = tk_ask_price_1 t; ref = num_or (tk_last_price t) (ur_price r) in
      if ur_side r = ''buy''
      then let marketable = num_or (ur_price r) ask in
        if ask \<le> 0 \<or> marketable + 1 / 10^12 < ask
        then Inl (ValueError ''buy UAT fill price must cross the current best ask'')
        else Inr (marketable, align_down ((if bid > price_tick then bid else min marketable ref) - price_tick) price_tick)
      else let marketable = num_or (ur_price r) bid in
        if bid \<le> 0 \<or> marketable - 1 / 10^12 > bid
        then Inl (ValueError ''sell UAT fill price must cross the current best bid'')
        else Inr (marketable, align_up ((if ask > 0 then ask else max marketable ref) + price_tick) price_tick))"

definition uat_lot :: "contract \<Rightarrow> int" where
  "uat_lot ct = max (if ct_lot_size ct = 0 then 100 else ct_lot_size ct) 1"

definition truncate_num :: "num \<Rightarrow> int" where
  "truncate_num x = (if x \<ge> 0 then \<lfloor>x\<rfloor> else \<lceil>x\<rceil>)"

definition build_uat_plan :: "uat_request \<Rightarrow> contract \<Rightarrow> tick \<Rightarrow> exn + uat_plan" where
  "build_uat_plan r ct t =
     (let lot = uat_lot ct; total_volume = truncate_num (ur_volume r / of_int lot) * lot;
          price_tick = max (num_or (ct_price_tick ct) (1 / 100)) (1 / 10^6) in
      if total_volume < lot * 2
      then Inl (ValueError (''Broker UAT v2 requires at least two trading lots ('' @ int_text (lot * 2) @ '' shares)''))
      else case uat_prices r price_tick t of
        Inl e \<Rightarrow> Inl e
      | Inr (marketable, resting) \<Rightarrow>
          (let remainder = total_volume - lot; notional = of_int lot * marketable + of_int remainder * resting in
           if min marketable resting \<le> 0 then Inl (ValueError ''Broker UAT execution prices must be positive'')
           else if notional > ur_max_notional r + 1 / 10^9
           then Inl (ValueError (''two-child UAT notional '' @ fixed_text 2 notional @ '' exceeds cap ''
             @ fixed_text 2 (ur_max_notional r)))
           else Inr \<lparr>up_symbol = ur_symbol r, up_side = ur_side r, up_fill_volume = lot, up_fill_price = marketable,
             up_remainder_volume = remainder, up_remainder_price = resting, up_requested_notional = notional,
             up_lot_size = lot, up_price_tick = price_tick\<rparr>))"

subsection \<open>Candidates\<close>

definition eligibility_issues :: "num \<Rightarrow> contract \<Rightarrow> tick \<Rightarrow> bool \<Rightarrow> string list" where
  "eligibility_issues cap ct t suspended =
     (let lot = max (ct_lot_size ct) 1; price = num_or (tk_ask_price_1 t) (tk_last_price t); bid = tk_bid_price_1 t;
          up = tk_limit_up t; down = tk_limit_down t;
          max_volume = (if price > 0 then truncate_num (cap / price / of_int lot) * lot else 0) in
      (if price \<le> 0 \<or> bid \<le> 0 then [''two_sided_quote_unavailable''] else []) @
      (if max_volume < lot * 2 then [''notional_cap_below_two_lots''] else []) @
      (if suspended then [''suspended''] else []) @
      (if up > 0 \<and> price > up + 1 / 10^9 then [''ask_above_limit_up''] else []) @
      (if down > 0 \<and> bid < down - 1 / 10^9 then [''bid_below_limit_down''] else []) @
      (if up > 0 \<and> price \<ge> up - 1 / 10^9 \<and> bid \<ge> up - 1 / 10^9 then [''locked_limit_up''] else []) @
      (if down > 0 \<and> bid \<le> down + 1 / 10^9 \<and> price \<le> down + 1 / 10^9 then [''locked_limit_down''] else []))"

definition default_candidates :: "(string \<times> contract) list \<Rightarrow> string list" where
  "default_candidates contracts = take 30 (map snd (sort (map (\<lambda>(k, ct). (if ct_product ct = FUND then 0 else 1 :: int, k))
     (filter (\<lambda>(_, ct). ct_product ct \<in> {FUND, EQUITY} \<and> ct_exchange ct \<in> {SSE, SZSE}) contracts))))"

subsection \<open>What a run has recorded\<close>

definition step_evidence :: "uat_view \<Rightarrow> string \<Rightarrow> json" where
  "step_evidence v step = (case find (\<lambda>(k, _). k = step) (uv_steps v) of None \<Rightarrow> JNull | Some (_, s) \<Rightarrow> us_evidence s)"

definition order_id_for_step :: "uat_view \<Rightarrow> string \<Rightarrow> string" where
  "order_id_for_step v step = (case step_evidence v step of
     JObj kvs \<Rightarrow> (case map_of kvs ''order_id'' of Some (JStr s) \<Rightarrow> s | _ \<Rightarrow> []) | _ \<Rightarrow> [])"

definition uat_order_ids :: "uat_view \<Rightarrow> string list" where
  "uat_order_ids v = rev (remdups (rev (filter (\<lambda>s. s \<noteq> []) (map (order_id_for_step v)
     [''marketable_order_acknowledged'', ''remainder_order_acknowledged'', ''order_acknowledged'']))))"

definition passed_steps :: "uat_view \<Rightarrow> string list" where
  "passed_steps v = map fst (filter (\<lambda>(_, s). us_status s = ''passed'') (uv_steps v))"

definition unknown_active_orders :: "oms \<Rightarrow> string list \<Rightarrow> string list" where
  "unknown_active_orders s known = filter (\<lambda>i. i \<notin> set known) (map od_id (oms_get_active_orders s))"

definition active_uat_orders :: "oms \<Rightarrow> string \<Rightarrow> string list" where
  "active_uat_orders s run_id = map od_id (filter (\<lambda>ord. starts_with (uat_reference run_id []) (od_reference ord))
     (oms_get_active_orders s))"

text \<open>The traded notional by the trades of the broker or, without any, by the traded volume of its orders.\<close>

definition actual_filled_notional :: "oms \<Rightarrow> (string \<times> num) list \<Rightarrow> num" where
  "actual_filled_notional s prices =
     (let by_trade = sum_list (map (\<lambda>t. td_volume t * td_price t)
            (filter (\<lambda>t. td_order_id t \<in> fst ` set prices) (oms_get_trades s)))
      in if by_trade > 0 then by_trade
         else sum_list (map (\<lambda>(i, p). (case oms_get_order s i of None \<Rightarrow> 0 | Some ord \<Rightarrow> od_traded ord) * p) prices))"

subsection \<open>Resuming\<close>

record plugin_metadata =
  pm_plugin_version :: string
  pm_plugin_hash :: string
  pm_sdk_version :: string
  pm_sdk_hash :: string
  pm_runtime_code_hash :: string
  pm_code_commit :: string

definition metadata_changed :: "plugin_metadata \<Rightarrow> uat_row \<Rightarrow> bool" where
  "metadata_changed m r \<longleftrightarrow> pm_plugin_version m \<noteq> ua_plugin_version r \<or> pm_plugin_hash m \<noteq> ua_plugin_hash r \<or>
     pm_sdk_version m \<noteq> ua_sdk_version r \<or> pm_sdk_hash m \<noteq> ua_sdk_hash r \<or>
     pm_runtime_code_hash m \<noteq> ua_runtime_code_hash r"

definition process_marker :: "(string \<Rightarrow> string) \<Rightarrow> int \<Rightarrow> uat_row \<Rightarrow> string" where
  "process_marker sha pid r = sha (ua_environment r @ '':'' @ int_text pid)"

definition origin_marker :: "uat_view \<Rightarrow> string" where
  "origin_marker v = (case step_evidence v ''process_restart_required'' of
     JObj kvs \<Rightarrow> (case map_of kvs ''origin_process_marker'' of Some (JStr s) \<Rightarrow> s | _ \<Rightarrow> []) | _ \<Rightarrow> [])"

text \<open>The checks of \<open>resume\<close> on the stored run, before it is set running again.\<close>

definition check_resume :: "(string \<Rightarrow> string) \<Rightarrow> int \<Rightarrow> plugin_metadata \<Rightarrow> uat_view \<Rightarrow> exn + unit" where
  "check_resume sha pid m v =
     (let r = uv_run v in
      if metadata_changed m r
      then Inl (ValueError ''installed broker plugin or SDK changed since the UAT run started'')
      else if ua_status r = ''restart_required'' \<and>
          (origin_marker v = [] \<or> process_marker sha pid r = origin_marker v)
      then Inl (RuntimeError ''resume the Broker UAT from a newly started local CLI process'')
      else Inr ())"

definition harness_resume ::
  "(string \<Rightarrow> string) \<Rightarrow> int \<Rightarrow> plugin_metadata \<Rightarrow> string \<Rightarrow> string \<Rightarrow> (uat_store, uat_view) op" where
  "harness_resume sha pid m now run_id st = (case get_uat_run run_id st of
     Inl e \<Rightarrow> (Inl e, st)
   | Inr v \<Rightarrow> (case check_resume sha pid m v of Inl e \<Rightarrow> (Inl e, st) | Inr _ \<Rightarrow> resume_uat_run now run_id st))"

subsection \<open>Evidence without credentials\<close>

definition evidence_markers :: "string list" where
  "evidence_markers = [''password'', ''secret'', ''token'', ''software_key'', ''credentials'']"

definition ends_with :: "string \<Rightarrow> string \<Rightarrow> bool" where
  "ends_with p s \<longleftrightarrow> starts_with (rev p) (rev s)"

text \<open>The fields are stored one after the other in a new dictionary.\<close>

fun safe_evidence :: "(string \<Rightarrow> string) \<Rightarrow> (string \<times> string) list \<Rightarrow> json \<Rightarrow> json"
  and safe_fields :: "(string \<Rightarrow> string) \<Rightarrow> (string \<times> string) list \<Rightarrow> (string \<times> json) list \<Rightarrow> (string \<times> json) list \<Rightarrow>
    (string \<times> json) list"
  and safe_items :: "(string \<Rightarrow> string) \<Rightarrow> (string \<times> string) list \<Rightarrow> json list \<Rightarrow> json list" where
  "safe_evidence sha env (JObj kvs) = JObj (safe_fields sha env kvs [])"
| "safe_evidence sha env (JArr xs) = JArr (safe_items sha env xs)"
| "safe_evidence sha env (JStr s) = JStr (redact_secrets env s)"
| "safe_evidence sha env JNull = JNull"
| "safe_evidence sha env (JBool b) = JBool b"
| "safe_evidence sha env (JNum x) = JNum x"
| "safe_evidence sha env (JTime t) = JTime t"
| "safe_fields sha env [] acc = acc"
| "safe_fields sha env ((k, j) # kvs) acc = safe_fields sha env kvs
     (if \<exists>m\<in>set evidence_markers. str_contains m (str_lower k) then acc
      else case j of
        JStr s \<Rightarrow> if str_contains ''account'' (str_lower k) \<and> \<not> ends_with ''hash'' (str_lower k)
                 then dict_set (k @ ''_hash'') (JStr (sha s)) acc else dict_set k (JStr (redact_secrets env s)) acc
      | _ \<Rightarrow> dict_set k (safe_evidence sha env j) acc)"
| "safe_items sha env [] = []"
| "safe_items sha env (x # xs) = safe_evidence sha env x # safe_items sha env xs"

text \<open>No key with a sensitive marker survives, and no text under an account key does.\<close>

definition clean_field :: "string \<times> json \<Rightarrow> bool" where
  "clean_field p \<longleftrightarrow> (\<exists>k. \<not> (\<exists>m\<in>set evidence_markers. str_contains m (str_lower k)) \<and>
     (fst p = k @ ''_hash'' \<or> fst p = k \<and> ((\<exists>s. snd p = JStr s) \<longrightarrow>
        str_contains ''account'' (str_lower k) \<longrightarrow> ends_with ''hash'' (str_lower k))))"

lemma list_all_dict_set: "list_all P d \<Longrightarrow> P (k, v) \<Longrightarrow> list_all P (dict_set k v d)"
  by (induction d) auto

lemma safe_not_text: "(\<exists>s. safe_evidence sha env j = JStr s) \<longleftrightarrow> (\<exists>s. j = JStr s)"
  by (cases j) auto

lemma safe_fields_clean: "list_all clean_field acc \<Longrightarrow> list_all clean_field (safe_fields sha env kvs acc)"
proof (induction kvs arbitrary: acc)
  case (Cons p kvs)
  obtain k j where p: "p = (k, j)" by (cases p)
  show ?case
  proof (cases "\<exists>m\<in>set evidence_markers. str_contains m (str_lower k)")
    case True
    with Cons p show ?thesis by simp
  next
    case False
    then have hashed: "clean_field (k @ ''_hash'', v)" for v unfolding clean_field_def by auto
    have plain: "clean_field (k, v)" if "(\<exists>s. v = JStr s) \<Longrightarrow>
        str_contains ''account'' (str_lower k) \<Longrightarrow> ends_with ''hash'' (str_lower k)" for v
      using False that unfolding clean_field_def by auto
    show ?thesis
    proof (cases "\<exists>s. j = JStr s")
      case True
      then obtain s where j: "j = JStr s" by blast
      show ?thesis
        unfolding p j safe_fields.simps(2) if_not_P [OF False] json.case
        by (rule Cons.IH) (auto intro!: list_all_dict_set [OF Cons.prems] hashed plain)
    next
      case False2: False
      have "clean_field (k, safe_evidence sha env j)"
        by (rule plain) (use False2 safe_not_text in blast)
      then have "list_all clean_field (dict_set k (safe_evidence sha env j) acc)"
        by (rule list_all_dict_set [OF Cons.prems])
      from Cons.IH [OF this] False False2 show ?thesis unfolding p by (cases j) simp_all
    qed
  qed
qed simp

subsection \<open>Facts about the plan\<close>

lemma py_round_near: "\<bar>of_int (py_round x) - x\<bar> \<le> 1 / 2"
proof -
  have "of_int \<lfloor>x\<rfloor> \<le> x" "x < of_int \<lfloor>x\<rfloor> + 1" by linarith+
  then show ?thesis by (auto simp: py_round_def Let_def abs_le_iff)
qed

lemma round8_near: "\<bar>round8 x - x\<bar> \<le> 1 / (2 * 10^8)"
proof -
  have "\<bar>of_int (py_round (x * 10^8)) - x * 10^8\<bar> \<le> 1 / 2" by (rule py_round_near)
  then show ?thesis by (simp add: round8_def abs_le_iff field_simps)
qed

lemma align_down_below:
  assumes "step \<ge> 1 / 10^6" shows "align_down (v - step) step < v"
proof -
  have pos: "step > 0" using assms by simp
  let ?n = "of_int \<lfloor>(v - step) / step + 1 / 10^12\<rfloor> :: num"
  have "?n \<le> (v - step) / step + 1 / 10^12" by linarith
  then have "?n * step \<le> ((v - step) / step + 1 / 10^12) * step" using pos by (simp add: mult_right_mono)
  also have "\<dots> = v - step + step / 10^12" using pos by (simp add: field_simps)
  finally have "?n * step \<le> v - step + step / 10^12" .
  moreover have "round8 (?n * step) \<le> ?n * step + 1 / (2 * 10^8)" using round8_near [of "?n * step"] by linarith
  ultimately show ?thesis using assms unfolding align_down_def by simp
qed

lemma align_up_above:
  assumes "step \<ge> 1 / 10^6" shows "align_up (v + step) step > v"
proof -
  have pos: "step > 0" using assms by simp
  let ?n = "of_int \<lceil>(v + step) / step - 1 / 10^12\<rceil> :: num"
  have "?n \<ge> (v + step) / step - 1 / 10^12" by linarith
  then have "?n * step \<ge> ((v + step) / step - 1 / 10^12) * step" using pos by (simp add: mult_right_mono)
  also have "((v + step) / step - 1 / 10^12) * step = v + step - step / 10^12" using pos by (simp add: field_simps)
  finally have "?n * step \<ge> v + step - step / 10^12" .
  moreover have "round8 (?n * step) \<ge> ?n * step - 1 / (2 * 10^8)" using round8_near [of "?n * step"] by linarith
  ultimately show ?thesis using assms unfolding align_up_def by simp
qed

lemma build_uat_plan_cases:
  assumes "build_uat_plan r ct t = Inr p"
  obtains price_tick where "price_tick \<ge> 1 / 10^6" "uat_prices r price_tick t = Inr (up_fill_price p, up_remainder_price p)"
    "up_fill_volume p = uat_lot ct" "up_remainder_volume p = truncate_num (ur_volume r / of_int (uat_lot ct)) * uat_lot ct - uat_lot ct"
    "uat_lot ct \<le> up_remainder_volume p" "up_fill_price p > 0" "up_remainder_price p > 0"
    "of_int (up_fill_volume p) * up_fill_price p + of_int (up_remainder_volume p) * up_remainder_price p \<le> ur_max_notional r + 1 / 10^9"
    "up_side p = ur_side r"
proof -
  let ?pt = "max (num_or (ct_price_tick ct) (1 / 100)) (1 / 10^6)"
  show thesis
    by (rule that [of ?pt])
      (use assms in \<open>auto simp: build_uat_plan_def Let_def not_le not_less min_def split: if_splits sum.splits prod.splits\<close>)
qed

text \<open>The first child crosses the spread, the second one rests outside it.\<close>

lemma uat_prices_cross:
  assumes "uat_prices r price_tick t = Inr (fill, rest)" "price_tick \<ge> 1 / 10^6"
  shows "ur_side r = ''buy'' \<Longrightarrow> fill + 1 / 10^12 \<ge> tk_ask_price_1 t \<and>
      (tk_bid_price_1 t > price_tick \<longrightarrow> rest < tk_bid_price_1 t) \<and> rest < max fill (tk_bid_price_1 t)"
    "ur_side r \<noteq> ''buy'' \<Longrightarrow> fill - 1 / 10^12 \<le> tk_bid_price_1 t \<and>
      (tk_ask_price_1 t > 0 \<longrightarrow> rest > tk_ask_price_1 t) \<and> rest > min fill (tk_ask_price_1 t)"
proof -
  note down = align_down_below [OF assms(2)] and up = align_up_above [OF assms(2)]
  show "ur_side r = ''buy'' \<Longrightarrow> fill + 1 / 10^12 \<ge> tk_ask_price_1 t \<and>
      (tk_bid_price_1 t > price_tick \<longrightarrow> rest < tk_bid_price_1 t) \<and> rest < max fill (tk_bid_price_1 t)"
    using assms(1) down [of "tk_bid_price_1 t"] down [of "min fill (num_or (tk_last_price t) (ur_price r))"]
    by (auto simp: uat_prices_def Let_def not_le not_less split: if_splits)
  show "ur_side r \<noteq> ''buy'' \<Longrightarrow> fill - 1 / 10^12 \<le> tk_bid_price_1 t \<and>
      (tk_ask_price_1 t > 0 \<longrightarrow> rest > tk_ask_price_1 t) \<and> rest > min fill (tk_ask_price_1 t)"
    using assms(1) up [of "tk_ask_price_1 t"] up [of "max fill (num_or (tk_last_price t) (ur_price r))"]
    by (auto simp: uat_prices_def Let_def not_le not_less split: if_splits)
qed

text \<open>A fresh run can claim both children of its plan.\<close>

lemma str_strip_kept: "s \<noteq> [] \<Longrightarrow> \<not> is_space (hd s) \<Longrightarrow> \<not> is_space (last s) \<Longrightarrow> str_strip s = s"
proof -
  assume s: "s \<noteq> []" "\<not> is_space (hd s)" "\<not> is_space (last s)"
  then have "dropWhile is_space s = s" by (cases s) auto
  moreover have "dropWhile is_space (rev s) = rev s" using s(1,3) by (cases s rule: rev_cases) auto
  ultimately show ?thesis by (simp add: str_strip_def)
qed

lemma uat_reference_strip [simp]:
  "str_strip (uat_reference k ''fill'') = uat_reference k ''fill''"
  "str_strip (uat_reference k ''remainder'') = uat_reference k ''remainder''"
  by (auto intro!: str_strip_kept simp: uat_reference_def is_space_def)

lemma planned_claims:
  assumes "build_uat_plan r ct t = Inr p" "str_strip k = k" "k \<noteq> []"
    "map_of (us_runs st) k = Some row" "ua_status row \<in> {''created'', ''running''}" "ua_max_notional row = ur_max_notional r"
    "\<forall>key\<in>set (map fst (us_claims st)). fst key \<noteq> k"
  shows "\<exists>st1 st2. claim_uat_route now k (uat_reference k ''fill'') (of_int (up_fill_volume p) * up_fill_price p) st = (Inr True, st1) \<and>
    claim_uat_route now k (uat_reference k ''remainder'') (of_int (up_remainder_volume p) * up_remainder_price p) st1 = (Inr True, st2)"
proof -
  let ?f = "of_int (up_fill_volume p) * up_fill_price p :: num"
  let ?m = "of_int (up_remainder_volume p) * up_remainder_price p :: num"
  have lot: "up_fill_volume p = uat_lot ct" "uat_lot ct \<le> up_remainder_volume p" "up_fill_price p > 0"
      "up_remainder_price p > 0" "?f + ?m \<le> ur_max_notional r + 1 / 10^9"
    using build_uat_plan_cases [OF assms(1)] by metis+
  moreover have "uat_lot ct \<ge> 1" by (simp add: uat_lot_def)
  ultimately have pos: "?f \<ge> 0" "?m \<ge> 0" by simp_all
  have none: "claimed_notional k st = 0" "map_of (us_claims st) (k, ref) = None" for ref
  proof -
    have "filter (\<lambda>(key, _). fst key = k) (us_claims st) = []" using assms(7) by (auto simp: filter_empty_conv)
    then show "claimed_notional k st = 0" by (simp add: claimed_notional_def)
    show "map_of (us_claims st) (k, ref) = None" using assms(7) by (force simp: map_of_eq_None_iff)
  qed
  let ?st1 = "snd (claim_uat_route now k (uat_reference k ''fill'') ?f st)"
  have ne: "uat_reference k leg \<noteq> []" for leg by (simp add: uat_reference_def)
  have first: "claim_uat_route now k (uat_reference k ''fill'') ?f st = (Inr True, ?st1)"
      "us_claims ?st1 = us_claims st @ [((k, uat_reference k ''fill''), \<lparr>uc_claimed_at = now, uc_notional = ?f\<rparr>)]"
      "map_of (us_runs ?st1) k = Some (row\<lparr>ua_requested_notional := ?f, ua_updated_at := now\<rparr>)"
    using assms(2-6) none pos lot(5) ne [of "''fill''"]
    by (auto simp: claim_uat_route_def Let_def dict_set_appended not_less max_def)
  have "claimed_notional k ?st1 = ?f"
    using none(1) first(2) by (simp add: claimed_notional_def)
  moreover have "map_of (us_claims ?st1) (k, uat_reference k ''remainder'') = None"
    using none(2) [of "uat_reference k ''remainder''"] first(2) by (simp add: uat_reference_def map_add_def)
  ultimately have "\<exists>st2. claim_uat_route now k (uat_reference k ''remainder'') ?m ?st1 = (Inr True, st2)"
    using assms(2,3,5,6) first(3) pos lot(5) ne [of "''remainder''"]
    by (auto simp: claim_uat_route_def Let_def not_less max_def)
  with first(1) show ?thesis by blast
qed

end
