(* ===== verification/Acceptance_Examples.thy ===== *)
theory Acceptance_Examples
  imports Acceptance_Harness Deployment_Examples Trading_Examples
begin

section \<open>A worked acceptance run\<close>

text \<open>
  A run bound to one account, its plan for 300 shares, its first order on a paper engine, and the same
  run taken through every required step to its evidence.
\<close>

definition demo_uat_row :: uat_row where
  "demo_uat_row = \<lparr>ua_broker = ''XTP'', ua_account_hash = [], ua_environment = ''sim'', ua_plugin_version = ''1'',
     ua_plugin_hash = ''p'', ua_sdk_version = ''2'', ua_status = [], ua_symbol = ''600000.SSE'', ua_max_notional = 5000,
     ua_current_step = [], ua_error = JObj [], ua_created_at = [], ua_updated_at = [], ua_ended_at = [],
     ua_scenario_version = 2, ua_code_commit = ''c'', ua_runtime_code_hash = ''h'', ua_sdk_hash = ''s'',
     ua_requested_notional = 0, ua_filled_notional = 0\<rparr>"

definition demo_uat_created :: uat_store where
  "demo_uat_created = snd (create_uat_run ''t'' ''u'' demo_uat_row empty_uat)"

definition demo_uat_bound :: uat_store where
  "demo_uat_bound = snd (bind_uat_account ''t'' ''u'' ''ab'' demo_uat_created)"

definition demo_uat_request :: uat_request where
  "demo_uat_request = \<lparr>ur_broker = ''xtp'', ur_symbol = ''600000.SSE'', ur_side = ''buy'', ur_volume = 350,
     ur_price = 10, ur_max_notional = 5000\<rparr>"

definition demo_contract :: contract where
  "demo_contract = \<lparr>ct_code = ''600000'', ct_exchange = SSE, ct_product = EQUITY, ct_price_tick = 1/100,
     ct_lot_size = 100, ct_gateway = ''paper'', ct_settlement_days = 1\<rparr>"

definition demo_uat_plan :: uat_plan where
  "demo_uat_plan = \<lparr>up_symbol = ''600000.SSE'', up_side = ''buy'', up_fill_volume = 100, up_fill_price = 10,
     up_remainder_volume = 200, up_remainder_price = 999/100, up_requested_notional = 2998, up_lot_size = 100,
     up_price_tick = 1/100\<rparr>"

definition demo_uat_order :: order_request where
  "demo_uat_order = buy_request ''600000'' SSE 100 10 LIMIT ''broker-uat/u/fill''"

definition demo_uat_context :: uat_context where
  "demo_uat_context = \<lparr>rc_origin = ORIGIN_BROKER_UAT, rc_instance_id = [], rc_config_hash = [],
     rc_account_id = ''acct'', rc_broker = ''xtp'', rc_run_mode = [], rc_runtime_id = [],
     rc_execution_environment = [], rc_trade_provider = [], rc_quote_provider = [],
     rc_quote_data_kind = [], rc_binding_hash = [], uc_uat_run_id = ''u''\<rparr>"

definition demo_uat_config :: runtime_config where
  "demo_uat_config = \<lparr>rg_trade_broker = ''xtp'', rg_broker = [], rg_execution_environment = ''paper''\<rparr>"

definition demo_uat_environ :: "(string \<times> string) list" where
  "demo_uat_environ = [(''ALPHAPILOT_BROKER_UAT_ENABLED'', ''true'')]"

definition demo_uat_runtime :: "paper live_runtime" where
  "demo_uat_runtime = \<lparr>lr_engine = demo_engine, lr_store = empty_store, lr_uat = demo_uat_bound\<rparr>"

definition demo_uat_first :: uat_store where
  "demo_uat_first = snd (bind_uat_account ''t'' ''u'' ''ab'' (snd (create_uat_run ''t'' ''u'' (demo_uat_row\<lparr>ua_scenario_version := 1\<rparr>) empty_uat)))"

definition demo_uat_passed :: uat_store where
  "demo_uat_passed = fold (\<lambda>step st. snd (update_uat_step ''t'' ''u'' step ''passed'' JNull JNull st)) (required_steps 1) demo_uat_first"

definition demo_uat_done :: uat_store where
  "demo_uat_done = snd (complete_uat_run demo_digest ''t'' ''e'' ''u'' [''b'', ''a'', ''b''] ''u'' demo_uat_passed)"

definition demo_query :: evidence_query where
  "demo_query = \<lparr>eq_broker = ''XTP'', eq_account_hash = ''ab'', eq_environment = [], eq_plugin_version = [],
     eq_plugin_hash = ''p'', eq_sdk_version = [], eq_sdk_hash = [], eq_runtime_code_hash = [],
     eq_scenario_version = 1, eq_passed_after = []\<rparr>"

definition demo_evidence :: uat_evidence where
  "demo_evidence = evidence_of_run demo_digest ''t'' ''u''
     (demo_uat_row\<lparr>ua_broker := ''xtp'', ua_account_hash := ''ab'', ua_scenario_version := 1\<rparr>) [''a'', ''b''] ''u''"

lemma uat_begin_run: "uat_run digest st (snd (bind_uat_account now k h (snd (create_uat_run now k r st))))"
proof -
  have "uat_trans digest st (snd (create_uat_run now k r st))" by (rule uat_create)
  moreover have "uat_trans digest (snd (create_uat_run now k r st))
      (snd (bind_uat_account now k h (snd (create_uat_run now k r st))))" by (rule uat_bind)
  ultimately show ?thesis by simp
qed

lemma demo_uat_bound_run: "uat_run digest empty_uat demo_uat_bound" "uat_run digest empty_uat demo_uat_first"
  unfolding demo_uat_bound_def demo_uat_created_def demo_uat_first_def by (rule uat_begin_run)+

lemma uat_steps_run: "uat_run digest st (fold (\<lambda>step st. snd (update_uat_step now k step status ev err st)) steps st)"
proof (induction steps arbitrary: st)
  case (Cons s steps)
  show ?case unfolding fold_Cons o_apply
    by (rule converse_rtranclp_into_rtranclp [OF uat_step Cons.IH])
qed simp

lemma demo_uat_done_run: "uat_run demo_digest empty_uat demo_uat_done"
  unfolding demo_uat_done_def demo_uat_passed_def
  by (rule rtranclp.rtrancl_into_rtrancl [OF rtranclp_trans [OF demo_uat_bound_run(2) uat_steps_run] uat_complete])

lemma demo_uat_planned: "build_uat_plan demo_uat_request demo_contract (demo_tick 0 0) = Inr demo_uat_plan"
  by code_simp

lemma demo_uat_open:
  "map_option (\<lambda>r. (ua_status r, ua_max_notional r, ua_scenario_version r)) (map_of (us_runs demo_uat_bound) ''u'') =
     Some (''created'', 5000, 2) \<and> us_claims demo_uat_bound = []"
  by code_simp

lemma demo_uat_finished:
  "(\<lambda>st. (map_option ua_status (map_of (us_runs st) ''u''), valid_uat_evidence ''t'' demo_query st)) demo_uat_done =
     (Some ''passed'', Some demo_evidence)"
  by code_simp

lemma demo_uat_handed: "fst (uat_denial demo_sha demo_uat_config demo_uat_environ ''t'' ''u'' demo_uat_order demo_uat_runtime) = None"
  by code_simp

lemma demo_uat_rows:
  "map_option ua_max_notional (map_of (us_runs demo_uat_first) ''u'') = Some 5000 \<and>
   map_option ua_status (map_of (us_runs (snd (abort_uat_run ''t'' ''u'' ''stop'' demo_uat_bound))) ''u'') = Some ''aborted'' \<and>
   map_option bl_active (map_of (st_blocks (snd (set_route_block demo_sha ''t'' ''global'' ''*'' True ''stop'' empty_store)))
     (''global'', ''*'')) = Some True"
  by code_simp

lemma demo_uat_first_row: "\<exists>r. map_of (us_runs demo_uat_first) ''u'' = Some r \<and> ua_max_notional r = 5000"
  and demo_uat_aborted: "\<exists>r. map_of (us_runs (snd (abort_uat_run ''t'' ''u'' ''stop'' demo_uat_bound))) ''u'' = Some r \<and> ua_status r = ''aborted''"
  and demo_global_block: "\<exists>b. map_of (st_blocks (snd (set_route_block demo_sha ''t'' ''global'' ''*'' True ''stop'' empty_store)))
     (''global'', ''*'') = Some b \<and> bl_active b"
  using demo_uat_rows by auto

end
