(* ===== verification/Decision_Contracts.thy ===== *)
theory Decision_Contracts
  imports Contracts Engine
begin

section \<open>Decisions as documents\<close>

text \<open>
  The decision contract of \<open>systems/trading/contracts.py\<close> with the JSON writers and readers of signals,
  weights, provenance, decisions and completed bars.  Not modelled: \<open>str\<close> of a list or an object, which
  reads as the empty text here, and \<open>float\<close> and \<open>int\<close> of a text, which the writers never produce and
  which is an error here.
\<close>

subsection \<open>Reading fields\<close>

text \<open>\<open>str(data.get(key) or "")\<close>, \<open>int\<close> and \<open>float\<close> of a field, and the items of an optional object.\<close>

fun text_of :: "json \<Rightarrow> string" where
  "text_of (JStr s) = s"
| "text_of (JNum x) = (if x = 0 then [] else num_text x)"
| "text_of (JBool b) = (if b then ''True'' else [])"
| "text_of _ = []"

fun number_of :: "json \<Rightarrow> exn + num" where
  "number_of (JNum x) = Inr x"
| "number_of (JBool b) = Inr (if b then 1 else 0)"
| "number_of _ = Inl (PyError ''TypeError'' ''a number is required'')"

definition int_of :: "json \<Rightarrow> exn + int" where
  "int_of j = map_sum id (\<lambda>x. if x \<ge> 0 then \<lfloor>x\<rfloor> else \<lceil>x\<rceil>) (number_of j)"

definition jfind :: "string \<Rightarrow> json \<Rightarrow> json option" where
  "jfind key j = (case j of JObj kvs \<Rightarrow> map_of kvs key | _ \<Rightarrow> None)"

definition or_json :: "json \<Rightarrow> json \<Rightarrow> json" where
  "or_json j d = (if truthy j then j else d)"

fun read_items :: "(json \<Rightarrow> exn + 'a) \<Rightarrow> (string \<times> json) list \<Rightarrow> exn + (string \<times> 'a) list" where
  "read_items f [] = Inr []"
| "read_items f ((k, j) # kvs) = (case f j of
     Inl e \<Rightarrow> Inl e
   | Inr v \<Rightarrow> (case read_items f kvs of Inl e \<Rightarrow> Inl e | Inr rows \<Rightarrow> Inr ((k, v) # rows)))"

definition items_of :: "(json \<Rightarrow> exn + 'a) \<Rightarrow> string \<Rightarrow> json \<Rightarrow> exn + (string \<times> 'a) list" where
  "items_of f key data = (case or_json (jget key data) (JObj []) of
     JObj kvs \<Rightarrow> read_items f kvs
   | _ \<Rightarrow> Inl (PyError ''AttributeError'' ''items''))"

definition on_value :: "(exn + 'a) \<Rightarrow> ('a \<Rightarrow> exn + 'b) \<Rightarrow> exn + 'b" where
  "on_value r f = (case r of Inl e \<Rightarrow> Inl e | Inr v \<Rightarrow> f v)"

lemma on_value_Inr [simp]: "on_value (Inr v) f = f v"
  by (simp add: on_value_def)

lemma on_value_eq: "on_value r f = Inr y \<longleftrightarrow> (\<exists>v. r = Inr v \<and> f v = Inr y)"
  by (cases r) (simp_all add: on_value_def)

definition num_fields :: "(string \<times> num) list \<Rightarrow> json" where
  "num_fields d = JObj (map (\<lambda>(k, v). (k, JNum v)) d)"

definition int_fields :: "(string \<times> int) list \<Rightarrow> json" where
  "int_fields d = JObj (map (\<lambda>(k, v). (k, JNum (of_int v))) d)"

definition text_fields :: "(string \<times> string) list \<Rightarrow> json" where
  "text_fields d = JObj (map (\<lambda>(k, v). (k, JStr v)) d)"

lemma read_items_map: "(\<And>v. f (g v) = Inr v) \<Longrightarrow> read_items f (map (\<lambda>(k, v). (k, g v)) d) = Inr d"
  by (induction d) auto

lemma int_of_num [simp]: "int_of (JNum (of_int i)) = Inr i"
  by (simp add: int_of_def)

lemma or_json_object [simp]: "or_json (JObj kvs) (JObj []) = JObj kvs"
  by (simp add: or_json_def)

lemma items_of_map: "jget key data = JObj (map (\<lambda>(k, v). (k, g v)) d) \<Longrightarrow> (\<And>v. f (g v) = Inr v) \<Longrightarrow> items_of f key data = Inr d"
  by (simp only: items_of_def or_json_object json.case read_items_map)

lemma fields_items:
  "jget key data = num_fields d \<Longrightarrow> items_of number_of key data = Inr d"
  "jget key data = int_fields ds \<Longrightarrow> items_of int_of key data = Inr ds"
  "jget key data = text_fields ts \<Longrightarrow> items_of (\<lambda>j. Inr (text_of j)) key data = Inr ts"
  unfolding num_fields_def int_fields_def text_fields_def by (erule items_of_map, simp)+

subsection \<open>Signals\<close>

record envelope = signal_envelope +
  sg_valid_until :: "string option"
  sg_frequency :: string
  sg_data_version :: string
  sg_model_version :: string

fun kind_value :: "signal_kind \<Rightarrow> string" where
  "kind_value CROSS_SECTIONAL_SELECTION = ''cross_sectional_selection''"
| "kind_value INSTRUMENT_TIMING = ''instrument_timing''"
| "kind_value MARKET_TIMING = ''market_timing''"

definition kind_of_value :: "string \<Rightarrow> exn + signal_kind" where
  "kind_of_value s = (if s = ''cross_sectional_selection'' then Inr CROSS_SECTIONAL_SELECTION
     else if s = ''instrument_timing'' then Inr INSTRUMENT_TIMING
     else if s = ''market_timing'' then Inr MARKET_TIMING
     else Inl (ValueError (quoted s @ '' is not a valid SignalKind'')))"

fun payload_json :: "signal_payload \<Rightarrow> json" where
  "payload_json (CrossSectional scores ranks) = JObj [(''scores'', num_fields scores), (''ranks'', int_fields ranks)]"
| "payload_json (Timing scores states) = JObj [(''scores'', num_fields scores), (''states'', text_fields states)]"

definition payload_of_json :: "signal_kind \<Rightarrow> json \<Rightarrow> exn + signal_payload" where
  "payload_of_json kind raw = (case raw of
     JObj _ \<Rightarrow> on_value (items_of number_of ''scores'' raw) (\<lambda>scores.
       if kind = CROSS_SECTIONAL_SELECTION
       then on_value (items_of int_of ''ranks'' raw) (\<lambda>ranks. Inr (CrossSectional scores ranks))
       else on_value (items_of (\<lambda>j. Inr (text_of j)) ''states'' raw) (\<lambda>states. Inr (Timing scores states)))
   | _ \<Rightarrow> Inl (PyError ''TypeError'' ''signal payload must be an object''))"

definition envelope_json :: "envelope \<Rightarrow> json" where
  "envelope_json e = JObj [(''kind'', JStr (kind_value (sg_kind e))),
     (''source_instance_id'', JStr (sg_source_instance_id e)), (''as_of'', JStr (sg_as_of e)),
     (''payload'', payload_json (sg_payload e)),
     (''valid_until'', case sg_valid_until e of None \<Rightarrow> JNull | Some s \<Rightarrow> JStr s),
     (''frequency'', JStr (sg_frequency e)), (''data_version'', JStr (sg_data_version e)),
     (''model_version'', JStr (sg_model_version e))]"

text \<open>\<open>data["kind"]\<close> raises on a missing key.\<close>

definition envelope_of_json :: "json \<Rightarrow> exn + envelope" where
  "envelope_of_json data = (if jfind ''kind'' data = None then Inl (PyError ''KeyError'' ''kind'')
     else on_value (kind_of_value (text_of (jget ''kind'' data))) (\<lambda>kind.
       on_value (payload_of_json kind (or_json (jget ''payload'' data) (JObj []))) (\<lambda>payload.
         let e = \<lparr>sg_kind = kind, sg_source_instance_id = text_of (jget ''source_instance_id'' data),
                sg_as_of = text_of (jget ''as_of'' data), sg_payload = payload,
                sg_valid_until = (case jget ''valid_until'' data of JNull \<Rightarrow> None | j \<Rightarrow> Some (text_of j)),
                sg_frequency = or_text (text_of (jget ''frequency'' data)) ''day'',
                sg_data_version = text_of (jget ''data_version'' data),
                sg_model_version = text_of (jget ''model_version'' data)\<rparr>
         in on_value (check_envelope (signal_envelope.truncate e)) (\<lambda>_. Inr e))))"

lemma kind_round_trip [simp]: "kind_of_value (kind_value k) = Inr k"
  by (cases k) (simp_all add: kind_of_value_def)

lemma payload_round_trip:
  assumes "kind = CROSS_SECTIONAL_SELECTION \<longleftrightarrow> (\<exists>a b. p = CrossSectional a b)"
  shows "payload_of_json kind (payload_json p) = Inr p"
  using assms by (cases p) (simp_all add: payload_of_json_def fields_items)

lemma checked_payload:
  assumes "check_envelope (signal_envelope.truncate e) = Inr x"
  shows "sg_kind e = CROSS_SECTIONAL_SELECTION \<longleftrightarrow> (\<exists>a b. sg_payload e = CrossSectional a b)"
  using assms
  by (cases "sg_kind e"; cases "sg_payload e") (auto simp: check_envelope_def signal_envelope.truncate_def split: if_splits)

lemma or_payload [simp]: "or_json (payload_json p) (JObj []) = payload_json p"
  by (cases p) simp_all

lemma envelope_reads_back:
  assumes "check_envelope (signal_envelope.truncate e) = Inr x" "sg_frequency e \<noteq> []"
  shows "envelope_of_json (envelope_json e) = Inr e"
proof -
  let ?d = "envelope_json e"
  have fields: "jfind ''kind'' ?d \<noteq> None" "jget ''kind'' ?d = JStr (kind_value (sg_kind e))" "jget ''payload'' ?d = payload_json (sg_payload e)"
    "jget ''source_instance_id'' ?d = JStr (sg_source_instance_id e)" "jget ''as_of'' ?d = JStr (sg_as_of e)"
    "jget ''valid_until'' ?d = (case sg_valid_until e of None \<Rightarrow> JNull | Some s \<Rightarrow> JStr s)"
    "jget ''frequency'' ?d = JStr (sg_frequency e)" "jget ''data_version'' ?d = JStr (sg_data_version e)"
    "jget ''model_version'' ?d = JStr (sg_model_version e)"
    by (simp_all add: envelope_json_def jfind_def)
  have valid: "(case (case sg_valid_until e of None \<Rightarrow> JNull | Some s \<Rightarrow> JStr s) of JNull \<Rightarrow> None | j \<Rightarrow> Some (text_of j)) = sg_valid_until e"
    by (cases "sg_valid_until e") simp_all
  have rebuilt: "\<lparr>sg_kind = sg_kind e, sg_source_instance_id = sg_source_instance_id e, sg_as_of = sg_as_of e,
      sg_payload = sg_payload e, sg_valid_until = sg_valid_until e, sg_frequency = sg_frequency e,
      sg_data_version = sg_data_version e, sg_model_version = sg_model_version e\<rparr> = e" by simp
  show ?thesis
    using assms by (simp add: envelope_of_json_def fields valid payload_round_trip [OF checked_payload [OF assms(1)]]
        or_text_def rebuilt Let_def)
qed

subsection \<open>Weights, provenance and decisions\<close>

definition weights_json :: "target_weights \<Rightarrow> json" where
  "weights_json w = JObj [(''as_of'', JStr (tw_as_of w)), (''weights'', num_fields (tw_weights w)),
     (''scores'', num_fields (tw_scores w)), (''policy_id'', JStr (tw_policy_id w)),
     (''policy_version'', JStr (tw_policy_version w))]"

text \<open>The reader of the weights with the \<open>as_of\<close> that the decision supplies for a missing one.\<close>

definition weights_of_json :: "string \<Rightarrow> json \<Rightarrow> exn + target_weights" where
  "weights_of_json as_of data = on_value (items_of number_of ''weights'' data) (\<lambda>weights.
     on_value (items_of number_of ''scores'' data) (\<lambda>scores.
       Inr \<lparr>tw_as_of = or_text (text_of (jget ''as_of'' data)) as_of, tw_weights = weights, tw_scores = scores,
         tw_policy_id = text_of (jget ''policy_id'' data), tw_policy_version = text_of (jget ''policy_version'' data)\<rparr>))"

record provenance =
  pv_history_hash :: string
  pv_history_window :: int
  pv_history_counts :: "(string \<times> int) list"
  pv_state_before_hash :: string
  pv_state_after_hash :: string
  pv_signal_hash :: string
  pv_weights_hash :: string
  pv_policy_id :: string
  pv_policy_version :: string
  pv_data_version :: string
  pv_model_version :: string
  pv_strategy_code_hash :: string

definition provenance_json :: "provenance \<Rightarrow> json" where
  "provenance_json p = JObj [(''history_hash'', JStr (pv_history_hash p)),
     (''history_window'', JNum (of_int (pv_history_window p))), (''history_counts'', int_fields (pv_history_counts p)),
     (''provider_state_before_hash'', JStr (pv_state_before_hash p)),
     (''provider_state_after_hash'', JStr (pv_state_after_hash p)), (''signal_hash'', JStr (pv_signal_hash p)),
     (''weights_hash'', JStr (pv_weights_hash p)), (''policy_id'', JStr (pv_policy_id p)),
     (''policy_version'', JStr (pv_policy_version p)), (''data_version'', JStr (pv_data_version p)),
     (''model_version'', JStr (pv_model_version p)), (''strategy_code_hash'', JStr (pv_strategy_code_hash p))]"

definition provenance_of_json :: "json \<Rightarrow> exn + provenance" where
  "provenance_of_json j = (let data = or_json j (JObj []) in
     on_value (int_of (or_json (jget ''history_window'' data) (JNum 0))) (\<lambda>window.
     on_value (items_of int_of ''history_counts'' data) (\<lambda>counts.
       Inr \<lparr>pv_history_hash = text_of (jget ''history_hash'' data), pv_history_window = window,
         pv_history_counts = counts, pv_state_before_hash = text_of (jget ''provider_state_before_hash'' data),
         pv_state_after_hash = text_of (jget ''provider_state_after_hash'' data),
         pv_signal_hash = text_of (jget ''signal_hash'' data), pv_weights_hash = text_of (jget ''weights_hash'' data),
         pv_policy_id = text_of (jget ''policy_id'' data), pv_policy_version = text_of (jget ''policy_version'' data),
         pv_data_version = text_of (jget ''data_version'' data), pv_model_version = text_of (jget ''model_version'' data),
         pv_strategy_code_hash = text_of (jget ''strategy_code_hash'' data)\<rparr>)))"

record portfolio_decision =
  pd_decision_id :: string
  pd_instance_id :: string
  pd_config_hash :: string
  pd_as_of :: string
  pd_effective_session :: string
  pd_valid_until :: string
  pd_signal :: envelope
  pd_target_weights :: target_weights
  pd_data_version :: string
  pd_model_version :: string
  pd_strategy_code_hash :: string
  pd_provenance :: provenance

definition decision_json :: "portfolio_decision \<Rightarrow> json" where
  "decision_json d = JObj [(''decision_id'', JStr (pd_decision_id d)), (''instance_id'', JStr (pd_instance_id d)),
     (''config_hash'', JStr (pd_config_hash d)), (''as_of'', JStr (pd_as_of d)),
     (''effective_session'', JStr (pd_effective_session d)), (''valid_until'', JStr (pd_valid_until d)),
     (''signal'', envelope_json (pd_signal d)), (''target_weights'', weights_json (pd_target_weights d)),
     (''data_version'', JStr (pd_data_version d)), (''model_version'', JStr (pd_model_version d)),
     (''strategy_code_hash'', JStr (pd_strategy_code_hash d)), (''provenance'', provenance_json (pd_provenance d))]"

definition decision_of_json :: "json \<Rightarrow> exn + portfolio_decision" where
  "decision_of_json data =
     (let weights = or_json (jget ''target_weights'' data) (JObj []); as_of = text_of (jget ''as_of'' data) in
      case weights of
        JObj _ \<Rightarrow> on_value (envelope_of_json (or_json (jget ''signal'' data) (JObj []))) (\<lambda>signal.
          on_value (weights_of_json as_of weights) (\<lambda>w.
          on_value (provenance_of_json (jget ''provenance'' data)) (\<lambda>p.
            Inr \<lparr>pd_decision_id = text_of (jget ''decision_id'' data), pd_instance_id = text_of (jget ''instance_id'' data),
              pd_config_hash = text_of (jget ''config_hash'' data), pd_as_of = as_of,
              pd_effective_session = text_of (jget ''effective_session'' data),
              pd_valid_until = text_of (jget ''valid_until'' data), pd_signal = signal, pd_target_weights = w,
              pd_data_version = text_of (jget ''data_version'' data), pd_model_version = text_of (jget ''model_version'' data),
              pd_strategy_code_hash = text_of (jget ''strategy_code_hash'' data), pd_provenance = p\<rparr>)))
      | _ \<Rightarrow> Inl (PyError ''TypeError'' ''target_weights must be an object''))"

text \<open>A decision reads back from its document; an empty \<open>as_of\<close> of its weights would become that of the decision.\<close>

definition decision_ok :: "portfolio_decision \<Rightarrow> bool" where
  "decision_ok d \<longleftrightarrow> (\<exists>x. check_envelope (signal_envelope.truncate (pd_signal d)) = Inr x) \<and>
     sg_frequency (pd_signal d) \<noteq> [] \<and> tw_as_of (pd_target_weights d) \<noteq> []"

lemma weights_read_back: "tw_as_of w \<noteq> [] \<Longrightarrow> weights_of_json as_of (weights_json w) = Inr w"
  by (simp add: weights_of_json_def weights_json_def fields_items or_text_def)

lemma provenance_reads_back: "provenance_of_json (provenance_json p) = Inr p"
proof -
  have "or_json (JNum (of_int n)) (JNum 0) = JNum (of_int n)" for n by (simp add: or_json_def)
  then show ?thesis by (simp add: provenance_of_json_def provenance_json_def fields_items)
qed

lemma decision_round_trip:
  assumes "decision_ok d" shows "decision_of_json (decision_json d) = Inr d"
proof -
  let ?d = "decision_json d"
  have fields: "jget ''target_weights'' ?d = weights_json (pd_target_weights d)" "jget ''signal'' ?d = envelope_json (pd_signal d)"
    "jget ''provenance'' ?d = provenance_json (pd_provenance d)" "jget ''as_of'' ?d = JStr (pd_as_of d)"
    "jget ''decision_id'' ?d = JStr (pd_decision_id d)" "jget ''instance_id'' ?d = JStr (pd_instance_id d)"
    "jget ''config_hash'' ?d = JStr (pd_config_hash d)" "jget ''effective_session'' ?d = JStr (pd_effective_session d)"
    "jget ''valid_until'' ?d = JStr (pd_valid_until d)" "jget ''data_version'' ?d = JStr (pd_data_version d)"
    "jget ''model_version'' ?d = JStr (pd_model_version d)" "jget ''strategy_code_hash'' ?d = JStr (pd_strategy_code_hash d)"
    by (simp_all add: decision_json_def)
  have objects: "or_json (weights_json w) (JObj []) = weights_json w" "or_json (envelope_json e) (JObj []) = envelope_json e" for w e
    by (simp_all add: weights_json_def envelope_json_def)
  obtain kvs where w: "weights_json (pd_target_weights d) = JObj kvs" by (simp add: weights_json_def)
  from assms have read: "weights_of_json (pd_as_of d) (JObj kvs) = Inr (pd_target_weights d)"
      "envelope_of_json (envelope_json (pd_signal d)) = Inr (pd_signal d)"
    using weights_read_back [of "pd_target_weights d"] envelope_reads_back w by (auto simp: decision_ok_def)
  show ?thesis by (simp add: decision_of_json_def fields objects w read provenance_reads_back)
qed

subsection \<open>Completed bars\<close>

fun adjustment_value :: "price_adjustment \<Rightarrow> string" where
  "adjustment_value ADJ_NONE = ''none''"
| "adjustment_value ADJ_FORWARD = ''forward''"
| "adjustment_value ADJ_BACKWARD = ''backward''"

definition adjustment_of_value :: "string \<Rightarrow> exn + price_adjustment" where
  "adjustment_of_value s = (if s = ''none'' then Inr ADJ_NONE else if s = ''forward'' then Inr ADJ_FORWARD
     else if s = ''backward'' then Inr ADJ_BACKWARD
     else Inl (ValueError (quoted s @ '' is not a valid PriceAdjustment'')))"

definition bar_json :: "completed_bar \<Rightarrow> json" where
  "bar_json b = JObj [(''datetime'', JStr (cb_datetime b)), (''instrument'', JStr (cb_instrument b)),
     (''open'', JNum (cb_open b)), (''high'', JNum (cb_high b)), (''low'', JNum (cb_low b)), (''close'', JNum (cb_close b)),
     (''volume'', JNum (cb_volume b)), (''amount'', JNum (cb_amount b)), (''frequency'', JStr (cb_frequency b)),
     (''adjustment'', JStr (adjustment_value (cb_adjustment b))), (''data_version'', JStr (cb_data_version b)),
     (''complete'', JBool (cb_complete b))]"

definition float_field :: "string \<Rightarrow> json \<Rightarrow> exn + num" where
  "float_field key data = number_of (or_json (jget key data) (JNum 0))"

definition bar_of_json :: "(string \<Rightarrow> bool) \<Rightarrow> json \<Rightarrow> exn + completed_bar" where
  "bar_of_json is_iso data =
     on_value (adjustment_of_value (or_text (text_of (jget ''adjustment'' data)) ''none'')) (\<lambda>adj.
     on_value (float_field ''open'' data) (\<lambda>op. on_value (float_field ''high'' data) (\<lambda>hi.
     on_value (float_field ''low'' data) (\<lambda>lo. on_value (float_field ''close'' data) (\<lambda>cl.
     on_value (float_field ''volume'' data) (\<lambda>vol. on_value (float_field ''amount'' data) (\<lambda>am.
       check_bar is_iso \<lparr>cb_datetime = or_text (text_of (jget ''datetime'' data)) (text_of (jget ''date'' data)),
         cb_instrument = text_of (jget ''instrument'' data), cb_open = op, cb_high = hi, cb_low = lo, cb_close = cl,
         cb_volume = vol, cb_amount = am, cb_frequency = or_text (text_of (jget ''frequency'' data)) ''day'',
         cb_adjustment = adj, cb_data_version = text_of (jget ''data_version'' data),
         cb_complete = (case jfind ''complete'' data of None \<Rightarrow> True | Some j \<Rightarrow> truthy j)\<rparr>)))))))"

lemma adjustment_round_trip [simp]: "adjustment_of_value (adjustment_value a) = Inr a"
  by (cases a) (simp_all add: adjustment_of_value_def)

lemma bar_round_trip:
  assumes "check_bar is_iso b = Inr b" "cb_frequency b \<noteq> []" "cb_datetime b \<noteq> []"
  shows "bar_of_json is_iso (bar_json b) = Inr b"
proof -
  let ?d = "bar_json b"
  have num: "number_of (or_json (JNum x) (JNum 0)) = Inr x" for x by (simp add: or_json_def)
  have fields: "jget ''datetime'' ?d = JStr (cb_datetime b)" "jget ''instrument'' ?d = JStr (cb_instrument b)"
    "jget ''frequency'' ?d = JStr (cb_frequency b)" "jget ''adjustment'' ?d = JStr (adjustment_value (cb_adjustment b))"
    "jget ''data_version'' ?d = JStr (cb_data_version b)" "jfind ''complete'' ?d = Some (JBool (cb_complete b))"
    "float_field ''open'' ?d = Inr (cb_open b)" "float_field ''high'' ?d = Inr (cb_high b)"
    "float_field ''low'' ?d = Inr (cb_low b)" "float_field ''close'' ?d = Inr (cb_close b)"
    "float_field ''volume'' ?d = Inr (cb_volume b)" "float_field ''amount'' ?d = Inr (cb_amount b)"
    by (simp_all add: bar_json_def float_field_def num jfind_def)
  have "adjustment_value a \<noteq> []" for a by (cases a) simp_all
  moreover have rebuilt: "\<lparr>cb_datetime = cb_datetime b, cb_instrument = cb_instrument b, cb_open = cb_open b, cb_high = cb_high b,
      cb_low = cb_low b, cb_close = cb_close b, cb_volume = cb_volume b, cb_amount = cb_amount b,
      cb_frequency = cb_frequency b, cb_adjustment = cb_adjustment b, cb_data_version = cb_data_version b,
      cb_complete = cb_complete b\<rparr> = b" by simp
  ultimately show ?thesis using assms by (simp add: bar_of_json_def fields or_text_def rebuilt)
qed

end
