(* ===== verification/Decision_Tables.thy ===== *)
theory Decision_Tables
  imports Broker_Acceptance Decision_Contracts
begin

section \<open>The tables of decisions\<close>

text \<open>
  Artifacts, signals, portfolio decisions, provider checkpoints, decision observations and their
  comparisons: the tables of \<open>systems/trading/store.py\<close> that make a decision reproducible.  A table is a
  dictionary on its primary key, an operation one transaction; foreign keys and unique constraints are
  checked where SQLite checks them.  The instances of the foreign keys are the field \<open>dt_instances\<close>; what
  \<open>get_instance\<close> returned to an operation that reads it first is an argument.  Clock text, new ids and
  SHA-256 are parameters; a payload is the JSON document itself.
\<close>

subsection \<open>Tables\<close>

record artifact_row =
  ar_instance_id :: string
  ar_config_hash :: string
  ar_artifact_type :: string
  ar_manifest :: json
  ar_created_at :: string

record signal_row =
  sv_instance_id :: string
  sv_config_hash :: string
  sv_as_of :: string
  sv_signal_kind :: string
  sv_payload :: json
  sv_created_at :: string

record decision_row =
  de_instance_id :: string
  de_config_hash :: string
  de_as_of :: string
  de_effective_session :: string
  de_valid_until :: string
  de_status :: string
  de_decision :: json
  de_created_at :: string
  de_updated_at :: string

record log_row =
  lo_instance_id :: string
  lo_config_hash :: string
  lo_payload :: json
  lo_created_at :: string

record checkpoint_row =
  ck_schema_version :: int
  ck_state :: json
  ck_updated_at :: string
  ck_last_evaluated_as_of :: string
  ck_state_hash :: string

record observation_key =
  ob_instance_id :: string
  ob_config_hash :: string
  ob_mode :: string
  ob_run_id :: string
  ob_as_of :: string

record observation = observation_key +
  ob_decision_id :: string
  ob_effective_session :: string
  ob_history_hash :: string
  ob_state_before_hash :: string
  ob_state_after_hash :: string
  ob_signal_hash :: string
  ob_weights_hash :: string
  ob_data_version :: string
  ob_model_version :: string
  ob_policy_version :: string
  ob_account_hash :: string
  ob_quote_hash :: string
  ob_instrument_hash :: string
  ob_plan_hash :: string
  ob_created_at :: string

record comparison_row =
  cp_instance_id :: string
  cp_config_hash :: string
  cp_left_mode :: string
  cp_left_run_id :: string
  cp_right_mode :: string
  cp_right_run_id :: string
  cp_status :: string
  cp_compared :: int
  cp_match :: int
  cp_mismatch :: int
  cp_not_comparable :: int
  cp_details :: json
  cp_created_at :: string
  cp_updated_at :: string

record comparison_result =
  cr_status :: string
  cr_reason :: string
  cr_left_id :: string
  cr_right_id :: string
  cr_details :: json
  cr_created_at :: string

record decision_store =
  dt_instances :: "string list"
  dt_artifacts :: "(string \<times> artifact_row) list"
  dt_signals :: "(string \<times> signal_row) list"
  dt_decisions :: "(string \<times> decision_row) list"
  dt_log :: "(string \<times> log_row) list"
  dt_checkpoints :: "((string \<times> string) \<times> checkpoint_row) list"
  dt_observations :: "(string \<times> observation) list"
  dt_comparisons :: "(string \<times> comparison_row) list"
  dt_results :: "((string \<times> string) \<times> comparison_result) list"

definition empty_decisions :: "string list \<Rightarrow> decision_store" where
  "empty_decisions instances = \<lparr>dt_instances = instances, dt_artifacts = [], dt_signals = [], dt_decisions = [],
     dt_log = [], dt_checkpoints = [], dt_observations = [], dt_comparisons = [], dt_results = []\<rparr>"

text \<open>
  \<open>INSERT OR IGNORE\<close> into a table whose rows belong to an instance: a row that is ignored is not
  checked against the foreign key, a row that is inserted is.
\<close>

definition ignore_or_insert ::
  "string list \<Rightarrow> string \<Rightarrow> string \<Rightarrow> 'r \<Rightarrow> (string \<times> 'r) list \<Rightarrow> exn + (string \<times> 'r) list \<times> bool" where
  "ignore_or_insert instances instance_id k row tbl =
     (if map_of tbl k \<noteq> None then Inr (tbl, False)
      else if instance_id \<notin> set instances then Inl (uat_integrity_error ''FOREIGN KEY constraint failed'')
      else Inr (dict_set k row tbl, True))"

subsection \<open>Artifacts and signals\<close>

definition find_artifact :: "string \<Rightarrow> string \<Rightarrow> decision_store \<Rightarrow> (string \<times> artifact_row) option" where
  "find_artifact instance_id config_hash dt =
     find (\<lambda>(_, a). ar_instance_id a = instance_id \<and> ar_config_hash a = config_hash) (dt_artifacts dt)"

definition artifact_digest :: "(json \<Rightarrow> string) \<Rightarrow> string \<Rightarrow> string \<Rightarrow> json \<Rightarrow> string" where
  "artifact_digest digest instance_id config_hash manifest = digest (JObj [(''instance_id'', JStr instance_id),
     (''config_hash'', JStr config_hash), (''manifest'', manifest)])"

definition record_artifact_manifest ::
  "(json \<Rightarrow> string) \<Rightarrow> string \<Rightarrow> string \<Rightarrow> string \<Rightarrow> json \<Rightarrow> (decision_store, string \<times> artifact_row) op" where
  "record_artifact_manifest digest now instance_id config_hash manifest dt =
     (let artifact_id = artifact_digest digest instance_id config_hash manifest;
          row = \<lparr>ar_instance_id = instance_id, ar_config_hash = config_hash,
            ar_artifact_type = or_text (text_of (jget ''artifact_type'' manifest)) ''unknown'',
            ar_manifest = manifest, ar_created_at = now\<rparr>;
          inserted = (if find_artifact instance_id config_hash dt \<noteq> None then Inr (dt_artifacts dt, False)
            else ignore_or_insert (dt_instances dt) instance_id artifact_id row (dt_artifacts dt))
      in case inserted of
        Inl e \<Rightarrow> (Inl e, dt)
      | Inr (tbl, _) \<Rightarrow> (let dt' = dt\<lparr>dt_artifacts := tbl\<rparr> in
          case find_artifact instance_id config_hash dt' of
            None \<Rightarrow> (Inl (PyError ''AssertionError'' []), dt')
          | Some a \<Rightarrow> (Inr a, dt')))"

definition record_signal_envelope :: "string \<Rightarrow> string \<Rightarrow> signal_row \<Rightarrow> (decision_store, bool) op" where
  "record_signal_envelope now signal_id s dt =
     (case ignore_or_insert (dt_instances dt) (sv_instance_id s) signal_id (s\<lparr>sv_created_at := now\<rparr>) (dt_signals dt) of
        Inl e \<Rightarrow> (Inl e, dt)
      | Inr (tbl, inserted) \<Rightarrow> (Inr inserted, dt\<lparr>dt_signals := tbl\<rparr>))"

subsection \<open>Decisions\<close>

definition record_decision :: "string \<Rightarrow> string \<Rightarrow> string \<Rightarrow> string \<Rightarrow> json \<Rightarrow> (decision_store, bool) op" where
  "record_decision now decision_id instance_id config_hash payload dt =
     (if map_of (dt_log dt) decision_id \<noteq> None then (Inr False, dt)
      else (Inr True, dt\<lparr>dt_log := dict_set decision_id \<lparr>lo_instance_id = instance_id, lo_config_hash = config_hash,
             lo_payload = payload, lo_created_at = now\<rparr> (dt_log dt)\<rparr>))"

definition decision_row_of :: "string \<Rightarrow> json \<Rightarrow> decision_row" where
  "decision_row_of now payload = \<lparr>de_instance_id = text_of (jget ''instance_id'' payload),
     de_config_hash = text_of (jget ''config_hash'' payload), de_as_of = text_of (jget ''as_of'' payload),
     de_effective_session = text_of (jget ''effective_session'' payload),
     de_valid_until = text_of (jget ''valid_until'' payload), de_status = ''pending'',
     de_decision = payload, de_created_at = now, de_updated_at = now\<rparr>"

definition record_portfolio_decision :: "string \<Rightarrow> json \<Rightarrow> (decision_store, bool) op" where
  "record_portfolio_decision now payload dt =
     (let decision_id = text_of (jget ''decision_id'' payload); row = decision_row_of now payload in
      if decision_id = [] then (Inl (ValueError ''decision_id is required''), dt)
      else case ignore_or_insert (dt_instances dt) (de_instance_id row) decision_id row (dt_decisions dt) of
        Inl e \<Rightarrow> (Inl e, dt)
      | Inr (_, False) \<Rightarrow> (Inr False, dt)
      | Inr (tbl, True) \<Rightarrow> (Inr True, snd (record_decision now decision_id (de_instance_id row)
          (de_config_hash row) payload (dt\<lparr>dt_decisions := tbl\<rparr>))))"

definition get_portfolio_decision :: "string \<Rightarrow> decision_store \<Rightarrow> exn + decision_row" where
  "get_portfolio_decision decision_id dt = (case map_of (dt_decisions dt) decision_id of
     None \<Rightarrow> key_error (''unknown portfolio decision '' @ quoted decision_id) | Some d \<Rightarrow> Inr d)"

definition decisions_where ::
  "(exn + instance_row) \<Rightarrow> string \<Rightarrow> (decision_row \<Rightarrow> bool) \<Rightarrow> decision_store \<Rightarrow> exn + (string \<times> decision_row) list" where
  "decisions_where current instance_id p dt = map_sum id (\<lambda>row. filter (\<lambda>(_, d). de_instance_id d = instance_id \<and>
     de_config_hash d = ir_config_hash row \<and> p d) (dt_decisions dt)) current"

definition list_effective_decisions ::
  "(exn + instance_row) \<Rightarrow> string \<Rightarrow> string \<Rightarrow> string \<Rightarrow> decision_store \<Rightarrow> exn + (string \<times> decision_row) list" where
  "list_effective_decisions current instance_id session status dt =
     map_sum id (sort_key (\<lambda>(i, d). (de_created_at d, i)))
       (decisions_where current instance_id (\<lambda>d. de_effective_session d = session \<and> de_status d = status) dt)"

definition list_due_decisions ::
  "(exn + instance_row) \<Rightarrow> string \<Rightarrow> string \<Rightarrow> string \<Rightarrow> decision_store \<Rightarrow> exn + (string \<times> decision_row) list" where
  "list_due_decisions current instance_id effective_at status dt =
     map_sum id (sort_key (\<lambda>(i, d). (de_effective_session d, de_created_at d, i)))
       (decisions_where current instance_id (\<lambda>d. de_effective_session d \<le> effective_at \<and> de_status d = status) dt)"

definition decision_statuses :: "string list" where
  "decision_statuses = [''pending'', ''sizing'', ''planned'', ''completed'', ''expired'', ''blocked'']"

definition update_decision_status :: "string \<Rightarrow> string \<Rightarrow> string \<Rightarrow> (decision_store, decision_row) op" where
  "update_decision_status now decision_id status dt =
     (if status \<notin> set decision_statuses then (Inl (ValueError ''unsupported portfolio decision status''), dt)
      else case map_of (dt_decisions dt) decision_id of
        None \<Rightarrow> (key_error (''unknown portfolio decision '' @ quoted decision_id), dt)
      | Some d \<Rightarrow> (let dt' = dt\<lparr>dt_decisions := dict_set decision_id (d\<lparr>de_status := status, de_updated_at := now\<rparr>)
            (dt_decisions dt)\<rparr> in (get_portfolio_decision decision_id dt', dt')))"

subsection \<open>Provider checkpoints\<close>

definition save_provider_checkpoint :: "string \<Rightarrow> string \<Rightarrow> string \<Rightarrow> checkpoint_row \<Rightarrow> (decision_store, unit) op" where
  "save_provider_checkpoint now instance_id config_hash c dt =
     (if instance_id \<notin> set (dt_instances dt) then (Inl (uat_integrity_error ''FOREIGN KEY constraint failed''), dt)
      else (Inr (), dt\<lparr>dt_checkpoints := dict_set (instance_id, config_hash) (c\<lparr>ck_updated_at := now\<rparr>) (dt_checkpoints dt)\<rparr>))"

definition load_provider_checkpoint :: "string \<Rightarrow> string \<Rightarrow> decision_store \<Rightarrow> checkpoint_row option" where
  "load_provider_checkpoint instance_id config_hash dt = map_of (dt_checkpoints dt) (instance_id, config_hash)"

subsection \<open>Observations\<close>

definition key_of :: "observation \<Rightarrow> observation_key" where
  "key_of ob = observation_key.truncate ob"

definition find_decision_observation :: "observation_key \<Rightarrow> decision_store \<Rightarrow> (string \<times> observation) option" where
  "find_decision_observation key dt = find (\<lambda>(_, ob). key_of ob = key) (dt_observations dt)"

text \<open>The fields that a second recording must repeat, with the names under which a change is reported.\<close>

definition immutable_fields :: "observation \<Rightarrow> (string \<times> string) list" where
  "immutable_fields ob = [(''data_version'', ob_data_version ob), (''decision_id'', ob_decision_id ob),
     (''effective_session'', ob_effective_session ob), (''history_hash'', ob_history_hash ob),
     (''model_version'', ob_model_version ob), (''policy_version'', ob_policy_version ob),
     (''provider_state_after_hash'', ob_state_after_hash ob), (''provider_state_before_hash'', ob_state_before_hash ob),
     (''signal_hash'', ob_signal_hash ob), (''weights_hash'', ob_weights_hash ob)]"

definition changed_fields :: "observation \<Rightarrow> observation \<Rightarrow> string list" where
  "changed_fields persisted incoming = map (fst \<circ> fst)
     (filter (\<lambda>(p, q). snd p \<noteq> snd q) (zip (immutable_fields persisted) (immutable_fields incoming)))"

text \<open>
  The upsert on the unique key: an existing row takes the four context hashes and the clock, also when
  the new ones are empty.  A new row whose id is taken violates the primary key.
\<close>

definition record_decision_observation :: "string \<Rightarrow> string \<Rightarrow> observation \<Rightarrow> (decision_store, string \<times> observation) op" where
  "record_decision_observation now observation_id incoming dt =
     (let new = incoming\<lparr>ob_mode := or_text (ob_mode incoming) ''unknown'', ob_created_at := now\<rparr> in
      case find_decision_observation (key_of new) dt of
        Some (i, old) \<Rightarrow>
          (if changed_fields old new \<noteq> []
           then (Inl (ValueError (''decision observation is immutable for a mode/run/as_of; changed fields: ''
             @ list_repr (changed_fields old new))), dt)
           else let row = old\<lparr>ob_account_hash := ob_account_hash new, ob_quote_hash := ob_quote_hash new,
                  ob_instrument_hash := ob_instrument_hash new, ob_plan_hash := ob_plan_hash new, ob_created_at := now\<rparr>
             in (Inr (i, row), dt\<lparr>dt_observations := dict_set i row (dt_observations dt)\<rparr>))
      | None \<Rightarrow>
          (if map_of (dt_observations dt) observation_id \<noteq> None
           then (Inl (uat_integrity_error ''UNIQUE constraint failed: decision_observations.observation_id''), dt)
           else (Inr (observation_id, new), dt\<lparr>dt_observations := dict_set observation_id new (dt_observations dt)\<rparr>)))"

definition find_mode_observations ::
  "string \<Rightarrow> string \<Rightarrow> string \<Rightarrow> string \<Rightarrow> decision_store \<Rightarrow> (string \<times> observation) list" where
  "find_mode_observations instance_id config_hash mode as_of dt = sort_key (\<lambda>(i, ob). (ob_created_at ob, i))
     (filter (\<lambda>(_, ob). ob_instance_id ob = instance_id \<and> ob_config_hash ob = config_hash \<and> ob_mode ob = mode \<and>
        ob_as_of ob = as_of) (dt_observations dt))"

definition list_decision_observations ::
  "string \<Rightarrow> string option \<Rightarrow> string option \<Rightarrow> decision_store \<Rightarrow> (string \<times> observation) list" where
  "list_decision_observations instance_id mode run_id dt = sort_key (\<lambda>(i, ob). (ob_as_of ob, i))
     (filter (\<lambda>(_, ob). ob_instance_id ob = instance_id \<and> (mode = None \<or> mode = Some (ob_mode ob)) \<and>
        (run_id = None \<or> run_id = Some (ob_run_id ob))) (dt_observations dt))"

record execution_hashes =
  eh_account :: string
  eh_quote :: string
  eh_instrument :: string
  eh_plan :: string

definition combined_hash :: "(json \<Rightarrow> string) \<Rightarrow> string \<Rightarrow> string \<Rightarrow> string" where
  "combined_hash digest decision_context execution_context = digest (JObj [(''decision_context'', JStr decision_context),
     (''execution_context'', JStr execution_context)])"

definition attach_execution_observation ::
  "(json \<Rightarrow> string) \<Rightarrow> observation_key \<Rightarrow> execution_hashes \<Rightarrow> (decision_store, string \<times> observation) op" where
  "attach_execution_observation digest key h dt =
     (if eh_account h = [] \<or> eh_quote h = [] \<or> eh_instrument h = [] \<or> eh_plan h = []
      then (Inl (ValueError ''execution observation hashes must all be present''), dt)
      else case find_decision_observation key dt of
        None \<Rightarrow> (key_error ''decision observation is missing before execution planning'', dt)
      | Some (i, ob) \<Rightarrow>
          if ob_plan_hash ob \<noteq> []
          then (if ob_plan_hash ob \<noteq> eh_plan h
                then (Inl (ValueError ''execution observation is immutable once attached''), dt) else (Inr (i, ob), dt))
          else let row = ob\<lparr>ob_account_hash := combined_hash digest (ob_account_hash ob) (eh_account h),
                 ob_quote_hash := combined_hash digest (ob_quote_hash ob) (eh_quote h),
                 ob_instrument_hash := combined_hash digest (ob_instrument_hash ob) (eh_instrument h),
                 ob_plan_hash := eh_plan h\<rparr>
               in (Inr (i, row), dt\<lparr>dt_observations := dict_set i row (dt_observations dt)\<rparr>))"

end
