(* ===== verification/Registry.thy ===== *)
theory Registry
  imports Decision_Contracts Deployment Redaction Broker_Acceptance
begin

section \<open>Strategy and policy registries\<close>

text \<open>
  The definitions of \<open>systems/trading/domain.py\<close> and the registries of \<open>registry.py\<close> and
  \<open>policy_registry.py\<close>: registration with its quarantine, lookup, the parameters an object is created
  with, and the history a strategy needs.  Discovery in files and installed packages, and the factory
  that finally builds the object, are parameters.  A JSON number counts as \<open>int\<close> when it is integral.
\<close>

subsection \<open>Definitions\<close>

record strategy_definition =
  sd_strategy_id :: string
  sd_version :: string
  sd_parameter_schema :: json
  sd_supported_frequencies :: "string list"
  sd_required_history :: int
  sd_state_schema_version :: int
  sd_source :: string
  sd_code_hash :: string
  sd_api_version :: int
  sd_provider_api_version :: int
  sd_signal_kind :: signal_kind
  sd_supported_run_modes :: "string list"

definition deployment_modes :: "string list" where
  "deployment_modes = [''live'', ''paper'', ''shadow'', ''simulation'']"

text \<open>\<open>__post_init__\<close>: the version of the provider protocol, and the run modes in lower case.\<close>

definition check_definition :: "strategy_definition \<Rightarrow> exn + strategy_definition" where
  "check_definition d =
     (let modes = map (str_lower \<circ> str_strip) (sd_supported_run_modes d);
          version = (if sd_provider_api_version d \<noteq> 0 then sd_provider_api_version d
            else if sd_api_version d \<noteq> 0 then sd_api_version d else 1);
          invalid = sort (remdups (filter (\<lambda>m. m \<notin> set deployment_modes) modes)) in
      if invalid \<noteq> []
      then Inl (ValueError (''unsupported strategy run modes: '' @ list_repr invalid @ ''; expected a subset of '' @ list_repr deployment_modes))
      else if modes = [] then Inl (ValueError ''supported_run_modes must not be empty'')
      else Inr (d\<lparr>sd_provider_api_version := version, sd_supported_run_modes := modes\<rparr>))"

record policy_definition =
  py_policy_id :: string
  py_version :: string
  py_parameter_schema :: json
  py_supported_signal_kinds :: "signal_kind list"
  py_source :: string
  py_code_hash :: string
  py_api_version :: int

definition check_policy_definition :: "policy_definition \<Rightarrow> policy_definition" where
  "check_policy_definition p = p\<lparr>py_policy_id := str_lower (str_strip (py_policy_id p))\<rparr>"

subsection \<open>Registration and lookup\<close>

record quarantined =
  qu_source :: string
  qu_reason :: string
  qu_id :: string

record 'd registry =
  ry_definitions :: "(string \<times> 'd) list"
  ry_quarantined :: "quarantined list"

definition registry_key :: "string \<Rightarrow> string" where
  "registry_key s = str_lower (str_strip s)"

definition register_strategy :: "strategy_definition \<Rightarrow> (strategy_definition registry, unit) op" where
  "register_strategy d rg =
     (let key = registry_key (sd_strategy_id d) in
      if key = [] then (Inl (ValueError ''strategy_id is required''), rg)
      else if map_of (ry_definitions rg) key \<noteq> None
      then (Inr (), rg\<lparr>ry_quarantined := ry_quarantined rg @ [\<lparr>qu_source = sd_source d,
             qu_reason = ''duplicate strategy_id; earlier source wins'', qu_id = key\<rparr>]\<rparr>)
      else if sd_state_schema_version d \<le> 0 then (Inl (ValueError ''state_schema_version must be positive''), rg)
      else if sd_api_version d \<notin> {1, 2}
      then (Inl (ValueError (''strategy api version '' @ int_text (sd_api_version d) @ '' is unsupported; expected one of [1, 2]'')), rg)
      else if sd_provider_api_version d \<notin> {1, 2} then (Inl (ValueError ''provider_api_version must be 1 or 2''), rg)
      else (Inr (), rg\<lparr>ry_definitions := dict_set key (d\<lparr>sd_strategy_id := key\<rparr>) (ry_definitions rg)\<rparr>))"

definition register_policy :: "policy_definition \<Rightarrow> (policy_definition registry, unit) op" where
  "register_policy p rg =
     (let key = py_policy_id p in
      if key = [] then (Inl (ValueError ''policy_id is required''), rg)
      else if py_api_version p \<noteq> 1
      then (Inl (ValueError (''unsupported portfolio policy api_version='' @ int_text (py_api_version p))), rg)
      else if map_of (ry_definitions rg) key \<noteq> None
      then (Inr (), rg\<lparr>ry_quarantined := ry_quarantined rg @ [\<lparr>qu_source = py_source p,
             qu_reason = ''duplicate policy_id; earlier source wins'', qu_id = key\<rparr>]\<rparr>)
      else (Inr (), rg\<lparr>ry_definitions := dict_set key p (ry_definitions rg)\<rparr>))"

definition get_definition :: "string \<Rightarrow> 'd registry \<Rightarrow> string \<Rightarrow> exn + 'd" where
  "get_definition label rg name = (case map_of (ry_definitions rg) (registry_key name) of
     None \<Rightarrow> Inl (PyError ''KeyError'' (''unknown '' @ label @ '' '' @ quoted name)) | Some d \<Rightarrow> Inr d)"

definition registered_ids :: "'d registry \<Rightarrow> string list" where
  "registered_ids rg = sort (map fst (ry_definitions rg))"

subsection \<open>Parameters\<close>

definition json_items :: "json \<Rightarrow> (string \<times> json) list" where
  "json_items j = (case j of JObj kvs \<Rightarrow> kvs | _ \<Rightarrow> [])"

definition schema_properties :: "json \<Rightarrow> (string \<times> json) list" where
  "schema_properties schema = json_items (jget ''properties'' schema)"

definition schema_defaults :: "json \<Rightarrow> (string \<times> json) list" where
  "schema_defaults schema = List.map_filter (\<lambda>(k, spec). map_option (\<lambda>v. (k, v)) (jfind ''default'' spec))
     (schema_properties schema)"

definition merged_with :: "(string \<times> 'v) list \<Rightarrow> (string \<times> 'v) list \<Rightarrow> (string \<times> 'v) list" where
  "merged_with defaults given = fold (\<lambda>(k, v). dict_set k v) given defaults"

definition is_integral :: "json \<Rightarrow> bool" where
  "is_integral j = (case j of JNum x \<Rightarrow> of_int \<lfloor>x\<rfloor> = x | _ \<Rightarrow> False)"

definition type_issue :: "string \<Rightarrow> json \<Rightarrow> string option" where
  "type_issue expected v =
     (if expected = ''integer'' \<and> \<not> is_integral v then Some ''must be an integer''
      else if expected = ''number'' \<and> \<not> (case v of JNum _ \<Rightarrow> True | _ \<Rightarrow> False) then Some ''must be a number''
      else if expected = ''boolean'' \<and> \<not> (case v of JBool _ \<Rightarrow> True | _ \<Rightarrow> False) then Some ''must be a boolean''
      else if expected = ''string'' \<and> \<not> (case v of JStr _ \<Rightarrow> True | _ \<Rightarrow> False) then Some ''must be a string'' else None)"

text \<open>A truth value is a number to the range checks, as in Python; a bound is a number.\<close>

definition range_issues :: "json \<Rightarrow> json \<Rightarrow> string list" where
  "range_issues spec v = (case number_of v of
     Inl _ \<Rightarrow> []
   | Inr x \<Rightarrow> (case number_of (jget ''minimum'' spec) of Inr lo \<Rightarrow> if x < lo then [''must be >= '' @ num_text lo] else [] | _ \<Rightarrow> []) @
       (case number_of (jget ''maximum'' spec) of Inr hi \<Rightarrow> if x > hi then [''must be <= '' @ num_text hi] else [] | _ \<Rightarrow> []))"

definition parameter_issues :: "(string \<times> json) list \<Rightarrow> string \<times> json \<Rightarrow> string list" where
  "parameter_issues properties p = (case p of (k, v) \<Rightarrow> (case map_of properties k of
     Some (JObj spec) \<Rightarrow> map (\<lambda>m. ''params.'' @ k @ '' '' @ m)
       (case type_issue (text_of (jget ''type'' (JObj spec))) v of
          Some m \<Rightarrow> [m] | None \<Rightarrow> range_issues (JObj spec) v)
   | _ \<Rightarrow> []))"

definition required_keys :: "json \<Rightarrow> string list" where
  "required_keys schema = (case jget ''required'' schema of JArr xs \<Rightarrow> map text_of xs | _ \<Rightarrow> [])"

definition window_issues :: "(string \<times> json) list \<Rightarrow> exn + string list" where
  "window_issues params = (case (map_of params ''short_window'', map_of params ''long_window'') of
     (Some s, Some l) \<Rightarrow> on_value (int_of s) (\<lambda>a. on_value (int_of l) (\<lambda>b.
       Inr (if a \<ge> b then [''params.short_window must be less than params.long_window''] else [])))
   | _ \<Rightarrow> Inr [])"

definition missing_issues :: "json \<Rightarrow> (string \<times> json) list \<Rightarrow> string list" where
  "missing_issues schema params = map (\<lambda>k. ''params.'' @ k @ '' is required'')
     (sort (remdups (filter (\<lambda>k. k \<notin> fst ` set params) (required_keys schema))))"

definition extra_issues :: "json \<Rightarrow> (string \<times> json) list \<Rightarrow> string list" where
  "extra_issues schema params =
     (if jfind ''additionalProperties'' schema = Some (JBool False)
      then map (\<lambda>k. ''params.'' @ k @ '' is not supported'')
        (sort (remdups (filter (\<lambda>k. k \<notin> fst ` set (schema_properties schema)) (map fst params)))) else [])"

definition validate_parameters :: "json \<Rightarrow> (string \<times> json) list \<Rightarrow> exn + string list" where
  "validate_parameters schema params = on_value (window_issues params) (\<lambda>windows. Inr
     (missing_issues schema params @ extra_issues schema params @
      concat (map (parameter_issues (schema_properties schema)) params) @ windows))"

text \<open>The parameters that \<open>create_provider\<close> and \<open>create\<close> hand to the factory.\<close>

definition checked_parameters :: "json \<Rightarrow> (string \<times> json) list \<Rightarrow> exn + (string \<times> json) list" where
  "checked_parameters schema merged = on_value (validate_parameters schema merged) (\<lambda>issues.
     if issues \<noteq> [] then Inl (ValueError (join_text ''; '' issues)) else Inr merged)"

definition strategy_parameters :: "strategy_definition \<Rightarrow> json \<Rightarrow> exn + (string \<times> json) list" where
  "strategy_parameters d params =
     (let schema = sd_parameter_schema d; merged = merged_with (schema_defaults schema) (json_items params) in
      checked_parameters schema
        (if sd_signal_kind d = INSTRUMENT_TIMING \<and> ''target_percent'' \<notin> fst ` set (schema_properties schema)
         then dict_del ''target_percent'' merged else merged))"

definition policy_parameters :: "policy_definition \<Rightarrow> json \<Rightarrow> exn + (string \<times> json) list" where
  "policy_parameters p params = checked_parameters (py_parameter_schema p)
     (merged_with (schema_defaults (py_parameter_schema p)) (json_items params))"

subsection \<open>Required history\<close>

definition history_windows :: "json \<Rightarrow> (string \<times> int) list" where
  "history_windows params = List.map_filter (\<lambda>(k, v). case v of
     JNum x \<Rightarrow> if str_contains ''window'' k \<and> of_int \<lfloor>x\<rfloor> = x \<and> x > 0 then Some (k, \<lfloor>x\<rfloor>) else None | _ \<Rightarrow> None) (json_items params)"

definition resolve_required_history :: "strategy_definition \<Rightarrow> json \<Rightarrow> int" where
  "resolve_required_history d params =
     (let windows = history_windows params in
      case (map_of windows ''rsi_window'', map_of windows ''stoch_window'') of
        (Some r, Some s) \<Rightarrow> r + s + 1
      | _ \<Rightarrow> if windows \<noteq> [] then Max (snd ` set windows) + 1
             else max (if sd_required_history d \<noteq> 0 then sd_required_history d else 1) 1)"

lemma history_windows_positive:
  assumes "(k, w) \<in> set (history_windows params)" shows "w \<ge> 1"
proof -
  from assms have "0 < w"
    by (auto simp: history_windows_def List.map_filter_def split: json.splits if_splits)
  then show ?thesis by simp
qed

lemma required_history_positive: "resolve_required_history d params \<ge> 1"
proof -
  let ?w = "history_windows params"
  have pos: "v \<ge> 1" if "map_of ?w k = Some v" for k v
    using that by (blast dest: map_of_SomeD history_windows_positive)
  have top: "Max (snd ` set ?w) \<ge> 1" if "?w \<noteq> []"
  proof -
    from that have "Max (snd ` set ?w) \<in> snd ` set ?w" by (intro Max_in) simp_all
    then obtain p where "p \<in> set ?w" "Max (snd ` set ?w) = snd p" by (rule imageE)
    then show ?thesis using history_windows_positive [of "fst p" "snd p"] by simp
  qed
  show ?thesis
  proof (cases "map_of ?w ''rsi_window''")
    case (Some r)
    with pos [OF this] pos [of "''stoch_window''"] top show ?thesis
      by (cases "map_of ?w ''stoch_window''") (auto simp: resolve_required_history_def Let_def)
  next
    case None
    with top show ?thesis by (auto simp: resolve_required_history_def Let_def)
  qed
qed

subsection \<open>What registration and validation guarantee\<close>

text \<open>The earlier source wins: a registered definition is never replaced.\<close>

lemma register_strategy_keeps:
  assumes "map_of (ry_definitions rg) k = Some d"
  shows "map_of (ry_definitions (snd (register_strategy d' rg))) k = Some d"
  using assms by (auto simp: register_strategy_def Let_def AList.update_conv')

lemma register_policy_keeps:
  assumes "map_of (ry_definitions rg) k = Some p"
  shows "map_of (ry_definitions (snd (register_policy p' rg))) k = Some p"
  using assms by (auto simp: register_policy_def Let_def AList.update_conv')

lemma checked_parameters_ok:
  assumes "checked_parameters schema merged = Inr params"
  shows "params = merged" "set (required_keys schema) \<subseteq> fst ` set params"
    "\<forall>p\<in>set params. parameter_issues (schema_properties schema) p = []"
proof -
  from assms obtain issues where issues: "validate_parameters schema merged = Inr issues"
      "(if issues \<noteq> [] then Inl (ValueError (join_text ''; '' issues)) else Inr merged) = Inr params"
    unfolding checked_parameters_def on_value_eq by blast
  then have v: "validate_parameters schema merged = Inr issues" "issues = []" "params = merged"
    by (cases issues; simp)+
  then show "params = merged" by simp
  from v(1,2) have none: "missing_issues schema merged = []"
      "concat (map (parameter_issues (schema_properties schema)) merged) = []"
    by (simp_all add: validate_parameters_def on_value_eq)
  have "sort xs = [] \<longleftrightarrow> xs = []" for xs :: "string list" by (metis set_empty set_sort)
  with none(1) show "set (required_keys schema) \<subseteq> fst ` set params"
    unfolding v(3) missing_issues_def by (auto simp: filter_empty_conv)
  from none(2) show "\<forall>p\<in>set params. parameter_issues (schema_properties schema) p = []"
    unfolding v(3) by simp
qed

text \<open>So a number with a range is within it.\<close>

lemma parameter_in_range:
  assumes "parameter_issues properties (k, JNum x) = []" "map_of properties k = Some (JObj spec)"
  shows "number_of (jget ''minimum'' (JObj spec)) = Inr lo \<Longrightarrow> lo \<le> x"
    "number_of (jget ''maximum'' (JObj spec)) = Inr hi \<Longrightarrow> x \<le> hi"
proof -
  from assms have "range_issues (JObj spec) (JNum x) = []"
    by (simp add: parameter_issues_def del: jget.simps split: option.splits)
  then show "number_of (jget ''minimum'' (JObj spec)) = Inr lo \<Longrightarrow> lo \<le> x"
    "number_of (jget ''maximum'' (JObj spec)) = Inr hi \<Longrightarrow> x \<le> hi"
    by (simp_all add: range_issues_def not_less del: jget.simps split: if_splits)
qed

end
