(* ===== verification/Decision_Pipeline.thy ===== *)
theory Decision_Pipeline
  imports Decision_Tables Registry Sizing
begin

section \<open>The decision pipeline\<close>

text \<open>
  \<open>DecisionPipeline\<close> of \<open>systems/trading/application.py\<close>: completed bars to a signal, target weights and a
  persisted decision, and a decision to a target portfolio.  Providers, policies, the calendar and hashes
  are an environment of parameters; a provider is a state with the six operations of its protocol.  The
  locks of the provider table are not modelled: one call is one sequence of steps.
\<close>

subsection \<open>Ports\<close>

record evaluation_context =
  ec_instance_id :: string
  ec_config_hash :: string
  ec_as_of :: string
  ec_effective_session :: string
  ec_frequency :: string
  ec_history :: "completed_bar list"
  ec_data_version :: string
  ec_universe :: "string list"

record 'p provider_ops =
  vo_initialize :: "evaluation_context \<Rightarrow> ('p, unit) op"
  vo_warmup :: "completed_bar list \<Rightarrow> ('p, unit) op"
  vo_restore :: "json \<Rightarrow> ('p, unit) op"
  vo_snapshot :: "('p, json) op"
  vo_evaluate :: "evaluation_context \<Rightarrow> ('p, envelope) op"

record portfolio_context =
  pc_as_of :: string
  pc_account :: account_snapshot
  pc_quotes :: "(string \<times> tradable_quote) list"
  pc_instruments :: "(string \<times> instrument_metadata) list"
  pc_constraints :: json

type_synonym portfolio_policy = "portfolio_inputs \<Rightarrow> portfolio_context \<Rightarrow> exn + target_weights"

record decision_calendar =
  ca_is_session :: "string \<Rightarrow> bool"
  ca_next_session :: "string \<Rightarrow> string"
  ca_next_effective :: "(string \<Rightarrow> string \<Rightarrow> string) option"
  ca_valid_until :: "(string \<Rightarrow> string \<Rightarrow> string) option"

record digests =
  dg_canonical :: "json \<Rightarrow> string"
  dg_stable :: "json list \<Rightarrow> string"
  dg_account :: "account_snapshot \<Rightarrow> string"
  dg_quotes :: "(string \<times> tradable_quote) list \<Rightarrow> string"
  dg_instruments :: "(string \<times> instrument_metadata) list \<Rightarrow> string"

record 'p pipeline_env =
  ev_strategies :: "strategy_definition registry"
  ev_policies :: "policy_definition registry"
  ev_build_provider :: "strategy_definition \<Rightarrow> (string \<times> json) list \<Rightarrow> json \<Rightarrow> exn + 'p"
  ev_build_policy :: "policy_definition \<Rightarrow> (string \<times> json) list \<Rightarrow> exn + portfolio_policy"
  ev_provider :: "'p provider_ops"
  ev_calendar :: decision_calendar
  ev_digests :: digests
  ev_is_iso :: "string \<Rightarrow> bool"

record 'p pipeline =
  pl_providers :: "((string \<times> string) \<times> 'p) list"
  pl_store :: decision_store

definition get_strategy :: "'p pipeline_env \<Rightarrow> string \<Rightarrow> exn + strategy_definition" where
  "get_strategy env = get_definition ''strategy definition'' (ev_strategies env)"

definition get_policy :: "'p pipeline_env \<Rightarrow> string \<Rightarrow> exn + policy_definition" where
  "get_policy env = get_definition ''portfolio policy'' (ev_policies env)"

subsection \<open>Checks\<close>

definition check_binding :: "strategy_config \<Rightarrow> strategy_definition \<Rightarrow> exn + unit" where
  "check_binding c d =
     (if sc_strategy_version c \<noteq> sd_version d
      then Inl (ValueError ''strategy definition version does not match instance'')
      else if sc_strategy_code_hash c \<noteq> sd_code_hash d
      then Inl (ValueError ''strategy code hash does not match instance'')
      else if sc_frequency c \<notin> set (sd_supported_frequencies d)
      then Inl (ValueError ''strategy frequency is unsupported'')
      else Inr ())"

definition warmup_required :: "int \<Rightarrow> int \<Rightarrow> exn" where
  "warmup_required required available = PyError ''WarmupRequired'' (''strategy requires '' @ int_text required
     @ '' completed bars per instrument; have '' @ int_text available)"

fun collect_bars ::
  "(string \<Rightarrow> bool) \<Rightarrow> strategy_config \<Rightarrow> price_adjustment \<Rightarrow> completed_bar list \<Rightarrow> (string \<times> string) list \<Rightarrow>
   exn + completed_bar list" where
  "collect_bars is_iso c adj [] seen = Inr []"
| "collect_bars is_iso c adj (b # bars) seen =
     (let instrument = canonical_instrument (cb_instrument b); identity = (cb_datetime b, instrument) in
      if \<not> cb_complete b then Inl (ValueError ''only typed completed bars may reach a strategy provider'')
      else if instrument \<notin> canonical_instrument ` set (sc_universe c) then collect_bars is_iso c adj bars seen
      else if cb_frequency b \<noteq> sc_frequency c
      then Inl (ValueError ''bar frequency does not match the strategy instance'')
      else if cb_adjustment b \<noteq> adj
      then Inl (ValueError ''feature-bar adjustment does not match instance data policy'')
      else if identity \<in> set seen
      then Inl (ValueError (''duplicate completed bar ('' @ quoted (fst identity) @ '', '' @ quoted (snd identity) @ '')''))
      else on_value (bar_of_json is_iso (bar_json (b\<lparr>cb_instrument := instrument\<rparr>))) (\<lambda>bar.
        on_value (collect_bars is_iso c adj bars (identity # seen)) (\<lambda>rest. Inr (bar # rest))))"

definition bar_order :: "completed_bar \<Rightarrow> string \<times> string" where
  "bar_order b = (cb_datetime b, cb_instrument b)"

definition validate_bars :: "(string \<Rightarrow> bool) \<Rightarrow> strategy_config \<Rightarrow> completed_bar list \<Rightarrow> exn + completed_bar list" where
  "validate_bars is_iso c bars =
     (if bars = [] then Inl (warmup_required 1 0)
      else on_value (adjustment_of_value (or_text (text_of (jget ''feature_adjustment'' (sc_data_policy c))) ''backward'')) (\<lambda>adj.
        on_value (collect_bars is_iso c adj bars []) (\<lambda>normalized.
          if normalized = [] then Inl (ValueError ''completed bars do not cover the instance universe'')
          else if List.length (remdups (map cb_data_version normalized)) > 1
          then Inl (ValueError ''completed bars contain multiple data versions'')
          else Inr (sort_key bar_order normalized))))"

definition validate_signal :: "envelope \<Rightarrow> strategy_config \<Rightarrow> signal_kind \<Rightarrow> string \<Rightarrow> string \<Rightarrow> exn + unit" where
  "validate_signal s c expected as_of data_version =
     (if sg_kind s \<noteq> expected then Inl (ValueError ''provider returned an undeclared signal kind'')
      else if sg_source_instance_id s \<noteq> sc_instance_id c \<or> sg_as_of s \<noteq> as_of
      then Inl (ValueError ''provider signal binding/as_of mismatch'')
      else if sg_frequency s \<noteq> sc_frequency c then Inl (ValueError ''provider signal frequency mismatch'')
      else if data_version \<noteq> [] \<and> sg_data_version s \<noteq> [] \<and> sg_data_version s \<noteq> data_version
      then Inl (ValueError ''provider signal data version mismatch'')
      else Inr ())"

text \<open>The dictionary on canonical names: of two spellings of one instrument the last weight counts.\<close>

definition canonical_weights :: "(string \<times> num) list \<Rightarrow> (string \<times> num) list" where
  "canonical_weights weights = fold (\<lambda>(k, v). dict_set (canonical_instrument k) v) weights []"

definition validate_weights :: "(string \<times> num) list \<Rightarrow> string list \<Rightarrow> exn + unit" where
  "validate_weights weights universe =
     (let normalized = canonical_weights weights in
      if list_ex (\<lambda>(_, v). v < 0 \<or> v > 1) normalized
      then Inl (ValueError ''target weights must be between zero and one'')
      else if \<not> fst ` set normalized \<subseteq> canonical_instrument ` set universe
      then Inl (ValueError ''portfolio policy emitted instruments outside the instance universe'')
      else if sum_list (map snd normalized) > 1 + 1 / 10^9
      then Inl (ValueError ''target weights exceed 100%'')
      else Inr ())"

subsection \<open>The prepared history\<close>

record prepared =
  pr_definition :: strategy_definition
  pr_window :: int
  pr_grouped :: "(string \<times> completed_bar list) list"
  pr_history :: "completed_bar list"
  pr_history_hash :: string
  pr_as_of :: string
  pr_effective :: string
  pr_valid_until :: string
  pr_data_version :: string

definition last_n :: "int \<Rightarrow> 'a list \<Rightarrow> 'a list" where
  "last_n n xs = drop (List.length xs - nat n) xs"

definition grouped_bars :: "strategy_config \<Rightarrow> completed_bar list \<Rightarrow> (string \<times> completed_bar list) list" where
  "grouped_bars c normalized = map (\<lambda>i. (i, filter (\<lambda>b. cb_instrument b = i) normalized))
     (sort (remdups (map canonical_instrument (sc_universe c))))"

definition available_bars :: "(string \<times> completed_bar list) list \<Rightarrow> int" where
  "available_bars grouped = (if grouped = [] then 0 else Min (set (map (\<lambda>(_, bs). int (List.length bs)) grouped)))"

definition effective_of :: "decision_calendar \<Rightarrow> string \<Rightarrow> string \<Rightarrow> string" where
  "effective_of ca as_of frequency = (case ca_next_effective ca of
     Some f \<Rightarrow> f as_of frequency | None \<Rightarrow> ca_next_session ca (take 10 as_of))"

definition valid_until_of :: "decision_calendar \<Rightarrow> string \<Rightarrow> string \<Rightarrow> string" where
  "valid_until_of ca effective frequency = (case ca_valid_until ca of
     Some f \<Rightarrow> f effective frequency | None \<Rightarrow> take 10 effective @ ''T15:00:00+08:00'')"

definition history_window :: "strategy_config \<Rightarrow> int \<Rightarrow> exn + int" where
  "history_window c required = int_of (or_json (jget ''history_window'' (sc_data_policy c)) (JNum (of_int required)))"

definition aligned :: "(string \<times> completed_bar list) list \<Rightarrow> bool" where
  "aligned grouped \<longleftrightarrow> List.length (remdups (map (\<lambda>(_, bs). map cb_datetime bs) grouped)) = 1"

text \<open>\<open>max\<close> of the timestamps of a history that is not empty.\<close>

definition latest_text :: "string list \<Rightarrow> string" where
  "latest_text xs = fold max xs []"

text \<open>From the windowed histories on: the watermark, the session and the validity of the decision.\<close>

definition prepare_window ::
  "'p pipeline_env \<Rightarrow> strategy_config \<Rightarrow> strategy_definition \<Rightarrow> int \<Rightarrow> (string \<times> completed_bar list) list \<Rightarrow> exn + prepared" where
  "prepare_window env c d window grouped =
     (let history = sort_key bar_order (concat (map snd grouped)); as_of = latest_text (map cb_datetime history);
          effective = effective_of (ev_calendar env) as_of (sc_frequency c);
          versions = filter (\<lambda>v. v \<noteq> []) (map cb_data_version history);
          latest = map cb_instrument (filter (\<lambda>b. cb_datetime b = as_of) history) in
      if \<not> aligned grouped
      then Inl (ValueError ''latest completed-bar watermark does not cover an aligned instance universe'')
      else if \<not> ca_is_session (ev_calendar env) (take 10 as_of)
      then Inl (ValueError (take 10 as_of @ '' is not a trading session''))
      else if set latest \<noteq> canonical_instrument ` set (sc_universe c)
      then Inl (ValueError (''latest completed-bar watermark does not cover the universe: '' @ list_repr
        (sort (filter (\<lambda>i. i \<notin> set latest) (remdups (map canonical_instrument (sc_universe c)))))))
      else Inr \<lparr>pr_definition = d, pr_window = window, pr_grouped = grouped, pr_history = history,
        pr_history_hash = dg_canonical (ev_digests env) (JArr (map bar_json history)), pr_as_of = as_of,
        pr_effective = effective, pr_valid_until = valid_until_of (ev_calendar env) effective (sc_frequency c),
        pr_data_version = (case versions of v # _ \<Rightarrow> v | [] \<Rightarrow> text_of (jget ''data_version'' (sc_data_policy c)))\<rparr>)"

definition prepare :: "'p pipeline_env \<Rightarrow> strategy_config \<Rightarrow> completed_bar list \<Rightarrow> exn + prepared" where
  "prepare env c bars =
     on_value (get_strategy env (sc_strategy_id c)) (\<lambda>d. on_value (check_binding c d) (\<lambda>_.
     on_value (validate_bars (ev_is_iso env) c bars) (\<lambda>normalized.
       let required = resolve_required_history d (sc_params c); grouped = grouped_bars c normalized in
       on_value (history_window c required) (\<lambda>window.
         if window < required
         then Inl (ValueError (''data_policy.history_window='' @ int_text window @ '' is below required_history='' @ int_text required))
         else if available_bars grouped < window then Inl (warmup_required window (available_bars grouped))
         else prepare_window env c d window (map (\<lambda>(i, bs). (i, last_n window bs)) grouped)))))"

subsection \<open>A decision that is already known\<close>

record decision_result =
  rd_decision :: portfolio_decision
  rd_inserted :: bool

definition stored_decision :: "observation \<Rightarrow> decision_store \<Rightarrow> exn + portfolio_decision" where
  "stored_decision ob dt = on_value (get_portfolio_decision (ob_decision_id ob) dt) (\<lambda>row. decision_of_json (de_decision row))"

definition run_key :: "strategy_config \<Rightarrow> string \<Rightarrow> string \<Rightarrow> string \<Rightarrow> observation_key" where
  "run_key c mode run_id as_of = \<lparr>ob_instance_id = sc_instance_id c, ob_config_hash = sc_config_hash c, ob_mode = mode,
     ob_run_id = run_id, ob_as_of = as_of\<rparr>"

text \<open>First the observation of this run, then those of other runs in the same mode.\<close>

definition recall :: "strategy_config \<Rightarrow> prepared \<Rightarrow> string \<Rightarrow> string \<Rightarrow> decision_store \<Rightarrow> exn + portfolio_decision option" where
  "recall c pr mode run_id dt =
     (case find_decision_observation (run_key c mode run_id (pr_as_of pr)) dt of
        Some (_, ob) \<Rightarrow>
          (if ob_history_hash ob \<noteq> pr_history_hash pr
           then Inl (ValueError ''completed history changed for an already observed as_of; publish a new data version before reevaluation'')
           else map_sum id Some (stored_decision ob dt))
      | None \<Rightarrow>
          (let prior = find_mode_observations (sc_instance_id c) (sc_config_hash c) mode (pr_as_of pr) dt in
           if list_ex (\<lambda>(_, ob). ob_history_hash ob \<noteq> pr_history_hash pr) prior
           then Inl (ValueError ''completed history changed for an already observed as_of in this runtime mode; publish a new data version before reevaluation'')
           else if prior \<noteq> [] then map_sum id Some (stored_decision (snd (last prior)) dt)
           else Inr None))"

subsection \<open>The provider\<close>

definition provider_key :: "strategy_config \<Rightarrow> string \<times> string" where
  "provider_key c = (sc_instance_id c, sc_config_hash c)"

definition on_provider :: "string \<times> string \<Rightarrow> ('p, 'a) op \<Rightarrow> ('p pipeline, 'a) op" where
  "on_provider key f pl = (case map_of (pl_providers pl) key of
     None \<Rightarrow> (Inl (PyError ''KeyError'' []), pl)
   | Some p \<Rightarrow> (let (r, p') = f p in (r, pl\<lparr>pl_providers := dict_set key p' (pl_providers pl)\<rparr>)))"

definition on_decisions :: "(decision_store, 'a) op \<Rightarrow> ('p pipeline, 'a) op" where
  "on_decisions f pl = (let (r, dt) = f (pl_store pl) in (r, pl\<lparr>pl_store := dt\<rparr>))"

definition require :: "exn + 'a \<Rightarrow> ('s, 'a) op" where
  "require r = (case r of Inl e \<Rightarrow> op_raise e | Inr v \<Rightarrow> op_return v)"

definition factory_context :: "strategy_config \<Rightarrow> int \<Rightarrow> json" where
  "factory_context c window = JObj ((if truthy (sc_artifact_binding c) then [(''artifact_binding'', sc_artifact_binding c)] else [])
     @ [(''history_window'', JNum (of_int window))])"

text \<open>The provider of the instance, and whether it had to be created; creation raises outside the \<open>try\<close>.\<close>

definition acquire_provider :: "'p pipeline_env \<Rightarrow> strategy_config \<Rightarrow> prepared \<Rightarrow> ('p pipeline, bool) op" where
  "acquire_provider env c pr pl = (case map_of (pl_providers pl) (provider_key c) of
     Some _ \<Rightarrow> (Inr False, pl)
   | None \<Rightarrow> (case on_value (get_strategy env (sc_strategy_id c)) (\<lambda>d. on_value (strategy_parameters d (sc_params c))
       (\<lambda>params. ev_build_provider env d params (factory_context c (pr_window pr)))) of
         Inl e \<Rightarrow> (Inl e, pl)
       | Inr p \<Rightarrow> (Inr True, pl\<lparr>pl_providers := dict_set (provider_key c) p (pl_providers pl)\<rparr>)))"

definition prime_provider ::
  "'p pipeline_env \<Rightarrow> strategy_config \<Rightarrow> prepared \<Rightarrow> evaluation_context \<Rightarrow> ('p pipeline, unit) op" where
  "prime_provider env c pr ctx = op_then (on_provider (provider_key c) (vo_initialize (ev_provider env) ctx)) (\<lambda>pl.
     case load_provider_checkpoint (sc_instance_id c) (sc_config_hash c) (pl_store pl) of
       None \<Rightarrow> on_provider (provider_key c) (vo_warmup (ev_provider env) (pr_history pr)) pl
     | Some ck \<Rightarrow>
         if ck_schema_version ck \<noteq> sd_state_schema_version (pr_definition pr)
         then (Inl (ValueError ''provider checkpoint schema version requires an explicit migration''), pl)
         else on_provider (provider_key c) (vo_restore (ev_provider env) (ck_state ck)) pl)"

definition context_of :: "strategy_config \<Rightarrow> prepared \<Rightarrow> evaluation_context" where
  "context_of c pr = \<lparr>ec_instance_id = sc_instance_id c, ec_config_hash = sc_config_hash c, ec_as_of = pr_as_of pr,
     ec_effective_session = pr_effective pr, ec_frequency = sc_frequency c, ec_history = pr_history pr,
     ec_data_version = pr_data_version pr, ec_universe = sc_universe c\<rparr>"

subsection \<open>The policy\<close>

record market =
  mk_account :: "account_snapshot option"
  mk_quotes :: "(string \<times> tradable_quote) list"
  mk_instruments :: "(string \<times> instrument_metadata) list"

definition preview_account :: "string \<Rightarrow> account_snapshot" where
  "preview_account as_of = \<lparr>as_account_id = ''preview'', as_as_of = as_of, as_balance = 1, as_available = 1, as_positions = [],
     as_sellable = [], as_active_order_deltas = [], as_external_orders = []\<rparr>"

definition policy_account :: "market \<Rightarrow> string \<Rightarrow> account_snapshot" where
  "policy_account m as_of = (case mk_account m of Some a \<Rightarrow> a | None \<Rightarrow> preview_account as_of)"

definition inputs_of_signal :: "envelope \<Rightarrow> exn + portfolio_inputs" where
  "inputs_of_signal s = (let e = signal_envelope.truncate s in check_inputs (case sg_kind s of
     CROSS_SECTIONAL_SELECTION \<Rightarrow> \<lparr>pf_selection = Some e, pf_instrument_timing = [], pf_market_timing = []\<rparr>
   | INSTRUMENT_TIMING \<Rightarrow> \<lparr>pf_selection = None, pf_instrument_timing = [e], pf_market_timing = []\<rparr>
   | MARKET_TIMING \<Rightarrow> \<lparr>pf_selection = None, pf_instrument_timing = [], pf_market_timing = [e]\<rparr>))"

definition binding_policy :: "strategy_config \<Rightarrow> string" where
  "binding_policy c = text_of (jget ''policy_id'' (sc_portfolio_policy c))"

text \<open>The definition of the bound policy and the weights it builds, checked against the universe.\<close>

definition build_weights ::
  "'p pipeline_env \<Rightarrow> strategy_config \<Rightarrow> prepared \<Rightarrow> market \<Rightarrow> envelope \<Rightarrow> exn + policy_definition \<times> target_weights" where
  "build_weights env c pr m s =
     on_value (get_policy env (binding_policy c)) (\<lambda>p.
       if sd_signal_kind (pr_definition pr) \<notin> set (py_supported_signal_kinds p)
       then Inl (ValueError ''portfolio policy does not accept the provider signal kind'')
       else on_value (get_policy env (py_policy_id p)) (\<lambda>p'.
         on_value (policy_parameters p' (jget ''params'' (sc_portfolio_policy c))) (\<lambda>params.
         on_value (ev_build_policy env p' params) (\<lambda>policy.
         on_value (inputs_of_signal s) (\<lambda>inputs.
         on_value (policy inputs \<lparr>pc_as_of = pr_as_of pr, pc_account = policy_account m (pr_as_of pr), pc_quotes = mk_quotes m,
           pc_instruments = mk_instruments m, pc_constraints = or_object (jget ''constraints'' (sc_portfolio_policy c))\<rparr>) (\<lambda>w.
         on_value (validate_weights (tw_weights w) (sc_universe c)) (\<lambda>_. Inr (p, w))))))))"

subsection \<open>The decision\<close>

definition decision_of ::
  "digests \<Rightarrow> strategy_config \<Rightarrow> prepared \<Rightarrow> json \<Rightarrow> json \<Rightarrow> envelope \<Rightarrow> policy_definition \<Rightarrow> target_weights \<Rightarrow> portfolio_decision" where
  "decision_of dg c pr before after s p w = \<lparr>
     pd_decision_id = dg_stable dg [JStr (sc_instance_id c), JStr (sc_config_hash c), JStr (pr_as_of pr), JStr (pr_effective pr),
       envelope_json s, weights_json w],
     pd_instance_id = sc_instance_id c, pd_config_hash = sc_config_hash c, pd_as_of = pr_as_of pr,
     pd_effective_session = pr_effective pr, pd_valid_until = pr_valid_until pr, pd_signal = s, pd_target_weights = w,
     pd_data_version = pr_data_version pr, pd_model_version = sg_model_version s,
     pd_strategy_code_hash = sc_strategy_code_hash c,
     pd_provenance = \<lparr>pv_history_hash = pr_history_hash pr, pv_history_window = pr_window pr,
       pv_history_counts = map (\<lambda>(i, bs). (i, int (List.length bs))) (pr_grouped pr),
       pv_state_before_hash = dg_canonical dg before, pv_state_after_hash = dg_canonical dg after,
       pv_signal_hash = dg_canonical dg (envelope_json s), pv_weights_hash = dg_canonical dg (weights_json w),
       pv_policy_id = py_policy_id p, pv_policy_version = py_version p, pv_data_version = pr_data_version pr,
       pv_model_version = sc_model_hash c, pv_strategy_code_hash = sc_strategy_code_hash c\<rparr>\<rparr>"

definition observation_of ::
  "digests \<Rightarrow> market \<Rightarrow> string \<Rightarrow> string \<Rightarrow> portfolio_decision \<Rightarrow> observation" where
  "observation_of dg m mode run_id d = (let pv = pd_provenance d in \<lparr>ob_instance_id = pd_instance_id d,
     ob_config_hash = pd_config_hash d, ob_mode = mode, ob_run_id = run_id, ob_as_of = pd_as_of d,
     ob_decision_id = pd_decision_id d, ob_effective_session = pd_effective_session d,
     ob_history_hash = pv_history_hash pv, ob_state_before_hash = pv_state_before_hash pv,
     ob_state_after_hash = pv_state_after_hash pv, ob_signal_hash = pv_signal_hash pv, ob_weights_hash = pv_weights_hash pv,
     ob_data_version = pd_data_version d, ob_model_version = pd_model_version d, ob_policy_version = pv_policy_version pv,
     ob_account_hash = dg_account dg (policy_account m (pd_as_of d)), ob_quote_hash = dg_quotes dg (mk_quotes m),
     ob_instrument_hash = dg_instruments dg (mk_instruments m), ob_plan_hash = [], ob_created_at = []\<rparr>)"

text \<open>The four transactions that persist a decision, in the order of the code.\<close>

definition persist_decision ::
  "digests \<Rightarrow> string \<Rightarrow> market \<Rightarrow> string \<Rightarrow> string \<Rightarrow> int \<Rightarrow> json \<Rightarrow> portfolio_decision \<Rightarrow> (decision_store, bool) op" where
  "persist_decision dg now m mode run_id schema after d =
     op_then (record_signal_envelope now (dg_stable dg [JStr ''signal'', JStr (pd_decision_id d)])
       \<lparr>sv_instance_id = pd_instance_id d, sv_config_hash = pd_config_hash d, sv_as_of = sg_as_of (pd_signal d),
        sv_signal_kind = kind_value (sg_kind (pd_signal d)), sv_payload = envelope_json (pd_signal d), sv_created_at = []\<rparr>)
     (op_bind (record_portfolio_decision now (decision_json d)) (\<lambda>inserted.
       op_then (save_provider_checkpoint now (pd_instance_id d) (pd_config_hash d) \<lparr>ck_schema_version = schema, ck_state = after,
         ck_updated_at = [], ck_last_evaluated_as_of = pd_as_of d, ck_state_hash = pv_state_after_hash (pd_provenance d)\<rparr>)
       (op_then (record_decision_observation now (dg_stable dg [JStr ''observation'', JStr (pd_instance_id d),
           JStr (pd_config_hash d), JStr mode, JStr run_id, JStr (pd_as_of d)]) (observation_of dg m mode run_id d))
         (op_return inserted))))"

text \<open>What the provider and the policy say, with the state of the provider before and after.\<close>

definition judge ::
  "'p pipeline_env \<Rightarrow> strategy_config \<Rightarrow> prepared \<Rightarrow> market \<Rightarrow> ('p pipeline, portfolio_decision \<times> json) op" where
  "judge env c pr m =
     (let key = provider_key c; ops = ev_provider env in
      op_bind (on_provider key (vo_snapshot ops)) (\<lambda>before.
      op_bind (on_provider key (vo_evaluate ops (context_of c pr))) (\<lambda>s.
      op_then (require (validate_signal s c (sd_signal_kind (pr_definition pr)) (pr_as_of pr) (pr_data_version pr)))
      (op_bind (require (build_weights env c pr m s)) (\<lambda>(p, w).
      op_bind (on_provider key (vo_snapshot ops)) (\<lambda>after.
        op_return (decision_of (ev_digests env) c pr before after s p w, after)))))))"

definition decide_instance ::
  "'p pipeline_env \<Rightarrow> string \<Rightarrow> strategy_config \<Rightarrow> prepared \<Rightarrow> market \<Rightarrow> bool \<Rightarrow> string \<Rightarrow> string \<Rightarrow> bool \<Rightarrow>
   ('p pipeline, decision_result) op" where
  "decide_instance env now c pr m persist mode run_id created =
     op_then (if created then prime_provider env c pr (context_of c pr) else op_return ())
     (op_bind (judge env c pr m) (\<lambda>(d, after).
       op_bind (if persist then on_decisions (persist_decision (ev_digests env) now m mode run_id
           (sd_state_schema_version (pr_definition pr)) after d) else op_return False)
         (\<lambda>inserted. op_return \<lparr>rd_decision = d, rd_inserted = inserted\<rparr>)))"

text \<open>An exception drops the provider, which is also told to stop.\<close>

definition drop_provider :: "strategy_config \<Rightarrow> exn \<Rightarrow> ('p pipeline, 'a) op" where
  "drop_provider c e pl = (Inl e, pl\<lparr>pl_providers := dict_del (provider_key c) (pl_providers pl)\<rparr>)"

definition evaluate_instance ::
  "'p pipeline_env \<Rightarrow> string \<Rightarrow> strategy_config \<Rightarrow> completed_bar list \<Rightarrow> market \<Rightarrow> bool \<Rightarrow> string \<Rightarrow> string \<Rightarrow>
   ('p pipeline, decision_result) op" where
  "evaluate_instance env now c bars m persist mode run_id pl = (case prepare env c bars of
     Inl e \<Rightarrow> (Inl e, pl)
   | Inr pr \<Rightarrow> (case (if persist then recall c pr mode run_id (pl_store pl) else Inr None) of
       Inl e \<Rightarrow> (Inl e, pl)
     | Inr (Some d) \<Rightarrow> (Inr \<lparr>rd_decision = d, rd_inserted = False\<rparr>, pl)
     | Inr None \<Rightarrow> op_bind (acquire_provider env c pr) (\<lambda>created.
         op_catch (decide_instance env now c pr m persist mode run_id created) (drop_provider c)) pl))"

definition close_pipeline :: "('p pipeline, unit) op" where
  "close_pipeline pl = (Inr (), pl\<lparr>pl_providers := []\<rparr>)"

subsection \<open>Sizing a decision\<close>

definition check_session :: "portfolio_decision \<Rightarrow> strategy_config \<Rightarrow> string \<Rightarrow> exn + unit" where
  "check_session d c session =
     (if sc_frequency c = ''day'' then
        (if take 10 session \<noteq> take 10 (pd_effective_session d)
         then Inl (ValueError (''decision is effective on '' @ pd_effective_session d @ '', not '' @ session)) else Inr ())
      else if session < pd_effective_session d
      then Inl (ValueError (''decision is not effective until '' @ pd_effective_session d))
      else if pd_valid_until d \<noteq> [] \<and> session > pd_valid_until d
      then Inl (ValueError (''decision expired at '' @ pd_valid_until d))
      else Inr ())"

definition required_instruments :: "portfolio_decision \<Rightarrow> account_snapshot \<Rightarrow> string list" where
  "required_instruments d account = map canonical_instrument (map fst (tw_weights (pd_target_weights d)) @
     map fst (filter (\<lambda>(_, v). v \<noteq> 0) (as_positions account)) @
     map fst (filter (\<lambda>(_, v). v \<noteq> 0) (as_active_order_deltas account)))"

definition missing_from :: "string list \<Rightarrow> (string \<times> 'v) list \<Rightarrow> string list" where
  "missing_from required rows = sort (remdups (filter (\<lambda>i. i \<notin> canonical_instrument ` fst ` set rows) required))"

fun check_quotes :: "string list \<Rightarrow> string \<Rightarrow> (string \<times> tradable_quote) list \<Rightarrow> exn + unit" where
  "check_quotes required session [] = Inr ()"
| "check_quotes required session ((k, q) # rows) =
     (if canonical_instrument k \<notin> set required then check_quotes required session rows
      else if tq_price_source q \<noteq> ''raw'' \<or> tq_stale q \<or> tq_suspended q
      then Inl (ValueError (''raw tradable quote is unavailable for '' @ k))
      else if take 10 (tq_as_of q) \<noteq> take 10 session then Inl (ValueError (''quote session mismatch for '' @ k))
      else check_quotes required session rows)"

definition size_decision ::
  "(string \<Rightarrow> string) \<Rightarrow> int \<Rightarrow> portfolio_decision \<Rightarrow> strategy_config \<Rightarrow> account_snapshot \<Rightarrow> (string \<times> tradable_quote) list \<Rightarrow>
   (string \<times> instrument_metadata) list \<Rightarrow> string \<Rightarrow> fee_schedule \<Rightarrow> exn + target_portfolio" where
  "size_decision hash24 lot_size d c account quotes instruments session fees =
     (if pd_instance_id d \<noteq> sc_instance_id c \<or> pd_config_hash d \<noteq> sc_config_hash c
      then Inl (ValueError ''decision binding does not match the immutable strategy instance'')
      else on_value (check_session d c session) (\<lambda>_.
        let required = required_instruments d account; no_quotes = missing_from required quotes;
            no_metadata = missing_from required instruments in
        if as_external_orders account \<noteq> []
        then Inl (ValueError ''external active orders require reconciliation before sizing'')
        else if no_quotes \<noteq> [] \<or> no_metadata \<noteq> []
        then Inl (ValueError (''execution data incomplete: quotes='' @ list_repr no_quotes @ '', metadata='' @ list_repr no_metadata))
        else on_value (check_quotes required session quotes) (\<lambda>_.
          size_portfolio hash24 lot_size (pd_target_weights d) account []
            \<lparr>si_instance_id = sc_instance_id c, si_config_hash = sc_config_hash c\<rparr> quotes instruments fees
            (pd_decision_id d) (pd_effective_session d) (pd_valid_until d))))"

end
