(* ===== verification/Comparison.thy ===== *)
theory Comparison
  imports Decision_Tables
begin

section \<open>Comparing the decisions of two runs\<close>

text \<open>
  \<open>DecisionComparisonService\<close> of \<open>systems/trading/comparison.py\<close> with the comparison tables of
  \<open>systems/trading/store.py\<close>: the observations of two runs are grouped by session and compared, each
  session gives one result row, and the counts of the rows close the comparison.  Between the
  transactions of one comparison the deployment tables, an argument, are taken as unchanged.
\<close>

subsection \<open>The comparison tables\<close>

record comparison_view =
  cv_id :: string
  cv_row :: comparison_row
  cv_results :: "(string \<times> comparison_result) list"

definition results_of :: "string \<Rightarrow> decision_store \<Rightarrow> (string \<times> comparison_result) list" where
  "results_of comparison_id dt = List.map_filter (\<lambda>((c, session), r). if c = comparison_id then Some (session, r) else None)
     (dt_results dt)"

definition get_decision_comparison :: "string \<Rightarrow> decision_store \<Rightarrow> exn + comparison_view" where
  "get_decision_comparison comparison_id dt = (case map_of (dt_comparisons dt) comparison_id of
     None \<Rightarrow> key_error (''unknown decision comparison '' @ quoted comparison_id)
   | Some row \<Rightarrow> Inr \<lparr>cv_id = comparison_id, cv_row = row, cv_results = sort_key fst (results_of comparison_id dt)\<rparr>)"

definition list_decision_comparisons :: "string \<Rightarrow> decision_store \<Rightarrow> (exn + comparison_view) list" where
  "list_decision_comparisons instance_id dt = map (\<lambda>(i, _). get_decision_comparison i dt)
     (sort_key (\<lambda>(i, c). (cp_created_at c, i)) (filter (\<lambda>(_, c). cp_instance_id c = instance_id) (dt_comparisons dt)))"

text \<open>The two runs that a comparison names.\<close>

record compared_runs =
  rs_left_mode :: string
  rs_left_run_id :: string
  rs_right_mode :: string
  rs_right_run_id :: string

definition create_decision_comparison ::
  "string \<Rightarrow> string \<Rightarrow> (exn + instance_row) \<Rightarrow> string \<Rightarrow> compared_runs \<Rightarrow> (decision_store, comparison_view) op" where
  "create_decision_comparison now comparison_id current instance_id runs dt = (case current of
     Inl e \<Rightarrow> (Inl e, dt)
   | Inr row \<Rightarrow>
       (if map_of (dt_comparisons dt) comparison_id \<noteq> None
        then (Inl (uat_integrity_error ''UNIQUE constraint failed: decision_comparisons.comparison_id''), dt)
        else if instance_id \<notin> set (dt_instances dt)
        then (Inl (uat_integrity_error ''FOREIGN KEY constraint failed''), dt)
        else let dt' = dt\<lparr>dt_comparisons := dict_set comparison_id \<lparr>cp_instance_id = instance_id,
               cp_config_hash = ir_config_hash row, cp_left_mode = rs_left_mode runs, cp_left_run_id = rs_left_run_id runs,
               cp_right_mode = rs_right_mode runs, cp_right_run_id = rs_right_run_id runs, cp_status = ''running'',
               cp_compared = 0, cp_match = 0, cp_mismatch = 0, cp_not_comparable = 0, cp_details = JObj [],
               cp_created_at = now, cp_updated_at = now\<rparr> (dt_comparisons dt)\<rparr>
             in (get_decision_comparison comparison_id dt', dt')))"

definition record_comparison_result ::
  "string \<Rightarrow> string \<Rightarrow> string \<Rightarrow> comparison_result \<Rightarrow> (decision_store, unit) op" where
  "record_comparison_result now comparison_id session r dt =
     (if cr_status r \<notin> {''match'', ''mismatch'', ''not_comparable''}
      then (Inl (ValueError ''invalid decision comparison result status''), dt)
      else if map_of (dt_comparisons dt) comparison_id = None
      then (Inl (uat_integrity_error ''FOREIGN KEY constraint failed''), dt)
      else (Inr (), dt\<lparr>dt_results := dict_set (comparison_id, session)
        (r\<lparr>cr_details := or_object (cr_details r), cr_created_at := now\<rparr>) (dt_results dt)\<rparr>))"

definition count_status :: "string \<Rightarrow> string \<Rightarrow> decision_store \<Rightarrow> int" where
  "count_status comparison_id status dt = int (List.length (filter (\<lambda>(_, r). cr_status r = status) (results_of comparison_id dt)))"

definition finish_decision_comparison :: "string \<Rightarrow> string \<Rightarrow> json \<Rightarrow> (decision_store, comparison_view) op" where
  "finish_decision_comparison now comparison_id details dt =
     (let compared = int (List.length (results_of comparison_id dt));
          mismatches = count_status comparison_id ''mismatch'' dt;
          missing = count_status comparison_id ''not_comparable'' dt;
          verdict = (if compared \<noteq> 0 \<and> mismatches = 0 \<and> missing = 0 then ''completed'' else ''completed_with_differences'')
      in case map_of (dt_comparisons dt) comparison_id of
        None \<Rightarrow> (Inl (ValueError ''decision comparison is missing or already terminal''), dt)
      | Some row \<Rightarrow>
          if cp_status row \<noteq> ''running'' then (Inl (ValueError ''decision comparison is missing or already terminal''), dt)
          else let dt' = dt\<lparr>dt_comparisons := dict_set comparison_id (row\<lparr>cp_status := verdict, cp_compared := compared,
                 cp_match := count_status comparison_id ''match'' dt, cp_mismatch := mismatches,
                 cp_not_comparable := missing, cp_details := or_object details, cp_updated_at := now\<rparr>) (dt_comparisons dt)\<rparr>
               in (get_decision_comparison comparison_id dt', dt'))"

subsection \<open>Two observations\<close>

definition input_fields :: "observation \<Rightarrow> (string \<times> string) list" where
  "input_fields ob = [(''history_hash'', ob_history_hash ob), (''provider_state_before_hash'', ob_state_before_hash ob),
     (''data_version'', ob_data_version ob), (''model_version'', ob_model_version ob), (''policy_version'', ob_policy_version ob)]"

definition output_fields :: "observation \<Rightarrow> (string \<times> string) list" where
  "output_fields ob = [(''provider_state_after_hash'', ob_state_after_hash ob), (''signal_hash'', ob_signal_hash ob),
     (''weights_hash'', ob_weights_hash ob)]"

definition differences :: "(string \<times> string) list \<Rightarrow> (string \<times> string) list \<Rightarrow> (string \<times> json) list" where
  "differences left right = List.map_filter (\<lambda>((k, a), (_, b)). if a \<noteq> b
     then Some (k, JObj [(''left'', JStr a), (''right'', JStr b)]) else None) (zip left right)"

definition execution_comparable :: "observation \<Rightarrow> observation \<Rightarrow> bool" where
  "execution_comparable l r \<longleftrightarrow> ob_account_hash l \<noteq> [] \<and> ob_account_hash l = ob_account_hash r \<and>
     ob_quote_hash l \<noteq> [] \<and> ob_quote_hash l = ob_quote_hash r \<and>
     ob_instrument_hash l \<noteq> [] \<and> ob_instrument_hash l = ob_instrument_hash r"

text \<open>The status, the reason and the details of \<open>_compare_observations\<close>.\<close>

definition compare_observations ::
  "(string \<times> observation) option \<Rightarrow> (string \<times> observation) option \<Rightarrow> string \<times> string \<times> json" where
  "compare_observations left right = (case (left, right) of
     (Some (_, l), Some (_, r)) \<Rightarrow>
       if differences (input_fields l) (input_fields r) \<noteq> []
       then (''not_comparable'', ''decision inputs differ'',
         JObj [(''differences'', JObj (differences (input_fields l) (input_fields r)))])
       else if differences (output_fields l) (output_fields r) \<noteq> []
       then (''mismatch'', ''deterministic decision outputs differ'',
         JObj [(''differences'', JObj (differences (output_fields l) (output_fields r)))])
       else (''match'', ''signal and target weights match'', JObj [(''execution_comparable'', JBool (execution_comparable l r)),
         (''execution_match'', JBool (execution_comparable l r \<and> ob_plan_hash l \<noteq> [] \<and> ob_plan_hash l = ob_plan_hash r))])
   | _ \<Rightarrow> let side = (if left = None then ''left'' else ''right'') in
       (''not_comparable'', side @ '' observation is missing'', JObj [(''missing'', JStr side)]))"

subsection \<open>The service\<close>

definition session_key :: "bool \<Rightarrow> observation \<Rightarrow> string" where
  "session_key daily ob = (if daily then take 10 (ob_as_of ob) else ob_as_of ob)"

text \<open>The observations of one session of one side, in the order of the rows.\<close>

definition session_rows :: "string \<Rightarrow> bool \<Rightarrow> (string \<times> observation) list \<Rightarrow> string \<Rightarrow> (string \<times> observation) list" where
  "session_rows config_hash daily rows session =
     filter (\<lambda>(_, ob). ob_config_hash ob = config_hash \<and> session_key daily ob = session) rows"

definition grouped_sessions :: "string \<Rightarrow> bool \<Rightarrow> (string \<times> observation) list \<Rightarrow> string list" where
  "grouped_sessions config_hash daily rows =
     map (\<lambda>(_, ob). session_key daily ob) (filter (\<lambda>(_, ob). ob_config_hash ob = config_hash) rows)"

definition only_row :: "'a list \<Rightarrow> 'a option" where
  "only_row rows = (if List.length rows = 1 then Some (hd rows) else None)"

definition session_result :: "(string \<times> observation) list \<Rightarrow> (string \<times> observation) list \<Rightarrow> comparison_result" where
  "session_result lrows rrows =
     (let left = only_row lrows; right = only_row rrows;
          (status, reason, details) =
            (if List.length lrows > 1 \<or> List.length rrows > 1
             then (''not_comparable'', ''multiple decision observations exist for one comparison session'',
               JObj [(''left_count'', JNum (of_nat (List.length lrows))), (''right_count'', JNum (of_nat (List.length rrows)))])
             else compare_observations left right)
      in \<lparr>cr_status = status, cr_reason = reason,
          cr_left_id = (case left of None \<Rightarrow> [] | Some (i, _) \<Rightarrow> i), cr_right_id = (case right of None \<Rightarrow> [] | Some (i, _) \<Rightarrow> i),
          cr_details = details, cr_created_at = []\<rparr>)"

definition comparison_modes :: "string list" where
  "comparison_modes = [''replay'', ''paper'', ''simulation'', ''shadow'', ''live'']"

definition stripped_runs :: "compared_runs \<Rightarrow> compared_runs" where
  "stripped_runs runs = \<lparr>rs_left_mode = str_lower (str_strip (rs_left_mode runs)), rs_left_run_id = str_strip (rs_left_run_id runs),
     rs_right_mode = str_lower (str_strip (rs_right_mode runs)), rs_right_run_id = str_strip (rs_right_run_id runs)\<rparr>"

definition comparison_details :: "compared_runs \<Rightarrow> json" where
  "comparison_details runs =
     JObj [(''left'', JObj [(''mode'', JStr (rs_left_mode runs)), (''run_id'', JStr (rs_left_run_id runs))]),
       (''right'', JObj [(''mode'', JStr (rs_right_mode runs)), (''run_id'', JStr (rs_right_run_id runs))])]"

definition is_daily :: "instance_row \<Rightarrow> bool" where
  "is_daily row \<longleftrightarrow> or_text (sc_frequency (ir_config row)) ''day'' = ''day''"

definition side_rows :: "string \<Rightarrow> string \<Rightarrow> string \<Rightarrow> decision_store \<Rightarrow> (string \<times> observation) list" where
  "side_rows instance_id mode run_id dt = list_decision_observations instance_id (Some mode) (Some run_id) dt"

definition compared_sessions ::
  "string \<Rightarrow> bool \<Rightarrow> (string \<times> observation) list \<Rightarrow> (string \<times> observation) list \<Rightarrow> string list" where
  "compared_sessions config_hash daily lrows rrows =
     sort (remdups (grouped_sessions config_hash daily lrows @ grouped_sessions config_hash daily rrows))"

definition compare_runs ::
  "string \<Rightarrow> string \<Rightarrow> (exn + instance_row) \<Rightarrow> string \<Rightarrow> compared_runs \<Rightarrow> (decision_store, comparison_view) op" where
  "compare_runs now comparison_id current instance_id requested =
     (let runs = stripped_runs requested;
          invalid = filter (\<lambda>m. m \<notin> set comparison_modes) (sort (remdups [rs_left_mode runs, rs_right_mode runs])) in
      if invalid \<noteq> []
      then op_raise (ValueError (''unsupported decision-comparison modes: '' @ list_repr invalid))
      else if rs_left_run_id runs = [] \<or> rs_right_run_id runs = []
      then op_raise (ValueError ''left_run_id and right_run_id are required'')
      else op_bind (create_decision_comparison now comparison_id current instance_id runs) (\<lambda>v dt.
        case current of
          Inl e \<Rightarrow> (Inl e, dt)
        | Inr row \<Rightarrow>
            (let config_hash = cp_config_hash (cv_row v); daily = is_daily row;
                 lrows = side_rows instance_id (rs_left_mode runs) (rs_left_run_id runs) dt;
                 rrows = side_rows instance_id (rs_right_mode runs) (rs_right_run_id runs) dt in
             op_then (op_for (compared_sessions config_hash daily lrows rrows) (\<lambda>session.
                 record_comparison_result now comparison_id session
                   (session_result (session_rows config_hash daily lrows session) (session_rows config_hash daily rrows session))))
               (finish_decision_comparison now comparison_id (comparison_details runs)) dt)))"

end
