(* ===== verification/Decision_Safety.thy ===== *)
theory Decision_Safety
  imports Comparison Acceptance_Safety
begin

section \<open>What the decision tables guarantee\<close>

text \<open>
  The steps are the transactions of the decision tables with any arguments, in any interleaving of
  processes.  A decision, a signal and an artifact never change once written, a decision only changes its
  status; an observation is unique for its key and keeps what was decided; the rows of a finished
  comparison add up.
\<close>

subsection \<open>Steps\<close>

inductive dt_trans :: "(json \<Rightarrow> string) \<Rightarrow> decision_store \<Rightarrow> decision_store \<Rightarrow> bool" for digest where
  dt_artifact: "dt_trans digest dt (snd (record_artifact_manifest digest now i c manifest dt))"
| dt_signal: "dt_trans digest dt (snd (record_signal_envelope now k s dt))"
| dt_log: "dt_trans digest dt (snd (record_decision now k i c payload dt))"
| dt_decision: "dt_trans digest dt (snd (record_portfolio_decision now payload dt))"
| dt_status: "dt_trans digest dt (snd (update_decision_status now k status dt))"
| dt_checkpoint: "dt_trans digest dt (snd (save_provider_checkpoint now i c row dt))"
| dt_observe: "dt_trans digest dt (snd (record_decision_observation now k ob dt))"
| dt_attach: "dt_trans digest dt (snd (attach_execution_observation digest key h dt))"
| dt_compare: "dt_trans digest dt (snd (create_decision_comparison now k current i runs dt))"
| dt_result: "dt_trans digest dt (snd (record_comparison_result now k session r dt))"
| dt_finish: "dt_trans digest dt (snd (finish_decision_comparison now k details dt))"

abbreviation dt_run :: "(json \<Rightarrow> string) \<Rightarrow> decision_store \<Rightarrow> decision_store \<Rightarrow> bool" where
  "dt_run digest \<equiv> (dt_trans digest)\<^sup>*\<^sup>*"

text \<open>What a written row keeps.\<close>

definition decided_part :: "decision_row \<Rightarrow> decision_row" where
  "decided_part d = d\<lparr>de_status := [], de_updated_at := []\<rparr>"

definition observed_part :: "observation \<Rightarrow> observation" where
  "observed_part ob = ob\<lparr>ob_account_hash := [], ob_quote_hash := [], ob_instrument_hash := [], ob_plan_hash := [],
     ob_created_at := []\<rparr>"

definition same_decision :: "decision_row \<Rightarrow> decision_row \<Rightarrow> bool" where
  "same_decision d d' \<longleftrightarrow> decided_part d' = decided_part d"

definition same_observation :: "observation \<Rightarrow> observation \<Rightarrow> bool" where
  "same_observation ob ob' \<longleftrightarrow> observed_part ob' = observed_part ob"

lemma same_rows [simp]:
  "same_decision d d" "same_decision d (d\<lparr>de_status := status, de_updated_at := now\<rparr>)"
  "same_observation ob ob"
  "same_observation ob (ob\<lparr>ob_account_hash := a, ob_quote_hash := q, ob_instrument_hash := i, ob_plan_hash := p,
     ob_created_at := now\<rparr>)"
  "same_observation ob (ob\<lparr>ob_account_hash := a, ob_quote_hash := q, ob_instrument_hash := i, ob_plan_hash := p\<rparr>)"
  by (simp_all add: same_decision_def same_observation_def decided_part_def observed_part_def)

lemma same_trans:
  "same_decision a b \<Longrightarrow> same_decision b c \<Longrightarrow> same_decision a c"
  "same_observation x y \<Longrightarrow> same_observation y z \<Longrightarrow> same_observation x z"
  by (simp_all add: same_decision_def same_observation_def)

lemma key_of_observed: "key_of (observed_part ob) = key_of ob"
  by (simp add: key_of_def observation_key.truncate_def observed_part_def)

lemma same_observation_key: "same_observation ob ob' \<Longrightarrow> key_of ob' = key_of ob"
  using key_of_observed [of ob] key_of_observed [of ob'] by (simp add: same_observation_def)

definition kept_rows :: "('r \<Rightarrow> 'r \<Rightarrow> bool) \<Rightarrow> (string \<times> 'r) list \<Rightarrow> (string \<times> 'r) list \<Rightarrow> bool" where
  "kept_rows rel tbl tbl' \<longleftrightarrow> (\<forall>k r. map_of tbl k = Some r \<longrightarrow> (\<exists>r'. map_of tbl' k = Some r' \<and> rel r r'))"

lemma kept_rows_refl: "(\<And>r. rel r r) \<Longrightarrow> kept_rows rel tbl tbl"
  by (simp add: kept_rows_def)

lemma kept_rows_set:
  assumes "\<And>r. rel r r" "\<And>r. map_of tbl k = Some r \<Longrightarrow> rel r v"
  shows "kept_rows rel tbl (dict_set k v tbl)"
  using assms by (auto simp: kept_rows_def AList.update_conv')

lemma kept_rows_trans:
  assumes "\<And>a b c. rel a b \<Longrightarrow> rel b c \<Longrightarrow> rel a c"
  shows "kept_rows rel s t \<Longrightarrow> kept_rows rel t u \<Longrightarrow> kept_rows rel s u"
  using assms unfolding kept_rows_def by metis

definition extends_decisions :: "decision_store \<Rightarrow> decision_store \<Rightarrow> bool" where
  "extends_decisions dt dt' \<longleftrightarrow> kept_rows (=) (dt_artifacts dt) (dt_artifacts dt') \<and>
     kept_rows (=) (dt_signals dt) (dt_signals dt') \<and> kept_rows (=) (dt_log dt) (dt_log dt') \<and>
     kept_rows same_decision (dt_decisions dt) (dt_decisions dt') \<and>
     kept_rows same_observation (dt_observations dt) (dt_observations dt')"

lemmas kept_simps = kept_rows_refl [of "(=)", simplified] kept_rows_refl [of same_decision, simplified]
  kept_rows_refl [of same_observation, simplified]

lemma extends_decisions_refl: "extends_decisions dt dt"
  by (simp add: extends_decisions_def kept_simps)

lemma extends_decisions_trans: "extends_decisions a b \<Longrightarrow> extends_decisions b c \<Longrightarrow> extends_decisions a c"
  unfolding extends_decisions_def
  by (meson kept_rows_trans [of "(=)"] kept_rows_trans [of same_decision] kept_rows_trans [of same_observation]
      same_trans trans)

lemma kept_new: "map_of tbl k = None \<Longrightarrow> (\<And>r. rel r r) \<Longrightarrow> kept_rows rel tbl (dict_set k v tbl)"
  by (rule kept_rows_set) auto

lemma ignore_or_insert_cases:
  obtains (error) e where "ignore_or_insert insts i k row tbl = Inl e"
  | (ignored) "ignore_or_insert insts i k row tbl = Inr (tbl, False)"
  | (inserted) "map_of tbl k = None" "i \<in> set insts" "ignore_or_insert insts i k row tbl = Inr (dict_set k row tbl, True)"
  by (cases "map_of tbl k = None"; cases "i \<in> set insts") (auto simp: ignore_or_insert_def)

lemma artifact_extends: "extends_decisions dt (snd (record_artifact_manifest digest now i c manifest dt))"
proof -
  let ?id = "artifact_digest digest i c manifest"
  let ?row = "\<lparr>ar_instance_id = i, ar_config_hash = c, ar_artifact_type = or_text (text_of (jget ''artifact_type'' manifest)) ''unknown'',
     ar_manifest = manifest, ar_created_at = now\<rparr>"
  show ?thesis
    by (cases rule: ignore_or_insert_cases [of "dt_instances dt" i ?id ?row "dt_artifacts dt"])
      (simp_all add: record_artifact_manifest_def Let_def extends_decisions_def kept_simps kept_new split: option.split)
qed

lemma signal_extends: "extends_decisions dt (snd (record_signal_envelope now k s dt))"
  by (cases rule: ignore_or_insert_cases [of "dt_instances dt" "sv_instance_id s" k "s\<lparr>sv_created_at := now\<rparr>" "dt_signals dt"])
    (simp_all add: record_signal_envelope_def extends_decisions_def kept_simps kept_new)

lemma log_extends: "extends_decisions dt (snd (record_decision now k i c payload dt))"
  by (simp add: record_decision_def extends_decisions_def kept_simps kept_new)

lemma record_decision_fields [simp]:
  "dt_decisions (snd (record_decision now k i c payload dt)) = dt_decisions dt"
  "dt_observations (snd (record_decision now k i c payload dt)) = dt_observations dt"
  "dt_instances (snd (record_decision now k i c payload dt)) = dt_instances dt"
  "dt_comparisons (snd (record_decision now k i c payload dt)) = dt_comparisons dt"
  "dt_results (snd (record_decision now k i c payload dt)) = dt_results dt"
  "dt_checkpoints (snd (record_decision now k i c payload dt)) = dt_checkpoints dt"
  by (simp_all add: record_decision_def)

lemma decision_extends: "extends_decisions dt (snd (record_portfolio_decision now payload dt))"
proof -
  let ?row = "decision_row_of now payload" and ?k = "text_of (jget ''decision_id'' payload)"
  show ?thesis
  proof (cases rule: ignore_or_insert_cases [of "dt_instances dt" "de_instance_id ?row" ?k ?row "dt_decisions dt"])
    case (inserted)
    let ?dt = "dt\<lparr>dt_decisions := dict_set ?k ?row (dt_decisions dt)\<rparr>"
    have "extends_decisions dt ?dt" using inserted(1) by (simp add: extends_decisions_def kept_simps kept_new)
    from extends_decisions_trans [OF this log_extends] inserted(3) show ?thesis
      by (simp add: record_portfolio_decision_def Let_def extends_decisions_refl)
  qed (simp_all add: record_portfolio_decision_def Let_def extends_decisions_refl)
qed

lemma status_extends: "extends_decisions dt (snd (update_decision_status now k status dt))"
proof (cases "map_of (dt_decisions dt) k")
  case None
  then show ?thesis by (simp add: update_decision_status_def extends_decisions_refl)
next
  case (Some d)
  have "kept_rows same_decision (dt_decisions dt) (dict_set k (d\<lparr>de_status := status, de_updated_at := now\<rparr>) (dt_decisions dt))"
    by (rule kept_rows_set) (use Some in auto)
  with Some show ?thesis
    by (simp add: update_decision_status_def Let_def extends_decisions_refl) (simp add: extends_decisions_def kept_simps)
qed

lemma find_observation_row:
  assumes "find_decision_observation key dt = Some (i, ob)" "dict_ok (dt_observations dt)"
  shows "map_of (dt_observations dt) i = Some ob" "key_of ob = key"
proof -
  have found: "find P xs = Some x \<Longrightarrow> x \<in> set xs \<and> P x" for P xs and x :: "string \<times> observation"
    by (induction xs) (simp_all split: if_splits)
  from found [OF assms(1) [unfolded find_decision_observation_def]]
  have mem: "(i, ob) \<in> set (dt_observations dt)" and key: "key_of ob = key" by (simp_all only: case_prod_conv)
  from mem show "map_of (dt_observations dt) i = Some ob" by (rule dict_mem_iff [OF assms(2), THEN iffD1])
  show "key_of ob = key" by (rule key)
qed

lemma find_observation_none:
  "find_decision_observation key dt = None \<longleftrightarrow> key \<notin> set (map (key_of \<circ> snd) (dt_observations dt))"
  by (force simp: find_decision_observation_def find_None_iff)

text \<open>How the two writers of observations change their table.\<close>

lemma observe_cases:
  obtains "dt_observations (snd (record_decision_observation now k ob dt)) = dt_observations dt"
  | i old new where "find_decision_observation (key_of new) dt = Some (i, old)" "changed_fields old new = []"
      "new = ob\<lparr>ob_mode := or_text (ob_mode ob) ''unknown'', ob_created_at := now\<rparr>"
      "dt_observations (snd (record_decision_observation now k ob dt)) = dict_set i (old\<lparr>ob_account_hash := ob_account_hash new,
        ob_quote_hash := ob_quote_hash new, ob_instrument_hash := ob_instrument_hash new, ob_plan_hash := ob_plan_hash new,
        ob_created_at := now\<rparr>) (dt_observations dt)"
  | new where "find_decision_observation (key_of new) dt = None" "map_of (dt_observations dt) k = None"
      "dt_observations (snd (record_decision_observation now k ob dt)) = dict_set k new (dt_observations dt)"
proof -
  let ?new = "ob\<lparr>ob_mode := or_text (ob_mode ob) ''unknown'', ob_created_at := now\<rparr>"
  show thesis
  proof (cases "find_decision_observation (key_of ?new) dt")
    case None
    then show thesis
      by (cases "map_of (dt_observations dt) k = None") (auto simp: record_decision_observation_def Let_def intro: that(1,3))
  next
    case (Some p)
    obtain i old where p: "p = (i, old)" by (cases p)
    show thesis
    proof (cases "changed_fields old ?new = []")
      case True
      with Some p show thesis by (intro that(2) [of ?new i old]) (simp_all add: record_decision_observation_def Let_def)
    next
      case False
      with Some p show thesis by (intro that(1)) (simp add: record_decision_observation_def Let_def)
    qed
  qed
qed

lemma attach_cases:
  obtains "dt_observations (snd (attach_execution_observation digest key h dt)) = dt_observations dt"
  | i ob where "find_decision_observation key dt = Some (i, ob)" "ob_plan_hash ob = []"
      "dt_observations (snd (attach_execution_observation digest key h dt)) = dict_set i
        (ob\<lparr>ob_account_hash := combined_hash digest (ob_account_hash ob) (eh_account h),
            ob_quote_hash := combined_hash digest (ob_quote_hash ob) (eh_quote h),
            ob_instrument_hash := combined_hash digest (ob_instrument_hash ob) (eh_instrument h),
            ob_plan_hash := eh_plan h\<rparr>) (dt_observations dt)"
proof (cases "find_decision_observation key dt")
  case None
  then show thesis by (intro that(1)) (simp add: attach_execution_observation_def)
next
  case (Some p)
  obtain i ob where p: "p = (i, ob)" by (cases p)
  show thesis
  proof (cases "ob_plan_hash ob = [] \<and> eh_account h \<noteq> [] \<and> eh_quote h \<noteq> [] \<and> eh_instrument h \<noteq> [] \<and> eh_plan h \<noteq> []")
    case True
    with Some p show thesis by (intro that(2)) (simp_all add: attach_execution_observation_def Let_def)
  next
    case False
    with Some p show thesis by (intro that(1)) (auto simp: attach_execution_observation_def Let_def)
  qed
qed

text \<open>Both write, if anything, either a new key or the same observation with other context hashes.\<close>

definition observation_write :: "(string \<times> observation) list \<Rightarrow> (string \<times> observation) list \<Rightarrow> bool" where
  "observation_write tbl tbl' \<longleftrightarrow> tbl' = tbl \<or>
     (\<exists>k new. map_of tbl k = None \<and> key_of new \<notin> set (map (key_of \<circ> snd) tbl) \<and> tbl' = dict_set k new tbl) \<or>
     (\<exists>i old new. map_of tbl i = Some old \<and> same_observation old new \<and> tbl' = dict_set i new tbl)"

lemma observe_writes:
  assumes "dict_ok (dt_observations dt)"
  shows "observation_write (dt_observations dt) (dt_observations (snd (record_decision_observation now k ob dt)))"
proof (cases rule: observe_cases [of now k ob dt])
  case 1
  then show ?thesis by (simp add: observation_write_def)
next
  case (2 i old new)
  from find_observation_row(1) [OF 2(1) assms] same_rows(4) [of old] 2(4) show ?thesis
    unfolding observation_write_def by blast
next
  case (3 new)
  then show ?thesis unfolding observation_write_def find_observation_none by blast
qed

lemma attach_writes:
  assumes "dict_ok (dt_observations dt)"
  shows "observation_write (dt_observations dt) (dt_observations (snd (attach_execution_observation digest key h dt)))"
proof (cases rule: attach_cases [of digest key h dt])
  case 1
  then show ?thesis by (simp add: observation_write_def)
next
  case (2 i ob)
  from find_observation_row(1) [OF 2(1) assms] same_rows(5) [of ob] 2(3) show ?thesis
    unfolding observation_write_def by blast
qed

lemma observation_write_kept: "observation_write tbl tbl' \<Longrightarrow> kept_rows same_observation tbl tbl'"
  unfolding observation_write_def by (elim disjE exE conjE) (auto intro!: kept_rows_set simp: kept_simps)

lemma keys_of_dict_set:
  "map_of tbl i = Some old \<Longrightarrow> f new = f old \<Longrightarrow> map (f \<circ> snd) (dict_set i new tbl) = map (f \<circ> snd) tbl"
  "map_of tbl k = None \<Longrightarrow> map (f \<circ> snd) (dict_set k new tbl) = map (f \<circ> snd) tbl @ [f new]"
  by (induction tbl) (auto split: if_splits)

lemma observation_write_unique:
  "observation_write tbl tbl' \<Longrightarrow> distinct (map (key_of \<circ> snd) tbl) \<Longrightarrow> dict_ok tbl \<Longrightarrow>
     distinct (map (key_of \<circ> snd) tbl') \<and> dict_ok tbl'"
  unfolding observation_write_def
  by (elim disjE exE conjE) (simp_all add: keys_of_dict_set same_observation_key del: map_map)

subsection \<open>Every step\<close>

definition decisions_ok :: "decision_store \<Rightarrow> bool" where
  "decisions_ok dt \<longleftrightarrow> dict_ok (dt_observations dt) \<and> distinct (map (key_of \<circ> snd) (dt_observations dt)) \<and>
     fst ` fst ` set (dt_results dt) \<subseteq> fst ` set (dt_comparisons dt)"

lemma decisions_ok_empty: "decisions_ok (empty_decisions instances)"
  by (simp add: decisions_ok_def empty_decisions_def)

lemma other_fields:
  "dt_observations (snd (record_artifact_manifest digest now i c manifest dt)) = dt_observations dt"
  "dt_observations (snd (record_signal_envelope now k s dt)) = dt_observations dt"
  "dt_observations (snd (record_portfolio_decision now payload dt)) = dt_observations dt"
  "dt_observations (snd (update_decision_status now k status dt)) = dt_observations dt"
  "dt_observations (snd (save_provider_checkpoint now i c row dt)) = dt_observations dt"
  "dt_observations (snd (create_decision_comparison now k current i runs dt)) = dt_observations dt"
  "dt_observations (snd (record_comparison_result now k session r dt)) = dt_observations dt"
  "dt_observations (snd (finish_decision_comparison now k details dt)) = dt_observations dt"
  by (simp_all add: record_artifact_manifest_def record_signal_envelope_def record_portfolio_decision_def
      update_decision_status_def save_provider_checkpoint_def create_decision_comparison_def record_comparison_result_def
      finish_decision_comparison_def Let_def split: sum.split option.split bool.split prod.split)

lemma observe_extends:
  "dict_ok (dt_observations dt) \<Longrightarrow> extends_decisions dt (snd (record_decision_observation now k ob dt))"
  "dict_ok (dt_observations dt) \<Longrightarrow> extends_decisions dt (snd (attach_execution_observation digest key h dt))"
  using observation_write_kept [OF observe_writes, of dt now k ob] observation_write_kept [OF attach_writes, of dt digest key h]
  by (simp_all add: extends_decisions_def kept_simps record_decision_observation_def attach_execution_observation_def Let_def
      split: option.split prod.split)

lemma other_extends:
  "extends_decisions dt (snd (save_provider_checkpoint now i c row dt))"
  "extends_decisions dt (snd (create_decision_comparison now k current i runs dt))"
  "extends_decisions dt (snd (record_comparison_result now k session r dt))"
  "extends_decisions dt (snd (finish_decision_comparison now k details dt))"
  by (simp_all add: extends_decisions_def kept_simps save_provider_checkpoint_def create_decision_comparison_def
      record_comparison_result_def finish_decision_comparison_def Let_def split: sum.split option.split)

lemma dt_trans_extends: "dt_trans digest dt dt' \<Longrightarrow> dict_ok (dt_observations dt) \<Longrightarrow> extends_decisions dt dt'"
  by (induction rule: dt_trans.cases)
    (simp_all only: artifact_extends signal_extends log_extends decision_extends status_extends other_extends observe_extends)

text \<open>The foreign key of the results, and the observations.\<close>

definition results_owned :: "decision_store \<Rightarrow> bool" where
  "results_owned dt \<longleftrightarrow> fst ` fst ` set (dt_results dt) \<subseteq> fst ` set (dt_comparisons dt)"

lemma dict_set_fst: "fst ` set (dict_set k v d) = insert k (fst ` set d)"
  by (induction d) auto

lemma results_owned_steps:
  assumes "results_owned dt"
  shows "results_owned (snd (create_decision_comparison now k current i runs dt))"
    "results_owned (snd (record_comparison_result now k session r dt))"
    "results_owned (snd (finish_decision_comparison now k details dt))"
proof -
  have known: "map_of (dt_comparisons dt) k \<noteq> None \<Longrightarrow> k \<in> fst ` set (dt_comparisons dt)"
    by (simp add: map_of_eq_None_iff)
  show "results_owned (snd (create_decision_comparison now k current i runs dt))"
    using assms by (auto simp: create_decision_comparison_def results_owned_def Let_def dict_set_fst split: sum.split)
  show "results_owned (snd (record_comparison_result now k session r dt))"
    using assms known by (auto simp: record_comparison_result_def results_owned_def dict_set_fst simp del: not_None_eq)
  show "results_owned (snd (finish_decision_comparison now k details dt))"
    using assms by (auto simp: finish_decision_comparison_def results_owned_def Let_def dict_set_fst split: option.split)
qed

lemma results_owned_other:
  "results_owned dt \<Longrightarrow> results_owned (snd (record_artifact_manifest digest now i c manifest dt))"
  "results_owned dt \<Longrightarrow> results_owned (snd (record_signal_envelope now k s dt))"
  "results_owned dt \<Longrightarrow> results_owned (snd (record_decision now k i c payload dt))"
  "results_owned dt \<Longrightarrow> results_owned (snd (record_portfolio_decision now payload dt))"
  "results_owned dt \<Longrightarrow> results_owned (snd (update_decision_status now k status dt))"
  "results_owned dt \<Longrightarrow> results_owned (snd (save_provider_checkpoint now i c row dt))"
  "results_owned dt \<Longrightarrow> results_owned (snd (record_decision_observation now k ob dt))"
  "results_owned dt \<Longrightarrow> results_owned (snd (attach_execution_observation digest key h dt))"
  by (simp_all add: results_owned_def record_artifact_manifest_def record_signal_envelope_def record_decision_def
      record_portfolio_decision_def update_decision_status_def save_provider_checkpoint_def record_decision_observation_def
      attach_execution_observation_def Let_def split: sum.split option.split bool.split prod.split)

lemma decisions_ok_iff: "decisions_ok dt \<longleftrightarrow>
   dict_ok (dt_observations dt) \<and> distinct (map (key_of \<circ> snd) (dt_observations dt)) \<and> results_owned dt"
  by (simp add: decisions_ok_def results_owned_def)

lemma dt_trans_ok: "dt_trans digest dt dt' \<Longrightarrow> decisions_ok dt \<Longrightarrow> decisions_ok dt'"
proof (induction rule: dt_trans.cases)
  case (dt_observe dt now k ob)
  then show ?case
    using observation_write_unique [OF observe_writes, of dt now k ob] by (simp add: decisions_ok_iff results_owned_other)
next
  case (dt_attach dt key h)
  then show ?case
    using observation_write_unique [OF attach_writes, of dt digest key h] by (simp add: decisions_ok_iff results_owned_other)
qed (simp_all add: decisions_ok_iff other_fields results_owned_other results_owned_steps)

lemma dt_run_ok: "dt_run digest dt dt' \<Longrightarrow> decisions_ok dt \<Longrightarrow> decisions_ok dt'"
  by (induction rule: rtranclp_induct) (auto intro: dt_trans_ok)

lemma dt_run_extends: "dt_run digest dt dt' \<Longrightarrow> decisions_ok dt \<Longrightarrow> extends_decisions dt dt'"
proof (induction rule: rtranclp_induct)
  case base
  show ?case by (rule extends_decisions_refl)
next
  case (step dt1 dt2)
  from dt_run_ok [OF step(1,4)] have "dict_ok (dt_observations dt1)" by (simp add: decisions_ok_def)
  from extends_decisions_trans [OF step.IH [OF step(4)] dt_trans_extends [OF step(2) this]] show ?case .
qed

end
