(* ===== verification/Pipeline_Facts.thy ===== *)
theory Pipeline_Facts
  imports Decision_Pipeline Decision_Safety
begin

section \<open>What the decision pipeline guarantees\<close>

text \<open>
  The prepared history covers the universe bar for bar, checked weights stay within the account, a
  decision is stored with its observation and checkpoint and recalled afterwards, a changed history is
  refused, a preview writes nothing, and a failed evaluation forgets its provider.
\<close>

subsection \<open>The prepared history\<close>

lemma last_n_length: "int (List.length xs) \<ge> n \<Longrightarrow> n \<ge> 0 \<Longrightarrow> int (List.length (last_n n xs)) = n"
  by (simp add: last_n_def)

lemma available_bars_le: "(i, bs) \<in> set grouped \<Longrightarrow> available_bars grouped \<le> int (List.length bs)"
  by (auto simp: available_bars_def intro!: Min_le rev_image_eqI)

lemma aligned_same: "aligned grouped \<Longrightarrow> (i, bs) \<in> set grouped \<Longrightarrow> (j, cs) \<in> set grouped \<Longrightarrow>
    map cb_datetime bs = map cb_datetime cs"
proof -
  assume "aligned grouped" and mem: "(i, bs) \<in> set grouped" "(j, cs) \<in> set grouped"
  then have "card (set (map (\<lambda>(_, bs). map cb_datetime bs) grouped)) = 1"
    by (simp add: aligned_def length_remdups_card_conv)
  then obtain t where "set (map (\<lambda>(_, bs). map cb_datetime bs) grouped) = {t}" by (rule card_1_singletonE)
  then have "\<forall>p\<in>set grouped. map cb_datetime (snd p) = t" by (auto simp: set_eq_iff)
  with mem show ?thesis by (metis snd_conv)
qed

lemma latest_text_Max:
  assumes "xs \<noteq> []" shows "latest_text xs = Max (set xs)"
proof -
  have bot: "max [] x = x" for x :: string by (simp add: max_def)
  from assms obtain x ys where xs: "xs = x # ys" by (cases xs) auto
  have "fold max ys x = Max (set (x # ys))" by (rule Max.set_eq_fold [symmetric])
  then show ?thesis by (simp add: latest_text_def xs bot max.commute [of _ "[]"])
qed

lemma prepare_window_fields:
  assumes "prepare_window env c d window grouped = Inr pr"
  shows "pr_definition pr = d" "pr_window pr = window" "pr_grouped pr = grouped" "aligned grouped"
    "pr_history pr = sort_key bar_order (concat (map snd grouped))"
    "pr_as_of pr = latest_text (map cb_datetime (pr_history pr))"
    "ca_is_session (ev_calendar env) (take 10 (pr_as_of pr))"
    "set (map cb_instrument (filter (\<lambda>b. cb_datetime b = pr_as_of pr) (pr_history pr))) = canonical_instrument ` set (sc_universe c)"
    "pr_effective pr = effective_of (ev_calendar env) (pr_as_of pr) (sc_frequency c)"
  using assms by (simp_all add: prepare_window_def Let_def split: if_splits) auto

lemma prepareE:
  assumes "prepare env c bars = Inr pr"
  obtains d normalized window where "get_strategy env (sc_strategy_id c) = Inr d" "check_binding c d = Inr ()"
    "validate_bars (ev_is_iso env) c bars = Inr normalized" "resolve_required_history d (sc_params c) \<le> window"
    "window \<le> available_bars (grouped_bars c normalized)"
    "prepare_window env c d window (map (\<lambda>(i, bs). (i, last_n window bs)) (grouped_bars c normalized)) = Inr pr"
  using assms by (auto simp: prepare_def on_value_eq Let_def not_less split: if_splits)

lemma prepared_history:
  assumes "prepare env c bars = Inr pr"
  shows "pr_window pr \<ge> 1" "map fst (pr_grouped pr) = sort (remdups (map canonical_instrument (sc_universe c)))"
    "\<forall>(i, bs)\<in>set (pr_grouped pr). int (List.length bs) = pr_window pr"
    "get_strategy env (sc_strategy_id c) = Inr (pr_definition pr)"
    "resolve_required_history (pr_definition pr) (sc_params c) \<le> pr_window pr"
proof -
  obtain d normalized window where p: "get_strategy env (sc_strategy_id c) = Inr d" "check_binding c d = Inr ()"
    "validate_bars (ev_is_iso env) c bars = Inr normalized" "resolve_required_history d (sc_params c) \<le> window"
    "window \<le> available_bars (grouped_bars c normalized)"
    "prepare_window env c d window (map (\<lambda>(i, bs). (i, last_n window bs)) (grouped_bars c normalized)) = Inr pr"
    by (rule prepareE [OF assms])
  note fields = prepare_window_fields [OF p(6)]
  from p(4) required_history_positive [of d "sc_params c"] have w: "window \<ge> 1" by simp
  with fields(2) show "pr_window pr \<ge> 1" by simp
  from p(1,4) fields(1,2) show "get_strategy env (sc_strategy_id c) = Inr (pr_definition pr)"
    "resolve_required_history (pr_definition pr) (sc_params c) \<le> pr_window pr" by simp_all
  show "map fst (pr_grouped pr) = sort (remdups (map canonical_instrument (sc_universe c)))"
    unfolding fields(3) by (simp add: grouped_bars_def o_def case_prod_beta)
  show "\<forall>(i, bs)\<in>set (pr_grouped pr). int (List.length bs) = pr_window pr"
  proof clarsimp
    fix i bs assume "(i, bs) \<in> set (pr_grouped pr)"
    then obtain xs where xs: "(i, xs) \<in> set (grouped_bars c normalized)" "bs = last_n window xs"
      unfolding fields(3) by auto
    from available_bars_le [OF xs(1)] p(5) have "window \<le> int (List.length xs)" by simp
    with xs(2) w fields(2) show "int (List.length bs) = pr_window pr" by (simp add: last_n_length)
  qed
qed

subsection \<open>Weights\<close>

lemma canonical_weights_id:
  assumes "distinct (map (canonical_instrument \<circ> fst) weights)"
  shows "canonical_weights weights = map (\<lambda>(k, v). (canonical_instrument k, v)) weights"
proof -
  have "fold (\<lambda>(k, v). dict_set (canonical_instrument k) v) weights acc = acc @ map (\<lambda>(k, v). (canonical_instrument k, v)) weights"
    if "\<forall>k\<in>(canonical_instrument \<circ> fst) ` set weights. map_of acc k = None" for acc :: "(string \<times> num) list"
    using assms that
  proof (induction weights arbitrary: acc)
    case (Cons p weights)
    obtain k v where p: "p = (k, v)" by (cases p)
    with Cons.prems have "dict_set (canonical_instrument k) v acc = acc @ [(canonical_instrument k, v)]"
      by (intro dict_set_appended) simp
    moreover have "fold (\<lambda>(k, v). dict_set (canonical_instrument k) v) weights (acc @ [(canonical_instrument k, v)]) =
        (acc @ [(canonical_instrument k, v)]) @ map (\<lambda>(k, v). (canonical_instrument k, v)) weights"
      by (rule Cons.IH) (use Cons.prems p in \<open>auto simp: o_def image_iff\<close>)
    ultimately show ?case using p by simp
  qed simp
  from this [of "[]"] show ?thesis by (simp add: canonical_weights_def)
qed

lemma validated_weights:
  assumes "validate_weights weights universe = Inr ()" "distinct (map (canonical_instrument \<circ> fst) weights)"
  shows "\<forall>(k, v)\<in>set weights. 0 \<le> v \<and> v \<le> 1 \<and> canonical_instrument k \<in> canonical_instrument ` set universe"
    "sum_list (map snd weights) \<le> 1 + 1 / 10^9"
proof -
  have w: "canonical_weights weights = map (\<lambda>(k, v). (canonical_instrument k, v)) weights"
    using assms(2) by (rule canonical_weights_id)
  from assms(1) have ok: "\<not> list_ex (\<lambda>(_, v). v < 0 \<or> v > 1) (canonical_weights weights)"
      "fst ` set (canonical_weights weights) \<subseteq> canonical_instrument ` set universe"
      "sum_list (map snd (canonical_weights weights)) \<le> 1 + 1 / 10^9"
    by (simp_all add: validate_weights_def Let_def not_less split: if_splits)
  have vals: "map snd (canonical_weights weights) = map snd weights" unfolding w by (simp add: o_def case_prod_beta)
  from ok(3) show "sum_list (map snd weights) \<le> 1 + 1 / 10^9" unfolding vals .
  from ok(1,2) show "\<forall>(k, v)\<in>set weights. 0 \<le> v \<and> v \<le> 1 \<and> canonical_instrument k \<in> canonical_instrument ` set universe"
    unfolding w by (force simp: list_ex_iff not_less)
qed

lemma checked_weights:
  assumes "validate_weights weights universe = Inr ()"
  shows "(\<forall>(k, v)\<in>set (canonical_weights weights). 0 \<le> v \<and> v \<le> 1 \<and> k \<in> canonical_instrument ` set universe) \<and>
    sum_list (map snd (canonical_weights weights)) \<le> 1 + 1 / 10^9"
  using assms by (force simp: validate_weights_def Let_def list_ex_iff not_less split: if_splits)

lemma built_weights:
  assumes "build_weights env c pr m s = Inr (p, w)"
  shows "get_policy env (binding_policy c) = Inr p" "sd_signal_kind (pr_definition pr) \<in> set (py_supported_signal_kinds p)"
    "validate_weights (tw_weights w) (sc_universe c) = Inr ()"
  using assms by (auto simp: build_weights_def on_value_eq split: if_splits)

lemma validated_signal:
  assumes "validate_signal s c kind as_of version = Inr ()"
  shows "sg_kind s = kind" "sg_source_instance_id s = sc_instance_id c" "sg_as_of s = as_of" "sg_frequency s = sc_frequency c"
  using assms by (auto simp: validate_signal_def split: if_splits)

lemma prepared_session:
  assumes "prepare env c bars = Inr pr"
  shows "ca_is_session (ev_calendar env) (take 10 (pr_as_of pr))" "check_binding c (pr_definition pr) = Inr ()"
    "pr_effective pr = effective_of (ev_calendar env) (pr_as_of pr) (sc_frequency c)"
  by (rule prepareE [OF assms]; frule prepare_window_fields(1); frule prepare_window_fields(7); drule prepare_window_fields(9); simp)+

subsection \<open>Evaluation\<close>

text \<open>How an evaluation ends: refused before anything, recalled, or decided.\<close>

lemma evaluate_cases:
  assumes "evaluate_instance env now c bars m persist mode run_id pl = (r, pl')"
  obtains (refused) e where "r = Inl e" "pl' = pl"
  | (recalled) pr d where "prepare env c bars = Inr pr" "persist" "recall c pr mode run_id (pl_store pl) = Inr (Some d)"
      "r = Inr \<lparr>rd_decision = d, rd_inserted = False\<rparr>" "pl' = pl"
  | (decided) pr created pl1 where "prepare env c bars = Inr pr"
      "persist \<longrightarrow> recall c pr mode run_id (pl_store pl) = Inr None"
      "acquire_provider env c pr pl = (Inr created, pl1)"
      "op_catch (decide_instance env now c pr m persist mode run_id created) (drop_provider c) pl1 = (r, pl')"
proof (cases "prepare env c bars")
  case (Inl e)
  with assms have "r = Inl e" "pl' = pl" by (simp_all add: evaluate_instance_def)
  then show thesis by (rule refused)
next
  case (Inr pr)
  show thesis
  proof (cases "if persist then recall c pr mode run_id (pl_store pl) else Inr None")
    case (Inl e)
    with Inr assms have "r = Inl e" "pl' = pl" by (simp_all add: evaluate_instance_def)
    then show thesis by (rule refused)
  next
    case (Inr known)
    note prep = \<open>prepare env c bars = Inr pr\<close>
    show thesis
    proof (cases known)
      case (Some d)
      with Inr have p: "persist" "recall c pr mode run_id (pl_store pl) = Inr (Some d)" by (simp_all split: if_splits)
      with Inr prep Some assms have "r = Inr \<lparr>rd_decision = d, rd_inserted = False\<rparr>" "pl' = pl"
        by (simp_all add: evaluate_instance_def)
      with prep p show thesis by (rule recalled)
    next
      case None
      obtain ra pl1 where acq: "acquire_provider env c pr pl = (ra, pl1)" by (cases "acquire_provider env c pr pl")
      have run: "(case ra of Inl e \<Rightarrow> (Inl e, pl1)
          | Inr created \<Rightarrow> op_catch (decide_instance env now c pr m persist mode run_id created) (drop_provider c) pl1) = (r, pl')"
        using assms prep Inr None acq by (simp add: evaluate_instance_def op_bind_def split: sum.splits)
      show thesis
      proof (cases ra)
        case (Inl e)
        then have "pl1 = pl" using acq by (simp add: acquire_provider_def split: option.splits sum.splits)
        with Inl run have "r = Inl e" "pl' = pl" by simp_all
        then show thesis by (rule refused)
      next
        case (Inr created)
        with run acq have "op_catch (decide_instance env now c pr m persist mode run_id created) (drop_provider c) pl1 = (r, pl')"
          "acquire_provider env c pr pl = (Inr created, pl1)" by simp_all
        moreover have "persist \<longrightarrow> recall c pr mode run_id (pl_store pl) = Inr None"
          using \<open>(if persist then recall c pr mode run_id (pl_store pl) else Inr None) = Inr known\<close> None by (simp split: if_splits)
        ultimately show thesis by (intro decided [OF prep])
      qed
    qed
  qed
qed

lemma acquire_store: "pl_store (snd (acquire_provider env c pr pl)) = pl_store pl"
  by (simp add: acquire_provider_def split: option.split sum.split)

text \<open>A failed evaluation forgets its provider; the tables are those of the last transaction.\<close>

lemma evaluate_failure:
  assumes "evaluate_instance env now c bars m persist mode run_id pl = (Inl e, pl')"
  shows "pl' = pl \<or> map_of (pl_providers pl') (provider_key c) = None"
  using assms
proof (cases rule: evaluate_cases)
  case (decided pr created pl1)
  then show ?thesis
    by (auto simp: op_catch_def drop_provider_def AList.delete_conv' split: prod.splits sum.splits)
qed simp_all

text \<open>Providers never write tables.\<close>

lemma on_provider_store [simp]: "pl_store (snd (on_provider key f pl)) = pl_store pl"
  by (simp add: on_provider_def split: option.split prod.split)

lemma keeps_store: "keeps (\<lambda>pl. pl_store pl = dt) (on_provider key f)"
  by (rule keepsI) simp

lemma require_snd [simp]: "snd (require r s) = s"
  by (cases r) (simp_all add: require_def op_raise_def op_return_def)

lemma on_provider_kept: "on_provider key f pl = (r, pl') \<Longrightarrow> pl_store pl' = pl_store pl"
  by (metis on_provider_store snd_conv)

lemma prime_store: "pl_store (snd (prime_provider env c pr ctx pl)) = pl_store pl"
proof -
  obtain r pl1 where init: "on_provider (provider_key c) (vo_initialize (ev_provider env) ctx) pl = (r, pl1)"
    by (cases "on_provider (provider_key c) (vo_initialize (ev_provider env) ctx) pl")
  from on_provider_kept [OF init] show ?thesis
    by (cases r) (simp_all add: prime_provider_def op_then_def op_bind_def init split: option.split)
qed

text \<open>A decision that is returned, step by step.\<close>

lemma bind_InrE:
  assumes "op_bind f g s = (Inr b, s')" obtains a s1 where "f s = (Inr a, s1)" "g a s1 = (Inr b, s')"
  using assms by (auto simp: op_bind_def split: prod.splits sum.splits)

lemma then_InrE:
  assumes "op_then f g s = (Inr b, s')" obtains a s1 where "f s = (Inr a, s1)" "g s1 = (Inr b, s')"
  using assms unfolding op_then_def by (rule bind_InrE)

lemma require_InrE:
  assumes "require r s = (Inr a, s')" obtains "r = Inr a" "s' = s"
  using assms by (cases r) (auto simp: require_def op_raise_def op_return_def)

lemma judgeE:
  assumes "judge env c pr m pl = (Inr (d, after), pl')"
  obtains before s p w where "validate_signal s c (sd_signal_kind (pr_definition pr)) (pr_as_of pr) (pr_data_version pr) = Inr ()"
    "build_weights env c pr m s = Inr (p, w)" "d = decision_of (ev_digests env) c pr before after s p w" "pl_store pl' = pl_store pl"
  using assms unfolding judge_def Let_def
proof (elim bind_InrE then_InrE require_InrE)
  fix before pl1 s pl2 a pl3 pw pl4
  assume snap: "on_provider (provider_key c) (vo_snapshot (ev_provider env)) pl = (Inr before, pl1)"
    and ev: "on_provider (provider_key c) (vo_evaluate (ev_provider env) (context_of c pr)) pl1 = (Inr s, pl2)"
    and v: "validate_signal s c (sd_signal_kind (pr_definition pr)) (pr_as_of pr) (pr_data_version pr) = Inr a" "pl3 = pl2"
    and b: "build_weights env c pr m s = Inr pw" "pl4 = pl3"
    and rest: "(case pw of (p, w) \<Rightarrow> op_bind (on_provider (provider_key c) (vo_snapshot (ev_provider env)))
      (\<lambda>after. op_return (decision_of (ev_digests env) c pr before after s p w, after))) pl4 = (Inr (d, after), pl')"
  obtain p w where pw: "pw = (p, w)" by (cases pw)
  from rest [unfolded pw case_prod_conv] obtain pl5 where p5: "on_provider (provider_key c) (vo_snapshot (ev_provider env)) pl4 = (Inr after, pl5)"
      "d = decision_of (ev_digests env) c pr before after s p w" "pl' = pl5"
    by (elim bind_InrE) (simp add: op_return_def)
  have "pl_store pl' = pl_store pl"
    using on_provider_kept [OF snap] on_provider_kept [OF ev] on_provider_kept [OF p5(1)] v(2) b(2) p5(3) by simp
  with that [of s p w before] v(1) b(1) pw p5(2) show thesis by simp
qed

lemma decideE:
  assumes "decide_instance env now c pr m persist mode run_id created pl = (Inr r, pl')"
  obtains before s p w after pl1 where "validate_signal s c (sd_signal_kind (pr_definition pr)) (pr_as_of pr) (pr_data_version pr) = Inr ()"
    "build_weights env c pr m s = Inr (p, w)" "rd_decision r = decision_of (ev_digests env) c pr before after s p w"
    "if persist then persist_decision (ev_digests env) now m mode run_id (sd_state_schema_version (pr_definition pr)) after
       (rd_decision r) (pl_store pl) = (Inr (rd_inserted r), pl_store pl')
     else \<not> rd_inserted r \<and> pl_store pl' = pl_store pl"
  using assms unfolding decide_instance_def
proof (elim bind_InrE then_InrE)
  fix a pl0 da pl1
  assume p0: "(if created then prime_provider env c pr (context_of c pr) else op_return ()) pl = (Inr a, pl0)"
    and j: "judge env c pr m pl0 = (Inr da, pl1)"
    and rest: "(case da of (d, after) \<Rightarrow> op_bind (if persist then on_decisions (persist_decision (ev_digests env) now m mode run_id
           (sd_state_schema_version (pr_definition pr)) after d) else op_return False)
         (\<lambda>inserted. op_return \<lparr>rd_decision = d, rd_inserted = inserted\<rparr>)) pl1 = (Inr r, pl')"
  obtain d after where da: "da = (d, after)" by (cases da)
  obtain before s p w where ok: "validate_signal s c (sd_signal_kind (pr_definition pr)) (pr_as_of pr) (pr_data_version pr) = Inr ()"
    "build_weights env c pr m s = Inr (p, w)" "d = decision_of (ev_digests env) c pr before after s p w" "pl_store pl1 = pl_store pl0"
    by (rule judgeE [OF j [unfolded da]])
  have st0: "pl_store pl0 = pl_store pl"
    using p0 prime_store [of env c pr "context_of c pr" pl] by (cases created) (auto simp: op_return_def)
  from rest [unfolded da case_prod_conv] obtain inserted pl2 where fin: "(if persist then on_decisions (persist_decision (ev_digests env)
      now m mode run_id (sd_state_schema_version (pr_definition pr)) after d) else op_return False) pl1 = (Inr inserted, pl2)"
      "rd_decision r = d" "rd_inserted r = inserted" "pl' = pl2"
    by (elim bind_InrE) (auto simp: op_return_def)
  from fin(1) have "if persist then persist_decision (ev_digests env) now m mode run_id (sd_state_schema_version (pr_definition pr)) after
       d (pl_store pl) = (Inr inserted, pl_store pl2) else \<not> inserted \<and> pl_store pl2 = pl_store pl"
    unfolding st0 [symmetric] ok(4) [symmetric] by (auto simp: on_decisions_def op_return_def split: if_splits prod.splits)
  with fin(2-4) have "if persist then persist_decision (ev_digests env) now m mode run_id (sd_state_schema_version (pr_definition pr)) after
       (rd_decision r) (pl_store pl) = (Inr (rd_inserted r), pl_store pl') else \<not> rd_inserted r \<and> pl_store pl' = pl_store pl"
    by simp
  moreover have "rd_decision r = decision_of (ev_digests env) c pr before after s p w" using fin(2) ok(3) by simp
  ultimately show thesis using ok(1,2) that by blast
qed

subsection \<open>What is persisted\<close>

lemma signal_fields:
  assumes "record_signal_envelope now k s dt = (r, dt')"
  shows "dt_decisions dt' = dt_decisions dt" "dt_observations dt' = dt_observations dt"
  using assms by (auto simp: record_signal_envelope_def split: sum.splits prod.splits)

lemma decision_json_id [simp]: "text_of (jget ''decision_id'' (decision_json d)) = pd_decision_id d"
  by (simp add: decision_json_def)

lemma portfolio_decision_recorded:
  assumes "record_portfolio_decision now (decision_json d) dt = (Inr inserted, dt')"
  shows "dt_observations dt' = dt_observations dt"
    "map_of (dt_decisions dt') (pd_decision_id d) =
      (if inserted then Some (decision_row_of now (decision_json d)) else map_of (dt_decisions dt) (pd_decision_id d))"
    "inserted \<longleftrightarrow> map_of (dt_decisions dt) (pd_decision_id d) = None"
proof -
  let ?row = "decision_row_of now (decision_json d)"
  show "dt_observations dt' = dt_observations dt"
    using assms other_fields(3) [of now "decision_json d" dt] by simp
  have "map_of (dt_decisions dt') (pd_decision_id d) =
      (if inserted then Some ?row else map_of (dt_decisions dt) (pd_decision_id d)) \<and>
      (inserted \<longleftrightarrow> map_of (dt_decisions dt) (pd_decision_id d) = None)"
    by (cases rule: ignore_or_insert_cases [of "dt_instances dt" "de_instance_id ?row" "pd_decision_id d" ?row "dt_decisions dt"])
      (use assms in \<open>auto simp: record_portfolio_decision_def Let_def AList.update_conv' ignore_or_insert_def split: if_splits\<close>)
  then show "map_of (dt_decisions dt') (pd_decision_id d) =
      (if inserted then Some ?row else map_of (dt_decisions dt) (pd_decision_id d))"
    "inserted \<longleftrightarrow> map_of (dt_decisions dt) (pd_decision_id d) = None" by simp_all
qed

lemma checkpoint_saved:
  assumes "save_provider_checkpoint now i c row dt = (Inr u, dt')"
  shows "dt_decisions dt' = dt_decisions dt" "dt_observations dt' = dt_observations dt"
    "load_provider_checkpoint i c dt' = Some (row\<lparr>ck_updated_at := now\<rparr>)"
  using assms by (auto simp: save_provider_checkpoint_def load_provider_checkpoint_def AList.update_conv' split: if_splits)

lemma find_append: "find P xs = None \<Longrightarrow> find P (xs @ ys) = find P ys"
  by (induction xs) (auto split: if_splits)

lemma new_observation_found:
  assumes "record_decision_observation now k ob dt = (Inr x, dt')" "ob_mode ob \<noteq> []"
    "find_decision_observation (key_of ob) dt = None"
  shows "dt_decisions dt' = dt_decisions dt" "dt_checkpoints dt' = dt_checkpoints dt"
    "find_decision_observation (key_of ob) dt' = Some (k, ob\<lparr>ob_created_at := now\<rparr>)"
proof -
  have mode: "or_text (ob_mode ob) ''unknown'' = ob_mode ob" using assms(2) by (simp add: or_text_def)
  let ?new = "ob\<lparr>ob_created_at := now\<rparr>"
  have key: "key_of ?new = key_of ob" by (simp add: key_of_def observation_key.truncate_def)
  have fresh: "map_of (dt_observations dt) k = None" and dt': "dt' = dt\<lparr>dt_observations := dict_set k ?new (dt_observations dt)\<rparr>"
    using assms(1) by (simp_all add: record_decision_observation_def Let_def mode key assms(3) split: if_splits)
  from dt' show "dt_decisions dt' = dt_decisions dt" "dt_checkpoints dt' = dt_checkpoints dt" by simp_all
  have "dt_observations dt' = dt_observations dt @ [(k, ?new)]" using dt' fresh by (simp add: dict_set_appended)
  with assms(3) key show "find_decision_observation (key_of ob) dt' = Some (k, ob\<lparr>ob_created_at := now\<rparr>)"
    by (simp add: find_decision_observation_def find_append)
qed

lemma persisted:
  assumes "persist_decision dg now m mode run_id schema after d dt = (Inr inserted, dt')" "mode \<noteq> []"
    "find_decision_observation \<lparr>ob_instance_id = pd_instance_id d, ob_config_hash = pd_config_hash d, ob_mode = mode,
       ob_run_id = run_id, ob_as_of = pd_as_of d\<rparr> dt = None"
  shows "map_of (dt_decisions dt') (pd_decision_id d) =
      (if inserted then Some (decision_row_of now (decision_json d)) else map_of (dt_decisions dt) (pd_decision_id d))"
    "inserted \<longleftrightarrow> map_of (dt_decisions dt) (pd_decision_id d) = None"
    "\<exists>i. find_decision_observation \<lparr>ob_instance_id = pd_instance_id d, ob_config_hash = pd_config_hash d, ob_mode = mode,
       ob_run_id = run_id, ob_as_of = pd_as_of d\<rparr> dt' = Some (i, (observation_of dg m mode run_id d)\<lparr>ob_created_at := now\<rparr>)"
    "\<exists>ck. load_provider_checkpoint (pd_instance_id d) (pd_config_hash d) dt' = Some ck \<and> ck_state ck = after \<and>
       ck_last_evaluated_as_of ck = pd_as_of d"
proof -
  let ?ob = "observation_of dg m mode run_id d"
  have key: "key_of ?ob = \<lparr>ob_instance_id = pd_instance_id d, ob_config_hash = pd_config_hash d, ob_mode = mode,
       ob_run_id = run_id, ob_as_of = pd_as_of d\<rparr>" and mode: "ob_mode ?ob \<noteq> []"
    using assms(2) by (simp_all add: key_of_def observation_key.truncate_def observation_of_def Let_def)
  from assms(1) obtain u dt1 dt2 v dt3 x where
    sig: "record_signal_envelope now (dg_stable dg [JStr ''signal'', JStr (pd_decision_id d)])
       \<lparr>sv_instance_id = pd_instance_id d, sv_config_hash = pd_config_hash d, sv_as_of = sg_as_of (pd_signal d),
        sv_signal_kind = kind_value (sg_kind (pd_signal d)), sv_payload = envelope_json (pd_signal d), sv_created_at = []\<rparr> dt = (Inr u, dt1)"
    and rec: "record_portfolio_decision now (decision_json d) dt1 = (Inr inserted, dt2)"
    and ck: "save_provider_checkpoint now (pd_instance_id d) (pd_config_hash d) \<lparr>ck_schema_version = schema, ck_state = after,
         ck_updated_at = [], ck_last_evaluated_as_of = pd_as_of d, ck_state_hash = pv_state_after_hash (pd_provenance d)\<rparr> dt2 = (Inr v, dt3)"
    and obs: "record_decision_observation now (dg_stable dg [JStr ''observation'', JStr (pd_instance_id d),
           JStr (pd_config_hash d), JStr mode, JStr run_id, JStr (pd_as_of d)]) ?ob dt3 = (Inr x, dt')"
    unfolding persist_decision_def by (elim bind_InrE then_InrE) (auto simp: op_return_def)
  note s = signal_fields [OF sig] and r = portfolio_decision_recorded [OF rec] and c = checkpoint_saved [OF ck]
  have "dt_observations dt3 = dt_observations dt" using s(2) r(1) c(2) by simp
  with assms(3) have "find_decision_observation (key_of ?ob) dt3 = None" by (simp add: key find_decision_observation_def)
  note o = new_observation_found [OF obs mode this]
  show "map_of (dt_decisions dt') (pd_decision_id d) =
      (if inserted then Some (decision_row_of now (decision_json d)) else map_of (dt_decisions dt) (pd_decision_id d))"
    "inserted \<longleftrightarrow> map_of (dt_decisions dt) (pd_decision_id d) = None"
    using o(1) c(1) r(2,3) s(1) by simp_all
  show "\<exists>i. find_decision_observation \<lparr>ob_instance_id = pd_instance_id d, ob_config_hash = pd_config_hash d, ob_mode = mode,
       ob_run_id = run_id, ob_as_of = pd_as_of d\<rparr> dt' = Some (i, ?ob\<lparr>ob_created_at := now\<rparr>)"
    using o(3) unfolding key by blast
  have "load_provider_checkpoint (pd_instance_id d) (pd_config_hash d) dt' = load_provider_checkpoint (pd_instance_id d) (pd_config_hash d) dt3"
    by (simp add: load_provider_checkpoint_def o(2))
  with c(3) show "\<exists>ck. load_provider_checkpoint (pd_instance_id d) (pd_config_hash d) dt' = Some ck \<and> ck_state ck = after \<and>
       ck_last_evaluated_as_of ck = pd_as_of d" by simp
qed

subsection \<open>Deciding once\<close>

lemma decision_of_fields [simp]:
  "pd_instance_id (decision_of dg c pr before after s p w) = sc_instance_id c"
  "pd_config_hash (decision_of dg c pr before after s p w) = sc_config_hash c"
  "pd_as_of (decision_of dg c pr before after s p w) = pr_as_of pr"
  "pd_effective_session (decision_of dg c pr before after s p w) = pr_effective pr"
  "pd_signal (decision_of dg c pr before after s p w) = s"
  "pd_target_weights (decision_of dg c pr before after s p w) = w"
  "pv_history_hash (pd_provenance (decision_of dg c pr before after s p w)) = pr_history_hash pr"
  "pv_history_counts (pd_provenance (decision_of dg c pr before after s p w)) = map (\<lambda>(i, bs). (i, int (List.length bs))) (pr_grouped pr)"
  "pv_history_window (pd_provenance (decision_of dg c pr before after s p w)) = pr_window pr"
  by (simp_all add: decision_of_def)

text \<open>A fresh decision in an evaluation that is persisted.\<close>

lemma fresh_decisionE:
  assumes "evaluate_instance env now c bars m True mode run_id pl = (Inr r, pl')" "rd_inserted r"
  obtains pr s p w before after where "prepare env c bars = Inr pr" "recall c pr mode run_id (pl_store pl) = Inr None"
    "validate_signal s c (sd_signal_kind (pr_definition pr)) (pr_as_of pr) (pr_data_version pr) = Inr ()"
    "build_weights env c pr m s = Inr (p, w)" "rd_decision r = decision_of (ev_digests env) c pr before after s p w"
    "persist_decision (ev_digests env) now m mode run_id (sd_state_schema_version (pr_definition pr)) after
       (rd_decision r) (pl_store pl) = (Inr True, pl_store pl')"
  using assms(1)
proof (cases rule: evaluate_cases)
  case (recalled pr d)
  with assms(2) have False by simp
  then show thesis ..
next
  case (decided pr created pl1)
  have st: "pl_store pl1 = pl_store pl" using acquire_store [of env c pr pl] decided(3) by simp
  from decided(4) have "decide_instance env now c pr m True mode run_id created pl1 = (Inr r, pl')"
    by (auto simp: op_catch_def drop_provider_def split: prod.splits sum.splits)
  then show thesis
    by (rule decideE) (use decided(1,2) assms(2) st in \<open>auto intro!: that\<close>)
qed simp

lemma recall_none: "recall c pr mode run_id dt = Inr None \<Longrightarrow> find_decision_observation (run_key c mode run_id (pr_as_of pr)) dt = None"
  by (simp add: recall_def stored_decision_def Let_def split: option.splits prod.splits if_splits sum.splits)
    (auto simp: map_sum_def split: sum.splits)

subsection \<open>Later states of the tables\<close>

lemma keeps_run: "(\<And>dt. dt_trans digest dt (snd (f dt))) \<Longrightarrow> keeps (dt_run digest dt0) f"
  by (rule keepsI) (rule rtranclp.rtrancl_into_rtrancl)

lemma persist_run: "dt_run digest dt (snd (persist_decision dg now m mode run_id schema after d dt))"
proof -
  have "keeps (dt_run digest dt) (persist_decision dg now m mode run_id schema after d)"
    unfolding persist_decision_def
    by (intro keeps_then keeps_bind keeps_return keeps_run dt_signal dt_decision dt_checkpoint dt_observe)
  from keepsD [OF this, of dt] show ?thesis by simp
qed

text \<open>What was observed under a key, and the decision it names, stay.\<close>

lemma observation_stays:
  assumes "dt_run digest dt dt'" "decisions_ok dt" "find_decision_observation key dt = Some (i, ob)"
  obtains ob' where "find_decision_observation key dt' = Some (i, ob')" "same_observation ob ob'"
proof -
  have ok: "dict_ok (dt_observations dt)" "dict_ok (dt_observations dt')" "distinct (map (key_of \<circ> snd) (dt_observations dt'))"
    using assms(2) dt_run_ok [OF assms(1,2)] by (simp_all add: decisions_ok_def)
  note row = find_observation_row [OF assms(3) ok(1)]
  from dt_run_extends [OF assms(1,2)] row(1) obtain ob' where ob': "map_of (dt_observations dt') i = Some ob'" "same_observation ob ob'"
    unfolding extends_decisions_def kept_rows_def by blast
  have key: "key_of ob' = key" using same_observation_key [OF ob'(2)] row(2) by simp
  have mem: "(i, ob') \<in> set (dt_observations dt')" using ob'(1) by (rule map_of_SomeD)
  then have "key_of (snd (i, ob')) \<in> (key_of \<circ> snd) ` set (dt_observations dt')" by (metis comp_apply imageI)
  then have "find_decision_observation key dt' \<noteq> None" by (simp add: find_observation_none key)
  then obtain j ob2 where found: "find_decision_observation key dt' = Some (j, ob2)" by (cases "find_decision_observation key dt'") auto
  note row2 = find_observation_row [OF found ok(2)]
  have "(j, ob2) \<in> set (dt_observations dt')" using row2(1) by (rule map_of_SomeD)
  then have "(j, ob2) = (i, ob')"
    using mem key row2(2) inj_onD [OF distinct_map [THEN iffD1, THEN conjunct2, OF ok(3)], of "(j, ob2)" "(i, ob')"] by simp
  with found ob'(2) that show thesis by simp
qed

lemma stored_decision_stays:
  assumes "dt_run digest dt dt'" "decisions_ok dt" "stored_decision ob dt = Inr d" "ob_decision_id ob' = ob_decision_id ob"
  shows "stored_decision ob' dt' = Inr d"
proof -
  from assms(3) obtain row where row: "map_of (dt_decisions dt) (ob_decision_id ob) = Some row" "decision_of_json (de_decision row) = Inr d"
    by (auto simp: stored_decision_def get_portfolio_decision_def key_error_def on_value_eq split: option.splits)
  from dt_run_extends [OF assms(1,2)] row(1) obtain row' where row': "map_of (dt_decisions dt') (ob_decision_id ob) = Some row'"
      "same_decision row row'"
    unfolding extends_decisions_def kept_rows_def by blast
  from row'(2) have "de_decision row' = de_decision row"
    by (metis decided_part_def decision_row.select_convs(7) decision_row.surjective decision_row.update_convs(6,9) same_decision_def)
  with row' row(2) assms(4) show ?thesis by (simp add: stored_decision_def get_portfolio_decision_def)
qed

lemma same_observation_fields:
  "same_observation ob ob' \<Longrightarrow> ob_decision_id ob' = ob_decision_id ob \<and> ob_history_hash ob' = ob_history_hash ob"
  unfolding same_observation_def observed_part_def by (cases ob; cases ob') simp

text \<open>A decision that was made is returned again, whatever was written in between.\<close>

lemma evaluate_later:
  assumes first: "evaluate_instance env now c bars m True mode run_id pl = (Inr r, pl')" "rd_inserted r"
    and ok: "mode \<noteq> []" "decision_ok (rd_decision r)" "decisions_ok (pl_store pl)"
    and later: "dt_run digest (pl_store pl') (pl_store pl2)"
  shows "evaluate_instance env now' c bars m' True mode run_id pl2 = (Inr (r\<lparr>rd_inserted := False\<rparr>), pl2)"
proof -
  let ?d = "rd_decision r"
  obtain pr s p w before after where e: "prepare env c bars = Inr pr" "recall c pr mode run_id (pl_store pl) = Inr None"
    "rd_decision r = decision_of (ev_digests env) c pr before after s p w"
    "persist_decision (ev_digests env) now m mode run_id (sd_state_schema_version (pr_definition pr)) after
       (rd_decision r) (pl_store pl) = (Inr True, pl_store pl')"
    by (rule fresh_decisionE [OF first])
  have ok': "decisions_ok (pl_store pl')"
    using dt_run_ok [OF persist_run ok(3)] e(4) by (metis snd_conv)
  let ?key = "run_key c mode run_id (pr_as_of pr)"
  have key: "\<lparr>ob_instance_id = pd_instance_id ?d, ob_config_hash = pd_config_hash ?d, ob_mode = mode,
       ob_run_id = run_id, ob_as_of = pd_as_of ?d\<rparr> = ?key"
    by (simp add: e(3) run_key_def)
  note kept = persisted [OF e(4) ok(1), unfolded key, OF recall_none [OF e(2)]]
  let ?ob = "(observation_of (ev_digests env) m mode run_id ?d)\<lparr>ob_created_at := now\<rparr>"
  have ob: "ob_decision_id ?ob = pd_decision_id ?d" "ob_history_hash ?ob = pr_history_hash pr"
    by (simp_all add: observation_of_def Let_def e(3))
  have stored: "stored_decision ?ob (pl_store pl') = Inr ?d"
    using kept(1) by (simp add: stored_decision_def get_portfolio_decision_def ob(1) [simplified] decision_row_of_def
        decision_round_trip [OF ok(2)])
  obtain i where i: "find_decision_observation ?key (pl_store pl') = Some (i, ?ob)"
    using kept(3) by blast
  obtain ob' where ob': "find_decision_observation ?key (pl_store pl2) = Some (i, ob')" "same_observation ?ob ob'"
    by (rule observation_stays [OF later ok' i])
  have same: "ob_decision_id ob' = ob_decision_id ?ob" "ob_history_hash ob' = ob_history_hash ?ob"
    using same_observation_fields [OF ob'(2)] by simp_all
  have "recall c pr mode run_id (pl_store pl2) = Inr (Some ?d)"
    using stored_decision_stays [OF later ok' stored same(1)] by (simp add: recall_def ob'(1) same(2) [unfolded ob(2)])
  moreover have "\<lparr>rd_decision = ?d, rd_inserted = False\<rparr> = r\<lparr>rd_inserted := False\<rparr>" by simp
  ultimately show ?thesis using e(1) by (simp add: evaluate_instance_def)
qed

text \<open>Every evaluation, failed ones too, is a run of table steps.\<close>

lemma keeps_require [simp]: "keeps P (require r)"
  by (rule keepsI) simp

lemma keeps_on_decisions: "keeps P f \<Longrightarrow> keeps (\<lambda>pl. P (pl_store pl)) (on_decisions f)"
  by (simp add: keeps_def on_decisions_def split_beta)

lemma keeps_on_provider: "keeps (\<lambda>pl. P (pl_store pl)) (on_provider key f)"
  by (rule keepsI) simp

lemma keeps_persist: "keeps (dt_run digest dt0) (persist_decision dg now m mode run_id schema after d)"
  using persist_run rtranclp_trans by (metis keepsI)

lemma evaluate_run: "dt_run digest (pl_store pl) (pl_store (snd (evaluate_instance env now c bars m persist mode run_id pl)))"
proof -
  obtain r pl' where run: "evaluate_instance env now c bars m persist mode run_id pl = (r, pl')"
    by (cases "evaluate_instance env now c bars m persist mode run_id pl")
  let ?P = "\<lambda>x. dt_run digest (pl_store pl) (pl_store x)"
  from run have "?P pl'"
  proof (cases rule: evaluate_cases)
    case (decided pr created pl1)
    have "keeps ?P (judge env c pr m)"
      unfolding judge_def Let_def by (intro keeps_bind keeps_then keeps_on_provider keeps_require)
        (auto intro!: keeps_bind keeps_on_provider)
    moreover have "keeps ?P (if created then prime_provider env c pr (context_of c pr) else op_return ())"
      by (rule keepsI) (simp add: prime_store op_return_def)
    moreover have "keeps ?P (if persist then on_decisions (persist_decision (ev_digests env) now m mode run_id schema after d) else op_return False)"
      for schema after d
      by (cases persist) (simp_all add: keeps_on_decisions [OF keeps_persist])
    ultimately have "keeps ?P (decide_instance env now c pr m persist mode run_id created)"
      unfolding decide_instance_def by (intro keeps_then keeps_bind) (auto intro!: keeps_bind)
    moreover have "keeps ?P (drop_provider c e)" for e
      by (rule keepsI) (simp add: drop_provider_def)
    ultimately have kept: "keeps ?P (op_catch (decide_instance env now c pr m persist mode run_id created) (drop_provider c))"
      by (rule keeps_catch)
    have start: "?P pl1" using acquire_store [of env c pr pl] decided(3) by simp
    show ?thesis using keepsD [OF kept start] by (simp add: decided(4))
  qed simp_all
  with run show ?thesis by simp
qed

subsection \<open>Previews and changed histories\<close>

lemma judge_store: "keeps (\<lambda>pl. pl_store pl = dt) (judge env c pr m)"
  unfolding judge_def Let_def
  by (intro keeps_bind keeps_then keeps_store keeps_require) (auto intro!: keeps_bind keeps_store)

lemma evaluate_preview: "pl_store (snd (evaluate_instance env now c bars m False mode run_id pl)) = pl_store pl"
proof -
  obtain r pl' where run: "evaluate_instance env now c bars m False mode run_id pl = (r, pl')"
    by (cases "evaluate_instance env now c bars m False mode run_id pl")
  from run have "pl_store pl' = pl_store pl"
  proof (cases rule: evaluate_cases)
    case (decided pr created pl1)
    have "keeps (\<lambda>x. pl_store x = pl_store pl) (decide_instance env now c pr m False mode run_id created)"
      unfolding decide_instance_def
    proof (intro keeps_then keeps_bind judge_store)
      show "keeps (\<lambda>x. pl_store x = pl_store pl) (if created then prime_provider env c pr (context_of c pr) else op_return ())"
        by (rule keepsI) (simp add: prime_store op_return_def)
      show "keeps (\<lambda>x. pl_store x = pl_store pl) (case da of (d, after) \<Rightarrow> op_bind (if False then on_decisions (persist_decision
          (ev_digests env) now m mode run_id (sd_state_schema_version (pr_definition pr)) after d) else op_return False)
         (\<lambda>inserted. op_return \<lparr>rd_decision = d, rd_inserted = inserted\<rparr>))" for da
        by (rule keepsI) (simp add: op_bind_def op_return_def split: prod.split)
    qed
    moreover have "keeps (\<lambda>x. pl_store x = pl_store pl) (drop_provider c e)" for e
      by (rule keepsI) (simp add: drop_provider_def)
    ultimately have kept: "keeps (\<lambda>x. pl_store x = pl_store pl) (op_catch (decide_instance env now c pr m False mode run_id created) (drop_provider c))"
      by (rule keeps_catch)
    have start: "pl_store pl1 = pl_store pl" using acquire_store [of env c pr pl] decided(3) by simp
    show ?thesis using keepsD [OF kept start] by (simp add: decided(4))
  qed simp_all
  with run show ?thesis by simp
qed

lemma revised_history:
  assumes "prepare env c bars = Inr pr" "decisions_ok (pl_store pl)" "(i, ob) \<in> set (dt_observations (pl_store pl))"
    "key_of ob = run_key c mode k (pr_as_of pr)" "ob_history_hash ob \<noteq> pr_history_hash pr"
    "k = run_id \<or> find_decision_observation (run_key c mode run_id (pr_as_of pr)) (pl_store pl) = None"
  shows "\<exists>msg. evaluate_instance env now c bars m True mode run_id pl = (Inl (ValueError msg), pl)"
proof (cases "find_decision_observation (run_key c mode run_id (pr_as_of pr)) (pl_store pl)")
  case None
  have fields: "ob_instance_id ob = sc_instance_id c" "ob_config_hash ob = sc_config_hash c" "ob_mode ob = mode" "ob_as_of ob = pr_as_of pr"
    using assms(4) by (auto simp: key_of_def observation_key.truncate_def run_key_def)
  have "list_ex (\<lambda>(_, ob). ob_history_hash ob \<noteq> pr_history_hash pr)
      (find_mode_observations (sc_instance_id c) (sc_config_hash c) mode (pr_as_of pr) (pl_store pl))"
    unfolding list_ex_iff find_mode_observations_def set_sort set_filter
    by (rule bexI [of _ "(i, ob)"]) (use assms(3,5) fields in simp_all)
  with None assms(1) show ?thesis by (simp add: evaluate_instance_def recall_def Let_def)
next
  case (Some p)
  obtain j ob' where p: "p = (j, ob')" by (cases p)
  have ok: "dict_ok (dt_observations (pl_store pl))" "distinct (map (key_of \<circ> snd) (dt_observations (pl_store pl)))"
    using assms(2) by (simp_all add: decisions_ok_def)
  note found = find_observation_row [OF Some [unfolded p] ok(1)]
  from Some assms(6) have "k = run_id" by simp
  then have "key_of ob = key_of ob'" using assms(4) found(2) by simp
  moreover have "(j, ob') \<in> set (dt_observations (pl_store pl))" using found(1) by (rule map_of_SomeD)
  ultimately have "ob' = ob" using ok(2) assms(3) by (metis (no_types, lifting) comp_apply distinct_map inj_onD snd_conv)
  with assms(5) Some p assms(1) show ?thesis by (simp add: evaluate_instance_def recall_def)
qed

subsection \<open>Sizing\<close>

lemma missing_from_none: "missing_from required rows = [] \<longleftrightarrow> set required \<subseteq> canonical_instrument ` fst ` set rows"
proof -
  have "sort xs = [] \<longleftrightarrow> xs = []" for xs :: "string list" by (metis set_empty set_sort)
  then show ?thesis by (auto simp: missing_from_def filter_empty_conv)
qed

lemma check_quotes_ok:
  "check_quotes required session rows = Inr () \<Longrightarrow> (k, q) \<in> set rows \<Longrightarrow> canonical_instrument k \<in> set required \<Longrightarrow>
    \<not> tq_stale q \<and> \<not> tq_suspended q \<and> tq_price_source q = ''raw'' \<and> take 10 (tq_as_of q) = take 10 session"
  by (induction required session rows rule: check_quotes.induct) (auto split: if_splits)

lemma sized_decision:
  assumes "size_decision hash24 lot d c account quotes instruments session fees = Inr t"
  shows "pd_instance_id d = sc_instance_id c" "pd_config_hash d = sc_config_hash c" "check_session d c session = Inr ()"
    "as_external_orders account = []"
    "set (required_instruments d account) \<subseteq> canonical_instrument ` fst ` set quotes"
    "set (required_instruments d account) \<subseteq> canonical_instrument ` fst ` set instruments"
    "check_quotes (required_instruments d account) session quotes = Inr ()"
    "size_portfolio hash24 lot (pd_target_weights d) account [] \<lparr>si_instance_id = sc_instance_id c, si_config_hash = sc_config_hash c\<rparr>
       quotes instruments fees (pd_decision_id d) (pd_effective_session d) (pd_valid_until d) = Inr t"
proof -
  have unit: "(\<exists>v. f = Inr v \<and> P) \<longleftrightarrow> f = Inr () \<and> P" for f :: "exn + unit" and P by auto
  let ?req = "required_instruments d account"
  show bind: "pd_instance_id d = sc_instance_id c" "pd_config_hash d = sc_config_hash c"
    using assms by (simp_all add: size_decision_def split: if_splits)
  from assms have run: "check_session d c session = Inr ()"
      "(if as_external_orders account \<noteq> []
        then Inl (ValueError ''external active orders require reconciliation before sizing'')
        else if missing_from ?req quotes \<noteq> [] \<or> missing_from ?req instruments \<noteq> []
        then Inl (ValueError (''execution data incomplete: quotes='' @ list_repr (missing_from ?req quotes) @ '', metadata='' @ list_repr (missing_from ?req instruments)))
        else on_value (check_quotes ?req session quotes) (\<lambda>_.
          size_portfolio hash24 lot (pd_target_weights d) account []
            \<lparr>si_instance_id = sc_instance_id c, si_config_hash = sc_config_hash c\<rparr> quotes instruments fees
            (pd_decision_id d) (pd_effective_session d) (pd_valid_until d))) = Inr t"
    by (simp_all only: size_decision_def Let_def bind simp_thms if_False on_value_eq unit)
  show "check_session d c session = Inr ()" by (rule run(1))
  show ext: "as_external_orders account = []" using run(2) by (rule contrapos_pp) simp
  have complete: "missing_from ?req quotes = [] \<and> missing_from ?req instruments = []"
    using run(2) ext by (simp split: if_splits)
  then show "set ?req \<subseteq> canonical_instrument ` fst ` set quotes" "set ?req \<subseteq> canonical_instrument ` fst ` set instruments"
    by (simp_all add: missing_from_none)
  from run(2) ext complete show "check_quotes ?req session quotes = Inr ()"
    "size_portfolio hash24 lot (pd_target_weights d) account [] \<lparr>si_instance_id = sc_instance_id c, si_config_hash = sc_config_hash c\<rparr>
       quotes instruments fees (pd_decision_id d) (pd_effective_session d) (pd_valid_until d) = Inr t"
    by (simp_all add: on_value_eq unit)
qed

lemma sized_portfolio:
  assumes "size_portfolio hash24 lot w account prices inst quotes instruments fees decision_id session valid_until = Inr t"
  shows "tp_instance_id t = si_instance_id inst \<and> tp_config_hash t = si_config_hash inst \<and> tp_valid_until t = valid_until \<and>
    (decision_id \<noteq> [] \<longrightarrow> tp_decision_id t = decision_id) \<and>
    (\<exists>proceeds buys. 0 \<le> proceeds \<and> distinct (map fst buys) \<and>
      (\<forall>k. 1/1000000000 < dget (tp_holdings t) k - dget (current_book account) k \<longrightarrow> k \<in> fst ` set buys) \<and>
      fits_in (book_cost fees (current_book account) buys (tp_holdings t)) (max (as_available account) 0 + proceeds + 1/1000000000))"
proof -
  from assms obtain holdings fitted where f: "fit_to_available_cash lot holdings account prices quotes instruments fees = Inr fitted"
    "tp_holdings t = fitted" "tp_instance_id t = si_instance_id inst" "tp_config_hash t = si_config_hash inst"
    "tp_valid_until t = valid_until" "tp_decision_id t = or_text decision_id (hash24 (si_instance_id inst @ '':'' @ si_config_hash inst @ '':'' @ tw_as_of w))"
    by (auto simp: size_portfolio_def split: if_splits sum.splits)
  note bought = fit_to_available_cash_affordable [OF f(1)]
  obtain proceeds buys where b: "0 \<le> proceeds" "distinct (map fst buys)"
      "\<forall>k. 1/1000000000 < dget holdings k - dget (current_book account) k \<longrightarrow> k \<in> fst ` set buys"
      "fits_in (book_cost fees (current_book account) buys fitted) (max (as_available account) 0 + proceeds + 1/1000000000)"
    using bought(1) by blast
  have "\<forall>k. 1/1000000000 < dget fitted k - dget (current_book account) k \<longrightarrow> k \<in> fst ` set buys"
  proof (intro allI impI)
    fix k assume "1/1000000000 < dget fitted k - dget (current_book account) k"
    with bought(2) [of k] have "1/1000000000 < dget holdings k - dget (current_book account) k" by linarith
    with b(3) show "k \<in> fst ` set buys" by blast
  qed
  with b f(2-6) show ?thesis by (auto simp: or_text_def)
qed

subsection \<open>What a kept row is\<close>

lemma kept_rowD: "kept_rows rel tbl tbl' \<Longrightarrow> map_of tbl k = Some r \<Longrightarrow> \<exists>r'. map_of tbl' k = Some r' \<and> rel r r'"
  by (simp add: kept_rows_def)

lemma same_decision_iff: "same_decision d d' \<longleftrightarrow> (\<exists>status now. d' = d\<lparr>de_status := status, de_updated_at := now\<rparr>)"
  by (cases d; cases d') (auto simp: same_decision_def decided_part_def)

lemma same_observation_iff: "same_observation ob ob' \<longleftrightarrow> (\<exists>account quote instrument plan now.
    ob' = ob\<lparr>ob_account_hash := account, ob_quote_hash := quote, ob_instrument_hash := instrument, ob_plan_hash := plan, ob_created_at := now\<rparr>)"
  by (cases ob; cases ob') (auto simp: same_observation_def observed_part_def)

end
