(* ===== verification/Comparison_Facts.thy ===== *)
theory Comparison_Facts
  imports Decision_Safety
begin

section \<open>What a comparison says\<close>

text \<open>
  A comparison writes one result per session, its counts add up to the sessions, and it completes without
  differences exactly when both runs observed each session once, from the same inputs, with the same
  outputs.
\<close>

subsection \<open>One session\<close>

definition agree :: "observation \<Rightarrow> observation \<Rightarrow> bool" where
  "agree l r \<longleftrightarrow> input_fields l = input_fields r \<and> output_fields l = output_fields r"

lemma differences_none:
  "differences (input_fields l) (input_fields r) = [] \<longleftrightarrow> input_fields l = input_fields r"
  "differences (output_fields l) (output_fields r) = [] \<longleftrightarrow> output_fields l = output_fields r"
  by (simp_all add: differences_def input_fields_def output_fields_def List.map_filter_def)

lemma compare_status:
  "fst (compare_observations x y) \<in> {''match'', ''mismatch'', ''not_comparable''}"
  "fst (compare_observations x y) = ''match'' \<longleftrightarrow> (\<exists>i l j r. x = Some (i, l) \<and> y = Some (j, r) \<and> agree l r)"
  by (cases x; cases y; force simp: compare_observations_def Let_def agree_def differences_none)+

lemma session_status:
  "cr_status (session_result ls rs) \<in> {''match'', ''mismatch'', ''not_comparable''}"
  "cr_status (session_result ls rs) = ''match'' \<longleftrightarrow> (\<exists>i l j r. ls = [(i, l)] \<and> rs = [(j, r)] \<and> agree l r)"
proof -
  have status: "cr_status (session_result ls rs) = (if List.length ls > 1 \<or> List.length rs > 1 then ''not_comparable''
      else fst (compare_observations (only_row ls) (only_row rs)))"
    by (simp add: session_result_def Let_def split: prod.split)
  show "cr_status (session_result ls rs) \<in> {''match'', ''mismatch'', ''not_comparable''}"
    unfolding status using compare_status(1) by (simp only: split: if_split) blast
  have only: "only_row xs = Some x \<longleftrightarrow> xs = [x]" for xs and x :: "string \<times> observation"
    by (cases xs rule: remdups_adj.cases) (simp_all add: only_row_def)
  show "cr_status (session_result ls rs) = ''match'' \<longleftrightarrow> (\<exists>i l j r. ls = [(i, l)] \<and> rs = [(j, r)] \<and> agree l r)"
    unfolding status by (simp only: if_distrib [of "\<lambda>x. x = ''match''"] compare_status(2) only) auto
qed

subsection \<open>All sessions\<close>

definition stored_result :: "string \<Rightarrow> comparison_result \<Rightarrow> comparison_result" where
  "stored_result now r = r\<lparr>cr_details := or_object (cr_details r), cr_created_at := now\<rparr>"

lemma record_loop:
  assumes "map_of (dt_comparisons dt) c \<noteq> None" "distinct sessions" "\<forall>s\<in>set sessions. map_of (dt_results dt) (c, s) = None"
    "\<And>s. cr_status (f s) \<in> {''match'', ''mismatch'', ''not_comparable''}"
  shows "op_for sessions (\<lambda>s. record_comparison_result now c s (f s)) dt =
    (Inr (), dt\<lparr>dt_results := dt_results dt @ map (\<lambda>s. ((c, s), stored_result now (f s))) sessions\<rparr>)"
  using assms(1-3)
proof (induction sessions arbitrary: dt)
  case Nil
  then show ?case by (simp add: op_return_def)
next
  case (Cons s sessions)
  let ?dt = "dt\<lparr>dt_results := dt_results dt @ [((c, s), stored_result now (f s))]\<rparr>"
  have "record_comparison_result now c s (f s) dt = (Inr (), ?dt)"
    using Cons.prems(1,3) assms(4) [of s]
    by (simp only: record_comparison_result_def stored_result_def dict_set_appended list.set ball_simps if_False not_not
        simp_thms)
  moreover have "op_for sessions (\<lambda>s. record_comparison_result now c s (f s)) ?dt =
      (Inr (), ?dt\<lparr>dt_results := dt_results ?dt @ map (\<lambda>s. ((c, s), stored_result now (f s))) sessions\<rparr>)"
    by (rule Cons.IH) (use Cons.prems in \<open>auto simp: map_add_def\<close>)
  ultimately show ?case by (simp add: op_then_def)
qed

lemma results_of_append:
  "results_of c (dt\<lparr>dt_results := dt_results dt @ map (\<lambda>s. ((c, s), f s)) sessions\<rparr>) =
     results_of c dt @ map (\<lambda>s. (s, f s)) sessions"
  by (simp add: results_of_def List.map_filter_def o_def)

lemma count_partition:
  assumes "\<forall>(s, r)\<in>set rows. cr_status r \<in> {''match'', ''mismatch'', ''not_comparable''}"
  shows "length (filter (\<lambda>(_, r). cr_status r = ''match'') rows) + length (filter (\<lambda>(_, r). cr_status r = ''mismatch'') rows) +
    length (filter (\<lambda>(_, r). cr_status r = ''not_comparable'') rows) = length rows"
  using assms by (induction rows) auto

subsection \<open>The whole comparison\<close>

text \<open>The sessions of two runs with their results, read from the tables before the comparison.\<close>

definition run_results :: "instance_row \<Rightarrow> string \<Rightarrow> compared_runs \<Rightarrow> decision_store \<Rightarrow> (string \<times> comparison_result) list" where
  "run_results row i runs dt =
     (let l = side_rows i (rs_left_mode runs) (rs_left_run_id runs) dt; r = side_rows i (rs_right_mode runs) (rs_right_run_id runs) dt
      in map (\<lambda>s. (s, session_result (session_rows (ir_config_hash row) (is_daily row) l s)
           (session_rows (ir_config_hash row) (is_daily row) r s)))
         (compared_sessions (ir_config_hash row) (is_daily row) l r))"

lemma compared_sessions_distinct [simp]: "distinct (compared_sessions c d l r)"
  by (simp add: compared_sessions_def)

lemma fresh_results:
  assumes "decisions_ok dt" "map_of (dt_comparisons dt) c = None"
  shows "results_of c dt = []" "map_of (dt_results dt) (c, s) = None"
proof -
  have none: "p \<in> set (dt_results dt) \<Longrightarrow> fst (fst p) \<noteq> c" for p
    using assms by (force simp: decisions_ok_def map_of_eq_None_iff)
  then show "map_of (dt_results dt) (c, s) = None" by (force simp: map_of_eq_None_iff)
  from none have "filter (\<lambda>p. fst (fst p) = c) (dt_results dt) = []" by (simp add: filter_empty_conv)
  then show "results_of c dt = []"
    by (auto simp: results_of_def List.map_filter_def filter_empty_conv split: prod.splits)
qed

lemma created_comparison:
  assumes "create_decision_comparison now c current i runs dt = (Inr v, dt1)"
  obtains row where "current = Inr row" "cp_config_hash (cv_row v) = ir_config_hash row" "cp_status (cv_row v) = ''running''"
    "map_of (dt_comparisons dt1) c = Some (cv_row v)" "dt_results dt1 = dt_results dt" "dt_observations dt1 = dt_observations dt"
proof (cases current)
  case (Inr row)
  with assms that show thesis
    by (auto simp: create_decision_comparison_def Let_def get_decision_comparison_def AList.update_conv' split: if_splits)
qed (use assms in \<open>simp add: create_decision_comparison_def\<close>)

lemma finish_counts:
  assumes "map_of (dt_comparisons dt) c = Some row" "cp_status row = ''running''" "results_of c dt = rows"
  shows "\<exists>v dt'. finish_decision_comparison now c details dt = (Inr v, dt') \<and> cv_results v = sort_key fst rows \<and>
    cp_compared (cv_row v) = int (List.length rows) \<and>
    cp_match (cv_row v) = int (List.length (filter (\<lambda>(_, r). cr_status r = ''match'') rows)) \<and>
    cp_mismatch (cv_row v) = int (List.length (filter (\<lambda>(_, r). cr_status r = ''mismatch'') rows)) \<and>
    cp_not_comparable (cv_row v) = int (List.length (filter (\<lambda>(_, r). cr_status r = ''not_comparable'') rows)) \<and>
    cp_status (cv_row v) = (if rows \<noteq> [] \<and> cp_mismatch (cv_row v) = 0 \<and> cp_not_comparable (cv_row v) = 0
      then ''completed'' else ''completed_with_differences'')"
proof -
  have kept: "results_of c (dt\<lparr>dt_comparisons := x\<rparr>) = rows" for x using assms(3) by (simp add: results_of_def)
  show ?thesis
    using assms by (simp add: finish_decision_comparison_def Let_def get_decision_comparison_def kept count_status_def AList.update_conv')
qed

lemma compare_runs_result:
  assumes ok: "decisions_ok dt" and fresh: "map_of (dt_comparisons dt) c = None"
    and run: "compare_runs now c current i requested dt = (Inr v, dt')"
  obtains row rows where "current = Inr row" "rows = run_results row i (stripped_runs requested) dt"
    "cp_compared (cv_row v) = int (List.length rows)"
    "cp_match (cv_row v) = int (List.length (filter (\<lambda>(_, r). cr_status r = ''match'') rows))"
    "cp_mismatch (cv_row v) = int (List.length (filter (\<lambda>(_, r). cr_status r = ''mismatch'') rows))"
    "cp_not_comparable (cv_row v) = int (List.length (filter (\<lambda>(_, r). cr_status r = ''not_comparable'') rows))"
    "cp_status (cv_row v) = (if rows \<noteq> [] \<and> cp_mismatch (cv_row v) = 0 \<and> cp_not_comparable (cv_row v) = 0
      then ''completed'' else ''completed_with_differences'')"
proof -
  let ?runs = "stripped_runs requested"
  obtain v1 dt1 where created: "create_decision_comparison now c current i ?runs dt = (Inr v1, dt1)"
    using run by (cases "create_decision_comparison now c current i ?runs dt")
      (auto simp: compare_runs_def Let_def op_raise_def op_bind_def split: if_splits sum.splits)
  obtain row where row: "current = Inr row" "cp_config_hash (cv_row v1) = ir_config_hash row" "cp_status (cv_row v1) = ''running''"
    "map_of (dt_comparisons dt1) c = Some (cv_row v1)" "dt_results dt1 = dt_results dt" "dt_observations dt1 = dt_observations dt"
    by (rule created_comparison [OF created])
  define rows where "rows = run_results row i ?runs dt"
  let ?l = "side_rows i (rs_left_mode ?runs) (rs_left_run_id ?runs) dt" and ?r = "side_rows i (rs_right_mode ?runs) (rs_right_run_id ?runs) dt"
  let ?sessions = "compared_sessions (ir_config_hash row) (is_daily row) ?l ?r"
  let ?f = "\<lambda>s. session_result (session_rows (ir_config_hash row) (is_daily row) ?l s) (session_rows (ir_config_hash row) (is_daily row) ?r s)"
  have sides: "side_rows i m k dt1 = side_rows i m k dt" for m k
    by (simp add: side_rows_def list_decision_observations_def row(6))
  let ?dt2 = "dt1\<lparr>dt_results := dt_results dt1 @ map (\<lambda>s. ((c, s), stored_result now (?f s))) ?sessions\<rparr>"
  have loop: "op_for ?sessions (\<lambda>s. record_comparison_result now c s (?f s)) dt1 = (Inr (), ?dt2)"
    by (rule record_loop) (simp_all only: row(4,5) compared_sessions_distinct session_status(1) fresh_results(2) [OF ok fresh]
      option.distinct not_False_eq_True ball_triv simp_thms)
  have "results_of c dt1 = []" using fresh_results(1) [OF ok fresh] row(5) by (simp add: results_of_def)
  define written where "written = map (\<lambda>s. (s, stored_result now (?f s))) ?sessions"
  have stored: "results_of c ?dt2 = written"
    using \<open>results_of c dt1 = []\<close> by (simp only: results_of_append append_Nil written_def)
  have finish: "finish_decision_comparison now c (comparison_details ?runs) ?dt2 = (Inr v, dt')"
    using run created loop by (simp add: compare_runs_def Let_def op_raise_def op_bind_def op_then_def row(1,2) sides split: if_splits)
  have c2: "map_of (dt_comparisons ?dt2) c = Some (cv_row v1)" by (simp add: row(4))
  have count: "length (filter (\<lambda>(_, r). cr_status r = x) written) = length (filter (\<lambda>(_, r). cr_status r = x) rows)" for x
    by (simp add: written_def rows_def run_results_def Let_def filter_map o_def stored_result_def)
  have size: "written = [] \<longleftrightarrow> rows = []" "length written = length rows"
    by (simp_all add: written_def rows_def run_results_def Let_def)
  from finish_counts [OF c2 row(3) stored, of now "comparison_details ?runs"]
  have "cp_compared (cv_row v) = int (length rows) \<and>
    cp_match (cv_row v) = int (length (filter (\<lambda>(_, r). cr_status r = ''match'') rows)) \<and>
    cp_mismatch (cv_row v) = int (length (filter (\<lambda>(_, r). cr_status r = ''mismatch'') rows)) \<and>
    cp_not_comparable (cv_row v) = int (length (filter (\<lambda>(_, r). cr_status r = ''not_comparable'') rows)) \<and>
    cp_status (cv_row v) = (if rows \<noteq> [] \<and> cp_mismatch (cv_row v) = 0 \<and> cp_not_comparable (cv_row v) = 0
      then ''completed'' else ''completed_with_differences'')"
    unfolding finish count size by (elim exE conjE) (simp only: prod.inject sum.inject)
  then show thesis by (intro that [OF row(1) rows_def]) (simp_all only: simp_thms)
qed

text \<open>When every session of a comparison matches.\<close>

lemma run_results_match:
  assumes "l = side_rows i (rs_left_mode runs) (rs_left_run_id runs) dt" "r = side_rows i (rs_right_mode runs) (rs_right_run_id runs) dt"
  shows "(\<forall>(s, res)\<in>set (run_results row i runs dt). cr_status res = ''match'') \<longleftrightarrow>
    (\<forall>s\<in>set (compared_sessions (ir_config_hash row) (is_daily row) l r).
      \<exists>j a k b. session_rows (ir_config_hash row) (is_daily row) l s = [(j, a)] \<and>
        session_rows (ir_config_hash row) (is_daily row) r s = [(k, b)] \<and> agree a b)"
  by (simp add: run_results_def Let_def assms session_status(2))

lemma run_results_status: "\<forall>(s, res)\<in>set (run_results row i runs dt). cr_status res \<in> {''match'', ''mismatch'', ''not_comparable''}"
  using session_status(1) by (auto simp: run_results_def Let_def)

lemma all_match:
  assumes "\<forall>(s, res)\<in>set rows. cr_status res \<in> {''match'', ''mismatch'', ''not_comparable''}"
  shows "filter (\<lambda>(_, r). cr_status r = ''mismatch'') rows = [] \<and> filter (\<lambda>(_, r). cr_status r = ''not_comparable'') rows = []
    \<longleftrightarrow> (\<forall>(s, res)\<in>set rows. cr_status res = ''match'')"
  using assms by (induction rows) auto

end
