(* ===== verification/Decision_Examples.thy ===== *)
theory Decision_Examples
  imports Pipeline_Facts Comparison_Facts Deployment_Examples Portfolio
begin

section \<open>A worked decision\<close>

text \<open>
  One instrument, one completed daily bar, a provider that always signals \<open>long\<close>, and the fixed-exposure
  policy.  The provider counts its evaluations.
\<close>

definition demo_instance :: strategy_config where
  "demo_instance = demo_config\<lparr>sc_portfolio_policy := JObj [(''policy_id'', JStr ''fixed'')]\<rparr>"

definition demo_strategy :: strategy_definition where
  "demo_strategy = \<lparr>sd_strategy_id = ''ma'', sd_version = ''1'', sd_parameter_schema = JObj [], sd_supported_frequencies = [''day''],
     sd_required_history = 1, sd_state_schema_version = 1, sd_source = ''builtin'', sd_code_hash = [], sd_api_version = 2,
     sd_provider_api_version = 2, sd_signal_kind = INSTRUMENT_TIMING, sd_supported_run_modes = [''paper'']\<rparr>"

definition demo_fixed_policy :: policy_definition where
  "demo_fixed_policy = \<lparr>py_policy_id = ''fixed'', py_version = ''1'', py_parameter_schema = JObj [],
     py_supported_signal_kinds = [INSTRUMENT_TIMING], py_source = ''builtin'', py_code_hash = [], py_api_version = 1\<rparr>"

definition demo_timing :: timing_policy where
  "demo_timing = \<lparr>tm_target_percent = 1 / 5, tm_cash_buffer = 1 / 10, tm_max_position_weight = 3 / 10,
     tm_exposure_mode = ''per_instrument'', tm_policy_id = ''fixed'', tm_version = ''1''\<rparr>"

definition demo_signal :: "evaluation_context \<Rightarrow> (int, envelope) op" where
  "demo_signal ctx n = (Inr \<lparr>sg_kind = INSTRUMENT_TIMING, sg_source_instance_id = ec_instance_id ctx, sg_as_of = ec_as_of ctx,
     sg_payload = Timing [] (map (\<lambda>i. (i, ''long'')) (ec_universe ctx)), sg_valid_until = None, sg_frequency = ec_frequency ctx,
     sg_data_version = [], sg_model_version = []\<rparr>, n + 1)"

definition demo_count :: "(int, json) op" where
  "demo_count n = (Inr (JNum (of_int n)), n)"

definition demo_setup :: "'a \<Rightarrow> (int, unit) op" where
  "demo_setup x = op_return ()"

definition demo_provider_ops :: "int provider_ops" where
  "demo_provider_ops = \<lparr>vo_initialize = demo_setup, vo_warmup = demo_setup, vo_restore = demo_setup, vo_snapshot = demo_count,
     vo_evaluate = demo_signal\<rparr>"

definition demo_policy :: portfolio_policy where
  "demo_policy inputs ctx = timing_build demo_timing inputs"

definition demo_build_policy :: "policy_definition \<Rightarrow> (string \<times> json) list \<Rightarrow> exn + portfolio_policy" where
  "demo_build_policy p params = Inr demo_policy"

definition demo_build_provider :: "strategy_definition \<Rightarrow> (string \<times> json) list \<Rightarrow> json \<Rightarrow> exn + int" where
  "demo_build_provider d params c = Inr 0"

definition demo_calendar :: decision_calendar where
  "demo_calendar = \<lparr>ca_is_session = (\<lambda>_. True), ca_next_session = (\<lambda>_. ''2024-01-03''), ca_next_effective = None, ca_valid_until = None\<rparr>"

text \<open>The digest of a history of one bar is named after its closing price.\<close>

definition demo_canonical :: "json \<Rightarrow> string" where
  "demo_canonical j = (case j of JArr [b] \<Rightarrow> (if jget ''close'' b = JNum 11 then ''h11'' else ''h10'') | _ \<Rightarrow> ''h'')"

definition demo_digests :: digests where
  "demo_digests = \<lparr>dg_canonical = demo_canonical, dg_stable = (\<lambda>_. ''id''), dg_account = (\<lambda>_. ''a''),
     dg_quotes = (\<lambda>_. ''q''), dg_instruments = (\<lambda>_. ''i'')\<rparr>"

definition demo_pipeline_env :: "int pipeline_env" where
  "demo_pipeline_env = \<lparr>ev_strategies = \<lparr>ry_definitions = [(''ma'', demo_strategy)], ry_quarantined = []\<rparr>,
     ev_policies = \<lparr>ry_definitions = [(''fixed'', demo_fixed_policy)], ry_quarantined = []\<rparr>,
     ev_build_provider = demo_build_provider, ev_build_policy = demo_build_policy, ev_provider = demo_provider_ops,
     ev_calendar = demo_calendar, ev_digests = demo_digests, ev_is_iso = (\<lambda>_. True)\<rparr>"

definition demo_bar :: "num \<Rightarrow> completed_bar" where
  "demo_bar px = \<lparr>cb_datetime = ''2024-01-02'', cb_instrument = ''600000.SSE'', cb_open = 10, cb_high = 12, cb_low = 9,
     cb_close = px, cb_volume = 100, cb_amount = 1000, cb_frequency = ''day'', cb_adjustment = ADJ_BACKWARD,
     cb_data_version = [], cb_complete = True\<rparr>"

definition demo_market :: market where
  "demo_market = \<lparr>mk_account = None, mk_quotes = [], mk_instruments = []\<rparr>"

definition demo_pipeline :: "int pipeline" where
  "demo_pipeline = \<lparr>pl_providers = [], pl_store = empty_decisions [''i1'']\<rparr>"

definition demo_evaluate :: "string \<Rightarrow> num \<Rightarrow> int pipeline \<Rightarrow> (exn + decision_result) \<times> int pipeline" where
  "demo_evaluate run_id px = evaluate_instance demo_pipeline_env ''t'' demo_instance [demo_bar px] demo_market True ''paper'' run_id"

definition demo_prepared :: "num \<Rightarrow> prepared" where
  "demo_prepared px = \<lparr>pr_definition = demo_strategy, pr_window = 1, pr_grouped = [(''600000.SSE'', [demo_bar px])],
     pr_history = [demo_bar px], pr_history_hash = (if px = 11 then ''h11'' else ''h10''), pr_as_of = ''2024-01-02'', pr_effective = ''2024-01-03'',
     pr_valid_until = ''2024-01-03T15:00:00+08:00'', pr_data_version = []\<rparr>"

lemma demo_facts:
  "get_strategy demo_pipeline_env (sc_strategy_id demo_instance) = Inr demo_strategy"
  "check_binding demo_instance demo_strategy = Inr ()"
  "resolve_required_history demo_strategy (sc_params demo_instance) = 1"
  "history_window demo_instance 1 = Inr 1"
  by code_simp+

lemma demo_bars:
  "validate_bars (ev_is_iso demo_pipeline_env) demo_instance [demo_bar 11] = Inr [demo_bar 11]"
  "validate_bars (ev_is_iso demo_pipeline_env) demo_instance [demo_bar 10] = Inr [demo_bar 10]"
  by code_simp+

lemma demo_stock_symbol: "canonical_instrument ''600000.SSE'' = ''600000.SSE''"
  by code_simp

lemma demo_universe: "sc_universe demo_instance = [''600000.SSE'']" "sc_frequency demo_instance = ''day''"
  "sc_data_policy demo_instance = JObj []"
  by (simp_all add: demo_instance_def demo_config_def demo_raw_config_def)

lemma demo_window:
  "grouped_bars demo_instance [demo_bar px] = [(''600000.SSE'', [demo_bar px])]"
  "available_bars [(''600000.SSE'', [demo_bar px])] = 1" "last_n 1 [demo_bar px] = [demo_bar px]"
  by (simp_all add: grouped_bars_def available_bars_def last_n_def demo_universe demo_stock_symbol) (simp add: demo_bar_def)

lemma demo_windows:
  "prepare_window demo_pipeline_env demo_instance demo_strategy 1 [(''600000.SSE'', [demo_bar px])] = Inr (demo_prepared px)"
proof -
  have bar: "cb_datetime (demo_bar px) = ''2024-01-02''" "cb_instrument (demo_bar px) = ''600000.SSE''" "cb_data_version (demo_bar px) = []"
    by (simp_all add: demo_bar_def)
  have newest: "latest_text [''2024-01-02''] = ''2024-01-02''" by code_simp
  have digest: "dg_canonical (ev_digests demo_pipeline_env) (JArr [bar_json (demo_bar px)]) = (if px = 11 then ''h11'' else ''h10'')"
    by (simp add: demo_pipeline_env_def demo_digests_def demo_canonical_def bar_json_def) (simp add: demo_bar_def)
  have calendar: "ca_is_session (ev_calendar demo_pipeline_env) x" "effective_of (ev_calendar demo_pipeline_env) x y = ''2024-01-03''"
    "valid_until_of (ev_calendar demo_pipeline_env) ''2024-01-03'' y = ''2024-01-03T15:00:00+08:00''" for x y
    by (simp_all add: demo_pipeline_env_def demo_calendar_def effective_of_def valid_until_of_def)
  show ?thesis
    by (simp add: prepare_window_def Let_def aligned_def bar newest digest calendar demo_universe demo_stock_symbol demo_prepared_def Collect_conv_if)
qed

lemma demo_prepare:
  "prepare demo_pipeline_env demo_instance [demo_bar 11] = Inr (demo_prepared 11)"
  "prepare demo_pipeline_env demo_instance [demo_bar 10] = Inr (demo_prepared 10)"
  by (simp_all only: prepare_def demo_facts demo_bars demo_window demo_windows on_value_Inr Let_def list.map prod.case
      less_irrefl if_False)

subsection \<open>The evaluation\<close>

definition demo_long_signal :: envelope where
  "demo_long_signal = \<lparr>sg_kind = INSTRUMENT_TIMING, sg_source_instance_id = ''i1'', sg_as_of = ''2024-01-02'',
     sg_payload = Timing [] [(''600000.SSE'', ''long'')], sg_valid_until = None, sg_frequency = ''day'',
     sg_data_version = [], sg_model_version = []\<rparr>"

definition demo_weights :: target_weights where
  "demo_weights = \<lparr>tw_as_of = ''2024-01-02'', tw_weights = [(''600000.SSE'', 1 / 5)], tw_scores = [], tw_policy_id = ''fixed'',
     tw_policy_version = ''1''\<rparr>"

lemma demo_judged:
  "fst (demo_signal (context_of demo_instance (demo_prepared 11)) n) = Inr demo_long_signal"
  "validate_signal demo_long_signal demo_instance INSTRUMENT_TIMING ''2024-01-02'' [] = Inr ()"
  by (simp_all add: demo_signal_def context_of_def demo_prepared_def demo_universe demo_long_signal_def validate_signal_def)
    (simp_all add: demo_instance_def demo_config_def demo_raw_config_def)

lemma demo_built: "build_weights demo_pipeline_env demo_instance (demo_prepared 11) demo_market demo_long_signal = Inr (demo_fixed_policy, demo_weights)"
proof -
  have pol: "get_policy demo_pipeline_env ''fixed'' = Inr demo_fixed_policy" "binding_policy demo_instance = ''fixed''"
    "py_policy_id demo_fixed_policy = ''fixed''" "py_supported_signal_kinds demo_fixed_policy = [INSTRUMENT_TIMING]"
    by code_simp+
  have par: "policy_parameters demo_fixed_policy (jget ''params'' (sc_portfolio_policy demo_instance)) = Inr []" by code_simp
  have inp: "inputs_of_signal demo_long_signal = Inr \<lparr>pf_selection = None, pf_instrument_timing = [signal_envelope.truncate demo_long_signal], pf_market_timing = []\<rparr>"
    by (simp add: inputs_of_signal_def demo_long_signal_def check_inputs_def signal_envelope.truncate_def)
  have wts: "demo_policy \<lparr>pf_selection = None, pf_instrument_timing = [signal_envelope.truncate demo_long_signal], pf_market_timing = []\<rparr> ctx = Inr demo_weights" for ctx
    unfolding demo_policy_def by code_simp
  have ok: "validate_weights (tw_weights demo_weights) (sc_universe demo_instance) = Inr ()" by code_simp
  have kind: "sd_signal_kind (pr_definition (demo_prepared 11)) = INSTRUMENT_TIMING" by (simp add: demo_prepared_def demo_strategy_def)
  have build: "ev_build_policy demo_pipeline_env p ps = Inr demo_policy" for p ps by (simp add: demo_pipeline_env_def demo_build_policy_def)
  show ?thesis
    by (simp add: build_weights_def pol par inp wts ok kind build)
qed

definition demo_decision_of :: portfolio_decision where
  "demo_decision_of = decision_of demo_digests demo_instance (demo_prepared 11) (JNum 0) (JNum 1) demo_long_signal demo_fixed_policy demo_weights"

definition demo_after :: "string \<Rightarrow> int pipeline" where
  "demo_after run_id = \<lparr>pl_providers = [((''i1'', ''u600000.SSE''), 1)],
     pl_store = snd (persist_decision demo_digests ''t'' demo_market ''paper'' run_id 1 (JNum 1) demo_decision_of (empty_decisions [''i1'']))\<rparr>"

lemma demo_persisted: "fst (persist_decision demo_digests ''t'' demo_market ''paper'' ''r1'' 1 (JNum 1) demo_decision_of (empty_decisions [''i1''])) = Inr True"
  by code_simp

lemma demo_ids: "provider_key demo_instance = (''i1'', ''u600000.SSE'')" "sc_strategy_id demo_instance = ''ma''"
    "sc_instance_id demo_instance = ''i1''" "sc_config_hash demo_instance = ''u600000.SSE''"
    "pr_definition (demo_prepared px) = demo_strategy" "pr_as_of (demo_prepared px) = ''2024-01-02''"
    "pr_data_version (demo_prepared px) = []" "pr_history (demo_prepared px) = [demo_bar px]"
    "sd_signal_kind demo_strategy = INSTRUMENT_TIMING" "sd_state_schema_version demo_strategy = 1"
    "ev_provider demo_pipeline_env = demo_provider_ops" "ev_digests demo_pipeline_env = demo_digests"
    "pl_providers demo_pipeline = []" "pl_store demo_pipeline = empty_decisions [''i1'']"
  by (simp_all add: provider_key_def demo_instance_def demo_config_def demo_raw_config_def demo_prepared_def demo_strategy_def
      demo_pipeline_env_def demo_pipeline_def)

lemma demo_acquired: "acquire_provider demo_pipeline_env demo_instance (demo_prepared 11) demo_pipeline =
    (Inr True, demo_pipeline\<lparr>pl_providers := [((''i1'', ''u600000.SSE''), 0)]\<rparr>)"
proof -
  have params: "strategy_parameters demo_strategy (sc_params demo_instance) = Inr []" by code_simp
  have build: "ev_build_provider demo_pipeline_env d ps c = Inr 0" for d ps c
    by (simp add: demo_pipeline_env_def demo_build_provider_def)
  note definition_found = demo_facts(1) [unfolded demo_ids]
  show ?thesis
    by (simp add: acquire_provider_def demo_ids definition_found params build)
qed

lemma demo_recall_none: "recall demo_instance (demo_prepared px) ''paper'' run_id (empty_decisions [''i1'']) = Inr None"
  by (simp add: recall_def empty_decisions_def find_decision_observation_def find_mode_observations_def)

lemma demo_decides: "decide_instance demo_pipeline_env ''t'' demo_instance (demo_prepared 11) demo_market True ''paper'' ''r1'' True
    (demo_pipeline\<lparr>pl_providers := [((''i1'', ''u600000.SSE''), 0)]\<rparr>) = (Inr \<lparr>rd_decision = demo_decision_of, rd_inserted = True\<rparr>, demo_after ''r1'')"
proof -
  have signal: "demo_signal (context_of demo_instance (demo_prepared 11)) n = (Inr demo_long_signal, n + 1)" for n
    using demo_judged(1) [of n] by (simp add: demo_signal_def)
  have ops: "vo_snapshot demo_provider_ops = demo_count" "vo_evaluate demo_provider_ops = demo_signal"
    "vo_initialize demo_provider_ops = demo_setup" "vo_warmup demo_provider_ops = demo_setup"
    by (simp_all add: demo_provider_ops_def)
  have none: "load_provider_checkpoint i c (empty_decisions insts) = None" for i c insts
    by (simp add: load_provider_checkpoint_def empty_decisions_def)
  obtain dt where dt: "persist_decision demo_digests ''t'' demo_market ''paper'' ''r1'' 1 (JNum 1) demo_decision_of (empty_decisions [''i1'']) = (Inr True, dt)"
    using demo_persisted by (metis prod.collapse)
  show ?thesis
    by (simp add: decide_instance_def judge_def prime_provider_def op_then_def op_bind_def on_provider_def on_decisions_def require_def
        demo_ids ops none demo_setup_def demo_count_def op_return_def signal demo_judged(2) demo_built demo_decision_of_def [symmetric] dt
        demo_after_def Let_def)
qed

lemma demo_decided: "demo_evaluate ''r1'' 11 demo_pipeline = (Inr \<lparr>rd_decision = demo_decision_of, rd_inserted = True\<rparr>, demo_after ''r1'')"
  by (simp add: demo_evaluate_def evaluate_instance_def demo_prepare(1) demo_ids demo_recall_none op_bind_def demo_acquired op_catch_def demo_decides)

lemma demo_decision_fields: "pd_instance_id demo_decision_of = ''i1''" "pd_config_hash demo_decision_of = ''u600000.SSE''"
  "pd_as_of demo_decision_of = ''2024-01-02''" "pd_effective_session demo_decision_of = ''2024-01-03''"
  "pd_target_weights demo_decision_of = demo_weights" "pd_signal demo_decision_of = demo_long_signal"
  by (simp_all add: demo_decision_of_def demo_ids) (simp add: demo_prepared_def)

lemma demo_decision_ok: "decision_ok demo_decision_of"
  unfolding decision_ok_def demo_decision_fields demo_long_signal_def demo_weights_def
  by (simp add: check_envelope_def signal_envelope.truncate_def str_strip_def is_space_def)

lemma demo_tables_ok: "decisions_ok (pl_store demo_pipeline)" "decisions_ok (pl_store (demo_after ''r1''))"
proof -
  show ok: "decisions_ok (pl_store demo_pipeline)" by (simp add: demo_pipeline_def decisions_ok_empty)
  have "dt_run (\<lambda>_. []) (pl_store demo_pipeline) (pl_store (demo_after ''r1''))"
    using evaluate_run [of "\<lambda>_. []" demo_pipeline] demo_decided unfolding demo_evaluate_def by (metis snd_conv)
  with ok show "decisions_ok (pl_store (demo_after ''r1''))" by (metis dt_run_ok)
qed

lemma demo_observed:
  "\<exists>i ob. (i, ob) \<in> set (dt_observations (pl_store (demo_after ''r1''))) \<and>
     key_of ob = run_key demo_instance ''paper'' ''r1'' ''2024-01-02'' \<and> ob_history_hash ob = ''h11''"
proof -
  let ?key = "run_key demo_instance ''paper'' ''r1'' ''2024-01-02''"
  have persist: "persist_decision demo_digests ''t'' demo_market ''paper'' ''r1'' 1 (JNum 1) demo_decision_of (empty_decisions [''i1'']) =
      (Inr True, pl_store (demo_after ''r1''))"
    using demo_persisted by (simp add: demo_after_def prod_eq_iff)
  have key: "\<lparr>ob_instance_id = pd_instance_id demo_decision_of, ob_config_hash = pd_config_hash demo_decision_of, ob_mode = ''paper'',
       ob_run_id = ''r1'', ob_as_of = pd_as_of demo_decision_of\<rparr> = ?key"
    by (simp add: run_key_def demo_decision_fields demo_ids)
  have none: "find_decision_observation ?key (empty_decisions [''i1'']) = None"
    by (simp add: find_decision_observation_def empty_decisions_def)
  obtain i where i: "find_decision_observation ?key (pl_store (demo_after ''r1'')) =
      Some (i, (observation_of demo_digests demo_market ''paper'' ''r1'' demo_decision_of)\<lparr>ob_created_at := ''t''\<rparr>)"
    using persisted(3) [OF persist, unfolded key, OF _ none] by auto
  have "dict_ok (dt_observations (pl_store (demo_after ''r1'')))" using demo_tables_ok(2) by (simp add: decisions_ok_def)
  note row = find_observation_row [OF i this]
  have "ob_history_hash ((observation_of demo_digests demo_market ''paper'' ''r1'' demo_decision_of)\<lparr>ob_created_at := ''t''\<rparr>) = ''h11''"
    by (simp add: observation_of_def Let_def demo_decision_of_def) (simp add: demo_prepared_def)
  with row map_of_SomeD [OF row(1)] show ?thesis by blast
qed

subsection \<open>The target of the decision\<close>

definition demo_sizing_quotes :: "(string \<times> tradable_quote) list" where
  "demo_sizing_quotes = [(''600000.SSE'', \<lparr>tq_instrument = ''600000.SSE'', tq_as_of = ''2024-01-03'', tq_last = 10, tq_open = 10,
     tq_bid = 0, tq_ask = 0, tq_limit_up = 0, tq_limit_down = 0, tq_suspended = False, tq_stale = False,
     tq_price_source = ''raw''\<rparr>)]"

definition demo_sizing_metadata :: "(string \<times> instrument_metadata) list" where
  "demo_sizing_metadata = [(''600000.SSE'', metadata_of ''600000.SSE'')]"

definition demo_account :: account_snapshot where
  "demo_account = \<lparr>as_account_id = ''acct'', as_as_of = ''2024-01-03'', as_balance = 100000, as_available = 100000,
     as_positions = [], as_sellable = [], as_active_order_deltas = [], as_external_orders = []\<rparr>"

definition demo_schedule :: fee_schedule where
  "demo_schedule = \<lparr>fs_buy_rate = 1/1000, fs_sell_rate = 1/1000, fs_min_fee = 5, fs_max_order_value = 0\<rparr>"

definition demo_size :: "exn + target_portfolio" where
  "demo_size = size_decision (\<lambda>_. ''h'') 100 demo_decision_of demo_instance demo_account demo_sizing_quotes demo_sizing_metadata
     ''2024-01-03'' demo_schedule"

lemma demo_sized: "\<exists>t. demo_size = Inr t"
proof -
  have long_only: "im_long_only (metadata_of ''600000.SSE'')" by code_simp
  have size: "\<exists>t. size_portfolio (\<lambda>_. ''h'') 100 demo_weights demo_account []
      \<lparr>si_instance_id = ''i1'', si_config_hash = ''u600000.SSE''\<rparr> demo_sizing_quotes demo_sizing_metadata demo_schedule a b c = Inr t" for a b c
    by (simp add: size_portfolio_def demo_weights_def demo_account_def demo_sizing_quotes_def demo_sizing_metadata_def first_of_def
        untradable_def quote_price_def fit_to_available_cash_def current_book_def canon_dict_def dict_of_def canon_lookup_def
        dget_def Let_def demo_stock_symbol long_only executable_price_def split: sum.split)
  have parts: "check_session demo_decision_of demo_instance ''2024-01-03'' = Inr ()"
    "missing_from (required_instruments demo_decision_of demo_account) demo_sizing_quotes = []"
    "missing_from (required_instruments demo_decision_of demo_account) demo_sizing_metadata = []"
    "check_quotes (required_instruments demo_decision_of demo_account) ''2024-01-03'' demo_sizing_quotes = Inr ()"
    "as_external_orders demo_account = []"
    by (simp_all add: check_session_def demo_decision_fields demo_universe missing_from_def required_instruments_def demo_weights_def
        demo_account_def demo_sizing_quotes_def demo_sizing_metadata_def demo_stock_symbol)
  show ?thesis using size by (simp add: demo_size_def size_decision_def parts demo_decision_fields demo_ids)
qed

subsection \<open>Two runs compared\<close>

definition demo_observation :: "string \<Rightarrow> string \<Rightarrow> observation" where
  "demo_observation mode run_id = (observation_of demo_digests demo_market mode run_id demo_decision_of)\<lparr>ob_created_at := ''t''\<rparr>"

definition demo_two_runs :: decision_store where
  "demo_two_runs = (empty_decisions [''i1''])\<lparr>dt_observations :=
     [(''o1'', demo_observation ''paper'' ''r1''), (''o2'', demo_observation ''replay'' ''r2'')]\<rparr>"

definition demo_runs :: compared_runs where
  "demo_runs = \<lparr>rs_left_mode = ''paper'', rs_left_run_id = ''r1'', rs_right_mode = ''replay'', rs_right_run_id = ''r2''\<rparr>"

definition demo_instance_row :: instance_row where
  "demo_instance_row = \<lparr>ir_strategy_id = ''ma'', ir_strategy_version = ''1'', ir_config = demo_instance, ir_config_hash = ''u600000.SSE'',
     ir_validation_state = [], ir_updated_at = []\<rparr>"

lemma demo_two_runs: "decisions_ok demo_two_runs" "map_of (dt_comparisons demo_two_runs) ''k'' = None"
  by (simp_all add: decisions_ok_def demo_two_runs_def empty_decisions_def demo_observation_def observation_of_def Let_def key_of_def
      observation_key.truncate_def)

lemma demo_compared: "case fst (compare_runs ''t'' ''k'' (Inr demo_instance_row) ''i1'' demo_runs demo_two_runs) of Inl _ \<Rightarrow> False | Inr v \<Rightarrow> cp_status (cv_row v) = ''completed''"
  by code_simp

end
