(* ===== verification/Spec2Isabelle.thy ===== *)
theory Spec2Isabelle
  imports Further_Results Execution_Examples Acceptance_Examples Decision_Examples
begin

text \<open>
  \<^bold>\<open>AlphaPilot: live trading, execution planning and deployment control.\<close>

  AlphaPilot runs strategies against a broker.  A strategy instance is configured and deployed in the
  runtime store; a decision pipeline turns completed bars into a signal, target weights and a stored
  decision, which is sized into a target portfolio; a planner turns the difference between target
  and holdings into child orders; an automated router asks the authorizer before each child order and
  hands it to the live engine; the engine checks the session, the run mode and the risk gate, sends the
  order to the broker and keeps an order management system (OMS), a position book and an audit trail
  that follow the broker's callbacks.  This development models that chain and proves what each link
  promises to the next.

  \<^bold>\<open>Data.\<close>  A dataclass or table row is a record whose fields carry a prefix (\<open>rq_\<close> order request,
  \<open>od_\<close> order, \<open>en_\<close> engine, \<open>rt_\<close> runtime row); an enum is a datatype with its value function; a
  dictionary is an association list on distinct keys (\<open>dict_set\<close>, \<open>dict_del\<close>); a float is a rational
  number, so rounding errors of floating point are not modelled; a \<open>datetime\<close> is a number of
  microseconds since midnight of a Monday, and a \<open>stamp\<close> may be naive or carry an offset.  Text is
  ASCII.  An operation on a state is \<open>'s \<Rightarrow> (exn + 'a) \<times> 's\<close>: the exception or the result, and the state
  afterwards, since a Python handler that raises half-way leaves what it has done.  \<open>uuid4\<close>, SHA-256, JSON
  digests, clock text, environment variables and vendor gateways are parameters.

  \<^bold>\<open>Theories.\<close>  \<open>Prelude\<close>: text, dictionaries, exceptions, operations and the collections of simplification
  rules.  Under \<open>src/alphapilot/systems/live/\<close>:
  \<^item> \<open>Symbols\<close>, \<open>Live_Types\<close>: \<open>types.py\<close> and \<open>canonical_instrument\<close> of \<open>trading/contracts.py\<close>;
  \<^item> \<open>FSM\<close>, \<open>Session\<close>: the state machines of \<open>fsm/\<close> and the run modes of \<open>config.py\<close>;
  \<^item> \<open>Positions\<close>, \<open>OMS\<close>, \<open>Risk\<close>, \<open>Ledger\<close>, \<open>Redaction\<close>: \<open>position.py\<close>, \<open>oms.py\<close>, \<open>risk.py\<close>, \<open>ledger.py\<close> with
    \<open>events.py\<close>, and \<open>redaction.py\<close>;
  \<^item> \<open>Engine\<close>, \<open>Reconnect\<close>: \<open>engine.py\<close>; \<open>Gateway_Contract\<close> is the locale of what the engine relies on in a
    gateway, \<open>Engine_Safety\<close> the lemmas proved once over it;
  \<^item> \<open>Brokers\<close>, \<open>Broker_Sync\<close>: \<open>brokers/paper.py\<close> and \<open>brokers/sim.py\<close>, interpreted as gateways; \<open>Recovery\<close>,
    \<open>Bars\<close>: \<open>recovery.py\<close> and \<open>bars.py\<close>;
  \<^item> \<open>Lots\<close>, \<open>Planner\<close>, \<open>Executor\<close>, \<open>Algos\<close>: \<open>planner.py\<close>, \<open>executor.py\<close> with \<open>asset_routing.py\<close> and
    \<open>targets.py\<close>, \<open>algos.py\<close>;
  \<^item> \<open>Routing\<close>: \<open>routing.py\<close>, \<open>execution_adapter.py\<close> and \<open>cancel_order\<close> of \<open>runtime.py\<close>.
  Under \<open>src/alphapilot/systems/trading/\<close>:
  \<^item> \<open>Contracts\<close>, \<open>Trading_Planner\<close>, \<open>Portfolio\<close>, \<open>Sizing\<close>: \<open>contracts.py\<close>, \<open>planning.py\<close>, \<open>portfolio.py\<close>;
  \<^item> \<open>Deployment\<close>: \<open>account_identity.py\<close> and the configurations of \<open>domain.py\<close>;
  \<^item> \<open>Store\<close>, \<open>Store_Safety\<close>: the deployment tables of \<open>store.py\<close>, and their invariant over every
    interleaving of transactions; \<open>Authorization\<close>, \<open>Deployment_Facts\<close>: \<open>authorization.py\<close> and what its answer
    says of the tables.
  \<^item> \<open>Account_Guard\<close>: \<open>account_guard.py\<close>; \<open>Execution_Journal\<close>: the plan, child-order and reconciliation tables of
    \<open>store.py\<close>; \<open>Execution\<close>: \<open>execution.py\<close>, the coordinator that carries a plan from phase to phase over
    account and route ports; \<open>Execution_Safety\<close> proves its invariants over any ports that keep the contract,
    \<open>Execution_Phases\<close> the phase machine, completion, shadow executions and the capture of fills;
  \<^item> \<open>Live_Execution\<close>: the ports of the live adapters; \<open>Replay\<close>, \<open>Replay_Safety\<close>, \<open>Replay_Orders\<close>: the broker of
    \<open>replay.py\<close>, its books under every run of coordinators, and the end of its orders.
  \<^item> \<open>Decision_Contracts\<close>: signals, weights, provenance, decisions and bars of \<open>contracts.py\<close> as documents;
    \<open>Decision_Tables\<close>: the tables of \<open>store.py\<close> for artifacts, signals, decisions, checkpoints and observations;
    \<open>Comparison\<close>: \<open>comparison.py\<close> and its tables; \<open>Registry\<close>: \<open>registry.py\<close>, \<open>policy_registry.py\<close> and the
    definitions of \<open>domain.py\<close>; \<open>Decision_Pipeline\<close>: \<open>application.py\<close>, from completed bars to a persisted decision
    and from a decision to a target.  \<open>Decision_Safety\<close> proves what the tables keep over every run of
    transactions, \<open>Pipeline_Facts\<close> what an evaluation and a sized decision guarantee, \<open>Comparison_Facts\<close> what a verdict says.
  Broker acceptance: \<open>Broker_Acceptance\<close> models the acceptance tables of \<open>store.py\<close>, \<open>Acceptance_Safety\<close> the
  transitions of a run and what its evidence says, \<open>Runtime_Orders\<close> the one door to the engine in
  \<open>live/runtime.py\<close> (manual, automated and acceptance orders), \<open>Runtime_Safety\<close> its histories,
  \<open>Acceptance_Harness\<close> the decisions of \<open>live/broker_uat.py\<close>.
  \<open>Examples\<close>, \<open>Trading_Examples\<close>, \<open>Deployment_Examples\<close>, \<open>Acceptance_Examples\<close>, \<open>Decision_Examples\<close> and
  \<open>Execution_Examples\<close> hold the concrete states that
  the witnesses evaluate; \<open>Further_Results\<close> holds facts about single components beyond the properties below.

  \<^bold>\<open>Interfaces.\<close>  The lemmas on the engine are proved in the gateway locale and interpreted on the paper and
  the simulated broker.  \<open>execution_ports\<close> states what the coordinator relies on in its ports (only
  \<open>submit_child\<close> hands a reference over, and of the journal a port writes captured fills only) and is
  interpreted on the live and on the replay ports; \<open>execution_invariant\<close> lifts a predicate from the ports and the
  journal's writes to every operation of the coordinator; \<open>replay_invariant\<close> lifts one from submitting, polling
  and cancelling to every run of a replay.  The engine's runs are explicit sequences of actions and callbacks; the store's are the
  inductive \<open>reachable_store\<close>, whose steps are the transactions, with \<open>configure_write\<close> and \<open>update_write\<close>
  separate from the reads that precede them, because another process may step in between.

  \<^bold>\<open>Bounds and fuel.\<close>  Recursions are structural or have a termination proof.  The cash fit of the sizer
  halves its interval a fixed number of times, as the code does, and a replay drives a plan for at most 256
  advances, as the code does.  No theorem depends on fuel.

  \<^bold>\<open>Not modelled.\<close>  Vendor gateways and SDKs, sockets, processes and threads (\<open>daemon.py\<close>, \<open>control.py\<close>,
  \<open>dispatch.py\<close>), files and JSON text, the store's tables of backtests
  and operator tokens and its migrations, plugin discovery and the isolated workers of strategies, the acceptance scenario that waits for a real broker, the session loop of the replay, the research loops, factor mining, data preparation, backtests,
  the portal and the command line: they are input and output around external libraries, or later work.
\<close>

section \<open>Properties\<close>



text \<open>C2. Once halted, the engine stays halted and routes nothing over any sequence of
  actions and gateway callbacks without an explicit resume.\<close>

theorem kill_switch_latched:
  assumes "rm_halted (en_runmode en)" and "\<forall>a \<in> set acts. \<not> may_resume a"
  shows "rm_halted (en_runmode (engine_run (paper_gateway uuid decide) acts en)) \<and>
    fst (submit (paper_gateway uuid decide) req origin (engine_run (paper_gateway uuid decide) acts en)) = Inr None"
proof -
  let ?en = "engine_run (paper_gateway uuid decide) acts en"
  have h: "rm_halted (en_runmode ?en)"
    using paper.run_halted [of en acts uuid decide] assms by (simp add: engine_halted_def)
  then have "\<not> can_submit_orders (en_runmode ?en)" by (rule halted_cannot_submit)
  with h submit_not_routed(1) show ?thesis by blast
qed

theorem kill_switch_latched_witness:
  "rm_halted (en_runmode (engine_run (paper_gateway demo_uuid paper_decide)
     [ASubmit demo_request ''manual'', AClose, AConnect None, ATickSession, AReconcile None False]
     (set_halted ''manual'' demo_engine)))"
  using kill_switch_latched [of "set_halted ''manual'' demo_engine"
      "[ASubmit demo_request ''manual'', AClose, AConnect None, ATickSession, AReconcile None False]"]
  by simp



text \<open>C4. Over any sequence of checks of one day, the gate accepts at most the daily number
  of orders and the daily turnover, and never the same client reference twice.\<close>

theorem daily_limits_hold:
  assumes "gate_run ats g = (acc, g')" "acc \<noteq> []" "rg_orders_today g = 0" "rg_value_today g = 0"
  shows "distinct (named_refs acc) \<and> set (named_refs acc) \<inter> rg_seen_refs g = {} \<and>
    (rl_max_orders_per_day (rg_limits g) > 0 \<longrightarrow> int (length acc) \<le> rl_max_orders_per_day (rg_limits g)) \<and>
    (rl_max_daily_value (rg_limits g) > 0 \<longrightarrow> sum_list (map snd acc) \<le> rl_max_daily_value (rg_limits g))"
  using gate_run_counts [OF assms(1)] gate_run_bounded [OF assms(1,2)] assms(3,4) by simp

theorem daily_limits_hold_witness:
  "\<exists>acc g'. gate_run [(demo_request, demo_oms, Some \<lparr>sv_state = CONTINUOUS_AM, sv_now = Naive 0\<rparr>, Some PAPER, Naive 0)]
      (risk_gate_init default_limits True) = (acc, g') \<and> int (length acc) \<le> 1000"
proof -
  let ?ats = "[(demo_request, demo_oms, Some \<lparr>sv_state = CONTINUOUS_AM, sv_now = Naive 0\<rparr>, Some PAPER, Naive 0)]"
  obtain acc g' where r: "gate_run ?ats (risk_gate_init default_limits True) = (acc, g')" by fastforce
  then have "acc \<noteq> []"
    by (auto simp: risk_check_def demo_check_equity demo_verdict Let_def)
  from daily_limits_hold [OF r this] r show ?thesis by (simp add: risk_gate_init_def default_limits_def)
qed

text \<open>C5. Every run of actions and callbacks keeps the OMS well formed (keys are ids, the
  working set is the active orders, the book is consistent, the log is bounded) and the
  subscriptions split into strategy and observer symbols.\<close>

theorem engine_invariant:
  assumes "engine_init mode qk tn qn now wall cal environ risk ld pb = Inr en"
  shows "engine_wf (engine_run (paper_gateway uuid decide) acts en)"
proof (rule paper.run_wf)
  from assms show "engine_wf en"
    by (auto simp: engine_init_def engine_wf_def runmode_init_def Let_def split: option.splits)
qed

theorem engine_invariant_witness:
  "engine_wf (engine_run (paper_gateway demo_uuid demo_sim)
     [ASubscribe [''600000''] ''observer'', ASubmit demo_request ''manual'', AHalt ''x''] demo_start)"
  by (rule engine_invariant [OF demo_start_init])

text \<open>C6. A clock that is first polled after 09:15 on the day after it last saw a closed day
  raises, and so does every later poll of that day: the session stays CLOSED and no order passes
  the session rule.\<close>

theorem late_poll_freezes_the_clock:
  assumes "\<forall>t \<in> set ts. cal t \<and> hms 9 15 0 \<le> time_of_day t"
  shows "clock_polls cal ts CLOSED = CLOSED \<and> \<not> can_submit (clock_polls cal ts CLOSED) \<and>
    (\<forall>t \<in> set ts. \<exists>e. fst (clock_tick cal t CLOSED) = Inl e)"
proof -
  have raise: "snd (clock_tick cal t CLOSED) = CLOSED \<and> (\<exists>e. fst (clock_tick cal t CLOSED) = Inl e)"
    if "t \<in> set ts" for t
  proof -
    from that assms have "session_state_at t True \<noteq> PRE_OPEN" "cal t" by (simp_all add: session_pre_open_iff not_less)
    then have "clock_current_state cal t \<notin> session_allowed CLOSED" "clock_current_state cal t \<noteq> CLOSED"
      by (simp_all add: session_allowed_iff clock_current_state_def session_state_at_not_closed)
    then show ?thesis by (simp add: clock_tick_def check_transition_def Let_def)
  qed
  then have "clock_polls cal us CLOSED = CLOSED" if "set us \<subseteq> set ts" for us
    using that by (induction us) auto
  with raise show ?thesis by (auto simp: can_submit_def)
qed

theorem late_poll_freezes_the_clock_witness:
  "clock_polls weekday_calendar [hms 9 30 0, hms 10 0 0, hms 14 0 0] CLOSED = CLOSED"
  using late_poll_freezes_the_clock [of "[hms 9 30 0, hms 10 0 0, hms 14 0 0]" weekday_calendar]
  by (simp add: weekday_calendar_def day_of_def day_us_def hms_def time_of_day_def)



text \<open>C8. The children of a broker-independent plan net to at most the difference between
  the wanted and the effective holding of each canonical instrument, never the other way, and sell
  at most what is sellable.\<close>

theorem trading_plan_within_target:
  assumes "trading_plan stable_id pl t account quotes instruments ni = Inr p"
  shows "let wanted = canon_dict (\<lambda>v. max v 0) (tp_holdings t);
      held = canon_dict (\<lambda>v. max v 0) (as_positions account);
      delta = dget wanted k - (dget held k + dget (canon_dict (\<lambda>v. v) (as_active_order_deltas account)) k);
      net = child_net k (xp_children p)
    in min 0 delta \<le> net \<and> net \<le> max 0 delta \<and>
      - net \<le> dget_or (canon_dict (\<lambda>v. max v 0) (as_sellable account)) k (dget held k)"
  using trading_plan_net [OF assms, of k] by (simp add: Let_def)

theorem trading_plan_within_target_witness:
  "\<exists>p. trading_plan (\<lambda>_. ''id'') (planner_init 100 0 0) demo_target demo_snapshot [] [] [] = Inr p \<and>
     child_net ''600000.SSE'' (xp_children p) \<ge> 0"
proof -
  obtain p where p: "trading_plan (\<lambda>_. ''id'') (planner_init 100 0 0) demo_target demo_snapshot [] [] [] = Inr p"
    using trading_plan_total [of "planner_init 100 0 0" "\<lambda>_. ''id''" demo_target demo_snapshot "[]" "[]" "[]"]
    by (auto simp: planner_init_def)
  from trading_plan_within_target [OF p, of "''600000.SSE''"] p show ?thesis
    by (auto simp: demo_snapshot_def canon_dict_def dict_of_def dget_def dget_or_def Let_def)
qed



text \<open>C10. A TWAP order that sees at least as many continuous-session polls as it has slices
  is DONE at the end, and has submitted child volumes that add up to the whole order in whole
  lots, each within one lot of the others.\<close>

theorem twap_completes:
  assumes "xs \<noteq> []" "max 1 slices \<le> int (length (filter continuous xs))" "0 \<le> rq_volume req"
    "twap_day reply xs (twap_init req slices lot_size, []) = (al, sent)"
  shows "twp_state al = DONE \<and> remaining_children al = 0 \<and>
    sum_list (map rq_volume sent) = floor_lot (rq_volume req) lot_size \<and>
    (\<forall>v \<in> set (map rq_volume sent). \<forall>w \<in> set (map rq_volume sent). v - w \<le> of_int (lot_unit lot_size))"
proof -
  let ?cs = "plan_children (rq_volume req) (max 1 slices) lot_size"
  have "length ?cs \<le> length (filter continuous xs)"
    using plan_children_length [of "max 1 slices" "rq_volume req" lot_size] assms(2) by linarith
  note fin = twap_day_completes [OF assms(1) this assms(4)]
  have "v - w \<le> of_int (lot_unit lot_size)" if "v \<in> set ?cs" "w \<in> set ?cs" for v w
    using plan_children_members(3) [OF _ that(1), of w] that(2) by simp
  with fin plan_children_sum [of "max 1 slices" "rq_volume req" lot_size] assms(3) show ?thesis by simp
qed

theorem twap_completes_witness:
  "\<exists>al sent. twap_day (\<lambda>_. None) [CONTINUOUS_AM, CONTINUOUS_PM] (twap_init (demo_request\<lparr>rq_volume := 500\<rparr>) 2 100, []) = (al, sent) \<and>
     twp_state al = DONE \<and> sum_list (map rq_volume sent) = 500"
proof -
  obtain al sent where d: "twap_day (\<lambda>_. None) [CONTINUOUS_AM, CONTINUOUS_PM]
      (twap_init (demo_request\<lparr>rq_volume := 500\<rparr>) 2 100, []) = (al, sent)" by (metis surj_pair)
  from twap_completes [OF _ _ _ d] d show ?thesis by (simp add: continuous_def floor_lot_def)
qed



text \<open>C12. An automated route is authorized only for a validated instance whose deployment
  is current, whose runtime row agrees with the route's configuration, mode, account and daemon,
  is running and reconciled, owns the writer lock on an external account, is under no active
  block, and has a recent heartbeat.\<close>

theorem authorized_route_is_live:
  assumes "authorize sha digest fromiso ttl environ now st c = Inr a" "ra_allowed a"
  shows "\<exists>inst spec r hb. get_instance digest (rc_instance_id c) st = Inr inst \<and> ir_validation_state inst = ''validated'' \<and>
    get_deployment_spec sha digest (rc_instance_id c) st = Inr (spec, False) \<and>
    map_of (st_runtimes st) (rc_instance_id c) = Some r \<and>
    ir_config_hash inst = rc_config_hash c \<and> ds_config_hash (sr_spec spec) = rc_config_hash c \<and>
    rt_config_hash r = rc_config_hash c \<and> rt_run_mode r = rc_run_mode c \<and>
    rc_run_mode c \<in> {''paper'', ''simulation'', ''live''} \<and> (rc_run_mode c = ''live'' \<longrightarrow> automated_live_enabled environ) \<and>
    account_identities_match sha (rt_account_id r) (rc_account_id c) \<and> rt_runtime_id r = rc_runtime_id c \<and>
    rt_desired_state r = ''running'' \<and> rt_observed_state r = ''running'' \<and> \<not> rt_reconcile_required r \<and>
    (rt_execution_environment r \<in> {''live'', ''broker_simulation''} \<longrightarrow>
       rt_reconciled r \<and> rt_binding_active r \<and> writer_is sha c r st) \<and>
    active_route_blocks sha (rc_instance_id c) (rt_account_id r) st = [] \<and>
    parse_timestamp fromiso (rt_runner_heartbeat_at r) = Some hb \<and> heartbeat_age now hb \<le> max ttl (1/10)"
proof -
  obtain inst spec stale r where all: "rc_origin c = ORIGIN_AUTOMATED" "missing_bindings c = []"
    "get_instance digest (rc_instance_id c) st = Inr inst"
    "get_deployment_spec sha digest (rc_instance_id c) st = Inr (spec, stale)"
    "map_of (st_runtimes st) (rc_instance_id c) = Some r"
    "clear (binding_checks sha environ c inst (sr_spec spec, stale) r)" "clear (account_checks sha c r st)"
    "clear (block_checks sha c r st)" "clear (heartbeat_checks fromiso (max ttl (1/10)) now r)"
    by (rule authorize_allowed [OF assms])
  obtain hb where hb: "parse_timestamp fromiso (rt_runner_heartbeat_at r) = Some hb" "heartbeat_age now hb \<le> max ttl (1/10)"
    by (rule heartbeat_checks_pass [OF all(9)])
  have "active_route_blocks sha (rc_instance_id c) (rt_account_id r) st = []"
    using all(8) account_known [OF all(7)] by (simp add: block_checks_def or_text_def Let_def)
  with all(3-5) hb binding_checks_pass [OF all(6)] account_checks_pass [OF all(7)] show ?thesis
    by (intro exI [of _ inst] exI [of _ spec] exI [of _ r] exI [of _ hb])
      (simp add: external_environment_def del: insert_iff map_of_eq_Some_iff)
qed

theorem authorized_route_is_live_witness:
  "\<exists>inst. get_instance demo_digest ''i1'' demo_running = Inr inst \<and> ir_validation_state inst = ''validated''"
  using authorized_route_is_live [OF demo_authorized] by (auto simp: demo_context_def)

text \<open>C13. In every store that any interleaving of its transactions reaches, two automated
  routes authorized for the same external account, broker and environment belong to the same
  strategy instance.\<close>

theorem one_writer_per_account:
  assumes "reachable_store sha digest st"
    "authorize sha digest fromiso ttl environ now st c = Inr a" "ra_allowed a"
    "authorize sha digest fromiso' ttl' environ' now' st c' = Inr a'" "ra_allowed a'"
    "map_of (st_runtimes st) (rc_instance_id c) = Some r" "rt_execution_environment r \<in> {''live'', ''broker_simulation''}"
    "map_of (st_runtimes st) (rc_instance_id c') = Some r'" "rt_execution_environment r' \<in> {''live'', ''broker_simulation''}"
    "str_lower (rc_execution_environment c) = str_lower (rc_execution_environment c')"
    "str_lower (rc_broker c) = str_lower (rc_broker c')"
    "account_identities_match sha (rc_account_id c) (rc_account_id c')"
  shows "rc_instance_id c = rc_instance_id c'"
  by (rule authorized_same_account [OF assms(1-6) _ assms(8) _ assms(10-12)])
    (simp_all only: external_environment_def assms(7,9))

theorem one_writer_per_account_witness:
  "rc_instance_id demo_context = rc_instance_id (demo_context\<lparr>rc_broker := ''QMT''\<rparr>)"
proof -
  have other: "authorize demo_sha demo_digest demo_iso 15 [] (Aware 0 0) demo_running (demo_context\<lparr>rc_broker := ''QMT''\<rparr>) =
      Inr \<lparr>ra_allowed = True, ra_rule = ''authorized'', ra_reason = ''deployment binding and runtime state match''\<rparr>"
    by code_simp
  obtain r where r: "map_of (st_runtimes demo_running) ''i1'' = Some r" "rt_execution_environment r = ''broker_simulation''"
    by (rule demo_running_row)
  show ?thesis
    by (rule one_writer_per_account [OF demo_reachable demo_authorized _ other, of r r])
      (simp_all add: r demo_context_def account_identities_match_def account_identity_hash_def hash_prefix_def
        demo_broker_case demo_acct Let_def del: map_of_eq_Some_iff)
qed

text \<open>C14. Once a global, instance or account block that concerns a route is set, the route
  is denied after any sequence of store operations that do not set that block again.\<close>

theorem route_block_holds:
  assumes "set_route_block sha now scope scope_id True reason st = (Inr key, st1)" "untouched_run sha digest key st1 st2"
    "fst key \<noteq> ''runtime''"
    "key = (''global'', ''*'') \<or> key = (''instance'', rc_instance_id c) \<or>
     (\<exists>r. map_of (st_runtimes st2) (rc_instance_id c) = Some r \<and> key = (''account'', rt_account_id r))"
    "authorize sha digest fromiso ttl environ now' st2 c = Inr a"
  shows "\<not> ra_allowed a"
proof -
  have "map_of (st_blocks st1) key = Some \<lparr>bl_active = True, bl_reason = reason, bl_updated_at = now\<rparr>"
    using assms(1) by (auto simp: set_route_block_def AList.update_conv' Let_def
        simp del: map_of_eq_Some_iff insert_iff split: if_splits)
  then have "map_of (st_blocks st2) key = Some \<lparr>bl_active = True, bl_reason = reason, bl_updated_at = now\<rparr>"
    by (simp only: untouched_block [OF assms(2,3)])
  from blocked_denies [OF assms(5) this] assms(4) show ?thesis by (auto simp del: map_of_eq_Some_iff)
qed

theorem route_block_holds_witness:
  "\<exists>a. authorize demo_sha demo_digest demo_iso 15 [] (Aware 0 0)
     (snd (set_route_block demo_sha ''t'' ''Global'' [] True ''stop'' demo_running)) demo_context = Inr a \<and> \<not> ra_allowed a"
proof -
  obtain a where a: "authorize demo_sha demo_digest demo_iso 15 [] (Aware 0 0)
     (snd (set_route_block demo_sha ''t'' ''Global'' [] True ''stop'' demo_running)) demo_context = Inr a"
    using authorize_total by blast
  have "fst (set_route_block demo_sha ''t'' ''Global'' [] True ''stop'' demo_running) = Inr (''global'', ''*'')"
    by code_simp
  then have "set_route_block demo_sha ''t'' ''Global'' [] True ''stop'' demo_running =
      (Inr (''global'', ''*''), snd (set_route_block demo_sha ''t'' ''Global'' [] True ''stop'' demo_running))"
    by (metis prod.collapse)
  from route_block_holds [OF this untouched_none _ _ a] a show ?thesis by simp
qed

text \<open>C15. Changing the configuration of a strategy instance at once denies every route of
  that instance, stops and unbinds its runtime, invalidates its running runs and takes its
  validation back.\<close>

theorem strategy_change_revokes:
  assumes "update_instance digest now i changes st = (res, st')" "get_instance digest i st = Inr old"
    "map_of (st_instances st') i = Some row" "ir_config_hash row \<noteq> ir_config_hash old"
    "rc_instance_id c = i" "authorize sha digest fromiso ttl environ now' st' c = Inr a"
  shows "\<not> ra_allowed a \<and> ir_validation_state row = ''created'' \<and>
    (\<forall>r. map_of (st_runtimes st') i = Some r \<longrightarrow>
       \<not> rt_binding_active r \<and> rt_runtime_id r = [] \<and> rt_reconcile_required r \<and> rt_desired_state r = ''stopped'') \<and>
    (\<forall>(k, run) \<in> set (st_runs st'). rn_instance_id run = i \<longrightarrow> rn_status run \<noteq> ''running'')"
proof -
  note rev = update_instance_revokes [OF assms(1-4)]
  from rev(1) obtain b where "map_of (st_blocks st') (''runtime'', rc_instance_id c) = Some b" "bl_active b"
    by (auto simp: assms(5) simp del: map_of_eq_Some_iff)
  from blocked_denies [OF assms(6) this] have "\<not> ra_allowed a" by blast
  then show ?thesis using rev(2-4) by (auto simp: run_running_def simp del: map_of_eq_Some_iff)
qed

theorem strategy_change_revokes_witness:
  "\<exists>a. authorize demo_sha demo_digest demo_iso 15 [] (Aware 0 0)
     (snd (update_instance demo_digest ''t2'' ''i1'' [CUniverse [''000001.SZSE'']] demo_running)) demo_context = Inr a \<and>
     \<not> ra_allowed a"
proof -
  let ?st = "snd (update_instance demo_digest ''t2'' ''i1'' [CUniverse [''000001.SZSE'']] demo_running)"
  obtain a where a: "authorize demo_sha demo_digest demo_iso 15 [] (Aware 0 0) ?st demo_context = Inr a"
    using authorize_total by blast
  have hash: "map_option ir_config_hash (map_of (st_instances ?st) ''i1'') = Some ''u000001.SZSE''"
    "map_sum id ir_config_hash (get_instance demo_digest ''i1'' demo_running) = Inr ''u600000.SSE''"
    by code_simp+
  then obtain row old where row: "map_of (st_instances ?st) ''i1'' = Some row" "ir_config_hash row = ''u000001.SZSE''"
    "get_instance demo_digest ''i1'' demo_running = Inr old" "ir_config_hash old = ''u600000.SSE''"
    by (cases "get_instance demo_digest ''i1'' demo_running") (auto simp del: map_of_eq_Some_iff)
  have "update_instance demo_digest ''t2'' ''i1'' [CUniverse [''000001.SZSE'']] demo_running =
      (fst (update_instance demo_digest ''t2'' ''i1'' [CUniverse [''000001.SZSE'']] demo_running), ?st)" by simp
  from strategy_change_revokes [OF this row(3,1) _ _ a] a row(2,4) show ?thesis by (simp add: demo_context_def)
qed

text \<open>C16. An automated child order whose reference is not of its instance and
  configuration, or whose authorizer is missing, raises or denies, reaches neither the risk gate
  nor the broker: submit answers no order id, the engine gains one ledger line and nothing
  else.\<close>

theorem router_fails_closed:
  assumes "\<not> starts_with (rc_instance_id c @ '':'' @ or_text (rc_config_hash c) ''-'' @ '':'') (rq_reference req) \<or>
    auth = None \<or> (\<exists>f e. auth = Some f \<and> f c = Inl e) \<or> (\<exists>f d. auth = Some f \<and> f c = Inr d \<and> \<not> ra_allowed d)"
  shows "fst (router_submit gi auth c req ro) = Inr None \<and>
    ro_engine (snd (router_submit gi auth c req ro)) =
      (ro_engine ro)\<lparr>en_ledger := en_ledger (ro_engine (snd (router_submit gi auth c req ro)))\<rparr> \<and>
    length (ledger_lines (en_ledger (ro_engine (snd (router_submit gi auth c req ro)))) (day_of (en_wall (ro_engine ro)))) =
      Suc (length (ledger_lines (en_ledger (ro_engine ro)) (day_of (en_wall (ro_engine ro))))) \<and>
    router_submit gi' auth c req ro = router_submit gi auth c req ro"
proof -
  have "\<not> ra_allowed (route_decision auth c req)"
    using assms by (auto simp: route_decision_def route_prefix_def deny_def)
  note out = router_denied [OF this]
  show ?thesis using record_block_frame [of req "route_decision auth c req" "ro_engine ro"] by (simp add: out)
qed

theorem router_fails_closed_witness:
  "fst (router_submit (paper_gateway demo_uuid paper_decide) None demo_context demo_request
     \<lparr>ro_engine = demo_engine, ro_last_authorization = None\<rparr>) = Inr None"
  using router_fails_closed [of demo_context demo_request None] by blast

text \<open>C17. A deployment that configure_deployment accepts reads back as exactly the
  specification given, not stale, with its runtime at rest: ready, unbound, without a daemon,
  reconciled only for paper, and under no runtime block.\<close>

theorem deployment_reads_back:
  assumes "reachable_store sha digest st" "hex_digest sha" "check_spec sha digest d0 = Inr d"
    "configure_deployment sha digest now d st = (Inr v, st')"
  shows "sr_spec (fst (dv_configuration v)) = d \<and> \<not> snd (dv_configuration v) \<and>
    rt_desired_state (dv_runtime v) = ''ready'' \<and> rt_observed_state (dv_runtime v) = ''ready'' \<and>
    rt_runtime_id (dv_runtime v) = [] \<and> \<not> rt_binding_active (dv_runtime v) \<and> \<not> rt_reconcile_required (dv_runtime v) \<and>
    rt_reconciled (dv_runtime v) = (ds_run_mode d = ''paper'') \<and>
    (\<forall>b. map_of (st_blocks st') (''runtime'', ds_instance_id d) = Some b \<longrightarrow> \<not> bl_active b)"
  using configure_reads_back [OF reachable_store_ok [OF assms(1)] assms(2-4)] by (simp add: at_rest_def del: map_of_eq_Some_iff)

theorem deployment_reads_back_witness:
  "\<exists>v st'. configure_deployment demo_sha demo_digest ''t'' demo_spec demo_validated = (Inr v, st') \<and>
     sr_spec (fst (dv_configuration v)) = demo_spec"
proof -
  have "\<not> isl (fst (configure_deployment demo_sha demo_digest ''t'' demo_spec demo_validated))" by code_simp
  then obtain v st' where v: "configure_deployment demo_sha demo_digest ''t'' demo_spec demo_validated = (Inr v, st')"
    by (cases "fst (configure_deployment demo_sha demo_digest ''t'' demo_spec demo_validated)";
        cases "configure_deployment demo_sha demo_digest ''t'' demo_spec demo_validated") auto
  have reach: "reachable_store demo_sha demo_digest demo_validated"
    unfolding demo_validated_def
    by (intro reach_step [OF _ step_validate] reach_step [OF _ step_create] reach_empty)
  have "hex_digest demo_sha" by (simp add: hex_digest_def demo_sha_def)
  from deployment_reads_back [OF reach this demo_spec_ok v] v show ?thesis by blast
qed





text \<open>C20. Whatever coordinators on the live ports do over one journal, in whatever order,
  returning or raising half-way, and whatever happens to the engine in between, no child order is
  handed to the router twice, and every one that was handed over is in the journal.\<close>

theorem children_submitted_once:
  assumes "execution_run (\<lambda>c _. on_live_ports c) keeps_handed x y" "lw_handed (xs_world x) = []"
  shows "distinct (lw_handed (xs_world y)) \<and>
    set (lw_handed (xs_world y)) \<subseteq> fst ` set (jn_children (xs_journal y))"
  using assms by (rule live_handed_once)

theorem children_submitted_once_witness:
  "distinct (lw_handed (xs_world (demo_advanced 4 demo_target))) \<and> length (lw_handed (xs_world (demo_advanced 4 demo_target))) = 1"
  using children_submitted_once [OF demo_live_run [of keeps_handed 4 demo_target]] demo_handed
  by (simp add: demo_execution_def demo_live_world_def)

text \<open>C21. When a live coordinator that is not a shadow completes a plan, the account it
  read last, in the state it leaves behind, holds exactly the target and has no working
  order.\<close>

theorem completed_at_target:
  assumes "xc_ports c = live_ports gi auth ctx isoformat" "\<not> xc_shadow c"
    "map_of (jn_states (xs_journal x)) plan_id = Some st" "es_phase st \<noteq> COMPLETED"
    "advance_plan c plan_id x = (Inr st', y)" "es_phase st' = COMPLETED"
  shows "\<exists>snapshot. adapter_snapshot isoformat (rc_instance_id ctx) (rc_config_hash ctx)
      (ro_engine (lw_router (xs_world y))) = Inr snapshot \<and> as_active_order_deltas snapshot = [] \<and>
    map_of (held_positions (as_positions snapshot)) = map_of (held_positions (tp_holdings (pp_target (es_payload st))))"
proof -
  have "at_target c (pp_target (es_payload st)) (xs_world y)"
    by (rule advance_plan_completes [OF assms(3,4,2,5,6)]) (unfold assms(1), rule live.execution_ports_axioms)
  then show ?thesis
    by (auto simp: at_target_def assms(1) live_ports_fields in_world_def)
qed

theorem completed_at_target_witness:
  "\<exists>snapshot. adapter_snapshot (\<lambda>_. ''t'') (rc_instance_id demo_live_context) (rc_config_hash demo_live_context)
     (ro_engine (lw_router (xs_world (demo_advanced 3 demo_idle_target)))) = Inr snapshot \<and> as_active_order_deltas snapshot = []"
proof -
  let ?x = "demo_advanced 2 demo_idle_target"
  obtain st where st: "map_of (jn_states (xs_journal ?x)) ''id'' = Some st" "es_phase st \<noteq> COMPLETED"
    by (rule demo_idle_before)
  obtain st' where st': "advance_plan demo_live ''id'' ?x = (Inr st', demo_advanced 3 demo_idle_target)" "es_phase st' = COMPLETED"
    by (rule demo_idle_step)
  have "\<not> xc_shadow demo_live" by (simp add: demo_live_def live_coordinator_def)
  from completed_at_target [OF demo_live_ports_of this st st'] show ?thesis by blast
qed



text \<open>C23. A plan that is PAUSED stays so: no advance, recovery or pause by any coordinator
  on the live ports, no work on other plans and nothing the engine does brings it back, short of
  beginning a plan under the same id.\<close>

theorem paused_plan_stays:
  assumes "execution_run (\<lambda>c a. on_live_ports c \<and> \<not> begins_plan plan_id a) env x y"
    "map_of (jn_states (xs_journal x)) plan_id = Some st" "es_phase st = PAUSED"
  shows "\<exists>st'. map_of (jn_states (xs_journal y)) plan_id = Some st' \<and> es_phase st' = PAUSED"
  using live_paused_stays [OF assms(1)] assms(2,3) by (simp add: plan_paused_def)

theorem paused_plan_stays_witness:
  "\<exists>st'. map_of (jn_states (xs_journal (snd (perform demo_live (Recover ''id'') demo_paused)))) ''id'' = Some st' \<and> es_phase st' = PAUSED"
proof -
  obtain st where st: "map_of (jn_states (xs_journal demo_paused)) ''id'' = Some st" "es_phase st = PAUSED"
    by (rule demo_paused_state)
  have "execution_run (\<lambda>c a. on_live_ports c \<and> \<not> begins_plan ''id'' a) (\<lambda>_ _. False) demo_paused
      (snd (perform demo_live (Recover ''id'') demo_paused))"
    by (rule run_act [OF run_done]) (simp add: demo_live_on begins_plan_def)
  from paused_plan_stays [OF this st] show ?thesis .
qed



text \<open>C25. After any run of coordinators on the replay broker, over any sessions, its
  account is the sum of its fills: cash is the initial cash plus what the fills brought and cost,
  every position is what was bought less what was sold and is positive, and each order is filled
  as far as its fills say and never beyond its volume.\<close>

theorem replay_books_balance:
  assumes "execution_run (\<lambda>c _. on_replay cfg c) session_change x y" "xs_world x = new_replay_broker cfg"
  defines "b \<equiv> xs_world y"
  shows "rac_cash (rb_account b) = rcf_initial_cash cfg + sum_list (map fill_flow (rb_fills b)) \<and>
    (\<forall>k. dget (rac_positions (rb_account b)) k = sum_list (map (fill_lots k) (rb_fills b))) \<and>
    (\<forall>(k, v) \<in> set (rac_positions (rb_account b)). 0 < v) \<and>
    (\<forall>r ord. map_of (rb_orders b) r = Some ord \<longrightarrow>
       rpo_filled ord = sum_list (map (reference_lots r) (rb_fills b)) \<and> rpo_filled ord \<le> max (ec_volume (rpo_child ord)) 0)"
  using replay_run_books(1,2) [OF assms(1,2)] unfolding b_def books_balance_def orders_filled_def long_only_books_def filled_of_def
  by (metis (no_types, lifting) option.simps(5))

theorem replay_books_balance_witness:
  "rac_cash (rb_account (xs_world (snd demo_executed))) =
     100000 + sum_list (map fill_flow (rb_fills (xs_world (snd demo_executed))))"
  using replay_books_balance [OF demo_executed_run] by (simp add: demo_execution_def demo_replay_config_def)

text \<open>C26. Every order of the replay broker reaches a final status: after at most one poll
  for each lot of its remaining volume, and two more, it is no longer active, under any checked
  configuration.\<close>

theorem replay_orders_end:
  assumes "check_replay_config cfg = Inr cfg" "map_of (rb_orders b) r = Some ord" "0 \<le> rpo_polls ord"
  shows "\<exists>ord'. map_of (rb_orders (polls (nat \<lceil>replay_remaining ord / of_int (rcf_lot_size cfg)\<rceil> + 2) cfg r b)) r = Some ord' \<and>
    \<not> replay_active ord'"
proof -
  let ?b = "polls (nat \<lceil>replay_remaining ord / of_int (rcf_lot_size cfg)\<rceil> + 2) cfg r b"
  obtain ord' where ord': "map_of (rb_orders ?b) r = Some ord'" using order_still_there [OF assms(2)] by blast
  have "order_rests r ?b" by (rule order_ends [OF assms])
  with ord' show ?thesis by (simp add: order_rests_def del: map_of_eq_Some_iff)
qed

theorem replay_orders_end_witness:
  "\<exists>ord'. map_of (rb_orders (polls 5 demo_replay_config ''i1:c1:d1:buy0'' demo_working)) ''i1:c1:d1:buy0'' = Some ord' \<and>
    \<not> replay_active ord'"
  using replay_orders_end [OF demo_config_checked demo_working_order] by (simp add: demo_working_row)

text \<open>C27. With prices that are not negative and fees of at most the sale, the cash of a
  replay never falls below zero by more than the minimum fee of each sale that was filled: a
  purchase is always paid from cash.\<close>

theorem replay_cash_bounded:
  assumes "execution_run (\<lambda>c _. on_replay cfg c) session_change x y" "xs_world x = new_replay_broker cfg"
    "check_replay_config cfg = Inr cfg" "rcf_close_cost cfg \<le> 1"
    "\<And>r ord. map_of (rb_orders (xs_world y)) r = Some ord \<Longrightarrow> 0 \<le> ec_price (rpo_child ord)"
  shows "- (rcf_min_cost cfg * of_nat (length (filter (\<lambda>f. rpf_side f \<noteq> ''buy'') (rb_fills (xs_world y)))))
    \<le> rac_cash (rb_account (xs_world y))"
  using replay_run_books(3) [OF assms(1,2)] assms(3-5)
  by (simp add: fair_cash_def fair_config_def fair_prices_def cash_bounded_def sale_count_def del: map_of_eq_Some_iff)

theorem replay_cash_bounded_witness:
  "- (5 * of_nat (length (filter (\<lambda>f. rpf_side f \<noteq> ''buy'') (rb_fills (xs_world (snd demo_executed))))))
    \<le> rac_cash (rb_account (xs_world (snd demo_executed)))"
  using replay_cash_bounded [OF demo_executed_run _ _ _ demo_executed_prices]
  by (simp add: demo_execution_def demo_replay_config_def check_replay_config_def)





text \<open>C30. No operation of the acceptance tables, in any interleaving, changes what a run is
  bound to (broker, environment, plugin, SDK, symbol, cap, scenario, code) nor its account once
  bound, and none removes or rewrites a route claim or a piece of evidence.\<close>

theorem uat_binding_immutable:
  assumes "uat_run digest st st'"
  shows "map_of (us_claims st) \<subseteq>\<^sub>m map_of (us_claims st') \<and> map_of (us_evidences st) \<subseteq>\<^sub>m map_of (us_evidences st') \<and>
    (\<forall>k r. map_of (us_runs st) k = Some r \<longrightarrow> (\<exists>r'. map_of (us_runs st') k = Some r' \<and> same_binding r r'))"
  using uat_run_extends [OF assms] by (simp add: extends_uat_def)

theorem uat_binding_immutable_witness:
  "\<exists>r'. map_of (us_runs demo_uat_passed) ''u'' = Some r' \<and> ua_max_notional r' = 5000"
proof -
  obtain r where r: "map_of (us_runs demo_uat_first) ''u'' = Some r" "ua_max_notional r = 5000"
    using demo_uat_first_row by blast
  have "uat_run demo_digest demo_uat_first demo_uat_passed" unfolding demo_uat_passed_def by (rule uat_steps_run)
  from uat_binding_immutable [OF this] r(1) obtain r' where "map_of (us_runs demo_uat_passed) ''u'' = Some r'" "same_binding r r'"
    by blast
  with r(2) show ?thesis by (simp add: same_binding_def)
qed

text \<open>C31. mark_broker_uat_restart_required says it refuses a run that is not running, but
  it writes its step first, which sets any run running: called on an aborted or passed run it
  succeeds and leaves the run resumable.\<close>

theorem restart_checkpoint_reopens_runs:
  assumes "map_of (us_runs st) k = Some r" "str_strip marker \<noteq> []"
  shows "\<exists>v. fst (mark_uat_restart_required now k marker st) = Inr v \<and>
    map_option ua_status (map_of (us_runs (snd (mark_uat_restart_required now k marker st))) k) = Some ''restart_required'' \<and>
    (\<exists>v'. fst (resume_uat_run now k (snd (mark_uat_restart_required now k marker st))) = Inr v')"
  using mark_restart_reopens [OF assms] reopened_resumes by blast

theorem restart_checkpoint_reopens_runs_witness:
  "map_option ua_status (map_of (us_runs (snd (abort_uat_run ''t'' ''u'' ''stop'' demo_uat_bound))) ''u'') = Some ''aborted'' \<and>
   map_option ua_status (map_of (us_runs (snd (mark_uat_restart_required ''t'' ''u'' ''m'' (snd (abort_uat_run ''t'' ''u'' ''stop'' demo_uat_bound))))) ''u'')
     = Some ''restart_required''"
proof -
  obtain r where r: "map_of (us_runs (snd (abort_uat_run ''t'' ''u'' ''stop'' demo_uat_bound))) ''u'' = Some r" "ua_status r = ''aborted''"
    using demo_uat_aborted by blast
  have "str_strip ''m'' \<noteq> []" by (simp add: str_strip_def is_space_def)
  from restart_checkpoint_reopens_runs [OF r(1) this] r show ?thesis by auto
qed

text \<open>C32. While the global route block is active, no manual and no acceptance order reaches
  the engine, whatever its context: it is refused, the acceptance tables gain no claim, and the
  engine only its ledger line.\<close>

theorem global_block_stops_orders:
  assumes "map_of (st_blocks (lr_store rt)) (''global'', ''*'') = Some b" "bl_active b" "rc_origin c \<noteq> ORIGIN_AUTOMATED"
  shows "fst (submit_request gi auth sha cfg environ now c req rt) = Inr None \<and>
    only_logged rt (snd (submit_request gi auth sha cfg environ now c req rt))"
  using submit_blocked [OF assms] by simp

theorem global_block_stops_orders_witness:
  "fst (submit_request (paper_gateway demo_uuid (sim_decide {} 0)) (\<lambda>_. None) demo_sha demo_uat_config demo_uat_environ ''t'' demo_uat_context demo_uat_order
     (demo_uat_runtime\<lparr>lr_store := snd (set_route_block demo_sha ''t'' ''global'' ''*'' True ''stop'' empty_store)\<rparr>)) = Inr None"
proof -
  obtain b where "map_of (st_blocks (snd (set_route_block demo_sha ''t'' ''global'' ''*'' True ''stop'' empty_store))) (''global'', ''*'') = Some b"
      "bl_active b" using demo_global_block by blast
  then show ?thesis
    by (intro global_block_stops_orders [where b = b, THEN conjunct1]) (simp_all add: demo_uat_context_def)
qed



definition demo_portfolio_decision :: portfolio_decision where
  "demo_portfolio_decision = \<lparr>pd_decision_id = ''d'', pd_instance_id = ''i'', pd_config_hash = ''c'', pd_as_of = ''2024-01-02'',
     pd_effective_session = ''2024-01-03'', pd_valid_until = ''2024-01-03'',
     pd_signal = \<lparr>sg_kind = INSTRUMENT_TIMING, sg_source_instance_id = ''i'', sg_as_of = ''2024-01-02'',
       sg_payload = Timing [(''600000.SSE'', 1 / 2)] [(''600000.SSE'', ''long'')], sg_valid_until = Some ''2024-01-03'',
       sg_frequency = ''day'', sg_data_version = [], sg_model_version = ''m''\<rparr>,
     pd_target_weights = \<lparr>tw_as_of = ''2024-01-02'', tw_weights = [(''600000.SSE'', 1)], tw_scores = [],
       tw_policy_id = ''equal'', tw_policy_version = ''1''\<rparr>,
     pd_data_version = [], pd_model_version = ''m'', pd_strategy_code_hash = ''h'',
     pd_provenance = \<lparr>pv_history_hash = ''x'', pv_history_window = 20, pv_history_counts = [(''600000.SSE'', 20)],
       pv_state_before_hash = [], pv_state_after_hash = [], pv_signal_hash = [], pv_weights_hash = [], pv_policy_id = [],
       pv_policy_version = [], pv_data_version = [], pv_model_version = [], pv_strategy_code_hash = []\<rparr>\<rparr>"

text \<open>C34. A decision that its contracts accept, whose signal has a frequency and whose
  weights are dated, is the decision read back from its own JSON document.\<close>

theorem decision_reads_back:
  assumes "decision_ok d"
  shows "decision_of_json (decision_json d) = Inr d"
  using assms by (rule decision_round_trip)

theorem decision_reads_back_witness:
  "decision_of_json (decision_json demo_portfolio_decision) = Inr demo_portfolio_decision"
proof (rule decision_reads_back)
  show "decision_ok demo_portfolio_decision"
    unfolding decision_ok_def demo_portfolio_decision_def
    by (simp add: check_envelope_def signal_envelope.truncate_def str_strip_def is_space_def)
qed



text \<open>C36. When an observation of the same runtime mode and watermark, of this run or, if
  this run has none, of any other, was made on a different history, the evaluation raises a
  ValueError, leaves the provider and every table as they are, and no second decision is
  made.\<close>

theorem revised_history_refused:
  assumes "prepare env c bars = Inr pr" "decisions_ok (pl_store pl)" "(i, ob) \<in> set (dt_observations (pl_store pl))"
    "key_of ob = run_key c mode k (pr_as_of pr)" "ob_history_hash ob \<noteq> pr_history_hash pr"
    "k = run_id \<or> find_decision_observation (run_key c mode run_id (pr_as_of pr)) (pl_store pl) = None"
  shows "\<exists>msg. evaluate_instance env now c bars m True mode run_id pl = (Inl (ValueError msg), pl)"
  using assms by (rule revised_history)

theorem revised_history_refused_witness:
  "\<exists>msg. demo_evaluate ''r1'' 10 (demo_after ''r1'') = (Inl (ValueError msg), demo_after ''r1'')"
proof -
  obtain i ob where ob: "(i, ob) \<in> set (dt_observations (pl_store (demo_after ''r1'')))"
    "key_of ob = run_key demo_instance ''paper'' ''r1'' ''2024-01-02''" "ob_history_hash ob = ''h11''"
    using demo_observed by blast
  have hash: "pr_history_hash (demo_prepared 10) = ''h10''" by (simp add: demo_prepared_def)
  show ?thesis unfolding demo_evaluate_def
    by (rule revised_history_refused [OF demo_prepare(2) demo_tables_ok(2) ob(1), where k = "''r1''"]) (simp_all add: ob hash demo_ids)
qed

text \<open>C37. A decision that an evaluation newly inserts belongs to the evaluated instance and
  configuration, whose version, code and frequency its registered strategy matches; it rests on
  the same number of bars for every instrument of the universe, at least the required history,
  closed on a trading session; its signal has the declared kind, instance and watermark; its
  weights name only instruments of the universe, lie in [0, 1] and sum to at most one; and it is
  stored with its document, its observation and a checkpoint of its watermark.\<close>

theorem fresh_decision_sound:
  assumes "evaluate_instance env now c bars m True mode run_id pl = (Inr r, pl')" "rd_inserted r" "mode \<noteq> []"
  shows "\<exists>d definition p. d = rd_decision r \<and> pd_instance_id d = sc_instance_id c \<and> pd_config_hash d = sc_config_hash c \<and>
    get_strategy env (sc_strategy_id c) = Inr definition \<and> check_binding c definition = Inr () \<and>
    map fst (pv_history_counts (pd_provenance d)) = sort (remdups (map canonical_instrument (sc_universe c))) \<and>
    (\<forall>(i, n)\<in>set (pv_history_counts (pd_provenance d)). resolve_required_history definition (sc_params c) \<le> n \<and>
      n = pv_history_window (pd_provenance d)) \<and>
    ca_is_session (ev_calendar env) (take 10 (pd_as_of d)) \<and>
    pd_effective_session d = effective_of (ev_calendar env) (pd_as_of d) (sc_frequency c) \<and>
    sg_kind (pd_signal d) = sd_signal_kind definition \<and> sg_source_instance_id (pd_signal d) = sc_instance_id c \<and>
    sg_as_of (pd_signal d) = pd_as_of d \<and> get_policy env (binding_policy c) = Inr p \<and>
    sd_signal_kind definition \<in> set (py_supported_signal_kinds p) \<and>
    (\<forall>(k, v)\<in>set (canonical_weights (tw_weights (pd_target_weights d))).
      0 \<le> v \<and> v \<le> 1 \<and> k \<in> canonical_instrument ` set (sc_universe c)) \<and>
    sum_list (map snd (canonical_weights (tw_weights (pd_target_weights d)))) \<le> 1 + 1 / 10^9 \<and>
    map_of (dt_decisions (pl_store pl)) (pd_decision_id d) = None \<and>
    map_of (dt_decisions (pl_store pl')) (pd_decision_id d) = Some (decision_row_of now (decision_json d)) \<and>
    (\<exists>i ob. find_decision_observation (run_key c mode run_id (pd_as_of d)) (pl_store pl') = Some (i, ob) \<and>
      ob_decision_id ob = pd_decision_id d \<and> ob_history_hash ob = pv_history_hash (pd_provenance d)) \<and>
    (\<exists>ck. load_provider_checkpoint (sc_instance_id c) (sc_config_hash c) (pl_store pl') = Some ck \<and>
      ck_last_evaluated_as_of ck = pd_as_of d)"
proof -
  obtain pr s p w before after where e: "prepare env c bars = Inr pr" "recall c pr mode run_id (pl_store pl) = Inr None"
    "validate_signal s c (sd_signal_kind (pr_definition pr)) (pr_as_of pr) (pr_data_version pr) = Inr ()"
    "build_weights env c pr m s = Inr (p, w)" "rd_decision r = decision_of (ev_digests env) c pr before after s p w"
    "persist_decision (ev_digests env) now m mode run_id (sd_state_schema_version (pr_definition pr)) after
       (rd_decision r) (pl_store pl) = (Inr True, pl_store pl')"
    by (rule fresh_decisionE [OF assms(1,2)])
  let ?d = "rd_decision r"
  have key: "\<lparr>ob_instance_id = pd_instance_id ?d, ob_config_hash = pd_config_hash ?d, ob_mode = mode,
       ob_run_id = run_id, ob_as_of = pd_as_of ?d\<rparr> = run_key c mode run_id (pr_as_of pr)"
    by (simp add: e(5) run_key_def)
  note kept = persisted [OF e(6) assms(3), unfolded key, OF recall_none [OF e(2)]]
  note history = prepared_history [OF e(1)] and session = prepared_session [OF e(1)]
  have counts: "map fst (pv_history_counts (pd_provenance ?d)) = sort (remdups (map canonical_instrument (sc_universe c)))"
    "\<forall>(i, n)\<in>set (pv_history_counts (pd_provenance ?d)). resolve_required_history (pr_definition pr) (sc_params c) \<le> n \<and>
      n = pv_history_window (pd_provenance ?d)"
    using history(2,3,5) by (auto simp: e(5) case_prod_beta o_def)
  have obs: "\<exists>i ob. find_decision_observation (run_key c mode run_id (pd_as_of ?d)) (pl_store pl') = Some (i, ob) \<and>
      ob_decision_id ob = pd_decision_id ?d \<and> ob_history_hash ob = pv_history_hash (pd_provenance ?d)"
    using kept(3) by (force simp: observation_of_def Let_def e(5))
  have check: "\<exists>ck. load_provider_checkpoint (sc_instance_id c) (sc_config_hash c) (pl_store pl') = Some ck \<and>
      ck_last_evaluated_as_of ck = pd_as_of ?d"
    using kept(4) by (auto simp: e(5))
  have fields: "pd_instance_id ?d = sc_instance_id c" "pd_config_hash ?d = sc_config_hash c" "pd_as_of ?d = pr_as_of pr"
    "pd_effective_session ?d = pr_effective pr" "pd_signal ?d = s" "pd_target_weights ?d = w"
    by (simp_all add: e(5))
  show ?thesis
    by (rule exI [of _ ?d], rule exI [of _ "pr_definition pr"], rule exI [of _ p])
      (use fields history(4) session counts validated_signal [OF e(3)] built_weights [OF e(4)]
        checked_weights [OF built_weights(3) [OF e(4)]] kept(1,2) obs check in simp)
qed

theorem fresh_decision_sound_witness:
  "map_of (dt_decisions (pl_store (demo_after ''r1''))) (pd_decision_id demo_decision_of) =
     Some (decision_row_of ''t'' (decision_json demo_decision_of)) \<and> pd_instance_id demo_decision_of = ''i1''"
proof -
  have new: "rd_inserted \<lparr>rd_decision = demo_decision_of, rd_inserted = True\<rparr>" "''paper'' \<noteq> []" by simp_all
  from fresh_decision_sound [OF demo_decided [unfolded demo_evaluate_def] new]
  have "map_of (dt_decisions (pl_store (demo_after ''r1''))) (pd_decision_id demo_decision_of) =
     Some (decision_row_of ''t'' (decision_json demo_decision_of))"
    unfolding decision_result.select_convs by (elim exE conjE) (simp only:)
  then show ?thesis by (simp only: demo_decision_fields simp_thms)
qed

text \<open>C38. A comparison of two runs counts each session of either run exactly once as match,
  mismatch or not comparable, and completes without differences exactly when there is a session
  and in every session both runs hold one observation, with the same inputs and the same state,
  signal and weights.\<close>

theorem comparison_verdict:
  assumes "decisions_ok dt" "map_of (dt_comparisons dt) k = None"
    and "compare_runs now k current i requested dt = (Inr v, dt')"
  shows "\<exists>row runs l r sessions. current = Inr row \<and> runs = stripped_runs requested \<and>
    l = side_rows i (rs_left_mode runs) (rs_left_run_id runs) dt \<and> r = side_rows i (rs_right_mode runs) (rs_right_run_id runs) dt \<and>
    sessions = compared_sessions (ir_config_hash row) (is_daily row) l r \<and>
    cp_compared (cv_row v) = int (length sessions) \<and>
    cp_match (cv_row v) + cp_mismatch (cv_row v) + cp_not_comparable (cv_row v) = cp_compared (cv_row v) \<and>
    (cp_status (cv_row v) = ''completed'' \<longleftrightarrow> sessions \<noteq> [] \<and>
      (\<forall>s\<in>set sessions. \<exists>x a y b. session_rows (ir_config_hash row) (is_daily row) l s = [(x, a)] \<and>
        session_rows (ir_config_hash row) (is_daily row) r s = [(y, b)] \<and> agree a b))"
proof -
  obtain row rows where found: "current = Inr row" "rows = run_results row i (stripped_runs requested) dt"
    "cp_compared (cv_row v) = int (length rows)"
    "cp_match (cv_row v) = int (length (filter (\<lambda>(_, r). cr_status r = ''match'') rows))"
    "cp_mismatch (cv_row v) = int (length (filter (\<lambda>(_, r). cr_status r = ''mismatch'') rows))"
    "cp_not_comparable (cv_row v) = int (length (filter (\<lambda>(_, r). cr_status r = ''not_comparable'') rows))"
    "cp_status (cv_row v) = (if rows \<noteq> [] \<and> cp_mismatch (cv_row v) = 0 \<and> cp_not_comparable (cv_row v) = 0
      then ''completed'' else ''completed_with_differences'')"
    by (rule compare_runs_result [OF assms])
  let ?l = "side_rows i (rs_left_mode (stripped_runs requested)) (rs_left_run_id (stripped_runs requested)) dt"
  let ?r = "side_rows i (rs_right_mode (stripped_runs requested)) (rs_right_run_id (stripped_runs requested)) dt"
  let ?sessions = "compared_sessions (ir_config_hash row) (is_daily row) ?l ?r"
  have size: "length rows = length ?sessions" "rows = [] \<longleftrightarrow> ?sessions = []"
    unfolding found(2) by (simp_all add: run_results_def Let_def)
  have status: "\<forall>(s, res)\<in>set rows. cr_status res \<in> {''match'', ''mismatch'', ''not_comparable''}"
    unfolding found(2) by (rule run_results_status)
  have sum: "cp_match (cv_row v) + cp_mismatch (cv_row v) + cp_not_comparable (cv_row v) = cp_compared (cv_row v)"
    unfolding found(3-6) using count_partition [OF status] by linarith
  have "cp_status (cv_row v) = ''completed'' \<longleftrightarrow> rows \<noteq> [] \<and> (\<forall>(s, res)\<in>set rows. cr_status res = ''match'')"
    unfolding found(7) found(5,6) all_match [OF status, symmetric] by simp
  also have "\<dots> \<longleftrightarrow> ?sessions \<noteq> [] \<and> (\<forall>s\<in>set ?sessions. \<exists>x a y b. session_rows (ir_config_hash row) (is_daily row) ?l s = [(x, a)] \<and>
        session_rows (ir_config_hash row) (is_daily row) ?r s = [(y, b)] \<and> agree a b)"
    unfolding size(2) unfolding found(2) run_results_match [OF refl refl] ..
  finally have verdict: "cp_status (cv_row v) = ''completed'' \<longleftrightarrow> ?sessions \<noteq> [] \<and> (\<forall>s\<in>set ?sessions. \<exists>x a y b.
      session_rows (ir_config_hash row) (is_daily row) ?l s = [(x, a)] \<and>
      session_rows (ir_config_hash row) (is_daily row) ?r s = [(y, b)] \<and> agree a b)" .
  from found(3) size(1) have "cp_compared (cv_row v) = int (length ?sessions)" by simp
  with found(1) verdict sum show ?thesis by (intro exI conjI) (rule refl | assumption)+
qed

theorem comparison_verdict_witness:
  "\<exists>v dt'. compare_runs ''t'' ''k'' (Inr demo_instance_row) ''i1'' demo_runs demo_two_runs = (Inr v, dt') \<and> cp_status (cv_row v) = ''completed'' \<and>
     cp_match (cv_row v) + cp_mismatch (cv_row v) + cp_not_comparable (cv_row v) = cp_compared (cv_row v)"
proof -
  obtain res dt' where res: "compare_runs ''t'' ''k'' (Inr demo_instance_row) ''i1'' demo_runs demo_two_runs = (res, dt')"
    by (cases "compare_runs ''t'' ''k'' (Inr demo_instance_row) ''i1'' demo_runs demo_two_runs")
  from demo_compared res obtain v where v: "res = Inr v" "cp_status (cv_row v) = ''completed''"
    by (cases res) simp_all
  from comparison_verdict [OF demo_two_runs res [unfolded v(1)]] res v show ?thesis by blast
qed

text \<open>C39. Through any sequence of writes to the decision tables, in any order and with any
  arguments, what was written stays: manifests, signals and log entries exactly, a decision in all
  but its status, an observation in its run, its decision and every hash of what was decided; and
  no two observations ever share instance, configuration, mode, run and watermark.\<close>

theorem decision_tables_immutable:
  assumes "dt_run digest (empty_decisions instances) dt" "dt_run digest dt dt'"
  shows "distinct (map (key_of \<circ> snd) (dt_observations dt')) \<and>
    (\<forall>k m. map_of (dt_artifacts dt) k = Some m \<longrightarrow> map_of (dt_artifacts dt') k = Some m) \<and>
    (\<forall>k s. map_of (dt_signals dt) k = Some s \<longrightarrow> map_of (dt_signals dt') k = Some s) \<and>
    (\<forall>k l. map_of (dt_log dt) k = Some l \<longrightarrow> map_of (dt_log dt') k = Some l) \<and>
    (\<forall>k d. map_of (dt_decisions dt) k = Some d \<longrightarrow> (\<exists>status now.
      map_of (dt_decisions dt') k = Some (d\<lparr>de_status := status, de_updated_at := now\<rparr>))) \<and>
    (\<forall>k ob. map_of (dt_observations dt) k = Some ob \<longrightarrow> (\<exists>account quote instrument plan now.
      map_of (dt_observations dt') k = Some (ob\<lparr>ob_account_hash := account, ob_quote_hash := quote,
        ob_instrument_hash := instrument, ob_plan_hash := plan, ob_created_at := now\<rparr>)))"
proof -
  have ok: "decisions_ok dt" "decisions_ok dt'"
    using dt_run_ok [OF assms(1) decisions_ok_empty] dt_run_ok [OF assms(2)] by blast+
  note ext = dt_run_extends [OF assms(2) ok(1), unfolded extends_decisions_def]
  have exact: "kept_rows (=) tbl tbl' \<Longrightarrow> \<forall>k x. map_of tbl k = Some x \<longrightarrow> map_of tbl' k = Some x" for tbl tbl' :: "(string \<times> 'x) list"
    by (simp add: kept_rows_def)
  have decided: "\<exists>status now. map_of (dt_decisions dt') k = Some (d\<lparr>de_status := status, de_updated_at := now\<rparr>)"
    if row: "map_of (dt_decisions dt) k = Some d" for k d
    using kept_rowD [OF ext [THEN conjunct2, THEN conjunct2, THEN conjunct2, THEN conjunct1] row]
    unfolding same_decision_iff by (elim exE conjE) (rule exI, rule exI, simp only:)
  have observed: "\<exists>account quote instrument plan now. map_of (dt_observations dt') k = Some (ob\<lparr>ob_account_hash := account,
      ob_quote_hash := quote, ob_instrument_hash := instrument, ob_plan_hash := plan, ob_created_at := now\<rparr>)"
    if row: "map_of (dt_observations dt) k = Some ob" for k ob
    using kept_rowD [OF ext [THEN conjunct2, THEN conjunct2, THEN conjunct2, THEN conjunct2] row]
    unfolding same_observation_iff by (elim exE conjE) (rule exI, rule exI, rule exI, rule exI, rule exI, simp only:)
  have keys: "distinct (map (key_of \<circ> snd) (dt_observations dt'))" using ok(2) by (simp only: decisions_ok_def)
  show ?thesis
    by (intro conjI keys exact) (use ext decided observed in \<open>blast+\<close>)
qed

theorem decision_tables_immutable_witness:
  "\<exists>dt. dt_run (\<lambda>_. []) (empty_decisions [''i1'']) dt \<and> dt_observations dt \<noteq> [] \<and>
     distinct (map (key_of \<circ> snd) (dt_observations dt))"
proof -
  have run: "dt_run (\<lambda>_. []) (empty_decisions [''i1'']) (pl_store (demo_after ''r1''))"
    using evaluate_run [of "\<lambda>_. []" demo_pipeline demo_pipeline_env "''t''" demo_instance "[demo_bar 11]" demo_market True "''paper''" "''r1''"]
      demo_decided by (simp add: demo_evaluate_def demo_ids)
  have "dt_observations (pl_store (demo_after ''r1'')) \<noteq> []" using demo_observed by auto
  with run decision_tables_immutable [OF run rtranclp.rtrancl_refl, THEN conjunct1] show ?thesis by blast
qed



end
